(* ===== verification/Prelude.thy ===== *)
theory Prelude
  imports Complex_Main "HOL-Library.AList" "HOL-Library.List_Lexorder" "HOL-Library.Char_ord"
    "HOL-Library.Product_Lexorder" "HOL-Library.Sublist" "HOL-Library.Multiset"
begin

text \<open>
  Shared vocabulary of the development: JavaScript numbers and strings as the client uses them,
  the insertion-ordered \<open>Map\<close>, the stable \<open>Array.prototype.sort\<close>, \<open>findIndex\<close>, the
  "seen set" loop, and exceptions threaded through a state. The generic lemmas live here so
  that the component theories only state what is specific to them.

  Strings are HOL strings: lists of the code units 0 to 255. Every identifier, key, prefix and
  pattern of the client lies in that range, and on it \<open>length\<close>, \<open><\<close>, \<open>startsWith\<close>
  and \<open>includes\<close> agree with JavaScript's UTF-16 operations.
\<close>

named_theorems store_simps \<open>what a store operation leaves in each field\<close>
named_theorems inv_intros \<open>preservation of the component invariants\<close>

subsection \<open>Numbers\<close>

text \<open>A JavaScript number: a finite double (a rational) or one of the three special values.\<close>

datatype jsnumber = Fin rat | PosInf | NegInf | NaN

fun is_finite :: "jsnumber \<Rightarrow> bool" where
  "is_finite (Fin _) = True"
| "is_finite _ = False"

subsection \<open>Strings\<close>

definition js_space :: "char \<Rightarrow> bool" where
  "js_space c \<longleftrightarrow> (let n = (of_char c :: nat) in n = 32 \<or> (9 \<le> n \<and> n \<le> 13) \<or> n = 160)"

definition js_trim :: "string \<Rightarrow> string" where
  "js_trim s = rev (dropWhile js_space (rev (dropWhile js_space s)))"

definition startsWith :: "string \<Rightarrow> string \<Rightarrow> bool" where
  "startsWith s p \<longleftrightarrow> take (length p) s = p"

fun str_includes :: "string \<Rightarrow> string \<Rightarrow> bool" where
  "str_includes [] p = (p = [])"
| "str_includes (c # s) p = (startsWith (c # s) p \<or> str_includes s p)"

definition lower_char :: "char \<Rightarrow> char" where
  "lower_char c = (let n = (of_char c :: nat)
     in if (65 \<le> n \<and> n \<le> 90) \<or> (192 \<le> n \<and> n \<le> 222 \<and> n \<noteq> 215) then char_of (n + 32) else c)"

definition toLowerCase :: "string \<Rightarrow> string" where
  "toLowerCase s = map lower_char s"

text \<open>Bytes of the UTF-8 encoding (\<open>TextEncoder\<close>): one below 128, two up to 255.\<close>

definition utf8_size :: "string \<Rightarrow> nat" where
  "utf8_size s = sum_list (map (\<lambda>c. if (of_char c :: nat) < 128 then 1 else 2) s)"

lemma utf8_size_le: "utf8_size s \<le> 2 * length s"
  by (induction s) (auto simp: utf8_size_def)

lemma startsWith_append [simp]: "startsWith (p @ s) p"
  by (simp add: startsWith_def)

lemma startsWith_iff: "startsWith s p \<longleftrightarrow> (\<exists>t. s = p @ t)"
  by (metis append_eq_conv_conj startsWith_def)

lemma length_js_trim: "length (js_trim s) \<le> length s"
  by (metis js_trim_def le_trans length_dropWhile_le length_rev)

lemma dropWhile_stays: "xs = [] \<or> \<not> p (hd xs) \<Longrightarrow> dropWhile p xs = xs"
  by (cases xs) auto

lemma js_trim_idem [simp]: "js_trim (js_trim s) = js_trim s"
proof -
  let ?u = "dropWhile js_space s" and ?t = "js_trim s"
  have "prefix ?t ?u"
    by (metis js_trim_def suffix_dropWhile rev_rev_ident suffix_to_prefix)
  then have "?t = [] \<or> hd ?t = hd ?u" by (cases ?t) (auto simp: prefix_def)
  then have "?t = [] \<or> \<not> js_space (hd ?t)"
    by (metis hd_dropWhile js_trim_def dropWhile.simps(1) rev.simps(1))
  then have "dropWhile js_space ?t = ?t" by (rule dropWhile_stays)
  then show ?thesis
    unfolding js_trim_def [of "js_trim s"] by (simp add: js_trim_def)
qed

lemma js_trim_id: "\<forall>c \<in> set s. \<not> js_space c \<Longrightarrow> js_trim s = s"
proof -
  assume s: "\<forall>c \<in> set s. \<not> js_space c"
  have "dropWhile js_space xs = xs" if "\<forall>c \<in> set xs. \<not> js_space c" for xs
    using that by (cases xs) auto
  from this [of s] this [of "rev s"] s show ?thesis by (simp add: js_trim_def)
qed

text \<open>A value read from storage that is neither \<open>null\<close> nor empty.\<close>

definition present :: "string option \<Rightarrow> bool" where
  "present v \<longleftrightarrow> v \<noteq> None \<and> v \<noteq> Some []"

subsection \<open>The insertion-ordered Map\<close>

text \<open>
  \<open>Map.set\<close> keeps the position of a key that is present and appends a new one;
  \<open>Map.values\<close> follows insertion order. That is \<open>AList.update\<close> of the library.
\<close>

abbreviation map_set :: "'k \<Rightarrow> 'v \<Rightarrow> ('k \<times> 'v) list \<Rightarrow> ('k \<times> 'v) list" where
  "map_set \<equiv> AList.update"

abbreviation map_get :: "('k \<times> 'v) list \<Rightarrow> 'k \<Rightarrow> 'v option" where
  "map_get \<equiv> map_of"

definition map_remove :: "'k \<Rightarrow> ('k \<times> 'v) list \<Rightarrow> ('k \<times> 'v) list" where
  "map_remove k m = filter (\<lambda>(k', _). k' \<noteq> k) m"

lemma map_set_get [simp]: "map_get (map_set k v m) k' = (if k' = k then Some v else map_get m k')"
  by (simp add: update_conv')

lemma map_remove_get [simp]: "map_get (map_remove k m) k' = (if k' = k then None else map_get m k')"
  by (induction m) (auto simp: map_remove_def)

lemma distinct_map_set: "distinct (map fst m) \<Longrightarrow> distinct (map fst (map_set k v m))"
  by (rule distinct_update)

lemma distinct_map_remove: "distinct (map fst m) \<Longrightarrow> distinct (map fst (map_remove k m))"
  by (induction m) (auto simp: map_remove_def)

lemma map_set_fresh: "k \<notin> fst ` set m \<Longrightarrow> map_set k v m = m @ [(k, v)]"
  by (induction m) auto

lemma map_set_keys: "fst ` set (map_set k v m) = insert k (fst ` set m)"
  by (induction m) auto

subsection \<open>findIndex and updates at an index\<close>

fun find_index :: "('a \<Rightarrow> bool) \<Rightarrow> 'a list \<Rightarrow> nat option" where
  "find_index p [] = None"
| "find_index p (x # xs) = (if p x then Some 0 else map_option Suc (find_index p xs))"

lemma find_index_None: "find_index p xs = None \<longleftrightarrow> (\<forall>x \<in> set xs. \<not> p x)"
  by (induction xs) auto

lemma find_index_Some:
  "find_index p xs = Some i \<Longrightarrow> i < length xs \<and> p (xs ! i) \<and> (\<forall>j < i. \<not> p (xs ! j))"
  by (induction xs arbitrary: i) (auto split: if_splits simp: nth_Cons' less_Suc_eq_0_disj)

subsection \<open>Stable sorting by a comparator\<close>

text \<open>
  \<open>Array.prototype.sort(cmp)\<close> is stable (ES2019): an element is placed after the ones it
  compares equal to. Insertion sort by the comparator is its executable specification.
\<close>

fun sort_insert :: "('a \<Rightarrow> 'a \<Rightarrow> int) \<Rightarrow> 'a \<Rightarrow> 'a list \<Rightarrow> 'a list" where
  "sort_insert cmp x [] = [x]"
| "sort_insert cmp x (y # ys) = (if cmp x y \<le> 0 then x # y # ys else y # sort_insert cmp x ys)"

definition js_sort :: "('a \<Rightarrow> 'a \<Rightarrow> int) \<Rightarrow> 'a list \<Rightarrow> 'a list" where
  "js_sort cmp xs = foldr (sort_insert cmp) xs []"

lemma sort_insert_insort:
  assumes "\<And>a b. cmp a b \<le> 0 \<longleftrightarrow> f a \<le> f b"
  shows "sort_insert cmp x ys = insort_key f x ys"
  by (induction ys) (auto simp: assms)

lemma js_sort_sort_key:
  assumes "\<And>a b. cmp a b \<le> 0 \<longleftrightarrow> f a \<le> f b"
  shows "js_sort cmp xs = sort_key f xs"
  by (simp add: js_sort_def sort_key_def sort_insert_insort [OF assms] cong: foldr_cong)

lemma js_sort_mset [simp]: "mset (js_sort cmp xs) = mset xs"
proof -
  have "mset (sort_insert cmp x ys) = add_mset x (mset ys)" for x and ys :: "'a list"
    by (induction ys) auto
  then show ?thesis by (induction xs) (auto simp: js_sort_def)
qed

lemma js_sort_set [simp]: "set (js_sort cmp xs) = set xs"
  by (metis js_sort_mset set_mset_mset)

text \<open>
  What a comparator owes to \<open>sort\<close>: it is total and transitive. Then the result is in order, elements that
  compare equal keep their places, and a list in order is left alone.
\<close>

locale comparator =
  fixes cmp :: "'a \<Rightarrow> 'a \<Rightarrow> int"
  assumes total: "cmp a b \<le> 0 \<or> cmp b a \<le> 0"
    and trans: "cmp a b \<le> 0 \<Longrightarrow> cmp b c \<le> 0 \<Longrightarrow> cmp a c \<le> 0"
begin

abbreviation ordered :: "'a list \<Rightarrow> bool" where
  "ordered \<equiv> sorted_wrt (\<lambda>a b. cmp a b \<le> 0)"

lemma self: "cmp a a \<le> 0"
  using total by blast

lemma set_sort_insert: "set (sort_insert cmp x ys) = insert x (set ys)"
  by (induction ys) auto

lemma ordered_insert: "ordered ys \<Longrightarrow> ordered (sort_insert cmp x ys)"
proof (induction ys)
  case (Cons y ys)
  show ?case
  proof (cases "cmp x y \<le> 0")
    case True
    then show ?thesis using Cons.prems trans [OF True] by auto
  next
    case False
    then have "cmp y x \<le> 0" using total [of x y] by blast
    then show ?thesis using Cons False by (auto simp: set_sort_insert)
  qed
qed simp

lemma ordered_sort: "ordered (js_sort cmp xs)"
  by (induction xs) (simp_all add: js_sort_def ordered_insert)

lemma sort_idle: "ordered xs \<Longrightarrow> js_sort cmp xs = xs"
proof (induction xs)
  case (Cons x xs)
  then have "js_sort cmp xs = xs" by simp
  then show ?case using Cons.prems by (cases xs) (auto simp: js_sort_def)
qed (simp add: js_sort_def)

lemma sort_stable:
  assumes "\<And>a b. P a \<Longrightarrow> P b \<Longrightarrow> cmp a b \<le> 0"
  shows "filter P (js_sort cmp xs) = filter P xs"
proof -
  have "filter P (sort_insert cmp x ys) = (if P x then x # filter P ys else filter P ys)" for x ys
    using assms by (induction ys) auto
  then show ?thesis by (induction xs) (simp_all add: js_sort_def)
qed

lemma sort_last_greatest: "x \<in> set xs \<Longrightarrow> cmp x (last (js_sort cmp xs)) \<le> 0"
proof -
  assume x: "x \<in> set xs"
  have "cmp y (last ys) \<le> 0" if "ordered ys" "y \<in> set ys" for y ys
    using that by (induction ys) (auto simp: self)
  then show ?thesis using ordered_sort x js_sort_set by metis
qed

end

lemma distinct_map_sort_key: "distinct (map f (sort_key g xs)) \<longleftrightarrow> distinct (map f xs)"
  by (simp add: distinct_map inj_on_def)

subsection \<open>Lists keyed by an identity\<close>

text \<open>The abstract view of a list whose elements carry a key: a map from keys to elements.\<close>

definition keyed :: "('a \<Rightarrow> 'k) \<Rightarrow> 'a list \<Rightarrow> 'k \<rightharpoonup> 'a" where
  "keyed key xs = map_of (map (\<lambda>x. (key x, x)) xs)"

lemma keyed_Nil [simp]: "keyed key [] = Map.empty"
  by (simp add: keyed_def)

lemma keyed_Cons [simp]: "keyed key (x # xs) = (keyed key xs)(key x \<mapsto> x)"
  by (simp add: keyed_def)

lemma keyed_None: "keyed key xs k = None \<longleftrightarrow> k \<notin> key ` set xs"
  by (induction xs) auto

lemma keyed_dom: "dom (keyed key xs) = key ` set xs"
  by (rule set_eqI) (simp add: domIff keyed_None)

lemma keyed_SomeD: "keyed key xs k = Some x \<Longrightarrow> x \<in> set xs \<and> key x = k"
  by (induction xs) (auto split: if_splits)

lemma keyed_Some:
  "distinct (map key xs) \<Longrightarrow> keyed key xs k = Some x \<longleftrightarrow> x \<in> set xs \<and> key x = k"
  by (auto simp: keyed_def map_of_eq_Some_iff comp_def)

lemma keyed_append_fresh:
  "key x \<notin> key ` set xs \<Longrightarrow> keyed key (xs @ [x]) = (keyed key xs)(key x \<mapsto> x)"
  by (induction xs) (auto simp: fun_upd_twist)

lemma keyed_permute:
  assumes "distinct (map key xs)" "set ys = set xs" "distinct (map key ys)"
  shows "keyed key ys = keyed key xs"
proof
  fix k
  show "keyed key ys k = keyed key xs k"
  proof (cases "keyed key xs k")
    case None
    with assms(2) show ?thesis by (metis keyed_None)
  next
    case (Some x)
    then have "keyed key ys k = Some x" using assms by (simp add: keyed_Some)
    with Some show ?thesis by simp
  qed
qed

lemma keyed_sort_key: "distinct (map key xs) \<Longrightarrow> keyed key (sort_key f xs) = keyed key xs"
  by (rule keyed_permute) (simp_all add: distinct_map_sort_key del: map_map)

lemma map_key_list_update:
  "i < length xs \<Longrightarrow> key (xs ! i) = key x \<Longrightarrow> map key (xs[i := x]) = map key xs"
  by (metis list_update_id map_update)

lemma keyed_list_update:
  assumes "distinct (map key xs)" "i < length xs" "key (xs ! i) = key x"
  shows "keyed key (xs[i := x]) = (keyed key xs)(key x \<mapsto> x)"
  using assms
proof (induction xs arbitrary: i)
  case Nil
  then show ?case by simp
next
  case (Cons y ys)
  show ?case
  proof (cases i)
    case 0
    with Cons.prems show ?thesis by (auto simp: fun_eq_iff)
  next
    case (Suc j)
    with Cons.prems have "key y \<noteq> key x"
      by (metis distinct.simps(2) in_set_conv_nth length_map length_Cons list.simps(9) nth_Cons_Suc nth_map Suc_less_eq)
    moreover have "keyed key (ys[j := x]) = (keyed key ys)(key x \<mapsto> x)"
      using Cons Suc by (simp add: fun_upd_def)
    ultimately show ?thesis using Suc by (auto simp: fun_eq_iff)
  qed
qed

text \<open>
  The contract of every "save or replace" of the client: the view is updated at the key of the
  saved element and keys stay unique. The client lemmas say what a loop of saves leaves behind.
\<close>

locale keyed_table =
  fixes key :: "'a \<Rightarrow> 'k"
    and upsert :: "'a \<Rightarrow> 'a list \<Rightarrow> 'a list"
  assumes upsert_view: "distinct (map key xs) \<Longrightarrow> keyed key (upsert x xs) = (keyed key xs)(key x \<mapsto> x)"
    and upsert_distinct: "distinct (map key xs) \<Longrightarrow> distinct (map key (upsert x xs))"
begin

lemma save_all_distinct: "distinct (map key xs) \<Longrightarrow> distinct (map key (fold upsert ys xs))"
  by (induction ys arbitrary: xs) (auto intro: upsert_distinct)

lemma save_all_view:
  "distinct (map key xs) \<Longrightarrow>
   keyed key (fold upsert ys xs) = (\<lambda>k. case keyed key (rev ys) k of None \<Rightarrow> keyed key xs k | Some y \<Rightarrow> Some y)"
proof (induction ys arbitrary: xs)
  case Nil
  then show ?case by simp
next
  case (Cons y ys)
  have "keyed key (fold upsert (y # ys) xs) =
      (\<lambda>k. case keyed key (rev ys) k of None \<Rightarrow> keyed key (upsert y xs) k | Some z \<Rightarrow> Some z)"
    using Cons by (simp add: upsert_distinct)
  also have "\<dots> = (\<lambda>k. case keyed key (rev ys @ [y]) k of None \<Rightarrow> keyed key xs k | Some z \<Rightarrow> Some z)"
  proof
    fix k
    have "keyed key (rev ys @ [y]) k = (case keyed key (rev ys) k of None \<Rightarrow> (if k = key y then Some y else None) | Some z \<Rightarrow> Some z)"
      by (simp add: keyed_def map_add_def split: option.splits)
    then show "(case keyed key (rev ys) k of None \<Rightarrow> keyed key (upsert y xs) k | Some z \<Rightarrow> Some z) =
        (case keyed key (rev ys @ [y]) k of None \<Rightarrow> keyed key xs k | Some z \<Rightarrow> Some z)"
      using Cons.prems by (simp add: upsert_view split: option.splits)
  qed
  finally show ?case by simp
qed

lemma save_all_keys:
  assumes "distinct (map key xs)"
  shows "key ` set (fold upsert ys xs) = key ` set ys \<union> key ` set xs"
proof -
  have "dom (keyed key (fold upsert ys xs)) = dom (keyed key (rev ys)) \<union> dom (keyed key xs)"
    using assms by (auto simp: save_all_view dom_def split: option.splits)
  then show ?thesis by (simp add: keyed_dom)
qed

lemma save_all_last:
  assumes "distinct (map key xs)" "y \<in> set ys" "distinct (map key ys)"
  shows "keyed key (fold upsert ys xs) (key y) = Some y"
proof -
  have "keyed key (rev ys) (key y) = Some y"
    using assms by (simp add: keyed_Some rev_map [symmetric])
  with assms(1) show ?thesis by (simp add: save_all_view)
qed

end

text \<open>The two ways the client writes an upsert: replace in place, else append or prepend.\<close>

definition upsert_with :: "('a \<Rightarrow> 'k) \<Rightarrow> ('a list \<Rightarrow> 'a \<Rightarrow> 'a list) \<Rightarrow> 'a \<Rightarrow> 'a list \<Rightarrow> 'a list" where
  "upsert_with key add x xs =
     (case find_index (\<lambda>y. key y = key x) xs of None \<Rightarrow> add xs x | Some i \<Rightarrow> xs[i := x])"

lemma keyed_table_upsert:
  assumes "add = (\<lambda>xs x. x # xs) \<or> add = (\<lambda>xs x. xs @ [x])"
  shows "keyed_table key (upsert_with key add)"
proof
  fix xs :: "'a list" and x
  assume d: "distinct (map key xs)"
  show "keyed key (upsert_with key add x xs) = (keyed key xs)(key x \<mapsto> x)"
  proof (cases "find_index (\<lambda>y. key y = key x) xs")
    case None
    then have "key x \<notin> key ` set xs" by (auto simp: find_index_None)
    with None assms show ?thesis by (auto simp: upsert_with_def keyed_append_fresh)
  next
    case (Some i)
    with d show ?thesis by (auto simp: upsert_with_def keyed_list_update dest!: find_index_Some)
  qed
  show "distinct (map key (upsert_with key add x xs))"
  proof (cases "find_index (\<lambda>y. key y = key x) xs")
    case None
    then have "key x \<notin> key ` set xs" by (auto simp: find_index_None)
    with None assms d show ?thesis by (auto simp: upsert_with_def)
  next
    case (Some i)
    with d show ?thesis by (auto simp: upsert_with_def map_key_list_update dest!: find_index_Some)
  qed
qed

subsection \<open>The seen-set loop\<close>

text \<open>
  The loop \<open>for (x of xs) \{ k = key(x); if (seen.has(k)) continue; seen.add(k); out.push(x) \}\<close>,
  which the client writes for endpoints, legacy keys, recipients and plugin descriptors.
\<close>

fun seen_loop :: "('a \<Rightarrow> 'k) \<Rightarrow> 'k set \<Rightarrow> 'a list \<Rightarrow> 'a list" where
  "seen_loop key seen [] = []"
| "seen_loop key seen (x # xs) =
     (if key x \<in> seen then seen_loop key seen xs else x # seen_loop key (insert (key x) seen) xs)"

lemma seen_loop_keys:
  "key ` set (seen_loop key seen xs) = key ` set xs - seen"
  by (induction xs arbitrary: seen) auto

lemma seen_loop_mem: "x \<in> set (seen_loop key seen xs) \<Longrightarrow> x \<in> set xs"
  by (induction xs arbitrary: seen) (auto split: if_splits)

lemma seen_loop_subset: "set (seen_loop key seen xs) \<subseteq> set xs"
  by (blast dest: seen_loop_mem)

lemma seen_loop_distinct: "distinct (map key (seen_loop key seen xs))"
  by (induction xs arbitrary: seen) (auto simp: seen_loop_keys simp flip: image_set)

lemma seen_loop_id:
  "distinct (map key xs) \<Longrightarrow> key ` set xs \<inter> seen = {} \<Longrightarrow> seen_loop key seen xs = xs"
  by (induction xs arbitrary: seen) auto

subsection \<open>Exceptions over a state\<close>

text \<open>
  An \<open>async\<close> function that may throw is a function from the state to an error or a result,
  with the state it leaves behind in either case.
\<close>

type_synonym ('s, 'e, 'a) eff = "'s \<Rightarrow> ('e + 'a) \<times> 's"

definition ret :: "'a \<Rightarrow> ('s, 'e, 'a) eff" where
  "ret a s = (Inr a, s)"

definition throw :: "'e \<Rightarrow> ('s, 'e, 'a) eff" where
  "throw e s = (Inl e, s)"

definition bnd :: "('s, 'e, 'a) eff \<Rightarrow> ('a \<Rightarrow> ('s, 'e, 'b) eff) \<Rightarrow> ('s, 'e, 'b) eff" where
  "bnd m f s = (case m s of (Inl e, s') \<Rightarrow> (Inl e, s') | (Inr a, s') \<Rightarrow> f a s')"

definition sq :: "('s, 'e, 'a) eff \<Rightarrow> ('s, 'e, 'b) eff \<Rightarrow> ('s, 'e, 'b) eff" where
  "sq m n = bnd m (\<lambda>_. n)"

definition catch :: "('s, 'e, 'a) eff \<Rightarrow> ('e \<Rightarrow> ('s, 'e, 'a) eff) \<Rightarrow> ('s, 'e, 'a) eff" where
  "catch m h s = (case m s of (Inl e, s') \<Rightarrow> h e s' | (Inr a, s') \<Rightarrow> (Inr a, s'))"

definition finally_do :: "('s, 'e, 'a) eff \<Rightarrow> ('s \<Rightarrow> 's) \<Rightarrow> ('s, 'e, 'a) eff" where
  "finally_do m f s = (case m s of (r, s') \<Rightarrow> (r, f s'))"

definition upd :: "('s \<Rightarrow> 's) \<Rightarrow> ('s, 'e, unit) eff" where
  "upd f s = (Inr (), f s)"

definition rd :: "('s \<Rightarrow> 'a) \<Rightarrow> ('s, 'e, 'a) eff" where
  "rd f s = (Inr (f s), s)"

fun for_each :: "'a list \<Rightarrow> ('a \<Rightarrow> ('s, 'e, unit) eff) \<Rightarrow> ('s, 'e, unit) eff" where
  "for_each [] f = ret ()"
| "for_each (x # xs) f = sq (f x) (for_each xs f)"

lemmas eff_simps = ret_def throw_def bnd_def sq_def catch_def finally_do_def upd_def rd_def

lemma bnd_ret [simp]: "bnd (ret a) f = f a"
  by (simp add: eff_simps fun_eq_iff)

lemma bnd_throw [simp]: "bnd (throw e) f = throw e"
  by (simp add: eff_simps fun_eq_iff)

lemma for_each_append: "for_each (xs @ ys) f = sq (for_each xs f) (for_each ys f)"
  by (induction xs) (auto simp: eff_simps fun_eq_iff split: prod.splits sum.splits)

text \<open>A loop whose body cannot throw runs through and folds the state.\<close>

lemma for_each_total:
  assumes "\<And>x s. f x s = (Inr (), g x s)"
  shows "for_each xs f s = (Inr (), fold g xs s)"
  by (induction xs arbitrary: s) (auto simp: eff_simps assms)

text \<open>
  A predicate on the state that a computation keeps, whether it returns or throws; the rules
  follow the constructs, so that an invariant of a function is proved by \<open>intro keeps\<close>.
\<close>

named_theorems keeps \<open>what preserves a predicate on the state\<close>

definition keeps_pred :: "('s \<Rightarrow> bool) \<Rightarrow> ('s, 'e, 'a) eff \<Rightarrow> bool" where
  "keeps_pred I m \<longleftrightarrow> (\<forall>s. I s \<longrightarrow> I (snd (m s)))"

lemma keepsD: "keeps_pred I m \<Longrightarrow> I s \<Longrightarrow> I (snd (m s))"
  by (simp add: keeps_pred_def)

lemma keepsD': "keeps_pred I m \<Longrightarrow> m s = (r, s') \<Longrightarrow> I s \<Longrightarrow> I s'"
  using keepsD [of I m s] by simp

lemma keepsI: "(\<And>s. I s \<Longrightarrow> I (snd (m s))) \<Longrightarrow> keeps_pred I m"
  by (simp add: keeps_pred_def)

text \<open>What holds of the state whenever a computation returns, whatever it started from.\<close>

definition ends_pred :: "('s \<Rightarrow> bool) \<Rightarrow> ('s, 'e, 'a) eff \<Rightarrow> bool" where
  "ends_pred Q m \<longleftrightarrow> (\<forall>s a s'. m s = (Inr a, s') \<longrightarrow> Q s')"

lemma endsD: "ends_pred Q m \<Longrightarrow> m s = (Inr a, s') \<Longrightarrow> Q s'"
  by (simp add: ends_pred_def)

lemma ends_throw: "ends_pred Q (throw e)"
  by (simp add: ends_pred_def throw_def)

lemma ends_bnd: "(\<And>a. ends_pred Q (f a)) \<Longrightarrow> ends_pred Q (bnd m f)"
  by (auto simp: ends_pred_def bnd_def split: prod.splits sum.splits)

lemma ends_sq: "ends_pred Q n \<Longrightarrow> ends_pred Q (sq m n)"
  by (simp add: sq_def ends_bnd)

lemma ends_sq_keeps: "ends_pred Q m \<Longrightarrow> keeps_pred Q n \<Longrightarrow> ends_pred Q (sq m n)"
  by (auto simp: ends_pred_def sq_def bnd_def split: prod.splits sum.splits dest: keepsD')

lemma ends_catch: "ends_pred Q m \<Longrightarrow> (\<And>e. ends_pred Q (h e)) \<Longrightarrow> ends_pred Q (catch m h)"
  by (auto simp: ends_pred_def catch_def split: prod.splits sum.splits)

lemma keeps_bnd_result:
  assumes "keeps_pred I m" "\<And>a s s'. m s = (Inr a, s') \<Longrightarrow> keeps_pred I (f a)"
  shows "keeps_pred I (bnd m f)"
proof (rule keepsI)
  fix s assume s: "I s"
  obtain r s' where m: "m s = (r, s')" by (cases "m s")
  have "I s'" using keepsD' [OF assms(1) m s] .
  show "I (snd (bnd m f s))"
  proof (cases r)
    case (Inl e)
    then show ?thesis using m \<open>I s'\<close> by (simp add: bnd_def)
  next
    case (Inr a)
    then have "keeps_pred I (f a)" using m by (simp add: assms(2))
    then show ?thesis using m Inr \<open>I s'\<close> by (simp add: bnd_def keepsD)
  qed
qed

lemma keeps_bnd [keeps]: "keeps_pred I m \<Longrightarrow> (\<And>a. keeps_pred I (f a)) \<Longrightarrow> keeps_pred I (bnd m f)"
  by (rule keeps_bnd_result)

lemma keeps_sq [keeps]: "keeps_pred I m \<Longrightarrow> keeps_pred I n \<Longrightarrow> keeps_pred I (sq m n)"
  by (simp add: sq_def keeps_bnd)

lemma keeps_catch [keeps]:
  assumes "keeps_pred I m" "\<And>e. keeps_pred I (h e)"
  shows "keeps_pred I (catch m h)"
  using assms by (fastforce simp: keeps_pred_def catch_def split: prod.splits sum.splits)

lemma keeps_finally [keeps]: "keeps_pred I m \<Longrightarrow> (\<And>s. I s \<Longrightarrow> I (f s)) \<Longrightarrow> keeps_pred I (finally_do m f)"
  by (simp add: keeps_pred_def finally_do_def split_def)

lemma keeps_base [keeps]: "keeps_pred I (ret a)" "keeps_pred I (throw e)" "keeps_pred I (rd f)"
  by (simp_all add: keeps_pred_def eff_simps)

lemma keeps_upd [keeps]: "(\<And>s. I s \<Longrightarrow> I (f s)) \<Longrightarrow> keeps_pred I (upd f)"
  by (simp add: keeps_pred_def upd_def)

lemma keeps_if [keeps]: "(b \<Longrightarrow> keeps_pred I m) \<Longrightarrow> (\<not> b \<Longrightarrow> keeps_pred I n) \<Longrightarrow> keeps_pred I (if b then m else n)"
  by simp

lemma keeps_state_if [keeps]:
  "keeps_pred I m \<Longrightarrow> keeps_pred I n \<Longrightarrow> keeps_pred I (\<lambda>s. if b s then m s else n s)"
  by (simp add: keeps_pred_def)

lemma keeps_option [keeps]:
  "keeps_pred I m \<Longrightarrow> (\<And>x. v = Some x \<Longrightarrow> keeps_pred I (f x)) \<Longrightarrow> keeps_pred I (case v of None \<Rightarrow> m | Some x \<Rightarrow> f x)"
  by (cases v) auto

lemma keeps_for_each [keeps]: "(\<And>x. x \<in> set xs \<Longrightarrow> keeps_pred I (f x)) \<Longrightarrow> keeps_pred I (for_each xs f)"
  by (induction xs) (auto intro!: keeps)

end
