(* ===== verification/Protocol.thy ===== *)
theory Protocol
  imports Json
begin

text \<open>
  The data transfer objects of \<open>packages/protocol\<close> and \<open>packages/shared-types\<close>: one
  record per interface, one datatype per string union, with the field names of the source under
  a short prefix per interface. Branded identifiers and ISO timestamps are strings; \<open>T | null\<close>
  is an option. Plugin capabilities and hooks stay strings: the client receives them from
  untrusted manifests and compares them with its own lists.
\<close>

datatype device_status = DevPending | DevTrusted | DevRevoked | DevBlocked
datatype verification_state = VerUnverified | VerVerified | VerChanged | VerRevoked
datatype approval_status = AprPending | AprApproved | AprRejected | AprExpired
datatype session_status = SesActive | SesRevoked | SesExpired
datatype trust_state = TrTrusted | TrWarning | TrRevoked | TrUnknown
datatype delivery_state = DPending | DQueued | DSent | DDelivered | DFailed | DExpired
datatype conversation_type = CDirect | CGroup
datatype conversation_role = ROwner | RAdmin | RMember
datatype receipt_type = RcDelivered | RcRead
datatype attachment_kind = AkImage | AkFile
datatype transport_mode = TmWebsocket | TmLongPoll

subsection \<open>Identity, devices and sessions\<close>

record fingerprint_info =
  fp_algorithm :: string
  fp_value :: string
  fp_safetyNumber :: string

record account_identity_dto =
  ai_accountId :: string
  ai_publicIdentityMaterial :: string
  ai_fingerprint :: fingerprint_info
  ai_verificationState :: verification_state
  ai_trustState :: trust_state
  ai_createdAt :: string
  ai_updatedAt :: string

record key_info =
  ki_version :: int
  ki_rotatedAt :: "string option"
  ki_rotationDueAt :: "string option"
  ki_rotationRecommended :: bool

record device_dto =
  dev_id :: string
  dev_accountId :: string
  dev_name :: string
  dev_platform :: string
  dev_publicDeviceMaterial :: string
  dev_fingerprint :: fingerprint_info
  dev_status :: device_status
  dev_verificationState :: verification_state
  dev_keyInfo :: key_info
  dev_createdAt :: string
  dev_lastSeenAt :: "string option"
  dev_revokedAt :: "string option"

record session_dto =
  ses_id :: string
  ses_accountId :: string
  ses_deviceId :: string
  ses_status :: session_status
  ses_accessTokenExpiresAt :: string
  ses_refreshTokenExpiresAt :: string
  ses_createdAt :: string
  ses_lastSeenAt :: "string option"
  ses_trustWarnings :: "string list option"

record tokens_dto =
  tok_accessToken :: string
  tok_refreshToken :: string
  tok_expiresInSeconds :: int

subsection \<open>Conversations and messages\<close>

record disappearing_policy_dto =
  dp_defaultTtlSeconds :: int
  dp_allowPerMessageOverride :: bool

record conversation_member_dto =
  mem_accountId :: string
  mem_role :: conversation_role
  mem_joinedAt :: string
  mem_isActive :: bool
  mem_trustedDevices :: "device_dto list"

record conversation_dto =
  cv_id :: string
  cv_type :: conversation_type
  cv_title :: "string option"
  cv_createdByAccountId :: string
  cv_createdAt :: string
  cv_updatedAt :: string
  cv_disappearingPolicy :: disappearing_policy_dto
  cv_members :: "conversation_member_dto list"
  cv_lastServerSequence :: int

record encrypted_recipient_key_dto =
  rk_recipientDeviceId :: string
  rk_wrappedKey :: string
  rk_keyAlgorithm :: string

record attachment_encryption =
  enc_algorithm :: string
  enc_nonce :: string

record attachment_meta_dto =
  att_id :: string
  att_kind :: attachment_kind
  att_fileName :: string
  att_mimeType :: string
  att_sizeBytes :: int
  att_checksumSha256 :: string
  att_encryption :: attachment_encryption
  att_createdAt :: string

record encrypted_message_envelope_dto =
  env_id :: string
  env_conversationId :: string
  env_senderAccountId :: string
  env_senderDeviceId :: string
  env_clientMessageId :: string
  env_algorithm :: string
  env_cryptoVersion :: int
  env_nonce :: string
  env_ciphertext :: string
  env_recipients :: "encrypted_recipient_key_dto list"
  env_attachments :: "attachment_meta_dto list"
  env_replyToMessageId :: "string option"
  env_ttlSeconds :: "int option"
  env_createdAt :: string
  env_expiresAt :: "string option"
  env_serverSequence :: int

record message_receipt_dto =
  rc_id :: string
  rc_messageId :: string
  rc_deviceId :: string
  rc_receiptType :: receipt_type
  rc_createdAt :: string

record message_dto =
  msg_envelope :: encrypted_message_envelope_dto
  msg_deliveryState :: delivery_state
  msg_deliveredAt :: "string option"
  msg_failedReason :: "string option"
  msg_receipts :: "message_receipt_dto list"

record send_message_request =
  sm_clientMessageId :: string
  sm_algorithm :: string
  sm_cryptoVersion :: int
  sm_nonce :: string
  sm_ciphertext :: string
  sm_recipients :: "encrypted_recipient_key_dto list"
  sm_attachmentIds :: "string list"
  sm_replyToMessageId :: "string option"
  sm_ttlSeconds :: "jsnumber option"

subsection \<open>Synchronisation and transport\<close>

datatype sync_event_dto = SyncMessage message_dto | SyncReceipt message_receipt_dto

record sync_batch_dto =
  sb_cursorId :: string
  sb_fromCursor :: int
  sb_toCursor :: int
  sb_events :: "sync_event_dto list"
  sb_hasMore :: bool

record transport_endpoint_dto =
  te_id :: string
  te_url :: string
  te_mode :: transport_mode
  te_priority :: int
  te_enabled :: bool

record transport_profile_dto =
  tp_name :: string
  tp_reconnectBackoffMinMs :: int
  tp_reconnectBackoffMaxMs :: int
  tp_longPollTimeoutSeconds :: int
  tp_longPollEnabled :: bool

record transport_endpoints_response =
  tr_profile :: transport_profile_dto
  tr_endpoints :: "transport_endpoint_dto list"

subsection \<open>Plugins\<close>

datatype plugin_status = PsDiscovered | PsInstalled | PsEnabled | PsDisabled | PsFailed
datatype plugin_source = SrcBundled | SrcLocal

record plugin_manifest =
  pm_apiVersion :: string
  pm_id :: string
  pm_name :: string
  pm_version :: string
  pm_entrypoint :: string
  pm_requestedPermissions :: "string list"
  pm_declaredHooks :: "string list"
  pm_panels :: "(string \<times> string) list"

record plugin_command_dto =
  pc_pluginId :: string
  pc_id :: string
  pc_title :: string

record plugin_panel_dto =
  pp_pluginId :: string
  pp_id :: string
  pp_title :: string
  pp_content :: string

text \<open>A registry entry holds the normalised manifest, or the raw value of one that did not validate.\<close>

datatype registry_manifest = ManifestOk plugin_manifest | ManifestRaw json

record plugin_registry_item =
  pr_manifest :: registry_manifest
  pr_status :: plugin_status
  pr_source :: plugin_source
  pr_sourceRef :: string
  pr_grantedPermissions :: "string list"
  pr_lastError :: "json option"
  pr_discoveredAt :: string
  pr_updatedAt :: string
  pr_commands :: "plugin_command_dto list"
  pr_panels :: "plugin_panel_dto list"

datatype bridge_error_code = BePermissionDenied | BeBridgeViolation | BeStorageUnavailable

datatype plugin_bridge_response =
    BridgeOk (br_pluginId: string) (br_requestId: "json option") (br_result: json)
  | BridgeError (br_pluginId: string) (br_requestId: "json option") (br_code: bridge_error_code) (br_message: string)

end
