(* ===== verification/Messaging_Store.thy ===== *)
theory Messaging_Store
  imports Protocol
begin

text \<open>
  \<open>state/messagingStore.ts\<close>: the Zustand store of conversations, messages, read positions,
  outbox and transport state. One definition per action of the store; \<open>now\<close> is the value of
  \<open>new Date().toISOString()\<close> during the action. The optional fields of \<open>LocalMessage\<close> are
  options, \<open>None\<close> when the property is absent or \<open>undefined\<close>. The plaintext stays a JSON value: the
  client casts what a peer encrypted without checking its shape.
\<close>

subsection \<open>State\<close>

datatype transport_mode_state = MWebsocket | MLongPoll | MNone
datatype transport_status_state = StConnecting | StConnected | StDegraded | StOffline
datatype lifecycle_state =
  LDraft | LEncrypting | LQueued | LSending | LSent | LDelivered | LFailed | LExpired

record attachment_secret =
  as_attachmentId :: string
  as_fileName :: string
  as_mimeType :: string
  as_sizeBytes :: int
  as_symmetricKey :: string
  as_nonce :: string
  as_checksumSha256 :: string
  as_algorithm :: string

record local_message = message_dto +
  lm_plaintext :: "json option"
  lm_decryptError :: "string option"
  lm_expired :: "bool option"
  lm_lifecycle :: "lifecycle_state option"
  lm_retryableFailure :: "bool option"
  lm_failureCode :: "string option"
  lm_lastUpdatedAt :: "string option"

record outbox_item =
  ob_clientMessageId :: string
  ob_conversationId :: string
  ob_payload :: send_message_request
  ob_createdAt :: string
  ob_retryCount :: int

record transport_state =
  ts_mode :: transport_mode_state
  ts_status :: transport_status_state
  ts_endpoint :: "string option"
  ts_lastError :: json
  ts_lastCursor :: int
  ts_updatedAt :: "string option"

record messaging_store =
  st_initialized :: bool
  st_loading :: bool
  st_conversations :: "conversation_dto list"
  st_messagesByConversation :: "string \<rightharpoonup> local_message list"
  st_activeConversationId :: "string option"
  st_readPositions :: "string \<rightharpoonup> int"
  st_outbox :: "outbox_item list"
  st_transport :: transport_state

definition initial_transport :: transport_state where
  "initial_transport = \<lparr>ts_mode = MNone, ts_status = StOffline, ts_endpoint = None,
     ts_lastError = JNull, ts_lastCursor = 0, ts_updatedAt = None\<rparr>"

definition initial_store :: messaging_store where
  "initial_store = \<lparr>st_initialized = False, st_loading = False, st_conversations = [],
     st_messagesByConversation = Map.empty, st_activeConversationId = None,
     st_readPositions = Map.empty, st_outbox = [], st_transport = initial_transport\<rparr>"

subsection \<open>Helpers on messages\<close>

definition lifecycleFromDeliveryState :: "local_message \<Rightarrow> lifecycle_state" where
  "lifecycleFromDeliveryState item =
     (if lm_expired item = Some True then LExpired
      else case msg_deliveryState item of
        DQueued \<Rightarrow> LQueued | DSent \<Rightarrow> LSent | DDelivered \<Rightarrow> LDelivered
      | DFailed \<Rightarrow> LFailed | DExpired \<Rightarrow> LExpired | DPending \<Rightarrow> LSending)"

text \<open>\<open>a ?? b\<close>\<close>

fun coalesce :: "'a option \<Rightarrow> 'a option \<Rightarrow> 'a option" where
  "coalesce (Some a) b = Some a"
| "coalesce None b = b"

definition ensureMessageDefaults :: "string \<Rightarrow> local_message \<Rightarrow> local_message" where
  "ensureMessageDefaults now item = item\<lparr>
     lm_lifecycle := coalesce (lm_lifecycle item) (Some (lifecycleFromDeliveryState item)),
     lm_lastUpdatedAt := coalesce (lm_lastUpdatedAt item) (Some now)\<rparr>"

definition getMessageIdentityKey :: "local_message \<Rightarrow> string" where
  "getMessageIdentityKey item =
     (let senderDeviceID = env_senderDeviceId (msg_envelope item);
          clientMessageID = env_clientMessageId (msg_envelope item)
      in if senderDeviceID \<noteq> [] \<and> clientMessageID \<noteq> []
         then ''client:'' @ senderDeviceID @ '':'' @ clientMessageID
         else ''id:'' @ env_id (msg_envelope item))"

definition findMessageIndex :: "local_message list \<Rightarrow> local_message \<Rightarrow> nat option" where
  "findMessageIndex items target =
     find_index (\<lambda>item. getMessageIdentityKey item = getMessageIdentityKey target
                      \<or> env_id (msg_envelope item) = env_id (msg_envelope target)) items"

definition isSameClientReference :: "local_message \<Rightarrow> string \<Rightarrow> string \<Rightarrow> bool" where
  "isSameClientReference item senderDeviceId clientMessageId \<longleftrightarrow>
     env_senderDeviceId (msg_envelope item) = senderDeviceId
   \<and> env_clientMessageId (msg_envelope item) = clientMessageId"

text \<open>
  \<open>{...existing, ...incoming, ...}\<close>: the required fields are the incoming ones, an absent
  \<open>expired\<close> keeps the existing one, and the listed fields fall back to the existing values.
\<close>

definition mergeMessage :: "string \<Rightarrow> local_message \<Rightarrow> local_message \<Rightarrow> local_message" where
  "mergeMessage now existing incoming = incoming\<lparr>
     lm_expired := coalesce (lm_expired incoming) (lm_expired existing),
     lm_plaintext := (if nullish (lm_plaintext incoming) then lm_plaintext existing else lm_plaintext incoming),
     lm_decryptError := coalesce (lm_decryptError incoming) (lm_decryptError existing),
     lm_retryableFailure := coalesce (lm_retryableFailure incoming) (lm_retryableFailure existing),
     lm_failureCode := coalesce (lm_failureCode incoming) (lm_failureCode existing),
     lm_lifecycle := coalesce (lm_lifecycle incoming) (lm_lifecycle existing),
     lm_lastUpdatedAt := coalesce (lm_lastUpdatedAt incoming) (Some now)\<rparr>"

definition compareMessages :: "local_message \<Rightarrow> local_message \<Rightarrow> int" where
  "compareMessages left right =
     (let l = msg_envelope left; r = msg_envelope right;
          sequenceDiff = env_serverSequence l - env_serverSequence r
      in if sequenceDiff \<noteq> 0 then sequenceDiff
         else if env_createdAt l < env_createdAt r then -1
         else if env_createdAt l > env_createdAt r then 1
         else if env_id l < env_id r then -1
         else if env_id l > env_id r then 1
         else 0)"

fun dedupe_loop :: "string \<Rightarrow> (string \<times> local_message) list \<Rightarrow> local_message list
    \<Rightarrow> (string \<times> local_message) list" where
  "dedupe_loop now indexed [] = indexed"
| "dedupe_loop now indexed (item # items) =
     (let normalized = ensureMessageDefaults now item;
          key = getMessageIdentityKey normalized
      in case map_get indexed key of
           None \<Rightarrow> dedupe_loop now (map_set key normalized indexed) items
         | Some existing \<Rightarrow>
             dedupe_loop now (map_set key (mergeMessage now existing normalized) indexed) items)"

definition dedupeAndSortMessages :: "string \<Rightarrow> local_message list \<Rightarrow> local_message list" where
  "dedupeAndSortMessages now items = js_sort compareMessages (map snd (dedupe_loop now [] items))"

subsection \<open>Actions\<close>

definition setInitialized :: "bool \<Rightarrow> messaging_store \<Rightarrow> messaging_store" where
  "setInitialized v s = s\<lparr>st_initialized := v\<rparr>"

definition setLoading :: "bool \<Rightarrow> messaging_store \<Rightarrow> messaging_store" where
  "setLoading v s = s\<lparr>st_loading := v\<rparr>"

definition setConversations :: "conversation_dto list \<Rightarrow> messaging_store \<Rightarrow> messaging_store" where
  "setConversations items s = s\<lparr>st_conversations := items\<rparr>"

definition upsert_conversation_list :: "conversation_dto \<Rightarrow> conversation_dto list \<Rightarrow> conversation_dto list" where
  "upsert_conversation_list item cs =
     (case find_index (\<lambda>c. cv_id c = cv_id item) cs of
        None \<Rightarrow> item # cs
      | Some existing \<Rightarrow> cs[existing := item])"

definition upsertConversation :: "conversation_dto \<Rightarrow> messaging_store \<Rightarrow> messaging_store" where
  "upsertConversation item s = s\<lparr>st_conversations := upsert_conversation_list item (st_conversations s)\<rparr>"

definition current_messages :: "messaging_store \<Rightarrow> string \<Rightarrow> local_message list" where
  "current_messages s conversationId =
     (case st_messagesByConversation s conversationId of None \<Rightarrow> [] | Some xs \<Rightarrow> xs)"

definition put_messages :: "string \<Rightarrow> local_message list \<Rightarrow> messaging_store \<Rightarrow> messaging_store" where
  "put_messages conversationId xs s =
     s\<lparr>st_messagesByConversation := (st_messagesByConversation s)(conversationId \<mapsto> xs)\<rparr>"

definition setMessages :: "string \<Rightarrow> string \<Rightarrow> local_message list \<Rightarrow> messaging_store \<Rightarrow> messaging_store" where
  "setMessages now conversationId items s =
     put_messages conversationId (dedupeAndSortMessages now items) s"

definition upsert_message_list :: "string \<Rightarrow> local_message \<Rightarrow> local_message list \<Rightarrow> local_message list" where
  "upsert_message_list now message current =
     (let normalizedMessage = ensureMessageDefaults now message
      in case findMessageIndex current normalizedMessage of
           None \<Rightarrow> dedupeAndSortMessages now (current @ [normalizedMessage])
         | Some existing \<Rightarrow>
             dedupeAndSortMessages now
               (current[existing := mergeMessage now (current ! existing) normalizedMessage]))"

definition upsertMessage :: "string \<Rightarrow> string \<Rightarrow> local_message \<Rightarrow> messaging_store \<Rightarrow> messaging_store" where
  "upsertMessage now conversationId message s =
     put_messages conversationId (upsert_message_list now message (current_messages s conversationId)) s"

record lifecycle_patch =
  lp_lifecycle :: lifecycle_state
  lp_retryableFailure :: "bool option"
  lp_failureCode :: "string option"

definition patch_message :: "string \<Rightarrow> lifecycle_patch \<Rightarrow> local_message \<Rightarrow> local_message" where
  "patch_message now patch m = m\<lparr>
     lm_lifecycle := Some (lp_lifecycle patch),
     lm_retryableFailure := lp_retryableFailure patch,
     lm_failureCode := lp_failureCode patch,
     lm_lastUpdatedAt := Some now\<rparr>"

definition updateMessageLifecycle ::
    "string \<Rightarrow> string \<Rightarrow> string \<Rightarrow> string \<Rightarrow> lifecycle_patch \<Rightarrow> messaging_store \<Rightarrow> messaging_store" where
  "updateMessageLifecycle now conversationId senderDeviceId clientMessageId patch s =
     (let current = current_messages s conversationId
      in case find_index (\<lambda>item. isSameClientReference item senderDeviceId clientMessageId) current of
           None \<Rightarrow> s
         | Some index \<Rightarrow> put_messages conversationId (current[index := patch_message now patch (current ! index)]) s)"

definition removeMessageByClientReference ::
    "string \<Rightarrow> string \<Rightarrow> string \<Rightarrow> messaging_store \<Rightarrow> messaging_store" where
  "removeMessageByClientReference conversationId senderDeviceId clientMessageId s =
     put_messages conversationId
       (filter (\<lambda>item. \<not> isSameClientReference item senderDeviceId clientMessageId)
         (current_messages s conversationId)) s"

definition setActiveConversation :: "string option \<Rightarrow> messaging_store \<Rightarrow> messaging_store" where
  "setActiveConversation conversationId s = s\<lparr>st_activeConversationId := conversationId\<rparr>"

definition markConversationRead :: "string \<Rightarrow> jsnumber option \<Rightarrow> messaging_store \<Rightarrow> messaging_store" where
  "markConversationRead conversationId serverSequence s =
     (let existing = (case st_readPositions s conversationId of None \<Rightarrow> 0 | Some p \<Rightarrow> p);
          next = (case serverSequence of
                    Some (Fin q) \<Rightarrow> max existing (max 0 \<lfloor>q\<rfloor>)
                  | _ \<Rightarrow> existing)
      in s\<lparr>st_readPositions := (st_readPositions s)(conversationId \<mapsto> next)\<rparr>)"

definition setOutbox :: "outbox_item list \<Rightarrow> messaging_store \<Rightarrow> messaging_store" where
  "setOutbox items s = s\<lparr>st_outbox := items\<rparr>"

text \<open>\<open>Partial<transport>\<close>: an absent field is \<open>None\<close>.\<close>

record transport_patch =
  pt_mode :: "transport_mode_state option"
  pt_status :: "transport_status_state option"
  pt_endpoint :: "string option option"
  pt_lastError :: "json option"
  pt_lastCursor :: "int option"

definition no_patch :: transport_patch where
  "no_patch = \<lparr>pt_mode = None, pt_status = None, pt_endpoint = None, pt_lastError = None, pt_lastCursor = None\<rparr>"

fun over :: "'a option \<Rightarrow> 'a \<Rightarrow> 'a" where
  "over None a = a"
| "over (Some b) a = b"

definition setTransportState :: "string \<Rightarrow> transport_patch \<Rightarrow> messaging_store \<Rightarrow> messaging_store" where
  "setTransportState now payload s = (let t = st_transport s in s\<lparr>st_transport := \<lparr>
     ts_mode = over (pt_mode payload) (ts_mode t),
     ts_status = over (pt_status payload) (ts_status t),
     ts_endpoint = over (pt_endpoint payload) (ts_endpoint t),
     ts_lastError = over (pt_lastError payload) (ts_lastError t),
     ts_lastCursor = over (pt_lastCursor payload) (ts_lastCursor t),
     ts_updatedAt = Some now\<rparr>\<rparr>)"

definition reset :: "messaging_store \<Rightarrow> messaging_store" where
  "reset s = initial_store"

definition getSafeCursor :: "jsnumber \<Rightarrow> int" where
  "getSafeCursor value = (case value of Fin q \<Rightarrow> (if q < 0 then 0 else \<lfloor>q\<rfloor>) | _ \<Rightarrow> 0)"

definition getCurrentCursor :: "messaging_store \<Rightarrow> int" where
  "getCurrentCursor s = getSafeCursor (Fin (of_int (ts_lastCursor (st_transport s))))"

subsection \<open>Persistence\<close>

record persisted_messaging =
  ps_activeConversationId :: "string option"
  ps_readPositions :: "string \<rightharpoonup> int"

definition partialize :: "messaging_store \<Rightarrow> persisted_messaging" where
  "partialize s = \<lparr>ps_activeConversationId = st_activeConversationId s, ps_readPositions = st_readPositions s\<rparr>"

definition merge_persisted :: "persisted_messaging option \<Rightarrow> messaging_store \<Rightarrow> messaging_store" where
  "merge_persisted persisted current =
     (case persisted of
        None \<Rightarrow> current
      | Some p \<Rightarrow> current\<lparr>st_activeConversationId := ps_activeConversationId p,
                          st_readPositions := ps_readPositions p\<rparr>)"

subsection \<open>The comparator is a total order on (sequence, creation time, id)\<close>

definition sort_position :: "local_message \<Rightarrow> int \<times> string \<times> string" where
  "sort_position m = (let e = msg_envelope m in (env_serverSequence e, env_createdAt e, env_id e))"

lemma compareMessages_le: "compareMessages a b \<le> 0 \<longleftrightarrow> sort_position a \<le> sort_position b"
  by (auto simp: compareMessages_def sort_position_def Let_def less_eq_prod_def)

lemma js_sort_messages: "js_sort compareMessages xs = sort_key sort_position xs"
  by (rule js_sort_sort_key) (rule compareMessages_le)

subsection \<open>The deduplicating loop\<close>

definition message_normal :: "local_message \<Rightarrow> bool" where
  "message_normal m \<longleftrightarrow> lm_lifecycle m \<noteq> None \<and> lm_lastUpdatedAt m \<noteq> None"

lemma coalesce_Some [simp]: "coalesce a (Some b) \<noteq> None"
  by (cases a) auto

lemma coalesce_None [simp]: "coalesce a None = a"
  by (cases a) auto

lemma ensureMessageDefaults_normal [simp]: "message_normal (ensureMessageDefaults now m)"
  by (simp add: message_normal_def ensureMessageDefaults_def)

lemma ensureMessageDefaults_id [simp]: "message_normal m \<Longrightarrow> ensureMessageDefaults now m = m"
  by (cases m) (auto simp: message_normal_def ensureMessageDefaults_def)

lemma ensureMessageDefaults_envelope [simp]:
  "msg_envelope (ensureMessageDefaults now m) = msg_envelope m"
  by (simp add: ensureMessageDefaults_def)

lemma mergeMessage_envelope [simp]: "msg_envelope (mergeMessage now e i) = msg_envelope i"
  by (simp add: mergeMessage_def)

lemma mergeMessage_normal: "message_normal i \<Longrightarrow> message_normal (mergeMessage now e i)"
  by (auto simp: message_normal_def mergeMessage_def)

lemma identity_key_cong:
  "msg_envelope a = msg_envelope b \<Longrightarrow> getMessageIdentityKey a = getMessageIdentityKey b"
  by (simp add: getMessageIdentityKey_def Let_def)

lemma identity_key_merge [simp]:
  "getMessageIdentityKey (mergeMessage now e i) = getMessageIdentityKey i"
  "getMessageIdentityKey (ensureMessageDefaults now i) = getMessageIdentityKey i"
  by (rule identity_key_cong, simp)+

definition indexed_ok :: "(string \<times> local_message) list \<Rightarrow> bool" where
  "indexed_ok m \<longleftrightarrow> distinct (map fst m)
     \<and> (\<forall>(k, v) \<in> set m. k = getMessageIdentityKey v \<and> message_normal v)"

lemma indexed_ok_Nil [simp]: "indexed_ok []"
  by (simp add: indexed_ok_def)

lemma indexed_ok_set:
  assumes "indexed_ok m" "k = getMessageIdentityKey v" "message_normal v"
  shows "indexed_ok (map_set k v m)"
proof -
  have "distinct (map fst (map_set k v m))"
    using assms(1) by (simp add: indexed_ok_def distinct_map_set)
  moreover have "set (map_set k v m) \<subseteq> insert (k, v) (set m)"
    by (induction m) auto
  ultimately show ?thesis
    using assms by (auto simp: indexed_ok_def)
qed

lemma dedupe_loop_ok: "indexed_ok m \<Longrightarrow> indexed_ok (dedupe_loop now m xs)"
proof (induction now m xs rule: dedupe_loop.induct)
  case (1 now m)
  then show ?case by simp
next
  case (2 now m item items)
  then show ?case
    by (auto simp: Let_def indexed_ok_set mergeMessage_normal split: option.splits)
qed

lemma indexed_ok_keys: "indexed_ok m \<Longrightarrow> map getMessageIdentityKey (map snd m) = map fst m"
  by (induction m) (auto simp: indexed_ok_def)

text \<open>On messages that are normal and pairwise different the loop copies its input.\<close>

lemma dedupe_loop_distinct:
  assumes "distinct (map fst m @ map getMessageIdentityKey xs)" "\<forall>x \<in> set xs. message_normal x"
  shows "dedupe_loop now m xs = m @ map (\<lambda>x. (getMessageIdentityKey x, x)) xs"
  using assms
proof (induction xs arbitrary: m)
  case Nil
  then show ?case by simp
next
  case (Cons x xs)
  then have fresh: "getMessageIdentityKey x \<notin> fst ` set m" by auto
  then have "map_get m (getMessageIdentityKey x) = None"
    by (simp add: map_of_eq_None_iff)
  with Cons fresh show ?case by (simp add: Let_def map_set_fresh)
qed

lemma dedupe_loop_keys:
  "fst ` set (dedupe_loop now m xs) = fst ` set m \<union> getMessageIdentityKey ` set xs"
proof (induction now m xs rule: dedupe_loop.induct)
  case (1 now m)
  then show ?case by simp
next
  case (2 now m item items)
  show ?case
  proof (cases "map_get m (getMessageIdentityKey item)")
    case None
    with 2 show ?thesis by (simp add: Let_def map_set_keys)
  next
    case (Some e)
    with 2 show ?thesis by (simp add: Let_def map_set_keys)
  qed
qed

subsection \<open>The conversation invariant\<close>

text \<open>
  Every list of messages the store holds: at most one message per identity key, in the order of
  the comparator, each with a lifecycle and an update time.
\<close>

definition conv_ok :: "local_message list \<Rightarrow> bool" where
  "conv_ok xs \<longleftrightarrow> distinct (map getMessageIdentityKey xs) \<and> sorted (map sort_position xs)
     \<and> (\<forall>x \<in> set xs. message_normal x)"

definition store_ok :: "messaging_store \<Rightarrow> bool" where
  "store_ok s \<longleftrightarrow> (\<forall>c xs. st_messagesByConversation s c = Some xs \<longrightarrow> conv_ok xs)"

lemma conv_ok_Nil [simp]: "conv_ok []"
  by (simp add: conv_ok_def)

lemma dedupeAndSort_ok: "conv_ok (dedupeAndSortMessages now xs)"
proof -
  have ok: "indexed_ok (dedupe_loop now [] xs)" by (simp add: dedupe_loop_ok)
  have "distinct (map getMessageIdentityKey (map snd (dedupe_loop now [] xs)))"
    using ok by (simp only: indexed_ok_keys) (simp add: indexed_ok_def)
  moreover have "\<forall>x \<in> set (map snd (dedupe_loop now [] xs)). message_normal x"
    using ok by (auto simp: indexed_ok_def)
  ultimately show ?thesis
    by (simp add: conv_ok_def dedupeAndSortMessages_def js_sort_messages distinct_map_sort_key del: map_map)
qed

lemma dedupeAndSort_keys:
  "getMessageIdentityKey ` set (dedupeAndSortMessages now xs) = getMessageIdentityKey ` set xs"
proof -
  have ok: "indexed_ok (dedupe_loop now [] xs)" by (simp add: dedupe_loop_ok)
  have "getMessageIdentityKey ` snd ` set (dedupe_loop now [] xs) = fst ` set (dedupe_loop now [] xs)"
    using ok by (force simp: indexed_ok_def image_image intro!: image_cong)
  then show ?thesis by (simp add: dedupeAndSortMessages_def dedupe_loop_keys)
qed

lemma dedupeAndSort_distinct:
  assumes "distinct (map getMessageIdentityKey xs)" "\<forall>x \<in> set xs. message_normal x"
  shows "dedupeAndSortMessages now xs = sort_key sort_position xs"
  using assms by (simp add: dedupeAndSortMessages_def dedupe_loop_distinct js_sort_messages comp_def)

lemma dedupeAndSort_id: "conv_ok xs \<Longrightarrow> dedupeAndSortMessages now xs = xs"
  by (simp add: dedupeAndSort_distinct conv_ok_def sort_key_id_if_sorted)

subsection \<open>The abstract view of a conversation\<close>

text \<open>
  What a conversation promises: a map from identity keys to messages. \<open>upsertMessage\<close> is an
  update of that map, whatever the order and the positions in the list.
\<close>

abbreviation conv_view :: "local_message list \<Rightarrow> string \<rightharpoonup> local_message" where
  "conv_view \<equiv> keyed getMessageIdentityKey"

definition upserted :: "string \<Rightarrow> local_message \<Rightarrow> local_message list \<Rightarrow> local_message" where
  "upserted now m xs = (let m' = ensureMessageDefaults now m
     in case conv_view xs (getMessageIdentityKey m) of
          None \<Rightarrow> m' | Some e \<Rightarrow> mergeMessage now e m')"

definition ids_agree :: "local_message \<Rightarrow> local_message list \<Rightarrow> bool" where
  "ids_agree m xs \<longleftrightarrow> (\<forall>e \<in> set xs. env_id (msg_envelope e) = env_id (msg_envelope m)
      \<longrightarrow> getMessageIdentityKey e = getMessageIdentityKey m)"

lemma upsert_message_list_view:
  assumes ok: "conv_ok xs" and ids: "ids_agree m xs"
  shows "conv_view (upsert_message_list now m xs) = (conv_view xs)(getMessageIdentityKey m \<mapsto> upserted now m xs)"
proof -
  let ?m = "ensureMessageDefaults now m"
  let ?k = "getMessageIdentityKey m"
  have dist: "distinct (map getMessageIdentityKey xs)" and nrm: "\<forall>x \<in> set xs. message_normal x"
    using ok by (auto simp: conv_ok_def)
  show ?thesis
  proof (cases "findMessageIndex xs ?m")
    case None
    then have fresh: "?k \<notin> getMessageIdentityKey ` set xs"
      by (auto simp: findMessageIndex_def find_index_None)
    then have "conv_view (xs @ [?m]) = (conv_view xs)(?k \<mapsto> ?m)"
      using keyed_append_fresh [of getMessageIdentityKey ?m xs] by simp
    moreover have "distinct (map getMessageIdentityKey (xs @ [?m]))" using dist fresh by auto
    moreover have "conv_view xs ?k = None" using fresh by (simp add: keyed_None)
    ultimately show ?thesis
      using None fresh nrm
      by (simp add: upsert_message_list_def dedupeAndSort_distinct keyed_sort_key upserted_def)
  next
    case (Some i)
    then have i: "i < length xs" and key: "getMessageIdentityKey (xs ! i) = ?k"
      using ids by (auto simp: findMessageIndex_def ids_agree_def dest!: find_index_Some)
    let ?m' = "mergeMessage now (xs ! i) ?m"
    have "conv_view xs ?k = Some (xs ! i)" using dist i key by (simp add: keyed_Some)
    moreover have d: "distinct (map getMessageIdentityKey (xs[i := ?m']))"
      using dist i key by (simp add: map_key_list_update)
    moreover have "\<forall>x \<in> set (xs[i := ?m']). message_normal x"
      using nrm mergeMessage_normal set_update_subset_insert by fastforce
    ultimately show ?thesis
      using Some i key dist
      by (simp add: upsert_message_list_def dedupeAndSort_distinct keyed_sort_key upserted_def keyed_list_update)
  qed
qed

lemma upsert_message_list_ok: "conv_ok (upsert_message_list now m xs)"
  by (simp add: upsert_message_list_def Let_def dedupeAndSort_ok split: option.splits)

subsection \<open>Every action keeps the invariant\<close>

lemma patch_message_envelope [simp]: "msg_envelope (patch_message now p m) = msg_envelope m"
  by (simp add: patch_message_def)

lemma conv_ok_patch:
  assumes "conv_ok xs" "i < length xs"
  shows "conv_ok (xs[i := patch_message now p (xs ! i)])"
proof -
  let ?m = "patch_message now p (xs ! i)"
  have same: "getMessageIdentityKey ?m = getMessageIdentityKey (xs ! i)" "sort_position ?m = sort_position (xs ! i)"
    by (rule identity_key_cong, simp) (simp add: sort_position_def)
  have "map getMessageIdentityKey (xs[i := ?m]) = map getMessageIdentityKey xs"
       "map sort_position (xs[i := ?m]) = map sort_position xs"
    using assms(2) same by (simp_all add: map_key_list_update)
  moreover have "message_normal ?m" by (simp add: message_normal_def patch_message_def)
  ultimately show ?thesis
    using assms(1) by (auto simp: conv_ok_def dest!: set_update_subset_insert [THEN subsetD])
qed

lemma conv_ok_filter: "conv_ok xs \<Longrightarrow> conv_ok (filter p xs)"
  by (auto simp: conv_ok_def distinct_map_filter sorted_filter)

lemma store_ok_put [inv_intros]: "store_ok s \<Longrightarrow> conv_ok xs \<Longrightarrow> store_ok (put_messages c xs s)"
  by (auto simp: store_ok_def put_messages_def)

lemma store_ok_current: "store_ok s \<Longrightarrow> conv_ok (current_messages s c)"
  by (auto simp: store_ok_def current_messages_def split: option.splits)

lemma store_ok_frame [inv_intros]:
  "st_messagesByConversation t = st_messagesByConversation s \<Longrightarrow> store_ok s \<Longrightarrow> store_ok t"
  by (simp add: store_ok_def)

lemma store_ok_updateLifecycle [inv_intros]:
  "store_ok s \<Longrightarrow> store_ok (updateMessageLifecycle now c d k p s)"
  by (auto simp: updateMessageLifecycle_def Let_def split: option.splits
      intro!: store_ok_put conv_ok_patch store_ok_current dest: find_index_Some)


subsection \<open>Runs of the store\<close>

datatype store_action =
    ASetInitialized bool
  | ASetLoading bool
  | ASetConversations "conversation_dto list"
  | AUpsertConversation conversation_dto
  | ASetMessages string "local_message list"
  | AUpsertMessage string local_message
  | AUpdateMessageLifecycle string string string lifecycle_patch
  | ARemoveMessage string string string
  | ASetActiveConversation "string option"
  | AMarkConversationRead string "jsnumber option"
  | ASetOutbox "outbox_item list"
  | ASetTransportState transport_patch
  | AReset

fun dispatch :: "string \<Rightarrow> store_action \<Rightarrow> messaging_store \<Rightarrow> messaging_store" where
  "dispatch now (ASetInitialized v) s = setInitialized v s"
| "dispatch now (ASetLoading v) s = setLoading v s"
| "dispatch now (ASetConversations cs) s = setConversations cs s"
| "dispatch now (AUpsertConversation c) s = upsertConversation c s"
| "dispatch now (ASetMessages c ms) s = setMessages now c ms s"
| "dispatch now (AUpsertMessage c m) s = upsertMessage now c m s"
| "dispatch now (AUpdateMessageLifecycle c d k p) s = updateMessageLifecycle now c d k p s"
| "dispatch now (ARemoveMessage c d k) s = removeMessageByClientReference c d k s"
| "dispatch now (ASetActiveConversation c) s = setActiveConversation c s"
| "dispatch now (AMarkConversationRead c q) s = markConversationRead c q s"
| "dispatch now (ASetOutbox xs) s = setOutbox xs s"
| "dispatch now (ASetTransportState p) s = setTransportState now p s"
| "dispatch now AReset s = reset s"

text \<open>The states of a session: a start from the persisted part, then any actions at any times.\<close>

inductive store_reachable :: "messaging_store \<Rightarrow> bool" where
  hydrate: "store_reachable (merge_persisted p initial_store)"
| action: "store_reachable s \<Longrightarrow> store_reachable (dispatch now a s)"

lemma store_ok_initial [inv_intros]: "store_ok (merge_persisted p initial_store)"
  by (simp add: store_ok_def merge_persisted_def initial_store_def split: option.splits)

lemma store_ok_dispatch [inv_intros]: "store_ok s \<Longrightarrow> store_ok (dispatch now a s)"
proof (cases a)
  case (ASetMessages c ms)
  assume "store_ok s"
  with ASetMessages show ?thesis by (simp add: setMessages_def store_ok_put dedupeAndSort_ok)
next
  case (AUpsertMessage c m)
  assume "store_ok s"
  with AUpsertMessage show ?thesis by (simp add: upsertMessage_def store_ok_put upsert_message_list_ok)
next
  case (ARemoveMessage c d k)
  assume "store_ok s"
  with ARemoveMessage show ?thesis
    by (simp add: removeMessageByClientReference_def store_ok_put conv_ok_filter store_ok_current)
next
  case (AUpdateMessageLifecycle c d k p)
  assume "store_ok s"
  with AUpdateMessageLifecycle show ?thesis by (simp add: store_ok_updateLifecycle)
qed (simp_all add: store_ok_def setInitialized_def setLoading_def
      setConversations_def upsertConversation_def setActiveConversation_def markConversationRead_def
      setOutbox_def setTransportState_def reset_def initial_store_def Let_def)

interpretation conversations: keyed_table cv_id upsert_conversation_list
proof -
  have eq: "upsert_conversation_list = upsert_with cv_id (\<lambda>xs x. x # xs)"
    by (simp add: upsert_conversation_list_def upsert_with_def fun_eq_iff)
  show "keyed_table cv_id upsert_conversation_list"
    unfolding eq by (rule keyed_table_upsert) simp
qed


lemma store_reachable_ok: "store_reachable s \<Longrightarrow> store_ok s"
  by (induction rule: store_reachable.induct) (auto intro: inv_intros)

subsection \<open>Properties\<close>

text \<open>Sample messages for the witnesses: one unsent, one confirmed by the relay.\<close>

definition sample_envelope :: "string \<Rightarrow> string \<Rightarrow> int \<Rightarrow> encrypted_message_envelope_dto" where
  "sample_envelope i c n = \<lparr>env_id = i, env_conversationId = ''conv'', env_senderAccountId = ''acc'',
     env_senderDeviceId = ''dev'', env_clientMessageId = c, env_algorithm = ''pending'', env_cryptoVersion = 1,
     env_nonce = [], env_ciphertext = [], env_recipients = [], env_attachments = [],
     env_replyToMessageId = None, env_ttlSeconds = None, env_createdAt = ''2026-01-02'',
     env_expiresAt = None, env_serverSequence = n\<rparr>"

definition sample_message :: "string \<Rightarrow> string \<Rightarrow> int \<Rightarrow> string option \<Rightarrow> local_message" where
  "sample_message i c n err = \<lparr>msg_envelope = sample_envelope i c n, msg_deliveryState = DQueued,
     msg_deliveredAt = None, msg_failedReason = None, msg_receipts = [], lm_plaintext = None,
     lm_decryptError = err, lm_expired = Some False, lm_lifecycle = Some LQueued,
     lm_retryableFailure = None, lm_failureCode = None, lm_lastUpdatedAt = Some ''2026-01-02''\<rparr>"

text \<open>In every state the store can reach, each conversation lists at most one message per
  identity (sender device and client id, or server id), in the order of server sequence, creation
  time and id, each with a lifecycle and an update time.\<close>

theorem reachable_conversations_ok:
  assumes "store_reachable s" "st_messagesByConversation s c = Some xs"
  shows "distinct (map getMessageIdentityKey xs)
    \<and> sorted (map (\<lambda>m. (env_serverSequence (msg_envelope m), env_createdAt (msg_envelope m), env_id (msg_envelope m))) xs)
    \<and> (\<forall>m \<in> set xs. lm_lifecycle m \<noteq> None \<and> lm_lastUpdatedAt m \<noteq> None)"
proof -
  have "conv_ok xs" using store_reachable_ok [OF assms(1)] assms(2) by (simp add: store_ok_def)
  then show ?thesis by (simp add: conv_ok_def message_normal_def sort_position_def [abs_def] Let_def)
qed

lemma reachable_conversations_ok_witness:
  "\<exists>s xs. store_reachable s \<and> st_messagesByConversation s ''conv'' = Some xs \<and> length xs = 2
     \<and> distinct (map getMessageIdentityKey xs)"
proof -
  let ?a = "sample_message ''m1'' ''c1'' 7 None" and ?b = "sample_message ''local-c2'' ''c2'' 0 None"
  let ?s = "dispatch ''t'' (ASetMessages ''conv'' [?a, ?b]) (merge_persisted None initial_store)"
  let ?xs = "dedupeAndSortMessages ''t'' [?a, ?b]"
  have r: "store_reachable ?s" by (intro store_reachable.intros)
  have e: "st_messagesByConversation ?s ''conv'' = Some ?xs" by (simp add: setMessages_def put_messages_def)
  have "?xs = [?b, ?a]" by code_simp
  with r e reachable_conversations_ok [OF r e] show ?thesis by (intro exI [of _ ?s] exI [of _ ?xs]) simp
qed

text \<open>C7. Inserting a message is an update of the conversation seen as a map from identities to
  messages: the entry of the message's identity becomes the message, merged into the one that was
  there, and every other entry stays, provided that a stored message with the same server id is
  the same message.\<close>

theorem upsertMessage_refines_map_update:
  assumes "store_reachable s" "ids_agree m (current_messages s c)"
  shows "conv_view (current_messages (upsertMessage now c m s) c) =
      (conv_view (current_messages s c))(getMessageIdentityKey m \<mapsto>
        (case conv_view (current_messages s c) (getMessageIdentityKey m) of
           None \<Rightarrow> ensureMessageDefaults now m
         | Some e \<Rightarrow> mergeMessage now e (ensureMessageDefaults now m)))
    \<and> (\<forall>c'. c' \<noteq> c \<longrightarrow> current_messages (upsertMessage now c m s) c' = current_messages s c')"
  using upsert_message_list_view [OF store_ok_current [OF store_reachable_ok [OF assms(1)]] assms(2)]
  by (simp add: upsertMessage_def put_messages_def current_messages_def upserted_def Let_def)

lemma upsertMessage_refines_map_update_witness:
  "conv_view (current_messages (upsertMessage ''t'' ''conv'' (sample_message ''m1'' ''c1'' 7 None)
     (merge_persisted None initial_store)) ''conv'') ''client:dev:c1'' = Some (sample_message ''m1'' ''c1'' 7 None)"
proof -
  let ?s = "merge_persisted None initial_store" and ?m = "sample_message ''m1'' ''c1'' 7 None"
  have e: "current_messages ?s ''conv'' = []" by (simp add: merge_persisted_def initial_store_def current_messages_def)
  have k: "getMessageIdentityKey ?m = ''client:dev:c1''" by code_simp
  have n: "ensureMessageDefaults ''t'' ?m = ?m" by code_simp
  have "ids_agree ?m (current_messages ?s ''conv'')" by (simp add: e ids_agree_def)
  from upsertMessage_refines_map_update [OF store_reachable.hydrate this, of "''t''"] k n
  show ?thesis by (simp add: e)
qed

text \<open>A decryption error is sticky: once a stored message carries one, inserting the same
  message again after it was decrypted (no error, with plaintext) keeps the old error beside the
  new plaintext.\<close>

theorem decrypt_error_survives_successful_decrypt:
  assumes "store_reachable s" "ids_agree m (current_messages s c)"
    and "conv_view (current_messages s c) (getMessageIdentityKey m) = Some e"
    and "lm_decryptError e = Some err" "lm_decryptError m = None" "lm_plaintext m = Some p" "p \<noteq> JNull"
  shows "\<exists>r. conv_view (current_messages (upsertMessage now c m s) c) (getMessageIdentityKey m) = Some r
    \<and> lm_plaintext r = Some p \<and> lm_decryptError r = Some err"
  using upsert_message_list_view [OF store_ok_current [OF store_reachable_ok [OF assms(1)]] assms(2)] assms(3-7)
  by (simp add: upsertMessage_def put_messages_def current_messages_def upserted_def Let_def
      mergeMessage_def ensureMessageDefaults_def nullish_Some)

lemma decrypt_error_survives_successful_decrypt_witness:
  "\<exists>r. conv_view (current_messages (upsertMessage ''t'' ''conv''
        ((sample_message ''m1'' ''c1'' 7 None)\<lparr>lm_plaintext := Some (JObj [(''text'', JStr ''hi'')])\<rparr>)
        (dispatch ''t'' (ASetMessages ''conv'' [sample_message ''m1'' ''c1'' 7 (Some ''bad key'')])
          (merge_persisted None initial_store))) ''conv'') ''client:dev:c1'' = Some r
     \<and> lm_decryptError r = Some ''bad key''"
proof -
  let ?e = "sample_message ''m1'' ''c1'' 7 (Some ''bad key'')"
  let ?p = "JObj [(''text'', JStr ''hi'')]"
  let ?m = "(sample_message ''m1'' ''c1'' 7 None)\<lparr>lm_plaintext := Some ?p\<rparr>"
  let ?s = "dispatch ''t'' (ASetMessages ''conv'' [?e]) (merge_persisted None initial_store)"
  have r: "store_reachable ?s" by (intro store_reachable.intros)
  have c: "current_messages ?s ''conv'' = [?e]" by code_simp
  have k: "getMessageIdentityKey ?m = ''client:dev:c1''" "getMessageIdentityKey ?e = ''client:dev:c1''" by code_simp+
  have i: "ids_agree ?m (current_messages ?s ''conv'')" unfolding c using k by (simp add: ids_agree_def)
  have v: "conv_view (current_messages ?s ''conv'') (getMessageIdentityKey ?m) = Some ?e" unfolding c by (simp add: k)
  have f: "lm_decryptError ?e = Some ''bad key''" "lm_decryptError ?m = None" "lm_plaintext ?m = Some ?p" "?p \<noteq> JNull"
    by (simp_all add: sample_message_def)
  from decrypt_error_survives_successful_decrypt [OF r i v f, of "''t''"] k show ?thesis by auto
qed

text \<open>A message that the relay has not sequenced yet (the optimistic copy has sequence 0)
  is listed before every sequenced message of its conversation, even older ones.\<close>

theorem unsequenced_messages_come_first:
  assumes "store_reachable s" "i < length (current_messages s c)" "j < length (current_messages s c)"
    and "env_serverSequence (msg_envelope (current_messages s c ! i)) = 0"
    and "0 < env_serverSequence (msg_envelope (current_messages s c ! j))"
  shows "i < j"
proof (rule ccontr)
  let ?xs = "current_messages s c"
  assume "\<not> i < j"
  with assms(2,3) have "sort_position (?xs ! j) \<le> sort_position (?xs ! i)"
    using store_ok_current [OF store_reachable_ok [OF assms(1)], of c]
    by (auto simp: conv_ok_def sorted_iff_nth_mono dest: spec [of _ j])
  with assms(4,5) show False by (auto simp: sort_position_def Let_def)
qed

lemma unsequenced_messages_come_first_witness:
  "\<exists>s i j. store_reachable s \<and> env_serverSequence (msg_envelope (current_messages s ''conv'' ! i)) = 0
     \<and> env_serverSequence (msg_envelope (current_messages s ''conv'' ! j)) = 7 \<and> i < j"
proof -
  let ?a = "sample_message ''m1'' ''c1'' 7 None" and ?b = "sample_message ''local-c2'' ''c2'' 0 None"
  let ?s = "dispatch ''t'' (ASetMessages ''conv'' [?a, ?b]) (merge_persisted None initial_store)"
  have r: "store_reachable ?s" by (intro store_reachable.intros)
  have c: "current_messages ?s ''conv'' = [?b, ?a]" by code_simp
  have q: "env_serverSequence (msg_envelope (current_messages ?s ''conv'' ! 0)) = 0"
    "env_serverSequence (msg_envelope (current_messages ?s ''conv'' ! 1)) = 7"
    unfolding c by (simp_all add: sample_message_def sample_envelope_def)
  have "(0::nat) < 1"
    by (rule unsequenced_messages_come_first [OF r, of 0 "''conv''" 1]) (unfold q, simp_all add: c del: dispatch.simps)
  with r q show ?thesis by blast
qed

text \<open>Read positions only grow: marking a conversation read with any number, finite or
  not, never lowers its position, never leaves it negative, and leaves other conversations alone.\<close>

theorem markConversationRead_monotone:
  "(case st_readPositions s c of None \<Rightarrow> 0 | Some p \<Rightarrow> p) \<le> the (st_readPositions (markConversationRead c q s) c)
   \<and> st_readPositions (markConversationRead c q s) c \<noteq> None
   \<and> (q = Some (Fin r) \<longrightarrow> \<lfloor>r\<rfloor> \<le> the (st_readPositions (markConversationRead c q s) c))
   \<and> (\<forall>c'. c' \<noteq> c \<longrightarrow> st_readPositions (markConversationRead c q s) c' = st_readPositions s c')"
  by (auto simp: markConversationRead_def Let_def split: option.splits jsnumber.splits)

lemma markConversationRead_monotone_witness:
  "the (st_readPositions (markConversationRead ''c'' (Some (Fin 7)) initial_store) ''c'') \<ge> \<lfloor>7::rat\<rfloor>"
  using markConversationRead_monotone [of initial_store "''c''" "Some (Fin 7)" 7] by simp

text \<open>What the store persists across restarts is the active conversation and the read
  positions only: two states that differ in messages, plaintexts, conversations, outbox or
  transport persist the same, and a restart brings back exactly those two fields.\<close>

theorem persisted_state_has_no_messages:
  "partialize (s\<lparr>st_conversations := cs, st_messagesByConversation := ms, st_outbox := ob, st_transport := tr\<rparr>) = partialize s
   \<and> merge_persisted (Some (partialize s)) initial_store =
      initial_store\<lparr>st_activeConversationId := st_activeConversationId s, st_readPositions := st_readPositions s\<rparr>"
  by (simp add: partialize_def merge_persisted_def)

end
