(* ===== verification/Api_Errors.thy ===== *)
theory Api_Errors
  imports Messaging_Store
begin

text \<open>
  Errors as the client sees them: the thrown values of \<open>services/apiClient.ts\<close>, the localized
  messages built from them, and the retry classification of \<open>services/messaging/errorModel.ts\<close>;
  with it \<open>services/messaging/lifecycle.ts\<close>. \<open>t\<close> is \<open>i18n.t\<close> of the i18next
  package, which is not part of the repository: a parameter from message keys to texts.
\<close>

subsection \<open>Thrown values\<close>

text \<open>What a \<open>catch (error: unknown)\<close> of the client can receive: an \<open>ApiClientError\<close> with its
  HTTP status and payload, any other \<open>Error\<close> with its message, or another value.\<close>

datatype js_error =
    ApiClientError (err_status: int) (err_payload: json)
  | JsError (err_message: string)
  | Thrown json

definition payload_error_field :: "json \<Rightarrow> string \<Rightarrow> string option" where
  "payload_error_field payload f =
     (case json_get payload ''error'' of None \<Rightarrow> None | Some e \<Rightarrow> as_str (json_get e f))"

fun extractApiErrorCode :: "js_error \<Rightarrow> string" where
  "extractApiErrorCode (ApiClientError status payload) =
     (case payload_error_field payload ''code'' of None \<Rightarrow> ''unknown'' | Some c \<Rightarrow> c)"
| "extractApiErrorCode _ = ''unknown''"

definition friendlyErrorMessages :: "(string \<times> string) list" where
  "friendlyErrorMessages = [
    (''transport_unavailable'', ''Transport is temporarily unavailable. Retrying can help.''),
    (''endpoint_unreachable'', ''Current endpoint is unreachable. Client will rotate to fallback endpoints.''),
    (''retryable_transport_error'', ''Temporary transport error. Message stayed in queue for retry.''),
    (''local_storage_unavailable'', ''Secure local storage is unavailable. Messaging is paused until storage is restored.''),
    (''message_decrypt_failed'', ''Message could not be decrypted on this device.''),
    (''membership_denied'', ''You do not have access to this conversation.''),
    (''conversation_not_found'', ''Conversation was not found.''),
    (''attachment_upload_failed'', ''Attachment upload failed. You can retry.''),
    (''attachment_download_failed'', ''Attachment download failed. You can retry.''),
    (''message_expired'', ''Message expired according to disappearing message policy.''),
    (''plugin_manifest_invalid'', ''Plugin manifest is invalid.''),
    (''plugin_permission_denied'', ''Plugin permission denied by policy.''),
    (''plugin_runtime_init_failed'', ''Plugin runtime failed to initialize.''),
    (''plugin_bridge_violation'', ''Plugin bridge request violated security policy.''),
    (''plugin_load_failed'', ''Plugin could not be loaded.''),
    (''plugin_disabled'', ''Plugin is currently disabled.''),
    (''plugin_storage_unavailable'', ''Plugin local storage is unavailable.'')]"

definition retryHintCodes :: "string list" where
  "retryHintCodes = [''transport_unavailable'', ''endpoint_unreachable'', ''retryable_transport_error'',
     ''attachment_upload_failed'', ''attachment_download_failed'']"

definition reconnectHintCodes :: "string list" where
  "reconnectHintCodes = [''local_storage_unavailable'']"

definition buildActionHint :: "(string \<Rightarrow> string) \<Rightarrow> string \<Rightarrow> string" where
  "buildActionHint t code =
     (if code \<in> set retryHintCodes then t ''errors.actionHintRetry''
      else if code \<in> set reconnectHintCodes then t ''errors.actionHintReconnect''
      else [])"

definition with_hint :: "string \<Rightarrow> string \<Rightarrow> string" where
  "with_hint message hint = (if hint \<noteq> [] then message @ '' '' @ hint else message)"

definition localized_code :: "(string \<Rightarrow> string) \<Rightarrow> string \<Rightarrow> string option" where
  "localized_code t code =
     (let localized = t (''errors.codes.'' @ code); hint = buildActionHint t code
      in if localized \<noteq> [] \<and> localized \<noteq> ''errors.codes.'' @ code then Some (with_hint localized hint)
         else case map_of friendlyErrorMessages code of
           Some m \<Rightarrow> Some (with_hint m hint)
         | None \<Rightarrow> None)"

definition non_blank :: "string option \<Rightarrow> bool" where
  "non_blank s = (case s of None \<Rightarrow> False | Some x \<Rightarrow> js_trim x \<noteq> [])"

fun extractApiErrorMessage :: "(string \<Rightarrow> string) \<Rightarrow> js_error \<Rightarrow> string" where
  "extractApiErrorMessage t (ApiClientError status payload) =
     (let fallback = (case payload_error_field payload ''message'' of Some m \<Rightarrow> m | None \<Rightarrow> t ''errors.generic'')
      in case payload_error_field payload ''code'' of
           None \<Rightarrow> fallback
         | Some code \<Rightarrow>
             if code = [] then fallback
             else (case localized_code t code of Some m \<Rightarrow> m | None \<Rightarrow> fallback))"
| "extractApiErrorMessage t (JsError message) = (if message \<noteq> [] then message else t ''errors.generic'')"
| "extractApiErrorMessage t (Thrown v) =
     (let direct = as_str (json_get v ''message''); nested = payload_error_field v ''message'' in
      if non_blank (as_str (Some v)) then the (as_str (Some v))
      else if non_blank direct then the direct
      else if non_blank nested then the nested
      else t ''errors.generic'')"

subsection \<open>Retry classification\<close>

datatype failure_class = Retryable | NonRetryable

record classified_error =
  ce_code :: string
  ce_message :: string
  ce_class :: failure_class

definition NON_RETRYABLE_CODES :: "string list" where
  "NON_RETRYABLE_CODES = [''conversation_not_found'', ''membership_denied'', ''validation_error'',
     ''message_encrypt_failed'', ''message_decrypt_failed'', ''message_expired'', ''forbidden'', ''unauthorized'']"

definition RETRYABLE_CODES :: "string list" where
  "RETRYABLE_CODES = [''retryable_transport_error'', ''transport_unavailable'', ''endpoint_unreachable'',
     ''sync_conflict'', ''attachment_upload_failed'', ''attachment_download_failed'', ''internal_error'',
     ''local_storage_unavailable'']"

definition classifyMessagingError :: "(string \<Rightarrow> string) \<Rightarrow> js_error \<Rightarrow> classified_error" where
  "classifyMessagingError t error =
     (let message = extractApiErrorMessage t error; code = extractApiErrorCode error in
      if code \<in> set RETRYABLE_CODES then \<lparr>ce_code = code, ce_message = message, ce_class = Retryable\<rparr>
      else if code \<in> set NON_RETRYABLE_CODES then \<lparr>ce_code = code, ce_message = message, ce_class = NonRetryable\<rparr>
      else case error of
        ApiClientError status _ \<Rightarrow>
          if 500 \<le> status then \<lparr>ce_code = code, ce_message = message, ce_class = Retryable\<rparr>
          else \<lparr>ce_code = code, ce_message = message, ce_class = NonRetryable\<rparr>
      | _ \<Rightarrow> \<lparr>ce_code = ''unknown'', ce_message = message, ce_class = Retryable\<rparr>)"

definition is_retryable :: "js_error \<Rightarrow> bool" where
  "is_retryable error \<longleftrightarrow> ce_class (classifyMessagingError (\<lambda>_. []) error) = Retryable"

subsection \<open>Lifecycle of a message\<close>

definition messageLifecycleFromDeliveryState :: "delivery_state \<Rightarrow> bool \<Rightarrow> lifecycle_state" where
  "messageLifecycleFromDeliveryState deliveryState expired =
     (if expired then LExpired
      else case deliveryState of
        DQueued \<Rightarrow> LQueued | DSent \<Rightarrow> LSent | DDelivered \<Rightarrow> LDelivered
      | DFailed \<Rightarrow> LFailed | DExpired \<Rightarrow> LExpired | DPending \<Rightarrow> LSending)"

definition deriveMessageLifecycle :: "local_message \<Rightarrow> lifecycle_state" where
  "deriveMessageLifecycle m =
     (case lm_lifecycle m of
        Some l \<Rightarrow> l
      | None \<Rightarrow> messageLifecycleFromDeliveryState (msg_deliveryState m) (lm_expired m = Some True))"

definition isTerminalLifecycle :: "lifecycle_state \<Rightarrow> bool" where
  "isTerminalLifecycle l \<longleftrightarrow> l = LFailed \<or> l = LDelivered \<or> l = LExpired"

subsection \<open>Lemmas\<close>

lemma classify_class_text [simp]:
  "ce_class (classifyMessagingError t e) = Retryable \<longleftrightarrow> is_retryable e"
  by (auto simp: is_retryable_def classifyMessagingError_def Let_def split: js_error.splits)

lemma classify_class: "ce_class (classifyMessagingError t e) = (if is_retryable e then Retryable else NonRetryable)"
  using classify_class_text [of t e] by (cases "ce_class (classifyMessagingError t e)") auto

text \<open>The store's own default and the runtime's mapping of delivery states agree.\<close>

lemma lifecycle_defaults_agree:
  "lifecycleFromDeliveryState m = messageLifecycleFromDeliveryState (msg_deliveryState m) (lm_expired m = Some True)"
  by (simp add: lifecycleFromDeliveryState_def messageLifecycleFromDeliveryState_def)

lemma derive_normalized: "deriveMessageLifecycle (ensureMessageDefaults now m) = deriveMessageLifecycle m"
  by (cases "lm_lifecycle m")
    (simp_all add: deriveMessageLifecycle_def ensureMessageDefaults_def lifecycle_defaults_agree)

subsection \<open>Properties\<close>

text \<open>The retry decision, in full: an error is retryable exactly when its code is one of the
  retryable codes, or its code is in neither list and it is not an API error below status 500.
  The localized text plays no role in it.\<close>

theorem retryable_iff:
  "ce_class (classifyMessagingError t e) = Retryable \<longleftrightarrow>
     extractApiErrorCode e \<in> set RETRYABLE_CODES
   \<or> (extractApiErrorCode e \<notin> set NON_RETRYABLE_CODES
       \<and> (case e of ApiClientError status _ \<Rightarrow> 500 \<le> status | _ \<Rightarrow> True))"
  by (auto simp: classifyMessagingError_def Let_def split: js_error.splits)

definition sample_unauthorized :: js_error where
  "sample_unauthorized = ApiClientError 401 (JObj [(''error'', JObj [(''code'', JStr ''unauthorized'')])])"

lemma retryable_iff_witness: "ce_class (classifyMessagingError (\<lambda>k. k) sample_unauthorized) \<noteq> Retryable"
  unfolding retryable_iff by code_simp

text \<open>An error the client throws itself, whatever its message, is classified as retryable
  with code \<open>unknown\<close>: the codes \<open>message_encrypt_failed\<close>, \<open>message_decrypt_failed\<close> and
  \<open>local_storage_unavailable\<close> of the two tables are never matched by a locally thrown error
  of that name.\<close>

theorem local_errors_are_unknown_retryable:
  "ce_code (classifyMessagingError t (JsError m)) = ''unknown''
   \<and> ce_class (classifyMessagingError t (JsError m)) = Retryable"
  by (simp add: classifyMessagingError_def RETRYABLE_CODES_def NON_RETRYABLE_CODES_def)

end
