(* ===== verification/Messaging_Api.thy ===== *)
theory Messaging_Api
  imports Api_Errors
begin

text \<open>
  Requests to the relay: \<open>apiRequest\<close> of \<open>services/apiClient.ts\<close> and the endpoints of
  \<open>services/messaging/messagingApi.ts\<close> as the requests they build. The body stays typed; on the wire it is
  its \<open>JSON.stringify\<close>. The bodies of the account's requests are built as JSON values (\<open>BodyJson\<close>). The answer of \<open>fetch\<close> is a record of what the code reads of a \<open>Response\<close>.
\<close>

subsection \<open>Requests\<close>

datatype http_method = GET | POST | PUT | PATCH | DELETE

record upload_request =
  up_kind :: attachment_kind
  up_fileName :: string
  up_mimeType :: string
  up_sizeBytes :: int
  up_checksumSha256 :: string
  up_algorithm :: string
  up_nonce :: string
  up_ciphertext :: string

datatype api_body =
    NoBody
  | BodyDirect string
  | BodyGroup string "string list"
  | BodyMember string "string option"
  | BodySend send_message_request
  | BodyReceipt receipt_type
  | BodyUpload upload_request
  | BodyJson json

record api_request =
  rq_url :: string
  rq_method :: http_method
  rq_body :: api_body
  rq_accessToken :: "string option"

record server_config =
  sc_apiBaseUrl :: string
  sc_apiPrefix :: string

definition buildUrl :: "server_config \<Rightarrow> string \<Rightarrow> string" where
  "buildUrl server path = sc_apiBaseUrl server @ sc_apiPrefix server @ path"

text \<open>The headers: \<open>Authorization\<close> only for a token that is present and not empty.\<close>

definition request_headers :: "api_request \<Rightarrow> (string \<times> string) list" where
  "request_headers r = (''Content-Type'', ''application/json'') #
     (case rq_accessToken r of
        None \<Rightarrow> []
      | Some t \<Rightarrow> if t = [] then [] else [(''Authorization'', ''Bearer '' @ t)])"

subsection \<open>Answers\<close>

record http_response =
  hr_status :: int
  hr_contentType :: "string option"
  hr_json :: "json option"

text \<open>\<open>hr_json\<close> is what \<open>response.json()\<close> yields, \<open>None\<close> when it rejects. A rejected \<open>fetch\<close> is an \<open>Inl\<close>.\<close>

definition read_response :: "js_error + http_response \<Rightarrow> js_error + json" where
  "read_response answer = (case answer of
      Inl e \<Rightarrow> Inl e
    | Inr r \<Rightarrow>
        (let contentType = (case hr_contentType r of None \<Rightarrow> [] | Some c \<Rightarrow> c) in
         if str_includes contentType ''application/json'' then
           (case hr_json r of
              None \<Rightarrow> Inl (JsError ''SyntaxError'')
            | Some payload \<Rightarrow> if 200 \<le> hr_status r \<and> hr_status r \<le> 299 then Inr payload else Inl (ApiClientError (hr_status r) payload))
         else if 200 \<le> hr_status r \<and> hr_status r \<le> 299 then Inr JNull
         else Inl (ApiClientError (hr_status r) JNull)))"

subsection \<open>Endpoints\<close>

definition api_get :: "server_config \<Rightarrow> string \<Rightarrow> string \<Rightarrow> api_request" where
  "api_get server path accessToken =
     \<lparr>rq_url = buildUrl server path, rq_method = GET, rq_body = NoBody, rq_accessToken = Some accessToken\<rparr>"

definition api_post :: "server_config \<Rightarrow> string \<Rightarrow> string \<Rightarrow> api_body \<Rightarrow> api_request" where
  "api_post server path accessToken body =
     \<lparr>rq_url = buildUrl server path, rq_method = POST, rq_body = body, rq_accessToken = Some accessToken\<rparr>"

definition api_createDirect :: "server_config \<Rightarrow> string \<Rightarrow> string \<Rightarrow> api_request" where
  "api_createDirect server accessToken peerAccountId = api_post server ''/conversations/direct'' accessToken (BodyDirect peerAccountId)"

definition api_createGroup :: "server_config \<Rightarrow> string \<Rightarrow> string \<Rightarrow> string list \<Rightarrow> api_request" where
  "api_createGroup server accessToken title members =
     api_post server ''/conversations/group'' accessToken (BodyGroup title members)"

definition api_listConversations :: "server_config \<Rightarrow> string \<Rightarrow> api_request" where
  "api_listConversations server accessToken = api_get server ''/conversations'' accessToken"

definition api_getConversation :: "server_config \<Rightarrow> string \<Rightarrow> string \<Rightarrow> api_request" where
  "api_getConversation server accessToken conversationId = api_get server (''/conversations/'' @ conversationId) accessToken"

definition api_addMember :: "server_config \<Rightarrow> string \<Rightarrow> string \<Rightarrow> string \<Rightarrow> string option \<Rightarrow> api_request" where
  "api_addMember server accessToken conversationId memberAccountId role =
     api_post server (''/conversations/'' @ conversationId @ ''/members'') accessToken (BodyMember memberAccountId role)"

definition api_sendMessage :: "server_config \<Rightarrow> string \<Rightarrow> string \<Rightarrow> send_message_request \<Rightarrow> api_request" where
  "api_sendMessage server accessToken conversationId payload =
     api_post server (''/conversations/'' @ conversationId @ ''/messages'') accessToken (BodySend payload)"

text \<open>\<open>URLSearchParams\<close> of numbers: no escaping is needed. A missing or zero option is left out.\<close>

definition query_string :: "(string \<times> int) list \<Rightarrow> string" where
  "query_string params = join ''&'' (map (\<lambda>(k, v). k @ ''='' @ int_digits v) params)"

definition api_listMessages :: "server_config \<Rightarrow> string \<Rightarrow> string \<Rightarrow> int option \<Rightarrow> int option \<Rightarrow> api_request" where
  "api_listMessages server accessToken conversationId limit beforeSequence =
     (let given = (\<lambda>k v. case v of None \<Rightarrow> [] | Some n \<Rightarrow> if n = 0 then [] else [(k, n)]);
          params = given ''limit'' limit @ given ''beforeSequence'' beforeSequence;
          suffix = (if params \<noteq> [] then ''?'' @ query_string params else [])
      in api_get server (''/conversations/'' @ conversationId @ ''/messages'' @ suffix) accessToken)"

definition api_createReceipt :: "server_config \<Rightarrow> string \<Rightarrow> string \<Rightarrow> receipt_type \<Rightarrow> api_request" where
  "api_createReceipt server accessToken messageId receiptType =
     api_post server (''/messages/'' @ messageId @ ''/receipts'') accessToken (BodyReceipt receiptType)"

definition api_uploadAttachment :: "server_config \<Rightarrow> string \<Rightarrow> upload_request \<Rightarrow> api_request" where
  "api_uploadAttachment server accessToken payload = api_post server ''/attachments/upload'' accessToken (BodyUpload payload)"

definition api_downloadAttachment :: "server_config \<Rightarrow> string \<Rightarrow> string \<Rightarrow> api_request" where
  "api_downloadAttachment server accessToken attachmentId =
     api_get server (''/attachments/'' @ attachmentId @ ''/download'') accessToken"

definition api_syncBootstrap :: "server_config \<Rightarrow> string \<Rightarrow> int \<Rightarrow> api_request" where
  "api_syncBootstrap server accessToken limit =
     api_get server (''/sync/bootstrap?'' @ query_string [(''limit'', limit)]) accessToken"

definition poll_params :: "int \<Rightarrow> int \<Rightarrow> int \<Rightarrow> (string \<times> int) list" where
  "poll_params cursor timeoutSec limit = [(''cursor'', cursor), (''timeoutSec'', timeoutSec), (''limit'', limit)]"

definition api_syncPoll :: "server_config \<Rightarrow> string \<Rightarrow> int \<Rightarrow> int \<Rightarrow> int \<Rightarrow> api_request" where
  "api_syncPoll server accessToken cursor timeoutSec limit =
     api_get server (''/sync/poll?'' @ query_string (poll_params cursor timeoutSec limit)) accessToken"

text \<open>The URL class of the platform: \<open>set_params base url ps\<close> parses \<open>url\<close>, against \<open>base\<close> when it is
  relative, and sets the query parameters; \<open>None\<close> is the \<open>TypeError\<close> of an invalid URL.\<close>

type_synonym url_setter = "string option \<Rightarrow> string \<Rightarrow> (string \<times> string) list \<Rightarrow> string option"

definition buildSyncPollEndpoint :: "url_setter \<Rightarrow> server_config \<Rightarrow> string \<Rightarrow> int \<Rightarrow> int \<Rightarrow> int \<Rightarrow> string option" where
  "buildSyncPollEndpoint set_params server endpointUrl cursor timeoutSec limit =
     set_params
       (if startsWith endpointUrl ''http://'' \<or> startsWith endpointUrl ''https://'' then None else Some (sc_apiBaseUrl server))
       endpointUrl (map (\<lambda>(k, v). (k, int_digits v)) (poll_params cursor timeoutSec limit))"

definition api_syncPollAtEndpoint ::
    "url_setter \<Rightarrow> server_config \<Rightarrow> string \<Rightarrow> string \<Rightarrow> int \<Rightarrow> int \<Rightarrow> int \<Rightarrow> js_error + api_request" where
  "api_syncPollAtEndpoint set_params server accessToken endpointUrl cursor timeoutSec limit =
     (case buildSyncPollEndpoint set_params server endpointUrl cursor timeoutSec limit of
        None \<Rightarrow> Inl (JsError ''TypeError'')
      | Some endpoint \<Rightarrow>
          Inr \<lparr>rq_url = endpoint, rq_method = GET, rq_body = NoBody, rq_accessToken = Some accessToken\<rparr>)"

definition api_transportEndpoints :: "server_config \<Rightarrow> string \<Rightarrow> api_request" where
  "api_transportEndpoints server accessToken = api_get server ''/transport/endpoints'' accessToken"

lemmas api_endpoints = api_createDirect_def api_createGroup_def api_listConversations_def api_getConversation_def
  api_addMember_def api_sendMessage_def api_listMessages_def api_createReceipt_def api_uploadAttachment_def
  api_downloadAttachment_def api_syncBootstrap_def api_syncPoll_def api_transportEndpoints_def

subsection \<open>Properties\<close>

text \<open>An answer of the relay becomes a result only with a status between 200 and 299: every other status
  is thrown as an \<open>ApiClientError\<close> that carries the status, or, when a body announced as JSON cannot be
  parsed, as a \<open>SyntaxError\<close> that no longer tells the status.\<close>

theorem only_success_is_returned:
  "(read_response (Inr r) = Inr payload \<longrightarrow> 200 \<le> hr_status r \<and> hr_status r \<le> 299)
   \<and> (hr_status r < 200 \<or> 299 < hr_status r \<longrightarrow>
       (\<exists>p. read_response (Inr r) = Inl (ApiClientError (hr_status r) p)) \<or> read_response (Inr r) = Inl (JsError ''SyntaxError''))"
  by (auto simp: read_response_def Let_def split: option.split)

lemma only_success_is_returned_witness:
  "read_response (Inr \<lparr>hr_status = 503, hr_contentType = Some ''text/html'', hr_json = None\<rparr>) \<noteq> Inr JNull"
  using only_success_is_returned [of "\<lparr>hr_status = 503, hr_contentType = Some ''text/html'', hr_json = None\<rparr>" JNull] by simp

end
