(* ===== verification/Message_Db.thy ===== *)
theory Message_Db
  imports Prelude
begin

text \<open>
  The SQLite tables of \<open>src-tauri/src/main.rs\<close> behind the native calls \<open>messaging_store_*\<close>, with one
  definition per command. The payload columns are polymorphic: the shell stores texts there and never
  looks inside, so the same commands describe the encrypted rows and the values the client put into them.
  Rows are kept in the order of their insertion, which is also how ties of an \<open>ORDER BY\<close> come out.
\<close>

subsection \<open>Tables\<close>

record 'p conversation_row =
  cr_id :: string
  cr_payload :: 'p
  cr_updated_at :: string

record 'p message_row =
  mr_id :: string
  mr_conversation_id :: string
  mr_server_sequence :: "int option"
  mr_payload :: 'p
  mr_created_at :: string

record 'p outbox_row =
  or_client_message_id :: string
  or_conversation_id :: string
  or_payload :: 'p
  or_created_at :: string
  or_retry_count :: int

record ('c, 'm, 'o) message_db =
  db_conversations :: "'c conversation_row list"
  db_messages :: "'m message_row list"
  db_outbox :: "'o outbox_row list"
  db_sync_cursor :: "int option"

definition empty_db :: "('c, 'm, 'o) message_db" where
  "empty_db = \<lparr>db_conversations = [], db_messages = [], db_outbox = [], db_sync_cursor = None\<rparr>"

subsection \<open>Commands\<close>

text \<open>\<open>INSERT ... ON CONFLICT(key) DO UPDATE\<close>: in place when the key is there, else at the end.\<close>

definition sql_upsert :: "('r \<Rightarrow> string) \<Rightarrow> ('r \<Rightarrow> 'r \<Rightarrow> 'r) \<Rightarrow> 'r \<Rightarrow> 'r list \<Rightarrow> 'r list" where
  "sql_upsert key on_conflict row rows =
     (case find_index (\<lambda>r. key r = key row) rows of None \<Rightarrow> rows @ [row] | Some i \<Rightarrow> rows[i := on_conflict (rows ! i) row])"

definition messaging_store_upsert_conversation :: "string \<Rightarrow> 'c \<Rightarrow> string \<Rightarrow> ('c, 'm, 'o) message_db \<Rightarrow> ('c, 'm, 'o) message_db" where
  "messaging_store_upsert_conversation conversation_id payload updated_at db = db\<lparr>db_conversations :=
     sql_upsert cr_id (\<lambda>old new. new) \<lparr>cr_id = conversation_id, cr_payload = payload, cr_updated_at = updated_at\<rparr> (db_conversations db)\<rparr>"

definition messaging_store_upsert_message ::
    "string \<Rightarrow> string \<Rightarrow> int option \<Rightarrow> 'm \<Rightarrow> string \<Rightarrow> ('c, 'm, 'o) message_db \<Rightarrow> ('c, 'm, 'o) message_db" where
  "messaging_store_upsert_message message_id conversation_id server_sequence payload created_at db = db\<lparr>db_messages :=
     sql_upsert mr_id (\<lambda>old new. new) \<lparr>mr_id = message_id, mr_conversation_id = conversation_id,
       mr_server_sequence = server_sequence, mr_payload = payload, mr_created_at = created_at\<rparr> (db_messages db)\<rparr>"

text \<open>Comparators of the \<open>ORDER BY\<close> clauses.\<close>

definition descending :: "'a::linorder \<Rightarrow> 'a \<Rightarrow> int" where
  "descending a b = (if b < a then - 1 else if a < b then 1 else 0)"

definition messaging_store_list_conversations :: "('c, 'm, 'o) message_db \<Rightarrow> 'c list" where
  "messaging_store_list_conversations db =
     map cr_payload (js_sort (\<lambda>a b. descending (cr_updated_at a) (cr_updated_at b)) (db_conversations db))"

definition sequence_or_zero :: "'m message_row \<Rightarrow> int" where
  "sequence_or_zero r = (case mr_server_sequence r of None \<Rightarrow> 0 | Some n \<Rightarrow> n)"

definition messaging_store_list_messages :: "string \<Rightarrow> int \<Rightarrow> ('c, 'm, 'o) message_db \<Rightarrow> 'm list" where
  "messaging_store_list_messages conversation_id limit db =
     (let normalized_limit = (if limit \<le> 0 then 100 else min limit 500) in
      take (nat normalized_limit) (map mr_payload
        (js_sort (\<lambda>a b. descending (sequence_or_zero a, mr_created_at a) (sequence_or_zero b, mr_created_at b))
          (filter (\<lambda>r. mr_conversation_id r = conversation_id) (db_messages db)))))"

definition messaging_store_enqueue_outbox :: "string \<Rightarrow> string \<Rightarrow> 'o \<Rightarrow> string \<Rightarrow> ('c, 'm, 'o) message_db \<Rightarrow> ('c, 'm, 'o) message_db" where
  "messaging_store_enqueue_outbox client_message_id conversation_id payload created_at db = db\<lparr>db_outbox :=
     sql_upsert or_client_message_id (\<lambda>old new. new\<lparr>or_retry_count := or_retry_count old\<rparr>)
       \<lparr>or_client_message_id = client_message_id, or_conversation_id = conversation_id, or_payload = payload,
        or_created_at = created_at, or_retry_count = 0\<rparr> (db_outbox db)\<rparr>"

definition messaging_store_delete_outbox :: "string \<Rightarrow> ('c, 'm, 'o) message_db \<Rightarrow> ('c, 'm, 'o) message_db" where
  "messaging_store_delete_outbox client_message_id db =
     db\<lparr>db_outbox := filter (\<lambda>r. or_client_message_id r \<noteq> client_message_id) (db_outbox db)\<rparr>"

definition messaging_store_increment_outbox_retry :: "string \<Rightarrow> ('c, 'm, 'o) message_db \<Rightarrow> ('c, 'm, 'o) message_db" where
  "messaging_store_increment_outbox_retry client_message_id db = db\<lparr>db_outbox :=
     map (\<lambda>r. if or_client_message_id r = client_message_id then r\<lparr>or_retry_count := or_retry_count r + 1\<rparr> else r) (db_outbox db)\<rparr>"

definition messaging_store_list_outbox :: "('c, 'm, 'o) message_db \<Rightarrow> 'o outbox_row list" where
  "messaging_store_list_outbox db = js_sort (\<lambda>a b. descending (or_created_at b) (or_created_at a)) (db_outbox db)"

definition messaging_store_read_sync_cursor :: "('c, 'm, 'o) message_db \<Rightarrow> int" where
  "messaging_store_read_sync_cursor db = (case db_sync_cursor db of None \<Rightarrow> 0 | Some c \<Rightarrow> c)"

definition messaging_store_write_sync_cursor :: "int \<Rightarrow> ('c, 'm, 'o) message_db \<Rightarrow> ('c, 'm, 'o) message_db" where
  "messaging_store_write_sync_cursor cursor db = db\<lparr>db_sync_cursor := Some (case db_sync_cursor db of
      None \<Rightarrow> cursor
    | Some c \<Rightarrow> if cursor > c then cursor else c)\<rparr>"

lemmas db_defs = messaging_store_upsert_conversation_def messaging_store_upsert_message_def
  messaging_store_enqueue_outbox_def messaging_store_delete_outbox_def
  messaging_store_increment_outbox_retry_def messaging_store_write_sync_cursor_def

subsection \<open>Keys and cursor\<close>

text \<open>The primary keys of the schema.\<close>

definition db_ok :: "('c, 'm, 'o) message_db \<Rightarrow> bool" where
  "db_ok db \<longleftrightarrow> distinct (map cr_id (db_conversations db)) \<and> distinct (map mr_id (db_messages db))
     \<and> distinct (map or_client_message_id (db_outbox db))"

lemma sql_upsert_keys:
  assumes "\<And>old. key old = key row \<Longrightarrow> key (f old row) = key row"
  shows "map key (sql_upsert key f row rows) = (if key row \<in> key ` set rows then map key rows else map key rows @ [key row])"
proof (cases "find_index (\<lambda>r. key r = key row) rows")
  case None
  then have "key row \<notin> key ` set rows" by (auto simp: find_index_None)
  with None show ?thesis by (simp add: sql_upsert_def)
next
  case (Some i)
  then have i: "i < length rows" "key (rows ! i) = key row" by (auto dest: find_index_Some)
  then have "map key (rows[i := f (rows ! i) row]) = map key rows"
    using assms by (simp add: map_key_list_update)
  moreover have "key row \<in> key ` set rows" using i by (metis image_eqI nth_mem)
  ultimately show ?thesis using Some by (simp add: sql_upsert_def)
qed

lemma sql_upsert_distinct:
  assumes "\<And>old. key old = key row \<Longrightarrow> key (f old row) = key row" "distinct (map key rows)"
  shows "distinct (map key (sql_upsert key f row rows))"
  using assms(2) sql_upsert_keys [of key row f rows] assms(1) by (auto simp: image_iff)

lemma db_ok_steps [inv_intros]:
  "db_ok empty_db"
  "db_ok db \<Longrightarrow> db_ok (messaging_store_upsert_conversation i c u db)"
  "db_ok db \<Longrightarrow> db_ok (messaging_store_upsert_message j v n m t db)"
  "db_ok db \<Longrightarrow> db_ok (messaging_store_enqueue_outbox k v ob t db)"
  "db_ok db \<Longrightarrow> db_ok (messaging_store_delete_outbox k db)"
  "db_ok db \<Longrightarrow> db_ok (messaging_store_increment_outbox_retry k db)"
  "db_ok db \<Longrightarrow> db_ok (messaging_store_write_sync_cursor n' db)"
  by (auto simp: db_ok_def db_defs empty_db_def comp_def if_distrib [of or_client_message_id] cong: if_cong
      intro!: sql_upsert_distinct distinct_map_filter)

subsection \<open>Two databases with related payloads\<close>

text \<open>
  The commands are uniform in the payloads: databases that agree in everything but the payloads, which are
  related row by row, in each table by its own relation, stay so, and answer queries with related payloads in the same order.
\<close>

definition rel_cr :: "('p \<Rightarrow> 'q \<Rightarrow> bool) \<Rightarrow> 'p conversation_row \<Rightarrow> 'q conversation_row \<Rightarrow> bool" where
  "rel_cr P r q \<longleftrightarrow> cr_id r = cr_id q \<and> cr_updated_at r = cr_updated_at q \<and> P (cr_payload r) (cr_payload q)"

definition rel_mr :: "('p \<Rightarrow> 'q \<Rightarrow> bool) \<Rightarrow> 'p message_row \<Rightarrow> 'q message_row \<Rightarrow> bool" where
  "rel_mr P r q \<longleftrightarrow> mr_id r = mr_id q \<and> mr_conversation_id r = mr_conversation_id q \<and> mr_server_sequence r = mr_server_sequence q
     \<and> mr_created_at r = mr_created_at q \<and> P (mr_payload r) (mr_payload q)"

definition rel_or :: "('p \<Rightarrow> 'q \<Rightarrow> bool) \<Rightarrow> 'p outbox_row \<Rightarrow> 'q outbox_row \<Rightarrow> bool" where
  "rel_or P r q \<longleftrightarrow> or_client_message_id r = or_client_message_id q \<and> or_conversation_id r = or_conversation_id q
     \<and> or_created_at r = or_created_at q \<and> or_retry_count r = or_retry_count q \<and> P (or_payload r) (or_payload q)"

definition rel_tables :: "('a \<Rightarrow> 'b \<Rightarrow> bool) \<Rightarrow> ('c \<Rightarrow> 'd \<Rightarrow> bool) \<Rightarrow> ('e \<Rightarrow> 'f \<Rightarrow> bool) \<Rightarrow> ('a, 'c, 'e) message_db \<Rightarrow> ('b, 'd, 'f) message_db \<Rightarrow> bool" where
  "rel_tables P Q R db q \<longleftrightarrow> list_all2 (rel_cr P) (db_conversations db) (db_conversations q)
     \<and> list_all2 (rel_mr Q) (db_messages db) (db_messages q)
     \<and> list_all2 (rel_or R) (db_outbox db) (db_outbox q) \<and> db_sync_cursor db = db_sync_cursor q"

abbreviation rel_db :: "('p \<Rightarrow> 'q \<Rightarrow> bool) \<Rightarrow> ('p, 'p, 'p) message_db \<Rightarrow> ('q, 'q, 'q) message_db \<Rightarrow> bool" where
  "rel_db P \<equiv> rel_tables P P P"

lemma find_index_rel:
  assumes "list_all2 R xs ys" "\<And>x y. R x y \<Longrightarrow> p x = q y"
  shows "find_index p xs = find_index q ys"
  using assms(1) by (induction rule: list_all2_induct) (auto simp: assms(2))

lemma sort_insert_rel:
  assumes "list_all2 R xs ys" "R x y" "\<And>a b c d. R a c \<Longrightarrow> R b d \<Longrightarrow> f a b = g c d"
  shows "list_all2 R (sort_insert f x xs) (sort_insert g y ys)"
  using assms(1) assms(2) by (induction rule: list_all2_induct) (auto simp: assms(3) [OF assms(2)])

lemma js_sort_rel:
  assumes "list_all2 R xs ys" "\<And>a b c d. R a c \<Longrightarrow> R b d \<Longrightarrow> f a b = g c d"
  shows "list_all2 R (js_sort f xs) (js_sort g ys)"
  using assms(1) by (induction rule: list_all2_induct) (auto simp: js_sort_def intro: sort_insert_rel [OF _ _ assms(2)])

lemma filter_rel:
  assumes "list_all2 R xs ys" "\<And>x y. R x y \<Longrightarrow> p x = q y"
  shows "list_all2 R (filter p xs) (filter q ys)"
  using assms(1) by (induction rule: list_all2_induct) (auto simp: assms(2))

lemma map_rel:
  assumes "list_all2 R xs ys" "\<And>x y. R x y \<Longrightarrow> Q (f x) (g y)"
  shows "list_all2 Q (map f xs) (map g ys)"
  using assms(1) by (induction rule: list_all2_induct) (auto simp: assms(2))

lemma sql_upsert_rel:
  assumes "list_all2 R xs ys" "R x y" "\<And>a b. R a b \<Longrightarrow> key a = key' b" "\<And>a b. R a b \<Longrightarrow> R (f a x) (g b y)"
  shows "list_all2 R (sql_upsert key f x xs) (sql_upsert key' g y ys)"
proof -
  have i: "find_index (\<lambda>r. key r = key x) xs = find_index (\<lambda>r. key' r = key' y) ys"
    by (rule find_index_rel [OF assms(1)]) (simp add: assms(3) assms(3) [OF assms(2)])
  show ?thesis
  proof (cases "find_index (\<lambda>r. key' r = key' y) ys")
    case None
    with i assms(1,2) show ?thesis by (simp add: sql_upsert_def list_all2_appendI)
  next
    case (Some k)
    then have "k < length ys" by (auto dest: find_index_Some)
    then have "R (xs ! k) (ys ! k)" using assms(1) by (simp add: list_all2_conv_all_nth)
    then show ?thesis using i Some assms(1,4) by (simp add: sql_upsert_def list_all2_update_cong)
  qed
qed

lemma rel_tables_empty: "rel_tables P Q R empty_db empty_db"
  by (simp add: rel_tables_def empty_db_def)

lemma rel_tables_steps:
  assumes "rel_tables P Q R db q"
  shows "P c d \<Longrightarrow> rel_tables P Q R (messaging_store_upsert_conversation i c u db) (messaging_store_upsert_conversation i d u q)"
    and "Q m n \<Longrightarrow> rel_tables P Q R (messaging_store_upsert_message i v k m t db) (messaging_store_upsert_message i v k n t q)"
    and "R x y \<Longrightarrow> rel_tables P Q R (messaging_store_enqueue_outbox i v x t db) (messaging_store_enqueue_outbox i v y t q)"
    and "rel_tables P Q R (messaging_store_delete_outbox i db) (messaging_store_delete_outbox i q)"
    and "rel_tables P Q R (messaging_store_increment_outbox_retry i db) (messaging_store_increment_outbox_retry i q)"
    and "rel_tables P Q R (messaging_store_write_sync_cursor j db) (messaging_store_write_sync_cursor j q)"
  using assms unfolding rel_tables_def db_defs
  by (auto intro!: sql_upsert_rel filter_rel map_rel simp: rel_cr_def rel_mr_def rel_or_def)

lemma rel_tables_queries:
  assumes "rel_tables P Q R db q"
  shows "list_all2 P (messaging_store_list_conversations db) (messaging_store_list_conversations q)"
    and "list_all2 Q (messaging_store_list_messages v n db) (messaging_store_list_messages v n q)"
    and "list_all2 (rel_or R) (messaging_store_list_outbox db) (messaging_store_list_outbox q)"
    and "messaging_store_read_sync_cursor db = messaging_store_read_sync_cursor q"
proof -
  note r = assms [unfolded rel_tables_def]
  show "list_all2 P (messaging_store_list_conversations db) (messaging_store_list_conversations q)"
    using r by (auto simp: messaging_store_list_conversations_def rel_cr_def intro!: map_rel [OF js_sort_rel])
  show "list_all2 Q (messaging_store_list_messages v n db) (messaging_store_list_messages v n q)"
    using r by (auto simp: messaging_store_list_messages_def rel_mr_def sequence_or_zero_def
        intro!: list_all2_takeI map_rel [OF js_sort_rel [OF filter_rel]])
  show "list_all2 (rel_or R) (messaging_store_list_outbox db) (messaging_store_list_outbox q)"
    using r by (auto simp: messaging_store_list_outbox_def rel_or_def intro!: js_sort_rel)
  show "messaging_store_read_sync_cursor db = messaging_store_read_sync_cursor q"
    using r by (simp add: messaging_store_read_sync_cursor_def)
qed

end
