(* ===== verification/Secure_Storage.thy ===== *)
theory Secure_Storage
  imports Api_Errors "HOL-Library.Word"
begin

text \<open>
  \<open>services/secureStorage.ts\<close>: secrets in the keyring of the operating system, behind native calls
  (\<open>invoke\<close>), with \<open>localStorage\<close> as the fallback for keys that are not sensitive. A native call may
  fail: \<open>fault n\<close> is the text the \<open>n\<close>-th call of the run rejects with, if it does. The successful calls
  behave as the commands of \<open>src-tauri/src/main.rs\<close>, on a map from keys to values.
\<close>

subsection \<open>The device\<close>

type_synonym byte = "8 word"
type_synonym bytes = "byte list"
type_synonym fault = "nat \<Rightarrow> string option"

record device =
  dv_tauri :: bool
  dv_calls :: nat
  dv_keyring :: "string \<rightharpoonup> string"
  dv_fallback :: "string \<rightharpoonup> string"
  dv_draw :: nat
  dv_mem :: "bytes list"

type_synonym ('d, 'a) io = "('d device_scheme, js_error, 'a) eff"

text \<open>\<open>await invoke(...)\<close>: a rejected call has no effect and throws the text of the command.\<close>

definition native :: "fault \<Rightarrow> ('d device_scheme \<Rightarrow> 'a \<times> 'd device_scheme) \<Rightarrow> ('d, 'a) io" where
  "native fault f s =
     (let n = dv_calls s; s1 = s\<lparr>dv_calls := Suc n\<rparr> in
      case fault n of
        Some msg \<Rightarrow> (Inl (Thrown (JStr msg)), s1)
      | None \<Rightarrow> (case f s1 of (a, s2) \<Rightarrow> (Inr a, s2)))"

definition fallbackPrefix :: string where "fallbackPrefix = ''secure-messenger-fallback:''"

definition strictSensitivePrefixes :: "string list" where
  "strictSensitivePrefixes = [''auth.'', ''identity.'', ''messaging.store.key.'']"

definition isSensitiveKey :: "string \<Rightarrow> bool" where
  "isSensitiveKey key \<longleftrightarrow> list_ex (\<lambda>prefix. startsWith key prefix) strictSensitivePrefixes"

text \<open>\<open>String(error ?? "")\<close>\<close>

fun error_string :: "js_error \<Rightarrow> string" where
  "error_string (Thrown JNull) = []"
| "error_string (Thrown v) = to_str v"
| "error_string (JsError message) = ''Error: '' @ message"
| "error_string (ApiClientError status payload) = ''Error: '' @
     (case payload_error_field payload ''message'' of Some m \<Rightarrow> m | None \<Rightarrow> ''API request failed'')"

definition isMissingSecureEntryError :: "js_error \<Rightarrow> bool" where
  "isMissingSecureEntryError error \<longleftrightarrow>
     (let message = toLowerCase (error_string error) in
      str_includes message ''no entry'' \<or> str_includes message ''not found''
      \<or> str_includes message ''no matching entry'' \<or> str_includes message ''cannot find''
      \<or> str_includes message ''element not found'' \<or> str_includes message ''file specified'')"

subsection \<open>The keyring\<close>

definition unavailable :: js_error where
  "unavailable = JsError ''secure keyring is unavailable outside tauri runtime''"

definition setStrict :: "fault \<Rightarrow> string \<Rightarrow> string \<Rightarrow> ('d, unit) io" where
  "setStrict fault key val s =
     (if \<not> dv_tauri s then throw unavailable s
      else native fault (\<lambda>s. ((), s\<lparr>dv_keyring := (dv_keyring s)(key \<mapsto> val)\<rparr>)) s)"

definition getStrict :: "fault \<Rightarrow> string \<Rightarrow> ('d, string option) io" where
  "getStrict fault key s =
     (if \<not> dv_tauri s then throw unavailable s
      else catch (native fault (\<lambda>s. (dv_keyring s key, s)))
             (\<lambda>e. if isMissingSecureEntryError e then ret None else throw e) s)"

definition deleteStrict :: "fault \<Rightarrow> string \<Rightarrow> ('d, unit) io" where
  "deleteStrict fault key s =
     (if \<not> dv_tauri s then throw unavailable s
      else catch (native fault (\<lambda>s. ((), s\<lparr>dv_keyring := (dv_keyring s)(key := None)\<rparr>)))
             (\<lambda>e. if isMissingSecureEntryError e then ret () else throw e) s)"

subsection \<open>secureStorage\<close>

definition fallback_set :: "string \<Rightarrow> string \<Rightarrow> ('d, unit) io" where
  "fallback_set key val = upd (\<lambda>s. s\<lparr>dv_fallback := (dv_fallback s)(fallbackPrefix @ key \<mapsto> val)\<rparr>)"

definition fallback_get :: "string \<Rightarrow> ('d, string option) io" where
  "fallback_get key = rd (\<lambda>s. dv_fallback s (fallbackPrefix @ key))"

definition fallback_remove :: "string \<Rightarrow> ('d, unit) io" where
  "fallback_remove key = upd (\<lambda>s. s\<lparr>dv_fallback := (dv_fallback s)(fallbackPrefix @ key := None)\<rparr>)"

definition storage_set :: "fault \<Rightarrow> string \<Rightarrow> string \<Rightarrow> ('d, unit) io" where
  "storage_set fault key val s =
     (if isSensitiveKey key then setStrict fault key val s
      else if dv_tauri s then catch (setStrict fault key val) (\<lambda>_. fallback_set key val) s
      else fallback_set key val s)"

definition storage_get :: "fault \<Rightarrow> string \<Rightarrow> ('d, string option) io" where
  "storage_get fault key s =
     (if isSensitiveKey key then getStrict fault key s
      else if dv_tauri s then catch (getStrict fault key) (\<lambda>_. fallback_get key) s
      else fallback_get key s)"

text \<open>\<open>delete\<close> removes the fallback entry even when the keyring call succeeded.\<close>

definition storage_delete :: "fault \<Rightarrow> string \<Rightarrow> ('d, unit) io" where
  "storage_delete fault key s =
     (if isSensitiveKey key then deleteStrict fault key s
      else if dv_tauri s then sq (catch (deleteStrict fault key) (\<lambda>_. ret ())) (fallback_remove key) s
      else fallback_remove key s)"

lemmas storage_defs = storage_set_def storage_get_def storage_delete_def setStrict_def getStrict_def
  deleteStrict_def fallback_set_def fallback_get_def fallback_remove_def native_def

subsection \<open>Contract\<close>

text \<open>
  A store of named values: what \<open>secureStorage\<close> promises to its clients as long as native calls do not
  fail. \<open>holds s\<close> says when the contract applies, \<open>content s\<close> is the abstract map.
\<close>

locale named_values =
  fixes holds :: "'s \<Rightarrow> bool"
    and content :: "'s \<Rightarrow> string \<Rightarrow> string option"
    and usable :: "string \<Rightarrow> bool"
    and get :: "string \<Rightarrow> ('s, 'e, string option) eff"
    and put :: "string \<Rightarrow> string \<Rightarrow> ('s, 'e, unit) eff"
  assumes get_ok: "holds s \<Longrightarrow> usable k \<Longrightarrow> \<exists>s'. get k s = (Inr (content s k), s') \<and> holds s' \<and> content s' = content s"
    and put_ok: "holds s \<Longrightarrow> usable k \<Longrightarrow>
      \<exists>s'. put k v s = (Inr (), s') \<and> holds s' \<and> content s' = (content s)(k \<mapsto> v)"
begin

lemma get_result: "holds s \<Longrightarrow> usable k \<Longrightarrow> fst (get k s) = Inr (content s k)"
  using get_ok by fastforce

lemma get_after_put: "holds s \<Longrightarrow> usable k \<Longrightarrow> usable k' \<Longrightarrow>
    fst (sq (put k v) (get k') s) = Inr (((content s)(k \<mapsto> v)) k')"
  using put_ok [of s k v] get_ok by (fastforce simp: eff_simps)

text \<open>A sequence of writes: the last value of each name is read back.\<close>

fun put_all :: "(string \<times> string) list \<Rightarrow> ('s, 'e, unit) eff" where
  "put_all [] = ret ()"
| "put_all ((k, v) # kvs) = sq (put k v) (put_all kvs)"

lemma put_all_ok:
  "holds s \<Longrightarrow> \<forall>(k, v) \<in> set kvs. usable k \<Longrightarrow>
    \<exists>s'. put_all kvs s = (Inr (), s') \<and> holds s' \<and> content s' = content s ++ map_of (rev kvs)"
proof (induction kvs arbitrary: s)
  case Nil
  then show ?case by (simp add: ret_def)
next
  case (Cons kv kvs)
  obtain k v where kv: "kv = (k, v)" by (cases kv)
  obtain s1 where s1: "put k v s = (Inr (), s1)" "holds s1" "content s1 = (content s)(k \<mapsto> v)"
    using put_ok [of s k v] Cons.prems by (auto simp: kv)
  have "\<forall>(k, v) \<in> set kvs. usable k" using Cons.prems by (simp add: kv)
  then obtain s2 where "put_all kvs s1 = (Inr (), s2)" "holds s2" "content s2 = content s1 ++ map_of (rev kvs)"
    using Cons.IH [OF s1(2)] by blast
  then show ?case using s1 by (auto simp: kv eff_simps map_add_def fun_eq_iff split: option.split)
qed

end

text \<open>The interface holds for sensitive keys inside the desktop shell while no native call fails.\<close>

definition healthy :: "fault \<Rightarrow> 'd device_scheme \<Rightarrow> bool" where
  "healthy fault s \<longleftrightarrow> dv_tauri s \<and> (\<forall>n \<ge> dv_calls s. fault n = None)"

interpretation secrets: named_values "healthy fault" dv_keyring isSensitiveKey "storage_get fault" "storage_set fault"
  for fault :: fault
proof
  fix s :: "'d device_scheme" and k v
  assume h: "healthy fault s" and k: "isSensitiveKey k"
  show "\<exists>s'. storage_get fault k s = (Inr (dv_keyring s k), s') \<and> healthy fault s' \<and> dv_keyring s' = dv_keyring s"
    using h k by (simp add: storage_defs healthy_def eff_simps Let_def)
  show "\<exists>s'. storage_set fault k v s = (Inr (), s') \<and> healthy fault s' \<and> dv_keyring s' = (dv_keyring s)(k \<mapsto> v)"
    using h k by (simp add: storage_defs healthy_def eff_simps Let_def)
qed

subsection \<open>Secrets stay in the keyring\<close>

datatype storage_op = OpSet string string | OpGet string | OpDelete string

fun run_op :: "fault \<Rightarrow> storage_op \<Rightarrow> 'd device_scheme \<Rightarrow> 'd device_scheme" where
  "run_op fault (OpSet k v) s = snd (storage_set fault k v s)"
| "run_op fault (OpGet k) s = snd (storage_get fault k s)"
| "run_op fault (OpDelete k) s = snd (storage_delete fault k s)"

lemma sensitive_key_no_fallback:
  assumes "isSensitiveKey k"
  shows "dv_fallback (run_op fault op s) (fallbackPrefix @ k) = dv_fallback s (fallbackPrefix @ k)
    \<or> dv_fallback (run_op fault op s) (fallbackPrefix @ k) = None"
  using assms by (cases op) (auto simp: storage_defs eff_simps Let_def split: option.split sum.split prod.split)

text \<open>C11. No secret leaves the keyring: whatever sequence of reads, writes and deletions is made, inside
  the desktop shell or in a browser, and whichever native calls fail, \<open>localStorage\<close> never comes to
  hold a value under a sensitive key; and a failed write of a secret is reported, not absorbed.\<close>

theorem secrets_never_reach_localStorage:
  assumes "isSensitiveKey k" "dv_fallback s (fallbackPrefix @ k) = None"
  shows "dv_fallback (fold (run_op fault) ops s) (fallbackPrefix @ k) = None
    \<and> (fst (storage_set fault k v s) = Inr () \<longleftrightarrow> dv_keyring (snd (storage_set fault k v s)) = (dv_keyring s)(k \<mapsto> v)
        \<and> dv_tauri s \<and> fault (dv_calls s) = None)"
proof
  show "dv_fallback (fold (run_op fault) ops s) (fallbackPrefix @ k) = None"
    using assms(2)
  proof (induction ops arbitrary: s)
    case (Cons op ops)
    then show ?case using sensitive_key_no_fallback [OF assms(1), of fault op s] by auto
  qed simp
  show "fst (storage_set fault k v s) = Inr () \<longleftrightarrow> dv_keyring (snd (storage_set fault k v s)) = (dv_keyring s)(k \<mapsto> v)
        \<and> dv_tauri s \<and> fault (dv_calls s) = None"
    using assms(1) by (simp add: storage_defs eff_simps Let_def split: option.split)
qed

definition ex_device :: device where
  "ex_device = \<lparr>dv_tauri = True, dv_calls = 0, dv_keyring = Map.empty, dv_fallback = Map.empty, dv_draw = 0, dv_mem = []\<rparr>"

lemma secrets_never_reach_localStorage_witness:
  "dv_fallback (fold (run_op (\<lambda>n. if n = 0 then Some ''denied'' else None))
     [OpSet ''identity.device.private'' ''secret'', OpSet ''ui.theme'' ''dark''] ex_device)
     (fallbackPrefix @ ''identity.device.private'') = None"
proof -
  have "isSensitiveKey ''identity.device.private''" by code_simp
  moreover have "dv_fallback ex_device (fallbackPrefix @ ''identity.device.private'') = None" by (simp add: ex_device_def)
  ultimately show ?thesis using secrets_never_reach_localStorage by blast
qed

end
