(* ===== verification/Crypto.thy ===== *)
theory Crypto
  imports Secure_Storage
begin

text \<open>
  \<open>services/messaging/cryptoProvider.ts\<close> over libsodium. The library is not part of the repository: it
  is the record \<open>sodium\<close> of its functions, with a thrown error as \<open>Inl\<close> of its message; \<open>sodium_ok\<close>
  states what the provider relies on (decryption inverts encryption, the codecs are inverse).
  The \<open>n\<close>-th draw from its random generator is \<open>so_random n\<close>. Buffers that hold secrets live in
  \<open>dv_mem\<close>, so that \<open>wipeBytes\<close> and what it misses can be stated.
\<close>

subsection \<open>The library\<close>

record sodium =
  so_random :: "nat \<Rightarrow> nat \<Rightarrow> bytes"
  so_keypair :: "nat \<Rightarrow> bytes \<times> bytes"
  so_encrypt :: "bytes \<Rightarrow> bytes \<Rightarrow> bytes \<Rightarrow> string + bytes"
  so_decrypt :: "bytes \<Rightarrow> bytes \<Rightarrow> bytes \<Rightarrow> string + bytes"
  so_seal :: "nat \<Rightarrow> bytes \<Rightarrow> bytes \<Rightarrow> string + bytes"
  so_seal_open :: "bytes \<Rightarrow> bytes \<Rightarrow> bytes \<Rightarrow> string + bytes"
  so_to_base64 :: "bytes \<Rightarrow> string"
  so_from_base64 :: "string \<Rightarrow> string + bytes"
  so_from_string :: "string \<Rightarrow> bytes"
  so_to_string :: "bytes \<Rightarrow> string + string"
  so_to_hex :: "bytes \<Rightarrow> string"
  so_hash_sha256 :: "(bytes \<Rightarrow> bytes) option"
  so_generichash :: "nat \<Rightarrow> bytes \<Rightarrow> bytes"

definition KEYBYTES :: nat where "KEYBYTES = 32"
definition NPUBBYTES :: nat where "NPUBBYTES = 24"
definition EXPECTED_NONCE_BYTES :: nat where "EXPECTED_NONCE_BYTES = 24"
definition MESSAGE_ALGORITHM :: string where "MESSAGE_ALGORITHM = ''xchacha20poly1305_ietf+sealedbox''"
definition KEY_WRAP_ALGORITHM :: string where "KEY_WRAP_ALGORITHM = ''x25519-sealedbox''"
definition ATTACHMENT_ALGORITHM :: string where "ATTACHMENT_ALGORITHM = ''xchacha20poly1305_ietf''"

definition sodium_ok :: "sodium \<Rightarrow> bool" where
  "sodium_ok L \<longleftrightarrow>
     (\<forall>n len. length (so_random L n len) = len) \<and>
     (\<forall>m n k. length n = NPUBBYTES \<longrightarrow> length k = KEYBYTES \<longrightarrow>
        (\<exists>c. so_encrypt L m n k = Inr c \<and> so_decrypt L c n k = Inr m)) \<and>
     (\<forall>r d m. \<exists>c. so_seal L r m (fst (so_keypair L d)) = Inr c
        \<and> so_seal_open L c (fst (so_keypair L d)) (snd (so_keypair L d)) = Inr m) \<and>
     (\<forall>b. so_from_base64 L (so_to_base64 L b) = Inr b) \<and>
     (\<forall>b. b \<noteq> [] \<longrightarrow> so_to_base64 L b \<noteq> []) \<and>
     (\<forall>s. so_to_string L (so_from_string L s) = Inr s)"

subsection \<open>Buffers and draws\<close>

definition lift_lib :: "string + 'a \<Rightarrow> ('d, 'a) io" where
  "lift_lib r = (case r of Inl msg \<Rightarrow> throw (JsError msg) | Inr a \<Rightarrow> ret a)"

definition draw :: "(nat \<Rightarrow> 'a) \<Rightarrow> ('d, 'a) io" where
  "draw f s = (Inr (f (dv_draw s)), s\<lparr>dv_draw := Suc (dv_draw s)\<rparr>)"

text \<open>A new buffer holding \<open>b\<close>; the result is its number.\<close>

definition alloc :: "bytes \<Rightarrow> ('d, nat) io" where
  "alloc b s = (Inr (length (dv_mem s)), s\<lparr>dv_mem := dv_mem s @ [b]\<rparr>)"

definition wipeBytes :: "nat \<Rightarrow> 'd device_scheme \<Rightarrow> 'd device_scheme" where
  "wipeBytes i s = s\<lparr>dv_mem := (dv_mem s)[i := replicate (length (dv_mem s ! i)) 0]\<rparr>"

definition parseBase64 :: "sodium \<Rightarrow> string \<Rightarrow> ('d, bytes) io" where
  "parseBase64 L val = lift_lib (so_from_base64 L val)"

definition hashSha256 :: "sodium \<Rightarrow> bytes \<Rightarrow> bytes" where
  "hashSha256 L b = (case so_hash_sha256 L of Some f \<Rightarrow> f b | None \<Rightarrow> so_generichash L 32 b)"

fun map_io :: "('a \<Rightarrow> ('d, 'b) io) \<Rightarrow> 'a list \<Rightarrow> ('d, 'b list) io" where
  "map_io f [] = ret []"
| "map_io f (x # xs) = bnd (f x) (\<lambda>y. bnd (map_io f xs) (\<lambda>ys. ret (y # ys)))"

subsection \<open>The provider\<close>

record recipient_material =
  rm_recipientDeviceId :: string
  rm_publicKey :: string

record key_pair =
  kp_publicKey :: string
  kp_privateKey :: string

record encrypted_message =
  em_algorithm :: string
  em_cryptoVersion :: int
  em_nonce :: string
  em_ciphertext :: string
  em_recipients :: "encrypted_recipient_key_dto list"

record encrypted_attachment =
  ea_algorithm :: string
  ea_nonce :: string
  ea_ciphertext :: string
  ea_symmetricKey :: string
  ea_checksumSha256 :: string

definition generateIdentityKeyPair :: "sodium \<Rightarrow> ('d, key_pair) io" where
  "generateIdentityKeyPair L =
     bnd (draw (so_keypair L)) (\<lambda>pair.
     ret \<lparr>kp_publicKey = so_to_base64 L (fst pair), kp_privateKey = so_to_base64 L (snd pair)\<rparr>)"

definition wrap_key :: "sodium \<Rightarrow> bytes \<Rightarrow> recipient_material \<Rightarrow> ('d, encrypted_recipient_key_dto) io" where
  "wrap_key L symmetricKey recipient =
     bnd (parseBase64 L (rm_publicKey recipient)) (\<lambda>recipientPublic.
     bnd (draw (\<lambda>r. so_seal L r symmetricKey recipientPublic)) (\<lambda>res.
     bnd (lift_lib res) (\<lambda>wrappedKey.
     ret \<lparr>rk_recipientDeviceId = rm_recipientDeviceId recipient, rk_wrappedKey = so_to_base64 L wrappedKey,
          rk_keyAlgorithm = KEY_WRAP_ALGORITHM\<rparr>)))"

definition encryptMessage :: "sodium \<Rightarrow> string \<Rightarrow> recipient_material list \<Rightarrow> ('d, encrypted_message) io" where
  "encryptMessage L plaintext recipients =
     bnd (draw (\<lambda>r. so_random L r KEYBYTES)) (\<lambda>symmetricKey.
     bnd (alloc symmetricKey) (\<lambda>keyBuf.
     bnd (draw (\<lambda>r. so_random L r NPUBBYTES)) (\<lambda>nonce.
     bnd (alloc (so_from_string L plaintext)) (\<lambda>textBuf.
     finally_do
       (bnd (lift_lib (so_encrypt L (so_from_string L plaintext) nonce symmetricKey)) (\<lambda>ciphertext.
        bnd (map_io (wrap_key L symmetricKey) recipients) (\<lambda>wrapped.
        ret \<lparr>em_algorithm = MESSAGE_ALGORITHM, em_cryptoVersion = 1, em_nonce = so_to_base64 L nonce,
             em_ciphertext = so_to_base64 L ciphertext, em_recipients = wrapped\<rparr>)))
       (\<lambda>s. wipeBytes textBuf (wipeBytes keyBuf s))))))"

definition check_nonce :: "bytes \<Rightarrow> ('d, unit) io" where
  "check_nonce nonce = (if length nonce \<noteq> EXPECTED_NONCE_BYTES then throw (JsError ''invalid nonce length'') else ret ())"

text \<open>Decryption with the unwrapped key, whose buffer and plaintext are wiped on every path.\<close>

definition open_with_key :: "sodium \<Rightarrow> bytes \<Rightarrow> bytes \<Rightarrow> bytes \<Rightarrow> ('d, string) io" where
  "open_with_key L ciphertext nonce key =
     bnd (lift_lib (so_decrypt L ciphertext nonce key)) (\<lambda>plaintext.
     bnd (alloc plaintext) (\<lambda>textBuf.
     finally_do (lift_lib (so_to_string L plaintext)) (wipeBytes textBuf)))"

definition decryptMessage :: "sodium \<Rightarrow> string \<Rightarrow> string \<Rightarrow> string \<Rightarrow> string \<Rightarrow> string \<Rightarrow> ('d, string) io" where
  "decryptMessage L ciphertext64 nonce64 wrappedKey64 recipientPublicKey64 recipientPrivateKey64 =
     bnd (parseBase64 L ciphertext64) (\<lambda>ciphertext.
     bnd (parseBase64 L nonce64) (\<lambda>nonce.
     bnd (parseBase64 L wrappedKey64) (\<lambda>wrappedKey.
     bnd (parseBase64 L recipientPublicKey64) (\<lambda>recipientPublicKey.
     bnd (parseBase64 L recipientPrivateKey64) (\<lambda>recipientPrivateKey.
     bnd (alloc recipientPrivateKey) (\<lambda>_.
     sq (check_nonce nonce)
       (bnd (lift_lib (so_seal_open L wrappedKey recipientPublicKey recipientPrivateKey)) (\<lambda>symmetricKey.
        bnd (alloc symmetricKey) (\<lambda>keyBuf.
        finally_do (open_with_key L ciphertext nonce symmetricKey) (wipeBytes keyBuf))))))))))"

definition encryptAttachment :: "sodium \<Rightarrow> bytes \<Rightarrow> ('d, encrypted_attachment) io" where
  "encryptAttachment L plaintext =
     bnd (draw (\<lambda>r. so_random L r KEYBYTES)) (\<lambda>symmetricKey.
     bnd (alloc symmetricKey) (\<lambda>keyBuf.
     bnd (draw (\<lambda>r. so_random L r NPUBBYTES)) (\<lambda>nonce.
     finally_do
       (bnd (lift_lib (so_encrypt L plaintext nonce symmetricKey)) (\<lambda>ciphertext.
        ret \<lparr>ea_algorithm = ATTACHMENT_ALGORITHM, ea_nonce = so_to_base64 L nonce,
             ea_ciphertext = so_to_base64 L ciphertext, ea_symmetricKey = so_to_base64 L symmetricKey,
             ea_checksumSha256 = so_to_hex L (hashSha256 L ciphertext)\<rparr>))
       (wipeBytes keyBuf))))"

definition decryptAttachment :: "sodium \<Rightarrow> string \<Rightarrow> string \<Rightarrow> string \<Rightarrow> ('d, bytes) io" where
  "decryptAttachment L ciphertext64 nonce64 symmetricKey64 =
     bnd (parseBase64 L ciphertext64) (\<lambda>ciphertext.
     bnd (parseBase64 L nonce64) (\<lambda>nonce.
     bnd (parseBase64 L symmetricKey64) (\<lambda>symmetricKey.
     bnd (alloc symmetricKey) (\<lambda>keyBuf.
     sq (check_nonce nonce)
        (finally_do (lift_lib (so_decrypt L ciphertext nonce symmetricKey)) (wipeBytes keyBuf))))))"

definition hashHex :: "sodium \<Rightarrow> string \<Rightarrow> string" where
  "hashHex L val = so_to_hex L (hashSha256 L (so_from_string L val))"

definition hashBytesHex :: "sodium \<Rightarrow> bytes \<Rightarrow> string" where
  "hashBytesHex L val = so_to_hex L (hashSha256 L val)"

definition randomSymmetricKey :: "sodium \<Rightarrow> ('d, string) io" where
  "randomSymmetricKey L = bnd (draw (\<lambda>r. so_random L r KEYBYTES)) (\<lambda>key. ret (so_to_base64 L key))"

definition encryptWithSymmetricKey :: "sodium \<Rightarrow> string \<Rightarrow> string \<Rightarrow> ('d, string \<times> string) io" where
  "encryptWithSymmetricKey L plaintext keyBase64 =
     bnd (parseBase64 L keyBase64) (\<lambda>key.
     bnd (alloc key) (\<lambda>keyBuf.
     bnd (draw (\<lambda>r. so_random L r NPUBBYTES)) (\<lambda>nonce.
     finally_do
       (bnd (lift_lib (so_encrypt L (so_from_string L plaintext) nonce key)) (\<lambda>ciphertext.
        ret (so_to_base64 L nonce, so_to_base64 L ciphertext)))
       (wipeBytes keyBuf))))"

definition decryptWithSymmetricKey :: "sodium \<Rightarrow> string \<Rightarrow> string \<Rightarrow> string \<Rightarrow> ('d, string) io" where
  "decryptWithSymmetricKey L ciphertextBase64 nonceBase64 keyBase64 =
     bnd (parseBase64 L keyBase64) (\<lambda>key.
     bnd (alloc key) (\<lambda>keyBuf.
     bnd (parseBase64 L nonceBase64) (\<lambda>nonce.
     bnd (parseBase64 L ciphertextBase64) (\<lambda>ciphertext.
     sq (check_nonce nonce)
        (finally_do (open_with_key L ciphertext nonce key) (wipeBytes keyBuf))))))"

subsection \<open>Round trips\<close>

lemma lift_lib_simps [simp]: "lift_lib (Inr a) = ret a" "lift_lib (Inl m) = throw (JsError m)"
  by (simp_all add: lift_lib_def)

lemma sodium_okD:
  assumes "sodium_ok L"
  shows "length (so_random L n len) = len" "so_from_base64 L (so_to_base64 L b) = Inr b" "so_to_string L (so_from_string L t) = Inr t"
    and "b \<noteq> [] \<Longrightarrow> so_to_base64 L b \<noteq> []"
    and "length nc = NPUBBYTES \<Longrightarrow> length k = KEYBYTES \<Longrightarrow> \<exists>c. so_encrypt L m nc k = Inr c \<and> so_decrypt L c nc k = Inr m"
    and "\<exists>c. so_seal L r m (fst (so_keypair L d)) = Inr c \<and> so_seal_open L c (fst (so_keypair L d)) (snd (so_keypair L d)) = Inr m"
  using assms by (auto simp: sodium_ok_def)

text \<open>The wrapped key \<open>w\<close> was sealed for key pair \<open>d\<close>, and opens to \<open>key\<close> for its owner.\<close>

definition wraps :: "sodium \<Rightarrow> bytes \<Rightarrow> nat \<Rightarrow> string \<Rightarrow> bool" where
  "wraps L key d w \<longleftrightarrow> (\<exists>r c. so_from_base64 L w = Inr c \<and> so_seal L r key (fst (so_keypair L d)) = Inr c \<and> so_seal_open L c (fst (so_keypair L d)) (snd (so_keypair L d)) = Inr key)"

lemma wrap_key_ok:
  assumes L: "sodium_ok L" and r: "rm_publicKey r = so_to_base64 L (fst (so_keypair L d))"
  shows "\<exists>w. wrap_key L key r s = (Inr \<lparr>rk_recipientDeviceId = rm_recipientDeviceId r, rk_wrappedKey = w,
      rk_keyAlgorithm = KEY_WRAP_ALGORITHM\<rparr>, s\<lparr>dv_draw := Suc (dv_draw s)\<rparr>) \<and> wraps L key d w"
proof -
  obtain c where "so_seal L (dv_draw s) key (fst (so_keypair L d)) = Inr c"
    "so_seal_open L c (fst (so_keypair L d)) (snd (so_keypair L d)) = Inr key"
    using sodium_okD(6) [OF L] by blast
  then show ?thesis
    using sodium_okD(2) [OF L] r
    by (auto simp: wrap_key_def parseBase64_def draw_def bnd_def ret_def wraps_def)
qed

lemma wrap_all_ok:
  assumes L: "sodium_ok L" and rs: "list_all2 (\<lambda>r d. rm_publicKey r = so_to_base64 L (fst (so_keypair L d))) rs ds"
  shows "\<exists>ws s'. map_io (wrap_key L key) rs s = (Inr ws, s') \<and> dv_mem s' = dv_mem s
    \<and> map rk_recipientDeviceId ws = map rm_recipientDeviceId rs \<and> list_all2 (\<lambda>w d. wraps L key d (rk_wrappedKey w)) ws ds"
  using rs
proof (induction rs ds arbitrary: s rule: list_all2_induct)
  case Nil
  then show ?case by (simp add: ret_def)
next
  case (Cons r rs d ds)
  obtain w where w: "wrap_key L key r s = (Inr \<lparr>rk_recipientDeviceId = rm_recipientDeviceId r, rk_wrappedKey = w,
      rk_keyAlgorithm = KEY_WRAP_ALGORITHM\<rparr>, s\<lparr>dv_draw := Suc (dv_draw s)\<rparr>)" "wraps L key d w"
    using wrap_key_ok [OF L Cons.hyps(1)] by blast
  obtain ws s' where "map_io (wrap_key L key) rs (s\<lparr>dv_draw := Suc (dv_draw s)\<rparr>) = (Inr ws, s')" "dv_mem s' = dv_mem s"
    "map rk_recipientDeviceId ws = map rm_recipientDeviceId rs" "list_all2 (\<lambda>w d. wraps L key d (rk_wrappedKey w)) ws ds"
    using Cons.IH [of "s\<lparr>dv_draw := Suc (dv_draw s)\<rparr>"] by auto
  then show ?case using w by (auto simp: bnd_def ret_def)
qed

lemma decryptMessage_ok:
  assumes L: "sodium_ok L" and n: "length nonce = NPUBBYTES" and d: "so_decrypt L c nonce key = Inr (so_from_string L text)"
    and w: "wraps L key d w"
  shows "fst (decryptMessage L (so_to_base64 L c) (so_to_base64 L nonce) w
      (so_to_base64 L (fst (so_keypair L d))) (so_to_base64 L (snd (so_keypair L d))) s) = Inr text"
  using w n d sodium_okD(2,3) [OF L]
  by (auto simp: decryptMessage_def parseBase64_def wraps_def check_nonce_def open_with_key_def alloc_def
      bnd_def ret_def sq_def finally_do_def EXPECTED_NONCE_BYTES_def NPUBBYTES_def)

text \<open>What \<open>encryptMessage\<close> makes: one ciphertext, and its key wrapped for each recipient in order.\<close>

lemma encryptMessage_sealed:
  assumes L: "sodium_ok L"
    and rs: "list_all2 (\<lambda>r d. rm_publicKey r = so_to_base64 L (fst (so_keypair L d))) recipients ds"
  shows "\<exists>c nonce key ws s'. encryptMessage L text recipients s = (Inr \<lparr>em_algorithm = MESSAGE_ALGORITHM, em_cryptoVersion = 1,
        em_nonce = so_to_base64 L nonce, em_ciphertext = so_to_base64 L c, em_recipients = ws\<rparr>, s')
    \<and> length nonce = NPUBBYTES \<and> so_decrypt L c nonce key = Inr (so_from_string L text)
    \<and> map rk_recipientDeviceId ws = map rm_recipientDeviceId recipients \<and> list_all2 (\<lambda>w d. wraps L key d (rk_wrappedKey w)) ws ds"
proof -
  let ?key = "so_random L (dv_draw s) KEYBYTES" and ?nonce = "so_random L (Suc (dv_draw s)) NPUBBYTES"
  have len: "length ?nonce = NPUBBYTES" "length ?key = KEYBYTES" by (simp_all add: sodium_okD(1) [OF L])
  obtain c where c: "so_encrypt L (so_from_string L text) ?nonce ?key = Inr c" "so_decrypt L c ?nonce ?key = Inr (so_from_string L text)"
    using sodium_okD(5) [OF L len] by blast
  let ?s = "s\<lparr>dv_draw := Suc (Suc (dv_draw s)), dv_mem := dv_mem s @ [?key, so_from_string L text]\<rparr>"
  obtain ws s' where ws: "map_io (wrap_key L ?key) recipients ?s = (Inr ws, s')"
    "map rk_recipientDeviceId ws = map rm_recipientDeviceId recipients" "list_all2 (\<lambda>w d. wraps L ?key d (rk_wrappedKey w)) ws ds"
    using wrap_all_ok [OF L rs, of ?key ?s] by blast
  have "\<exists>s'. encryptMessage L text recipients s = (Inr \<lparr>em_algorithm = MESSAGE_ALGORITHM, em_cryptoVersion = 1,
        em_nonce = so_to_base64 L ?nonce, em_ciphertext = so_to_base64 L c, em_recipients = ws\<rparr>, s')"
    using c ws by (simp add: encryptMessage_def draw_def alloc_def bnd_def finally_do_def ret_def)
  then show ?thesis using len(1) c(2) ws(2,3) by blast
qed

text \<open>End-to-end encryption round trip: a message encrypted for a list of devices is encrypted once,
  wrapped for exactly these devices in order, and every one of them, with its own key pair and its
  own wrapped key, decrypts exactly the text that was sent.\<close>

theorem every_recipient_decrypts_the_message:
  assumes "sodium_ok L"
    and "list_all2 (\<lambda>r d. rm_publicKey r = so_to_base64 L (fst (so_keypair L d))) recipients ds"
  shows "\<exists>em s'. encryptMessage L text recipients s = (Inr em, s')
    \<and> map rk_recipientDeviceId (em_recipients em) = map rm_recipientDeviceId recipients
    \<and> list_all2 (\<lambda>w d. \<forall>s2 :: device. fst (decryptMessage L (em_ciphertext em) (em_nonce em) (rk_wrappedKey w)
         (so_to_base64 L (fst (so_keypair L d))) (so_to_base64 L (snd (so_keypair L d))) s2) = Inr text) (em_recipients em) ds"
proof -
  obtain c nonce key ws s' where em: "encryptMessage L text recipients s = (Inr \<lparr>em_algorithm = MESSAGE_ALGORITHM,
        em_cryptoVersion = 1, em_nonce = so_to_base64 L nonce, em_ciphertext = so_to_base64 L c, em_recipients = ws\<rparr>, s')"
    "length nonce = NPUBBYTES" "so_decrypt L c nonce key = Inr (so_from_string L text)"
    "map rk_recipientDeviceId ws = map rm_recipientDeviceId recipients" "list_all2 (\<lambda>w d. wraps L key d (rk_wrappedKey w)) ws ds"
    using encryptMessage_sealed [OF assms] by blast
  have "list_all2 (\<lambda>w d. \<forall>s2 :: device. fst (decryptMessage L (so_to_base64 L c) (so_to_base64 L nonce) (rk_wrappedKey w)
         (so_to_base64 L (fst (so_keypair L d))) (so_to_base64 L (snd (so_keypair L d))) s2) = Inr text) ws ds"
    using em(5) by (rule list_all2_mono) (simp add: decryptMessage_ok [OF assms(1) em(2,3)])
  then show ?thesis using em(1,4) by auto
qed

text \<open>A library for the examples: keys as constant bytes, the cipher the identity, sealing a prefix.\<close>

definition to_chars :: "bytes \<Rightarrow> string" where "to_chars = map (\<lambda>b. char_of (unat b))"
definition of_chars :: "string \<Rightarrow> bytes" where "of_chars = map (\<lambda>c. of_nat (of_char c))"

definition toy_sodium :: sodium where
  "toy_sodium = \<lparr>so_random = (\<lambda>n len. replicate len (of_nat n)), so_keypair = (\<lambda>n. ([of_nat n], [of_nat n])),
     so_encrypt = (\<lambda>m n k. Inr m), so_decrypt = (\<lambda>c n k. Inr c), so_seal = (\<lambda>r m pk. Inr (pk @ m)),
     so_seal_open = (\<lambda>c pk sk. if take (length pk) c = pk then Inr (drop (length pk) c) else Inl ''incorrect key pair''),
     so_to_base64 = to_chars, so_from_base64 = (\<lambda>s. Inr (of_chars s)), so_from_string = of_chars,
     so_to_string = (\<lambda>b. Inr (to_chars b)), so_to_hex = to_chars, so_hash_sha256 = None, so_generichash = (\<lambda>n b. take n b)\<rparr>"

lemma of_to_chars [simp]: "of_chars (to_chars b) = b"
proof -
  have "of_nat (of_char (char_of (unat x) :: char)) = (x :: 8 word)" for x
  proof -
    have "(unat x :: nat) < 2 ^ LENGTH(8)" by (rule unsigned_less)
    then have "unat x < 256" by simp
    then show ?thesis by simp
  qed
  then show ?thesis by (simp add: of_chars_def to_chars_def comp_def)
qed

lemma to_of_chars [simp]: "to_chars (of_chars s) = s"
proof -
  have "char_of (unat (of_nat (of_char c) :: 8 word)) = c" for c :: char
    by (simp add: unat_of_nat)
  then show ?thesis by (simp add: of_chars_def to_chars_def comp_def)
qed

lemma toy_sodium_ok: "sodium_ok toy_sodium"
  by (simp add: sodium_ok_def toy_sodium_def) (simp add: to_chars_def)

lemma every_recipient_decrypts_the_message_witness:
  "\<exists>em s'. encryptMessage toy_sodium ''hello'' [\<lparr>rm_recipientDeviceId = ''d1'', rm_publicKey = to_chars [7]\<rparr>] ex_device = (Inr em, s')
    \<and> map rk_recipientDeviceId (em_recipients em) = [''d1'']"
proof -
  have "list_all2 (\<lambda>r d. rm_publicKey r = so_to_base64 toy_sodium (fst (so_keypair toy_sodium d)))
     [\<lparr>rm_recipientDeviceId = ''d1'', rm_publicKey = to_chars [7]\<rparr>] [7]"
    by (simp add: toy_sodium_def)
  from every_recipient_decrypts_the_message [OF toy_sodium_ok this, of "''hello''" ex_device] show ?thesis by auto
qed

subsection \<open>Secrets in memory\<close>

definition wiped :: "bytes \<Rightarrow> bool" where
  "wiped b \<longleftrightarrow> (\<forall>x \<in> set b. x = 0)"

lemma wiped_replicate [simp]: "wiped (replicate n 0)" by (simp add: wiped_def)

lemma wrap_key_mem: "dv_mem (snd (wrap_key L k r s)) = dv_mem s"
  by (auto simp: wrap_key_def parseBase64_def lift_lib_def draw_def bnd_def ret_def throw_def split: sum.split prod.split)

lemma map_io_mem: "(\<And>x s. dv_mem (snd (f x s)) = dv_mem s) \<Longrightarrow> dv_mem (snd (map_io f xs s)) = dv_mem s"
proof (induction xs arbitrary: s)
  case (Cons x xs)
  obtain r s1 where 1: "f x s = (r, s1)" "dv_mem s1 = dv_mem s" using Cons.prems [of x s] by (cases "f x s") auto
  obtain r2 s2 where 2: "map_io f xs s1 = (r2, s2)" "dv_mem s2 = dv_mem s1"
    using Cons.IH [of s1] Cons.prems by (cases "map_io f xs s1") auto
  show ?case using 1 2 by (cases r; cases r2) (auto simp: bnd_def ret_def)
qed (simp add: ret_def)

lemma wipe_last: "dv_mem (wipeBytes (length m) s) = m @ [replicate (length b) 0]" if "dv_mem s = m @ [b]"
  using that by (simp add: wipeBytes_def)

text \<open>Key hygiene: however \<open>encryptMessage\<close> ends, the buffers it made for the message key and for the
  plaintext are zero; \<open>decryptMessage\<close> zeroes the message key and the plaintext on every path too, but
  the buffer with the device's private key, the first one it makes, is never wiped.\<close>

theorem secret_buffers_after_crypto:
  fixes s :: "'d device_scheme"
  shows "(\<exists>a b. dv_mem (snd (encryptMessage L text recipients s)) = dv_mem s @ [a, b] \<and> wiped a \<and> wiped b)
   \<and> (\<forall>priv. so_from_base64 L priv64 = Inr priv \<longrightarrow>
        (\<exists>rest. dv_mem (snd (decryptMessage L c64 n64 w64 pub64 priv64 s)) = dv_mem s @ priv # rest \<and> (\<forall>b \<in> set rest. wiped b))
        \<or> dv_mem (snd (decryptMessage L c64 n64 w64 pub64 priv64 s)) = dv_mem s)"
proof
  let ?key = "so_random L (dv_draw s) KEYBYTES" and ?t = "so_from_string L text"
  let ?s = "s\<lparr>dv_draw := Suc (Suc (dv_draw s)), dv_mem := dv_mem s @ [?key, ?t]\<rparr>"
  define body :: "('d, encrypted_message) io" where "body = bnd (lift_lib (so_encrypt L ?t (so_random L (Suc (dv_draw s)) NPUBBYTES) ?key)) (\<lambda>ciphertext.
        bnd (map_io (wrap_key L ?key) recipients) (\<lambda>wrapped.
        ret \<lparr>em_algorithm = MESSAGE_ALGORITHM, em_cryptoVersion = 1, em_nonce = so_to_base64 L (so_random L (Suc (dv_draw s)) NPUBBYTES),
             em_ciphertext = so_to_base64 L ciphertext, em_recipients = wrapped\<rparr>))"
  have mem: "dv_mem (snd (body ?s)) = dv_mem s @ [?key, ?t]"
    using map_io_mem [of "wrap_key L ?key" recipients ?s, OF wrap_key_mem]
    by (auto simp: body_def lift_lib_def bnd_def ret_def throw_def split: sum.split prod.split)
  have "encryptMessage L text recipients s
      = (fst (body ?s), wipeBytes (Suc (length (dv_mem s))) (wipeBytes (length (dv_mem s)) (snd (body ?s))))"
    by (simp add: encryptMessage_def body_def draw_def alloc_def bnd_def finally_do_def ret_def split_def)
  then have "dv_mem (snd (encryptMessage L text recipients s))
      = dv_mem s @ [replicate (length ?key) 0, replicate (length ?t) 0]"
    using mem by (simp add: wipeBytes_def nth_append list_update_append)
  then show "\<exists>a b. dv_mem (snd (encryptMessage L text recipients s)) = dv_mem s @ [a, b] \<and> wiped a \<and> wiped b" by auto
next
  show "\<forall>priv. so_from_base64 L priv64 = Inr priv \<longrightarrow>
        (\<exists>rest. dv_mem (snd (decryptMessage L c64 n64 w64 pub64 priv64 s)) = dv_mem s @ priv # rest \<and> (\<forall>b \<in> set rest. wiped b))
        \<or> dv_mem (snd (decryptMessage L c64 n64 w64 pub64 priv64 s)) = dv_mem s"
    by (auto simp: decryptMessage_def parseBase64_def lift_lib_def bnd_def ret_def throw_def alloc_def sq_def check_nonce_def
        open_with_key_def finally_do_def wipeBytes_def nth_append list_update_append split: sum.split)
qed

lemma secret_buffers_after_crypto_witness:
  "dv_mem (snd (decryptMessage toy_sodium ''c'' ''n'' ''w'' ''p'' ''K'' ex_device)) \<in> insert [] (range ((#) (of_chars ''K'')))"
proof -
  have "so_from_base64 toy_sodium ''K'' = Inr (of_chars ''K'')" by (simp add: toy_sodium_def)
  with secret_buffers_after_crypto [of toy_sodium "''hi''" "[]" ex_device "''K''" "''c''" "''n''" "''w''" "''p''"]
  have "(\<exists>rest. dv_mem (snd (decryptMessage toy_sodium ''c'' ''n'' ''w'' ''p'' ''K'' ex_device)) = dv_mem ex_device @ of_chars ''K'' # rest)
    \<or> dv_mem (snd (decryptMessage toy_sodium ''c'' ''n'' ''w'' ''p'' ''K'' ex_device)) = dv_mem ex_device" by blast
  then show ?thesis by (auto simp: ex_device_def)
qed

end
