(* ===== verification/Json_Parse.thy ===== *)
theory Json_Parse
  imports Json
begin

text \<open>
  \<open>JSON.parse\<close>, with which the client reads the rows of its local store, its legacy device keys, its
  server configuration and the frames of the websocket, and its round trip with \<open>JSON.stringify\<close>.
  \<open>None\<close> is the \<open>SyntaxError\<close>. Numbers with a fraction or an exponent and characters above
  \<open>U+00FF\<close> are outside the value type of \<open>Json\<close>; the parser rejects their texts. The fuel of the
  recursive descent is the length of the text, which bounds the nesting.
\<close>

subsection \<open>Lexemes\<close>

definition json_space :: "char \<Rightarrow> bool" where
  "json_space c \<longleftrightarrow> (let n = (of_char c :: nat) in n = 32 \<or> n = 9 \<or> n = 10 \<or> n = 13)"

definition skip_ws :: "string \<Rightarrow> string" where
  "skip_ws s = dropWhile json_space s"

definition digit_char :: "char \<Rightarrow> bool" where
  "digit_char c \<longleftrightarrow> (let n = (of_char c :: nat) in 48 \<le> n \<and> n \<le> 57)"

definition digit_val :: "char \<Rightarrow> nat" where
  "digit_val c = of_char c - 48"

definition hex_val :: "char \<Rightarrow> nat option" where
  "hex_val c = (let n = (of_char c :: nat) in
     if 48 \<le> n \<and> n \<le> 57 then Some (n - 48)
     else if 97 \<le> n \<and> n \<le> 102 then Some (n - 87)
     else if 65 \<le> n \<and> n \<le> 70 then Some (n - 55)
     else None)"

definition hex4 :: "char \<Rightarrow> char \<Rightarrow> char \<Rightarrow> char \<Rightarrow> char option" where
  "hex4 a b c d = (case (hex_val a, hex_val b, hex_val c, hex_val d) of
       (Some w, Some x, Some y, Some z) \<Rightarrow> (if w = 0 \<and> x = 0 then Some (char_of (16 * y + z)) else None)
     | _ \<Rightarrow> None)"

definition unescape :: "char \<Rightarrow> char option" where
  "unescape c = (let n = (of_char c :: nat) in
     if n = 34 \<or> n = 92 \<or> n = 47 then Some c
     else if n = 98 then Some (char_of (8 :: nat))
     else if n = 102 then Some (char_of (12 :: nat))
     else if n = 110 then Some (char_of (10 :: nat))
     else if n = 114 then Some (char_of (13 :: nat))
     else if n = 116 then Some (char_of (9 :: nat))
     else None)"

definition consume :: "char \<Rightarrow> (string \<times> string) option \<Rightarrow> (string \<times> string) option" where
  "consume c r = map_option (\<lambda>(s, t). (c # s, t)) r"

text \<open>A string literal after its opening quote.\<close>

fun p_str :: "string \<Rightarrow> (string \<times> string) option" where
  "p_str [] = None"
| "p_str (c # r) =
     (if c = CHR 0x22 then Some ([], r)
      else if c = CHR 0x5C then
        (case r of
           [] \<Rightarrow> None
         | d # r' \<Rightarrow>
             if d = CHR ''u'' then
               (case r' of
                  w # x # y # z # r'' \<Rightarrow> (case hex4 w x y z of None \<Rightarrow> None | Some e \<Rightarrow> consume e (p_str r''))
                | _ \<Rightarrow> None)
             else (case unescape d of None \<Rightarrow> None | Some e \<Rightarrow> consume e (p_str r')))
      else if (of_char c :: nat) < 32 then None
      else consume c (p_str r))"

definition dec_val :: "string \<Rightarrow> nat" where
  "dec_val s = foldl (\<lambda>a c. 10 * a + digit_val c) 0 s"

definition num_end :: "string \<Rightarrow> bool" where
  "num_end r = (case r of [] \<Rightarrow> True | c # _ \<Rightarrow> \<not> digit_char c \<and> c \<noteq> CHR ''.'' \<and> c \<noteq> CHR ''e'' \<and> c \<noteq> CHR ''E'')"

definition p_nat :: "string \<Rightarrow> (nat \<times> string) option" where
  "p_nat s = (case s of
      [] \<Rightarrow> None
    | c # r \<Rightarrow>
        if c = CHR ''0'' then (if num_end r then Some (0, r) else None)
        else if digit_char c then
          (let ds = takeWhile digit_char s; t = dropWhile digit_char s in
           if num_end t then Some (dec_val ds, t) else None)
        else None)"

definition p_int :: "string \<Rightarrow> (json \<times> string) option" where
  "p_int s = (case s of
      c # r \<Rightarrow> if c = CHR ''-'' then map_option (\<lambda>(n, t). (JNum (- int n), t)) (p_nat r)
                else map_option (\<lambda>(n, t). (JNum (int n), t)) (p_nat s)
    | [] \<Rightarrow> None)"

definition p_lit :: "string \<Rightarrow> json \<Rightarrow> string \<Rightarrow> (json \<times> string) option" where
  "p_lit w v s = (if take (length w) s = w then Some (v, drop (length w) s) else None)"

subsection \<open>Values\<close>

text \<open>A later member of an object replaces an earlier one of the same name.\<close>

definition make_obj :: "(string \<times> json) list \<Rightarrow> json" where
  "make_obj fs = JObj (fold (\<lambda>(k, v) m. map_set k v m) fs [])"

fun p_val :: "nat \<Rightarrow> string \<Rightarrow> (json \<times> string) option"
and p_arr :: "nat \<Rightarrow> string \<Rightarrow> (json list \<times> string) option"
and p_obj :: "nat \<Rightarrow> string \<Rightarrow> ((string \<times> json) list \<times> string) option" where
  "p_val 0 s = None"
| "p_val (Suc f) s =
     (case skip_ws s of
        [] \<Rightarrow> None
      | c # r \<Rightarrow>
          if c = CHR ''n'' then p_lit ''null'' JNull (c # r)
          else if c = CHR ''t'' then p_lit ''true'' (JBool True) (c # r)
          else if c = CHR ''f'' then p_lit ''false'' (JBool False) (c # r)
          else if c = CHR 0x22 then map_option (\<lambda>(s, t). (JStr s, t)) (p_str r)
          else if c = CHR ''['' then
            (case skip_ws r of
               d # r' \<Rightarrow> if d = CHR '']'' then Some (JArr [], r')
                          else map_option (\<lambda>(vs, t). (JArr vs, t)) (p_arr f r)
             | [] \<Rightarrow> None)
          else if c = CHR ''{'' then
            (case skip_ws r of
               d # r' \<Rightarrow> if d = CHR ''}'' then Some (JObj [], r')
                          else map_option (\<lambda>(fs, t). (make_obj fs, t)) (p_obj f r)
             | [] \<Rightarrow> None)
          else p_int (c # r))"
| "p_arr 0 s = None"
| "p_arr (Suc f) s =
     (case p_val f s of
        None \<Rightarrow> None
      | Some (v, r) \<Rightarrow>
          (case skip_ws r of
             [] \<Rightarrow> None
           | c # r' \<Rightarrow>
               if c = CHR '','' then map_option (\<lambda>(vs, t). (v # vs, t)) (p_arr f r')
               else if c = CHR '']'' then Some ([v], r')
               else None))"
| "p_obj 0 s = None"
| "p_obj (Suc f) s =
     (case skip_ws s of
        [] \<Rightarrow> None
      | q # r0 \<Rightarrow>
          if q \<noteq> CHR 0x22 then None
          else (case p_str r0 of
              None \<Rightarrow> None
            | Some (k, r1) \<Rightarrow>
                (case skip_ws r1 of
                   [] \<Rightarrow> None
                 | c # r2 \<Rightarrow>
                     if c \<noteq> CHR '':'' then None
                     else (case p_val f r2 of
                         None \<Rightarrow> None
                       | Some (v, r3) \<Rightarrow>
                           (case skip_ws r3 of
                              [] \<Rightarrow> None
                            | e # r4 \<Rightarrow>
                                if e = CHR '','' then map_option (\<lambda>(fs, t). ((k, v) # fs, t)) (p_obj f r4)
                                else if e = CHR ''}'' then Some ([(k, v)], r4)
                                else None)))))"

definition JSON_parse :: "string \<Rightarrow> json option" where
  "JSON_parse s = (case p_val (Suc (length s)) s of
      Some (v, r) \<Rightarrow> if skip_ws r = [] then Some v else None
    | None \<Rightarrow> None)"

subsection \<open>Reading back what was written\<close>

lemma hex_val_digit: "n < 16 \<Longrightarrow> hex_val (hex_digit n) = Some n"
  by (auto simp: hex_val_def hex_digit_def Let_def)

lemma of_char_eq: "(of_char c :: nat) = n \<Longrightarrow> n < 256 \<Longrightarrow> c = char_of n"
  by (metis char_of_char)

lemma char_of_consts:
  "char_of (34 :: nat) = CHR 0x22" "char_of (92 :: nat) = CHR 0x5C" "char_of (48 :: nat) = CHR ''0''"
  using of_char_eq [of "CHR 0x22" 34] of_char_eq [of "CHR 0x5C" 92] of_char_eq [of "CHR ''0''" 48] by simp_all

lemma p_str_quote_char: "p_str (quote_char c @ t) = consume c (p_str t)"
proof -
  let ?n = "of_char c :: nat"
  consider "?n = 34" | "?n = 92" | "?n = 8" | "?n = 9" | "?n = 10" | "?n = 12" | "?n = 13"
    | "?n < 32" "?n \<notin> {8, 9, 10, 12, 13}" | "32 \<le> ?n" "?n \<noteq> 34" "?n \<noteq> 92" by fastforce
  then show ?thesis
  proof cases
    case 8
    have h: "hex4 (CHR ''0'') (CHR ''0'') (hex_digit (?n div 16)) (hex_digit (?n mod 16)) = Some c"
    proof -
      have "hex_val (CHR ''0'') = Some 0" by code_simp
      moreover have "hex_val (hex_digit (?n div 16)) = Some (?n div 16)" using 8 by (intro hex_val_digit) simp
      moreover have "hex_val (hex_digit (?n mod 16)) = Some (?n mod 16)" by (intro hex_val_digit) simp
      ultimately show ?thesis by (simp add: hex4_def)
    qed
    from 8 have q: "quote_char c = [CHR 0x5C, CHR ''u'', CHR ''0'', CHR ''0'', hex_digit (?n div 16), hex_digit (?n mod 16)]"
      by (simp add: quote_char_def Let_def)
    show ?thesis unfolding q using h by simp
  next
    case 9
    then have "quote_char c = [c]" by (simp add: quote_char_def Let_def)
    moreover have "c \<noteq> CHR 0x22" "c \<noteq> CHR 0x5C" using 9 by auto
    ultimately show ?thesis using 9 by simp
  qed (auto simp: quote_char_def Let_def unescape_def char_of_consts dest!: of_char_eq)
qed

lemma p_str_quote: "p_str (concat (map quote_char s) @ CHR 0x22 # t) = Some (s, t)"
proof (induction s)
  case Nil
  then show ?case by simp
next
  case (Cons c s)
  have "p_str (concat (map quote_char (c # s)) @ CHR 0x22 # t) = consume c (p_str (concat (map quote_char s) @ CHR 0x22 # t))"
    using p_str_quote_char [of c "concat (map quote_char s) @ CHR 0x22 # t"] by simp
  then show ?case using Cons by (simp add: consume_def)
qed

lemma digit_char_of: "d < 10 \<Longrightarrow> digit_char (char_of (48 + d)) \<and> digit_val (char_of (48 + d)) = d"
  by (simp add: digit_char_def digit_val_def Let_def)

lemma nat_digits_props:
  "nat_digits n \<noteq> [] \<and> (\<forall>c \<in> set (nat_digits n). digit_char c) \<and> dec_val (nat_digits n) = n
   \<and> (0 < n \<longrightarrow> hd (nat_digits n) \<noteq> CHR ''0'')"
proof (induction n rule: nat_digits.induct)
  case (1 n)
  have lead: "char_of (48 + n) \<noteq> CHR ''0''" if "0 < n" "n < 10"
  proof
    assume "char_of (48 + n) = CHR ''0''"
    then have "digit_val (char_of (48 + n)) = digit_val (CHR ''0'')" by simp
    moreover have "digit_val (CHR ''0'') = 0" by code_simp
    ultimately show False using that digit_char_of [of n] by simp
  qed
  show ?case
  proof (cases "n < 10")
    case True
    then show ?thesis using lead digit_char_of [of n] by (simp add: nat_digits.simps [of n] dec_val_def)
  next
    case False
    have "n mod 10 < 10" by simp
    from digit_char_of [OF this] show ?thesis
      using False 1 [OF False] by (simp add: nat_digits.simps [of n] dec_val_def)
  qed
qed

lemma p_nat_digits: "num_end t \<Longrightarrow> p_nat (nat_digits n @ t) = Some (n, t)"
proof -
  assume t: "num_end t"
  obtain c ds where d: "nat_digits n = c # ds" using nat_digits_props [of n] by (cases "nat_digits n") auto
  have all: "\<forall>x \<in> set (c # ds). digit_char x" "dec_val (c # ds) = n" "0 < n \<Longrightarrow> c \<noteq> CHR ''0''"
    using nat_digits_props [of n] d by auto
  have stop: "takeWhile digit_char t = []" "dropWhile digit_char t = t"
    using t by (cases t; simp add: num_end_def)+
  show ?thesis
  proof (cases "n = 0")
    case True
    then have "nat_digits n = [CHR ''0'']" by (simp add: nat_digits.simps [of 0] char_of_consts)
    then show ?thesis using True t by (simp add: p_nat_def)
  next
    case False
    then show ?thesis using all stop t d by (simp add: p_nat_def takeWhile_append dropWhile_append Let_def)
  qed
qed

lemma p_int_digits: "num_end t \<Longrightarrow> p_int (int_digits n @ t) = Some (JNum n, t)"
proof -
  assume t: "num_end t"
  obtain c ds where d: "nat_digits (nat n) = c # ds" using nat_digits_props [of "nat n"] by (cases "nat_digits (nat n)") auto
  have "digit_char c" using nat_digits_props [of "nat n"] d by auto
  moreover have "\<not> digit_char (CHR ''-'')" by code_simp
  ultimately have c: "c \<noteq> CHR ''-''" by auto
  show ?thesis
  proof (cases "n < 0")
    case True
    then show ?thesis using p_nat_digits [OF t, of "nat (- n)"] by (simp add: int_digits_def p_int_def)
  next
    case False
    then show ?thesis using p_nat_digits [OF t, of "nat n"] d c by (simp add: int_digits_def p_int_def)
  qed
qed


text \<open>Objects without repeated member names: what \<open>JSON.stringify\<close> makes of a JavaScript object.\<close>

fun wf_json :: "json \<Rightarrow> bool" where
  "wf_json (JArr xs) = (\<forall>x \<in> set xs. wf_json x)"
| "wf_json (JObj fs) = (distinct (map fst fs) \<and> (\<forall>p \<in> set fs. wf_json (snd p)))"
| "wf_json _ = True"

fun list_fuel :: "nat list \<Rightarrow> nat" where
  "list_fuel [] = 0"
| "list_fuel (n # ns) = Suc (max n (list_fuel ns))"

fun json_fuel :: "json \<Rightarrow> nat" where
  "json_fuel (JArr xs) = Suc (list_fuel (map json_fuel xs))"
| "json_fuel (JObj fs) = Suc (list_fuel (map (\<lambda>p. json_fuel (snd p)) fs))"
| "json_fuel _ = 1"

definition reads_back :: "json \<Rightarrow> bool" where
  "reads_back j \<longleftrightarrow> (\<forall>f s t. stringify j = Some s \<longrightarrow> wf_json j \<longrightarrow> num_end t \<longrightarrow> json_fuel j \<le> f
     \<longrightarrow> p_val f (s @ t) = Some (j, t))"

lemma num_end_simps [simp]:
  "num_end []" "num_end (CHR '','' # t)" "num_end (CHR '']'' # t)" "num_end (CHR ''}'' # t)"
  by (simp_all add: num_end_def digit_char_def Let_def)

lemma skip_ws_simps [simp]:
  "skip_ws (CHR '','' # t) = CHR '','' # t" "skip_ws (CHR '']'' # t) = CHR '']'' # t" "skip_ws (CHR ''}'' # t) = CHR ''}'' # t"
  "skip_ws (CHR ''['' # t) = CHR ''['' # t" "skip_ws (CHR ''{'' # t) = CHR ''{'' # t" "skip_ws (CHR '':'' # t) = CHR '':'' # t"
  "skip_ws (CHR 0x22 # t) = CHR 0x22 # t" "skip_ws (CHR ''n'' # t) = CHR ''n'' # t" "skip_ws (CHR ''t'' # t) = CHR ''t'' # t"
  "skip_ws (CHR ''f'' # t) = CHR ''f'' # t" "skip_ws (CHR ''-'' # t) = CHR ''-'' # t" "skip_ws [] = []"
  by (simp_all add: skip_ws_def json_space_def Let_def)

lemma space_consts [simp]:
  "\<not> json_space (CHR ''['')" "\<not> json_space (CHR ''{'')" "\<not> json_space (CHR 0x22)" "\<not> json_space (CHR ''n'')"
  "\<not> json_space (CHR ''t'')" "\<not> json_space (CHR ''f'')" "\<not> json_space (CHR ''-'')"
  by (simp_all add: json_space_def Let_def)

lemma digit_not_space: "digit_char c \<Longrightarrow> \<not> json_space c"
  by (auto simp: digit_char_def json_space_def Let_def)

lemma skip_ws_cons: "\<not> json_space c \<Longrightarrow> skip_ws (c # t) = c # t"
  by (simp add: skip_ws_def)

lemma int_digits_head: "\<exists>c r. int_digits n = c # r \<and> (digit_char c \<or> c = CHR ''-'')"
proof (cases "n < 0")
  case True
  then show ?thesis by (simp add: int_digits_def)
next
  case False
  then show ?thesis using nat_digits_props [of "nat n"] by (cases "nat_digits (nat n)") (auto simp: int_digits_def)
qed

lemma digit_char_neq:
  "digit_char c \<Longrightarrow> c \<noteq> CHR '']'' \<and> c \<noteq> CHR ''}'' \<and> c \<noteq> CHR ''n'' \<and> c \<noteq> CHR ''t'' \<and> c \<noteq> CHR ''f'' \<and> c \<noteq> CHR 0x22
     \<and> c \<noteq> CHR ''['' \<and> c \<noteq> CHR ''{''"
  by (auto simp: digit_char_def Let_def)

lemma all_some_eq: "all_some ys = Some zs \<longleftrightarrow> ys = map Some zs"
  by (induction ys arbitrary: zs rule: all_some.induct) auto

lemma join_cons: "join sep (x # y # ys) = x @ sep @ join sep (y # ys)" by simp

lemma p_arr_join:
  assumes "xs \<noteq> []" "\<forall>x \<in> set xs. reads_back x \<and> wf_json x" "map stringify xs = map Some ss"
    and "list_fuel (map json_fuel xs) \<le> f"
  shows "p_arr f (join '','' ss @ CHR '']'' # t) = Some (xs, t)"
  using assms
proof (induction xs arbitrary: ss f)
  case (Cons x xs)
  then obtain s ss' where ss: "ss = s # ss'" "stringify x = Some s" "map stringify xs = map Some ss'"
    by (cases ss) auto
  from Cons.prems(4) obtain f' where f: "f = Suc f'" "json_fuel x \<le> f'" "list_fuel (map json_fuel xs) \<le> f'"
    by (cases f) auto
  have x: "num_end u \<Longrightarrow> p_val f' (s @ u) = Some (x, u)" for u
    using Cons.prems(2) ss f by (simp add: reads_back_def)
  show ?case
  proof (cases xs)
    case Nil
    then show ?thesis using ss f x by simp
  next
    case (Cons y ys)
    then obtain s2 ss2 where s2: "ss' = s2 # ss2" using ss by (cases ss') auto
    have "p_arr f' (join '','' ss' @ CHR '']'' # t) = Some (xs, t)"
      using Cons.IH [of ss' f'] Cons ss f Cons.prems by simp
    then show ?thesis using ss f x s2 by simp
  qed
qed simp

definition member_str :: "string \<times> json \<Rightarrow> string option" where
  "member_str p = map_option (\<lambda>s. quote_str (fst p) @ '':'' @ s) (stringify (snd p))"

lemma stringify_obj:
  "stringify (JObj fs) = map_option (\<lambda>ss. ''{'' @ join '','' ss @ ''}'') (all_some (map member_str fs))"
proof -
  have "(\<lambda>(k, v). map_option (\<lambda>s. quote_str k @ '':'' @ s) (stringify v)) = member_str"
    by (simp add: member_str_def fun_eq_iff)
  then show ?thesis by (simp only: stringify.simps)
qed

definition json_head :: "string \<Rightarrow> bool" where
  "json_head s \<longleftrightarrow> (case s of [] \<Rightarrow> False | c # r \<Rightarrow> \<not> json_space c \<and> c \<noteq> CHR '']'')"

lemma json_head_cons [simp]: "json_head (c # r) \<longleftrightarrow> \<not> json_space c \<and> c \<noteq> CHR '']''"
  by (simp add: json_head_def)

lemma json_head_num: "json_head (int_digits n)"
  using int_digits_head [of n] digit_char_neq digit_not_space by auto

lemma stringify_head: "stringify j = Some s \<Longrightarrow> json_head s"
proof (cases j)
  case (JArr xs)
  then show "stringify j = Some s \<Longrightarrow> json_head s" by (cases "all_some (map stringify xs)") auto
next
  case (JObj fs)
  then show "stringify j = Some s \<Longrightarrow> json_head s"
    by (cases "all_some (map member_str fs)") (auto simp: stringify_obj simp del: stringify.simps)
next
  case (JBool b)
  then show "stringify j = Some s \<Longrightarrow> json_head s" by (cases b) auto
next
  case (JStr x)
  then show "stringify j = Some s \<Longrightarrow> json_head s" by (simp add: quote_str_def) auto
qed (auto simp: json_head_num)

lemma p_obj_join:
  assumes "fs \<noteq> []" "\<forall>p \<in> set fs. reads_back (snd p) \<and> wf_json (snd p)" "map member_str fs = map Some ss"
    and "list_fuel (map (\<lambda>p. json_fuel (snd p)) fs) \<le> f"
  shows "p_obj f (join '','' ss @ CHR ''}'' # t) = Some (fs, t)"
  using assms
proof (induction fs arbitrary: ss f)
  case (Cons p fs)
  obtain k v where p: "p = (k, v)" by (cases p)
  from Cons.prems(3) obtain s0 ss' where ss0: "ss = s0 # ss'" "member_str (k, v) = Some s0" "map member_str fs = map Some ss'"
    by (cases ss) (simp_all add: p)
  then obtain s where ss: "ss = (quote_str k @ '':'' @ s) # ss'" "stringify v = Some s" "map member_str fs = map Some ss'"
    by (auto simp: member_str_def)
  from Cons.prems(4) obtain f' where f: "f = Suc f'" "json_fuel v \<le> f'" "list_fuel (map (\<lambda>p. json_fuel (snd p)) fs) \<le> f'"
    by (cases f) (auto simp: p)
  have x: "num_end u \<Longrightarrow> p_val f' (s @ u) = Some (v, u)" for u
    using Cons.prems(2) ss f by (simp add: reads_back_def p)
  have k: "p_str (concat (map quote_char k) @ CHR 0x22 # u) = Some (k, u)" for u by (rule p_str_quote)
  show ?case
  proof (cases fs)
    case Nil
    then show ?thesis using ss f x k by (simp add: quote_str_def p)
  next
    case (Cons y ys)
    then obtain s2 ss2 where s2: "ss' = s2 # ss2" using ss by (cases ss') auto
    have "p_obj f' (join '','' ss' @ CHR ''}'' # t) = Some (fs, t)"
      using Cons.IH [of ss' f'] Cons ss f Cons.prems by simp
    then show ?thesis using ss f x k s2 by (simp add: quote_str_def p)
  qed
qed simp

lemma make_obj_id: "distinct (map fst fs) \<Longrightarrow> make_obj fs = JObj fs"
proof -
  have fresh: "k \<notin> fst ` set m \<Longrightarrow> map_set k v m = m @ [(k, v)]" for k :: string and v :: json and m
    by (induction m) auto
  have "distinct (map fst (m @ fs)) \<Longrightarrow> fold (\<lambda>(k, v) m. map_set k v m) fs m = m @ fs" for m
    by (induction fs arbitrary: m) (auto simp: fresh split_def)
  from this [of "[]"] show "distinct (map fst fs) \<Longrightarrow> make_obj fs = JObj fs" by (simp add: make_obj_def)
qed

lemma stringify_reads_back: "reads_back j"
proof (induction j)
  case (JNum n)
  obtain c r where c: "int_digits n = c # r" "digit_char c \<or> c = CHR ''-''" using int_digits_head [of n] by blast
  have "p_val (Suc f) (int_digits n @ t) = p_int (int_digits n @ t)" for f t
    using c digit_char_neq [of c] digit_not_space [of c] by (auto simp: skip_ws_cons)
  then show ?case using p_int_digits by (auto simp: reads_back_def Suc_le_eq gr0_conv_Suc)
next
  case (JArr xs)
  show ?case unfolding reads_back_def
  proof (intro allI impI)
    fix f s t
    assume s: "stringify (JArr xs) = Some s" and wf: "wf_json (JArr xs)" and t: "num_end t" and f: "json_fuel (JArr xs) \<le> f"
    from s obtain ss where ss: "map stringify xs = map Some ss" "s = ''['' @ join '','' ss @ '']''"
      by (auto simp: all_some_eq)
    from f obtain f' where f': "f = Suc f'" "list_fuel (map json_fuel xs) \<le> f'" by (cases f) auto
    show "p_val f (s @ t) = Some (JArr xs, t)"
    proof (cases xs)
      case Nil
      then show ?thesis using ss f' by simp
    next
      case (Cons x ys)
      have "p_arr f' (join '','' ss @ CHR '']'' # t) = Some (xs, t)"
        using JArr wf ss f' Cons by (intro p_arr_join) auto
      moreover have "\<exists>c r. join '','' ss @ CHR '']'' # t = c # r \<and> \<not> json_space c \<and> c \<noteq> CHR '']''"
      proof -
        obtain s1 ss1 where s1: "ss = s1 # ss1" "stringify x = Some s1" using ss Cons by (cases ss) auto
        then obtain c r where "s1 = c # r" "\<not> json_space c" "c \<noteq> CHR '']''"
          using stringify_head [OF s1(2)] by (cases s1) (auto simp: json_head_def)
        then show ?thesis using s1 by (cases ss1) auto
      qed
      ultimately show ?thesis using ss f' by (auto simp: skip_ws_cons)
    qed
  qed
next
  case (JObj fs)
  show ?case unfolding reads_back_def
  proof (intro allI impI)
    fix f s t
    assume s: "stringify (JObj fs) = Some s" and wf: "wf_json (JObj fs)" and t: "num_end t" and f: "json_fuel (JObj fs) \<le> f"
    from s obtain ss where ss: "map member_str fs = map Some ss" "s = ''{'' @ join '','' ss @ ''}''"
      by (auto simp: stringify_obj all_some_eq simp del: stringify.simps)
    from f obtain f' where f': "f = Suc f'" "list_fuel (map (\<lambda>p. json_fuel (snd p)) fs) \<le> f'" by (cases f) auto
    show "p_val f (s @ t) = Some (JObj fs, t)"
    proof (cases fs)
      case Nil
      then show ?thesis using ss f' by simp
    next
      case (Cons x ys)
      have "reads_back (snd p)" if "p \<in> set fs" for p using JObj that by (cases p) (auto simp: snds.simps)
      then have "p_obj f' (join '','' ss @ CHR ''}'' # t) = Some (fs, t)"
        using wf ss f' Cons by (intro p_obj_join) auto
      moreover have "\<exists>r. join '','' ss @ CHR ''}'' # t = CHR 0x22 # r"
      proof -
        obtain s1 ss1 where s1: "ss = s1 # ss1" "member_str x = Some s1" using ss Cons by (cases ss) auto
        then show ?thesis by (cases ss1) (auto simp: member_str_def quote_str_def)
      qed
      ultimately show ?thesis using ss f' wf by (auto simp: make_obj_id)
    qed
  qed
qed (auto simp: reads_back_def Suc_le_eq gr0_conv_Suc p_lit_def quote_str_def p_str_quote)

text \<open>The length of the text is enough fuel.\<close>

lemma join_length: "ss \<noteq> [] \<Longrightarrow> length (join '','' ss) + 1 = sum_list (map (\<lambda>s. Suc (length s)) ss)"
  by (induction ss rule: list_nonempty_induct) (auto simp: neq_Nil_conv)

lemma list_fuel_bound:
  "list_all2 (\<lambda>n s. n \<le> length (s :: string)) ns ss \<Longrightarrow> list_fuel ns \<le> sum_list (map (\<lambda>s. Suc (length s)) ss)"
  by (induction rule: list_all2_induct) auto

lemma list_fuel_join:
  assumes "list_all2 (\<lambda>n s. n \<le> length (s :: string)) ns ss"
  shows "list_fuel ns \<le> Suc (length (join '','' ss))"
  using list_fuel_bound [OF assms] join_length [of ss] assms by (cases ss) auto

lemma json_fuel_length: "stringify j = Some s \<Longrightarrow> json_fuel j \<le> length s"
proof (induction j arbitrary: s)
  case (JNum n)
  then show ?case using int_digits_head [of n] by auto
next
  case (JArr xs)
  then obtain ss where ss: "map stringify xs = map Some ss" "s = ''['' @ join '','' ss @ '']''" by (auto simp: all_some_eq)
  have "list_all2 (\<lambda>n s. n \<le> length s) (map json_fuel xs) ss"
    using JArr.IH ss(1)
  proof (induction xs arbitrary: ss)
    case (Cons x xs)
    then show ?case by (cases ss) auto
  qed simp
  then show ?case using list_fuel_join ss by fastforce
next
  case (JObj fs)
  from JObj.prems obtain ss where ss: "map member_str fs = map Some ss" "s = ''{'' @ join '','' ss @ ''}''" by (auto simp: stringify_obj all_some_eq simp del: stringify.simps)
  have IH: "stringify (snd p) = Some s \<Longrightarrow> json_fuel (snd p) \<le> length s" if "p \<in> set fs" for p s
    using JObj.IH that by (cases p) (auto simp: snds.simps)
  have "list_all2 (\<lambda>n s. n \<le> length s) (map (\<lambda>p. json_fuel (snd p)) fs) ss"
    using IH ss(1)
  proof (induction fs arbitrary: ss)
    case (Cons x xs)
    then obtain s0 ss' where s0: "ss = s0 # ss'" "member_str x = Some s0" "map member_str xs = map Some ss'" by (cases ss) auto
    then obtain s where "s0 = quote_str (fst x) @ '':'' @ s" "stringify (snd x) = Some s" by (auto simp: member_str_def)
    then have "json_fuel (snd x) \<le> length s0" using Cons.prems(1) [of x s] by simp
    then show ?case using Cons.IH [OF _ s0(3)] Cons.prems(1) s0 by simp
  qed simp
  then show ?case using list_fuel_join ss by fastforce
qed (auto simp: quote_str_def)

lemma stringify_reads:
  assumes "stringify j = Some s" "wf_json j"
  shows "JSON_parse s = Some j"
proof -
  have "p_val (Suc (length s)) (s @ []) = Some (j, [])"
    using stringify_reads_back [of j] assms json_fuel_length [OF assms(1)] unfolding reads_back_def
    by (metis le_SucI num_end_simps(1))
  then show ?thesis by (simp add: JSON_parse_def)
qed

text \<open>\<open>JSON.parse\<close> reads back exactly what \<open>JSON.stringify\<close> wrote, for every value without
  repeated member names; in particular it never fails on such a text.\<close>

theorem parse_stringify:
  assumes "stringify j = Some s" "wf_json j"
  shows "JSON_parse s = Some j"
  using assms by (rule stringify_reads)

lemma parse_stringify_witness:
  "JSON_parse [CHR ''['', CHR ''7'', CHR '']''] = Some (JArr [JNum 7])"
proof -
  have "stringify (JArr [JNum 7]) = Some [CHR ''['', CHR ''7'', CHR '']'']"
    by (simp add: int_digits_def nat_digits.simps)
       (use of_char_eq [of "CHR ''7''" 55] in simp)
  then show ?thesis by (rule parse_stringify) simp
qed

end
