(* ===== verification/Local_Store.thy ===== *)
theory Local_Store
  imports Message_Db Crypto Json_Parse
begin

text \<open>
  \<open>services/messaging/localEncryptedStore.ts\<close>: conversations, messages and the outbox, each payload
  encrypted under a key of the keyring before it is handed to the shell's database. Payloads are JSON
  values, as the module itself treats them. The last part states what the module is for: through it, the
  database behaves like one that stores the payloads in the clear, while its rows hold ciphertexts only.
\<close>

subsection \<open>State\<close>

definition STORE_KEY_ID :: string where "STORE_KEY_ID = ''messaging.store.key.v1''"

text \<open>The device with its database and the module variable \<open>cachedStoreKey\<close>.\<close>

record store_device = device +
  sd_db :: "(string, string, string) message_db"
  cachedStoreKey :: "string option"

type_synonym ('e, 'a) store_io = "('e store_device_scheme, js_error, 'a) eff"

record outbox_entry =
  oe_clientMessageId :: string
  oe_conversationId :: string
  oe_payload :: json
  oe_createdAt :: string
  oe_retryCount :: int

subsection \<open>Encryption of payloads\<close>

definition getStoreKey :: "sodium \<Rightarrow> fault \<Rightarrow> ('e, string) store_io" where
  "getStoreKey L fault s =
     (if cachedStoreKey s \<noteq> None \<and> cachedStoreKey s \<noteq> Some [] then ret (the (cachedStoreKey s)) s
      else bnd (getStrict fault STORE_KEY_ID) (\<lambda>stored.
           bnd (if stored = None \<or> stored = Some []
                then bnd (randomSymmetricKey L) (\<lambda>fresh. sq (setStrict fault STORE_KEY_ID fresh) (ret fresh))
                else ret (the stored)) (\<lambda>val.
           sq (upd (\<lambda>s. s\<lparr>cachedStoreKey := Some val\<rparr>)) (ret val))) s)"

definition type_error :: js_error where "type_error = JsError ''TypeError''"
definition syntax_error :: js_error where "syntax_error = JsError ''SyntaxError''"

definition to_text :: "json \<Rightarrow> ('e, string) store_io" where
  "to_text j = (case stringify j of Some t \<Rightarrow> ret t | None \<Rightarrow> throw type_error)"

definition from_text :: "string \<Rightarrow> ('e, json) store_io" where
  "from_text t = (case JSON_parse t of Some j \<Rightarrow> ret j | None \<Rightarrow> throw syntax_error)"

definition blob_json :: "string \<times> string \<Rightarrow> json" where
  "blob_json blob = JObj [(''nonce'', JStr (fst blob)), (''ciphertext'', JStr (snd blob))]"

definition encryptPayload :: "sodium \<Rightarrow> fault \<Rightarrow> json \<Rightarrow> ('e, string) store_io" where
  "encryptPayload L fault payload =
     bnd (getStoreKey L fault) (\<lambda>storeKey.
     bnd (to_text payload) (\<lambda>t.
     bnd (encryptWithSymmetricKey L t storeKey) (\<lambda>encrypted.
     to_text (blob_json encrypted))))"

text \<open>A field of the blob that is no text reaches libsodium, which rejects it when it gets to it.\<close>

definition decrypt_fields :: "sodium \<Rightarrow> json option \<Rightarrow> json option \<Rightarrow> string \<Rightarrow> ('e, string) store_io" where
  "decrypt_fields L ciphertext nonce storeKey =
     (case (as_str ciphertext, as_str nonce) of
        (Some c, Some n) \<Rightarrow> decryptWithSymmetricKey L c n storeKey
      | (None, Some n) \<Rightarrow> bnd (parseBase64 L storeKey) (\<lambda>key. bnd (alloc key) (\<lambda>_. bnd (parseBase64 L n) (\<lambda>_. throw type_error)))
      | (_, None) \<Rightarrow> bnd (parseBase64 L storeKey) (\<lambda>key. bnd (alloc key) (\<lambda>_. throw type_error)))"

definition decryptPayload :: "sodium \<Rightarrow> fault \<Rightarrow> string \<Rightarrow> ('e, json) store_io" where
  "decryptPayload L fault val =
     bnd (getStoreKey L fault) (\<lambda>storeKey.
     bnd (from_text val) (\<lambda>encrypted.
     if encrypted = JNull then throw type_error
     else bnd (decrypt_fields L (json_get encrypted ''ciphertext'') (json_get encrypted ''nonce'') storeKey) (\<lambda>plaintext.
          from_text plaintext)))"

subsection \<open>The operations\<close>

definition db_call :: "fault \<Rightarrow> ((string, string, string) message_db \<Rightarrow> (string, string, string) message_db) \<Rightarrow> ('e, unit) store_io" where
  "db_call fault f = native fault (\<lambda>s. ((), s\<lparr>sd_db := f (sd_db s)\<rparr>))"

definition db_query :: "fault \<Rightarrow> ((string, string, string) message_db \<Rightarrow> 'a) \<Rightarrow> ('e, 'a) store_io" where
  "db_query fault f = native fault (\<lambda>s. (f (sd_db s), s))"

text \<open>Arguments of a native call that are not of the declared type reject it.\<close>

definition invalid_args :: js_error where "invalid_args = Thrown (JStr ''invalid args'')"

definition text_arg :: "json option \<Rightarrow> ('e, string) store_io" where
  "text_arg v = (case as_str v of Some t \<Rightarrow> ret t | None \<Rightarrow> throw invalid_args)"

definition sequence_arg :: "json option \<Rightarrow> ('e, int option) store_io" where
  "sequence_arg v = (case v of None \<Rightarrow> ret None | Some JNull \<Rightarrow> ret None | Some (JNum n) \<Rightarrow> ret (Some n) | _ \<Rightarrow> throw invalid_args)"

definition saveConversation :: "sodium \<Rightarrow> fault \<Rightarrow> json \<Rightarrow> ('e, unit) store_io" where
  "saveConversation L fault conversation =
     bnd (encryptPayload L fault conversation) (\<lambda>payload.
     bnd (text_arg (json_get conversation ''id'')) (\<lambda>conversationId.
     bnd (text_arg (json_get conversation ''updatedAt'')) (\<lambda>updatedAt.
     db_call fault (messaging_store_upsert_conversation conversationId payload updatedAt))))"

fun decrypt_rows :: "sodium \<Rightarrow> fault \<Rightarrow> string list \<Rightarrow> ('e, json list) store_io" where
  "decrypt_rows L fault [] = ret []"
| "decrypt_rows L fault (row # rows) =
     bnd (decryptPayload L fault row) (\<lambda>x. bnd (decrypt_rows L fault rows) (\<lambda>xs. ret (x # xs)))"

definition listConversations :: "sodium \<Rightarrow> fault \<Rightarrow> ('e, json list) store_io" where
  "listConversations L fault = bnd (db_query fault messaging_store_list_conversations) (decrypt_rows L fault)"

definition saveMessage :: "sodium \<Rightarrow> fault \<Rightarrow> json \<Rightarrow> ('e, unit) store_io" where
  "saveMessage L fault message =
     bnd (encryptPayload L fault message) (\<lambda>payload.
     case json_get message ''envelope'' of
       None \<Rightarrow> throw type_error
     | Some envelope \<Rightarrow>
         if envelope = JNull then throw type_error
         else bnd (text_arg (json_get envelope ''id'')) (\<lambda>messageId.
              bnd (text_arg (json_get envelope ''conversationId'')) (\<lambda>conversationId.
              bnd (sequence_arg (json_get envelope ''serverSequence'')) (\<lambda>serverSequence.
              bnd (text_arg (json_get envelope ''createdAt'')) (\<lambda>createdAt.
              db_call fault (messaging_store_upsert_message messageId conversationId serverSequence payload createdAt))))))"

definition listMessages :: "sodium \<Rightarrow> fault \<Rightarrow> string \<Rightarrow> int \<Rightarrow> ('e, json list) store_io" where
  "listMessages L fault conversationId limit =
     bnd (db_query fault (messaging_store_list_messages conversationId limit)) (decrypt_rows L fault)"

definition enqueueOutbox :: "sodium \<Rightarrow> fault \<Rightarrow> string \<Rightarrow> string \<Rightarrow> json \<Rightarrow> string \<Rightarrow> ('e, unit) store_io" where
  "enqueueOutbox L fault clientMessageId conversationId payload createdAt =
     bnd (encryptPayload L fault payload) (\<lambda>encryptedPayload.
     db_call fault (messaging_store_enqueue_outbox clientMessageId conversationId encryptedPayload createdAt))"

fun decrypt_outbox :: "sodium \<Rightarrow> fault \<Rightarrow> string outbox_row list \<Rightarrow> ('e, outbox_entry list) store_io" where
  "decrypt_outbox L fault [] = ret []"
| "decrypt_outbox L fault (row # rows) =
     bnd (decryptPayload L fault (or_payload row)) (\<lambda>payload.
     bnd (decrypt_outbox L fault rows) (\<lambda>xs.
     ret (\<lparr>oe_clientMessageId = or_client_message_id row, oe_conversationId = or_conversation_id row,
           oe_payload = payload, oe_createdAt = or_created_at row, oe_retryCount = or_retry_count row\<rparr> # xs)))"

definition listOutbox :: "sodium \<Rightarrow> fault \<Rightarrow> ('e, outbox_entry list) store_io" where
  "listOutbox L fault = bnd (db_query fault messaging_store_list_outbox) (decrypt_outbox L fault)"

definition deleteOutbox :: "fault \<Rightarrow> string \<Rightarrow> ('e, unit) store_io" where
  "deleteOutbox fault clientMessageId = db_call fault (messaging_store_delete_outbox clientMessageId)"

definition incrementOutboxRetry :: "fault \<Rightarrow> string \<Rightarrow> ('e, unit) store_io" where
  "incrementOutboxRetry fault clientMessageId = db_call fault (messaging_store_increment_outbox_retry clientMessageId)"

definition readSyncCursor :: "fault \<Rightarrow> ('e, int) store_io" where
  "readSyncCursor fault = db_query fault messaging_store_read_sync_cursor"

definition writeSyncCursor :: "fault \<Rightarrow> int \<Rightarrow> ('e, unit) store_io" where
  "writeSyncCursor fault cursor = db_call fault (messaging_store_write_sync_cursor cursor)"

subsection \<open>What the rows hold\<close>

text \<open>The row \<open>p\<close> opens under \<open>key\<close> to the payload \<open>j\<close>.\<close>

definition opens :: "sodium \<Rightarrow> bytes \<Rightarrow> string \<Rightarrow> json \<Rightarrow> bool" where
  "opens L key p j \<longleftrightarrow> (\<exists>n c t. p = the (stringify (blob_json (so_to_base64 L n, so_to_base64 L c))) \<and> length n = NPUBBYTES
     \<and> so_decrypt L c n key = Inr (so_from_string L t) \<and> stringify j = Some t \<and> wf_json j)"

definition is_store_key :: "sodium \<Rightarrow> bytes \<Rightarrow> bool" where
  "is_store_key L key \<longleftrightarrow> length key = KEYBYTES \<and> so_to_base64 L key \<noteq> []"

definition held :: "sodium \<Rightarrow> string option \<Rightarrow> string \<Rightarrow> json \<Rightarrow> bool" where
  "held L k p j \<longleftrightarrow> (\<exists>key. k = Some (so_to_base64 L key) \<and> is_store_key L key \<and> opens L key p j)"

definition store_inv :: "sodium \<Rightarrow> fault \<Rightarrow> 'e store_device_scheme \<Rightarrow> (json, json, json) message_db \<Rightarrow> bool" where
  "store_inv L fault s A \<longleftrightarrow> healthy fault s
     \<and> (\<forall>k. dv_keyring s STORE_KEY_ID = Some k \<longrightarrow> (\<exists>key. k = so_to_base64 L key \<and> is_store_key L key))
     \<and> (cachedStoreKey s = None \<or> cachedStoreKey s = dv_keyring s STORE_KEY_ID)
     \<and> rel_db (held L (dv_keyring s STORE_KEY_ID)) (sd_db s) A"

lemma rel_db_mono:
  assumes "rel_db P db A" "\<And>p j. P p j \<Longrightarrow> Q p j"
  shows "rel_db Q db A"
  using assms(1) unfolding rel_tables_def
  by (auto elim!: list_all2_mono simp: rel_cr_def rel_mr_def rel_or_def assms(2))

lemma store_key_sensitive [simp]: "isSensitiveKey STORE_KEY_ID"
  by code_simp

lemma strict_is_storage:
  "getStrict fault STORE_KEY_ID = storage_get fault STORE_KEY_ID"
  "setStrict fault STORE_KEY_ID v = storage_set fault STORE_KEY_ID v"
  by (simp_all add: fun_eq_iff storage_get_def storage_set_def)

text \<open>What a call may change besides its result: the counter of native calls, draws and buffers.\<close>

definition same_store :: "'e store_device_scheme \<Rightarrow> 'e store_device_scheme \<Rightarrow> bool" where
  "same_store s s' \<longleftrightarrow> dv_keyring s' = dv_keyring s \<and> cachedStoreKey s' = cachedStoreKey s \<and> sd_db s' = sd_db s
     \<and> dv_tauri s' = dv_tauri s \<and> dv_calls s \<le> dv_calls s'"

lemma same_store_refl [simp]: "same_store s s" by (simp add: same_store_def)

lemma same_store_trans: "same_store s t \<Longrightarrow> same_store t u \<Longrightarrow> same_store s u"
  by (simp add: same_store_def)

lemma store_inv_frame: "store_inv L fault s A \<Longrightarrow> same_store s s' \<Longrightarrow> store_inv L fault s' A"
  by (auto simp: store_inv_def same_store_def healthy_def)

lemma getStrict_store:
  assumes "healthy fault s"
  shows "\<exists>s'. getStrict fault STORE_KEY_ID s = (Inr (dv_keyring s STORE_KEY_ID), s') \<and> same_store s s'"
  using assms by (simp add: getStrict_def native_def catch_def healthy_def Let_def same_store_def)

lemma setStrict_store:
  assumes "healthy fault s"
  shows "\<exists>s'. setStrict fault STORE_KEY_ID k s = (Inr (), s') \<and> dv_keyring s' = (dv_keyring s)(STORE_KEY_ID \<mapsto> k)
    \<and> cachedStoreKey s' = cachedStoreKey s \<and> sd_db s' = sd_db s \<and> healthy fault s'"
  using assms by (simp add: setStrict_def native_def healthy_def Let_def)

lemma getStoreKey_ok:
  assumes L: "sodium_ok L" and inv: "store_inv L fault s A"
  shows "\<exists>s' key. getStoreKey L fault s = (Inr (so_to_base64 L key), s') \<and> store_inv L fault s' A
    \<and> dv_keyring s' STORE_KEY_ID = Some (so_to_base64 L key) \<and> is_store_key L key"
proof (cases "cachedStoreKey s")
  case (Some k)
  then have k: "dv_keyring s STORE_KEY_ID = Some k" using inv by (simp add: store_inv_def)
  then obtain key where "k = so_to_base64 L key" "is_store_key L key"
    using inv by (auto simp: store_inv_def)
  then show ?thesis using inv Some k by (auto simp: getStoreKey_def ret_def is_store_key_def)
next
  case None
  have h: "healthy fault s" using inv by (simp add: store_inv_def)
  obtain s1 where 1: "getStrict fault STORE_KEY_ID s = (Inr (dv_keyring s STORE_KEY_ID), s1)" "same_store s s1"
    using getStrict_store [OF h] by blast
  note inv1 = store_inv_frame [OF inv 1(2)]
  have k1: "dv_keyring s1 = dv_keyring s" "cachedStoreKey s1 = None" using 1(2) None by (simp_all add: same_store_def)
  show ?thesis
  proof (cases "dv_keyring s STORE_KEY_ID")
    case (Some k)
    then obtain key where key: "k = so_to_base64 L key" "is_store_key L key" using inv by (auto simp: store_inv_def)
    let ?s2 = "s1\<lparr>cachedStoreKey := Some k\<rparr>"
    have "store_inv L fault ?s2 A" using inv1 Some k1 by (simp add: store_inv_def healthy_def)
    moreover have "getStoreKey L fault s = (Inr k, ?s2)"
      using None 1 Some key by (simp add: getStoreKey_def bnd_def sq_def ret_def upd_def is_store_key_def)
    ultimately show ?thesis using key Some k1 by auto
  next
    case None': None
    let ?key = "so_random L (dv_draw s1) KEYBYTES"
    let ?s2 = "s1\<lparr>dv_draw := Suc (dv_draw s1)\<rparr>"
    have key: "is_store_key L ?key"
    proof -
      have len: "length ?key = KEYBYTES" by (rule sodium_okD(1) [OF L])
      then have "?key \<noteq> []" by (auto simp: KEYBYTES_def)
      then have "so_to_base64 L ?key \<noteq> []" by (rule sodium_okD(4) [OF L])
      with len show ?thesis by (simp add: is_store_key_def)
    qed
    have h2: "healthy fault ?s2" using inv1 by (simp add: store_inv_def healthy_def)
    obtain s3 where 3: "setStrict fault STORE_KEY_ID (so_to_base64 L ?key) ?s2 = (Inr (), s3)"
      "dv_keyring s3 = (dv_keyring ?s2)(STORE_KEY_ID \<mapsto> so_to_base64 L ?key)" "cachedStoreKey s3 = cachedStoreKey ?s2"
      "sd_db s3 = sd_db ?s2" "healthy fault s3"
      using setStrict_store [OF h2] by blast
    let ?s4 = "s3\<lparr>cachedStoreKey := Some (so_to_base64 L ?key)\<rparr>"
    have "rel_db (held L (Some (so_to_base64 L ?key))) (sd_db s1) A"
      using inv1 None' k1 by (auto simp: store_inv_def held_def elim: rel_db_mono)
    then have "store_inv L fault ?s4 A" using 3 key by (auto simp: store_inv_def healthy_def)
    moreover have "getStoreKey L fault s = (Inr (so_to_base64 L ?key), ?s4)"
      using None None' 1 3 by (simp add: getStoreKey_def bnd_def sq_def ret_def upd_def randomSymmetricKey_def draw_def)
    ultimately show ?thesis using key 3 by auto
  qed
qed

lemma blob_text: "\<exists>p. stringify (blob_json b) = Some p"
  by (simp add: blob_json_def)

lemma encryptPayload_ok:
  assumes L: "sodium_ok L" and inv: "store_inv L fault s A" and j: "stringify j = Some t" "wf_json j"
  shows "\<exists>s' p. encryptPayload L fault j s = (Inr p, s') \<and> store_inv L fault s' A \<and> held L (dv_keyring s' STORE_KEY_ID) p j"
proof -
  obtain s1 key where 1: "getStoreKey L fault s = (Inr (so_to_base64 L key), s1)" "store_inv L fault s1 A"
    "dv_keyring s1 STORE_KEY_ID = Some (so_to_base64 L key)" "is_store_key L key" using getStoreKey_ok [OF L inv] by blast
  let ?n = "so_random L (dv_draw s1) NPUBBYTES"
  obtain c where c: "so_encrypt L (so_from_string L t) ?n key = Inr c" "so_decrypt L c ?n key = Inr (so_from_string L t)"
    using sodium_okD(5) [OF L, of ?n key "so_from_string L t"] sodium_okD(1) [OF L] 1(4) by (auto simp: is_store_key_def)
  obtain p where p: "stringify (blob_json (so_to_base64 L ?n, so_to_base64 L c)) = Some p" using blob_text by blast
  have "\<exists>s'. encryptPayload L fault j s = (Inr p, s') \<and> same_store s1 s'"
    using 1(1) c p j(1) sodium_okD(2) [OF L]
    by (simp add: encryptPayload_def encryptWithSymmetricKey_def to_text_def bnd_def ret_def parseBase64_def alloc_def draw_def
        finally_do_def wipeBytes_def same_store_def)
  then obtain s' where s': "encryptPayload L fault j s = (Inr p, s')" "same_store s1 s'" by blast
  have "opens L key p j" unfolding opens_def using c p j sodium_okD(1) [OF L]
    by (intro exI [of _ ?n] exI [of _ c] exI [of _ t]) simp
  then have "held L (dv_keyring s' STORE_KEY_ID) p j" using 1(3,4) s'(2) by (auto simp: held_def same_store_def)
  with s' store_inv_frame [OF 1(2) s'(2)] show ?thesis by blast
qed

lemma blob_wf [simp]: "wf_json (blob_json b)"
  by (simp add: blob_json_def)

lemma blob_fields [simp]:
  "json_get (blob_json (n, c)) ''ciphertext'' = Some (JStr c)" "json_get (blob_json (n, c)) ''nonce'' = Some (JStr n)"
  "blob_json b \<noteq> JNull"
  by (simp_all add: blob_json_def)

lemma decryptPayload_ok:
  assumes L: "sodium_ok L" and inv: "store_inv L fault s A" and p: "held L (dv_keyring s STORE_KEY_ID) p j"
  shows "\<exists>s'. decryptPayload L fault p s = (Inr j, s') \<and> store_inv L fault s' A \<and> dv_keyring s' STORE_KEY_ID = dv_keyring s STORE_KEY_ID"
proof -
  obtain s1 key where 1: "getStoreKey L fault s = (Inr (so_to_base64 L key), s1)" "store_inv L fault s1 A"
    "dv_keyring s1 STORE_KEY_ID = Some (so_to_base64 L key)" using getStoreKey_ok [OF L inv] by blast
  obtain key' where k: "dv_keyring s STORE_KEY_ID = Some (so_to_base64 L key')" "opens L key' p j" using p by (auto simp: held_def)
  have "fst (getStoreKey L fault s) = Inr (so_to_base64 L key')"
    using inv k(1) p getStrict_store [of fault s]
    by (auto simp: getStoreKey_def store_inv_def ret_def bnd_def sq_def upd_def held_def is_store_key_def)
  then have "so_to_base64 L key = so_to_base64 L key'" using 1(1) by simp
  then have key: "key = key'" using sodium_okD(2) [OF L] by (metis sum.inject(2))
  obtain n c t where o: "p = the (stringify (blob_json (so_to_base64 L n, so_to_base64 L c)))" "length n = NPUBBYTES"
    "so_decrypt L c n key = Inr (so_from_string L t)" "stringify j = Some t" "wf_json j"
    using k(2) key by (auto simp: opens_def)
  obtain q where "stringify (blob_json (so_to_base64 L n, so_to_base64 L c)) = Some q" using blob_text by blast
  then have q: "JSON_parse p = Some (blob_json (so_to_base64 L n, so_to_base64 L c))" using o(1) stringify_reads blob_wf by force
  have t: "JSON_parse t = Some j" using stringify_reads o(4,5) by blast
  have "\<exists>s'. decryptPayload L fault p s = (Inr j, s') \<and> same_store s1 s'"
    using 1(1) q t o sodium_okD(2,3) [OF L]
    by (simp add: decryptPayload_def decrypt_fields_def decryptWithSymmetricKey_def open_with_key_def check_nonce_def from_text_def
        EXPECTED_NONCE_BYTES_def NPUBBYTES_def bnd_def sq_def ret_def parseBase64_def alloc_def finally_do_def wipeBytes_def same_store_def)
  then obtain s' where s': "decryptPayload L fault p s = (Inr j, s')" "same_store s1 s'" by blast
  have "dv_keyring s' STORE_KEY_ID = dv_keyring s STORE_KEY_ID" using 1(3) k key s'(2) by (simp add: same_store_def)
  with s' store_inv_frame [OF 1(2) s'(2)] show ?thesis by blast
qed

lemma decrypt_rows_ok:
  assumes L: "sodium_ok L"
  shows "list_all2 (held L k) ps js \<Longrightarrow> store_inv L fault s A \<Longrightarrow> dv_keyring s STORE_KEY_ID = k \<Longrightarrow>
    \<exists>s'. decrypt_rows L fault ps s = (Inr js, s') \<and> store_inv L fault s' A"
proof (induction ps js arbitrary: s rule: list_all2_induct)
  case Nil
  then show ?case by (simp add: ret_def)
next
  case (Cons p ps j js)
  then obtain s1 where 1: "decryptPayload L fault p s = (Inr j, s1)" "store_inv L fault s1 A"
    "dv_keyring s1 STORE_KEY_ID = k" using decryptPayload_ok [OF L Cons.prems(1)] by metis
  then show ?case using Cons.IH [OF 1(2,3)] by (auto simp: bnd_def ret_def)
qed

definition entry_of :: "json outbox_row \<Rightarrow> outbox_entry" where
  "entry_of r = \<lparr>oe_clientMessageId = or_client_message_id r, oe_conversationId = or_conversation_id r,
     oe_payload = or_payload r, oe_createdAt = or_created_at r, oe_retryCount = or_retry_count r\<rparr>"

lemma decrypt_outbox_ok:
  assumes L: "sodium_ok L"
  shows "list_all2 (rel_or (held L k)) ps js \<Longrightarrow> store_inv L fault s A \<Longrightarrow> dv_keyring s STORE_KEY_ID = k \<Longrightarrow>
    \<exists>s'. decrypt_outbox L fault ps s = (Inr (map entry_of js), s') \<and> store_inv L fault s' A"
proof (induction ps js arbitrary: s rule: list_all2_induct)
  case Nil
  then show ?case by (simp add: ret_def)
next
  case (Cons p ps j js)
  have h: "held L (dv_keyring s STORE_KEY_ID) (or_payload p) (or_payload j)" using Cons by (simp add: rel_or_def)
  then obtain s1 where 1: "decryptPayload L fault (or_payload p) s = (Inr (or_payload j), s1)" "store_inv L fault s1 A"
    "dv_keyring s1 STORE_KEY_ID = k" using decryptPayload_ok [OF L Cons.prems(1)] Cons.prems by metis
  then show ?case using Cons.IH [OF 1(2,3)] Cons.hyps(1) by (auto simp: bnd_def ret_def rel_or_def entry_of_def)
qed

lemma db_call_ok:
  assumes "store_inv L fault s A" "rel_db (held L (dv_keyring s STORE_KEY_ID)) (f (sd_db s)) A'"
  shows "\<exists>s'. db_call fault f s = (Inr (), s') \<and> store_inv L fault s' A'"
  using assms by (simp add: db_call_def native_def store_inv_def healthy_def Let_def)

lemma db_query_ok:
  assumes "store_inv L fault s A"
  shows "\<exists>s'. db_query fault f s = (Inr (f (sd_db s)), s') \<and> store_inv L fault s' A
    \<and> dv_keyring s' = dv_keyring s"
  using assms by (simp add: db_query_def native_def store_inv_def healthy_def Let_def)

subsection \<open>Refinement of a store in the clear\<close>

datatype store_op =
    SaveConversation json
  | ListConversations
  | SaveMessage json
  | ListMessages string int
  | EnqueueOutbox string string json string
  | ListOutbox
  | DeleteOutbox string
  | IncrementOutboxRetry string
  | ReadSyncCursor
  | WriteSyncCursor int
  | Restart

datatype store_result = RDone | RValues "json list" | ROutbox "outbox_entry list" | RCursor int

definition no_result :: "('e, unit) store_io \<Rightarrow> ('e, store_result) store_io" where
  "no_result m = bnd m (\<lambda>_. ret RDone)"

text \<open>A restart of the client forgets the module variable.\<close>

fun store_step :: "sodium \<Rightarrow> fault \<Rightarrow> store_op \<Rightarrow> ('e, store_result) store_io" where
  "store_step L fault (SaveConversation c) = no_result (saveConversation L fault c)"
| "store_step L fault ListConversations = bnd (listConversations L fault) (\<lambda>xs. ret (RValues xs))"
| "store_step L fault (SaveMessage m) = no_result (saveMessage L fault m)"
| "store_step L fault (ListMessages v n) = bnd (listMessages L fault v n) (\<lambda>xs. ret (RValues xs))"
| "store_step L fault (EnqueueOutbox i v p t) = no_result (enqueueOutbox L fault i v p t)"
| "store_step L fault ListOutbox = bnd (listOutbox L fault) (\<lambda>xs. ret (ROutbox xs))"
| "store_step L fault (DeleteOutbox i) = no_result (deleteOutbox fault i)"
| "store_step L fault (IncrementOutboxRetry i) = no_result (incrementOutboxRetry fault i)"
| "store_step L fault ReadSyncCursor = bnd (readSyncCursor fault) (\<lambda>n. ret (RCursor n))"
| "store_step L fault (WriteSyncCursor n) = no_result (writeSyncCursor fault n)"
| "store_step L fault Restart = no_result (upd (\<lambda>s. s\<lparr>cachedStoreKey := None\<rparr>))"

fun store_run :: "sodium \<Rightarrow> fault \<Rightarrow> store_op list \<Rightarrow> 'e store_device_scheme \<Rightarrow> (js_error + store_result) list \<times> 'e store_device_scheme" where
  "store_run L fault [] s = ([], s)"
| "store_run L fault (x # xs) s = (case store_step L fault x s of (r, s1) \<Rightarrow>
     (case store_run L fault xs s1 of (rs, s2) \<Rightarrow> (r # rs, s2)))"

text \<open>The specification: the same commands on payloads in the clear.\<close>

definition text_of :: "json option \<Rightarrow> string" where
  "text_of v = (case as_str v of Some t \<Rightarrow> t | None \<Rightarrow> [])"

definition envelope_field :: "json \<Rightarrow> string \<Rightarrow> json option" where
  "envelope_field m f = (case json_get m ''envelope'' of None \<Rightarrow> None | Some e \<Rightarrow> json_get e f)"

definition sequence_of :: "json option \<Rightarrow> int option" where
  "sequence_of v = (case v of Some (JNum n) \<Rightarrow> Some n | _ \<Rightarrow> None)"

fun clear_step :: "store_op \<Rightarrow> (json, json, json) message_db \<Rightarrow> store_result \<times> (json, json, json) message_db" where
  "clear_step (SaveConversation c) A =
     (RDone, messaging_store_upsert_conversation (text_of (json_get c ''id'')) c (text_of (json_get c ''updatedAt'')) A)"
| "clear_step ListConversations A = (RValues (messaging_store_list_conversations A), A)"
| "clear_step (SaveMessage m) A =
     (RDone, messaging_store_upsert_message (text_of (envelope_field m ''id'')) (text_of (envelope_field m ''conversationId''))
        (sequence_of (envelope_field m ''serverSequence'')) m (text_of (envelope_field m ''createdAt'')) A)"
| "clear_step (ListMessages v n) A = (RValues (messaging_store_list_messages v n A), A)"
| "clear_step (EnqueueOutbox i v p t) A = (RDone, messaging_store_enqueue_outbox i v p t A)"
| "clear_step ListOutbox A = (ROutbox (map entry_of (messaging_store_list_outbox A)), A)"
| "clear_step (DeleteOutbox i) A = (RDone, messaging_store_delete_outbox i A)"
| "clear_step (IncrementOutboxRetry i) A = (RDone, messaging_store_increment_outbox_retry i A)"
| "clear_step ReadSyncCursor A = (RCursor (messaging_store_read_sync_cursor A), A)"
| "clear_step (WriteSyncCursor n) A = (RDone, messaging_store_write_sync_cursor n A)"
| "clear_step Restart A = (RDone, A)"

fun clear_run :: "store_op list \<Rightarrow> (json, json, json) message_db \<Rightarrow> store_result list" where
  "clear_run [] A = []"
| "clear_run (x # xs) A = (case clear_step x A of (r, A') \<Rightarrow> r # clear_run xs A')"

text \<open>Payloads the client passes: JSON of the shape of its type.\<close>

definition storable :: "json \<Rightarrow> bool" where
  "storable j \<longleftrightarrow> wf_json j \<and> stringify j \<noteq> None"

fun op_ok :: "store_op \<Rightarrow> bool" where
  "op_ok (SaveConversation c) = (storable c \<and> as_str (json_get c ''id'') \<noteq> None \<and> as_str (json_get c ''updatedAt'') \<noteq> None)"
| "op_ok (SaveMessage m) = (storable m \<and> as_str (envelope_field m ''id'') \<noteq> None \<and> as_str (envelope_field m ''conversationId'') \<noteq> None
     \<and> sequence_of (envelope_field m ''serverSequence'') \<noteq> None \<and> as_str (envelope_field m ''createdAt'') \<noteq> None)"
| "op_ok (EnqueueOutbox i v p t) = storable p"
| "op_ok _ = True"

lemma text_arg_ok: "as_str v \<noteq> None \<Longrightarrow> text_arg v = ret (text_of v)"
  by (auto simp: text_arg_def text_of_def)

lemma sequence_arg_ok: "sequence_of v \<noteq> None \<Longrightarrow> sequence_arg v = ret (sequence_of v)"
  by (auto simp: sequence_arg_def sequence_of_def split: option.splits json.splits)

text \<open>A row is written once its payload is encrypted.\<close>

lemma encrypted_call_ok:
  fixes s :: "'e store_device_scheme"
  assumes L: "sodium_ok L" and inv: "store_inv L fault s A" and j: "storable j"
    and step: "\<And>(u :: 'e store_device_scheme) p. rel_db (held L (dv_keyring u STORE_KEY_ID)) (sd_db u) A \<Longrightarrow> held L (dv_keyring u STORE_KEY_ID) p j
      \<Longrightarrow> rel_db (held L (dv_keyring u STORE_KEY_ID)) (f p (sd_db u)) B"
  obtains p u s' where "encryptPayload L fault j s = (Inr p, u)" "db_call fault (f p) u = (Inr (), s')" "store_inv L fault s' B"
proof -
  obtain t where "stringify j = Some t" "wf_json j" using j by (auto simp: storable_def)
  then obtain u p where u: "encryptPayload L fault j s = (Inr p, u)" "store_inv L fault u A" "held L (dv_keyring u STORE_KEY_ID) p j"
    using encryptPayload_ok [OF L inv] by blast
  have "rel_db (held L (dv_keyring u STORE_KEY_ID)) (sd_db u) A" using u(2) by (simp add: store_inv_def)
  then have "\<exists>s'. db_call fault (f p) u = (Inr (), s') \<and> store_inv L fault s' B"
    by (intro db_call_ok [OF u(2)] step [OF _ u(3)])
  then show thesis using that u(1) by blast
qed

lemma save_step_ok:
  assumes L: "sodium_ok L" and inv: "store_inv L fault s A" and x: "op_ok x"
    and saves: "(\<exists>c. x = SaveConversation c) \<or> (\<exists>m. x = SaveMessage m) \<or> (\<exists>i v j t. x = EnqueueOutbox i v j t)"
  shows "\<exists>s'. store_step L fault x s = (Inr (fst (clear_step x A)), s') \<and> store_inv L fault s' (snd (clear_step x A))"
  using saves
proof (elim disjE exE)
  fix c assume c: "x = SaveConversation c"
  let ?f = "\<lambda>p. messaging_store_upsert_conversation (text_of (json_get c ''id'')) p (text_of (json_get c ''updatedAt''))"
  obtain p u s' where "encryptPayload L fault c s = (Inr p, u)" "db_call fault (?f p) u = (Inr (), s')" "store_inv L fault s' (?f c A)"
    by (rule encrypted_call_ok [OF L inv, of c ?f "?f c A"]) (use x c in \<open>auto intro: rel_tables_steps(1)\<close>)
  then show ?thesis using x c by (auto simp: no_result_def saveConversation_def bnd_def text_arg_ok ret_def)
next
  fix m assume m: "x = SaveMessage m"
  let ?f = "\<lambda>p. messaging_store_upsert_message (text_of (envelope_field m ''id'')) (text_of (envelope_field m ''conversationId''))
    (sequence_of (envelope_field m ''serverSequence'')) p (text_of (envelope_field m ''createdAt''))"
  obtain p u s' where u: "encryptPayload L fault m s = (Inr p, u)" "db_call fault (?f p) u = (Inr (), s')" "store_inv L fault s' (?f m A)"
    by (rule encrypted_call_ok [OF L inv, of m ?f "?f m A"]) (use x m in \<open>auto intro: rel_tables_steps(2)\<close>)
  obtain e where e: "json_get m ''envelope'' = Some e" using x m by (cases "json_get m ''envelope''") (auto simp: envelope_field_def)
  moreover have "e \<noteq> JNull" using x m e by (auto simp: envelope_field_def)
  ultimately show ?thesis using m u x
    by (auto simp: no_result_def saveMessage_def bnd_def text_arg_ok sequence_arg_ok ret_def envelope_field_def)
next
  fix i v j t assume o: "x = EnqueueOutbox i v j t"
  let ?f = "\<lambda>p. messaging_store_enqueue_outbox i v p t"
  obtain p u s' where "encryptPayload L fault j s = (Inr p, u)" "db_call fault (?f p) u = (Inr (), s')" "store_inv L fault s' (?f j A)"
    by (rule encrypted_call_ok [OF L inv, of j ?f "?f j A"]) (use x o in \<open>auto intro: rel_tables_steps(3)\<close>)
  then show ?thesis using o by (auto simp: no_result_def enqueueOutbox_def bnd_def ret_def)
qed

text \<open>A query answers with what the rows hold.\<close>

lemma query_step_ok:
  assumes L: "sodium_ok L" and inv: "store_inv L fault s A"
    and queries: "x = ListConversations \<or> (\<exists>v n. x = ListMessages v n) \<or> x = ListOutbox \<or> x = ReadSyncCursor"
  shows "\<exists>s'. store_step L fault x s = (Inr (fst (clear_step x A)), s') \<and> store_inv L fault s' (snd (clear_step x A))"
proof -
  have rel: "rel_db (held L (dv_keyring s STORE_KEY_ID)) (sd_db s) A" using inv by (simp add: store_inv_def)
  note held = rel_tables_queries [OF rel]
  show ?thesis
    using queries
  proof (elim disjE exE)
    assume x: "x = ListConversations"
    obtain u where u: "db_query fault messaging_store_list_conversations s = (Inr (messaging_store_list_conversations (sd_db s)), u)"
      "store_inv L fault u A" "dv_keyring u = dv_keyring s" using db_query_ok [OF inv] by blast
    show ?thesis using x u decrypt_rows_ok [OF L held(1) u(2)] by (auto simp: listConversations_def bnd_def ret_def)
  next
    fix v n assume x: "x = ListMessages v n"
    obtain u where u: "db_query fault (messaging_store_list_messages v n) s = (Inr (messaging_store_list_messages v n (sd_db s)), u)"
      "store_inv L fault u A" "dv_keyring u = dv_keyring s" using db_query_ok [OF inv] by blast
    show ?thesis using x u decrypt_rows_ok [OF L held(2) [of v n] u(2)] by (auto simp: listMessages_def bnd_def ret_def)
  next
    assume x: "x = ListOutbox"
    obtain u where u: "db_query fault messaging_store_list_outbox s = (Inr (messaging_store_list_outbox (sd_db s)), u)"
      "store_inv L fault u A" "dv_keyring u = dv_keyring s" using db_query_ok [OF inv] by blast
    show ?thesis using x u decrypt_outbox_ok [OF L held(3) u(2)] by (auto simp: listOutbox_def bnd_def ret_def)
  next
    assume x: "x = ReadSyncCursor"
    obtain u where "db_query fault messaging_store_read_sync_cursor s = (Inr (messaging_store_read_sync_cursor (sd_db s)), u)"
      "store_inv L fault u A" using db_query_ok [OF inv] by blast
    then show ?thesis using x held(4) by (auto simp: readSyncCursor_def bnd_def ret_def)
  qed
qed

lemma store_step_ok:
  assumes L: "sodium_ok L" and inv: "store_inv L fault s A" and x: "op_ok x"
  shows "\<exists>s'. store_step L fault x s = (Inr (fst (clear_step x A)), s') \<and> store_inv L fault s' (snd (clear_step x A))"
proof -
  have rel: "rel_db (held L (dv_keyring s STORE_KEY_ID)) (sd_db s) A" using inv by (simp add: store_inv_def)
  show ?thesis
  proof (cases x)
    case (DeleteOutbox i)
    then show ?thesis using db_call_ok [OF inv, of "messaging_store_delete_outbox i", OF rel_tables_steps(4) [OF rel]] by (auto simp: no_result_def deleteOutbox_def bnd_def ret_def)
  next
    case (IncrementOutboxRetry i)
    then show ?thesis using db_call_ok [OF inv, of "messaging_store_increment_outbox_retry i", OF rel_tables_steps(5) [OF rel]] by (auto simp: no_result_def incrementOutboxRetry_def bnd_def ret_def)
  next
    case (WriteSyncCursor n)
    then show ?thesis using db_call_ok [OF inv, of "messaging_store_write_sync_cursor n", OF rel_tables_steps(6) [OF rel]] by (auto simp: no_result_def writeSyncCursor_def bnd_def ret_def)
  next
    case Restart
    have "store_inv L fault (s\<lparr>cachedStoreKey := None\<rparr>) A" using inv by (simp add: store_inv_def healthy_def)
    then show ?thesis using Restart by (simp add: no_result_def bnd_def upd_def ret_def)
  qed ((rule save_step_ok [OF L inv x], blast) | (rule query_step_ok [OF L inv], blast))+
qed

lemma store_run_ok:
  assumes L: "sodium_ok L"
  shows "store_inv L fault s A \<Longrightarrow> \<forall>x \<in> set xs. op_ok x \<Longrightarrow> fst (store_run L fault xs s) = map Inr (clear_run xs A)"
proof (induction xs arbitrary: s A)
  case (Cons x xs)
  obtain s1 where 1: "store_step L fault x s = (Inr (fst (clear_step x A)), s1)" "store_inv L fault s1 (snd (clear_step x A))"
    using store_step_ok [OF L Cons.prems(1)] Cons.prems(2) by force
  show ?case using 1 Cons.IH [OF 1(2)] Cons.prems(2) by (simp add: split_def)
qed simp

text \<open>C6. The encrypted store refines a store in the clear: starting on an empty database, and whatever
  sequence of saves, lists, outbox and cursor operations is run, with restarts of the client between
  them, every operation succeeds and returns exactly what the same commands return on the payloads
  themselves; nothing saved is lost, altered or reordered by the encryption.\<close>

theorem store_behaves_like_cleartext:
  fixes s :: "'e store_device_scheme"
  assumes "sodium_ok L" "healthy fault s" "sd_db s = empty_db" "cachedStoreKey s = None" "dv_keyring s STORE_KEY_ID = None"
    and "\<forall>x \<in> set xs. op_ok x"
  shows "fst (store_run L fault xs s) = map Inr (clear_run xs empty_db)"
proof -
  have "store_inv L fault s empty_db" using assms(2-5) by (simp add: store_inv_def rel_tables_empty)
  then show ?thesis by (rule store_run_ok [OF assms(1) _ assms(6)])
qed

definition ex_store_device :: store_device where
  "ex_store_device = \<lparr>dv_tauri = True, dv_calls = 0, dv_keyring = Map.empty, dv_fallback = Map.empty, dv_draw = 0, dv_mem = [],
     sd_db = empty_db, cachedStoreKey = None\<rparr>"

lemma store_behaves_like_cleartext_witness:
  "fst (store_run toy_sodium (\<lambda>_. None) [EnqueueOutbox ''c1'' ''v'' (JArr [JStr ''x'']) ''t'', Restart, ListOutbox] ex_store_device)
   = [Inr RDone, Inr RDone, Inr (ROutbox [\<lparr>oe_clientMessageId = ''c1'', oe_conversationId = ''v'', oe_payload = JArr [JStr ''x''],
        oe_createdAt = ''t'', oe_retryCount = 0\<rparr>])]"
proof -
  let ?xs = "[EnqueueOutbox ''c1'' ''v'' (JArr [JStr ''x'']) ''t'', Restart, ListOutbox]"
  have "fst (store_run toy_sodium (\<lambda>_. None) ?xs ex_store_device) = map Inr (clear_run ?xs empty_db)"
    by (rule store_behaves_like_cleartext [OF toy_sodium_ok]) (auto simp: ex_store_device_def healthy_def storable_def)
  also have "clear_run ?xs empty_db = [RDone, RDone, ROutbox [\<lparr>oe_clientMessageId = ''c1'', oe_conversationId = ''v'',
      oe_payload = JArr [JStr ''x''], oe_createdAt = ''t'', oe_retryCount = 0\<rparr>]]"
    by (simp add: messaging_store_enqueue_outbox_def messaging_store_list_outbox_def sql_upsert_def empty_db_def entry_of_def js_sort_def)
  finally show ?thesis by simp
qed

subsection \<open>No payload reaches the database in the clear\<close>

text \<open>A row as \<open>encryptPayload\<close> writes it: the text of a nonce and a ciphertext that the cipher produced.\<close>

definition sealed :: "sodium \<Rightarrow> string \<Rightarrow> bool" where
  "sealed L p \<longleftrightarrow> (\<exists>m n key c. so_encrypt L m n key = Inr c \<and> p = the (stringify (blob_json (so_to_base64 L n, so_to_base64 L c))))"

definition all_sealed :: "sodium \<Rightarrow> (string, string, string) message_db \<Rightarrow> bool" where
  "all_sealed L db \<longleftrightarrow> rel_db (\<lambda>p q. sealed L p \<and> p = q) db db"

lemma all_sealed_iff: "all_sealed L db \<longleftrightarrow> (\<forall>r \<in> set (db_conversations db). sealed L (cr_payload r))
    \<and> (\<forall>r \<in> set (db_messages db). sealed L (mr_payload r)) \<and> (\<forall>r \<in> set (db_outbox db). sealed L (or_payload r))"
  by (auto simp: all_sealed_def rel_tables_def rel_cr_def rel_mr_def rel_or_def list_all2_same)

text \<open>Every part of the module but \<open>db_call\<close> leaves the database as it is.\<close>

definition on_db :: "((string, string, string) message_db \<Rightarrow> bool) \<Rightarrow> 'e store_device_scheme \<Rightarrow> bool" where
  "on_db Q s \<longleftrightarrow> Q (sd_db s)"

lemma on_db_base [keeps]:
  "keeps_pred (on_db Q) (draw f)" "keeps_pred (on_db Q) (alloc b)" "keeps_pred (on_db Q) (lift_lib r)"
  "keeps_pred (on_db Q) (to_text j)" "keeps_pred (on_db Q) (from_text t)" "keeps_pred (on_db Q) (text_arg v)"
  "keeps_pred (on_db Q) (sequence_arg v)" "keeps_pred (on_db Q) (getStrict fault k)" "keeps_pred (on_db Q) (setStrict fault k w)"
  "keeps_pred (on_db Q) (parseBase64 L t)" "keeps_pred (on_db Q) (check_nonce b)" "keeps_pred (on_db Q) (db_query fault q)"
  by (auto simp: keeps_pred_def on_db_def eff_simps draw_def alloc_def lift_lib_def to_text_def from_text_def text_arg_def
      sequence_arg_def getStrict_def setStrict_def native_def parseBase64_def check_nonce_def db_query_def Let_def
      split: option.split sum.split json.split)

lemma on_db_fields [simp]: "on_db Q (wipeBytes i s) = on_db Q s" "on_db Q (s\<lparr>cachedStoreKey := v\<rparr>) = on_db Q s"
  by (simp_all add: on_db_def wipeBytes_def)

lemma getStoreKey_keeps [keeps]: "keeps_pred (on_db Q) (getStoreKey L fault)"
  unfolding getStoreKey_def randomSymmetricKey_def by (intro keeps) (auto simp: keeps_pred_def ret_def)

lemma encryptPayload_keeps [keeps]: "keeps_pred (on_db Q) (encryptPayload L fault j)"
  unfolding encryptPayload_def encryptWithSymmetricKey_def by (intro keeps) auto

lemma decrypt_fields_keeps [keeps]: "keeps_pred (on_db Q) (decrypt_fields L c n k)"
  by (cases "as_str c"; cases "as_str n"; simp add: decrypt_fields_def decryptWithSymmetricKey_def open_with_key_def;
      intro keeps; simp)

lemma decryptPayload_keeps [keeps]: "keeps_pred (on_db Q) (decryptPayload L fault j)"
  unfolding decryptPayload_def by (intro keeps)

lemma decrypt_rows_keeps [keeps]:
  "keeps_pred (on_db Q) (decrypt_rows L fault ps)" "keeps_pred (on_db Q) (decrypt_outbox L fault rows)"
  by (induction ps, simp_all add: keeps) (induction rows, simp_all add: keeps)

lemma encryptPayload_sealed:
  assumes "encryptPayload L fault j s = (Inr p, s')"
  shows "sealed L p"
  using assms
  by (auto simp: encryptPayload_def encryptWithSymmetricKey_def bnd_def to_text_def lift_lib_def parseBase64_def alloc_def draw_def
      finally_do_def ret_def throw_def sealed_def split: prod.splits sum.splits option.splits) (metis option.sel)

lemma sql_upsert_mem: "r \<in> set (sql_upsert key f row rows) \<Longrightarrow> r \<in> set rows \<or> r = row \<or> (\<exists>old. r = f old row)"
  using set_update_subset_insert [of rows] by (auto simp: sql_upsert_def split: option.splits)

lemma sealed_commands:
  assumes "all_sealed L db"
  shows "sealed L p \<Longrightarrow> all_sealed L (messaging_store_upsert_conversation i p u db)"
    and "sealed L p \<Longrightarrow> all_sealed L (messaging_store_upsert_message i v k p t db)"
    and "sealed L p \<Longrightarrow> all_sealed L (messaging_store_enqueue_outbox i v p t db)"
    and "all_sealed L (messaging_store_delete_outbox i db)"
    and "all_sealed L (messaging_store_increment_outbox_retry i db)"
    and "all_sealed L (messaging_store_write_sync_cursor n db)"
  using assms unfolding all_sealed_iff db_defs
  by (auto dest!: sql_upsert_mem)

lemma sealed_db_call [keeps]:
  "(\<And>db. all_sealed L db \<Longrightarrow> all_sealed L (f db)) \<Longrightarrow> keeps_pred (on_db (all_sealed L)) (db_call fault f)"
  by (simp add: keeps_pred_def on_db_def db_call_def native_def Let_def split: option.split)

lemma save_sealed:
  assumes "\<And>p. sealed L p \<Longrightarrow> keeps_pred (on_db (all_sealed L)) (f p)"
  shows "keeps_pred (on_db (all_sealed L)) (bnd (encryptPayload L fault j) f)"
  by (rule keeps_bnd_result) (auto intro: keeps assms encryptPayload_sealed)

lemmas save_defs = saveConversation_def saveMessage_def enqueueOutbox_def
lemmas query_defs = listConversations_def listMessages_def listOutbox_def readSyncCursor_def
lemmas command_defs = deleteOutbox_def incrementOutboxRetry_def writeSyncCursor_def

lemma store_step_sealed: "keeps_pred (on_db (all_sealed L)) (store_step L fault x)"
  by (cases x; simp add: save_defs query_defs command_defs no_result_def; (intro keeps save_sealed sealed_commands)?; (assumption | simp)?)

text \<open>C19. The database never holds a payload in the clear: on any sequence of operations, with any inputs,
  whichever native calls fail, every payload column is the text of a nonce and a ciphertext that the
  cipher produced.\<close>

theorem rows_are_ciphertexts:
  fixes s :: "'e store_device_scheme"
  assumes "sd_db s = empty_db"
  shows "all_sealed L (sd_db (snd (store_run L fault xs s)))"
proof -
  have "on_db (all_sealed L) s" using assms by (simp add: on_db_def all_sealed_iff empty_db_def)
  then have "on_db (all_sealed L) (snd (store_run L fault xs s))"
  proof (induction xs arbitrary: s)
    case (Cons x xs)
    show ?case using Cons.IH [OF keepsD [OF store_step_sealed Cons.prems]] by (simp add: split_def)
  qed simp
  then show ?thesis by (simp add: on_db_def)
qed

lemma rows_are_ciphertexts_witness:
  "all_sealed toy_sodium (sd_db (snd (store_run toy_sodium (\<lambda>n. if n = 3 then Some ''disk full'' else None)
     [SaveConversation (JObj [(''id'', JStr ''v''), (''updatedAt'', JStr ''t'')]), Restart, SaveConversation JNull] ex_store_device)))"
  by (rule rows_are_ciphertexts) (simp add: ex_store_device_def)

end
