(* ===== verification/Identity.thy ===== *)
theory Identity
  imports Crypto Json_Parse
begin

text \<open>
  \<open>services/identity.ts\<close>: the account's and the device's key pairs in the secure storage, the list of
  former device keys, and the rotation of the device key. \<open>sha\<close> is the platform's SHA-256
  (\<open>crypto.subtle.digest\<close>), not part of the repository.
\<close>

subsection \<open>Model\<close>

definition ACCOUNT_PRIVATE_KEY :: string where "ACCOUNT_PRIVATE_KEY = ''identity.account.private''"
definition ACCOUNT_PUBLIC_KEY :: string where "ACCOUNT_PUBLIC_KEY = ''identity.account.public''"
definition DEVICE_PRIVATE_KEY :: string where "DEVICE_PRIVATE_KEY = ''identity.device.private''"
definition DEVICE_PUBLIC_KEY :: string where "DEVICE_PUBLIC_KEY = ''identity.device.public''"
definition DEVICE_LEGACY_KEYS :: string where "DEVICE_LEGACY_KEYS = ''identity.device.legacy_keys''"
definition DEVICE_ID :: string where "DEVICE_ID = ''identity.device.id''"
definition DEVICE_NAME :: string where "DEVICE_NAME = ''identity.device.name''"

record identity_material =
  id_publicMaterial :: string
  id_privateMaterial :: string
  id_fingerprint :: string

record device_identity = identity_material +
  id_deviceId :: string
  id_deviceName :: string

definition utf8_char :: "char \<Rightarrow> bytes" where
  "utf8_char c = (let n = (of_char c :: nat) in
     if n < 128 then [of_nat n] else [of_nat (192 + n div 64), of_nat (128 + n mod 64)])"

definition byte_hex :: "byte \<Rightarrow> string" where
  "byte_hex b = [hex_digit (unat b div 16), hex_digit (unat b mod 16)]"

definition fingerprintFromMaterial :: "(bytes \<Rightarrow> bytes) \<Rightarrow> string \<Rightarrow> string" where
  "fingerprintFromMaterial sha material = concat (map byte_hex (sha (concat (map utf8_char (js_trim material)))))"

definition generateIdentityPair :: "(bytes \<Rightarrow> bytes) \<Rightarrow> sodium \<Rightarrow> ('d, identity_material) io" where
  "generateIdentityPair sha L =
     bnd (generateIdentityKeyPair L) (\<lambda>keyPair.
     ret \<lparr>id_publicMaterial = kp_publicKey keyPair, id_privateMaterial = kp_privateKey keyPair,
          id_fingerprint = fingerprintFromMaterial sha (kp_publicKey keyPair)\<rparr>)"

definition createAccountIdentity :: "(bytes \<Rightarrow> bytes) \<Rightarrow> sodium \<Rightarrow> fault \<Rightarrow> ('d, identity_material) io" where
  "createAccountIdentity sha L fault =
     bnd (generateIdentityPair sha L) (\<lambda>generated.
     sq (storage_set fault ACCOUNT_PRIVATE_KEY (id_privateMaterial generated))
     (sq (storage_set fault ACCOUNT_PUBLIC_KEY (id_publicMaterial generated))
     (ret generated)))"

definition loadOrCreateDeviceIdentity ::
    "(bytes \<Rightarrow> bytes) \<Rightarrow> sodium \<Rightarrow> fault \<Rightarrow> (nat \<Rightarrow> string) \<Rightarrow> string \<Rightarrow> ('d, device_identity) io" where
  "loadOrCreateDeviceIdentity sha L fault randomID deviceName =
     bnd (storage_get fault DEVICE_PUBLIC_KEY) (\<lambda>existingPublic.
     bnd (storage_get fault DEVICE_PRIVATE_KEY) (\<lambda>existingPrivate.
     bnd (storage_get fault DEVICE_ID) (\<lambda>existingId.
     if present existingPublic \<and> present existingPrivate \<and> present existingId
     then sq (storage_set fault DEVICE_NAME deviceName)
            (ret \<lparr>id_publicMaterial = the existingPublic, id_privateMaterial = the existingPrivate,
                  id_fingerprint = fingerprintFromMaterial sha (the existingPublic),
                  id_deviceId = the existingId, id_deviceName = deviceName\<rparr>)
     else bnd (generateIdentityPair sha L) (\<lambda>generated.
          bnd (draw randomID) (\<lambda>deviceId.
          sq (storage_set fault DEVICE_PRIVATE_KEY (id_privateMaterial generated))
          (sq (storage_set fault DEVICE_PUBLIC_KEY (id_publicMaterial generated))
          (sq (storage_set fault DEVICE_ID deviceId)
          (sq (storage_set fault DEVICE_NAME deviceName)
          (ret \<lparr>id_publicMaterial = id_publicMaterial generated, id_privateMaterial = id_privateMaterial generated,
                id_fingerprint = id_fingerprint generated, id_deviceId = deviceId, id_deviceName = deviceName\<rparr>)))))))))"

definition not_initialized :: js_error where
  "not_initialized = JsError ''device identity is not initialized''"

definition loadCurrentDeviceKeyMaterial :: "fault \<Rightarrow> ('d, key_pair) io" where
  "loadCurrentDeviceKeyMaterial fault =
     bnd (storage_get fault DEVICE_PUBLIC_KEY) (\<lambda>publicKey.
     bnd (storage_get fault DEVICE_PRIVATE_KEY) (\<lambda>privateKey.
     if \<not> present publicKey \<or> \<not> present privateKey then throw not_initialized
     else ret \<lparr>kp_publicKey = the publicKey, kp_privateKey = the privateKey\<rparr>))"

definition legacy_pair :: "json \<Rightarrow> key_pair option" where
  "legacy_pair item = (case (as_str (json_get item ''publicKey''), as_str (json_get item ''privateKey'')) of
      (Some a, Some b) \<Rightarrow> Some \<lparr>kp_publicKey = a, kp_privateKey = b\<rparr>
    | _ \<Rightarrow> None)"

text \<open>
  Reading the list of former keys. What is no array yields no keys, by the \<open>TypeError\<close> that both
  callers catch, or, for the \<open>for\<close> loop over a text, because characters have no such properties.
\<close>

definition legacy_keys :: "string option \<Rightarrow> key_pair list" where
  "legacy_keys raw =
     (if \<not> present raw then []
      else case JSON_parse (the raw) of
        Some (JArr items) \<Rightarrow> List.map_filter legacy_pair items
      | _ \<Rightarrow> [])"

definition parseLegacy :: "string option \<Rightarrow> key_pair list" where
  "parseLegacy raw = legacy_keys raw"

definition loadAllDeviceKeyMaterials :: "fault \<Rightarrow> ('d, key_pair list) io" where
  "loadAllDeviceKeyMaterials fault =
     bnd (loadCurrentDeviceKeyMaterial fault) (\<lambda>current.
     bnd (storage_get fault DEVICE_LEGACY_KEYS) (\<lambda>legacyRaw.
     ret (current # legacy_keys legacyRaw)))"

definition generateDeviceIdentityCandidate :: "(bytes \<Rightarrow> bytes) \<Rightarrow> sodium \<Rightarrow> fault \<Rightarrow> ('d, device_identity) io" where
  "generateDeviceIdentityCandidate sha L fault =
     bnd (storage_get fault DEVICE_ID) (\<lambda>existingDeviceID.
     bnd (storage_get fault DEVICE_NAME) (\<lambda>name.
     if \<not> present existingDeviceID then throw not_initialized
     else bnd (generateIdentityPair sha L) (\<lambda>generated.
          ret \<lparr>id_publicMaterial = id_publicMaterial generated, id_privateMaterial = id_privateMaterial generated,
               id_fingerprint = id_fingerprint generated, id_deviceId = the existingDeviceID,
               id_deviceName = (case name of Some n \<Rightarrow> n | None \<Rightarrow> ''Desktop device'')\<rparr>)))"

definition dedupeLegacy :: "key_pair list \<Rightarrow> key_pair list" where
  "dedupeLegacy items = seen_loop (\<lambda>item. kp_publicKey item @ '':'' @ kp_privateKey item) {} items"

definition legacy_json :: "key_pair list \<Rightarrow> json" where
  "legacy_json items = JArr (map (\<lambda>k. JObj [(''publicKey'', JStr (kp_publicKey k)), (''privateKey'', JStr (kp_privateKey k))]) items)"

definition legacy_text :: "key_pair list \<Rightarrow> string" where
  "legacy_text items = the (stringify (legacy_json items))"

definition commitDeviceIdentityRotation :: "fault \<Rightarrow> device_identity \<Rightarrow> ('d, unit) io" where
  "commitDeviceIdentityRotation fault next =
     bnd (loadCurrentDeviceKeyMaterial fault) (\<lambda>current.
     bnd (storage_get fault DEVICE_ID) (\<lambda>existingDeviceID.
     if \<not> present existingDeviceID then throw not_initialized
     else bnd (storage_get fault DEVICE_LEGACY_KEYS) (\<lambda>legacyRaw.
          sq (storage_set fault DEVICE_LEGACY_KEYS (legacy_text (take 5 (dedupeLegacy (current # parseLegacy legacyRaw)))))
          (if id_deviceId next \<noteq> the existingDeviceID then throw (JsError ''rotation candidate device id mismatch'')
           else sq (storage_set fault DEVICE_PRIVATE_KEY (id_privateMaterial next))
                (sq (storage_set fault DEVICE_PUBLIC_KEY (id_publicMaterial next))
                    (storage_set fault DEVICE_NAME (id_deviceName next)))))))"

definition rotateCurrentDeviceIdentity :: "(bytes \<Rightarrow> bytes) \<Rightarrow> sodium \<Rightarrow> fault \<Rightarrow> ('d, device_identity) io" where
  "rotateCurrentDeviceIdentity sha L fault =
     bnd (generateDeviceIdentityCandidate sha L fault) (\<lambda>candidate.
     sq (commitDeviceIdentityRotation fault candidate) (ret candidate))"

subsection \<open>The keys a keyring holds\<close>

definition current_pair :: "(string \<rightharpoonup> string) \<Rightarrow> key_pair option" where
  "current_pair K = (if present (K DEVICE_PUBLIC_KEY) \<and> present (K DEVICE_PRIVATE_KEY)
     then Some \<lparr>kp_publicKey = the (K DEVICE_PUBLIC_KEY), kp_privateKey = the (K DEVICE_PRIVATE_KEY)\<rparr> else None)"

definition held_keys :: "(string \<rightharpoonup> string) \<Rightarrow> key_pair list option" where
  "held_keys K = map_option (\<lambda>k. k # legacy_keys (K DEVICE_LEGACY_KEYS)) (current_pair K)"

lemma identity_keys_sensitive [simp]:
  "isSensitiveKey DEVICE_PUBLIC_KEY" "isSensitiveKey DEVICE_PRIVATE_KEY" "isSensitiveKey DEVICE_LEGACY_KEYS"
  "isSensitiveKey DEVICE_ID" "isSensitiveKey DEVICE_NAME" "isSensitiveKey ACCOUNT_PRIVATE_KEY" "isSensitiveKey ACCOUNT_PUBLIC_KEY"
  by code_simp+

lemma identity_neq [simp]:
  "DEVICE_PUBLIC_KEY \<noteq> DEVICE_PRIVATE_KEY" "DEVICE_PUBLIC_KEY \<noteq> DEVICE_LEGACY_KEYS" "DEVICE_PUBLIC_KEY \<noteq> DEVICE_ID" "DEVICE_PUBLIC_KEY \<noteq> DEVICE_NAME"
  "DEVICE_PRIVATE_KEY \<noteq> DEVICE_PUBLIC_KEY" "DEVICE_PRIVATE_KEY \<noteq> DEVICE_LEGACY_KEYS" "DEVICE_PRIVATE_KEY \<noteq> DEVICE_ID" "DEVICE_PRIVATE_KEY \<noteq> DEVICE_NAME"
  "DEVICE_LEGACY_KEYS \<noteq> DEVICE_PUBLIC_KEY" "DEVICE_LEGACY_KEYS \<noteq> DEVICE_PRIVATE_KEY" "DEVICE_LEGACY_KEYS \<noteq> DEVICE_ID" "DEVICE_LEGACY_KEYS \<noteq> DEVICE_NAME"
  "DEVICE_ID \<noteq> DEVICE_PUBLIC_KEY" "DEVICE_ID \<noteq> DEVICE_PRIVATE_KEY" "DEVICE_ID \<noteq> DEVICE_LEGACY_KEYS" "DEVICE_ID \<noteq> DEVICE_NAME"
  "DEVICE_NAME \<noteq> DEVICE_PUBLIC_KEY" "DEVICE_NAME \<noteq> DEVICE_PRIVATE_KEY" "DEVICE_NAME \<noteq> DEVICE_LEGACY_KEYS" "DEVICE_NAME \<noteq> DEVICE_ID"
  by code_simp+

lemma loadAll_healthy:
  assumes "healthy fault s"
  shows "fst (loadAllDeviceKeyMaterials fault s) = (case held_keys (dv_keyring s) of None \<Rightarrow> Inl not_initialized | Some ks \<Rightarrow> Inr ks)"
proof -
  obtain s1 where 1: "storage_get fault DEVICE_PUBLIC_KEY s = (Inr (dv_keyring s DEVICE_PUBLIC_KEY), s1)"
    "healthy fault s1" "dv_keyring s1 = dv_keyring s" using secrets.get_ok [OF assms identity_keys_sensitive(1)] by blast
  obtain s2 where 2: "storage_get fault DEVICE_PRIVATE_KEY s1 = (Inr (dv_keyring s DEVICE_PRIVATE_KEY), s2)"
    "healthy fault s2" "dv_keyring s2 = dv_keyring s" using secrets.get_ok [OF 1(2) identity_keys_sensitive(2)] 1 by metis
  obtain s3 where 3: "storage_get fault DEVICE_LEGACY_KEYS s2 = (Inr (dv_keyring s DEVICE_LEGACY_KEYS), s3)"
    using secrets.get_ok [OF 2(2) identity_keys_sensitive(3)] 2 by metis
  show ?thesis
    by (simp add: loadAllDeviceKeyMaterials_def loadCurrentDeviceKeyMaterial_def bnd_def 1 2 3 ret_def throw_def
        held_keys_def current_pair_def)
qed

subsection \<open>The list of former keys is read back\<close>

lemma legacy_pair_json [simp]:
  "legacy_pair (JObj [(''publicKey'', JStr (kp_publicKey k)), (''privateKey'', JStr (kp_privateKey k))]) = Some k"
  by (simp add: legacy_pair_def)

lemma legacy_json_text: "\<exists>t. stringify (legacy_json items) = Some t \<and> t \<noteq> []"
proof -
  have "stringify (JObj [(''publicKey'', JStr a), (''privateKey'', JStr b)]) \<noteq> None" for a b by simp
  then have "all_some (map stringify (map (\<lambda>k. JObj [(''publicKey'', JStr (kp_publicKey k)), (''privateKey'', JStr (kp_privateKey k))]) items)) \<noteq> None"
    by (induction items) auto
  then show ?thesis by (auto simp: legacy_json_def simp del: map_map)
qed

lemma legacy_keys_text [simp]: "legacy_keys (Some (legacy_text items)) = items"
proof -
  obtain t where t: "stringify (legacy_json items) = Some t" "t \<noteq> []" using legacy_json_text by blast
  have "wf_json (legacy_json items)" by (auto simp: legacy_json_def)
  from stringify_reads [OF t(1) this] have "JSON_parse t = Some (legacy_json items)" .
  moreover have "List.map_filter legacy_pair (map (\<lambda>k. JObj [(''publicKey'', JStr (kp_publicKey k)), (''privateKey'', JStr (kp_privateKey k))]) items) = items"
    by (induction items) (simp_all add: List.map_filter_def)
  moreover have "legacy_text items = t" by (simp add: legacy_text_def t(1))
  ultimately show ?thesis using t(2) by (simp add: legacy_keys_def present_def legacy_json_def)
qed

subsection \<open>Rotation\<close>

text \<open>A call that only reads, on any schedule of failures.\<close>

definition reads_only :: "('d, 'a) io \<Rightarrow> bool" where
  "reads_only m \<longleftrightarrow> (\<forall>s. dv_keyring (snd (m s)) = dv_keyring s)"

lemma storage_get_reads: "reads_only (storage_get fault k)"
  by (auto simp: reads_only_def storage_defs eff_simps Let_def split: option.split sum.split)

lemma reads_only_bnd: "reads_only m \<Longrightarrow> (\<And>a. reads_only (f a)) \<Longrightarrow> reads_only (bnd m f)"
  by (simp add: reads_only_def bnd_def split_def split: sum.split) 

lemma reads_only_result: "reads_only (ret a)" "reads_only (throw e)"
  by (simp_all add: reads_only_def ret_def throw_def)

lemma loadCurrent_reads: "reads_only (loadCurrentDeviceKeyMaterial fault)"
  by (simp add: loadCurrentDeviceKeyMaterial_def reads_only_bnd storage_get_reads reads_only_result)

lemma reads_onlyD: "reads_only m \<Longrightarrow> m s = (r, s') \<Longrightarrow> dv_keyring s' = dv_keyring s"
  unfolding reads_only_def by (metis snd_conv)

lemma storage_set_result:
  assumes "isSensitiveKey k"
  shows "storage_set fault k v s = (r, s') \<Longrightarrow>
    (r = Inr () \<and> dv_keyring s' = (dv_keyring s)(k \<mapsto> v)) \<or> (\<exists>e. r = Inl e \<and> dv_keyring s' = dv_keyring s)"
  using assms by (auto simp: storage_defs eff_simps Let_def split: option.splits if_splits)

lemma loadCurrent_result:
  assumes "loadCurrentDeviceKeyMaterial fault s = (Inr cur, s')"
  shows "\<exists>pub priv. cur = \<lparr>kp_publicKey = pub, kp_privateKey = priv\<rparr>"
  using assms by (auto simp: loadCurrentDeviceKeyMaterial_def bnd_def ret_def throw_def split: prod.splits sum.splits if_splits)

lemma storage_get_result:
  assumes "isSensitiveKey k" "storage_get fault k s = (Inr v, s')"
  shows "v = dv_keyring s k \<or> v = None"
  using assms by (auto simp: storage_defs eff_simps Let_def split: option.splits if_splits)

lemma loadCurrent_current:
  assumes "loadCurrentDeviceKeyMaterial fault s = (Inr cur, s')"
  shows "current_pair (dv_keyring s) = Some cur"
proof -
  obtain r1 s1 where 1: "storage_get fault DEVICE_PUBLIC_KEY s = (r1, s1)" by fastforce
  with assms obtain p where p: "r1 = Inr p" by (cases r1) (auto simp: loadCurrentDeviceKeyMaterial_def bnd_def)
  obtain r2 s2 where 2: "storage_get fault DEVICE_PRIVATE_KEY s1 = (r2, s2)" by fastforce
  with assms 1 p obtain q where q: "r2 = Inr q" by (cases r2) (auto simp: loadCurrentDeviceKeyMaterial_def bnd_def)
  have k: "dv_keyring s1 = dv_keyring s" by (rule reads_onlyD [OF storage_get_reads 1])
  have "present p \<and> present q \<and> cur = \<lparr>kp_publicKey = the p, kp_privateKey = the q\<rparr>"
    using assms 1 2 p q by (auto simp: loadCurrentDeviceKeyMaterial_def bnd_def ret_def throw_def split: if_splits)
  moreover have "p = dv_keyring s DEVICE_PUBLIC_KEY \<or> p = None" "q = dv_keyring s DEVICE_PRIVATE_KEY \<or> q = None"
    using storage_get_result [OF identity_keys_sensitive(1)] storage_get_result [OF identity_keys_sensitive(2)] 1 2 p q k by metis+
  ultimately have "p = dv_keyring s DEVICE_PUBLIC_KEY" "q = dv_keyring s DEVICE_PRIVATE_KEY" "present p" "present q"
    "cur = \<lparr>kp_publicKey = the p, kp_privateKey = the q\<rparr>" by (auto simp: present_def)
  then show ?thesis by (simp add: current_pair_def)
qed

text \<open>The keyrings a rotation can leave behind, in the order of its writes.\<close>

definition rotation_stages :: "device_identity \<Rightarrow> key_pair list \<Rightarrow> (string \<rightharpoonup> string) \<Rightarrow> (string \<rightharpoonup> string) list" where
  "rotation_stages next legacy K =
     (let K1 = K(DEVICE_LEGACY_KEYS \<mapsto> legacy_text legacy);
          K2 = K1(DEVICE_PRIVATE_KEY \<mapsto> id_privateMaterial next);
          K3 = K2(DEVICE_PUBLIC_KEY \<mapsto> id_publicMaterial next);
          K4 = K3(DEVICE_NAME \<mapsto> id_deviceName next)
      in [K, K1, K2, K3, K4])"

lemma sq_writes:
  assumes k: "isSensitiveKey k" and m: "\<And>s. dv_keyring s = K' \<Longrightarrow> dv_keyring (snd (m s)) \<in> S" and s: "dv_keyring s = K"
    and K: "K \<in> S" "K' = K(k \<mapsto> v)"
  shows "dv_keyring (snd (sq (storage_set fault k v) m s)) \<in> S"
proof -
  obtain r s' where r: "storage_set fault k v s = (r, s')" by fastforce
  from storage_set_result [OF k r] show ?thesis using m [of s'] s K r by (auto simp: sq_def bnd_def)
qed

lemma commit_stages:
  "\<exists>legacyRaw cur. dv_keyring (snd (commitDeviceIdentityRotation fault next s)) = dv_keyring s
     \<or> current_pair (dv_keyring s) = Some cur \<and> dv_keyring (snd (commitDeviceIdentityRotation fault next s))
        \<in> set (rotation_stages next (take 5 (dedupeLegacy (cur # parseLegacy legacyRaw))) (dv_keyring s))"
proof -
  obtain r1 s1 where 1: "loadCurrentDeviceKeyMaterial fault s = (r1, s1)" by fastforce
  have k1: "dv_keyring s1 = dv_keyring s" by (rule reads_onlyD [OF loadCurrent_reads 1])
  show ?thesis
  proof (cases r1)
    case (Inl e)
    then show ?thesis using 1 k1 by (simp add: commitDeviceIdentityRotation_def bnd_def)
  next
    case (Inr cur)
    obtain r2 s2 where 2: "storage_get fault DEVICE_ID s1 = (r2, s2)" by fastforce
    have k2: "dv_keyring s2 = dv_keyring s" using reads_onlyD [OF storage_get_reads 2] k1 by simp
    obtain r3 s3 where 3: "storage_get fault DEVICE_LEGACY_KEYS s2 = (r3, s3)" by fastforce
    have k3: "dv_keyring s3 = dv_keyring s" using reads_onlyD [OF storage_get_reads 3] k2 by simp
    have cur: "current_pair (dv_keyring s) = Some cur" using loadCurrent_current 1 Inr by blast
    show ?thesis
    proof (cases "\<exists>d l. r2 = Inr d \<and> present d \<and> r3 = Inr l")
      case False
      then show ?thesis using 1 2 3 k2 k3 Inr
        by (cases r2; cases r3) (auto simp: commitDeviceIdentityRotation_def bnd_def throw_def)
    next
      case True
      then obtain d l where dl: "r2 = Inr d" "present d" "r3 = Inr l" by blast
      let ?legacy = "take 5 (dedupeLegacy (cur # parseLegacy l))"
      let ?S = "set (rotation_stages next ?legacy (dv_keyring s))"
      let ?K1 = "(dv_keyring s)(DEVICE_LEGACY_KEYS \<mapsto> legacy_text ?legacy)"
      have w4: "dv_keyring (snd (storage_set fault DEVICE_NAME (id_deviceName next) u)) \<in> ?S"
        if "dv_keyring u = ?K1(DEVICE_PRIVATE_KEY \<mapsto> id_privateMaterial next, DEVICE_PUBLIC_KEY \<mapsto> id_publicMaterial next)" for u :: "'a device_scheme"
      proof -
        obtain r u' where u: "storage_set fault DEVICE_NAME (id_deviceName next) u = (r, u')" by fastforce
        from storage_set_result [OF identity_keys_sensitive(5) u] show ?thesis using that u
          by (auto simp: rotation_stages_def Let_def)
      qed
      have w3: "dv_keyring (snd (sq (storage_set fault DEVICE_PUBLIC_KEY (id_publicMaterial next))
            (storage_set fault DEVICE_NAME (id_deviceName next)) u)) \<in> ?S"
        if "dv_keyring u = ?K1(DEVICE_PRIVATE_KEY \<mapsto> id_privateMaterial next)" for u :: "'a device_scheme"
        by (rule sq_writes [OF identity_keys_sensitive(1) w4 that _ refl]) (auto simp: rotation_stages_def Let_def)
      have w2: "dv_keyring (snd ((if id_deviceId next \<noteq> the d then throw (JsError ''rotation candidate device id mismatch'')
           else sq (storage_set fault DEVICE_PRIVATE_KEY (id_privateMaterial next))
                (sq (storage_set fault DEVICE_PUBLIC_KEY (id_publicMaterial next))
                    (storage_set fault DEVICE_NAME (id_deviceName next)))) u)) \<in> ?S"
        if "dv_keyring u = ?K1" for u :: "'a device_scheme"
      proof (cases "id_deviceId next = the d")
        case True
        have "dv_keyring (snd (sq (storage_set fault DEVICE_PRIVATE_KEY (id_privateMaterial next))
                (sq (storage_set fault DEVICE_PUBLIC_KEY (id_publicMaterial next))
                    (storage_set fault DEVICE_NAME (id_deviceName next))) u)) \<in> ?S"
          by (rule sq_writes [OF identity_keys_sensitive(2) w3 that _ refl]) (auto simp: rotation_stages_def Let_def)
        then show ?thesis using True by simp
      qed (use that in \<open>simp add: throw_def rotation_stages_def Let_def\<close>)
      have "dv_keyring (snd (commitDeviceIdentityRotation fault next s)) \<in> ?S"
        using 1 2 3 Inr dl sq_writes [OF identity_keys_sensitive(3) w2 k3 _ refl]
        by (simp add: commitDeviceIdentityRotation_def bnd_def rotation_stages_def Let_def)
      then show ?thesis using cur by blast
    qed
  qed
qed

lemma dedupeLegacy_head: "dedupeLegacy (k # ks) = k # seen_loop (\<lambda>item. kp_publicKey item @ '':'' @ kp_privateKey item) {kp_publicKey k @ '':'' @ kp_privateKey k} ks"
  by (simp add: dedupeLegacy_def)

lemma stage_keeps_key:
  assumes "current_pair K = Some cur" "K' \<in> set (rotation_stages next (cur # legacy) K)"
    and "id_publicMaterial next \<noteq> []" "id_privateMaterial next \<noteq> []"
  shows "\<exists>keys. held_keys K' = Some keys \<and> cur \<in> set keys"
proof -
  have p: "present (K DEVICE_PUBLIC_KEY)" "present (K DEVICE_PRIVATE_KEY)" using assms(1) by (auto simp: current_pair_def split: if_splits)
  have "present (K' DEVICE_PUBLIC_KEY)" "present (K' DEVICE_PRIVATE_KEY)"
    using assms(2-4) p identity_neq by (auto simp: rotation_stages_def Let_def present_def)
  then obtain k where k: "current_pair K' = Some k" by (simp add: current_pair_def)
  have "K' = K \<or> K' DEVICE_LEGACY_KEYS = Some (legacy_text (cur # legacy))"
    using assms(2) identity_neq by (auto simp: rotation_stages_def Let_def)
  then show ?thesis
  proof
    assume "K' = K"
    then show ?thesis using assms(1) by (simp add: held_keys_def)
  next
    assume l: "K' DEVICE_LEGACY_KEYS = Some (legacy_text (cur # legacy))"
    show ?thesis using k by (simp add: held_keys_def l)
  qed
qed

lemma commit_keeps_current:
  assumes "current_pair (dv_keyring s) = Some cur"
    and "id_publicMaterial next \<noteq> []" "id_privateMaterial next \<noteq> []"
  shows "\<exists>keys. held_keys (dv_keyring (snd (commitDeviceIdentityRotation fault next s))) = Some keys \<and> cur \<in> set keys"
proof -
  obtain raw c where "dv_keyring (snd (commitDeviceIdentityRotation fault next s)) = dv_keyring s
     \<or> current_pair (dv_keyring s) = Some c \<and> dv_keyring (snd (commitDeviceIdentityRotation fault next s))
        \<in> set (rotation_stages next (take 5 (dedupeLegacy (c # parseLegacy raw))) (dv_keyring s))"
    using commit_stages by blast
  then show ?thesis
  proof
    assume "dv_keyring (snd (commitDeviceIdentityRotation fault next s)) = dv_keyring s"
    then show ?thesis using assms(1) by (simp add: held_keys_def)
  next
    assume a: "current_pair (dv_keyring s) = Some c \<and> dv_keyring (snd (commitDeviceIdentityRotation fault next s))
        \<in> set (rotation_stages next (take 5 (dedupeLegacy (c # parseLegacy raw))) (dv_keyring s))"
    then have "c = cur" using assms(1) by simp
    moreover obtain rest where "take 5 (dedupeLegacy (cur # parseLegacy raw)) = cur # rest"
      by (simp add: dedupeLegacy_head numeral_eq_Suc)
    ultimately have "dv_keyring (snd (commitDeviceIdentityRotation fault next s)) \<in> set (rotation_stages next (cur # rest) (dv_keyring s))"
      using a by simp
    then show ?thesis by (rule stage_keeps_key [OF assms(1) _ assms(2,3)])
  qed
qed

text \<open>C10. Rotating the device key never loses the key in use, however it ends: if the keyring fails at any
  of its writes, and half of the rotation has been written, the pair that was current is still among
  the pairs that are tried when messages are decrypted.\<close>

theorem rotation_never_loses_the_current_key:
  assumes "current_pair (dv_keyring s) = Some cur"
    and "id_publicMaterial next \<noteq> []" "id_privateMaterial next \<noteq> []"
  shows "\<exists>keys. held_keys (dv_keyring (snd (commitDeviceIdentityRotation fault next s))) = Some keys \<and> cur \<in> set keys"
  using assms by (rule commit_keeps_current)

definition ex_identity_device :: device where
  "ex_identity_device = ex_device\<lparr>dv_keyring := [DEVICE_PUBLIC_KEY \<mapsto> ''P'', DEVICE_PRIVATE_KEY \<mapsto> ''S'', DEVICE_ID \<mapsto> ''D'']\<rparr>"

definition ex_next :: device_identity where
  "ex_next = \<lparr>id_publicMaterial = ''P2'', id_privateMaterial = ''S2'', id_fingerprint = ''f'', id_deviceId = ''D'', id_deviceName = ''N''\<rparr>"

lemma ex_identity_current: "current_pair (dv_keyring ex_identity_device) = Some \<lparr>kp_publicKey = ''P'', kp_privateKey = ''S''\<rparr>"
  using identity_neq by (simp add: ex_identity_device_def current_pair_def present_def)

lemma rotation_never_loses_the_current_key_witness:
  "\<exists>keys. held_keys (dv_keyring (snd (commitDeviceIdentityRotation (\<lambda>n. if n = 5 then Some ''locked'' else None) ex_next ex_identity_device)))
      = Some keys \<and> \<lparr>kp_publicKey = ''P'', kp_privateKey = ''S''\<rparr> \<in> set keys"
  by (rule rotation_never_loses_the_current_key [OF ex_identity_current]) (simp_all add: ex_next_def)

text \<open>On a working keyring a rotation of the same device succeeds; afterwards the new pair is tried
  first, then the pair it replaced, then the former ones without repetition, five at most.\<close>

theorem rotation_result:
  assumes "healthy fault s" "held_keys (dv_keyring s) = Some (cur # old)" "dv_keyring s DEVICE_ID = Some (id_deviceId next)"
    and "id_deviceId next \<noteq> []" "id_publicMaterial next \<noteq> []" "id_privateMaterial next \<noteq> []"
  shows "\<exists>s'. commitDeviceIdentityRotation fault next s = (Inr (), s')
    \<and> fst (loadAllDeviceKeyMaterials fault s')
       = Inr (\<lparr>kp_publicKey = id_publicMaterial next, kp_privateKey = id_privateMaterial next\<rparr> # take 5 (dedupeLegacy (cur # old)))"
proof -
  let ?K = "dv_keyring s"
  have c: "current_pair ?K = Some cur" "legacy_keys (?K DEVICE_LEGACY_KEYS) = old"
    using assms(2) by (auto simp: held_keys_def)
  then have p: "present (?K DEVICE_PUBLIC_KEY)" "present (?K DEVICE_PRIVATE_KEY)"
    and cur: "cur = \<lparr>kp_publicKey = the (?K DEVICE_PUBLIC_KEY), kp_privateKey = the (?K DEVICE_PRIVATE_KEY)\<rparr>"
    by (auto simp: current_pair_def split: if_splits)
  note get = secrets.get_ok [of fault] and put = secrets.put_ok [of fault]
  obtain s1 where 1: "storage_get fault DEVICE_PUBLIC_KEY s = (Inr (?K DEVICE_PUBLIC_KEY), s1)" "healthy fault s1" "dv_keyring s1 = ?K"
    using get [OF assms(1) identity_keys_sensitive(1)] by blast
  obtain s2 where 2: "storage_get fault DEVICE_PRIVATE_KEY s1 = (Inr (?K DEVICE_PRIVATE_KEY), s2)" "healthy fault s2" "dv_keyring s2 = ?K"
    using get [OF 1(2) identity_keys_sensitive(2)] 1 by metis
  obtain s3 where 3: "storage_get fault DEVICE_ID s2 = (Inr (?K DEVICE_ID), s3)" "healthy fault s3" "dv_keyring s3 = ?K"
    using get [OF 2(2) identity_keys_sensitive(4)] 2 by metis
  obtain s4 where 4: "storage_get fault DEVICE_LEGACY_KEYS s3 = (Inr (?K DEVICE_LEGACY_KEYS), s4)" "healthy fault s4" "dv_keyring s4 = ?K"
    using get [OF 3(2) identity_keys_sensitive(3)] 3 by metis
  let ?l = "take 5 (dedupeLegacy (cur # old))"
  obtain s5 where 5: "storage_set fault DEVICE_LEGACY_KEYS (legacy_text ?l) s4 = (Inr (), s5)" "healthy fault s5"
    "dv_keyring s5 = ?K(DEVICE_LEGACY_KEYS \<mapsto> legacy_text ?l)"
    using put [OF 4(2) identity_keys_sensitive(3)] 4 by metis
  obtain s6 where 6: "storage_set fault DEVICE_PRIVATE_KEY (id_privateMaterial next) s5 = (Inr (), s6)" "healthy fault s6"
    "dv_keyring s6 = (dv_keyring s5)(DEVICE_PRIVATE_KEY \<mapsto> id_privateMaterial next)"
    using put [OF 5(2) identity_keys_sensitive(2)] by metis
  obtain s7 where 7: "storage_set fault DEVICE_PUBLIC_KEY (id_publicMaterial next) s6 = (Inr (), s7)" "healthy fault s7"
    "dv_keyring s7 = (dv_keyring s6)(DEVICE_PUBLIC_KEY \<mapsto> id_publicMaterial next)"
    using put [OF 6(2) identity_keys_sensitive(1)] by metis
  obtain s8 where 8: "storage_set fault DEVICE_NAME (id_deviceName next) s7 = (Inr (), s8)" "healthy fault s8"
    "dv_keyring s8 = (dv_keyring s7)(DEVICE_NAME \<mapsto> id_deviceName next)"
    using put [OF 7(2) identity_keys_sensitive(5)] by metis
  have load: "loadCurrentDeviceKeyMaterial fault s = (Inr cur, s2)"
    using 1 2 p cur by (simp add: loadCurrentDeviceKeyMaterial_def bnd_def ret_def)
  have commit: "commitDeviceIdentityRotation fault next s = (Inr (), s8)"
    using load 3 4 5 6 7 8 assms(3,4) c
    by (simp add: commitDeviceIdentityRotation_def bnd_def sq_def parseLegacy_def present_def)
  have "held_keys (dv_keyring s8) = Some (\<lparr>kp_publicKey = id_publicMaterial next, kp_privateKey = id_privateMaterial next\<rparr> # ?l)"
    using 5 6 7 8 identity_neq assms(5,6) by (simp add: held_keys_def current_pair_def present_def)
  then show ?thesis using commit loadAll_healthy [OF 8(2)] by auto
qed

lemma rotation_result_witness:
  "\<exists>s'. commitDeviceIdentityRotation (\<lambda>_. None) ex_next ex_identity_device = (Inr (), s')
    \<and> fst (loadAllDeviceKeyMaterials (\<lambda>_. None) s') = Inr [\<lparr>kp_publicKey = ''P2'', kp_privateKey = ''S2''\<rparr>, \<lparr>kp_publicKey = ''P'', kp_privateKey = ''S''\<rparr>]"
proof -
  have "healthy (\<lambda>_. None) ex_identity_device" by (simp add: healthy_def ex_identity_device_def ex_device_def)
  moreover have "held_keys (dv_keyring ex_identity_device) = Some [\<lparr>kp_publicKey = ''P'', kp_privateKey = ''S''\<rparr>]"
    using ex_identity_current identity_neq by (simp add: held_keys_def ex_identity_device_def legacy_keys_def present_def)
  moreover have "dv_keyring ex_identity_device DEVICE_ID = Some (id_deviceId ex_next)"
    using identity_neq by (simp add: ex_identity_device_def ex_next_def)
  ultimately show ?thesis
    using rotation_result [of "\<lambda>_. None" ex_identity_device "\<lparr>kp_publicKey = ''P'', kp_privateKey = ''S''\<rparr>" "[]" ex_next]
    by (simp add: ex_next_def dedupeLegacy_def)
qed

end
