(* ===== verification/Auth.thy ===== *)
theory Auth
  imports Identity
begin

text \<open>
  The account session of the client: \<open>state/authStore.ts\<close>, \<open>services/authSession.ts\<close>,
  \<open>services/sessionBootstrap.ts\<close>, the login outcomes of \<open>services/authApi.ts\<close>, and the route guards of
  \<open>app/guards.tsx\<close> with the route table of \<open>app/router.tsx\<close>. The relay is a parameter: what its
  \<open>n\<close>-th answer is, an error or a payload, is chosen by the record \<open>auth_api\<close>.
\<close>

subsection \<open>Payloads\<close>

record login_envelope =
  le_accountId :: string
  le_identity :: account_identity_dto
  le_device :: device_dto
  le_session :: session_dto
  le_tokens :: tokens_dto
  le_recoveryCodes :: "string list option"

record pending_approval =
  pa_approvalRequestId :: string
  pa_approvalPollToken :: string
  pa_status :: approval_status

record two_fa_challenge =
  tf_challengeId :: string
  tf_loginToken :: string
  tf_expiresAt :: "json option"

record session_details =
  sd_email :: string
  sd_twoFactorEnabled :: bool
  sd_identity :: account_identity_dto
  sd_device :: device_dto
  sd_session :: session_dto

subsection \<open>The store\<close>

record auth_session =
  as_accountId :: string
  as_email :: string
  as_twoFactorEnabled :: bool
  as_identity :: account_identity_dto
  as_device :: device_dto
  as_session :: session_dto

record auth_store =
  a_initialized :: bool
  a_accessToken :: "string option"
  a_session :: "auth_session option"
  a_pendingApproval :: "pending_approval option"
  a_twoFAChallenge :: "two_fa_challenge option"
  a_recoveryCodes :: "string list"

definition initial_auth :: auth_store where
  "initial_auth = \<lparr>a_initialized = False, a_accessToken = None, a_session = None, a_pendingApproval = None,
     a_twoFAChallenge = None, a_recoveryCodes = []\<rparr>"

definition auth_setInitialized :: "bool \<Rightarrow> auth_store \<Rightarrow> auth_store" where
  "auth_setInitialized v a = a\<lparr>a_initialized := v\<rparr>"

definition setSessionFromEnvelope :: "login_envelope \<Rightarrow> auth_store \<Rightarrow> auth_store" where
  "setSessionFromEnvelope payload a = a\<lparr>
     a_session := Some \<lparr>as_accountId = le_accountId payload, as_email = [], as_twoFactorEnabled = False,
       as_identity = le_identity payload, as_device = le_device payload, as_session = le_session payload\<rparr>,
     a_accessToken := Some (tok_accessToken (le_tokens payload)),
     a_pendingApproval := None, a_twoFAChallenge := None,
     a_recoveryCodes := (case le_recoveryCodes payload of None \<Rightarrow> [] | Some cs \<Rightarrow> cs)\<rparr>"

definition updateSessionDetails :: "session_details \<Rightarrow> auth_store \<Rightarrow> auth_store" where
  "updateSessionDetails payload a = (case a_session a of
      None \<Rightarrow> a
    | Some s \<Rightarrow> a\<lparr>a_session := Some (s\<lparr>as_email := sd_email payload, as_twoFactorEnabled := sd_twoFactorEnabled payload,
        as_identity := sd_identity payload, as_device := sd_device payload, as_session := sd_session payload\<rparr>)\<rparr>)"

definition auth_clearSession :: "auth_store \<Rightarrow> auth_store" where
  "auth_clearSession a = a\<lparr>a_session := None, a_accessToken := None, a_pendingApproval := None,
     a_twoFAChallenge := None, a_recoveryCodes := []\<rparr>"

definition setAccessToken :: "string option \<Rightarrow> auth_store \<Rightarrow> auth_store" where
  "setAccessToken v a = a\<lparr>a_accessToken := v\<rparr>"

definition setPendingApproval :: "pending_approval option \<Rightarrow> auth_store \<Rightarrow> auth_store" where
  "setPendingApproval v a = a\<lparr>a_pendingApproval := v\<rparr>"

definition setTwoFAChallenge :: "two_fa_challenge option \<Rightarrow> auth_store \<Rightarrow> auth_store" where
  "setTwoFAChallenge v a = a\<lparr>a_twoFAChallenge := v\<rparr>"

definition setRecoveryCodes :: "string list \<Rightarrow> auth_store \<Rightarrow> auth_store" where
  "setRecoveryCodes v a = a\<lparr>a_recoveryCodes := v\<rparr>"

text \<open>What \<open>persist\<close> writes and how it is merged back: the session only.\<close>

definition auth_partialize :: "auth_store \<Rightarrow> auth_session option" where
  "auth_partialize a = a_session a"

definition auth_merge :: "auth_session option option \<Rightarrow> auth_store \<Rightarrow> auth_store" where
  "auth_merge persisted current = current\<lparr>a_session := (case persisted of None \<Rightarrow> None | Some s \<Rightarrow> s)\<rparr>"

subsection \<open>Login\<close>

datatype login_outcome = LoginSuccess json | LoginPending json | LoginTwoFA two_fa_challenge

definition str_or_empty :: "json option \<Rightarrow> string" where
  "str_or_empty v = (case as_str v of Some s \<Rightarrow> s | None \<Rightarrow> [])"

text \<open>The result of \<open>authApi.login\<close> from the answer of the relay. \<open>in\<close> throws on what is no object.\<close>

definition login :: "js_error + json \<Rightarrow> js_error + login_outcome" where
  "login response = (case response of
      Inr data \<Rightarrow>
        if \<not> is_object data then Inl (JsError ''TypeError'')
        else if json_get data ''approvalRequestId'' \<noteq> None then Inr (LoginPending data) else Inr (LoginSuccess data)
    | Inl error \<Rightarrow> (case error of
        ApiClientError status payload \<Rightarrow>
          if status = 401 then
            (if payload = JNull then Inl (JsError ''TypeError'')
             else if payload_error_field payload ''code'' = Some ''two_fa_required''
             then Inr (LoginTwoFA \<lparr>tf_challengeId = str_or_empty (json_get payload ''challengeId''),
                tf_loginToken = str_or_empty (json_get payload ''loginToken''), tf_expiresAt = json_get payload ''expiresAt''\<rparr>)
             else Inl error)
          else Inl error
      | _ \<Rightarrow> Inl error))"

subsection \<open>Sessions\<close>

definition REFRESH_TOKEN_KEY :: string where "REFRESH_TOKEN_KEY = ''auth.refresh_token''"

record auth_device = device +
  au_store :: auth_store
  au_calls :: nat

record auth_api =
  api_refresh :: "nat \<Rightarrow> string \<Rightarrow> js_error + login_envelope"
  api_session :: "nat \<Rightarrow> string \<Rightarrow> js_error + session_details"

type_synonym ('e, 'a) auth_io = "('e auth_device_scheme, js_error, 'a) eff"

definition api_call :: "(nat \<Rightarrow> js_error + 'a) \<Rightarrow> ('e, 'a) auth_io" where
  "api_call f s = (f (au_calls s), s\<lparr>au_calls := Suc (au_calls s)\<rparr>)"

definition auth_set :: "(auth_store \<Rightarrow> auth_store) \<Rightarrow> ('e, unit) auth_io" where
  "auth_set f = upd (\<lambda>s. s\<lparr>au_store := f (au_store s)\<rparr>)"

definition applySessionEnvelope :: "fault \<Rightarrow> auth_api \<Rightarrow> login_envelope \<Rightarrow> ('e, unit) auth_io" where
  "applySessionEnvelope fault api envelope =
     sq (storage_set fault REFRESH_TOKEN_KEY (tok_refreshToken (le_tokens envelope)))
    (sq (auth_set (setSessionFromEnvelope envelope))
        (catch (bnd (api_call (\<lambda>n. api_session api n (tok_accessToken (le_tokens envelope))))
                 (\<lambda>sessionInfo. auth_set (updateSessionDetails sessionInfo)))
               (\<lambda>_. ret ())))"

definition clearSession :: "fault \<Rightarrow> ('e, unit) auth_io" where
  "clearSession fault = sq (catch (storage_delete fault REFRESH_TOKEN_KEY) (\<lambda>_. ret ())) (auth_set auth_clearSession)"

definition refresh_with :: "fault \<Rightarrow> auth_api \<Rightarrow> string \<Rightarrow> ('e, unit) auth_io" where
  "refresh_with fault api refreshToken =
     finally_do
       (catch (bnd (api_call (\<lambda>n. api_refresh api n refreshToken)) (applySessionEnvelope fault api))
              (\<lambda>_. clearSession fault))
       (\<lambda>s. s\<lparr>au_store := auth_setInitialized True (au_store s)\<rparr>)"

definition bootstrapSession :: "fault \<Rightarrow> auth_api \<Rightarrow> ('e, unit) auth_io" where
  "bootstrapSession fault api =
     bnd (catch (bnd (storage_get fault REFRESH_TOKEN_KEY) (\<lambda>t. ret (Some t)))
                (\<lambda>_. sq (clearSession fault) (sq (auth_set (auth_setInitialized True)) (ret None)))) (\<lambda>read.
     case read of
       None \<Rightarrow> ret ()
     | Some refreshToken \<Rightarrow>
         if \<not> present refreshToken then sq (auth_set auth_clearSession) (auth_set (auth_setInitialized True))
         else refresh_with fault api (the refreshToken))"

lemma refresh_key_sensitive [simp]: "isSensitiveKey REFRESH_TOKEN_KEY"
  by code_simp

subsection \<open>Bootstrap\<close>

text \<open>Signed in or signed out, never half way: a token without a session, or the reverse.\<close>

definition auth_consistent :: "auth_store \<Rightarrow> bool" where
  "auth_consistent a \<longleftrightarrow> (a_accessToken a = None \<longleftrightarrow> a_session a = None)"

lemma auth_set_run [simp]: "auth_set f s = (Inr (), s\<lparr>au_store := f (au_store s)\<rparr>)"
  by (simp add: auth_set_def upd_def)

lemma storage_auth_store:
  "au_store (snd (storage_set fault k v s)) = au_store s" "au_store (snd (storage_get fault k s)) = au_store s"
  "au_store (snd (storage_delete fault k s)) = au_store s"
  by (auto simp: storage_defs eff_simps Let_def split: option.split sum.split prod.split)

lemma clearSession_run: "\<exists>s'. clearSession fault s = (Inr (), s') \<and> au_store s' = auth_clearSession (au_store s)"
proof -
  obtain r s1 where "catch (storage_delete fault REFRESH_TOKEN_KEY) (\<lambda>_. ret ()) s = (Inr r, s1)" "au_store s1 = au_store s"
    using storage_auth_store(3) [of fault REFRESH_TOKEN_KEY s]
    by (cases "storage_delete fault REFRESH_TOKEN_KEY s"; cases "fst (storage_delete fault REFRESH_TOKEN_KEY s)")
      (auto simp: catch_def ret_def)
  then show ?thesis by (simp add: clearSession_def sq_def bnd_def)
qed

lemma storage_get_error_or_value:
  obtains (Err) e s1 where "storage_get fault k s = (Inl e, s1)" "au_store s1 = au_store s"
    | (Val) v s1 where "storage_get fault k s = (Inr v, s1)" "au_store s1 = au_store s"
proof -
  obtain r s1 where r: "storage_get fault k s = (r, s1)" by (cases "storage_get fault k s")
  then have "au_store s1 = au_store s" using storage_auth_store(2) [of fault k s] by simp
  then show thesis using r that by (cases r) auto
qed

text \<open>The outcomes of applying an envelope: the refresh token could not be stored, or the session is set.\<close>

lemma applySessionEnvelope_cases:
  obtains (Err) e s1 where "applySessionEnvelope fault api en s = (Inl e, s1)" "au_store s1 = au_store s"
    | (Set) s1 where "applySessionEnvelope fault api en s = (Inr (), s1)"
        "au_store s1 = setSessionFromEnvelope en (au_store s) \<or>
         (\<exists>d. au_store s1 = updateSessionDetails d (setSessionFromEnvelope en (au_store s)))"
proof (cases "storage_set fault REFRESH_TOKEN_KEY (tok_refreshToken (le_tokens en)) s")
  case (Pair r s1)
  have a: "au_store s1 = au_store s"
    using storage_auth_store(1) [of fault REFRESH_TOKEN_KEY "tok_refreshToken (le_tokens en)" s] Pair by simp
  show ?thesis
  proof (cases r)
    case (Inl e)
    have "applySessionEnvelope fault api en s = (Inl e, s1)"
      using Pair Inl by (simp add: applySessionEnvelope_def sq_def bnd_def)
    then show ?thesis using a by (rule Err)
  next
    case (Inr u)
    show ?thesis
      using Pair Inr a
      by (cases "api_session api (au_calls s1) (tok_accessToken (le_tokens en))")
        (auto intro!: Set simp: applySessionEnvelope_def sq_def bnd_def catch_def api_call_def ret_def)
  qed
qed

lemma consistent_set:
  "auth_consistent (setSessionFromEnvelope en a)" "auth_consistent (auth_clearSession a)"
  "auth_consistent (updateSessionDetails d (setSessionFromEnvelope en a))"
  "auth_consistent (auth_setInitialized v a) = auth_consistent a"
  by (simp_all add: auth_consistent_def setSessionFromEnvelope_def auth_clearSession_def updateSessionDetails_def auth_setInitialized_def)

lemma refresh_with_ok:
  "\<exists>s'. refresh_with fault api tok s = (Inr (), s') \<and> a_initialized (au_store s') \<and> auth_consistent (au_store s')"
proof -
  let ?c = "catch (bnd (api_call (\<lambda>n. api_refresh api n tok)) (applySessionEnvelope fault api)) (\<lambda>_. clearSession fault)"
  have "\<exists>s'. ?c s = (Inr (), s') \<and> auth_consistent (au_store s')"
  proof (cases "api_refresh api (au_calls s) tok")
    case (Inl e)
    obtain s' where "clearSession fault (s\<lparr>au_calls := Suc (au_calls s)\<rparr>) = (Inr (), s')"
      "au_store s' = auth_clearSession (au_store s)" using clearSession_run by fastforce
    then show ?thesis using Inl by (simp add: catch_def bnd_def api_call_def consistent_set)
  next
    case (Inr en)
    let ?s = "s\<lparr>au_calls := Suc (au_calls s)\<rparr>"
    show ?thesis
    proof (cases rule: applySessionEnvelope_cases [of fault api en ?s])
      case (Err e s1)
      obtain s' where "clearSession fault s1 = (Inr (), s')" "au_store s' = auth_clearSession (au_store s1)"
        using clearSession_run by blast
      then show ?thesis using Inr Err by (simp add: catch_def bnd_def api_call_def consistent_set)
    next
      case (Set s1)
      have "auth_consistent (au_store s1)" using Set(2) by (elim disjE exE) (simp_all add: consistent_set)
      then show ?thesis using Inr Set by (simp add: catch_def bnd_def api_call_def)
    qed
  qed
  then show ?thesis by (auto simp: refresh_with_def finally_do_def consistent_set) (simp add: auth_setInitialized_def)
qed

lemma bootstrap_outcome:
  "\<exists>s'. bootstrapSession fault api s = (Inr (), s') \<and> a_initialized (au_store s') \<and> auth_consistent (au_store s')"
proof (cases rule: storage_get_error_or_value [of fault REFRESH_TOKEN_KEY s])
  case (Err e s1)
  obtain s2 where "clearSession fault s1 = (Inr (), s2)" "au_store s2 = auth_clearSession (au_store s1)"
    using clearSession_run by blast
  then show ?thesis using Err
    by (simp add: bootstrapSession_def bnd_def catch_def sq_def ret_def consistent_set) (simp add: auth_setInitialized_def)
next
  case (Val v s1)
  show ?thesis
  proof (cases "present v")
    case True
    then show ?thesis using Val refresh_with_ok [of fault api "the v" s1]
      by (simp add: bootstrapSession_def bnd_def catch_def ret_def)
  next
    case False
    then show ?thesis using Val
      by (simp add: bootstrapSession_def bnd_def catch_def sq_def ret_def consistent_set) (simp add: auth_setInitialized_def)
  qed
qed

text \<open>C38. Start-up always reaches a decided session: whatever the keyring and the relay answer, in the desktop
  shell or a browser, \<open>bootstrapSession\<close> returns without an error, the store is initialized, and the
  client is signed in with both a token and a session or signed out with neither.\<close>

theorem bootstrap_decides:
  "\<exists>s'. bootstrapSession fault api s = (Inr (), s') \<and> a_initialized (au_store s') \<and> auth_consistent (au_store s')"
  by (rule bootstrap_outcome)

definition ex_auth_device :: auth_device where
  "ex_auth_device = \<lparr>dv_tauri = True, dv_calls = 0, dv_keyring = [REFRESH_TOKEN_KEY \<mapsto> ''r1''], dv_fallback = Map.empty, dv_draw = 0,
     dv_mem = [], au_store = initial_auth, au_calls = 0\<rparr>"

definition offline_api :: auth_api where
  "offline_api = \<lparr>api_refresh = (\<lambda>n t. Inl (JsError ''Failed to fetch'')), api_session = (\<lambda>n t. Inl (JsError ''Failed to fetch''))\<rparr>"

text \<open>Starting without a network signs the user out for good: with a working keyring, any error of the
  refresh request, a transport error included, deletes the refresh token, so that the next start
  finds none even when the relay is reachable again.\<close>

theorem offline_start_forgets_the_refresh_token:
  assumes "healthy fault s" "dv_keyring s REFRESH_TOKEN_KEY = Some tok" "tok \<noteq> []"
    and "api_refresh api (au_calls s) tok = Inl e"
  shows "dv_keyring (snd (bootstrapSession fault api s)) REFRESH_TOKEN_KEY = None
    \<and> a_session (au_store (snd (bootstrapSession fault api s))) = None"
  using assms
  by (simp add: bootstrapSession_def refresh_with_def clearSession_def storage_defs healthy_def eff_simps Let_def present_def
      api_call_def auth_setInitialized_def auth_clearSession_def)

lemma offline_start_forgets_the_refresh_token_witness:
  "dv_keyring (snd (bootstrapSession (\<lambda>_. None) offline_api ex_auth_device)) REFRESH_TOKEN_KEY = None"
  using offline_start_forgets_the_refresh_token [of "\<lambda>_. None" ex_auth_device "''r1''" offline_api "JsError ''Failed to fetch''"]
  by (simp add: healthy_def ex_auth_device_def offline_api_def)

end
