(* ===== verification/Messaging_Runtime.thy ===== *)
theory Messaging_Runtime
  imports Messaging_Api Local_Store Auth
begin

text \<open>
  \<open>services/messaging/runtime.ts\<close>: the class \<open>MessagingRuntime\<close>, one definition per method, over one state
  that holds its private fields, the stores it updates, the device, and the database.

  What it awaits comes from the environment: the answers of the relay and the failures of native calls,
  numbered in the order they are asked for. During an await the clock moves on and other code may run:
  \<open>re_meanwhile n\<close> lists the calls that reach the runtime during its \<open>n\<close>-th await and find the method they
  ask for already running (a second \<open>flushOutbox\<close>, a sync hint), or that stop it. Calls that would start a
  second method in between are not interleaved with the one that is running.

  The database holds the values themselves; \<open>Local_Store\<close> shows that the encrypted one behaves like it.
\<close>

subsection \<open>Environment\<close>

datatype meanwhile = MwFlush | MwHint jsnumber | MwStop

record relay =
  rl_listConversations :: "nat \<Rightarrow> js_error + conversation_dto list"
  rl_createConversation :: "nat \<Rightarrow> js_error + conversation_dto"
  rl_listMessages :: "nat \<Rightarrow> js_error + message_dto list"
  rl_sendMessage :: "nat \<Rightarrow> js_error + message_dto"
  rl_createReceipt :: "nat \<Rightarrow> js_error + unit"
  rl_uploadAttachment :: "nat \<Rightarrow> js_error + attachment_meta_dto"
  rl_downloadAttachment :: "nat \<Rightarrow> js_error + attachment_meta_dto \<times> string"
  rl_sync :: "nat \<Rightarrow> js_error + sync_batch_dto"
  rl_transportEndpoints :: "nat \<Rightarrow> js_error + transport_endpoints_response"

text \<open>
  The platform: \<open>toISOString\<close> and \<open>Date\<close> parsing (\<open>None\<close> is \<open>NaN\<close>), \<open>atob\<close>, the URL class, \<open>Math.random\<close>,
  \<open>randomID\<close>, the texts of i18next, and the constructor of \<open>WebSocket\<close> with the error it throws, if it does.
\<close>

record runtime_env =
  re_lib :: sodium
  re_fault :: fault
  re_relay :: relay
  re_meanwhile :: "nat \<Rightarrow> meanwhile list"
  re_delay :: "nat \<Rightarrow> nat"
  re_iso :: "int \<Rightarrow> string"
  re_parseDate :: "string \<Rightarrow> int option"
  re_atob :: "string \<Rightarrow> bytes option"
  re_setParams :: url_setter
  re_urlProtocol :: "string \<Rightarrow> string option"
  re_newWebSocket :: "string \<Rightarrow> string list \<Rightarrow> js_error option"
  re_random :: "nat \<Rightarrow> rat"
  re_randomID :: "nat \<Rightarrow> string"
  re_t :: "string \<Rightarrow> string"
  re_server :: server_config
  re_transportEndpointOverrides :: "string list"
  re_wsQueryTokenFallback :: bool

subsection \<open>State\<close>

datatype ready_state = WsConnecting | WsOpen | WsClosing | WsClosed

text \<open>A \<open>WebSocketTransport\<close> with its socket: the URL it was opened with, its protocols and its state.\<close>

record web_socket =
  wsk_url :: string
  wsk_protocols :: "string list"
  wsk_readyState :: ready_state

record ws_transport =
  wt_ws :: "web_socket option"
  wt_endpoint :: "string option"

record world = auth_device +
  w_db :: "(conversation_dto, message_dto, send_message_request) message_db"
  w_store :: messaging_store
  w_now :: int
  w_awaits :: nat
  w_requests :: "api_request list"
  w_diverged :: bool
  rt_accessToken :: "string option"
  rt_wsTransport :: "ws_transport option"
  rt_longPollRunning :: bool
  rt_reconnectTimer :: "int option"
  rt_wsEndpoints :: "string list"
  rt_longPollEndpoints :: "string list"
  rt_wsEndpointIndex :: nat
  rt_longPollEndpointIndex :: nat
  rt_backoffMinMs :: int
  rt_backoffMaxMs :: int
  rt_backoffCurrentMs :: int
  rt_longPollTimeoutSec :: int
  rt_longPollEnabled :: bool
  rt_stopped :: bool
  rt_flushRunning :: bool
  rt_flushRequested :: bool
  rt_syncRunning :: bool
  rt_queuedSyncHint :: "int option"

type_synonym 'a rt = "(world, js_error, 'a) eff"

definition set_store :: "runtime_env \<Rightarrow> (string \<Rightarrow> messaging_store \<Rightarrow> messaging_store) \<Rightarrow> world \<Rightarrow> world" where
  "set_store env f s = s\<lparr>w_store := f (re_iso env (w_now s)) (w_store s)\<rparr>"

definition store_do :: "runtime_env \<Rightarrow> (string \<Rightarrow> messaging_store \<Rightarrow> messaging_store) \<Rightarrow> unit rt" where
  "store_do env f = upd (set_store env f)"

definition transport_do :: "runtime_env \<Rightarrow> transport_patch \<Rightarrow> unit rt" where
  "transport_do env p = store_do env (\<lambda>now. setTransportState now p)"

subsection \<open>Stopping\<close>

definition off_patch :: "transport_status_state \<Rightarrow> transport_patch" where
  "off_patch status = \<lparr>pt_mode = Some MNone, pt_status = Some status, pt_endpoint = Some None,
     pt_lastError = Some JNull, pt_lastCursor = None\<rparr>"

definition stop_runtime :: "runtime_env \<Rightarrow> world \<Rightarrow> world" where
  "stop_runtime env s = set_store env (\<lambda>now. setTransportState now (off_patch StOffline))
     (s\<lparr>rt_stopped := True, rt_accessToken := None, rt_wsEndpointIndex := 0, rt_longPollEndpointIndex := 0,
        rt_flushRunning := False, rt_flushRequested := False, rt_syncRunning := False, rt_queuedSyncHint := None,
        rt_wsTransport := None, rt_reconnectTimer := None\<rparr>)"

subsection \<open>Awaiting\<close>

text \<open>\<open>typeof cursorHint === "number" && Number.isFinite(cursorHint) ? Math.floor(Math.max(cursorHint, 0)) : null\<close>\<close>

fun normalizedHint :: "jsnumber option \<Rightarrow> int option" where
  "normalizedHint (Some (Fin q)) = Some \<lfloor>max q 0\<rfloor>"
| "normalizedHint _ = None"

definition queue_hint :: "int option \<Rightarrow> world \<Rightarrow> world" where
  "queue_hint hint s = (case hint of
      None \<Rightarrow> s
    | Some h \<Rightarrow> s\<lparr>rt_queuedSyncHint := Some (case rt_queuedSyncHint s of None \<Rightarrow> h | Some q \<Rightarrow> max q h)\<rparr>)"

fun meanwhile_do :: "runtime_env \<Rightarrow> meanwhile \<Rightarrow> world \<Rightarrow> world" where
  "meanwhile_do env MwFlush s = (if rt_flushRunning s then s\<lparr>rt_flushRequested := True\<rparr> else s)"
| "meanwhile_do env (MwHint q) s = (if rt_syncRunning s then queue_hint (normalizedHint (Some q)) s else s)"
| "meanwhile_do env MwStop s = stop_runtime env s"

definition pass_time :: "runtime_env \<Rightarrow> world \<Rightarrow> world" where
  "pass_time env s = (let n = w_awaits s in
     fold (meanwhile_do env) (re_meanwhile env n) (s\<lparr>w_awaits := Suc n, w_now := w_now s + int (re_delay env n)\<rparr>))"

definition awaited :: "runtime_env \<Rightarrow> 'a rt \<Rightarrow> 'a rt" where
  "awaited env m s = (case m s of (r, s1) \<Rightarrow> (r, pass_time env s1))"

text \<open>A request is sent, and its answer, the next one of the relay, arrives later.\<close>

definition api :: "runtime_env \<Rightarrow> api_request \<Rightarrow> (nat \<Rightarrow> js_error + 'a) \<Rightarrow> 'a rt" where
  "api env rq answer = awaited env (\<lambda>s. (answer (length (w_requests s)), s\<lparr>w_requests := w_requests s @ [rq]\<rparr>))"

subsection \<open>The local store\<close>

definition db_write :: "runtime_env \<Rightarrow> ((conversation_dto, message_dto, send_message_request) message_db
    \<Rightarrow> (conversation_dto, message_dto, send_message_request) message_db) \<Rightarrow> unit rt" where
  "db_write env f = awaited env (native (re_fault env) (\<lambda>s. ((), s\<lparr>w_db := f (w_db s)\<rparr>)))"

definition db_read :: "runtime_env \<Rightarrow> ((conversation_dto, message_dto, send_message_request) message_db \<Rightarrow> 'a) \<Rightarrow> 'a rt" where
  "db_read env f = awaited env (native (re_fault env) (\<lambda>s. (f (w_db s), s)))"

definition db_saveConversation :: "runtime_env \<Rightarrow> conversation_dto \<Rightarrow> unit rt" where
  "db_saveConversation env c = db_write env (messaging_store_upsert_conversation (cv_id c) c (cv_updatedAt c))"

definition db_saveMessage :: "runtime_env \<Rightarrow> message_dto \<Rightarrow> unit rt" where
  "db_saveMessage env m = (let e = msg_envelope m in db_write env
     (messaging_store_upsert_message (env_id e) (env_conversationId e) (Some (env_serverSequence e)) m (env_createdAt e)))"

definition db_enqueueOutbox :: "runtime_env \<Rightarrow> string \<Rightarrow> string \<Rightarrow> send_message_request \<Rightarrow> string \<Rightarrow> unit rt" where
  "db_enqueueOutbox env clientMessageId conversationId payload createdAt =
     db_write env (messaging_store_enqueue_outbox clientMessageId conversationId payload createdAt)"

definition item_of_row :: "send_message_request outbox_row \<Rightarrow> outbox_item" where
  "item_of_row r = \<lparr>ob_clientMessageId = or_client_message_id r, ob_conversationId = or_conversation_id r,
     ob_payload = or_payload r, ob_createdAt = or_created_at r, ob_retryCount = or_retry_count r\<rparr>"

definition db_listOutbox :: "runtime_env \<Rightarrow> outbox_item list rt" where
  "db_listOutbox env = db_read env (\<lambda>db. map item_of_row (messaging_store_list_outbox db))"

definition db_deleteOutbox :: "runtime_env \<Rightarrow> string \<Rightarrow> unit rt" where
  "db_deleteOutbox env i = db_write env (messaging_store_delete_outbox i)"

definition db_incrementOutboxRetry :: "runtime_env \<Rightarrow> string \<Rightarrow> unit rt" where
  "db_incrementOutboxRetry env i = db_write env (messaging_store_increment_outbox_retry i)"

subsection \<open>Token and session\<close>

definition requireAccessToken :: "string rt" where
  "requireAccessToken s =
     (let s1 = (if \<not> present (rt_accessToken s) \<and> present (a_accessToken (au_store s))
                then s\<lparr>rt_accessToken := a_accessToken (au_store s)\<rparr> else s) in
      if \<not> present (rt_accessToken s1) then throw (JsError ''unauthorized'') s1
      else ret (the (rt_accessToken s1)) s1)"

definition current_session :: "world \<Rightarrow> auth_session option" where
  "current_session s = a_session (au_store s)"

definition requireSession :: "auth_session rt" where
  "requireSession = bnd (rd current_session) (\<lambda>session.
     case session of None \<Rightarrow> throw (JsError ''missing auth session'') | Some x \<Rightarrow> ret x)"

definition my_device :: "auth_session \<Rightarrow> string" where
  "my_device session = dev_id (as_device session)"

subsection \<open>Reading messages\<close>

text \<open>\<open>error instanceof Error ? error.message : "message_decrypt_failed"\<close>\<close>

fun decrypt_error_text :: "js_error \<Rightarrow> string" where
  "decrypt_error_text (JsError m) = m"
| "decrypt_error_text (ApiClientError status payload) =
     (case payload_error_field payload ''message'' of Some m \<Rightarrow> m | None \<Rightarrow> ''API request failed'')"
| "decrypt_error_text (Thrown v) = ''message_decrypt_failed''"

definition failed_message :: "string \<Rightarrow> local_message \<Rightarrow> local_message" where
  "failed_message err m = m\<lparr>lm_decryptError := Some err, lm_lifecycle := Some LFailed,
     lm_failureCode := Some ''message_decrypt_failed'', lm_retryableFailure := Some False\<rparr>"

text \<open>The device keys in turn; a key that fails is skipped.\<close>

fun try_keys :: "runtime_env \<Rightarrow> encrypted_message_envelope_dto \<Rightarrow> string \<Rightarrow> key_pair list \<Rightarrow> string option rt" where
  "try_keys env e wrappedKey [] = ret None"
| "try_keys env e wrappedKey (keys # rest) =
     catch (bnd (decryptMessage (re_lib env) (env_ciphertext e) (env_nonce e) wrappedKey (kp_publicKey keys) (kp_privateKey keys))
              (\<lambda>plaintext. ret (Some plaintext)))
           (\<lambda>_. try_keys env e wrappedKey rest)"

definition is_expired :: "runtime_env \<Rightarrow> int \<Rightarrow> encrypted_message_envelope_dto \<Rightarrow> bool" where
  "is_expired env now e \<longleftrightarrow> (case env_expiresAt e of
      None \<Rightarrow> False
    | Some d \<Rightarrow> d \<noteq> [] \<and> (case re_parseDate env d of None \<Rightarrow> False | Some t \<Rightarrow> t \<le> now))"

definition local_of :: "runtime_env \<Rightarrow> int \<Rightarrow> message_dto \<Rightarrow> local_message" where
  "local_of env now m = (let expired = is_expired env now (msg_envelope m) in
     message_dto.extend m \<lparr>lm_plaintext = None, lm_decryptError = None, lm_expired = Some expired,
       lm_lifecycle = Some (messageLifecycleFromDeliveryState (msg_deliveryState m) expired),
       lm_retryableFailure = None, lm_failureCode = None, lm_lastUpdatedAt = Some (re_iso env now)\<rparr>)"

definition hydrateMessage :: "runtime_env \<Rightarrow> message_dto \<Rightarrow> local_message rt" where
  "hydrateMessage env message =
     bnd (rd (\<lambda>s. (w_now s, current_session s))) (\<lambda>(now, session).
     let localMessage = local_of env now message; e = msg_envelope message in
     if lm_expired localMessage = Some True then ret localMessage
     else case session of
       None \<Rightarrow> ret localMessage
     | Some session \<Rightarrow>
         (case find (\<lambda>item. rk_recipientDeviceId item = my_device session) (env_recipients e) of
            None \<Rightarrow> ret (failed_message ''missing recipient material for current device'' localMessage)
          | Some recipient \<Rightarrow>
              catch
                (bnd (loadAllDeviceKeyMaterials (re_fault env)) (\<lambda>keyCandidates.
                 bnd (try_keys env e (rk_wrappedKey recipient) keyCandidates) (\<lambda>plaintext.
                 case plaintext of
                   None \<Rightarrow> throw (JsError ''message_decrypt_failed'')
                 | Some t \<Rightarrow> (case JSON_parse t of
                     None \<Rightarrow> throw syntax_error
                   | Some j \<Rightarrow> ret (localMessage\<lparr>lm_plaintext := Some j, lm_decryptError := None\<rparr>)))))
                (\<lambda>error. ret (failed_message (decrypt_error_text error) localMessage))))"

definition hydrateMessages :: "runtime_env \<Rightarrow> message_dto list \<Rightarrow> local_message list rt" where
  "hydrateMessages env messages = map_io (hydrateMessage env) messages"

subsection \<open>Conversations\<close>

definition refreshConversations :: "runtime_env \<Rightarrow> unit rt" where
  "refreshConversations env =
     bnd requireAccessToken (\<lambda>accessToken.
     bnd (api env (api_listConversations (re_server env) accessToken) (rl_listConversations (re_relay env))) (\<lambda>conversations.
     sq (for_each conversations (db_saveConversation env))
        (store_do env (\<lambda>now. setConversations conversations))))"

definition persistConversation :: "runtime_env \<Rightarrow> conversation_dto \<Rightarrow> unit rt" where
  "persistConversation env conversation =
     sq (db_saveConversation env conversation) (store_do env (\<lambda>now. upsertConversation conversation))"

definition createDirect :: "runtime_env \<Rightarrow> string \<Rightarrow> conversation_dto rt" where
  "createDirect env peerAccountId =
     bnd requireAccessToken (\<lambda>accessToken.
     bnd (api env (api_createDirect (re_server env) accessToken peerAccountId) (rl_createConversation (re_relay env))) (\<lambda>conversation.
     sq (persistConversation env conversation) (ret conversation)))"

definition createGroup :: "runtime_env \<Rightarrow> string \<Rightarrow> string list \<Rightarrow> conversation_dto rt" where
  "createGroup env title memberAccountIds =
     bnd requireAccessToken (\<lambda>accessToken.
     bnd (api env (api_createGroup (re_server env) accessToken title memberAccountIds) (rl_createConversation (re_relay env))) (\<lambda>conversation.
     sq (persistConversation env conversation) (ret conversation)))"

definition loadMessages :: "runtime_env \<Rightarrow> string \<Rightarrow> unit rt" where
  "loadMessages env conversationId =
     bnd requireAccessToken (\<lambda>accessToken.
     sq (store_do env (\<lambda>now. setActiveConversation (Some conversationId)))
    (bnd (db_read env (messaging_store_list_messages conversationId 200)) (\<lambda>cached.
     sq (if cached \<noteq> []
         then bnd (hydrateMessages env cached) (\<lambda>hydrated. store_do env (\<lambda>now. setMessages now conversationId hydrated))
         else ret ())
    (bnd (api env (api_listMessages (re_server env) accessToken conversationId (Some 100) None) (rl_listMessages (re_relay env))) (\<lambda>messages.
     bnd (hydrateMessages env messages) (\<lambda>hydratedRemote.
     sq (store_do env (\<lambda>now. setMessages now conversationId hydratedRemote))
        (for_each messages (db_saveMessage env))))))))"

subsection \<open>The outbox\<close>

definition refreshOutbox :: "runtime_env \<Rightarrow> unit rt" where
  "refreshOutbox env = bnd (db_listOutbox env) (\<lambda>outbox. store_do env (\<lambda>now. setOutbox outbox))"

text \<open>\<open>updateMessageLifecycle\<close> for an outbox item, when there is a session.\<close>

definition mark_item :: "runtime_env \<Rightarrow> auth_session option \<Rightarrow> outbox_item \<Rightarrow> lifecycle_patch \<Rightarrow> unit rt" where
  "mark_item env session item patch = (case session of
      None \<Rightarrow> ret ()
    | Some x \<Rightarrow> store_do env (\<lambda>now. updateMessageLifecycle now (ob_conversationId item) (my_device x) (ob_clientMessageId item) patch))"

definition failed_patch :: "runtime_env \<Rightarrow> js_error \<Rightarrow> lifecycle_patch" where
  "failed_patch env error = (let classified = classifyMessagingError (re_t env) error in
     \<lparr>lp_lifecycle = LFailed, lp_retryableFailure = Some (ce_class classified = Retryable), lp_failureCode = Some (ce_code classified)\<rparr>)"

definition flush_item :: "runtime_env \<Rightarrow> string \<Rightarrow> outbox_item \<Rightarrow> unit rt" where
  "flush_item env accessToken item =
     bnd (rd current_session) (\<lambda>session.
     sq (mark_item env session item \<lparr>lp_lifecycle = LSending, lp_retryableFailure = None, lp_failureCode = None\<rparr>)
        (catch
           (bnd (api env (api_sendMessage (re_server env) accessToken (ob_conversationId item) (ob_payload item)) (rl_sendMessage (re_relay env))) (\<lambda>message.
            sq (db_deleteOutbox env (ob_clientMessageId item))
           (sq (db_saveMessage env message)
           (bnd (hydrateMessage env message) (\<lambda>hydrated.
            store_do env (\<lambda>now. upsertMessage now (ob_conversationId item) hydrated))))))
           (\<lambda>error.
            sq (if ce_class (classifyMessagingError (re_t env) error) = Retryable
                then db_incrementOutboxRetry env (ob_clientMessageId item)
                else db_deleteOutbox env (ob_clientMessageId item))
               (mark_item env session item (failed_patch env error)))))"

definition flush_pass :: "runtime_env \<Rightarrow> unit rt" where
  "flush_pass env =
     sq (upd (\<lambda>s. s\<lparr>rt_flushRequested := False\<rparr>))
    (bnd requireAccessToken (\<lambda>accessToken.
     bnd (db_listOutbox env) (\<lambda>outbox.
     if outbox = [] then store_do env (\<lambda>now. setOutbox [])
     else sq (for_each outbox (flush_item env accessToken)) (refreshOutbox env))))"

text \<open>The \<open>while\<close> loop, for at most \<open>n\<close> passes; \<open>w_diverged\<close> tells that they were not enough.\<close>

fun flush_loop :: "nat \<Rightarrow> runtime_env \<Rightarrow> unit rt" where
  "flush_loop 0 env = upd (\<lambda>s. if rt_flushRequested s then s\<lparr>w_diverged := True\<rparr> else s)"
| "flush_loop (Suc n) env = (\<lambda>s. if rt_flushRequested s then sq (flush_pass env) (flush_loop n env) s else ret () s)"

definition flushOutbox :: "nat \<Rightarrow> runtime_env \<Rightarrow> unit rt" where
  "flushOutbox fuel env =
     sq (upd (\<lambda>s. s\<lparr>rt_flushRequested := True\<rparr>))
        (\<lambda>s. if rt_flushRunning s then ret () s
             else finally_do (flush_loop fuel env) (\<lambda>s. s\<lparr>rt_flushRunning := False\<rparr>) (s\<lparr>rt_flushRunning := True\<rparr>))"

definition retryOutbox :: "nat \<Rightarrow> runtime_env \<Rightarrow> unit rt" where
  "retryOutbox fuel env = flushOutbox fuel env"

subsection \<open>Synchronisation\<close>

definition delivered_by_us :: "string \<Rightarrow> local_message \<Rightarrow> bool" where
  "delivered_by_us device m \<longleftrightarrow> (\<exists>receipt \<in> set (msg_receipts m). rc_deviceId receipt = device \<and> rc_receiptType receipt = RcDelivered)"

definition apply_event :: "runtime_env \<Rightarrow> auth_session \<Rightarrow> sync_event_dto \<Rightarrow> unit rt" where
  "apply_event env session event = (case event of
      SyncReceipt _ \<Rightarrow> ret ()
    | SyncMessage message \<Rightarrow>
        bnd (hydrateMessage env message) (\<lambda>hydrated.
        sq (store_do env (\<lambda>now. upsertMessage now (env_conversationId (msg_envelope hydrated)) hydrated))
       (sq (db_saveMessage env message)
           (if env_senderDeviceId (msg_envelope hydrated) = my_device session then ret ()
            else if delivered_by_us (my_device session) hydrated then ret ()
            else catch
                   (bnd requireAccessToken (\<lambda>accessToken.
                    api env (api_createReceipt (re_server env) accessToken (env_id (msg_envelope hydrated)) RcDelivered)
                      (rl_createReceipt (re_relay env))))
                   (\<lambda>_. ret ())))))"

definition cursor_patch :: "int \<Rightarrow> transport_patch" where
  "cursor_patch n = no_patch\<lparr>pt_lastCursor := Some n\<rparr>"

definition applySyncBatch :: "runtime_env \<Rightarrow> sync_batch_dto \<Rightarrow> unit rt" where
  "applySyncBatch env batch =
     bnd (rd current_session) (\<lambda>currentSession.
     case currentSession of
       None \<Rightarrow> ret ()
     | Some session \<Rightarrow>
         sq (for_each (sb_events batch) (apply_event env session))
            (let safeCursor = max (sb_toCursor batch) 0 in
             sq (db_write env (messaging_store_write_sync_cursor safeCursor))
                (transport_do env (cursor_patch safeCursor))))"

definition bootstrapSync :: "runtime_env \<Rightarrow> unit rt" where
  "bootstrapSync env =
     bnd requireAccessToken (\<lambda>accessToken.
     bnd (api env (api_syncBootstrap (re_server env) accessToken 100) (rl_sync (re_relay env))) (\<lambda>batch.
     sq (applySyncBatch env batch) (store_do env (\<lambda>now. setInitialized True))))"

definition lift_result :: "js_error + 'a \<Rightarrow> 'a rt" where
  "lift_result r = (case r of Inl e \<Rightarrow> throw e | Inr a \<Rightarrow> ret a)"

definition syncOnce :: "runtime_env \<Rightarrow> int \<Rightarrow> int option \<Rightarrow> string option \<Rightarrow> unit rt" where
  "syncOnce env timeoutSec cursorHint endpoint =
     bnd requireAccessToken (\<lambda>accessToken.
     bnd (db_read env messaging_store_read_sync_cursor) (\<lambda>localCursor.
     let cursor = max localCursor (case cursorHint of None \<Rightarrow> 0 | Some h \<Rightarrow> h) in
     bnd (if present endpoint
          then bnd (lift_result (api_syncPollAtEndpoint (re_setParams env) (re_server env) accessToken (the endpoint) cursor timeoutSec 100))
                 (\<lambda>rq. api env rq (rl_sync (re_relay env)))
          else api env (api_syncPoll (re_server env) accessToken cursor timeoutSec 100) (rl_sync (re_relay env)))
       (applySyncBatch env)))"

fun sync_loop :: "nat \<Rightarrow> runtime_env \<Rightarrow> string option \<Rightarrow> unit rt" where
  "sync_loop 0 env endpoint = upd (\<lambda>s. s\<lparr>w_diverged := True\<rparr>)"
| "sync_loop (Suc n) env endpoint =
     bnd (rd (\<lambda>s. (rt_queuedSyncHint s, rt_longPollTimeoutSec s))) (\<lambda>(hint, timeout).
     sq (upd (\<lambda>s. s\<lparr>rt_queuedSyncHint := None\<rparr>))
    (sq (syncOnce env timeout hint endpoint)
        (\<lambda>s. if rt_queuedSyncHint s \<noteq> None then sync_loop n env endpoint s else ret () s)))"

definition requestSync :: "nat \<Rightarrow> runtime_env \<Rightarrow> jsnumber option \<Rightarrow> string option \<Rightarrow> unit rt" where
  "requestSync fuel env cursorHint endpoint =
     sq (upd (queue_hint (normalizedHint cursorHint)))
        (\<lambda>s. if rt_syncRunning s then ret () s
             else finally_do (sync_loop fuel env endpoint) (\<lambda>s. s\<lparr>rt_syncRunning := False\<rparr>) (s\<lparr>rt_syncRunning := True\<rparr>))"

subsection \<open>Sending\<close>

text \<open>The nested loops over active members and their trusted devices, with the set of devices seen.\<close>

fun add_devices :: "device_dto list \<Rightarrow> string set \<times> recipient_material list \<Rightarrow> string set \<times> recipient_material list" where
  "add_devices [] acc = acc"
| "add_devices (device # devices) (seen, out) =
     (if dev_status device \<noteq> DevTrusted then add_devices devices (seen, out)
      else if dev_id device \<in> seen then add_devices devices (seen, out)
      else add_devices devices (insert (dev_id device) seen,
             out @ [\<lparr>rm_recipientDeviceId = dev_id device, rm_publicKey = dev_publicDeviceMaterial device\<rparr>]))"

fun add_members :: "conversation_member_dto list \<Rightarrow> string set \<times> recipient_material list \<Rightarrow> string set \<times> recipient_material list" where
  "add_members [] acc = acc"
| "add_members (member # members) acc =
     (if \<not> mem_isActive member then add_members members acc
      else add_members members (add_devices (mem_trustedDevices member) acc))"

definition resolveRecipients :: "conversation_dto \<Rightarrow> recipient_material list" where
  "resolveRecipients conversation = snd (add_members (cv_members conversation) ({}, []))"

record upload_input =
  ui_fileName :: string
  ui_mimeType :: string
  ui_bytes :: bytes

definition kind_of :: "string \<Rightarrow> attachment_kind" where
  "kind_of mimeType = (if startsWith mimeType ''image/'' then AkImage else AkFile)"

definition base64ToBytes :: "runtime_env \<Rightarrow> string \<Rightarrow> bytes rt" where
  "base64ToBytes env val = (case re_atob env val of
      None \<Rightarrow> throw (JsError ''InvalidCharacterError'')
    | Some b \<Rightarrow> ret b)"

definition upload_one :: "runtime_env \<Rightarrow> string \<Rightarrow> upload_input \<Rightarrow> attachment_secret rt" where
  "upload_one env accessToken upload =
     bnd (encryptAttachment (re_lib env) (ui_bytes upload)) (\<lambda>encrypted.
     bnd (base64ToBytes env (ea_ciphertext encrypted)) (\<lambda>ciphertextBytes.
     bnd (api env (api_uploadAttachment (re_server env) accessToken
            \<lparr>up_kind = kind_of (ui_mimeType upload), up_fileName = ui_fileName upload, up_mimeType = ui_mimeType upload,
             up_sizeBytes = int (length ciphertextBytes), up_checksumSha256 = ea_checksumSha256 encrypted,
             up_algorithm = ea_algorithm encrypted, up_nonce = ea_nonce encrypted, up_ciphertext = ea_ciphertext encrypted\<rparr>)
            (rl_uploadAttachment (re_relay env))) (\<lambda>attachment.
     ret \<lparr>as_attachmentId = att_id attachment, as_fileName = att_fileName attachment, as_mimeType = att_mimeType attachment,
          as_sizeBytes = att_sizeBytes attachment, as_symmetricKey = ea_symmetricKey encrypted, as_nonce = ea_nonce encrypted,
          as_checksumSha256 = ea_checksumSha256 encrypted, as_algorithm = ea_algorithm encrypted\<rparr>)))"

definition uploadAttachments :: "runtime_env \<Rightarrow> string \<Rightarrow> upload_input list \<Rightarrow> attachment_secret list rt" where
  "uploadAttachments env accessToken uploads = map_io (upload_one env accessToken) uploads"

fun safePositiveInt :: "jsnumber option \<Rightarrow> int option" where
  "safePositiveInt (Some (Fin q)) = (if q \<le> 0 then None else Some \<lfloor>q\<rfloor>)"
| "safePositiveInt _ = None"

text \<open>\<open>new Date(ms).toISOString()\<close> throws a \<open>RangeError\<close> past the last instant a \<open>Date\<close> can hold.\<close>

definition max_date :: int where "max_date = 8640000000000000"

definition range_error :: js_error where "range_error = JsError ''Invalid time value''"

definition expiry_of :: "runtime_env \<Rightarrow> int \<Rightarrow> jsnumber option \<Rightarrow> js_error + string option" where
  "expiry_of env now ttlSeconds = (case ttlSeconds of
      Some (Fin q) \<Rightarrow>
        if 0 < q then (let t = \<lfloor>of_int now + q * 1000\<rfloor> in if t \<le> max_date then Inr (Some (re_iso env t)) else Inl range_error)
        else Inr None
    | Some PosInf \<Rightarrow> Inl range_error
    | _ \<Rightarrow> Inr None)"

record send_input =
  si_conversation :: conversation_dto
  si_text :: string
  si_ttlSeconds :: "jsnumber option"
  si_uploads :: "upload_input list"
  si_replyToMessageId :: "string option"

definition createOptimisticMessage :: "runtime_env \<Rightarrow> send_input \<Rightarrow> string \<Rightarrow> auth_session \<Rightarrow> local_message rt" where
  "createOptimisticMessage env input clientMessageId session =
     bnd (rd w_now) (\<lambda>now.
     bnd (lift_result (expiry_of env now (si_ttlSeconds input))) (\<lambda>expiresAt.
     ret \<lparr>msg_envelope = \<lparr>env_id = ''local-'' @ clientMessageId, env_conversationId = cv_id (si_conversation input),
            env_senderAccountId = as_accountId session, env_senderDeviceId = my_device session,
            env_clientMessageId = clientMessageId, env_algorithm = ''pending'', env_cryptoVersion = 1, env_nonce = [],
            env_ciphertext = [], env_recipients = [], env_attachments = [],
            env_replyToMessageId = si_replyToMessageId input, env_ttlSeconds = safePositiveInt (si_ttlSeconds input),
            env_createdAt = re_iso env now, env_expiresAt = expiresAt, env_serverSequence = 0\<rparr>,
          msg_deliveryState = DQueued, msg_deliveredAt = None, msg_failedReason = None, msg_receipts = [],
          lm_plaintext = Some (JObj [(''text'', JStr (si_text input)), (''attachments'', JArr []), (''createdAt'', JStr (re_iso env now))]),
          lm_decryptError = None, lm_expired = None, lm_lifecycle = Some LDraft, lm_retryableFailure = None,
          lm_failureCode = None, lm_lastUpdatedAt = Some (re_iso env now)\<rparr>))"

definition secret_json :: "attachment_secret \<Rightarrow> json" where
  "secret_json a = JObj [(''attachmentId'', JStr (as_attachmentId a)), (''fileName'', JStr (as_fileName a)),
     (''mimeType'', JStr (as_mimeType a)), (''sizeBytes'', JNum (as_sizeBytes a)), (''symmetricKey'', JStr (as_symmetricKey a)),
     (''nonce'', JStr (as_nonce a)), (''checksumSha256'', JStr (as_checksumSha256 a)), (''algorithm'', JStr (as_algorithm a))]"

definition plaintext_payload :: "send_input \<Rightarrow> attachment_secret list \<Rightarrow> string \<Rightarrow> json" where
  "plaintext_payload input secrets createdAt = JObj [(''text'', JStr (si_text input)),
     (''attachments'', JArr (map secret_json secrets)), (''createdAt'', JStr createdAt),
     (''replyToMessageId'', jopt (si_replyToMessageId input))]"

definition send_request :: "send_input \<Rightarrow> string \<Rightarrow> encrypted_message \<Rightarrow> attachment_secret list \<Rightarrow> send_message_request" where
  "send_request input clientMessageId encrypted secrets =
     \<lparr>sm_clientMessageId = clientMessageId, sm_algorithm = em_algorithm encrypted, sm_cryptoVersion = em_cryptoVersion encrypted,
      sm_nonce = em_nonce encrypted, sm_ciphertext = em_ciphertext encrypted, sm_recipients = em_recipients encrypted,
      sm_attachmentIds = map as_attachmentId secrets, sm_replyToMessageId = si_replyToMessageId input,
      sm_ttlSeconds = si_ttlSeconds input\<rparr>"

definition attachment_meta :: "string \<Rightarrow> attachment_secret \<Rightarrow> attachment_meta_dto" where
  "attachment_meta now a = \<lparr>att_id = as_attachmentId a, att_kind = kind_of (as_mimeType a), att_fileName = as_fileName a,
     att_mimeType = as_mimeType a, att_sizeBytes = as_sizeBytes a, att_checksumSha256 = as_checksumSha256 a,
     att_encryption = \<lparr>enc_algorithm = as_algorithm a, enc_nonce = as_nonce a\<rparr>, att_createdAt = now\<rparr>"

definition queued_message :: "string \<Rightarrow> local_message \<Rightarrow> encrypted_message \<Rightarrow> attachment_secret list \<Rightarrow> local_message" where
  "queued_message now m encrypted secrets = m\<lparr>msg_envelope := (msg_envelope m)\<lparr>env_algorithm := em_algorithm encrypted,
       env_cryptoVersion := em_cryptoVersion encrypted, env_nonce := em_nonce encrypted, env_ciphertext := em_ciphertext encrypted,
       env_recipients := em_recipients encrypted, env_attachments := map (attachment_meta now) secrets\<rparr>,
     lm_lifecycle := Some LQueued, msg_deliveryState := DQueued, lm_lastUpdatedAt := Some now\<rparr>"

text \<open>The \<open>try\<close> block of \<open>sendMessage\<close>.\<close>

definition send_body :: "nat \<Rightarrow> runtime_env \<Rightarrow> send_input \<Rightarrow> string \<Rightarrow> auth_session \<Rightarrow> string \<Rightarrow> recipient_material list \<Rightarrow> local_message \<Rightarrow> unit rt" where
  "send_body fuel env input accessToken session clientMessageId recipients optimisticMessage =
     (let cid = cv_id (si_conversation input) in
      sq (store_do env (\<lambda>now. updateMessageLifecycle now cid (my_device session) clientMessageId
           \<lparr>lp_lifecycle = LEncrypting, lp_retryableFailure = None, lp_failureCode = None\<rparr>))
     (bnd (uploadAttachments env accessToken (si_uploads input)) (\<lambda>secrets.
      bnd (rd (\<lambda>s. re_iso env (w_now s))) (\<lambda>createdAt.
      bnd (case stringify (plaintext_payload input secrets createdAt) of Some t \<Rightarrow> ret t | None \<Rightarrow> throw type_error) (\<lambda>plaintext.
      bnd (encryptMessage (re_lib env) plaintext recipients) (\<lambda>encrypted.
      bnd (rd (\<lambda>s. re_iso env (w_now s))) (\<lambda>enqueuedAt.
      sq (db_enqueueOutbox env clientMessageId cid (send_request input clientMessageId encrypted secrets) enqueuedAt)
     (sq (store_do env (\<lambda>now. upsertMessage now cid (queued_message now optimisticMessage encrypted secrets)))
     (sq (refreshOutbox env)
         (flushOutbox fuel env))))))))))"

definition sendMessage :: "nat \<Rightarrow> runtime_env \<Rightarrow> send_input \<Rightarrow> unit rt" where
  "sendMessage fuel env input =
     bnd requireAccessToken (\<lambda>accessToken.
     bnd requireSession (\<lambda>session.
     bnd (draw (re_randomID env)) (\<lambda>clientMessageId.
     let recipients = resolveRecipients (si_conversation input); cid = cv_id (si_conversation input) in
     if recipients = [] then throw (JsError ''conversation has no trusted recipient devices'')
     else bnd (createOptimisticMessage env input clientMessageId session) (\<lambda>optimisticMessage.
       sq (store_do env (\<lambda>now. upsertMessage now cid optimisticMessage))
          (catch (send_body fuel env input accessToken session clientMessageId recipients optimisticMessage)
             (\<lambda>error. sq (store_do env (\<lambda>now. updateMessageLifecycle now cid (my_device session) clientMessageId (failed_patch env error)))
                (throw error)))))))"

record download_input =
  di_attachmentId :: string
  di_symmetricKey :: string
  di_nonce :: string
  di_checksumSha256 :: "string option"

definition downloadAttachment :: "runtime_env \<Rightarrow> download_input \<Rightarrow> (bytes \<times> string \<times> string) rt" where
  "downloadAttachment env input =
     bnd requireAccessToken (\<lambda>accessToken.
     bnd (api env (api_downloadAttachment (re_server env) accessToken (di_attachmentId input)) (rl_downloadAttachment (re_relay env))) (\<lambda>(attachment, ciphertext).
     sq (if present (di_checksumSha256 input)
         then bnd (base64ToBytes env ciphertext) (\<lambda>ciphertextBytes.
              if toLowerCase (hashBytesHex (re_lib env) ciphertextBytes) \<noteq> toLowerCase (the (di_checksumSha256 input))
              then throw (JsError ''attachment_download_failed'') else ret ())
         else ret ())
    (bnd (decryptAttachment (re_lib env) ciphertext (di_nonce input) (di_symmetricKey input)) (\<lambda>decrypted.
     ret (decrypted, att_mimeType attachment, att_fileName attachment)))))"

subsection \<open>Transport\<close>

definition dedupeEndpoints :: "string list \<Rightarrow> string list" where
  "dedupeEndpoints items = seen_loop (\<lambda>v. v) {} (filter (\<lambda>v. v \<noteq> []) (map js_trim items))"

definition default_poll_endpoint :: "server_config \<Rightarrow> string" where
  "default_poll_endpoint server = sc_apiBaseUrl server @ sc_apiPrefix server @ ''/sync/poll''"

definition is_ws_url :: "string \<Rightarrow> bool" where
  "is_ws_url u \<longleftrightarrow> startsWith u ''ws://'' \<or> startsWith u ''wss://''"

definition is_http_url :: "string \<Rightarrow> bool" where
  "is_http_url u \<longleftrightarrow> startsWith u ''http://'' \<or> startsWith u ''https://''"

definition applyTransportConfig :: "runtime_env \<Rightarrow> transport_endpoints_response \<Rightarrow> world \<Rightarrow> world" where
  "applyTransportConfig env config s =
     (let urls = (\<lambda>mode. map te_url (filter (\<lambda>e. te_enabled e \<and> te_mode e = mode) (tr_endpoints config)));
          profile = tr_profile config; overrides = re_transportEndpointOverrides env;
          ws = dedupeEndpoints (urls TmWebsocket @ filter is_ws_url overrides);
          poll = dedupeEndpoints (urls TmLongPoll @ filter (\<lambda>u. \<not> is_ws_url u \<and> is_http_url u) overrides)
      in s\<lparr>rt_wsEndpoints := ws,
           rt_longPollEndpoints := (if poll = [] \<and> tp_longPollEnabled profile then [default_poll_endpoint (re_server env)] else poll),
           rt_longPollEnabled := tp_longPollEnabled profile,
           rt_longPollTimeoutSec := tp_longPollTimeoutSeconds profile,
           rt_backoffMinMs := tp_reconnectBackoffMinMs profile,
           rt_backoffMaxMs := tp_reconnectBackoffMaxMs profile,
           rt_backoffCurrentMs := tp_reconnectBackoffMinMs profile\<rparr>)"

definition configureTransport :: "runtime_env \<Rightarrow> unit rt" where
  "configureTransport env =
     bnd requireAccessToken (\<lambda>accessToken.
     bnd (api env (api_transportEndpoints (re_server env) accessToken) (rl_transportEndpoints (re_relay env))) (\<lambda>config.
     upd (applyTransportConfig env config)))"

definition reportWebSocketIssue :: "json \<Rightarrow> string \<Rightarrow> runtime_env \<Rightarrow> unit rt" where
  "reportWebSocketIssue lastError endpoint env =
     bnd (rd (\<lambda>s. (ts_mode (st_transport (w_store s)), rt_longPollEnabled s))) (\<lambda>(mode, longPollEnabled).
     if mode = MLongPoll then transport_do env (no_patch\<lparr>pt_lastError := Some lastError\<rparr>)
     else transport_do env \<lparr>pt_mode = Some MWebsocket, pt_status = Some (if longPollEnabled then StDegraded else StOffline),
            pt_endpoint = Some (Some endpoint), pt_lastError = Some lastError, pt_lastCursor = None\<rparr>)"

definition ensureLongPollLoop :: "world \<Rightarrow> world" where
  "ensureLongPollLoop s = (if rt_longPollRunning s \<or> rt_stopped s \<or> \<not> rt_longPollEnabled s then s else s\<lparr>rt_longPollRunning := True\<rparr>)"

text \<open>\<open>Math.floor(Math.random() * Math.max(10, Math.floor(baseDelay * 0.25)))\<close>\<close>

definition jitter_of :: "rat \<Rightarrow> int \<Rightarrow> int" where
  "jitter_of r baseDelay = \<lfloor>r * of_int (max 10 (baseDelay div 4))\<rfloor>"

definition scheduleReconnect :: "runtime_env \<Rightarrow> unit rt" where
  "scheduleReconnect env s =
     (if rt_stopped s \<or> rt_wsEndpoints s = [] then ret () s
      else bnd (draw (re_random env)) (\<lambda>r. upd (\<lambda>s.
        let baseDelay = rt_backoffCurrentMs s in
        s\<lparr>rt_backoffCurrentMs := min (rt_backoffCurrentMs s * 2) (rt_backoffMaxMs s),
          rt_wsEndpointIndex := (rt_wsEndpointIndex s + 1) mod max (length (rt_wsEndpoints s)) 1,
          rt_reconnectTimer := Some (baseDelay + jitter_of r baseDelay)\<rparr>)) s)"

subsection \<open>The socket\<close>

text \<open>The handlers that \<open>connectWebSocket\<close> gives to the transport.\<close>

definition onConnected :: "runtime_env \<Rightarrow> string \<Rightarrow> unit rt" where
  "onConnected env connectedEndpoint =
     sq (upd (\<lambda>s. s\<lparr>rt_backoffCurrentMs := rt_backoffMinMs s\<rparr>))
        (transport_do env \<lparr>pt_mode = Some MWebsocket, pt_status = Some StConnected, pt_endpoint = Some (Some connectedEndpoint),
           pt_lastError = Some JNull, pt_lastCursor = None\<rparr>)"

definition onDisconnected :: "runtime_env \<Rightarrow> string \<Rightarrow> string \<Rightarrow> unit rt" where
  "onDisconnected env endpoint reason s =
     (if rt_stopped s then ret () s
      else sq (reportWebSocketIssue (JStr reason) endpoint env) (sq (upd ensureLongPollLoop) (scheduleReconnect env)) s)"

definition onError :: "runtime_env \<Rightarrow> string \<Rightarrow> json \<Rightarrow> unit rt" where
  "onError env endpoint errorMessage s =
     (if rt_stopped s then ret () s else reportWebSocketIssue errorMessage endpoint env s)"

definition onSyncAvailable :: "nat \<Rightarrow> runtime_env \<Rightarrow> int \<Rightarrow> unit rt" where
  "onSyncAvailable fuel env cursor = catch (requestSync fuel env (Some (Fin (of_int (max cursor 0)))) None) (\<lambda>_. ret ())"

definition isConnected :: "ws_transport option \<Rightarrow> bool" where
  "isConnected t \<longleftrightarrow> (case t of None \<Rightarrow> False
    | Some w \<Rightarrow> (case wt_ws w of None \<Rightarrow> False | Some k \<Rightarrow> wsk_readyState k = WsOpen))"

definition isConnecting :: "ws_transport option \<Rightarrow> bool" where
  "isConnecting t \<longleftrightarrow> (case t of None \<Rightarrow> False
    | Some w \<Rightarrow> (case wt_ws w of None \<Rightarrow> False | Some k \<Rightarrow> wsk_readyState k = WsConnecting))"

text \<open>\<open>WebSocketTransport.connect\<close> of a new transport. The token goes into the URL only where it may.\<close>

definition ws_connect :: "runtime_env \<Rightarrow> string \<Rightarrow> string \<Rightarrow> unit rt" where
  "ws_connect env endpoint accessToken =
     (case re_urlProtocol env endpoint of
        None \<Rightarrow> throw type_error
      | Some protocol \<Rightarrow>
          let allowQueryFallback = (re_wsQueryTokenFallback env \<or> protocol = ''ws:'');
              protocols = [''sm.auth.'' @ accessToken, ''sm.v1'']
          in case re_setParams env None endpoint (if allowQueryFallback then [(''access_token'', accessToken)] else []) of
            None \<Rightarrow> throw type_error
          | Some url \<Rightarrow> (case re_newWebSocket env url protocols of
                None \<Rightarrow> upd (\<lambda>s. s\<lparr>rt_wsTransport := Some \<lparr>wt_ws = Some \<lparr>wsk_url = url, wsk_protocols = protocols,
                    wsk_readyState = WsConnecting\<rparr>, wt_endpoint = Some endpoint\<rparr>\<rparr>)
              | Some error \<Rightarrow>
                  let message = (case error of JsError m \<Rightarrow> m | _ \<Rightarrow> ''failed to initialize websocket'') in
                  sq (upd (\<lambda>s. s\<lparr>rt_wsTransport := Some \<lparr>wt_ws = None, wt_endpoint = Some endpoint\<rparr>\<rparr>))
                 (sq (onError env endpoint (JStr message)) (onDisconnected env endpoint message))))"

definition connectWebSocket :: "runtime_env \<Rightarrow> unit rt" where
  "connectWebSocket env s =
     (if rt_stopped s \<or> \<not> present (rt_accessToken s) then ret () s
      else if rt_wsEndpoints s = [] then ret () s
      else if isConnected (rt_wsTransport s) \<or> isConnecting (rt_wsTransport s) then ret () s
      else let endpoint = rt_wsEndpoints s ! (rt_wsEndpointIndex s mod length (rt_wsEndpoints s)) in
           sq (upd (\<lambda>s. s\<lparr>rt_wsTransport := Some \<lparr>wt_ws = None, wt_endpoint = None\<rparr>\<rparr>))
          (sq (transport_do env \<lparr>pt_mode = Some MWebsocket, pt_status = Some StConnecting, pt_endpoint = Some (Some endpoint),
                pt_lastError = Some JNull, pt_lastCursor = None\<rparr>)
              (ws_connect env endpoint (the (rt_accessToken s)))) s)"

definition describeCloseReason :: "int \<Rightarrow> string \<Rightarrow> string" where
  "describeCloseReason code reason =
     (if js_trim reason \<noteq> [] then js_trim reason @ '' (code='' @ int_digits code @ '')''
      else if code = 1000 then ''websocket closed normally (code=1000)''
      else if code = 1006 then ''websocket closed unexpectedly (code=1006)''
      else if code = 1001 then ''websocket endpoint became unavailable (code=1001)''
      else ''code='' @ int_digits code)"

text \<open>\<open>handleMessage\<close>: what a frame of the relay asks for.\<close>

datatype frame_action = FrameSync int | FrameError json | FrameIgnored

definition handleMessage :: "string \<Rightarrow> frame_action" where
  "handleMessage rawData = (case JSON_parse rawData of
      None \<Rightarrow> FrameIgnored
    | Some payload \<Rightarrow>
        (let envelope = json_get payload ''envelope'';
             field = (\<lambda>v f. case v of None \<Rightarrow> None | Some x \<Rightarrow> json_get x f);
             body = field envelope ''payload''
         in if payload = JNull then FrameIgnored
            else if field envelope ''type'' = Some (JStr ''server.sync_available'')
            then (case field body ''cursor'' of Some (JNum n) \<Rightarrow> FrameSync n | _ \<Rightarrow> FrameIgnored)
            else if field envelope ''type'' = Some (JStr ''server.error'')
            then FrameError (if nullish (field body ''message'') then JStr ''server websocket error'' else the (field body ''message''))
            else FrameIgnored))"

subsection \<open>Long polling\<close>

definition resolveLongPollEndpoint :: "runtime_env \<Rightarrow> world \<Rightarrow> string" where
  "resolveLongPollEndpoint env s =
     (if rt_longPollEndpoints s = [] then default_poll_endpoint (re_server env)
      else rt_longPollEndpoints s ! (rt_longPollEndpointIndex s mod length (rt_longPollEndpoints s)))"

definition sleep :: "runtime_env \<Rightarrow> int \<Rightarrow> unit rt" where
  "sleep env ms = awaited env (upd (\<lambda>s. s\<lparr>w_now := w_now s + ms\<rparr>))"

definition poll_patch :: "world \<Rightarrow> string \<Rightarrow> json option \<Rightarrow> transport_patch" where
  "poll_patch s endpoint lastError = \<lparr>pt_mode = Some MLongPoll,
     pt_status = Some (if rt_wsEndpoints s \<noteq> [] then StDegraded else StConnected), pt_endpoint = Some (Some endpoint),
     pt_lastError = lastError, pt_lastCursor = None\<rparr>"

definition poll_failed :: "runtime_env \<Rightarrow> string \<Rightarrow> js_error \<Rightarrow> unit rt" where
  "poll_failed env endpoint error =
     (let classified = classifyMessagingError (re_t env) error in
      sq (transport_do env \<lparr>pt_mode = Some MLongPoll, pt_status = Some StOffline, pt_endpoint = Some (Some endpoint),
            pt_lastError = Some (JStr (ce_message classified)), pt_lastCursor = None\<rparr>)
     (sq (upd (\<lambda>s. if 1 < length (rt_longPollEndpoints s) \<and> ce_class classified = Retryable
            then s\<lparr>rt_longPollEndpointIndex := (rt_longPollEndpointIndex s + 1) mod length (rt_longPollEndpoints s)\<rparr> else s))
         (sleep env 1250)))"

text \<open>One round of \<open>longPollLoop\<close>; a round that finds the loop's condition false ends the loop.\<close>

definition longPollRound :: "nat \<Rightarrow> runtime_env \<Rightarrow> unit rt" where
  "longPollRound fuel env s =
     (if rt_stopped s \<or> \<not> rt_longPollEnabled s then upd (\<lambda>s. s\<lparr>rt_longPollRunning := False\<rparr>) s
      else if isConnected (rt_wsTransport s) then sleep env 900 s
      else let endpoint = resolveLongPollEndpoint env s in
           sq (transport_do env (poll_patch s endpoint None))
              (catch
                (sq (requestSync fuel env None (Some endpoint))
                (sq (bnd (rd (\<lambda>s. poll_patch s endpoint (Some JNull))) (transport_do env))
                    (flushOutbox fuel env)))
                (poll_failed env endpoint)) s)"

subsection \<open>Starting\<close>

definition attempt :: "'a rt \<Rightarrow> (js_error + 'a) rt" where
  "attempt m s = (case m s of (r, s1) \<Rightarrow> (Inr r, s1))"

text \<open>The three reads of \<open>Promise.all\<close> are all started; the first that rejects decides.\<close>

definition hydrateFromLocalStore :: "runtime_env \<Rightarrow> unit rt" where
  "hydrateFromLocalStore env =
     bnd (attempt (db_read env messaging_store_list_conversations)) (\<lambda>conversations.
     bnd (attempt (db_listOutbox env)) (\<lambda>outbox.
     bnd (attempt (db_read env messaging_store_read_sync_cursor)) (\<lambda>cursor.
     case (conversations, outbox, cursor) of
       (Inr cs, Inr items, Inr n) \<Rightarrow>
         sq (store_do env (\<lambda>now. setConversations cs))
        (sq (store_do env (\<lambda>now. setOutbox items))
            (transport_do env (cursor_patch n)))
     | _ \<Rightarrow> throw (JsError ''local_storage_unavailable''))))"

definition start_body :: "nat \<Rightarrow> runtime_env \<Rightarrow> unit rt" where
  "start_body fuel env =
     sq (store_do env (\<lambda>now. setLoading True))
    (sq (hydrateFromLocalStore env)
    (sq (refreshConversations env)
    (sq (bootstrapSync env)
    (sq (refreshOutbox env)
    (sq (flushOutbox fuel env)
    (sq (configureTransport env)
    (sq (connectWebSocket env)
        (upd ensureLongPollLoop))))))))"

definition runtime_start :: "nat \<Rightarrow> runtime_env \<Rightarrow> string \<Rightarrow> unit rt" where
  "runtime_start fuel env accessToken s =
     (if \<not> rt_stopped s \<and> rt_accessToken s = Some accessToken then ret () s
      else let s1 = (if rt_stopped s then s else stop_runtime env s) in
           sq (upd (\<lambda>s. s\<lparr>rt_accessToken := Some accessToken, rt_stopped := False\<rparr>))
          (sq (transport_do env (off_patch StConnecting))
              (finally_do
                (catch (start_body fuel env) (\<lambda>error. sq (upd (stop_runtime env)) (throw error)))
                (set_store env (\<lambda>now. setLoading False)))) s1)"

subsection \<open>The runtime as a transition system\<close>

text \<open>Calls of the user interface, events of the socket, timers, rounds of the poll loop, and changes of the account.\<close>

datatype runtime_event =
    EvStart string
  | EvStop
  | EvRefreshConversations
  | EvCreateDirect string
  | EvCreateGroup string "string list"
  | EvLoadMessages string
  | EvSend send_input
  | EvRetryOutbox
  | EvDownload download_input
  | EvReconnectTimer
  | EvPollRound
  | EvSocketOpen string
  | EvSocketMessage string string
  | EvSocketError string
  | EvSocketClose string int string
  | EvAuth "auth_store \<Rightarrow> auth_store"

definition ignore_result :: "'a rt \<Rightarrow> unit rt" where
  "ignore_result m = bnd m (\<lambda>_. ret ())"

definition socket_state :: "ready_state \<Rightarrow> world \<Rightarrow> world" where
  "socket_state r s = s\<lparr>rt_wsTransport := map_option (\<lambda>t. t\<lparr>wt_ws := map_option (\<lambda>k. k\<lparr>wsk_readyState := r\<rparr>) (wt_ws t)\<rparr>) (rt_wsTransport s)\<rparr>"

fun runtime_step :: "nat \<Rightarrow> runtime_env \<Rightarrow> runtime_event \<Rightarrow> unit rt" where
  "runtime_step fuel env (EvStart token) = runtime_start fuel env token"
| "runtime_step fuel env EvStop = upd (stop_runtime env)"
| "runtime_step fuel env EvRefreshConversations = refreshConversations env"
| "runtime_step fuel env (EvCreateDirect peer) = ignore_result (createDirect env peer)"
| "runtime_step fuel env (EvCreateGroup title members) = ignore_result (createGroup env title members)"
| "runtime_step fuel env (EvLoadMessages c) = loadMessages env c"
| "runtime_step fuel env (EvSend input) = sendMessage fuel env input"
| "runtime_step fuel env EvRetryOutbox = retryOutbox fuel env"
| "runtime_step fuel env (EvDownload d) = ignore_result (downloadAttachment env d)"
| "runtime_step fuel env EvReconnectTimer = sq (upd (\<lambda>s. s\<lparr>rt_reconnectTimer := None\<rparr>)) (connectWebSocket env)"
| "runtime_step fuel env EvPollRound = longPollRound fuel env"
| "runtime_step fuel env (EvSocketOpen endpoint) = sq (upd (socket_state WsOpen)) (onConnected env endpoint)"
| "runtime_step fuel env (EvSocketMessage endpoint text) = (case handleMessage text of
      FrameSync cursor \<Rightarrow> onSyncAvailable fuel env cursor
    | FrameError message \<Rightarrow> onError env endpoint message
    | FrameIgnored \<Rightarrow> ret ())"
| "runtime_step fuel env (EvSocketError endpoint) = onError env endpoint (JStr ''websocket transport error'')"
| "runtime_step fuel env (EvSocketClose endpoint code reason) =
     sq (upd (socket_state WsClosed)) (onDisconnected env endpoint (describeCloseReason code reason))"
| "runtime_step fuel env (EvAuth f) = upd (\<lambda>s. s\<lparr>au_store := f (au_store s)\<rparr>)"

definition runtime_run :: "nat \<Rightarrow> runtime_env \<Rightarrow> runtime_event list \<Rightarrow> world \<Rightarrow> world" where
  "runtime_run fuel env events s = fold (\<lambda>event s. snd (runtime_step fuel env event s)) events s"

end
