(* ===== verification/Messaging_Invariants.thy ===== *)
theory Messaging_Invariants
  imports Messaging_Runtime
begin

text \<open>
  What holds in every run of the messaging runtime. A locale collects what an invariant has to be stable
  under; inside it, every method and every event of \<open>Messaging_Runtime\<close> is shown to keep such an invariant,
  whatever the relay, the device and the calls in between do. It is interpreted on the store, on the keys and
  the cursor of the database, and on the socket and timer of a stopped runtime.
\<close>

lemma classify_is_retryable: "ce_class (classifyMessagingError t e) = Retryable \<longleftrightarrow> is_retryable e"
  by (cases e) (simp_all add: is_retryable_def classifyMessagingError_def Let_def)

lemma sq_upd: "sq (upd f) m s = m (f s)"
  by (simp add: sq_def upd_def bnd_def)

subsection \<open>Invariants of the runtime\<close>

text \<open>
  An invariant of the runtime over what outlives a single call: the database, the store, whether it is
  stopped, the socket and the reconnect timer. It has to be stable under the few kinds of updates that
  the methods are made of; then every event keeps it, whatever the relay, the device and the calls that
  come in between do.
\<close>

definition core :: "world \<Rightarrow> (conversation_dto, message_dto, send_message_request) message_db \<times> messaging_store \<times> bool
    \<times> ws_transport option \<times> int option" where
  "core s = (w_db s, w_store s, rt_stopped s, rt_wsTransport s, rt_reconnectTimer s)"

text \<open>
  What the runtime writes to the database. Deleting a queued message is kept apart: it needs an answer of the
  relay that settles it, a message that was taken or an error that makes no retry worth while.
\<close>

inductive db_step :: "('c, 'm, 'o) message_db \<Rightarrow> ('c, 'm, 'o) message_db \<Rightarrow> bool" where
  "db_step db (messaging_store_upsert_conversation i c u db)"
| "db_step db (messaging_store_upsert_message j v n m t db)"
| "db_step db (messaging_store_enqueue_outbox k v ob t db)"
| "db_step db (messaging_store_increment_outbox_retry k db)"
| "0 \<le> q \<Longrightarrow> db_step db (messaging_store_write_sync_cursor q db)"

definition settles :: "js_error + 'a \<Rightarrow> bool" where
  "settles answer \<longleftrightarrow> (case answer of Inr _ \<Rightarrow> True | Inl e \<Rightarrow> \<not> is_retryable e)"

definition settling :: "runtime_env \<Rightarrow> bool" where
  "settling env \<longleftrightarrow> (\<exists>n. settles (rl_sendMessage (re_relay env) n))"

text \<open>Reading messages changes nothing but the device: its buffers and the numbers of its calls and draws.\<close>

locale device_invariant =
  fixes I :: "world \<Rightarrow> bool"
  assumes calls: "I s \<Longrightarrow> I (s\<lparr>dv_calls := n\<rparr>)"
    and draws: "I s \<Longrightarrow> I (s\<lparr>dv_draw := n\<rparr>)"
    and mem: "I s \<Longrightarrow> I (s\<lparr>dv_mem := m\<rparr>)"
begin

lemma wipe: "I s \<Longrightarrow> I (wipeBytes i s)"
  by (simp add: wipeBytes_def mem)

lemma keeps_device [keeps]:
  "keeps_pred I (draw f)" "keeps_pred I (alloc b)" "keeps_pred I (lift_lib r)" "keeps_pred I (parseBase64 L t)"
  "keeps_pred I (check_nonce b)" "keeps_pred I (lift_result r')" "keeps_pred I (base64ToBytes env' t)"
  by (auto simp: keeps_pred_def draw_def alloc_def lift_lib_def parseBase64_def check_nonce_def lift_result_def base64ToBytes_def
      ret_def throw_def draws mem split: sum.split option.split)

lemma keeps_native:
  assumes "\<And>s. I s \<Longrightarrow> I (snd (f s))"
  shows "keeps_pred I (native fault f)"
  using assms by (auto simp: keeps_pred_def native_def Let_def calls split: option.split prod.split) (metis snd_conv calls)

lemma keeps_storage [keeps]: "keeps_pred I (storage_get fault k)"
  unfolding storage_get_def getStrict_def fallback_get_def by (intro keeps keeps_native) simp_all

lemma keeps_map_io [keeps]: "(\<And>x. keeps_pred I (f x)) \<Longrightarrow> keeps_pred I (map_io f xs)"
  by (induction xs) (auto intro!: keeps)

lemma keeps_crypto [keeps]:
  "keeps_pred I (decryptMessage L c n w a b)" "keeps_pred I (encryptMessage L t rs)" "keeps_pred I (encryptAttachment L bs)"
  "keeps_pred I (decryptAttachment L c n k)"
  unfolding decryptMessage_def open_with_key_def encryptMessage_def wrap_key_def encryptAttachment_def decryptAttachment_def
  by (intro keeps wipe; assumption)+

lemma keeps_keys [keeps]: "keeps_pred I (loadAllDeviceKeyMaterials fault)"
  unfolding loadAllDeviceKeyMaterials_def loadCurrentDeviceKeyMaterial_def by (intro keeps)

lemma keeps_try [keeps]: "keeps_pred I (try_keys env e w ks)"
  by (induction ks) (auto intro!: keeps)

lemma keeps_hydrate [keeps]: "keeps_pred I (hydrateMessage env m)" "keeps_pred I (hydrateMessages env ms)"
  unfolding hydrateMessages_def hydrateMessage_def Let_def case_prod_beta by (intro keeps)+

end

locale runtime_invariant =
  fixes env :: runtime_env and I :: "world \<Rightarrow> bool"
  assumes frame: "I s \<Longrightarrow> core s' = core s \<Longrightarrow> I s'"
    and db: "I s \<Longrightarrow> db_step (w_db s) db' \<Longrightarrow> I (s\<lparr>w_db := db'\<rparr>)"
    and delete: "settling env \<Longrightarrow> I s \<Longrightarrow> I (s\<lparr>w_db := messaging_store_delete_outbox k (w_db s)\<rparr>)"
    and store: "I s \<Longrightarrow> I (s\<lparr>w_store := dispatch now a (w_store s)\<rparr>)"
    and stop: "I s \<Longrightarrow> I (stop_runtime env s)"
    and starting: "I s \<Longrightarrow> I (s\<lparr>rt_stopped := False\<rparr>)"
    and socket: "I s \<Longrightarrow> \<not> rt_stopped s \<Longrightarrow> I (s\<lparr>rt_wsTransport := t\<rparr>)"
    and socket_event: "I s \<Longrightarrow> I (socket_state r s)"
    and timer: "I s \<Longrightarrow> \<not> rt_stopped s \<Longrightarrow> I (s\<lparr>rt_reconnectTimer := Some d\<rparr>)"
    and timer_fired: "I s \<Longrightarrow> I (s\<lparr>rt_reconnectTimer := None\<rparr>)"
begin

text \<open>A method that returns at once while it is running, and else runs with its flag set.\<close>

lemma keeps_guarded: "keeps_pred I m \<Longrightarrow> (\<And>s. I s \<Longrightarrow> I (g s)) \<Longrightarrow> keeps_pred I (\<lambda>s. if b s then ret a s else m (g s))"
  by (simp add: keeps_pred_def ret_def)

lemma device_fields: "I s \<Longrightarrow> I (s\<lparr>dv_calls := n\<rparr>)" "I s \<Longrightarrow> I (s\<lparr>dv_draw := n\<rparr>)" "I s \<Longrightarrow> I (s\<lparr>dv_mem := m\<rparr>)"
  "I s \<Longrightarrow> I (s\<lparr>au_store := au\<rparr>)"
  by (erule frame, simp add: core_def)+

lemma runtime_fields:
  "I s \<Longrightarrow> I (s\<lparr>w_now := n\<rparr>)" "I s \<Longrightarrow> I (s\<lparr>w_awaits := k, w_now := n\<rparr>)" "I s \<Longrightarrow> I (s\<lparr>w_requests := rs\<rparr>)"
  "I s \<Longrightarrow> I (s\<lparr>w_diverged := b\<rparr>)" "I s \<Longrightarrow> I (s\<lparr>rt_accessToken := tok\<rparr>)" "I s \<Longrightarrow> I (s\<lparr>rt_flushRequested := b\<rparr>)"
  "I s \<Longrightarrow> I (s\<lparr>rt_flushRunning := b\<rparr>)" "I s \<Longrightarrow> I (s\<lparr>rt_syncRunning := b\<rparr>)" "I s \<Longrightarrow> I (s\<lparr>rt_queuedSyncHint := h\<rparr>)"
  "I s \<Longrightarrow> I (s\<lparr>rt_longPollRunning := b\<rparr>)" "I s \<Longrightarrow> I (s\<lparr>rt_longPollEndpointIndex := k\<rparr>)"
  "I s \<Longrightarrow> I (s\<lparr>rt_backoffCurrentMs := n\<rparr>)"
  by (erule frame, simp add: core_def)+

lemma hint_field: "I s \<Longrightarrow> I (queue_hint h s)"
  by (erule frame) (simp add: queue_hint_def core_def split: option.split)

end

sublocale runtime_invariant \<subseteq> device_invariant I
  by unfold_locales (rule device_fields; assumption)+

context runtime_invariant
begin

lemma keeps_meanwhile: "I s \<Longrightarrow> I (meanwhile_do env e s)"
  by (cases e) (auto simp: runtime_fields hint_field stop)

lemma keeps_time: "I s \<Longrightarrow> I (pass_time env s)"
proof -
  have "I (fold (meanwhile_do env) es s)" if "I s" for es s
    using that by (induction es arbitrary: s) (auto intro: keeps_meanwhile)
  then show "I s \<Longrightarrow> I (pass_time env s)" by (simp add: pass_time_def Let_def runtime_fields)
qed

lemma keeps_awaited [keeps]: "keeps_pred I m \<Longrightarrow> keeps_pred I (awaited env m)"
  by (simp add: keeps_pred_def awaited_def split_def keeps_time)

lemma keeps_api [keeps]: "keeps_pred I (api env rq answer)"
  unfolding api_def by (rule keeps_awaited) (simp add: keeps_pred_def runtime_fields)

lemma keeps_db_read [keeps]: "keeps_pred I (db_read env f)"
  unfolding db_read_def by (intro keeps keeps_native) simp

lemma keeps_db_write: "(\<And>db. db_step db (f db)) \<Longrightarrow> keeps_pred I (db_write env f)"
  unfolding db_write_def by (intro keeps keeps_native) (simp add: db)

lemma keeps_commands [keeps]:
  "keeps_pred I (db_saveConversation env c)" "keeps_pred I (db_saveMessage env m)" "keeps_pred I (db_enqueueOutbox env i v p t)"
  "keeps_pred I (db_incrementOutboxRetry env i)" "keeps_pred I (db_listOutbox env)"
  unfolding db_saveConversation_def db_saveMessage_def db_enqueueOutbox_def db_incrementOutboxRetry_def
    db_listOutbox_def Let_def
  by (intro keeps keeps_db_write db_step.intros)+

lemma keeps_delete: "settling env \<Longrightarrow> keeps_pred I (db_deleteOutbox env i)"
  unfolding db_deleteOutbox_def db_write_def by (intro keeps keeps_native) (simp add: delete)

lemma keeps_cursor: "0 \<le> q \<Longrightarrow> keeps_pred I (db_write env (messaging_store_write_sync_cursor q))"
  by (intro keeps_db_write db_step.intros)

lemma keeps_store: "(\<And>now m. \<exists>a. f now m = dispatch now a m) \<Longrightarrow> keeps_pred I (store_do env f)"
proof -
  assume f: "\<And>now m. \<exists>a. f now m = dispatch now a m"
  have "I (set_store env f s)" if "I s" for s
    using f [of "re_iso env (w_now s)" "w_store s"] store [OF that] by (auto simp: set_store_def)
  then show ?thesis by (simp add: store_do_def keeps_upd)
qed

lemma keeps_actions [keeps]:
  "keeps_pred I (store_do env (\<lambda>now. setInitialized v))" "keeps_pred I (store_do env (\<lambda>now. setLoading v))"
  "keeps_pred I (store_do env (\<lambda>now. setConversations cs))" "keeps_pred I (store_do env (\<lambda>now. upsertConversation c))"
  "keeps_pred I (store_do env (\<lambda>now. setActiveConversation a))" "keeps_pred I (store_do env (\<lambda>now. setMessages now b ms))"
  "keeps_pred I (store_do env (\<lambda>now. setOutbox xs))" "keeps_pred I (store_do env (\<lambda>now. upsertMessage now b (m' now)))"
  "keeps_pred I (store_do env (\<lambda>now. updateMessageLifecycle now b d k p))" "keeps_pred I (transport_do env q)"
  unfolding transport_do_def by (intro keeps_store; metis dispatch.simps)+

lemma keeps_flags [keeps]:
  "keeps_pred I (upd (\<lambda>s. s\<lparr>rt_flushRequested := b\<rparr>))" "keeps_pred I (upd (\<lambda>s. s\<lparr>rt_queuedSyncHint := h\<rparr>))"
  "keeps_pred I (upd (queue_hint h))" "keeps_pred I (upd (\<lambda>s. s\<lparr>w_diverged := True\<rparr>))"
  by (auto intro: keeps_upd runtime_fields hint_field)

lemma keeps_token [keeps]: "keeps_pred I requireAccessToken"
  by (auto simp: keeps_pred_def requireAccessToken_def Let_def ret_def throw_def runtime_fields)

lemma keeps_session [keeps]: "keeps_pred I requireSession"
  unfolding requireSession_def by (intro keeps)

lemma keeps_conversations [keeps]:
  "keeps_pred I (refreshConversations env)" "keeps_pred I (createDirect env peer)" "keeps_pred I (createGroup env title ms)"
  "keeps_pred I (loadMessages env b)"
  unfolding refreshConversations_def createDirect_def createGroup_def persistConversation_def loadMessages_def by (intro keeps)+

lemma keeps_outbox [keeps]: "keeps_pred I (refreshOutbox env)" "keeps_pred I (mark_item env x item p)"
  unfolding refreshOutbox_def mark_item_def by (intro keeps)+

text \<open>A queued message is deleted after an answer that settles it, so there is such an answer.\<close>

lemma api_answer:
  "api env rq answer s = (r, s') \<Longrightarrow> \<exists>n. r = answer n"
  by (auto simp: api_def awaited_def)

lemma keeps_flush_item [keeps]: "keeps_pred I (flush_item env tok item)"
proof -
  let ?send = "api env (api_sendMessage (re_server env) tok (ob_conversationId item) (ob_payload item)) (rl_sendMessage (re_relay env))"
  let ?taken = "\<lambda>message. sq (db_deleteOutbox env (ob_clientMessageId item)) (sq (db_saveMessage env message)
     (bnd (hydrateMessage env message) (\<lambda>hydrated. store_do env (\<lambda>now. upsertMessage now (ob_conversationId item) hydrated))))"
  let ?failed = "\<lambda>x error. sq (if ce_class (classifyMessagingError (re_t env) error) = Retryable
     then db_incrementOutboxRetry env (ob_clientMessageId item) else db_deleteOutbox env (ob_clientMessageId item))
     (mark_item env x item (failed_patch env error))"
  have taken: "keeps_pred I (?taken message)" if "?send s = (Inr message, s')" for message s s'
  proof -
    from api_answer [OF that] obtain n where "rl_sendMessage (re_relay env) n = Inr message" by metis
    then have "settles (rl_sendMessage (re_relay env) n)" by (simp add: settles_def)
    then have "settling env" unfolding settling_def by blast
    then show ?thesis by (intro keeps keeps_delete)
  qed
  have failed: "keeps_pred I (?failed x error)" if "settling env \<or> is_retryable error" for x error
    using that by (cases "is_retryable error") (auto simp: classify_is_retryable intro!: keeps keeps_delete)
  have caught: "keeps_pred I (catch (bnd ?send ?taken) (?failed x))" for x
  proof (cases "settling env")
    case True
    show ?thesis by (intro keeps keeps_bnd_result [OF _ taken] failed) (simp_all add: True)
  next
    case False
    have sent: "\<exists>e s'. ?send s = (Inl e, s') \<and> is_retryable e" for s
    proof -
      obtain r s' where "?send s = (r, s')" by fastforce
      moreover obtain n where n: "r = rl_sendMessage (re_relay env) n" using api_answer [OF calculation] by blast
      moreover have "\<not> settles r" using False by (simp add: settling_def n)
      ultimately show ?thesis by (auto simp: settles_def split: sum.splits)
    qed
    show ?thesis
    proof (rule keepsI)
      fix s assume "I s"
      obtain e s' where e: "?send s = (Inl e, s')" "is_retryable e" using sent by blast
      have "I s'" by (rule keepsD' [OF keeps_api e(1) \<open>I s\<close>])
      then have "I (snd (?failed x e s'))" using keepsD [OF failed] e(2) by blast
      then show "I (snd (catch (bnd ?send ?taken) (?failed x) s))" by (simp add: catch_def bnd_def e(1))
    qed
  qed
  show ?thesis unfolding flush_item_def by (intro keeps_bnd keeps_sq caught) (intro keeps)+
qed

lemma keeps_flush_loop [keeps]: "keeps_pred I (flush_loop fuel env)"
proof (induction fuel)
  case 0
  show ?case by (auto intro!: keeps_upd simp: runtime_fields)
next
  case (Suc n)
  have "keeps_pred I (flush_pass env)" unfolding flush_pass_def by (intro keeps)
  then show ?case unfolding flush_loop.simps by (intro keeps Suc)
qed

lemma keeps_flush [keeps]: "keeps_pred I (flushOutbox fuel env)" "keeps_pred I (retryOutbox fuel env)"
  unfolding retryOutbox_def flushOutbox_def
  by (rule keeps_sq [OF keeps_flags(1)], rule keeps_guarded; (intro keeps)?; simp add: runtime_fields)+

lemma keeps_batch [keeps]: "keeps_pred I (applySyncBatch env batch)"
proof -
  have "keeps_pred I (apply_event env session event)" for session event
    by (cases event) (simp_all add: apply_event_def keeps_base, intro keeps)
  then show ?thesis unfolding applySyncBatch_def Let_def by (intro keeps keeps_cursor) simp_all
qed

lemma keeps_sync_once [keeps]: "keeps_pred I (bootstrapSync env)" "keeps_pred I (syncOnce env timeout hint endpoint)"
  unfolding bootstrapSync_def syncOnce_def Let_def by (intro keeps)+

lemma keeps_sync_loop [keeps]: "keeps_pred I (sync_loop fuel env endpoint)"
  by (induction fuel) (auto simp: case_prod_beta intro!: keeps)

lemma keeps_sync [keeps]: "keeps_pred I (requestSync fuel env hint endpoint)"
  unfolding requestSync_def
  by (rule keeps_sq [OF keeps_flags(3)], rule keeps_guarded; (intro keeps)?; simp add: runtime_fields)

lemma keeps_send [keeps]: "keeps_pred I (sendMessage fuel env input)"
  unfolding sendMessage_def send_body_def createOptimisticMessage_def uploadAttachments_def upload_one_def Let_def
  by (intro keeps)

lemma keeps_download [keeps]: "keeps_pred I (downloadAttachment env d)"
  unfolding downloadAttachment_def case_prod_beta by (intro keeps)

lemma keeps_transport_do [keeps]: "keeps_pred I (bnd (rd f) (transport_do env))"
  by (intro keeps)

lemma keeps_transport [keeps]:
  "keeps_pred I (reportWebSocketIssue e a env)" "keeps_pred I (upd ensureLongPollLoop)" "keeps_pred I (scheduleReconnect env)"
  "keeps_pred I (onConnected env a)" "keeps_pred I (onError env a e)" "keeps_pred I (onSyncAvailable fuel env n)"
proof -
  show 1: "keeps_pred I (reportWebSocketIssue e a env)" for e
    unfolding reportWebSocketIssue_def case_prod_beta by (intro keeps)
  show "keeps_pred I (upd ensureLongPollLoop)"
    by (intro keeps_upd) (simp add: ensureLongPollLoop_def runtime_fields)
  show "keeps_pred I (onConnected env a)"
    unfolding onConnected_def by (intro keeps runtime_fields)
  show "keeps_pred I (onError env a e)"
    unfolding onError_def using 1 [of e] by (simp add: keeps_pred_def ret_def)
  show "keeps_pred I (onSyncAvailable fuel env n)"
    unfolding onSyncAvailable_def by (intro keeps)
  show "keeps_pred I (scheduleReconnect env)"
  proof (rule keepsI)
    fix s assume s: "I s"
    show "I (snd (scheduleReconnect env s))"
    proof (cases "rt_stopped s \<or> rt_wsEndpoints s = []")
      case True then show ?thesis using s by (simp add: scheduleReconnect_def ret_def)
    next
      case False
      let ?f = "\<lambda>r s. let baseDelay = rt_backoffCurrentMs s in
        s\<lparr>rt_backoffCurrentMs := min (rt_backoffCurrentMs s * 2) (rt_backoffMaxMs s),
          rt_wsEndpointIndex := (rt_wsEndpointIndex s + 1) mod max (length (rt_wsEndpoints s)) 1,
          rt_reconnectTimer := Some (baseDelay + jitter_of r baseDelay)\<rparr>"
      define u where "u = s\<lparr>dv_draw := Suc (dv_draw s)\<rparr>"
      have u: "I u" "\<not> rt_stopped u" using s False by (auto simp: u_def device_fields)
      define d where "d = rt_backoffCurrentMs u + jitter_of (re_random env (dv_draw s)) (rt_backoffCurrentMs u)"
      have "I (u\<lparr>rt_reconnectTimer := Some d\<rparr>)" using u timer by blast
      then have "I (?f (re_random env (dv_draw s)) u)" by (rule frame) (simp add: core_def d_def Let_def)
      moreover have "snd (scheduleReconnect env s) = ?f (re_random env (dv_draw s)) u"
        using False by (simp add: scheduleReconnect_def draw_def bnd_def upd_def u_def)
      ultimately show ?thesis by metis
    qed
  qed
qed

lemma keeps_disconnected [keeps]: "keeps_pred I (onDisconnected env a r)"
proof -
  have "keeps_pred I (sq (reportWebSocketIssue (JStr r) a env) (sq (upd ensureLongPollLoop) (scheduleReconnect env)))"
    by (intro keeps)
  then show ?thesis unfolding onDisconnected_def by (simp add: keeps_pred_def ret_def)
qed

text \<open>A socket is opened only while the runtime is not stopped.\<close>

lemma keeps_ws_connect:
  assumes s: "I s" and stopped: "\<not> rt_stopped s"
  shows "I (snd (ws_connect env a t s))"
proof -
  have fail: "I (snd (sq (upd (\<lambda>s. s\<lparr>rt_wsTransport := w\<rparr>)) (sq (onError env a (JStr m)) (onDisconnected env a m)) s))" for w m
    using keepsD [OF keeps_sq [OF keeps_transport(5) keeps_disconnected] socket [OF s stopped]] by (simp add: sq_upd)
  show ?thesis
    using s socket [OF s stopped] fail
    by (auto simp: ws_connect_def Let_def throw_def upd_def split: option.splits)
qed

lemma keeps_connect [keeps]: "keeps_pred I (connectWebSocket env)"
proof (rule keepsI)
  fix s assume s: "I s"
  let ?p = "\<lambda>a. \<lparr>pt_mode = Some MWebsocket, pt_status = Some StConnecting, pt_endpoint = Some (Some a),
                pt_lastError = Some JNull, pt_lastCursor = None\<rparr>"
  let ?s = "\<lambda>a. set_store env (\<lambda>now. setTransportState now (?p a)) (s\<lparr>rt_wsTransport := Some \<lparr>wt_ws = None, wt_endpoint = None\<rparr>\<rparr>)"
  have stopped: "rt_stopped (?s a) = rt_stopped s" for a by (simp add: set_store_def)
  have I: "I (?s a)" if "\<not> rt_stopped s" for a
    using keepsD [OF keeps_actions(10) socket [OF s that]] by (simp add: transport_do_def store_do_def upd_def)
  show "I (snd (connectWebSocket env s))"
    using s keeps_ws_connect [OF I] stopped
    by (simp add: connectWebSocket_def Let_def ret_def sq_upd transport_do_def store_do_def)
qed

lemma keeps_poll [keeps]: "keeps_pred I (longPollRound fuel env)"
proof -
  have sleep: "keeps_pred I (sleep env n)" for n
    unfolding sleep_def by (intro keeps runtime_fields)
  have failed: "keeps_pred I (poll_failed env a e)" for a e
    unfolding poll_failed_def Let_def by (intro keeps sleep) (auto simp: runtime_fields)
  have flag: "keeps_pred I (upd (\<lambda>s. s\<lparr>rt_longPollRunning := False\<rparr>))" by (intro keeps runtime_fields)
  have round: "keeps_pred I (sq (transport_do env p) (catch (sq (requestSync fuel env None (Some a))
      (sq (bnd (rd f) (transport_do env)) (flushOutbox fuel env))) (poll_failed env a)))" for p a f
    by (intro keeps failed)
  show ?thesis unfolding longPollRound_def Let_def
    by (rule keepsI) (auto intro: keepsD [OF flag] keepsD [OF sleep] keepsD [OF round])
qed

lemma keeps_attempt: "keeps_pred I m \<Longrightarrow> keeps_pred I (attempt m)"
  by (simp add: keeps_pred_def attempt_def split_def)

lemma keeps_local_store [keeps]: "keeps_pred I (hydrateFromLocalStore env)"
  unfolding hydrateFromLocalStore_def by (intro keeps keeps_attempt) (auto split: sum.split intro!: keeps)

lemma keeps_start [keeps]: "keeps_pred I (runtime_start fuel env t)"
proof (rule keepsI)
  fix s assume s: "I s"
  have configure: "keeps_pred I (configureTransport env)"
    unfolding configureTransport_def
    by (intro keeps keeps_upd) (erule frame, simp add: core_def applyTransportConfig_def Let_def)
  have body: "keeps_pred I (start_body fuel env)" unfolding start_body_def by (intro keeps configure)
  have loaded: "I (set_store env (\<lambda>now. setLoading False) s)" if "I s" for s
    using keepsD [OF keeps_actions(2) that] by (simp add: store_do_def upd_def)
  have go: "keeps_pred I (sq (upd (\<lambda>s. s\<lparr>rt_accessToken := Some t, rt_stopped := False\<rparr>))
     (sq (transport_do env (off_patch StConnecting))
       (finally_do (catch (start_body fuel env) (\<lambda>error. sq (upd (stop_runtime env)) (throw error)))
         (set_store env (\<lambda>now. setLoading False)))))"
    by (intro keeps body stop starting runtime_fields loaded)
  show "I (snd (runtime_start fuel env t s))"
    using s keepsD [OF go s] keepsD [OF go stop [OF s]] by (simp add: runtime_start_def Let_def ret_def)
qed

theorem keeps_step: "keeps_pred I (runtime_step fuel env event)"
proof (cases event)
  case (EvSocketMessage a m)
  then show ?thesis by (cases "handleMessage m") (auto intro!: keeps)
qed (auto simp: ignore_result_def intro!: keeps intro: stop socket_event timer_fired device_fields)

theorem keeps_run: "I s \<Longrightarrow> I (runtime_run fuel env events s)"
  unfolding runtime_run_def by (induction events arbitrary: s) (auto intro: keepsD [OF keeps_step])

end
subsection \<open>What holds in every run\<close>

lemma set_store_fields [simp]:
  "w_db (set_store env f s) = w_db s" "w_store (set_store env f s) = f (re_iso env (w_now s)) (w_store s)"
  "rt_stopped (set_store env f s) = rt_stopped s" "rt_wsTransport (set_store env f s) = rt_wsTransport s"
  "rt_reconnectTimer (set_store env f s) = rt_reconnectTimer s"
  by (simp_all add: set_store_def)

lemma socket_state_fields [simp]:
  "w_db (socket_state r s) = w_db s" "w_store (socket_state r s) = w_store s" "rt_stopped (socket_state r s) = rt_stopped s"
  "rt_reconnectTimer (socket_state r s) = rt_reconnectTimer s"
  "rt_wsTransport (socket_state r s) = None \<longleftrightarrow> rt_wsTransport s = None"
  by (simp_all add: socket_state_def)

lemma stop_runtime_fields [simp]:
  "w_db (stop_runtime env s) = w_db s" "rt_stopped (stop_runtime env s)" "rt_wsTransport (stop_runtime env s) = None"
  "rt_reconnectTimer (stop_runtime env s) = None"
  "w_store (stop_runtime env s) = dispatch (re_iso env (w_now s)) (ASetTransportState (off_patch StOffline)) (w_store s)"
  by (simp_all add: stop_runtime_def)

text \<open>The store is only changed by its actions, so all that is known of its reachable states holds in every run.\<close>

interpretation store_run: runtime_invariant env "\<lambda>s. store_reachable (w_store s)" for env
  by unfold_locales (auto simp: core_def simp del: dispatch.simps intro: store_reachable.action)

text \<open>The database keeps its keys, and its cursor only grows.\<close>

lemma db_step_cursor: "db_step db db' \<Longrightarrow> messaging_store_read_sync_cursor db \<le> messaging_store_read_sync_cursor db'"
  by (erule db_step.cases) (auto simp: db_defs messaging_store_read_sync_cursor_def split: option.split)

interpretation db_run: runtime_invariant env "\<lambda>s. db_ok (w_db s)" for env
  by unfold_locales (auto simp: core_def elim!: db_step.cases intro: inv_intros)

lemma delete_keeps_cursor [simp]:
  "messaging_store_read_sync_cursor (messaging_store_delete_outbox k db) = messaging_store_read_sync_cursor db"
  by (simp add: db_defs messaging_store_read_sync_cursor_def)

interpretation cursor_run: runtime_invariant env "\<lambda>s. n \<le> messaging_store_read_sync_cursor (w_db s)" for env n
  by unfold_locales (auto simp: core_def intro: order_trans [OF _ db_step_cursor])

text \<open>A queued message stays, as long as the relay gives no answer that settles one.\<close>

definition queued :: "string \<Rightarrow> world \<Rightarrow> bool" where
  "queued i s \<longleftrightarrow> i \<in> set (map or_client_message_id (db_outbox (w_db s)))"

lemma retry_keeps_ids: "map or_client_message_id (db_outbox (messaging_store_increment_outbox_retry k db)) = map or_client_message_id (db_outbox db)"
  by (simp add: messaging_store_increment_outbox_retry_def)

lemma db_step_queued:
  "db_step db db' \<Longrightarrow> i \<in> set (map or_client_message_id (db_outbox db)) \<Longrightarrow> i \<in> set (map or_client_message_id (db_outbox db'))"
  by (induction rule: db_step.induct) (simp_all only: retry_keeps_ids, auto simp: db_defs sql_upsert_keys simp del: set_map)

interpretation queue_run: runtime_invariant env "\<lambda>s. settling env \<or> queued i s" for env i
  by unfold_locales (auto simp: core_def queued_def simp del: set_map dest: db_step_queued)

definition quiet_when_stopped :: "world \<Rightarrow> bool" where
  "quiet_when_stopped s \<longleftrightarrow> (rt_stopped s \<longrightarrow> rt_wsTransport s = None \<and> rt_reconnectTimer s = None)"

interpretation quiet_run: runtime_invariant env quiet_when_stopped for env
  by unfold_locales (auto simp: quiet_when_stopped_def core_def)

subsection \<open>Properties\<close>

text \<open>A device that has just started, and an environment whose relay cannot be reached.\<close>

definition sample_world :: world where
  "sample_world = \<lparr>dv_tauri = True, dv_calls = 0, dv_keyring = Map.empty, dv_fallback = Map.empty, dv_draw = 0, dv_mem = [],
     au_store = initial_auth, au_calls = 0, w_db = empty_db, w_store = merge_persisted None initial_store, w_now = 0, w_awaits = 0,
     w_requests = [], w_diverged = False, rt_accessToken = None, rt_wsTransport = None, rt_longPollRunning = False,
     rt_reconnectTimer = None, rt_wsEndpoints = [], rt_longPollEndpoints = [], rt_wsEndpointIndex = 0,
     rt_longPollEndpointIndex = 0, rt_backoffMinMs = 500, rt_backoffMaxMs = 10000, rt_backoffCurrentMs = 500,
     rt_longPollTimeoutSec = 25, rt_longPollEnabled = True, rt_stopped = True, rt_flushRunning = False,
     rt_flushRequested = False, rt_syncRunning = False, rt_queuedSyncHint = None\<rparr>"

definition offline :: "nat \<Rightarrow> js_error + 'a" where
  "offline n = Inl (ApiClientError 503 JNull)"

definition sample_env :: runtime_env where
  "sample_env = \<lparr>re_lib = toy_sodium, re_fault = (\<lambda>n. None),
     re_relay = \<lparr>rl_listConversations = offline, rl_createConversation = offline, rl_listMessages = offline, rl_sendMessage = offline,
       rl_createReceipt = offline, rl_uploadAttachment = offline, rl_downloadAttachment = offline, rl_sync = offline,
       rl_transportEndpoints = offline\<rparr>,
     re_meanwhile = (\<lambda>n. []), re_delay = (\<lambda>n. 1), re_iso = (\<lambda>t. int_digits t), re_parseDate = (\<lambda>t. None), re_atob = (\<lambda>t. None),
     re_setParams = (\<lambda>base u ps. Some u), re_urlProtocol = (\<lambda>u. Some ''wss:''), re_newWebSocket = (\<lambda>u ps. None),
     re_random = (\<lambda>n. 0), re_randomID = (\<lambda>n. ''c1''), re_t = (\<lambda>k. k), re_server = \<lparr>sc_apiBaseUrl = ''https://relay.example'',
       sc_apiPrefix = ''/v1''\<rparr>, re_transportEndpointOverrides = [], re_wsQueryTokenFallback = False\<rparr>"

text \<open>C3. Whatever the user, the relay, the sockets, the timers and the device's storage do, in whatever order
  and with whatever failures: every conversation the client shows holds each message once, in the order
  of relay sequence, time and id, and the local database never holds two rows for one message, one
  conversation or one queued message.\<close>

theorem every_run_keeps_conversations_in_order:
  assumes "store_reachable (w_store s)" "db_ok (w_db s)" and t: "t = runtime_run fuel env events s"
  shows "distinct (map getMessageIdentityKey (current_messages (w_store t) c))
    \<and> sorted (map (\<lambda>m. (env_serverSequence (msg_envelope m), env_createdAt (msg_envelope m), env_id (msg_envelope m)))
        (current_messages (w_store t) c))
    \<and> distinct (map mr_id (db_messages (w_db t))) \<and> distinct (map cr_id (db_conversations (w_db t)))
    \<and> distinct (map or_client_message_id (db_outbox (w_db t)))"
proof -
  have "conv_ok (current_messages (w_store t) c)"
    using store_ok_current [OF store_reachable_ok [OF store_run.keeps_run [OF assms(1)]]] t by simp
  moreover have "db_ok (w_db t)" unfolding t by (rule db_run.keeps_run [OF assms(2)])
  ultimately show ?thesis by (simp add: conv_ok_def sort_position_def [abs_def] Let_def db_ok_def)
qed

lemma every_run_keeps_conversations_in_order_witness:
  "distinct (map or_client_message_id (db_outbox (w_db (runtime_run 3 sample_env [EvStart ''token'', EvRetryOutbox, EvPollRound] sample_world))))"
proof -
  have s: "store_reachable (w_store sample_world)" "db_ok (w_db sample_world)"
    by (simp_all add: sample_world_def store_reachable.hydrate inv_intros)
  show ?thesis
    using every_run_keeps_conversations_in_order [OF s refl, of 3 sample_env "[EvStart ''token'', EvRetryOutbox, EvPollRound]"] by simp
qed

text \<open>C29. The cursor of synchronisation never goes back: no event, failure or late answer makes the client
  store a smaller cursor than the one it had, even when the relay answers with one.\<close>

theorem sync_cursor_never_goes_back:
  "messaging_store_read_sync_cursor (w_db s) \<le> messaging_store_read_sync_cursor (w_db (runtime_run fuel env events s))"
  using cursor_run.keeps_run [of "messaging_store_read_sync_cursor (w_db s)" s fuel env events] by simp

text \<open>C4. A queued message is never lost: while the relay cannot be reached, or answers with errors that a retry
  may overcome, a message in the outbox of the database stays there, in every run of the client, whatever else is
  sent, received, stopped and restarted, and whatever fails on the device.\<close>

theorem queued_messages_survive_every_run:
  assumes "\<And>n. \<exists>e. rl_sendMessage (re_relay env) n = Inl e \<and> is_retryable e" and "queued i s"
  shows "queued i (runtime_run fuel env events s)"
proof -
  have "\<not> settles (rl_sendMessage (re_relay env) n)" for n using assms(1) [of n] by (auto simp: settles_def)
  then have "\<not> settling env" by (simp add: settling_def)
  then show ?thesis using queue_run.keeps_run [of env i s fuel events] assms(2) by simp
qed

definition sample_request :: send_message_request where
  "sample_request = \<lparr>sm_clientMessageId = ''c1'', sm_algorithm = ''a'', sm_cryptoVersion = 1, sm_nonce = [], sm_ciphertext = [],
     sm_recipients = [], sm_attachmentIds = [], sm_replyToMessageId = None, sm_ttlSeconds = None\<rparr>"

lemma offline_is_retryable: "\<exists>e. rl_sendMessage (re_relay sample_env) n = Inl e \<and> is_retryable e"
proof -
  have "is_retryable (ApiClientError 503 JNull)" by code_simp
  then show ?thesis by (simp add: sample_env_def offline_def)
qed

lemma queued_messages_survive_every_run_witness:
  "queued ''c1'' (runtime_run 3 sample_env [EvStart ''token'', EvRetryOutbox, EvStop, EvPollRound]
     (sample_world\<lparr>w_db := messaging_store_enqueue_outbox ''c1'' ''conv'' sample_request ''t'' empty_db\<rparr>))"
  by (rule queued_messages_survive_every_run [OF offline_is_retryable])
    (simp add: queued_def messaging_store_enqueue_outbox_def empty_db_def sql_upsert_def)

text \<open>A stopped runtime holds no socket and no timer that could open one: whatever ran before, also when
  \<open>stop\<close> came in the middle of \<open>start\<close>, while the socket is stopped there is neither a transport nor a
  pending reconnect.\<close>

theorem stopped_runtime_is_disconnected:
  assumes "quiet_when_stopped s" "rt_stopped (runtime_run fuel env events s)"
  shows "rt_wsTransport (runtime_run fuel env events s) = None \<and> rt_reconnectTimer (runtime_run fuel env events s) = None"
  using quiet_run.keeps_run [OF assms(1)] assms(2) by (simp add: quiet_when_stopped_def)

lemma stopped_runtime_is_disconnected_witness:
  "rt_wsTransport (runtime_run 3 sample_env [EvStart ''token'', EvStop] sample_world) = None"
proof -
  have q: "quiet_when_stopped sample_world" by (simp add: quiet_when_stopped_def sample_world_def)
  have "rt_stopped (runtime_run 3 sample_env [EvStart ''token'', EvStop] sample_world)"
    by (simp add: runtime_run_def upd_def del: runtime_step.simps(1))
  from stopped_runtime_is_disconnected [OF q this] show ?thesis by simp
qed

end
