(* ===== verification/Messaging_Loops.thy ===== *)
theory Messaging_Loops
  imports Messaging_Invariants
begin

text \<open>
  Termination of the two loops of the messaging runtime that go on while other calls ask for more: the
  flush of the outbox and the synchronisation. The fuel of their models is shown to be enough.
\<close>

subsection \<open>The loops end\<close>

text \<open>What the body of a flush and of a synchronisation may change, and what is therefore kept by them.\<close>

locale pass_invariant = device_invariant I for I :: "world \<Rightarrow> bool" +
  fixes env :: runtime_env
  assumes requests: "I s \<Longrightarrow> I (s\<lparr>w_requests := w_requests s @ [rq]\<rparr>)"
    and db: "I s \<Longrightarrow> I (s\<lparr>w_db := db\<rparr>)"
    and store: "I s \<Longrightarrow> I (s\<lparr>w_store := st\<rparr>)"
    and token: "I s \<Longrightarrow> I (s\<lparr>rt_accessToken := t\<rparr>)"
    and time: "I s \<Longrightarrow> I (pass_time env s)"
begin

lemma keeps_awaited [keeps]: "keeps_pred I m \<Longrightarrow> keeps_pred I (awaited env m)"
  by (simp add: keeps_pred_def awaited_def split_def time)

lemma keeps_api [keeps]: "keeps_pred I (api env rq answer)"
  unfolding api_def by (rule keeps_awaited) (simp add: keeps_pred_def requests)

lemma keeps_db [keeps]: "keeps_pred I (db_read env f)" "keeps_pred I (db_write env g)"
  unfolding db_read_def db_write_def by (intro keeps keeps_native; simp add: db)+

lemma keeps_store [keeps]: "keeps_pred I (store_do env h)" "keeps_pred I (transport_do env p)"
  unfolding transport_do_def store_do_def by (intro keeps_upd; simp add: set_store_def store)+

lemma keeps_token [keeps]: "keeps_pred I requireAccessToken"
  by (auto simp: keeps_pred_def requireAccessToken_def Let_def ret_def throw_def token)

lemma keeps_flush_item [keeps]: "keeps_pred I (flush_item env tok item)"
  unfolding flush_item_def mark_item_def db_deleteOutbox_def db_saveMessage_def db_incrementOutboxRetry_def Let_def
  by (intro keeps)

lemma keeps_refresh [keeps]: "keeps_pred I (db_listOutbox env)" "keeps_pred I (refreshOutbox env)"
  unfolding refreshOutbox_def db_listOutbox_def by (intro keeps)+

lemma keeps_outbox [keeps]:
  "keeps_pred I (if outbox = [] then store_do env h else sq (for_each outbox (flush_item env tok)) (refreshOutbox env))"
  by (intro keeps)

lemma keeps_batch [keeps]: "keeps_pred I (applySyncBatch env batch)"
proof -
  have "keeps_pred I (apply_event env session event)" for session event
    by (cases event) (simp_all add: apply_event_def keeps_base db_saveMessage_def Let_def, intro keeps)
  then show ?thesis unfolding applySyncBatch_def Let_def by (intro keeps)
qed

lemma keeps_poll [keeps]:
  "keeps_pred I (bnd (if b then bnd (lift_result r) (\<lambda>rq. api env rq answer) else api env q answer) (applySyncBatch env))"
  by (intro keeps)

lemma pass_kept:
  assumes "I (s\<lparr>rt_flushRequested := False\<rparr>)" "flush_pass env s = (r, s')"
  shows "I s'"
proof -
  let ?rest = "bnd requireAccessToken (\<lambda>tok. bnd (db_listOutbox env) (\<lambda>outbox.
      if outbox = [] then store_do env (\<lambda>now. setOutbox []) else sq (for_each outbox (flush_item env tok)) (refreshOutbox env)))"
  have rest: "keeps_pred I ?rest" by (intro keeps)
  have "?rest (s\<lparr>rt_flushRequested := False\<rparr>) = (r, s')" using assms(2) unfolding flush_pass_def sq_upd .
  from keepsD' [OF rest this assms(1)] show ?thesis .
qed

lemma once_kept: "I s \<Longrightarrow> syncOnce env t h endpoint s = (r, s') \<Longrightarrow> I s'"
proof -
  have "keeps_pred I (syncOnce env t h endpoint)" unfolding syncOnce_def Let_def by (intro keeps)
  then show "I s \<Longrightarrow> syncOnce env t h endpoint s = (r, s') \<Longrightarrow> I s'" by (rule keepsD')
qed

end

lemma meanwhile_fields [simp]:
  "w_awaits (meanwhile_do env e s) = w_awaits s" "w_diverged (meanwhile_do env e s) = w_diverged s"
  by (cases e; simp add: stop_runtime_def set_store_def queue_hint_def split: option.split)+

lemma fold_meanwhile_fields [simp]:
  "w_awaits (fold (meanwhile_do env) es s) = w_awaits s" "w_diverged (fold (meanwhile_do env) es s) = w_diverged s"
  by (induction es arbitrary: s) simp_all

lemma pass_time_fields [simp]: "w_awaits (pass_time env s) = Suc (w_awaits s)" "w_diverged (pass_time env s) = w_diverged s"
  by (simp_all add: pass_time_def Let_def)

lemma no_flush_meanwhile:
  "MwFlush \<notin> set es \<Longrightarrow> \<not> rt_flushRequested s \<Longrightarrow> \<not> rt_flushRequested (fold (meanwhile_do env) es s)"
proof (induction es arbitrary: s)
  case (Cons e es)
  then show ?case by (cases e) (auto simp: stop_runtime_def set_store_def queue_hint_def split: option.split)
qed simp

definition hints :: "meanwhile \<Rightarrow> bool" where
  "hints e \<longleftrightarrow> (\<exists>q. e = MwHint q)"

lemma no_hint_meanwhile:
  "\<not> list_ex hints es \<Longrightarrow> rt_queuedSyncHint s = None \<Longrightarrow> rt_queuedSyncHint (fold (meanwhile_do env) es s) = None"
proof (induction es arbitrary: s)
  case (Cons e es)
  then show ?case by (cases e) (auto simp: stop_runtime_def set_store_def hints_def)
qed simp

interpretation awaits: pass_invariant "\<lambda>s. n \<le> w_awaits s" env for n env
  by unfold_locales auto

interpretation diverged: pass_invariant "\<lambda>s. w_diverged s = d" env for d env
  by unfold_locales auto

lemma no_flush_pass:
  assumes "\<forall>n \<ge> N. MwFlush \<notin> set (re_meanwhile env n)"
  shows "pass_invariant (\<lambda>s. N \<le> w_awaits s \<and> \<not> rt_flushRequested s) env"
  using assms by unfold_locales (auto simp: pass_time_def Let_def no_flush_meanwhile)

lemma no_hint_pass:
  assumes "\<forall>n \<ge> N. \<not> list_ex hints (re_meanwhile env n)"
  shows "pass_invariant (\<lambda>s. N \<le> w_awaits s \<and> rt_queuedSyncHint s = None) env"
  using assms by unfold_locales (auto simp: pass_time_def Let_def no_hint_meanwhile)

lemma token_awaits: "requireAccessToken s = (r, s') \<Longrightarrow> w_awaits s' = w_awaits s"
  by (auto simp: requireAccessToken_def Let_def ret_def throw_def split: if_splits)

lemma read_awaits: "db_read env f s = (r, s') \<Longrightarrow> w_awaits s' = Suc (w_awaits s)"
  by (auto simp: db_read_def awaited_def native_def Let_def split: prod.splits option.splits)

text \<open>A pass that returns has waited at least once.\<close>

lemma bnd_Inr: "bnd m f s = (Inr b, s') \<longleftrightarrow> (\<exists>a s1. m s = (Inr a, s1) \<and> f a s1 = (Inr b, s'))"
  by (auto simp: bnd_def split: prod.split sum.split)

lemma flush_pass_awaits: "flush_pass env s = (Inr (), s') \<Longrightarrow> w_awaits s < w_awaits s'"
proof -
  assume "flush_pass env s = (Inr (), s')"
  then obtain tok s1 outbox s2 where 1: "requireAccessToken (s\<lparr>rt_flushRequested := False\<rparr>) = (Inr tok, s1)" and
    2: "db_listOutbox env s1 = (Inr outbox, s2)" and
    3: "(if outbox = [] then store_do env (\<lambda>now. setOutbox []) else sq (for_each outbox (flush_item env tok)) (refreshOutbox env)) s2 = (Inr (), s')"
    by (auto simp: flush_pass_def sq_upd bnd_Inr)
  have "w_awaits s2 = Suc (w_awaits s)" using token_awaits [OF 1] read_awaits [OF 2 [unfolded db_listOutbox_def]] by simp
  then show ?thesis using keepsD' [OF awaits.keeps_outbox 3, of "Suc (w_awaits s)"] by simp
qed

lemma syncOnce_awaits: "syncOnce env t h endpoint s = (Inr (), s') \<Longrightarrow> w_awaits s < w_awaits s'"
proof -
  assume "syncOnce env t h endpoint s = (Inr (), s')"
  then obtain tok s1 n s2 where 1: "requireAccessToken s = (Inr tok, s1)" and
    2: "db_read env messaging_store_read_sync_cursor s1 = (Inr n, s2)" and
    3: "bnd (if present endpoint
          then bnd (lift_result (api_syncPollAtEndpoint (re_setParams env) (re_server env) tok (the endpoint)
                 (max n (case h of None \<Rightarrow> 0 | Some h \<Rightarrow> h)) t 100)) (\<lambda>rq. api env rq (rl_sync (re_relay env)))
          else api env (api_syncPoll (re_server env) tok (max n (case h of None \<Rightarrow> 0 | Some h \<Rightarrow> h)) t 100) (rl_sync (re_relay env)))
        (applySyncBatch env) s2 = (Inr (), s')"
    by (auto simp: syncOnce_def bnd_Inr Let_def)
  have "Suc (w_awaits s) \<le> w_awaits s2" using token_awaits [OF 1] read_awaits [OF 2] by simp
  then have "Suc (w_awaits s) \<le> w_awaits s'" using keepsD [OF awaits.keeps_poll] 3 by (metis snd_conv)
  then show ?thesis by simp
qed

lemma flush_loop_ends:
  assumes N: "\<forall>n \<ge> N. MwFlush \<notin> set (re_meanwhile env n)" and "N - w_awaits s < fuel"
  shows "w_diverged (snd (flush_loop fuel env s)) = w_diverged s
    \<and> (fst (flush_loop fuel env s) = Inr () \<longrightarrow> \<not> rt_flushRequested (snd (flush_loop fuel env s)))"
  using assms(2)
proof (induction fuel arbitrary: s)
  case (Suc fuel)
  show ?case
  proof (cases "rt_flushRequested s")
    case False
    then show ?thesis by (simp add: ret_def)
  next
    case True
    obtain r s1 where p: "flush_pass env s = (r, s1)" by fastforce
    have d: "w_diverged s1 = w_diverged s" by (rule diverged.pass_kept [OF _ p]) simp
    have quiet: "N \<le> w_awaits s1 \<and> \<not> rt_flushRequested s1" if "N \<le> w_awaits s"
      by (rule pass_invariant.pass_kept [OF no_flush_pass [OF N] _ p]) (simp add: that)
    show ?thesis
    proof (cases r)
      case (Inl e)
      then show ?thesis using True p d by (simp add: sq_def bnd_def)
    next
      case (Inr u)
      then have later: "w_awaits s < w_awaits s1" using p flush_pass_awaits by simp
      have loop: "flush_loop (Suc fuel) env s = flush_loop fuel env s1" using True p Inr by (simp add: sq_def bnd_def)
      show ?thesis
      proof (cases "rt_flushRequested s1")
        case True
        then have "N - w_awaits s1 < fuel" using quiet later Suc.prems by (cases "N \<le> w_awaits s") auto
        then show ?thesis using Suc.IH [of s1] d loop by simp
      next
        case False
        then show ?thesis using d loop by (cases fuel) (simp_all add: upd_def ret_def)
      qed
    qed
  qed
qed simp

lemma sync_loop_ends:
  assumes N: "\<forall>n \<ge> N. \<not> list_ex hints (re_meanwhile env n)" and "N - w_awaits s < fuel"
  shows "w_diverged (snd (sync_loop fuel env endpoint s)) = w_diverged s
    \<and> (fst (sync_loop fuel env endpoint s) = Inr () \<longrightarrow> rt_queuedSyncHint (snd (sync_loop fuel env endpoint s)) = None)"
  using assms(2)
proof (induction fuel arbitrary: s)
  case (Suc fuel)
  let ?s = "s\<lparr>rt_queuedSyncHint := None\<rparr>"
  obtain r s1 where p: "syncOnce env (rt_longPollTimeoutSec s) (rt_queuedSyncHint s) endpoint ?s = (r, s1)" by fastforce
  have d: "w_diverged s1 = w_diverged s" by (rule diverged.once_kept [OF _ p]) simp
  have quiet: "N \<le> w_awaits s1 \<and> rt_queuedSyncHint s1 = None" if "N \<le> w_awaits s"
    by (rule pass_invariant.once_kept [OF no_hint_pass [OF N] _ p]) (simp add: that)
  have loop: "sync_loop (Suc fuel) env endpoint s =
      sq (syncOnce env (rt_longPollTimeoutSec s) (rt_queuedSyncHint s) endpoint)
         (\<lambda>s. if rt_queuedSyncHint s \<noteq> None then sync_loop fuel env endpoint s else ret () s) ?s"
    by (simp add: bnd_def [of "rd f" for f] rd_def sq_upd)
  show ?case
  proof (cases r)
    case (Inl e)
    then show ?thesis unfolding loop using p d by (simp add: sq_def bnd_def)
  next
    case (Inr u)
    then have later: "w_awaits s < w_awaits s1" using p syncOnce_awaits [of env _ _ endpoint ?s s1] by simp
    have loop: "sync_loop (Suc fuel) env endpoint s = (if rt_queuedSyncHint s1 \<noteq> None then sync_loop fuel env endpoint s1 else ret () s1)"
      unfolding loop using p Inr by (simp add: sq_def bnd_def)
    show ?thesis
    proof (cases "rt_queuedSyncHint s1 = None")
      case True
      then show ?thesis unfolding loop using d by (simp add: ret_def)
    next
      case False
      then have "N - w_awaits s1 < fuel" using quiet later Suc.prems by (cases "N \<le> w_awaits s") auto
      then show ?thesis unfolding loop using Suc.IH [of s1] d False by simp
    qed
  qed
qed simp


text \<open>Two further flushes are asked for while the first one waits.\<close>

definition busy_env :: runtime_env where
  "busy_env = sample_env\<lparr>re_meanwhile := (\<lambda>n. if n < 2 then [MwFlush, MwHint (Fin 3)] else [])\<rparr>"


end
