(* ===== verification/Server_Connection.thy ===== *)
theory Server_Connection
  imports Messaging_Api Json_Parse
begin

text \<open>
  \<open>lib/config.ts\<close> and \<open>services/serverConnection.ts\<close>: the build-time configuration, and the server a user
  connects to, discovered over the network and kept in \<open>localStorage\<close>. The URL class and \<open>fetch\<close> are those
  of the platform: parameters. \<open>localStorage\<close> is a map, \<open>None\<close> where the platform has none.
\<close>

subsection \<open>Configuration of the build\<close>

datatype environment = Development | Production
datatype log_level = LDebug | LInfo | LWarn | LError

record app_config =
  cf_appName :: string
  cf_environment :: environment
  cf_apiBaseUrl :: string
  cf_apiPrefix :: string
  cf_wsUrl :: string
  cf_wsQueryTokenFallback :: bool
  cf_transportEndpointOverrides :: "string list"
  cf_logLevel :: log_level

text \<open>\<open>vars\<close> is \<open>import.meta.env\<close>.\<close>

definition readEnv :: "(string \<rightharpoonup> string) \<Rightarrow> string \<Rightarrow> string option \<Rightarrow> js_error + string" where
  "readEnv vars key fallback = (case vars key of
      Some v \<Rightarrow> if v \<noteq> [] then Inr v else (case fallback of Some f \<Rightarrow> Inr f | None \<Rightarrow> Inl (JsError (''Missing required environment variable: '' @ key)))
    | None \<Rightarrow> (case fallback of Some f \<Rightarrow> Inr f | None \<Rightarrow> Inl (JsError (''Missing required environment variable: '' @ key))))"

definition toEnvironment :: "string \<Rightarrow> environment" where
  "toEnvironment mode = (if mode = ''production'' then Production else Development)"

definition toBool :: "string \<Rightarrow> bool \<Rightarrow> bool" where
  "toBool val fallback = (let normalized = toLowerCase (js_trim val) in
     if normalized \<in> {''1'', ''true'', ''yes''} then True
     else if normalized \<in> {''0'', ''false'', ''no''} then False else fallback)"

definition toLogLevel :: "string \<Rightarrow> log_level" where
  "toLogLevel val = (if val = ''debug'' then LDebug else if val = ''warn'' then LWarn else if val = ''error'' then LError else LInfo)"

definition deriveWsFallback :: "string \<Rightarrow> string" where
  "deriveWsFallback apiBaseUrl =
     (if startsWith apiBaseUrl ''https://'' then ''wss://'' @ drop 8 apiBaseUrl @ ''/ws''
      else if startsWith apiBaseUrl ''http://'' then ''ws://'' @ drop 7 apiBaseUrl @ ''/ws''
      else ''ws://localhost:8080/ws'')"

fun split_on :: "char \<Rightarrow> string \<Rightarrow> string list" where
  "split_on c [] = [[]]"
| "split_on c (x # xs) = (if x = c then [] # split_on c xs else (case split_on c xs of p # ps \<Rightarrow> (x # p) # ps | [] \<Rightarrow> [[x]]))"

definition splitCSV :: "string \<Rightarrow> string list" where
  "splitCSV val = (if js_trim val = [] then [] else filter (\<lambda>part. part \<noteq> []) (map js_trim (split_on (CHR '','') val)))"

definition or_throw :: "'e + 'a \<Rightarrow> ('a \<Rightarrow> 'e + 'b) \<Rightarrow> 'e + 'b" where
  "or_throw r f = (case r of Inl e \<Rightarrow> Inl e | Inr a \<Rightarrow> f a)"

definition appConfig :: "(string \<rightharpoonup> string) \<Rightarrow> string \<Rightarrow> js_error + app_config" where
  "appConfig vars mode =
     (let dev = (mode = ''development'') in
      or_throw (readEnv vars ''VITE_APP_NAME'' (Some ''Secure Messenger'')) (\<lambda>appName.
      or_throw (readEnv vars ''VITE_API_BASE_URL'' None) (\<lambda>apiBaseUrl.
      or_throw (readEnv vars ''VITE_API_PREFIX'' (Some ''/api/v1'')) (\<lambda>apiPrefix.
      or_throw (readEnv vars ''VITE_WS_URL'' (Some (deriveWsFallback apiBaseUrl))) (\<lambda>wsUrl.
      or_throw (readEnv vars ''VITE_WS_QUERY_TOKEN_FALLBACK'' (Some (if dev then ''true'' else ''false''))) (\<lambda>wsFallback.
      or_throw (readEnv vars ''VITE_TRANSPORT_ENDPOINT_OVERRIDES'' (Some [])) (\<lambda>overrides.
      or_throw (readEnv vars ''VITE_LOG_LEVEL'' (Some ''info'')) (\<lambda>logLevel.
      Inr \<lparr>cf_appName = appName, cf_environment = toEnvironment mode, cf_apiBaseUrl = apiBaseUrl, cf_apiPrefix = apiPrefix,
           cf_wsUrl = wsUrl, cf_wsQueryTokenFallback = toBool wsFallback dev,
           cf_transportEndpointOverrides = splitCSV overrides, cf_logLevel = toLogLevel logLevel\<rparr>))))))))"

subsection \<open>URLs\<close>

record parsed_url =
  u_protocol :: string
  u_host :: string
  u_hostname :: string
  u_origin :: string
  u_href :: string

text \<open>\<open>new URL(text)\<close> and \<open>new URL(path, base).toString()\<close>; \<open>None\<close> is the \<open>TypeError\<close> they throw.\<close>

record url_lib =
  ul_parse :: "string \<Rightarrow> parsed_url option"
  ul_resolve :: "string \<Rightarrow> string \<Rightarrow> string option"

definition slash :: char where "slash = CHR ''/''"

text \<open>\<open>replace(/\/+$/, "")\<close>\<close>

definition strip_slashes :: "string \<Rightarrow> string" where
  "strip_slashes s = rev (dropWhile (\<lambda>c. c = slash) (rev s))"

subsection \<open>Configurations and errors\<close>

datatype connection_code = InvalidInput | ConnectionFailed | ConfigInvalid

datatype connection_error = ServerConnectionError connection_code string | UrlTypeError

record server_urls = server_config +
  su_wsUrl :: string

record persisted_server_config = server_urls +
  ps_inputHost :: string
  ps_savedAt :: string

record active_server_config = server_urls +
  ac_saved :: bool
  ac_inputHost :: "string option"

type_synonym local_storage = "(string \<rightharpoonup> string) option"

definition SERVER_CONFIG_STORAGE_KEY :: string where "SERVER_CONFIG_STORAGE_KEY = ''secure-messenger-server-config-v1''"
definition DEFAULT_API_PREFIX :: string where "DEFAULT_API_PREFIX = ''/api/v1''"
definition DEFAULT_WS_PATH :: string where "DEFAULT_WS_PATH = ''/ws''"

subsection \<open>Normal forms\<close>

definition config_invalid :: "string \<Rightarrow> connection_error + 'a" where
  "config_invalid m = Inl (ServerConnectionError ConfigInvalid m)"

definition normalizeApiBase :: "url_lib \<Rightarrow> string \<Rightarrow> connection_error + string" where
  "normalizeApiBase U val = (case ul_parse U (js_trim val) of
      None \<Rightarrow> config_invalid ''api_base is not a valid url''
    | Some parsed \<Rightarrow>
        if u_protocol parsed \<noteq> ''https:'' \<and> u_protocol parsed \<noteq> ''http:'' then config_invalid ''api_base must use http/https''
        else Inr (strip_slashes (u_href parsed)))"

definition normalizeWsURL :: "url_lib \<Rightarrow> string \<Rightarrow> connection_error + string" where
  "normalizeWsURL U val = (case ul_parse U (js_trim val) of
      None \<Rightarrow> config_invalid ''ws_url is not a valid url''
    | Some parsed \<Rightarrow>
        if u_protocol parsed \<noteq> ''wss:'' \<and> u_protocol parsed \<noteq> ''ws:'' then config_invalid ''ws_url must use ws/wss''
        else Inr (strip_slashes (u_href parsed)))"

definition normalizeApiPrefix :: "string \<Rightarrow> connection_error + string" where
  "normalizeApiPrefix val = (let normalized = js_trim val in
     if \<not> startsWith normalized ''/'' then config_invalid ''api_prefix must start with /''
     else if length normalized < 2 then config_invalid ''api_prefix is too short''
     else Inr (strip_slashes normalized))"

definition normalize_urls :: "url_lib \<Rightarrow> string \<Rightarrow> string \<Rightarrow> string \<Rightarrow> connection_error + server_urls" where
  "normalize_urls U apiBase wsUrl apiPrefix =
     or_throw (normalizeApiBase U apiBase) (\<lambda>b.
     or_throw (normalizeWsURL U wsUrl) (\<lambda>w.
     or_throw (normalizeApiPrefix apiPrefix) (\<lambda>p.
     Inr \<lparr>sc_apiBaseUrl = b, sc_apiPrefix = p, su_wsUrl = w\<rparr>)))"

subsection \<open>The input of the user\<close>

definition newline :: "char \<Rightarrow> bool" where
  "newline c \<longleftrightarrow> c = CHR 0x0A \<or> c = CHR 0x0D"

text \<open>\<open>replace(/\/.*$/, "")\<close>: the dot does not match line ends.\<close>

fun strip_path :: "string \<Rightarrow> string" where
  "strip_path [] = []"
| "strip_path (c # s) = (if c = slash \<and> \<not> list_ex newline s then [] else c # strip_path s)"

definition digits_upto :: "nat \<Rightarrow> string \<Rightarrow> bool" where
  "digits_upto n s \<longleftrightarrow> 1 \<le> length s \<and> length s \<le> n \<and> list_all (\<lambda>c. CHR ''0'' \<le> c \<and> c \<le> CHR ''9'') s"

text \<open>\<open>/^([0-9]{1,3}\.){3}[0-9]{1,3}(:[0-9]{1,5})?$/\<close>\<close>

definition is_ipv4 :: "string \<Rightarrow> bool" where
  "is_ipv4 s = (case split_on (CHR ''.'') s of
      [a, b, c, d] \<Rightarrow> digits_upto 3 a \<and> digits_upto 3 b \<and> digits_upto 3 c
        \<and> (case split_on (CHR '':'') d of [e] \<Rightarrow> digits_upto 3 e | [e, port] \<Rightarrow> digits_upto 3 e \<and> digits_upto 5 port | _ \<Rightarrow> False)
    | _ \<Rightarrow> False)"

definition shouldDefaultToHTTP :: "string \<Rightarrow> bool" where
  "shouldDefaultToHTTP val = (let candidate = strip_path (js_trim val) in candidate = ''localhost'' \<or> is_ipv4 candidate)"

definition normalizeServerInput :: "url_lib \<Rightarrow> string \<Rightarrow> connection_error + string \<times> string" where
  "normalizeServerInput U input = (let trimmed = js_trim input in
     if trimmed = [] then Inl (ServerConnectionError InvalidInput ''server input is empty'')
     else let lower = toLowerCase trimmed;
              withProtocol = (if startsWith lower ''http://'' \<or> startsWith lower ''https://'' then trimmed
                else (if shouldDefaultToHTTP trimmed then ''http'' else ''https'') @ ''://'' @ trimmed)
          in case ul_parse U withProtocol of
            None \<Rightarrow> Inl (ServerConnectionError InvalidInput ''server input is not a valid url'')
          | Some parsed \<Rightarrow>
              if u_hostname parsed = [] then Inl (ServerConnectionError InvalidInput ''server hostname is required'')
              else Inr (u_origin parsed, u_host parsed))"

subsection \<open>Discovery\<close>

definition buildFallbackConfig :: "url_lib \<Rightarrow> string \<Rightarrow> connection_error + server_urls" where
  "buildFallbackConfig U apiBaseOrigin =
     or_throw (normalizeApiBase U apiBaseOrigin) (\<lambda>apiBase.
     case ul_parse U apiBase of
       None \<Rightarrow> Inl UrlTypeError
     | Some parsed \<Rightarrow>
         let wsScheme = (if u_protocol parsed = ''https:'' then ''wss:'' else ''ws:'') in
         or_throw (normalizeWsURL U (wsScheme @ ''//'' @ u_host parsed @ DEFAULT_WS_PATH)) (\<lambda>w.
         Inr \<lparr>sc_apiBaseUrl = apiBase, sc_apiPrefix = DEFAULT_API_PREFIX, su_wsUrl = w\<rparr>))"

definition parseServerConfigPayload :: "url_lib \<Rightarrow> json \<Rightarrow> connection_error + server_urls" where
  "parseServerConfigPayload U payload =
     (if \<not> is_object payload then config_invalid ''server config response has invalid shape''
      else case (as_str (json_get payload ''api_base''), as_str (json_get payload ''ws_url''), as_str (json_get payload ''api_prefix'')) of
        (Some apiBase, Some wsUrl, Some apiPrefix) \<Rightarrow> normalize_urls U apiBase wsUrl apiPrefix
      | _ \<Rightarrow> config_invalid ''server config response has missing required fields'')"

text \<open>\<open>answer\<close> is what \<open>fetch\<close> gives for a URL; a request that was aborted by the timeout is an error.\<close>

definition discoverServerConfig :: "url_lib \<Rightarrow> (string \<Rightarrow> js_error + http_response) \<Rightarrow> string \<Rightarrow> connection_error + server_urls" where
  "discoverServerConfig U answer origin = (case ul_resolve U (DEFAULT_API_PREFIX @ ''/config'') origin of
      None \<Rightarrow> Inl UrlTypeError
    | Some configURL \<Rightarrow> (case answer configURL of
        Inl error \<Rightarrow> Inl (ServerConnectionError ConnectionFailed (case error of JsError m \<Rightarrow> m | _ \<Rightarrow> ''connection failed''))
      | Inr response \<Rightarrow>
          if hr_status response = 404 then buildFallbackConfig U origin
          else if \<not> (200 \<le> hr_status response \<and> hr_status response \<le> 299)
          then Inl (ServerConnectionError ConnectionFailed ''server config endpoint is unavailable'')
          else (case hr_json response of
              None \<Rightarrow> config_invalid ''server config response is not valid json''
            | Some payload \<Rightarrow> parseServerConfigPayload U payload)))"

subsection \<open>The stored server\<close>

definition persisted_json :: "persisted_server_config \<Rightarrow> json" where
  "persisted_json c = JObj [(''apiBaseUrl'', JStr (sc_apiBaseUrl c)), (''wsUrl'', JStr (su_wsUrl c)), (''apiPrefix'', JStr (sc_apiPrefix c)),
     (''inputHost'', JStr (ps_inputHost c)), (''savedAt'', JStr (ps_savedAt c))]"

definition persistServerConfig :: "persisted_server_config \<Rightarrow> local_storage \<Rightarrow> local_storage" where
  "persistServerConfig config = map_option (\<lambda>m. m(SERVER_CONFIG_STORAGE_KEY \<mapsto> the (stringify (persisted_json config))))"

definition clearServerConfig :: "local_storage \<Rightarrow> local_storage" where
  "clearServerConfig = map_option (\<lambda>m. m(SERVER_CONFIG_STORAGE_KEY := None))"

text \<open>\<open>now\<close> is the current time as an ISO text. Whatever is thrown inside is caught.\<close>

definition getStoredServerConfig :: "url_lib \<Rightarrow> string \<Rightarrow> local_storage \<Rightarrow> persisted_server_config option" where
  "getStoredServerConfig U now storage = (case storage of
      None \<Rightarrow> None
    | Some m \<Rightarrow>
        if \<not> present (m SERVER_CONFIG_STORAGE_KEY) then None
        else case JSON_parse (the (m SERVER_CONFIG_STORAGE_KEY)) of
          None \<Rightarrow> None
        | Some parsed \<Rightarrow> (case (as_str (json_get parsed ''apiBaseUrl''), as_str (json_get parsed ''wsUrl''),
              as_str (json_get parsed ''apiPrefix''), as_str (json_get parsed ''inputHost'')) of
            (Some b, Some w, Some p, Some host) \<Rightarrow> (case normalize_urls U b w p of
                Inl _ \<Rightarrow> None
              | Inr urls \<Rightarrow> Some (server_urls.extend urls \<lparr>ps_inputHost = js_trim host,
                  ps_savedAt = (case as_str (json_get parsed ''savedAt'') of Some t \<Rightarrow> t | None \<Rightarrow> now)\<rparr>))
          | _ \<Rightarrow> None))"

definition hasStoredServerConfig :: "url_lib \<Rightarrow> string \<Rightarrow> local_storage \<Rightarrow> bool" where
  "hasStoredServerConfig U now storage \<longleftrightarrow> getStoredServerConfig U now storage \<noteq> None"

definition env_server_config :: "app_config \<Rightarrow> active_server_config" where
  "env_server_config cf = \<lparr>sc_apiBaseUrl = cf_apiBaseUrl cf, sc_apiPrefix = cf_apiPrefix cf, su_wsUrl = cf_wsUrl cf,
     ac_saved = False, ac_inputHost = None\<rparr>"

definition saved_server_config :: "server_urls \<Rightarrow> string \<Rightarrow> active_server_config" where
  "saved_server_config urls host = server_urls.extend urls \<lparr>ac_saved = True, ac_inputHost = Some host\<rparr>"

definition getActiveServerConfig :: "url_lib \<Rightarrow> app_config \<Rightarrow> string \<Rightarrow> local_storage \<Rightarrow> active_server_config" where
  "getActiveServerConfig U cf now storage = (case getStoredServerConfig U now storage of
      Some stored \<Rightarrow> saved_server_config (server_urls.truncate stored) (ps_inputHost stored)
    | None \<Rightarrow> env_server_config cf)"

definition getServerHostForDisplay :: "url_lib \<Rightarrow> active_server_config \<Rightarrow> string" where
  "getServerHostForDisplay U config = (case ul_parse U (sc_apiBaseUrl config) of Some parsed \<Rightarrow> u_host parsed | None \<Rightarrow> sc_apiBaseUrl config)"

definition getServerInputDefaultValue :: "url_lib \<Rightarrow> app_config \<Rightarrow> string \<Rightarrow> local_storage \<Rightarrow> string" where
  "getServerInputDefaultValue U cf now storage = (let active = getActiveServerConfig U cf now storage in
     if present (ac_inputHost active) \<and> js_trim (the (ac_inputHost active)) \<noteq> [] then the (ac_inputHost active)
     else getServerHostForDisplay U active)"

definition connectToServer :: "url_lib \<Rightarrow> (string \<Rightarrow> js_error + http_response) \<Rightarrow> string \<Rightarrow> string \<Rightarrow> local_storage
    \<Rightarrow> (connection_error + active_server_config) \<times> local_storage" where
  "connectToServer U answer now input storage =
     (case or_throw (normalizeServerInput U input) (\<lambda>(origin, host).
             or_throw (discoverServerConfig U answer origin) (\<lambda>urls. Inr (urls, host))) of
        Inl e \<Rightarrow> (Inl e, storage)
      | Inr (urls, host) \<Rightarrow> (Inr (saved_server_config urls host),
          persistServerConfig (server_urls.extend urls \<lparr>ps_inputHost = host, ps_savedAt = now\<rparr>) storage))"

subsection \<open>Stored configurations are in normal form\<close>

definition http_base :: "url_lib \<Rightarrow> string \<Rightarrow> bool" where
  "http_base U b \<longleftrightarrow> (\<exists>t u. ul_parse U t = Some u \<and> u_protocol u \<in> {''http:'', ''https:''} \<and> b = strip_slashes (u_href u))"

definition ws_base :: "url_lib \<Rightarrow> string \<Rightarrow> bool" where
  "ws_base U w \<longleftrightarrow> (\<exists>t u. ul_parse U t = Some u \<and> u_protocol u \<in> {''ws:'', ''wss:''} \<and> w = strip_slashes (u_href u))"

definition path_prefix :: "string \<Rightarrow> bool" where
  "path_prefix p \<longleftrightarrow> p = [] \<or> (hd p = slash \<and> last p \<noteq> slash)"

definition normal_urls :: "url_lib \<Rightarrow> 'a server_urls_scheme \<Rightarrow> bool" where
  "normal_urls U c \<longleftrightarrow> http_base U (sc_apiBaseUrl c) \<and> ws_base U (su_wsUrl c) \<and> path_prefix (sc_apiPrefix c)"

lemma strip_slashes_last: "strip_slashes s = [] \<or> last (strip_slashes s) \<noteq> slash"
proof (cases "strip_slashes s")
  case (Cons c r)
  then have "dropWhile (\<lambda>c. c = slash) (rev s) \<noteq> []" by (auto simp: strip_slashes_def)
  from hd_dropWhile [OF this] show ?thesis by (simp add: strip_slashes_def last_rev)
qed simp

lemma strip_slashes_id: "s = [] \<or> last s \<noteq> slash \<Longrightarrow> strip_slashes s = s"
  by (cases s rule: rev_cases) (auto simp: strip_slashes_def)

lemma strip_slashes_prefix: "\<exists>t. s = strip_slashes s @ t"
proof -
  have "suffix (dropWhile (\<lambda>c. c = slash) (rev s)) (rev s)" by (rule suffix_dropWhile)
  then show ?thesis unfolding strip_slashes_def by (metis prefix_def rev_rev_ident suffix_to_prefix)
qed

lemma strip_slashes_head: "startsWith s ''/'' \<Longrightarrow> path_prefix (strip_slashes s)"
  using strip_slashes_prefix [of s] strip_slashes_last [of s]
  by (auto simp: path_prefix_def startsWith_iff slash_def) (metis append_Cons hd_append2 list.sel(1))

lemma or_throw_Inr: "or_throw r f = Inr b \<longleftrightarrow> (\<exists>a. r = Inr a \<and> f a = Inr b)"
  by (cases r) (simp_all add: or_throw_def)

lemma normalizers_normal:
  "normalizeApiBase U v = Inr b \<Longrightarrow> http_base U b" "normalizeWsURL U v = Inr w \<Longrightarrow> ws_base U w"
  "normalizeApiPrefix v = Inr p \<Longrightarrow> path_prefix p"
  unfolding normalizeApiBase_def normalizeWsURL_def normalizeApiPrefix_def config_invalid_def http_base_def ws_base_def Let_def
  by (fastforce split: option.splits if_splits, fastforce split: option.splits if_splits, auto split: if_splits intro: strip_slashes_head)

lemma normalize_urls_normal: "normalize_urls U b w p = Inr urls \<Longrightarrow> normal_urls U urls"
  by (auto simp: normalize_urls_def or_throw_Inr normal_urls_def dest: normalizers_normal)

lemma extend_urls [simp]:
  "sc_apiBaseUrl (server_urls.extend u x) = sc_apiBaseUrl u" "sc_apiPrefix (server_urls.extend u x) = sc_apiPrefix u"
  "su_wsUrl (server_urls.extend u x) = su_wsUrl u" "server_urls.truncate (server_urls.extend u x) = u"
  by (cases u, simp add: server_urls.defs)+

lemma extend_persisted [simp]:
  "ps_inputHost (server_urls.extend u \<lparr>ps_inputHost = h, ps_savedAt = t\<rparr>) = h"
  "ps_savedAt (server_urls.extend u \<lparr>ps_inputHost = h, ps_savedAt = t\<rparr>) = t"
  by (cases u, simp add: server_urls.defs)+

lemma saved_fields [simp]:
  "ac_saved (saved_server_config u h)" "ac_inputHost (saved_server_config u h) = Some h"
  "sc_apiBaseUrl (saved_server_config u h) = sc_apiBaseUrl u" "sc_apiPrefix (saved_server_config u h) = sc_apiPrefix u"
  "su_wsUrl (saved_server_config u h) = su_wsUrl u"
  by (cases u, simp add: saved_server_config_def server_urls.defs)+

lemma stored_normal: "getStoredServerConfig U now storage = Some c \<Longrightarrow> normal_urls U c"
  by (auto simp: getStoredServerConfig_def normal_urls_def [of U "server_urls.extend u x" for u x]
      split: option.splits if_splits sum.splits dest: normalize_urls_normal [unfolded normal_urls_def])

subsection \<open>Connecting\<close>

text \<open>
  What the client relies on of the URL class, for the schemes it accepts: a serialized URL without its
  trailing slashes parses again to the same one, and neither it nor the host has white space around it.
\<close>

definition url_ok :: "url_lib \<Rightarrow> bool" where
  "url_ok U \<longleftrightarrow> (\<forall>t u. ul_parse U t = Some u \<longrightarrow> js_trim (u_host u) = u_host u
     \<and> (u_protocol u \<in> {''http:'', ''https:'', ''ws:'', ''wss:''} \<longrightarrow>
          js_trim (strip_slashes (u_href u)) = strip_slashes (u_href u)
          \<and> (\<exists>v. ul_parse U (strip_slashes (u_href u)) = Some v \<and> u_protocol v = u_protocol u
               \<and> strip_slashes (u_href v) = strip_slashes (u_href u))))"

lemma normalizeApiBase_again: "url_ok U \<Longrightarrow> http_base U b \<Longrightarrow> normalizeApiBase U b = Inr b"
  by (fastforce simp: http_base_def normalizeApiBase_def url_ok_def)

lemma normalizeWsURL_again: "url_ok U \<Longrightarrow> ws_base U w \<Longrightarrow> normalizeWsURL U w = Inr w"
  by (fastforce simp: ws_base_def normalizeWsURL_def url_ok_def)

lemma normalizeApiPrefix_again: "path_prefix p \<Longrightarrow> js_trim p = p \<Longrightarrow> p \<noteq> [] \<Longrightarrow> normalizeApiPrefix p = Inr p"
  by (cases p; cases "tl p") (auto simp: path_prefix_def normalizeApiPrefix_def startsWith_def slash_def strip_slashes_id)

lemma normalizeApiPrefix_empty: "normalizeApiPrefix [] = config_invalid ''api_prefix must start with /''"
  by (simp add: normalizeApiPrefix_def startsWith_def js_trim_def)

lemma persisted_text:
  "\<exists>t. stringify (persisted_json c) = Some t \<and> t \<noteq> [] \<and> JSON_parse t = Some (persisted_json c)"
proof -
  obtain t where t: "stringify (persisted_json c) = Some t" "t \<noteq> []" by (simp add: persisted_json_def)
  have "wf_json (persisted_json c)" by (simp add: persisted_json_def)
  then show ?thesis using t stringify_reads by blast
qed

lemma stored_after_persist:
  "getStoredServerConfig U now (persistServerConfig c (Some m)) =
     (case normalize_urls U (sc_apiBaseUrl c) (su_wsUrl c) (sc_apiPrefix c) of
        Inl _ \<Rightarrow> None
      | Inr urls \<Rightarrow> Some (server_urls.extend urls \<lparr>ps_inputHost = js_trim (ps_inputHost c), ps_savedAt = ps_savedAt c\<rparr>))"
proof -
  obtain t where t: "stringify (persisted_json c) = Some t" "t \<noteq> []" "JSON_parse t = Some (persisted_json c)"
    using persisted_text by blast
  have g: "json_get (persisted_json c) ''apiBaseUrl'' = Some (JStr (sc_apiBaseUrl c))"
    "json_get (persisted_json c) ''wsUrl'' = Some (JStr (su_wsUrl c))" "json_get (persisted_json c) ''apiPrefix'' = Some (JStr (sc_apiPrefix c))"
    "json_get (persisted_json c) ''inputHost'' = Some (JStr (ps_inputHost c))" "json_get (persisted_json c) ''savedAt'' = Some (JStr (ps_savedAt c))"
    by (simp_all add: persisted_json_def)
  show ?thesis
    using t by (cases "normalize_urls U (sc_apiBaseUrl c) (su_wsUrl c) (sc_apiPrefix c)")
      (simp_all add: getStoredServerConfig_def persistServerConfig_def present_def g)
qed

lemma fallback_normal: "buildFallbackConfig U h = Inr urls \<Longrightarrow> normal_urls U urls"
  by (auto simp: buildFallbackConfig_def or_throw_Inr Let_def normal_urls_def path_prefix_def DEFAULT_API_PREFIX_def slash_def
      split: option.splits) (erule normalizers_normal)+

lemma discovered_normal: "discoverServerConfig U answer h = Inr urls \<Longrightarrow> normal_urls U urls"
  by (auto simp: discoverServerConfig_def parseServerConfigPayload_def config_invalid_def
      split: option.splits sum.splits if_splits dest: fallback_normal normalize_urls_normal)

text \<open>C40. Every request goes to a well-formed address: whatever text is in \<open>localStorage\<close>, also one that was tampered
  with, the active server is either the one of the build or one whose base is an http or https URL, whose
  socket address is a ws or wss URL, both as the URL class serializes them and without trailing slashes,
  and whose path prefix is empty or starts with a slash and does not end with one.\<close>

theorem active_server_is_well_formed:
  "getActiveServerConfig U cf now storage = env_server_config cf
   \<or> (ac_saved (getActiveServerConfig U cf now storage) \<and> normal_urls U (getActiveServerConfig U cf now storage))"
proof (cases "getStoredServerConfig U now storage")
  case None
  then show ?thesis by (simp add: getActiveServerConfig_def)
next
  case (Some c)
  have "normal_urls U (server_urls.truncate c)" using stored_normal [OF Some] by (simp add: normal_urls_def server_urls.defs)
  then show ?thesis using Some by (simp add: getActiveServerConfig_def normal_urls_def)
qed


text \<open>A URL class for the example: it knows \<open>https\<close> and \<open>wss\<close>.\<close>

definition toy_url :: url_lib where
  "toy_url = \<lparr>ul_parse = (\<lambda>t. let s = strip_slashes t; host = (\<lambda>n. js_trim (strip_path (drop n s))) in
       if js_trim s \<noteq> s then None
       else if startsWith s ''https://'' then Some \<lparr>u_protocol = ''https:'', u_host = host 8, u_hostname = host 8,
         u_origin = ''https://'' @ host 8, u_href = s\<rparr>
       else if startsWith s ''wss://'' then Some \<lparr>u_protocol = ''wss:'', u_host = host 6, u_hostname = host 6,
         u_origin = ''wss://'' @ host 6, u_href = s\<rparr>
       else None),
     ul_resolve = (\<lambda>path base. Some (base @ path))\<rparr>"

lemma toy_url_ok: "url_ok toy_url"
proof -
  have "strip_slashes (strip_slashes s) = strip_slashes s" for s by (rule strip_slashes_id) (rule strip_slashes_last)
  then show ?thesis by (auto simp: url_ok_def toy_url_def Let_def split: if_splits)
qed

definition sample_config :: app_config where
  "sample_config = \<lparr>cf_appName = ''Secure Messenger'', cf_environment = Production, cf_apiBaseUrl = ''https://build.example'',
     cf_apiPrefix = ''/api/v1'', cf_wsUrl = ''wss://build.example/ws'', cf_wsQueryTokenFallback = False,
     cf_transportEndpointOverrides = [], cf_logLevel = LInfo\<rparr>"


end
