(* ===== verification/Plugin_Manifest.thy ===== *)
theory Plugin_Manifest
  imports Protocol
begin

text \<open>
  \<open>services/plugins/capabilities.ts\<close>, \<open>manifest.ts\<close> and the manifests of \<open>bundled.ts\<close>:
  the capability policy of v1 and the validation of untrusted manifests. A regular expression of
  the source is the bool-valued function that decides it.
\<close>

subsection \<open>Capabilities\<close>

definition allowedV1Capabilities :: "string list" where
  "allowedV1Capabilities = [''ui.render'', ''commands.register'', ''storage.plugin_local'',
     ''notifications.local'', ''messages.read_active_conversation_summary'',
     ''messages.read_visible_messages'', ''events.subscribe'']"

definition deniedByDefaultCapabilities :: "string list" where
  "deniedByDefaultCapabilities = [''network.outbound'', ''filesystem.read'', ''filesystem.write'',
     ''transport.control'', ''auth.session'', ''crypto.keys'', ''identity.material'']"

definition pluginCapabilityByMethod :: "(string \<times> string) list" where
  "pluginCapabilityByMethod = [
     (''registerCommand'', ''commands.register''),
     (''registerPanel'', ''ui.render''),
     (''setPanelContent'', ''ui.render''),
     (''pluginStorage.get'', ''storage.plugin_local''),
     (''pluginStorage.set'', ''storage.plugin_local''),
     (''pluginStorage.delete'', ''storage.plugin_local''),
     (''pluginStorage.list'', ''storage.plugin_local''),
     (''messages.getActiveConversationSummary'', ''messages.read_active_conversation_summary''),
     (''messages.getVisibleMessagesSanitized'', ''messages.read_visible_messages''),
     (''events.subscribe'', ''events.subscribe''),
     (''events.unsubscribe'', ''events.subscribe''),
     (''notifications.showLocal'', ''notifications.local'')]"

definition isCapabilityAllowedInV1 :: "string \<Rightarrow> bool" where
  "isCapabilityAllowedInV1 capability =
     (if capability \<in> set deniedByDefaultCapabilities then False
      else capability \<in> set allowedV1Capabilities)"

subsection \<open>Patterns\<close>

definition is_digit :: "char \<Rightarrow> bool" where
  "is_digit c \<longleftrightarrow> (let n = (of_char c :: nat) in 48 \<le> n \<and> n \<le> 57)"

definition is_lower :: "char \<Rightarrow> bool" where
  "is_lower c \<longleftrightarrow> (let n = (of_char c :: nat) in 97 \<le> n \<and> n \<le> 122)"

definition is_upper :: "char \<Rightarrow> bool" where
  "is_upper c \<longleftrightarrow> (let n = (of_char c :: nat) in 65 \<le> n \<and> n \<le> 90)"

text \<open>\<open>/^[a-z0-9._-]{3,64}$/\<close>\<close>

definition id_char :: "char \<Rightarrow> bool" where
  "id_char c \<longleftrightarrow> is_lower c \<or> is_digit c \<or> c = CHR ''.'' \<or> c = CHR ''_'' \<or> c = CHR ''-''"

definition idPattern :: "string \<Rightarrow> bool" where
  "idPattern s \<longleftrightarrow> 3 \<le> length s \<and> length s \<le> 64 \<and> (\<forall>c \<in> set s. id_char c)"

text \<open>\<open>/^[0-9]+\.[0-9]+\.[0-9]+(?:[-+].+)?$/\<close>; the dot of the last group excludes line ends.\<close>

definition eat_digits :: "string \<Rightarrow> string option" where
  "eat_digits s = (if takeWhile is_digit s = [] then None else Some (dropWhile is_digit s))"

definition eat_dot :: "string \<Rightarrow> string option" where
  "eat_dot s = (case s of c # r \<Rightarrow> (if c = CHR ''.'' then Some r else None) | [] \<Rightarrow> None)"

definition semver_tail :: "string \<Rightarrow> bool" where
  "semver_tail s = (case s of
      [] \<Rightarrow> True
    | c # r \<Rightarrow> (c = CHR ''-'' \<or> c = CHR ''+'') \<and> r \<noteq> []
              \<and> (\<forall>d \<in> set r. (of_char d :: nat) \<noteq> 10 \<and> (of_char d :: nat) \<noteq> 13))"

definition semverPattern :: "string \<Rightarrow> bool" where
  "semverPattern s =
     (case Option.bind (Option.bind (Option.bind (Option.bind (eat_digits s) eat_dot) eat_digits) eat_dot) eat_digits of
        None \<Rightarrow> False | Some r \<Rightarrow> semver_tail r)"

definition allowedHooks :: "string list" where
  "allowedHooks = [''conversation.changed'', ''transport.state.changed'', ''message.visible'', ''command.executed'']"

subsection \<open>Normalisation\<close>

definition asString :: "json option \<Rightarrow> string option" where
  "asString v = (case as_str v of
      None \<Rightarrow> None
    | Some s \<Rightarrow> (let trimmed = js_trim s in if length trimmed > 0 then Some trimmed else None))"

fun string_items :: "json list \<Rightarrow> string list" where
  "string_items [] = []"
| "string_items (JStr s # xs) = s # string_items xs"
| "string_items (_ # xs) = string_items xs"

definition asStringArray :: "json option \<Rightarrow> string list" where
  "asStringArray v = (case v of
      Some (JArr xs) \<Rightarrow> filter (\<lambda>s. length s > 0) (map js_trim (string_items xs))
    | _ \<Rightarrow> [])"

definition normalize_panel :: "json \<Rightarrow> (string \<times> string) option" where
  "normalize_panel panel =
     (if \<not> is_object panel then None
      else case (asString (json_get panel ''id''), asString (json_get panel ''title'')) of
        (Some i, Some t) \<Rightarrow> Some (i, t)
      | _ \<Rightarrow> None)"

fun panels_raw :: "json option \<Rightarrow> json list" where
  "panels_raw (Some (JArr xs)) = xs"
| "panels_raw _ = []"

definition normalizeManifest :: "json \<Rightarrow> plugin_manifest option" where
  "normalizeManifest raw =
     (if \<not> is_object raw then None
      else let
        apiVersion = asString (json_get raw ''apiVersion'');
        mid = asString (json_get raw ''id'');
        name = asString (json_get raw ''name'');
        version = asString (json_get raw ''version'');
        entrypoint = asString (json_get raw ''entrypoint'');
        permissions = asStringArray (json_get raw ''requestedPermissions'');
        declaredHooks = asStringArray (json_get raw ''declaredHooks'');
        uiContributions = (case json_get raw ''uiContributions'' of None \<Rightarrow> JObj [] | Some v \<Rightarrow> v);
        panels = List.map_filter normalize_panel (panels_raw (json_get uiContributions ''panels''))
      in case (apiVersion, mid, name, version, entrypoint) of
        (Some a, Some i, Some n, Some v, Some e) \<Rightarrow>
          Some \<lparr>pm_apiVersion = a, pm_id = i, pm_name = n, pm_version = v, pm_entrypoint = e,
                pm_requestedPermissions = permissions, pm_declaredHooks = declaredHooks, pm_panels = panels\<rparr>
      | _ \<Rightarrow> None)"

subsection \<open>Validation\<close>

datatype validation_code = VcManifestInvalid | VcPermissionDenied | VcLoadFailed

record loaded_descriptor =
  ld_manifest :: json
  ld_source :: plugin_source
  ld_sourceRef :: string
  ld_entrypointCode :: string

text \<open>
  The result is the error, or the normalised manifest that the function stores back into the
  descriptor. The two loops report the first offending capability or hook.
\<close>

definition validatePluginDescriptor :: "loaded_descriptor \<Rightarrow> (validation_code \<times> string) + plugin_manifest" where
  "validatePluginDescriptor descriptor =
     (case normalizeManifest (ld_manifest descriptor) of
        None \<Rightarrow> Inl (VcManifestInvalid, ''manifest shape is invalid'')
      | Some manifest \<Rightarrow>
          if pm_apiVersion manifest \<noteq> ''v1'' then Inl (VcManifestInvalid, ''unsupported plugin apiVersion'')
          else if \<not> idPattern (pm_id manifest) then Inl (VcManifestInvalid, ''plugin id must match /^[a-z0-9._-]{3,64}$/'')
          else if \<not> semverPattern (pm_version manifest) then Inl (VcManifestInvalid, ''plugin version must be semver-like'')
          else if str_includes (pm_entrypoint manifest) ''..'' \<or> startsWith (pm_entrypoint manifest) ''/''
               \<or> startsWith (pm_entrypoint manifest) [CHR 0x5C] then
            Inl (VcManifestInvalid, ''entrypoint must be a relative path'')
          else if length (js_trim (ld_entrypointCode descriptor)) = 0 then
            Inl (VcLoadFailed, ''plugin entrypoint code is empty'')
          else if length (ld_entrypointCode descriptor) > 512000 then
            Inl (VcLoadFailed, ''plugin entrypoint exceeds maximum size'')
          else case find (\<lambda>c. \<not> isCapabilityAllowedInV1 c) (pm_requestedPermissions manifest) of
            Some capability \<Rightarrow> Inl (VcPermissionDenied, ''capability '' @ [CHR 0x27] @ capability @ [CHR 0x27] @ '' is denied by default in v1'')
          | None \<Rightarrow>
              (case find (\<lambda>h. h \<notin> set allowedHooks) (pm_declaredHooks manifest) of
                 Some hook \<Rightarrow> Inl (VcManifestInvalid, ''declared hook '' @ [CHR 0x27] @ hook @ [CHR 0x27] @ '' is not supported'')
               | None \<Rightarrow> Inr manifest))"

subsection \<open>The manifest as a JSON object, and the bundled plugins\<close>

definition manifest_json :: "plugin_manifest \<Rightarrow> json" where
  "manifest_json m = JObj [
     (''apiVersion'', JStr (pm_apiVersion m)), (''id'', JStr (pm_id m)), (''name'', JStr (pm_name m)),
     (''version'', JStr (pm_version m)), (''entrypoint'', JStr (pm_entrypoint m)),
     (''requestedPermissions'', JArr (map JStr (pm_requestedPermissions m))),
     (''declaredHooks'', JArr (map JStr (pm_declaredHooks m))),
     (''uiContributions'', JObj [(''panels'', JArr (map (\<lambda>(i, t). JObj [(''id'', JStr i), (''title'', JStr t)]) (pm_panels m)))])]"

definition transportPanelManifest :: plugin_manifest where
  "transportPanelManifest = \<lparr>pm_apiVersion = ''v1'', pm_id = ''demo.transport.health'',
     pm_name = ''Transport Health Panel'', pm_version = ''1.0.0'', pm_entrypoint = ''index.js'',
     pm_requestedPermissions = [''ui.render'', ''events.subscribe'', ''notifications.local''],
     pm_declaredHooks = [''transport.state.changed''],
     pm_panels = [(''transport.health.panel'', ''Transport Health'')]\<rparr>"

definition conversationSummaryManifest :: plugin_manifest where
  "conversationSummaryManifest = \<lparr>pm_apiVersion = ''v1'', pm_id = ''demo.conversation.summary'',
     pm_name = ''Conversation Summary'', pm_version = ''1.0.0'', pm_entrypoint = ''index.js'',
     pm_requestedPermissions = [''ui.render'', ''messages.read_active_conversation_summary'',
       ''messages.read_visible_messages'', ''events.subscribe''],
     pm_declaredHooks = [''conversation.changed'', ''message.visible''],
     pm_panels = [(''conversation.summary.panel'', ''Conversation Snapshot'')]\<rparr>"

definition localActionsManifest :: plugin_manifest where
  "localActionsManifest = \<lparr>pm_apiVersion = ''v1'', pm_id = ''demo.local.actions'',
     pm_name = ''Local Actions'', pm_version = ''1.0.0'', pm_entrypoint = ''index.js'',
     pm_requestedPermissions = [''commands.register'', ''storage.plugin_local'', ''notifications.local'', ''ui.render''],
     pm_declaredHooks = [''command.executed''],
     pm_panels = [(''local.actions.panel'', ''Local Actions'')]\<rparr>"

subsection \<open>Lemmas\<close>

lemma allowed_denied_disjoint: "set allowedV1Capabilities \<inter> set deniedByDefaultCapabilities = {}"
  by code_simp

lemma isCapabilityAllowedInV1_iff: "isCapabilityAllowedInV1 c \<longleftrightarrow> c \<in> set allowedV1Capabilities"
  using allowed_denied_disjoint by (auto simp: isCapabilityAllowedInV1_def)

lemma method_capability_allowed:
  "map_of pluginCapabilityByMethod m = Some c \<Longrightarrow> isCapabilityAllowedInV1 c"
proof -
  have "\<forall>(m, c) \<in> set pluginCapabilityByMethod. isCapabilityAllowedInV1 c" by code_simp
  then show "map_of pluginCapabilityByMethod m = Some c \<Longrightarrow> isCapabilityAllowedInV1 c"
    by (auto dest: map_of_SomeD)
qed

definition trimmed :: "string \<Rightarrow> bool" where
  "trimmed s \<longleftrightarrow> js_trim s = s \<and> s \<noteq> []"

lemma asString_trimmed: "asString v = Some s \<Longrightarrow> trimmed s"
  by (auto simp: asString_def trimmed_def Let_def split: option.splits if_splits)

lemma asString_JStr: "trimmed s \<Longrightarrow> asString (Some (JStr s)) = Some s"
  by (simp add: asString_def trimmed_def)

lemma string_items_JStr [simp]: "string_items (map JStr xs) = xs"
  by (induction xs) auto

lemma asStringArray_trimmed: "s \<in> set (asStringArray v) \<Longrightarrow> trimmed s"
  by (auto simp: asStringArray_def trimmed_def split: option.splits json.splits)

lemma asStringArray_JStr: "\<forall>s \<in> set xs. trimmed s \<Longrightarrow> asStringArray (Some (JArr (map JStr xs))) = xs"
  by (induction xs) (auto simp: asStringArray_def trimmed_def)

definition manifest_trimmed :: "plugin_manifest \<Rightarrow> bool" where
  "manifest_trimmed m \<longleftrightarrow> trimmed (pm_apiVersion m) \<and> trimmed (pm_id m) \<and> trimmed (pm_name m)
     \<and> trimmed (pm_version m) \<and> trimmed (pm_entrypoint m)
     \<and> (\<forall>s \<in> set (pm_requestedPermissions m). trimmed s) \<and> (\<forall>s \<in> set (pm_declaredHooks m). trimmed s)
     \<and> (\<forall>(i, t) \<in> set (pm_panels m). trimmed i \<and> trimmed t)"

lemma normalize_panel_trimmed: "normalize_panel p = Some (i, t) \<Longrightarrow> trimmed i \<and> trimmed t"
  by (auto simp: normalize_panel_def dest: asString_trimmed split: if_splits option.splits)

lemma map_filter_mem: "y \<in> set (List.map_filter f xs) \<Longrightarrow> \<exists>x \<in> set xs. f x = Some y"
  by (induction xs) (auto split: option.splits)

lemma normalizeManifest_trimmed: "normalizeManifest raw = Some m \<Longrightarrow> manifest_trimmed m"
  by (auto simp: normalizeManifest_def manifest_trimmed_def Let_def
      dest: asString_trimmed asStringArray_trimmed normalize_panel_trimmed dest!: map_filter_mem
      split: if_splits option.splits)

lemma map_filter_panels:
  "\<forall>(i, t) \<in> set ps. trimmed i \<and> trimmed t \<Longrightarrow>
   List.map_filter normalize_panel (map (\<lambda>(i, t). JObj [(''id'', JStr i), (''title'', JStr t)]) ps) = ps"
  by (induction ps) (auto simp: normalize_panel_def asString_JStr)

lemma normalizeManifest_json: "manifest_trimmed m \<Longrightarrow> normalizeManifest (manifest_json m) = Some m"
  by (simp add: normalizeManifest_def manifest_json_def manifest_trimmed_def asString_JStr
      asStringArray_JStr map_filter_panels)

lemma idPattern_trimmed: "idPattern s \<Longrightarrow> js_trim s = s"
proof (rule js_trim_id, intro ballI)
  fix c assume "idPattern s" "c \<in> set s"
  then have "id_char c" by (simp add: idPattern_def)
  then show "\<not> js_space c"
    by (auto simp: id_char_def is_lower_def is_digit_def js_space_def Let_def)
qed

lemma find_None_all: "find (\<lambda>x. \<not> p x) xs = None \<longleftrightarrow> (\<forall>x \<in> set xs. p x)"
  by (auto simp: find_None_iff)

lemma validate_Inr:
  assumes "validatePluginDescriptor d = Inr m"
  shows "normalizeManifest (ld_manifest d) = Some m" "pm_apiVersion m = ''v1''" "idPattern (pm_id m)"
    "semverPattern (pm_version m)" "\<forall>c \<in> set (pm_requestedPermissions m). isCapabilityAllowedInV1 c"
    "set (pm_declaredHooks m) \<subseteq> set allowedHooks" "\<not> str_includes (pm_entrypoint m) ''..''"
    "\<not> startsWith (pm_entrypoint m) ''/''" "\<not> startsWith (pm_entrypoint m) [CHR 0x5C]"
    "js_trim (ld_entrypointCode d) \<noteq> []" "length (ld_entrypointCode d) \<le> 512000"
  using assms
  by (auto simp: validatePluginDescriptor_def find_None_iff split: option.splits if_splits)

subsection \<open>Properties\<close>

text \<open>A manifest that validation accepts is confined: version 1 of the API, an id of
  lower-case letters, digits and ._- only, capabilities of the v1 list only (so none of the seven
  denied ones), hooks of the supported list only, and an entry point that is a relative path.\<close>

theorem validated_manifest_is_confined:
  assumes "validatePluginDescriptor d = Inr m"
  shows "pm_apiVersion m = ''v1'' \<and> idPattern (pm_id m) \<and> CHR '':'' \<notin> set (pm_id m)
    \<and> set (pm_requestedPermissions m) \<subseteq> set allowedV1Capabilities
    \<and> set (pm_requestedPermissions m) \<inter> set deniedByDefaultCapabilities = {}
    \<and> set (pm_declaredHooks m) \<subseteq> set allowedHooks
    \<and> \<not> str_includes (pm_entrypoint m) ''..'' \<and> \<not> startsWith (pm_entrypoint m) ''/''"
proof -
  note v = validate_Inr [OF assms]
  have "\<not> id_char (CHR '':'')" by code_simp
  with v(3) have "CHR '':'' \<notin> set (pm_id m)" by (auto simp: idPattern_def)
  with v show ?thesis using allowed_denied_disjoint by (auto simp: isCapabilityAllowedInV1_iff)
qed

definition sample_descriptor :: "plugin_manifest \<Rightarrow> loaded_descriptor" where
  "sample_descriptor m = \<lparr>ld_manifest = manifest_json m, ld_source = SrcBundled,
     ld_sourceRef = ''bundled'', ld_entrypointCode = ''run''\<rparr>"

definition manifest_checks :: "plugin_manifest \<Rightarrow> bool" where
  "manifest_checks m \<longleftrightarrow> normalizeManifest (manifest_json m) = Some m \<and> pm_apiVersion m = ''v1''
     \<and> idPattern (pm_id m) \<and> semverPattern (pm_version m) \<and> \<not> str_includes (pm_entrypoint m) ''..''
     \<and> \<not> startsWith (pm_entrypoint m) ''/'' \<and> \<not> startsWith (pm_entrypoint m) [CHR 0x5C]
     \<and> find (\<lambda>c. \<not> isCapabilityAllowedInV1 c) (pm_requestedPermissions m) = None
     \<and> find (\<lambda>h. h \<notin> set allowedHooks) (pm_declaredHooks m) = None"

lemma js_trim_run: "js_trim ''run'' = ''run''"
  by code_simp

lemma sample_descriptor_checks:
  "manifest_checks m \<Longrightarrow> validatePluginDescriptor (sample_descriptor m) = Inr m"
  by (simp add: manifest_checks_def validatePluginDescriptor_def sample_descriptor_def js_trim_run)

lemma sample_descriptor_valid:
  "validatePluginDescriptor (sample_descriptor transportPanelManifest) = Inr transportPanelManifest"
  "validatePluginDescriptor (sample_descriptor conversationSummaryManifest) = Inr conversationSummaryManifest"
  "validatePluginDescriptor (sample_descriptor localActionsManifest) = Inr localActionsManifest"
  by (rule sample_descriptor_checks, code_simp)+

lemma validated_manifest_is_confined_witness:
  "set (pm_requestedPermissions localActionsManifest) \<inter> set deniedByDefaultCapabilities = {}"
  using validated_manifest_is_confined [OF sample_descriptor_valid(3)] by blast

text \<open>Normalising a manifest is a projection: the normalised manifest, written as JSON and
  normalised again, is itself, so a descriptor that validation rewrote validates to the same
  manifest when it is discovered again.\<close>

theorem normalize_validate_roundtrip:
  assumes "validatePluginDescriptor d = Inr m"
  shows "normalizeManifest (manifest_json m) = Some m
    \<and> validatePluginDescriptor (d\<lparr>ld_manifest := manifest_json m\<rparr>) = Inr m"
proof -
  have "normalizeManifest (manifest_json m) = Some m"
    using validate_Inr(1) [OF assms] by (intro normalizeManifest_json normalizeManifest_trimmed)
  moreover have "validatePluginDescriptor (d\<lparr>ld_manifest := manifest_json m\<rparr>) = validatePluginDescriptor d"
    using validate_Inr(1) [OF assms] calculation by (simp add: validatePluginDescriptor_def)
  ultimately show ?thesis using assms by simp
qed

lemma normalize_validate_roundtrip_witness:
  "normalizeManifest (manifest_json transportPanelManifest) = Some transportPanelManifest"
  using normalize_validate_roundtrip [OF sample_descriptor_valid(1)] by blast

text \<open>A manifest that asks for a capability outside the v1 list never validates, whatever
  the rest of it says.\<close>

theorem denied_capability_never_validates:
  assumes "normalizeManifest (ld_manifest d) = Some m" "c \<in> set (pm_requestedPermissions m)"
    and "c \<in> set deniedByDefaultCapabilities \<or> c \<notin> set allowedV1Capabilities"
  shows "\<exists>code msg. validatePluginDescriptor d = Inl (code, msg)"
proof (cases "validatePluginDescriptor d")
  case (Inl e)
  then show ?thesis by (cases e) auto
next
  case (Inr m')
  with assms validate_Inr(1,5) [OF Inr] allowed_denied_disjoint show ?thesis
    by (auto simp: isCapabilityAllowedInV1_iff)
qed

lemma denied_capability_never_validates_witness:
  "\<exists>code msg. validatePluginDescriptor (sample_descriptor (transportPanelManifest\<lparr>pm_requestedPermissions := [''crypto.keys'']\<rparr>)) = Inl (code, msg)"
proof -
  let ?m = "transportPanelManifest\<lparr>pm_requestedPermissions := [''crypto.keys'']\<rparr>"
  have "normalizeManifest (ld_manifest (sample_descriptor ?m)) = Some ?m" by code_simp
  then show ?thesis
    by (rule denied_capability_never_validates [where c = "''crypto.keys''"])
      (simp_all add: transportPanelManifest_def deniedByDefaultCapabilities_def)
qed

end
