(* ===== verification/Plugin_Store.thy ===== *)
theory Plugin_Store
  imports Protocol
begin

text \<open>
  \<open>state/pluginStore.ts\<close>: the registry of discovered plugins with the commands, panels and
  notices they contributed, and the persisted wish \<open>desiredEnabled\<close>. \<open>now\<close> is the time of the
  action and \<open>nid\<close> the value of \<open>randomID()\<close>.
\<close>

subsection \<open>State and actions\<close>

record plugin_notice =
  pn_id :: string
  pn_pluginId :: string
  pn_message :: string
  pn_createdAt :: string

record plugin_store =
  pst_registry :: "plugin_registry_item list"
  pst_commands :: "plugin_command_dto list"
  pst_panels :: "plugin_panel_dto list"
  pst_notices :: "plugin_notice list"
  pst_desiredEnabled :: "string \<rightharpoonup> bool"

definition initial_plugin_store :: plugin_store where
  "initial_plugin_store = \<lparr>pst_registry = [], pst_commands = [], pst_panels = [], pst_notices = [],
     pst_desiredEnabled = Map.empty\<rparr>"

text \<open>\<open>item.manifest.id\<close>, which is a string for every validated manifest, and the comparison
  \<open>item.manifest.id === pluginId\<close>.\<close>

definition registry_id :: "plugin_registry_item \<Rightarrow> json option" where
  "registry_id item = (case pr_manifest item of
      ManifestOk m \<Rightarrow> Some (JStr (pm_id m)) | ManifestRaw raw \<Rightarrow> json_get raw ''id'')"

definition has_id :: "string \<Rightarrow> plugin_registry_item \<Rightarrow> bool" where
  "has_id pluginId item \<longleftrightarrow> registry_id item = Some (JStr pluginId)"

definition update_items :: "string \<Rightarrow> (plugin_registry_item \<Rightarrow> plugin_registry_item)
    \<Rightarrow> plugin_registry_item list \<Rightarrow> plugin_registry_item list" where
  "update_items pluginId f items = map (\<lambda>item. if has_id pluginId item then f item else item) items"

definition setRegistry :: "plugin_registry_item list \<Rightarrow> plugin_store \<Rightarrow> plugin_store" where
  "setRegistry items s = s\<lparr>pst_registry := items\<rparr>"

definition upsert_registry_list :: "plugin_registry_item \<Rightarrow> plugin_registry_item list \<Rightarrow> plugin_registry_item list" where
  "upsert_registry_list item items =
     (case find_index (\<lambda>current. registry_id current = registry_id item) items of
        None \<Rightarrow> items @ [item]
      | Some existingIndex \<Rightarrow> items[existingIndex := item])"

definition upsertRegistryItem :: "plugin_registry_item \<Rightarrow> plugin_store \<Rightarrow> plugin_store" where
  "upsertRegistryItem item s = s\<lparr>pst_registry := upsert_registry_list item (pst_registry s)\<rparr>"

definition updatePluginStatus ::
    "string \<Rightarrow> string \<Rightarrow> plugin_status \<Rightarrow> json option \<Rightarrow> plugin_store \<Rightarrow> plugin_store" where
  "updatePluginStatus now pluginId status lastError s =
     s\<lparr>pst_registry := update_items pluginId
         (\<lambda>item. item\<lparr>pr_status := status, pr_lastError := lastError, pr_updatedAt := now\<rparr>) (pst_registry s)\<rparr>"

text \<open>The same update for the failure of an item whose id is no string, found by \<open>===\<close>.\<close>

definition update_raw_status :: "string \<Rightarrow> json \<Rightarrow> plugin_store \<Rightarrow> plugin_store" where
  "update_raw_status now j s =
     s\<lparr>pst_registry := map (\<lambda>item. if registry_id item = Some j
         then item\<lparr>pr_status := PsFailed, pr_lastError := Some (JStr ''plugin descriptor not found''), pr_updatedAt := now\<rparr>
         else item) (pst_registry s)\<rparr>"

definition setDesiredEnabled :: "string \<Rightarrow> bool \<Rightarrow> plugin_store \<Rightarrow> plugin_store" where
  "setDesiredEnabled pluginId enabled s =
     s\<lparr>pst_desiredEnabled := (pst_desiredEnabled s)(pluginId \<mapsto> enabled)\<rparr>"

definition replacePluginCommands :: "string \<Rightarrow> string \<Rightarrow> plugin_command_dto list \<Rightarrow> plugin_store \<Rightarrow> plugin_store" where
  "replacePluginCommands now pluginId commands s =
     s\<lparr>pst_commands := filter (\<lambda>item. pc_pluginId item \<noteq> pluginId) (pst_commands s) @ commands,
       pst_registry := update_items pluginId (\<lambda>item. item\<lparr>pr_commands := commands, pr_updatedAt := now\<rparr>) (pst_registry s)\<rparr>"

definition replacePluginPanels :: "string \<Rightarrow> string \<Rightarrow> plugin_panel_dto list \<Rightarrow> plugin_store \<Rightarrow> plugin_store" where
  "replacePluginPanels now pluginId panels s =
     s\<lparr>pst_panels := filter (\<lambda>item. pp_pluginId item \<noteq> pluginId) (pst_panels s) @ panels,
       pst_registry := update_items pluginId (\<lambda>item. item\<lparr>pr_panels := panels, pr_updatedAt := now\<rparr>) (pst_registry s)\<rparr>"

definition upsertPluginPanel :: "string \<Rightarrow> plugin_panel_dto \<Rightarrow> plugin_store \<Rightarrow> plugin_store" where
  "upsertPluginPanel now panel s =
     (case find_index (\<lambda>item. pp_pluginId item = pp_pluginId panel \<and> pp_id item = pp_id panel) (pst_panels s) of
        None \<Rightarrow> s\<lparr>pst_panels := pst_panels s @ [panel]\<rparr>
      | Some existingIndex \<Rightarrow>
          s\<lparr>pst_panels := (pst_panels s)[existingIndex := panel],
            pst_registry := update_items (pp_pluginId panel)
              (\<lambda>item. item\<lparr>pr_panels := filter (\<lambda>currentPanel. pp_id currentPanel \<noteq> pp_id panel) (pr_panels item) @ [panel],
                          pr_updatedAt := now\<rparr>) (pst_registry s)\<rparr>)"

definition addNotice :: "string \<Rightarrow> string \<Rightarrow> string \<Rightarrow> string \<Rightarrow> plugin_store \<Rightarrow> plugin_store" where
  "addNotice now nid pluginId message s =
     s\<lparr>pst_notices := take 100 (\<lparr>pn_id = nid, pn_pluginId = pluginId, pn_message = message, pn_createdAt = now\<rparr>
        # pst_notices s)\<rparr>"

definition find_registry :: "string \<Rightarrow> plugin_store \<Rightarrow> plugin_registry_item option" where
  "find_registry pluginId s = find (has_id pluginId) (pst_registry s)"

definition clearPluginRuntimeState :: "string \<Rightarrow> plugin_store \<Rightarrow> plugin_store" where
  "clearPluginRuntimeState pluginId s =
     (let currentRegistryItem = find_registry pluginId s in
      s\<lparr>pst_commands := filter (\<lambda>item. pc_pluginId item \<noteq> pluginId) (pst_commands s),
        pst_panels := filter (\<lambda>item. pp_pluginId item \<noteq> pluginId) (pst_panels s),
        pst_registry := update_items pluginId
          (\<lambda>item. item\<lparr>pr_commands := [], pr_panels := [],
             pr_status := (case currentRegistryItem of Some c \<Rightarrow> pr_status c | None \<Rightarrow> pr_status item)\<rparr>)
          (pst_registry s)\<rparr>)"

text \<open>Only \<open>desiredEnabled\<close> survives a restart.\<close>

definition partialize_plugins :: "plugin_store \<Rightarrow> (string \<rightharpoonup> bool)" where
  "partialize_plugins s = pst_desiredEnabled s"

definition rehydrate_plugins :: "(string \<rightharpoonup> bool) \<Rightarrow> plugin_store" where
  "rehydrate_plugins d = initial_plugin_store\<lparr>pst_desiredEnabled := d\<rparr>"

subsection \<open>Lemmas\<close>

interpretation registry: keyed_table registry_id upsert_registry_list
proof -
  have eq: "upsert_registry_list = upsert_with registry_id (\<lambda>xs x. xs @ [x])"
    by (simp add: upsert_registry_list_def upsert_with_def fun_eq_iff)
  show "keyed_table registry_id upsert_registry_list"
    unfolding eq by (rule keyed_table_upsert) simp
qed

definition registry_ids :: "plugin_store \<Rightarrow> json option list" where
  "registry_ids s = map registry_id (pst_registry s)"

lemma update_items_ids:
  "(\<And>item. registry_id (f item) = registry_id item) \<Longrightarrow> map registry_id (update_items p f items) = map registry_id items"
  by (induction items) (auto simp: update_items_def)

lemma registry_id_frame [simp]:
  "registry_id (item\<lparr>pr_status := a\<rparr>) = registry_id item"
  "registry_id (item\<lparr>pr_lastError := b\<rparr>) = registry_id item"
  "registry_id (item\<lparr>pr_updatedAt := c\<rparr>) = registry_id item"
  "registry_id (item\<lparr>pr_commands := d\<rparr>) = registry_id item"
  "registry_id (item\<lparr>pr_panels := e\<rparr>) = registry_id item"
  "registry_id (item\<lparr>pr_grantedPermissions := g\<rparr>) = registry_id item"
  by (simp_all add: registry_id_def)

lemma registry_ids_simps [store_simps]:
  "registry_ids (updatePluginStatus now p st e s) = registry_ids s"
  "registry_ids (setDesiredEnabled p b s) = registry_ids s"
  "registry_ids (replacePluginCommands now p cs s) = registry_ids s"
  "registry_ids (replacePluginPanels now p ps s) = registry_ids s"
  "registry_ids (upsertPluginPanel now panel s) = registry_ids s"
  "registry_ids (addNotice now nid p m s) = registry_ids s"
  "registry_ids (clearPluginRuntimeState p s) = registry_ids s"
  by (simp_all add: registry_ids_def updatePluginStatus_def setDesiredEnabled_def replacePluginCommands_def
      replacePluginPanels_def upsertPluginPanel_def addNotice_def clearPluginRuntimeState_def Let_def
      update_items_ids split: option.splits)

text \<open>Which plugins own commands and panels, and how long the notice list is.\<close>

definition contributors :: "plugin_store \<Rightarrow> string set" where
  "contributors s = pc_pluginId ` set (pst_commands s) \<union> pp_pluginId ` set (pst_panels s)"

lemma contributors_simps [store_simps]:
  "contributors (setRegistry items s) = contributors s"
  "contributors (upsertRegistryItem item s) = contributors s"
  "contributors (updatePluginStatus now p st e s) = contributors s"
  "contributors (setDesiredEnabled p b s) = contributors s"
  "contributors (addNotice now nid p m s) = contributors s"
  "contributors (clearPluginRuntimeState p s) = contributors s - {p}"
  by (auto simp: contributors_def setRegistry_def upsertRegistryItem_def updatePluginStatus_def
      setDesiredEnabled_def addNotice_def clearPluginRuntimeState_def Let_def)

lemma contributors_replace:
  "\<forall>c \<in> set cs. pc_pluginId c = p \<Longrightarrow> contributors (replacePluginCommands now p cs s) \<subseteq> insert p (contributors s)"
  "\<forall>c \<in> set ps. pp_pluginId c = p \<Longrightarrow> contributors (replacePluginPanels now p ps s) \<subseteq> insert p (contributors s)"
  by (auto simp: contributors_def replacePluginCommands_def replacePluginPanels_def)

lemma contributors_upsertPanel: "contributors (upsertPluginPanel now panel s) \<subseteq> insert (pp_pluginId panel) (contributors s)"
  by (auto simp: contributors_def upsertPluginPanel_def split: option.splits dest!: set_update_subset_insert [THEN subsetD])

lemma desired_simps [store_simps]:
  "pst_desiredEnabled (setRegistry items s) = pst_desiredEnabled s"
  "pst_desiredEnabled (upsertRegistryItem item s) = pst_desiredEnabled s"
  "pst_desiredEnabled (updatePluginStatus now p st e s) = pst_desiredEnabled s"
  "pst_desiredEnabled (setDesiredEnabled p b s) = (pst_desiredEnabled s)(p \<mapsto> b)"
  "pst_desiredEnabled (replacePluginCommands now p cs s) = pst_desiredEnabled s"
  "pst_desiredEnabled (replacePluginPanels now p ps s) = pst_desiredEnabled s"
  "pst_desiredEnabled (upsertPluginPanel now panel s) = pst_desiredEnabled s"
  "pst_desiredEnabled (addNotice now nid p m s) = pst_desiredEnabled s"
  "pst_desiredEnabled (clearPluginRuntimeState p s) = pst_desiredEnabled s"
  by (simp_all add: setRegistry_def upsertRegistryItem_def updatePluginStatus_def setDesiredEnabled_def
      replacePluginCommands_def replacePluginPanels_def upsertPluginPanel_def addNotice_def
      clearPluginRuntimeState_def Let_def split: option.splits)

definition status_of :: "string \<Rightarrow> plugin_store \<Rightarrow> plugin_status option" where
  "status_of p s = map_option pr_status (find_registry p s)"

lemma find_update_items:
  assumes "\<And>item. registry_id (f item) = registry_id item"
  shows "find (has_id q) (update_items p f items) =
    map_option (\<lambda>item. if q = p then f item else item) (find (has_id q) items)"
  by (induction items) (auto simp: update_items_def has_id_def assms)

lemma find_registry_update [store_simps]:
  "find_registry q (updatePluginStatus now p st e s) = map_option (\<lambda>item. if q = p
     then item\<lparr>pr_status := st, pr_lastError := e, pr_updatedAt := now\<rparr> else item) (find_registry q s)"
  "find_registry q (addNotice now nid p m s) = find_registry q s"
  "find_registry q (setDesiredEnabled p b s) = find_registry q s"
  by (simp_all add: find_registry_def updatePluginStatus_def addNotice_def setDesiredEnabled_def find_update_items)

lemma find_registry_clear [store_simps]:
  "find_registry q (clearPluginRuntimeState p s) = map_option (\<lambda>item. if q = p
     then item\<lparr>pr_commands := [], pr_panels := []\<rparr> else item) (find_registry q s)"
  by (auto simp: find_registry_def clearPluginRuntimeState_def Let_def find_update_items
      split: option.splits intro!: option.map_cong)

lemma status_of_update [store_simps]:
  "status_of q (updatePluginStatus now p st e s) =
     (if q = p then map_option (\<lambda>_. st) (find_registry q s) else status_of q s)"
  "status_of q (addNotice now nid p m s) = status_of q s"
  "status_of q (setDesiredEnabled p b s) = status_of q s"
  "status_of q (clearPluginRuntimeState p s) = status_of q s"
proof -
  show "status_of q (updatePluginStatus now p st e s) =
     (if q = p then map_option (\<lambda>_. st) (find_registry q s) else status_of q s)"
    by (cases "find_registry q s") (auto simp: status_of_def find_registry_update)
  show "status_of q (addNotice now nid p m s) = status_of q s"
    by (simp add: status_of_def find_registry_update)
  show "status_of q (setDesiredEnabled p b s) = status_of q s"
    by (simp add: status_of_def find_registry_update)
  show "status_of q (clearPluginRuntimeState p s) = status_of q s"
    by (cases "find_registry q s") (simp_all add: status_of_def find_registry_clear)
qed

end
