(* ===== verification/Plugin_Bridge.thy ===== *)
theory Plugin_Bridge
  imports Plugin_Manifest Plugin_Store Messaging_Store
begin

text \<open>
  The capability bridge of \<open>services/plugins/runtime.ts\<close>: the state of the plugin host, the
  instances of running plugins, and \<open>processBridgeRequest\<close> with every method. Requests are JSON
  values from an untrusted iframe. Instances are mutable objects of the source, shared between the
  active map and pending \<open>enable\<close> calls: they live in a heap, named by the number of their
  iframe. \<open>plugin_env\<close> holds what the host reads from its surroundings: the clock, the stream of
  \<open>randomID\<close>, \<open>window.location.origin\<close>, whether \<open>localStorage\<close> calls succeed, and the text the
  engine prints for a property inherited from \<open>Object.prototype\<close>.
\<close>

subsection \<open>State\<close>

record plugin_instance =
  pi_manifest :: plugin_manifest
  pi_bootstrapToken :: string
  pi_runtimeToken :: string
  pi_grantedPermissions :: "string list"
  pi_subscriptions :: "string list"
  pi_commands :: "plugin_command_dto list"
  pi_panels :: "plugin_panel_dto list"
  pi_ready :: bool
  pi_initialized :: bool
  pi_attached :: bool

record plugin_descriptor =
  pd_manifest :: plugin_manifest
  pd_source :: plugin_source
  pd_sourceRef :: string
  pd_entrypointCode :: string

datatype host_message =
    HostInit string string "string list"
  | HostBridgeResponse string plugin_bridge_response
  | HostEvent string string json string
  | HostCommandExecute string string string string

datatype boot_phase = AwaitReady | AwaitInitialized

record boot_task =
  bt_plugin :: string
  bt_object :: nat
  bt_manifest :: plugin_manifest
  bt_phase :: boot_phase
  bt_then :: "json list"

record plugin_host =
  ph_started :: bool
  ph_descriptors :: "(string \<times> plugin_descriptor) list"
  ph_active :: "(string \<times> nat) list"
  ph_objects :: "nat \<rightharpoonup> plugin_instance"
  ph_next :: nat
  ph_tasks :: "boot_task list"
  ph_listening :: bool
  ph_transportSnapshot :: string
  ph_conversationSnapshot :: string
  ph_visibleSnapshot :: string
  ph_store :: plugin_store
  ph_local :: "(string \<times> string) list"
  ph_messaging :: messaging_store
  ph_posts :: "(nat \<times> host_message) list"
  ph_random :: nat

record plugin_env =
  pe_now :: string
  pe_random :: "nat \<Rightarrow> string"
  pe_origin :: string
  pe_storage_ok :: bool
  pe_proto_text :: "string \<Rightarrow> string"

definition MAX_BRIDGE_PAYLOAD_BYTES :: nat where "MAX_BRIDGE_PAYLOAD_BYTES = 64 * 1024"
definition MAX_REQUEST_ID_LENGTH :: nat where "MAX_REQUEST_ID_LENGTH = 128"
definition MAX_ID_LENGTH :: nat where "MAX_ID_LENGTH = 96"
definition MAX_STORAGE_VALUE_BYTES :: nat where "MAX_STORAGE_VALUE_BYTES = 20000"
definition MAX_PANEL_CONTENT_LENGTH :: nat where "MAX_PANEL_CONTENT_LENGTH = 5000"

definition word_char :: "char \<Rightarrow> bool" where
  "word_char c \<longleftrightarrow> is_lower c \<or> is_upper c \<or> is_digit c \<or> c = CHR ''.'' \<or> c = CHR ''_'' \<or> c = CHR ''-''"

definition storageKeyPattern :: "string \<Rightarrow> bool" where
  "storageKeyPattern s \<longleftrightarrow> 1 \<le> length s \<and> length s \<le> 128 \<and> (\<forall>c \<in> set s. word_char c)"

definition runtimeIDPattern :: "string \<Rightarrow> bool" where
  "runtimeIDPattern s \<longleftrightarrow> 1 \<le> length s \<and> length s \<le> 96 \<and> (\<forall>c \<in> set s. word_char c)"

definition set_object :: "nat \<Rightarrow> (plugin_instance \<Rightarrow> plugin_instance) \<Rightarrow> plugin_host \<Rightarrow> plugin_host" where
  "set_object n f h = h\<lparr>ph_objects := (ph_objects h)(n := map_option f (ph_objects h n))\<rparr>"

definition set_store :: "(plugin_store \<Rightarrow> plugin_store) \<Rightarrow> plugin_host \<Rightarrow> plugin_host" where
  "set_store f h = h\<lparr>ph_store := f (ph_store h)\<rparr>"

definition fresh_id :: "plugin_env \<Rightarrow> plugin_host \<Rightarrow> string \<times> plugin_host" where
  "fresh_id env h = (pe_random env (ph_random h), h\<lparr>ph_random := Suc (ph_random h)\<rparr>)"

definition add_notice :: "plugin_env \<Rightarrow> string \<Rightarrow> string \<Rightarrow> plugin_host \<Rightarrow> plugin_host" where
  "add_notice env pluginId message h =
     (case fresh_id env h of (nid, h') \<Rightarrow> set_store (addNotice (pe_now env) nid pluginId message) h')"

definition pluginStorageKey :: "string \<Rightarrow> string \<Rightarrow> string" where
  "pluginStorageKey pluginId key = ''plugin-local:'' @ pluginId @ '':'' @ key"

definition syncPluginRuntimeCollections :: "plugin_env \<Rightarrow> string \<Rightarrow> plugin_host \<Rightarrow> plugin_host" where
  "syncPluginRuntimeCollections env pluginId h =
     (case Option.bind (map_get (ph_active h) pluginId) (ph_objects h) of
        None \<Rightarrow> h
      | Some inst \<Rightarrow>
          set_store (replacePluginPanels (pe_now env) pluginId (pi_panels inst))
            (set_store (replacePluginCommands (pe_now env) pluginId (pi_commands inst)) h))"

subsection \<open>Projections handed to plugins\<close>

text \<open>\<open>String(v)\<close> of a property that may be absent, and the trimmed string parameters.\<close>

definition str_of :: "json option \<Rightarrow> string" where
  "str_of v = (case v of None \<Rightarrow> ''undefined'' | Some j \<Rightarrow> to_str j)"

definition trimmed_param :: "json \<Rightarrow> string \<Rightarrow> string" where
  "trimmed_param params k = (case as_str (json_get params k) of Some s \<Rightarrow> js_trim s | None \<Rightarrow> [])"

definition raw_param :: "json \<Rightarrow> string \<Rightarrow> string" where
  "raw_param params k = (case as_str (json_get params k) of Some s \<Rightarrow> s | None \<Rightarrow> [])"

fun conversation_type_str :: "conversation_type \<Rightarrow> string" where
  "conversation_type_str CDirect = ''direct''"
| "conversation_type_str CGroup = ''group''"

fun delivery_state_str :: "delivery_state \<Rightarrow> string" where
  "delivery_state_str DPending = ''pending''"
| "delivery_state_str DQueued = ''queued''"
| "delivery_state_str DSent = ''sent''"
| "delivery_state_str DDelivered = ''delivered''"
| "delivery_state_str DFailed = ''failed''"
| "delivery_state_str DExpired = ''expired''"

fun lifecycle_str :: "lifecycle_state \<Rightarrow> string" where
  "lifecycle_str LDraft = ''draft''"
| "lifecycle_str LEncrypting = ''encrypting''"
| "lifecycle_str LQueued = ''queued''"
| "lifecycle_str LSending = ''sending''"
| "lifecycle_str LSent = ''sent''"
| "lifecycle_str LDelivered = ''delivered''"
| "lifecycle_str LFailed = ''failed''"
| "lifecycle_str LExpired = ''expired''"

definition active_conversation :: "messaging_store \<Rightarrow> conversation_dto option" where
  "active_conversation s = find (\<lambda>item. Some (cv_id item) = st_activeConversationId s) (st_conversations s)"

definition conversation_summary :: "messaging_store \<Rightarrow> json" where
  "conversation_summary s = (case active_conversation s of
      None \<Rightarrow> JNull
    | Some c \<Rightarrow> JObj [(''id'', JStr (cv_id c)), (''title'', jopt (cv_title c)),
        (''type'', JStr (conversation_type_str (cv_type c))),
        (''memberCount'', JNum (int (length (cv_members c)))),
        (''lastServerSequence'', JNum (cv_lastServerSequence c)), (''updatedAt'', JStr (cv_updatedAt c))])"

text \<open>The property \<open>f\<close> copied from \<open>v\<close>, when it is there.\<close>

definition field_of :: "json \<Rightarrow> string \<Rightarrow> (string \<times> json) list" where
  "field_of v f = (case json_get v f of None \<Rightarrow> [] | Some x \<Rightarrow> [(f, x)])"

text \<open>\<open>None\<close> is the \<open>TypeError\<close> of a property of \<open>null\<close>, or of calling \<open>map\<close> on what is no array.\<close>

definition sanitized_attachment :: "json \<Rightarrow> json option" where
  "sanitized_attachment a = (if a = JNull then None else Some (JObj (field_of a ''attachmentId''
     @ field_of a ''fileName'' @ field_of a ''mimeType'' @ field_of a ''sizeBytes'')))"

definition plain_text :: "json option \<Rightarrow> json" where
  "plain_text p = (case p of None \<Rightarrow> JNull | Some v \<Rightarrow> (case json_get v ''text'' of None \<Rightarrow> JNull | Some x \<Rightarrow> x))"

definition plain_attachments :: "json option \<Rightarrow> json list option" where
  "plain_attachments p = (case p of
      None \<Rightarrow> Some []
    | Some v \<Rightarrow> (case json_get v ''attachments'' of
        None \<Rightarrow> Some []
      | Some x \<Rightarrow> (case x of JNull \<Rightarrow> Some [] | JArr xs \<Rightarrow> all_some (map sanitized_attachment xs) | _ \<Rightarrow> None)))"

definition sanitized_message :: "local_message \<Rightarrow> json option" where
  "sanitized_message m = (let e = msg_envelope m in map_option (\<lambda>attachments. JObj ([
     (''id'', JStr (env_id e)), (''conversationId'', JStr (env_conversationId e)),
     (''senderAccountId'', JStr (env_senderAccountId e)), (''senderDeviceId'', JStr (env_senderDeviceId e)),
     (''clientMessageId'', JStr (env_clientMessageId e)), (''createdAt'', JStr (env_createdAt e)),
     (''expiresAt'', jopt (env_expiresAt e)), (''serverSequence'', JNum (env_serverSequence e)),
     (''deliveryState'', JStr (delivery_state_str (msg_deliveryState m)))]
     @ (case lm_lifecycle m of Some l \<Rightarrow> [(''lifecycle'', JStr (lifecycle_str l))] | None \<Rightarrow> [])
     @ [(''expired'', JBool (lm_expired m = Some True)), (''text'', plain_text (lm_plaintext m)),
        (''attachments'', JArr attachments)])) (plain_attachments (lm_plaintext m)))"

definition visible_messages :: "messaging_store \<Rightarrow> json option" where
  "visible_messages s = (case st_activeConversationId s of
      None \<Rightarrow> Some (JArr [])
    | Some c \<Rightarrow> if c = [] then Some (JArr []) else map_option JArr (all_some (map sanitized_message (current_messages s c))))"

text \<open>The loop over \<open>localStorage.key(index)\<close>, which stops once 512 keys are collected.\<close>

fun list_keys :: "string \<Rightarrow> string list \<Rightarrow> string list \<Rightarrow> string list" where
  "list_keys pre keys [] = keys"
| "list_keys pre keys (fullKey # rest) =
     (if fullKey = [] \<or> \<not> startsWith fullKey pre then list_keys pre keys rest
      else let key = drop (length pre) fullKey in
        if \<not> storageKeyPattern key then list_keys pre keys rest
        else let keys' = keys @ [key] in if length keys' \<ge> 512 then keys' else list_keys pre keys' rest)"

subsection \<open>The bridge methods\<close>

definition flag_result :: "string \<Rightarrow> json" where
  "flag_result f = JObj [(f, JBool True)]"

datatype method_result = Ok json | Violation string | Denied string | Threw

definition m_registerCommand :: "plugin_env \<Rightarrow> nat \<Rightarrow> string \<Rightarrow> json \<Rightarrow> plugin_host \<Rightarrow> method_result \<times> plugin_host" where
  "m_registerCommand env n pluginId params h =
     (let cid = trimmed_param params ''id''; title = trimmed_param params ''title'' in
      if cid = [] \<or> title = [] \<or> length cid > MAX_ID_LENGTH \<or> \<not> runtimeIDPattern cid
      then (Violation ''invalid command registration payload'', h)
      else let command = \<lparr>pc_pluginId = pluginId, pc_id = cid, pc_title = title\<rparr>;
               h1 = set_object n (\<lambda>i. i\<lparr>pi_commands := filter (\<lambda>item. pc_id item \<noteq> cid) (pi_commands i) @ [command]\<rparr>) h
           in (Ok (flag_result ''registered''), syncPluginRuntimeCollections env pluginId h1))"

definition m_registerPanel :: "plugin_env \<Rightarrow> nat \<Rightarrow> string \<Rightarrow> json \<Rightarrow> plugin_host \<Rightarrow> method_result \<times> plugin_host" where
  "m_registerPanel env n pluginId params h =
     (let pid = trimmed_param params ''id''; title = trimmed_param params ''title'' in
      if pid = [] \<or> title = [] \<or> length pid > MAX_ID_LENGTH \<or> \<not> runtimeIDPattern pid
      then (Violation ''invalid panel registration payload'', h)
      else let panel = \<lparr>pp_pluginId = pluginId, pp_id = pid, pp_title = title, pp_content = []\<rparr>;
               h1 = set_object n (\<lambda>i. i\<lparr>pi_panels := filter (\<lambda>item. pp_id item \<noteq> pid) (pi_panels i) @ [panel]\<rparr>) h
           in (Ok (flag_result ''registered''), syncPluginRuntimeCollections env pluginId h1))"

definition m_setPanelContent :: "plugin_env \<Rightarrow> nat \<Rightarrow> plugin_instance \<Rightarrow> json \<Rightarrow> plugin_host \<Rightarrow> method_result \<times> plugin_host" where
  "m_setPanelContent env n inst params h =
     (let pid = trimmed_param params ''id''; content = raw_param params ''content'' in
      if pid = [] \<or> length pid > MAX_ID_LENGTH \<or> \<not> runtimeIDPattern pid then (Violation ''panel id is required'', h)
      else case find (\<lambda>item. pp_id item = pid) (pi_panels inst) of
        None \<Rightarrow> (Violation ''panel not registered'', h)
      | Some existing \<Rightarrow>
          let normalizedContent = take MAX_PANEL_CONTENT_LENGTH content in
          if utf8_size normalizedContent > MAX_BRIDGE_PAYLOAD_BYTES then (Violation ''panel content is too large'', h)
          else let updatedPanel = existing\<lparr>pp_content := normalizedContent\<rparr>;
                   h1 = set_object n (\<lambda>i. i\<lparr>pi_panels := filter (\<lambda>item. pp_id item \<noteq> pid) (pi_panels i) @ [updatedPanel]\<rparr>) h
               in (Ok (flag_result ''updated''), set_store (upsertPluginPanel (pe_now env) updatedPanel) h1))"

definition m_storageGet :: "plugin_env \<Rightarrow> string \<Rightarrow> json \<Rightarrow> plugin_host \<Rightarrow> method_result \<times> plugin_host" where
  "m_storageGet env pluginId params h =
     (let key = trimmed_param params ''key'' in
      if key = [] \<or> \<not> storageKeyPattern key then (Violation ''storage key is required'', h)
      else if \<not> pe_storage_ok env then (Threw, h)
      else (Ok (JObj [(''value'', jopt (map_get (ph_local h) (pluginStorageKey pluginId key)))]), h))"

definition m_storageSet :: "plugin_env \<Rightarrow> string \<Rightarrow> json \<Rightarrow> plugin_host \<Rightarrow> method_result \<times> plugin_host" where
  "m_storageSet env pluginId params h =
     (let key = trimmed_param params ''key'';
          val = (if nullish (json_get params ''value'') then [] else str_of (json_get params ''value'')) in
      if key = [] \<or> \<not> storageKeyPattern key then (Violation ''storage key is required'', h)
      else if \<not> pe_storage_ok env then (Threw, h)
      else (Ok (flag_result ''stored''),
            h\<lparr>ph_local := map_set (pluginStorageKey pluginId key) (take MAX_STORAGE_VALUE_BYTES val) (ph_local h)\<rparr>))"

definition m_storageDelete :: "plugin_env \<Rightarrow> string \<Rightarrow> json \<Rightarrow> plugin_host \<Rightarrow> method_result \<times> plugin_host" where
  "m_storageDelete env pluginId params h =
     (let key = trimmed_param params ''key'' in
      if key = [] \<or> \<not> storageKeyPattern key then (Violation ''storage key is required'', h)
      else if \<not> pe_storage_ok env then (Threw, h)
      else (Ok (flag_result ''deleted''), h\<lparr>ph_local := map_remove (pluginStorageKey pluginId key) (ph_local h)\<rparr>))"

definition m_storageList :: "plugin_env \<Rightarrow> string \<Rightarrow> plugin_host \<Rightarrow> method_result \<times> plugin_host" where
  "m_storageList env pluginId h =
     (if \<not> pe_storage_ok env then (Threw, h)
      else (Ok (JObj [(''keys'', JArr (map JStr (list_keys (''plugin-local:'' @ pluginId @ '':'') [] (map fst (ph_local h)))))]), h))"

definition m_subscribe :: "nat \<Rightarrow> plugin_instance \<Rightarrow> json \<Rightarrow> plugin_host \<Rightarrow> method_result \<times> plugin_host" where
  "m_subscribe n inst params h =
     (let eventType = raw_param params ''eventType'' in
      if eventType \<notin> set allowedHooks then (Violation ''unsupported event type'', h)
      else if eventType \<notin> set (pm_declaredHooks (pi_manifest inst))
        then (Denied (''event '' @ [CHR 0x27] @ eventType @ [CHR 0x27] @ '' is not declared in manifest''), h)
      else (Ok (flag_result ''subscribed''), set_object n (\<lambda>i. i\<lparr>pi_subscriptions := List.insert eventType (pi_subscriptions i)\<rparr>) h))"

definition m_unsubscribe :: "nat \<Rightarrow> json \<Rightarrow> plugin_host \<Rightarrow> method_result \<times> plugin_host" where
  "m_unsubscribe n params h =
     (let eventType = raw_param params ''eventType'' in
      if eventType \<notin> set allowedHooks then (Violation ''unsupported event type'', h)
      else (Ok (flag_result ''unsubscribed''), set_object n (\<lambda>i. i\<lparr>pi_subscriptions := removeAll eventType (pi_subscriptions i)\<rparr>) h))"

definition m_showLocal :: "plugin_env \<Rightarrow> string \<Rightarrow> json \<Rightarrow> plugin_host \<Rightarrow> method_result \<times> plugin_host" where
  "m_showLocal env pluginId params h =
     (let message = trimmed_param params ''message'' in
      if message = [] then (Violation ''notification message is required'', h)
      else (Ok (flag_result ''shown''), add_notice env pluginId (take 280 message) h))"

text \<open>The \<open>switch (request.method)\<close>, by strict equality with a string.\<close>

definition run_method :: "plugin_env \<Rightarrow> nat \<Rightarrow> plugin_instance \<Rightarrow> string \<Rightarrow> string option \<Rightarrow> json
    \<Rightarrow> plugin_host \<Rightarrow> method_result \<times> plugin_host" where
  "run_method env n inst pluginId method params h =
     (if method = Some ''registerCommand'' then m_registerCommand env n pluginId params h
      else if method = Some ''registerPanel'' then m_registerPanel env n pluginId params h
      else if method = Some ''setPanelContent'' then m_setPanelContent env n inst params h
      else if method = Some ''pluginStorage.get'' then m_storageGet env pluginId params h
      else if method = Some ''pluginStorage.set'' then m_storageSet env pluginId params h
      else if method = Some ''pluginStorage.delete'' then m_storageDelete env pluginId params h
      else if method = Some ''pluginStorage.list'' then m_storageList env pluginId h
      else if method = Some ''messages.getActiveConversationSummary'' then (Ok (conversation_summary (ph_messaging h)), h)
      else if method = Some ''messages.getVisibleMessagesSanitized'' then
        (case visible_messages (ph_messaging h) of Some r \<Rightarrow> Ok r | None \<Rightarrow> Threw, h)
      else if method = Some ''events.subscribe'' then m_subscribe n inst params h
      else if method = Some ''events.unsubscribe'' then m_unsubscribe n params h
      else if method = Some ''notifications.showLocal'' then m_showLocal env pluginId params h
      else (Violation ''unsupported bridge method'', h))"

fun respond :: "string \<Rightarrow> json option \<Rightarrow> method_result \<Rightarrow> plugin_bridge_response" where
  "respond p rq (Ok r) = BridgeOk p rq r"
| "respond p rq (Violation m) = BridgeError p rq BeBridgeViolation m"
| "respond p rq (Denied m) = BridgeError p rq BePermissionDenied m"
| "respond p rq Threw = BridgeError p rq BeStorageUnavailable ''bridge request failed''"

definition valid_request_id :: "json option \<Rightarrow> bool" where
  "valid_request_id rid = (case as_str rid of
      None \<Rightarrow> False | Some s \<Rightarrow> length s \<noteq> 0 \<and> length s \<le> MAX_REQUEST_ID_LENGTH)"

definition processBridgeRequest :: "plugin_env \<Rightarrow> nat \<Rightarrow> plugin_instance \<Rightarrow> json \<Rightarrow> plugin_host
    \<Rightarrow> plugin_bridge_response \<times> plugin_host" where
  "processBridgeRequest env n inst request h =
     (let pluginId = pm_id (pi_manifest inst);
          rid = json_get request ''requestId'';
          bridgeViolation = (\<lambda>m. (BridgeError pluginId rid BeBridgeViolation m, h));
          methodName = str_of (json_get request ''method'');
          requiredCapability = map_of pluginCapabilityByMethod methodName
      in if str_of (json_get request ''pluginId'') \<noteq> pluginId then bridgeViolation ''plugin id mismatch''
         else if \<not> valid_request_id rid then bridgeViolation ''invalid request id''
         else case stringify request of
           None \<Rightarrow> bridgeViolation ''invalid bridge payload''
         | Some encoded \<Rightarrow>
             if utf8_size encoded > MAX_BRIDGE_PAYLOAD_BYTES then bridgeViolation ''bridge payload too large''
             else case requiredCapability of
               None \<Rightarrow> (BridgeError pluginId rid BePermissionDenied (''missing capability '' @ [CHR 0x27]
                   @ (if methodName \<in> set object_prototype_keys then pe_proto_text env methodName else ''unknown'') @ [CHR 0x27]), h)
             | Some capability \<Rightarrow>
                 if capability \<notin> set (pi_grantedPermissions inst)
                 then (BridgeError pluginId rid BePermissionDenied (''missing capability '' @ [CHR 0x27] @ capability @ [CHR 0x27]), h)
                 else let params = (if nullish (json_get request ''params'') then JObj [] else the (json_get request ''params''));
                          (r, h') = run_method env n inst pluginId (as_str (json_get request ''method'')) params h
                      in (respond pluginId rid r, h'))"

subsection \<open>Frames\<close>

lemma set_object_simps [store_simps]:
  "ph_active (set_object n f h) = ph_active h" "ph_local (set_object n f h) = ph_local h"
  "ph_store (set_object n f h) = ph_store h" "ph_descriptors (set_object n f h) = ph_descriptors h"
  "ph_started (set_object n f h) = ph_started h" "ph_tasks (set_object n f h) = ph_tasks h"
  "ph_next (set_object n f h) = ph_next h" "ph_posts (set_object n f h) = ph_posts h"
  "ph_messaging (set_object n f h) = ph_messaging h" "ph_listening (set_object n f h) = ph_listening h"
  "ph_objects (set_object n f h) m = (if m = n then map_option f (ph_objects h n) else ph_objects h m)"
  by (simp_all add: set_object_def)

lemma set_store_simps [store_simps]:
  "ph_active (set_store g h) = ph_active h" "ph_local (set_store g h) = ph_local h"
  "ph_store (set_store g h) = g (ph_store h)" "ph_descriptors (set_store g h) = ph_descriptors h"
  "ph_started (set_store g h) = ph_started h" "ph_tasks (set_store g h) = ph_tasks h"
  "ph_next (set_store g h) = ph_next h" "ph_posts (set_store g h) = ph_posts h"
  "ph_messaging (set_store g h) = ph_messaging h" "ph_listening (set_store g h) = ph_listening h"
  "ph_objects (set_store g h) = ph_objects h"
  by (simp_all add: set_store_def)

lemma add_notice_simps [store_simps]:
  "ph_active (add_notice env p m h) = ph_active h" "ph_local (add_notice env p m h) = ph_local h"
  "ph_store (add_notice env p m h) = addNotice (pe_now env) (pe_random env (ph_random h)) p m (ph_store h)"
  "ph_descriptors (add_notice env p m h) = ph_descriptors h"
  "ph_started (add_notice env p m h) = ph_started h" "ph_tasks (add_notice env p m h) = ph_tasks h"
  "ph_next (add_notice env p m h) = ph_next h" "ph_posts (add_notice env p m h) = ph_posts h"
  "ph_messaging (add_notice env p m h) = ph_messaging h" "ph_listening (add_notice env p m h) = ph_listening h"
  "ph_objects (add_notice env p m h) = ph_objects h"
  by (simp_all add: add_notice_def fresh_id_def set_store_def)

lemma sync_simps [store_simps]:
  "ph_active (syncPluginRuntimeCollections env p h) = ph_active h"
  "ph_local (syncPluginRuntimeCollections env p h) = ph_local h"
  "ph_descriptors (syncPluginRuntimeCollections env p h) = ph_descriptors h"
  "ph_started (syncPluginRuntimeCollections env p h) = ph_started h"
  "ph_tasks (syncPluginRuntimeCollections env p h) = ph_tasks h"
  "ph_next (syncPluginRuntimeCollections env p h) = ph_next h"
  "ph_posts (syncPluginRuntimeCollections env p h) = ph_posts h"
  "ph_messaging (syncPluginRuntimeCollections env p h) = ph_messaging h"
  "ph_listening (syncPluginRuntimeCollections env p h) = ph_listening h"
  "ph_objects (syncPluginRuntimeCollections env p h) = ph_objects h"
  by (simp_all add: syncPluginRuntimeCollections_def store_simps split: option.splits)

lemmas method_defs = m_registerCommand_def m_registerPanel_def m_setPanelContent_def m_storageGet_def
  m_storageSet_def m_storageDelete_def m_storageList_def m_subscribe_def m_unsubscribe_def m_showLocal_def

text \<open>Everything a bridge request leaves alone.\<close>

definition bridge_frame :: "nat \<Rightarrow> plugin_host \<Rightarrow> plugin_host \<Rightarrow> bool" where
  "bridge_frame n h h' \<longleftrightarrow> ph_active h' = ph_active h \<and> ph_descriptors h' = ph_descriptors h
     \<and> ph_started h' = ph_started h \<and> ph_tasks h' = ph_tasks h \<and> ph_next h' = ph_next h
     \<and> ph_posts h' = ph_posts h \<and> ph_messaging h' = ph_messaging h \<and> ph_listening h' = ph_listening h
     \<and> (\<forall>m. m \<noteq> n \<longrightarrow> ph_objects h' m = ph_objects h m)"

lemma bridge_frame_refl [simp]: "bridge_frame n h h"
  by (simp add: bridge_frame_def)

lemma method_frames:
  "bridge_frame n h (snd (m_registerCommand env n p params h))"
  "bridge_frame n h (snd (m_registerPanel env n p params h))"
  "bridge_frame n h (snd (m_setPanelContent env n inst params h))"
  "bridge_frame n h (snd (m_storageGet env p params h))"
  "bridge_frame n h (snd (m_storageSet env p params h))"
  "bridge_frame n h (snd (m_storageDelete env p params h))"
  "bridge_frame n h (snd (m_storageList env p h))"
  "bridge_frame n h (snd (m_subscribe n inst params h))"
  "bridge_frame n h (snd (m_unsubscribe n params h))"
  "bridge_frame n h (snd (m_showLocal env p params h))"
  by (simp_all add: method_defs Let_def bridge_frame_def store_simps split: option.split)

lemma run_method_frame: "bridge_frame n h (snd (run_method env n inst p m params h))"
  by (simp add: run_method_def method_frames)

lemma processBridgeRequest_cases:
  "snd (processBridgeRequest env n inst rq h) = h
   \<or> (\<exists>cap params. map_of pluginCapabilityByMethod (str_of (json_get rq ''method'')) = Some cap
        \<and> cap \<in> set (pi_grantedPermissions inst)
        \<and> snd (processBridgeRequest env n inst rq h)
            = snd (run_method env n inst (pm_id (pi_manifest inst)) (as_str (json_get rq ''method'')) params h))"
  by (simp add: processBridgeRequest_def Let_def split_def split: option.split) blast

lemma processBridgeRequest_frame: "bridge_frame n h (snd (processBridgeRequest env n inst rq h))"
  using processBridgeRequest_cases [of env n inst rq h] run_method_frame by fastforce

subsection \<open>Plugin-local storage\<close>

definition storage_prefix :: "string \<Rightarrow> string" where
  "storage_prefix p = ''plugin-local:'' @ p @ '':''"

text \<open>The entries of \<open>localStorage\<close> that belong to one plugin, in their order.\<close>

definition plugin_view :: "string \<Rightarrow> (string \<times> string) list \<Rightarrow> (string \<times> string) list" where
  "plugin_view p m = filter (\<lambda>(k, _). startsWith k (storage_prefix p)) m"

lemma pluginStorageKey_prefix: "pluginStorageKey p k = storage_prefix p @ k"
  by (simp add: pluginStorageKey_def storage_prefix_def)

lemma colon_split:
  assumes "CHR '':'' \<notin> set p" "CHR '':'' \<notin> set q" "p @ CHR '':'' # x = q @ CHR '':'' # y"
  shows "p = q"
proof -
  have t: "takeWhile (\<lambda>c. c \<noteq> CHR '':'') (a @ CHR '':'' # b) = a" if "CHR '':'' \<notin> set a" for a b
    using that by (induction a) auto
  show ?thesis using t [OF assms(1), of x] t [OF assms(2), of y] assms(3) by metis
qed

lemma storage_prefix_disjoint:
  assumes "CHR '':'' \<notin> set p" "CHR '':'' \<notin> set q" "p \<noteq> q"
  shows "\<not> startsWith (storage_prefix p @ k) (storage_prefix q)"
proof
  assume "startsWith (storage_prefix p @ k) (storage_prefix q)"
  then obtain t where "storage_prefix p @ k = storage_prefix q @ t" by (auto simp: startsWith_iff)
  then have "p @ CHR '':'' # k = q @ CHR '':'' # t" by (simp add: storage_prefix_def)
  then show False using assms colon_split by blast
qed

lemma plugin_view_set:
  "\<not> startsWith k (storage_prefix q) \<Longrightarrow> plugin_view q (map_set k v m) = plugin_view q m"
  by (induction m) (auto simp: plugin_view_def)

lemma plugin_view_remove:
  "\<not> startsWith k (storage_prefix q) \<Longrightarrow> plugin_view q (map_remove k m) = plugin_view q m"
  by (induction m) (auto simp: plugin_view_def map_remove_def)

lemma plugin_view_set_own:
  "startsWith k (storage_prefix q) \<Longrightarrow> plugin_view q (map_set k v m) = map_set k v (plugin_view q m)"
  by (induction m) (auto simp: plugin_view_def)

lemma plugin_view_remove_own:
  "plugin_view q (map_remove k m) = map_remove k (plugin_view q m)"
  by (induction m) (auto simp: plugin_view_def map_remove_def)

lemma plugin_view_get: "map_get m (storage_prefix q @ k) = map_get (plugin_view q m) (storage_prefix q @ k)"
  by (induction m) (auto simp: plugin_view_def)

lemma list_keys_filter: "list_keys pre acc ks = list_keys pre acc (filter (\<lambda>k. startsWith k pre) ks)"
  by (induction pre acc ks rule: list_keys.induct) (auto simp: Let_def)

lemma list_keys_view:
  "list_keys (storage_prefix p) [] (map fst m) = list_keys (storage_prefix p) [] (map fst (plugin_view p m))"
proof -
  have "filter (\<lambda>k. startsWith k (storage_prefix p)) (map fst m) = map fst (plugin_view p m)"
    by (induction m) (auto simp: plugin_view_def)
  then show ?thesis
    using list_keys_filter [of "storage_prefix p" "[]" "map fst m"]
      list_keys_filter [of "storage_prefix p" "[]" "map fst (plugin_view p m)"]
    by (simp add: plugin_view_def)
qed

lemma list_keys_length: "length acc < 512 \<Longrightarrow> length (list_keys pre acc ks) \<le> 512"
  by (induction pre acc ks rule: list_keys.induct) (auto simp: Let_def)

text \<open>A method that does not touch \<open>localStorage\<close>, and the three that do.\<close>

lemma method_local_unchanged:
  "ph_local (snd (m_registerCommand env n p params h)) = ph_local h"
  "ph_local (snd (m_registerPanel env n p params h)) = ph_local h"
  "ph_local (snd (m_setPanelContent env n inst params h)) = ph_local h"
  "ph_local (snd (m_storageGet env p params h)) = ph_local h"
  "ph_local (snd (m_storageList env p h)) = ph_local h"
  "ph_local (snd (m_subscribe n inst params h)) = ph_local h"
  "ph_local (snd (m_unsubscribe n params h)) = ph_local h"
  "ph_local (snd (m_showLocal env p params h)) = ph_local h"
  by (simp_all add: method_defs Let_def store_simps split: option.split)

lemma m_storageSet_local:
  "ph_local (snd (m_storageSet env p params h)) = ph_local h
   \<or> (\<exists>k v. ph_local (snd (m_storageSet env p params h)) = map_set (storage_prefix p @ k) v (ph_local h))"
  by (auto simp: m_storageSet_def Let_def pluginStorageKey_prefix)

lemma m_storageDelete_local:
  "ph_local (snd (m_storageDelete env p params h)) = ph_local h
   \<or> (\<exists>k. ph_local (snd (m_storageDelete env p params h)) = map_remove (storage_prefix p @ k) (ph_local h))"
  by (auto simp: m_storageDelete_def Let_def pluginStorageKey_prefix)

lemma run_method_local:
  "ph_local (snd (run_method env n inst p m params h)) = ph_local h
   \<or> (\<exists>k v. ph_local (snd (run_method env n inst p m params h)) = map_set (storage_prefix p @ k) v (ph_local h))
   \<or> (\<exists>k. ph_local (snd (run_method env n inst p m params h)) = map_remove (storage_prefix p @ k) (ph_local h))"
proof -
  consider "m = Some ''pluginStorage.set''" | "m = Some ''pluginStorage.delete''"
    | "m \<noteq> Some ''pluginStorage.set''" "m \<noteq> Some ''pluginStorage.delete''" by blast
  then show ?thesis
  proof cases
    case 1
    then have "run_method env n inst p m params h = m_storageSet env p params h" by (simp add: run_method_def)
    then show ?thesis using m_storageSet_local [of env p params h] by metis
  next
    case 2
    then have "run_method env n inst p m params h = m_storageDelete env p params h" by (simp add: run_method_def)
    then show ?thesis using m_storageDelete_local [of env p params h] by metis
  next
    case 3
    then show ?thesis by (simp add: run_method_def method_local_unchanged)
  qed
qed

lemma processBridgeRequest_other_view:
  assumes "CHR '':'' \<notin> set (pm_id (pi_manifest inst))" "CHR '':'' \<notin> set q" "q \<noteq> pm_id (pi_manifest inst)"
  shows "plugin_view q (ph_local (snd (processBridgeRequest env n inst rq h))) = plugin_view q (ph_local h)"
  using processBridgeRequest_cases [of env n inst rq h]
proof (elim disjE exE conjE)
  assume "snd (processBridgeRequest env n inst rq h) = h"
  then show ?thesis by simp
next
  fix cap params
  let ?p = "pm_id (pi_manifest inst)"
  have d: "\<not> startsWith (storage_prefix ?p @ k) (storage_prefix q)" for k
    using assms by (intro storage_prefix_disjoint) auto
  assume "snd (processBridgeRequest env n inst rq h)
    = snd (run_method env n inst ?p (as_str (json_get rq ''method'')) params h)"
  then show ?thesis
    using run_method_local [of env n inst ?p "as_str (json_get rq ''method'')" params h] d
    by (auto simp: plugin_view_set plugin_view_remove)
qed

text \<open>What a plugin is answered, and its own storage afterwards, depend on its own entries only.\<close>

definition with_local :: "(string \<times> string) list \<Rightarrow> plugin_host \<Rightarrow> plugin_host" where
  "with_local m h = h\<lparr>ph_local := m\<rparr>"

lemma with_local_comm [store_simps]:
  "set_object n f (with_local m h) = with_local m (set_object n f h)"
  "set_store g (with_local m h) = with_local m (set_store g h)"
  "add_notice env p t (with_local m h) = with_local m (add_notice env p t h)"
  "syncPluginRuntimeCollections env p (with_local m h) = with_local m (syncPluginRuntimeCollections env p h)"
  "ph_local (with_local m h) = m" "ph_messaging (with_local m h) = ph_messaging h"
  by (simp_all add: with_local_def set_object_def set_store_def add_notice_def fresh_id_def
      syncPluginRuntimeCollections_def split: option.split)

text \<open>Two runs agree for the plugin \<open>p\<close>: same answer, same entries of its own, same rest of the host.\<close>

definition same_for :: "string \<Rightarrow> method_result \<times> plugin_host \<Rightarrow> method_result \<times> plugin_host \<Rightarrow> bool" where
  "same_for p a b \<longleftrightarrow> fst a = fst b \<and> plugin_view p (ph_local (snd a)) = plugin_view p (ph_local (snd b))
     \<and> with_local [] (snd a) = with_local [] (snd b)"

lemma with_local_with_local [simp]: "with_local a (with_local b h) = with_local a h"
  by (simp add: with_local_def)

lemma same_for_pure:
  assumes "plugin_view p m1 = plugin_view p m2"
  shows "same_for p (r, with_local m1 h) (r, with_local m2 h)"
  by (simp add: same_for_def assms store_simps)

lemma same_for_plain:
  assumes "plugin_view p m1 = plugin_view p m2"
  shows "same_for p (m_registerCommand env n p params (with_local m1 h)) (m_registerCommand env n p params (with_local m2 h))"
    and "same_for p (m_registerPanel env n p params (with_local m1 h)) (m_registerPanel env n p params (with_local m2 h))"
    and "same_for p (m_setPanelContent env n inst params (with_local m1 h)) (m_setPanelContent env n inst params (with_local m2 h))"
    and "same_for p (m_subscribe n inst params (with_local m1 h)) (m_subscribe n inst params (with_local m2 h))"
    and "same_for p (m_unsubscribe n params (with_local m1 h)) (m_unsubscribe n params (with_local m2 h))"
    and "same_for p (m_showLocal env p params (with_local m1 h)) (m_showLocal env p params (with_local m2 h))"
  by (simp_all add: method_defs Let_def same_for_pure [OF assms] with_local_comm split: option.split)

lemma same_for_storage:
  assumes v: "plugin_view p m1 = plugin_view p m2"
  shows "same_for p (m_storageGet env p params (with_local m1 h)) (m_storageGet env p params (with_local m2 h))"
    and "same_for p (m_storageSet env p params (with_local m1 h)) (m_storageSet env p params (with_local m2 h))"
    and "same_for p (m_storageDelete env p params (with_local m1 h)) (m_storageDelete env p params (with_local m2 h))"
    and "same_for p (m_storageList env p (with_local m1 h)) (m_storageList env p (with_local m2 h))"
proof -
  have g: "map_get m1 (storage_prefix p @ k) = map_get m2 (storage_prefix p @ k)" for k
    using v by (metis plugin_view_get)
  have l: "list_keys (storage_prefix p) [] (map fst m1) = list_keys (storage_prefix p) [] (map fst m2)"
    using v by (metis list_keys_view)
  have u: "(with_local m h)\<lparr>ph_local := m'\<rparr> = with_local m' h" for m m' by (simp add: with_local_def)
  show "same_for p (m_storageGet env p params (with_local m1 h)) (m_storageGet env p params (with_local m2 h))"
    by (simp add: m_storageGet_def Let_def same_for_pure [OF v] with_local_comm pluginStorageKey_prefix g)
  show "same_for p (m_storageSet env p params (with_local m1 h)) (m_storageSet env p params (with_local m2 h))"
    by (simp add: m_storageSet_def Let_def same_for_pure v with_local_comm pluginStorageKey_prefix u plugin_view_set_own)
  show "same_for p (m_storageDelete env p params (with_local m1 h)) (m_storageDelete env p params (with_local m2 h))"
    by (simp add: m_storageDelete_def Let_def same_for_pure v with_local_comm pluginStorageKey_prefix u plugin_view_remove_own)
  show "same_for p (m_storageList env p (with_local m1 h)) (m_storageList env p (with_local m2 h))"
    unfolding m_storageList_def storage_prefix_def [symmetric] with_local_comm l
    by (simp add: same_for_pure [OF v])
qed

lemma run_method_own_view:
  assumes "plugin_view p m1 = plugin_view p m2"
  shows "same_for p (run_method env n inst p meth params (with_local m1 h)) (run_method env n inst p meth params (with_local m2 h))"
  by (simp add: run_method_def same_for_plain [OF assms] same_for_storage [OF assms] same_for_pure [OF assms] with_local_comm)

subsection \<open>What a request can reach\<close>

lemma idPattern_no_colon: "idPattern s \<Longrightarrow> CHR '':'' \<notin> set s"
proof
  assume "idPattern s" "CHR '':'' \<in> set s"
  then have "id_char (CHR '':'')" by (simp add: idPattern_def)
  then show False by code_simp
qed

lemma processBridgeRequest_with_local:
  assumes "plugin_view (pm_id (pi_manifest inst)) m1 = plugin_view (pm_id (pi_manifest inst)) m2"
  shows "fst (processBridgeRequest env n inst rq (with_local m1 h)) = fst (processBridgeRequest env n inst rq (with_local m2 h))"
  using run_method_own_view [OF assms]
  by (simp add: processBridgeRequest_def Let_def split_def same_for_def split: option.split)

text \<open>C27. The local storage of plugins is partitioned by plugin: a bridge request of one plugin leaves
  the entries of every other plugin as they were, and its answer is a function of its own entries.\<close>

theorem plugin_storage_isolated:
  assumes "idPattern (pm_id (pi_manifest inst))" "idPattern q" "q \<noteq> pm_id (pi_manifest inst)"
    and "plugin_view (pm_id (pi_manifest inst)) m = plugin_view (pm_id (pi_manifest inst)) (ph_local h)"
  shows "plugin_view q (ph_local (snd (processBridgeRequest env n inst rq h))) = plugin_view q (ph_local h)
    \<and> fst (processBridgeRequest env n inst rq (with_local m h)) = fst (processBridgeRequest env n inst rq h)"
proof
  show "plugin_view q (ph_local (snd (processBridgeRequest env n inst rq h))) = plugin_view q (ph_local h)"
    using assms by (intro processBridgeRequest_other_view idPattern_no_colon) auto
  have "with_local (ph_local h) h = h" by (simp add: with_local_def)
  then show "fst (processBridgeRequest env n inst rq (with_local m h)) = fst (processBridgeRequest env n inst rq h)"
    using processBridgeRequest_with_local [OF assms(4), of env n rq h] by simp
qed

definition ex_env :: plugin_env where
  "ex_env = \<lparr>pe_now = ''t'', pe_random = (\<lambda>i. ''r'' @ int_digits (int i)), pe_origin = ''tauri://localhost'', pe_storage_ok = True,
     pe_proto_text = (\<lambda>_. ''function'')\<rparr>"

definition ex_manifest :: "string \<Rightarrow> string list \<Rightarrow> plugin_manifest" where
  "ex_manifest p caps = \<lparr>pm_apiVersion = ''v1'', pm_id = p, pm_name = ''n'', pm_version = ''1.0.0'', pm_entrypoint = ''main.js'',
     pm_requestedPermissions = caps, pm_declaredHooks = [''message.visible''], pm_panels = []\<rparr>"

definition ex_instance :: "string \<Rightarrow> string list \<Rightarrow> plugin_instance" where
  "ex_instance p caps = \<lparr>pi_manifest = ex_manifest p caps, pi_bootstrapToken = ''b'', pi_runtimeToken = ''k'',
     pi_grantedPermissions = caps, pi_subscriptions = [], pi_commands = [], pi_panels = [], pi_ready = True,
     pi_initialized = True, pi_attached = True\<rparr>"

definition ex_host :: "string \<Rightarrow> string list \<Rightarrow> plugin_host" where
  "ex_host p caps = \<lparr>ph_started = True, ph_descriptors = [], ph_active = [(p, 0)],
     ph_objects = [0 \<mapsto> ex_instance p caps], ph_next = 1, ph_tasks = [], ph_listening = True,
     ph_transportSnapshot = [], ph_conversationSnapshot = [], ph_visibleSnapshot = [],
     ph_store = initial_plugin_store, ph_local = [(''plugin-local:other:k'', ''v'')], ph_messaging = initial_store,
     ph_posts = [], ph_random = 0\<rparr>"

definition ex_request :: "string \<Rightarrow> string \<Rightarrow> (string \<times> json) list \<Rightarrow> json" where
  "ex_request p meth params = JObj [(''kind'', JStr ''plugin.bridge.request''), (''pluginId'', JStr p),
     (''requestId'', JStr ''1''), (''method'', JStr meth), (''params'', JObj params)]"

lemma plugin_storage_isolated_witness:
  "plugin_view ''other'' (ph_local (snd (processBridgeRequest ex_env 0 (ex_instance ''mine'' [''storage.plugin_local''])
      (ex_request ''mine'' ''pluginStorage.set'' [(''key'', JStr ''a''), (''value'', JStr ''b'')])
      (ex_host ''mine'' [''storage.plugin_local'']))))
    = [(''plugin-local:other:k'', ''v'')]"
proof -
  have 1: "idPattern (pm_id (pi_manifest (ex_instance ''mine'' [''storage.plugin_local''])))" by code_simp
  have 2: "idPattern ''other''" by code_simp
  have 3: "''other'' \<noteq> pm_id (pi_manifest (ex_instance ''mine'' [''storage.plugin_local'']))" by code_simp
  have 4: "plugin_view ''other'' (ph_local (ex_host ''mine'' [''storage.plugin_local''])) = [(''plugin-local:other:k'', ''v'')]"
    by code_simp
  show ?thesis using plugin_storage_isolated [OF 1 2 3 refl] 4 by simp
qed

text \<open>The capability gate: a method whose capability was not granted, or that is unknown, is answered
  with an error under the plugin's own id and changes nothing; no reply ever speaks for another plugin.\<close>

theorem ungranted_request_is_refused:
  assumes "map_of pluginCapabilityByMethod (str_of (json_get rq ''method'')) = None
    \<or> (\<exists>cap. map_of pluginCapabilityByMethod (str_of (json_get rq ''method'')) = Some cap
        \<and> cap \<notin> set (pi_grantedPermissions inst))"
  shows "snd (processBridgeRequest env n inst rq h) = h
    \<and> (\<exists>code msg. fst (processBridgeRequest env n inst rq h)
          = BridgeError (pm_id (pi_manifest inst)) (json_get rq ''requestId'') code msg)"
  using assms by (auto simp: processBridgeRequest_def Let_def split: option.split)

lemma ungranted_request_is_refused_witness:
  "snd (processBridgeRequest ex_env 0 (ex_instance ''mine'' []) (ex_request ''mine'' ''pluginStorage.get'' []) (ex_host ''mine'' []))
     = ex_host ''mine'' []"
proof -
  have "map_of pluginCapabilityByMethod (str_of (json_get (ex_request ''mine'' ''pluginStorage.get'' []) ''method''))
      = Some ''storage.plugin_local''" by code_simp
  moreover have "''storage.plugin_local'' \<notin> set (pi_grantedPermissions (ex_instance ''mine'' []))" by code_simp
  ultimately show ?thesis
    using ungranted_request_is_refused [of "ex_request ''mine'' ''pluginStorage.get'' []" "ex_instance ''mine'' []"] by simp
qed

subsection \<open>Confidentiality of message secrets\<close>

text \<open>Blanking everything of a message that a plugin must not see: the ciphertext and its keys, the
  keys and nonces of attachments, receipts, and internal failure details.\<close>

definition redact_envelope :: "encrypted_message_envelope_dto \<Rightarrow> encrypted_message_envelope_dto" where
  "redact_envelope e = e\<lparr>env_algorithm := [], env_cryptoVersion := 0, env_nonce := [], env_ciphertext := [],
     env_recipients := [], env_attachments := [], env_replyToMessageId := None, env_ttlSeconds := None\<rparr>"

definition redact_secret :: "json \<Rightarrow> json" where
  "redact_secret a = (case sanitized_attachment a of None \<Rightarrow> JNull | Some b \<Rightarrow> b)"

definition redact_plaintext :: "json \<Rightarrow> json" where
  "redact_plaintext p = JObj (field_of p ''text'' @
     (case json_get p ''attachments'' of
        None \<Rightarrow> []
      | Some x \<Rightarrow> [(''attachments'', case x of JNull \<Rightarrow> JNull | JArr xs \<Rightarrow> JArr (map redact_secret xs) | _ \<Rightarrow> JBool False)]))"

definition redact_message :: "local_message \<Rightarrow> local_message" where
  "redact_message m = m\<lparr>msg_envelope := redact_envelope (msg_envelope m), msg_receipts := [], msg_failedReason := None,
     msg_deliveredAt := None, lm_plaintext := map_option redact_plaintext (lm_plaintext m), lm_decryptError := None,
     lm_retryableFailure := None, lm_failureCode := None, lm_lastUpdatedAt := None\<rparr>"

text \<open>Of other conversations nothing remains; nor do the outbox, the read positions and the transport.\<close>

definition redact_store :: "messaging_store \<Rightarrow> messaging_store" where
  "redact_store s = s\<lparr>st_messagesByConversation := (\<lambda>c. if Some c = st_activeConversationId s
       then map_option (map redact_message) (st_messagesByConversation s c) else None),
     st_conversations := filter (\<lambda>c. Some (cv_id c) = st_activeConversationId s) (st_conversations s),
     st_readPositions := Map.empty, st_outbox := [], st_transport := initial_transport, st_initialized := False,
     st_loading := False\<rparr>"

lemma sanitized_secret [simp]: "sanitized_attachment (redact_secret a) = sanitized_attachment a"
  by (simp add: sanitized_attachment_def redact_secret_def field_of_def split: option.split)

lemma plain_redacted:
  "plain_text (map_option redact_plaintext p) = plain_text p"
  "plain_attachments (map_option redact_plaintext p) = plain_attachments p"
  by (cases p; simp add: plain_text_def plain_attachments_def redact_plaintext_def field_of_def comp_def split: option.split json.split)+

lemma sanitized_redacted: "sanitized_message (redact_message m) = sanitized_message m"
  by (simp add: sanitized_message_def redact_message_def redact_envelope_def Let_def plain_redacted)

lemma visible_redacted: "visible_messages (redact_store s) = visible_messages s"
  by (auto simp: visible_messages_def redact_store_def current_messages_def comp_def sanitized_redacted split: option.splits)

lemma find_filter_same: "find P (filter P xs) = find P xs"
  by (induction xs) auto

lemma summary_redacted: "conversation_summary (redact_store s) = conversation_summary s"
proof -
  have "active_conversation (redact_store s) = active_conversation s"
    by (simp add: active_conversation_def redact_store_def find_filter_same)
  then show ?thesis by (simp add: conversation_summary_def)
qed

definition with_messaging :: "messaging_store \<Rightarrow> plugin_host \<Rightarrow> plugin_host" where
  "with_messaging s h = h\<lparr>ph_messaging := s\<rparr>"

lemma with_messaging_comm [store_simps]:
  "set_object n f (with_messaging m h) = with_messaging m (set_object n f h)"
  "set_store g (with_messaging m h) = with_messaging m (set_store g h)"
  "add_notice env p t (with_messaging m h) = with_messaging m (add_notice env p t h)"
  "syncPluginRuntimeCollections env p (with_messaging m h) = with_messaging m (syncPluginRuntimeCollections env p h)"
  "ph_local (with_messaging m h) = ph_local h" "ph_messaging (with_messaging m h) = m"
  "(with_messaging m h)\<lparr>ph_local := l\<rparr> = with_messaging m (h\<lparr>ph_local := l\<rparr>)"
  by (simp_all add: with_messaging_def set_object_def set_store_def add_notice_def fresh_id_def
      syncPluginRuntimeCollections_def split: option.split)

text \<open>Methods other than the two projections ignore the messaging store.\<close>

lemma method_messaging:
  "m_registerCommand env n p params (with_messaging s h) = map_prod id (with_messaging s) (m_registerCommand env n p params h)"
  "m_registerPanel env n p params (with_messaging s h) = map_prod id (with_messaging s) (m_registerPanel env n p params h)"
  "m_setPanelContent env n inst params (with_messaging s h) = map_prod id (with_messaging s) (m_setPanelContent env n inst params h)"
  "m_storageGet env p params (with_messaging s h) = map_prod id (with_messaging s) (m_storageGet env p params h)"
  "m_storageSet env p params (with_messaging s h) = map_prod id (with_messaging s) (m_storageSet env p params h)"
  "m_storageDelete env p params (with_messaging s h) = map_prod id (with_messaging s) (m_storageDelete env p params h)"
  "m_storageList env p (with_messaging s h) = map_prod id (with_messaging s) (m_storageList env p h)"
  "m_subscribe n inst params (with_messaging s h) = map_prod id (with_messaging s) (m_subscribe n inst params h)"
  "m_unsubscribe n params (with_messaging s h) = map_prod id (with_messaging s) (m_unsubscribe n params h)"
  "m_showLocal env p params (with_messaging s h) = map_prod id (with_messaging s) (m_showLocal env p params h)"
  by (simp_all add: method_defs Let_def with_messaging_comm split: option.split)

lemma run_method_redacted:
  "run_method env n inst p meth params (with_messaging (redact_store s) h)
   = map_prod id (with_messaging (redact_store s)) (run_method env n inst p meth params h)"
  if "ph_messaging h = s"
  using that by (simp add: run_method_def method_messaging with_messaging_comm visible_redacted summary_redacted)

text \<open>C26. No bridge request, whatever its capabilities, tells a plugin anything about ciphertexts,
  message keys, attachment keys, receipts, failure details, or conversations other than the active
  one: blanking all of these in the messaging store leaves the reply as it is.\<close>

theorem bridge_reveals_no_secrets:
  "fst (processBridgeRequest env n inst rq (with_messaging (redact_store (ph_messaging h)) h))
     = fst (processBridgeRequest env n inst rq h)"
  by (simp add: processBridgeRequest_def Let_def split_def run_method_redacted split: option.split)

subsection \<open>Bounds\<close>

text \<open>Panels are limited in size, registered names are safe, and everything an instance
  contributes carries its own plugin id.\<close>

definition instance_ok :: "plugin_instance \<Rightarrow> bool" where
  "instance_ok i \<longleftrightarrow>
     (\<forall>c \<in> set (pi_commands i). pc_pluginId c = pm_id (pi_manifest i) \<and> runtimeIDPattern (pc_id c)) \<and>
     (\<forall>p \<in> set (pi_panels i). pp_pluginId p = pm_id (pi_manifest i) \<and> runtimeIDPattern (pp_id p)
        \<and> length (pp_content p) \<le> MAX_PANEL_CONTENT_LENGTH) \<and>
     distinct (map pc_id (pi_commands i)) \<and> distinct (map pp_id (pi_panels i)) \<and>
     set (pi_subscriptions i) \<subseteq> set allowedHooks \<inter> set (pm_declaredHooks (pi_manifest i)) \<and>
     (pi_commands i \<noteq> [] \<longrightarrow> ''commands.register'' \<in> set (pi_grantedPermissions i)) \<and>
     (pi_panels i \<noteq> [] \<longrightarrow> ''ui.render'' \<in> set (pi_grantedPermissions i)) \<and>
     (pi_subscriptions i \<noteq> [] \<longrightarrow> ''events.subscribe'' \<in> set (pi_grantedPermissions i))"

lemma distinct_filter_append:
  "distinct (map f xs) \<Longrightarrow> f y = k \<Longrightarrow> distinct (map f (filter (\<lambda>x. f x \<noteq> k) xs @ [y]))"
  by (auto simp: distinct_map_filter)

lemma instance_ok_simps:
  "instance_ok i \<Longrightarrow> ''commands.register'' \<in> set (pi_grantedPermissions i) \<Longrightarrow> runtimeIDPattern (pc_id c) \<Longrightarrow>
     pc_pluginId c = pm_id (pi_manifest i) \<Longrightarrow>
     instance_ok (i\<lparr>pi_commands := filter (\<lambda>item. pc_id item \<noteq> pc_id c) (pi_commands i) @ [c]\<rparr>)"
  "instance_ok i \<Longrightarrow> ''ui.render'' \<in> set (pi_grantedPermissions i) \<Longrightarrow> runtimeIDPattern (pp_id p) \<Longrightarrow>
     pp_pluginId p = pm_id (pi_manifest i) \<Longrightarrow> length (pp_content p) \<le> MAX_PANEL_CONTENT_LENGTH \<Longrightarrow>
     instance_ok (i\<lparr>pi_panels := filter (\<lambda>item. pp_id item \<noteq> pp_id p) (pi_panels i) @ [p]\<rparr>)"
  "instance_ok i \<Longrightarrow> ''events.subscribe'' \<in> set (pi_grantedPermissions i) \<Longrightarrow> e \<in> set allowedHooks \<Longrightarrow>
     e \<in> set (pm_declaredHooks (pi_manifest i)) \<Longrightarrow> instance_ok (i\<lparr>pi_subscriptions := List.insert e (pi_subscriptions i)\<rparr>)"
  "instance_ok i \<Longrightarrow> instance_ok (i\<lparr>pi_subscriptions := removeAll e (pi_subscriptions i)\<rparr>)"
  by (auto simp: instance_ok_def distinct_map_filter)

text \<open>The object the request is run for, before and after.\<close>

definition object_ok :: "nat \<Rightarrow> plugin_host \<Rightarrow> bool" where
  "object_ok n h \<longleftrightarrow> (\<forall>i. ph_objects h n = Some i \<longrightarrow> instance_ok i)"

definition meth_of :: "json \<Rightarrow> string option" where
  "meth_of rq = as_str (json_get rq ''method'')"

lemma object_ok_set:
  "\<lbrakk> ph_objects h n = Some inst; instance_ok (f inst) \<rbrakk> \<Longrightarrow> object_ok n (set_object n f h)"
  by (simp add: object_ok_def set_object_def)

lemma object_ok_frames [simp]:
  "object_ok n (set_store g h) = object_ok n h" "object_ok n (add_notice env p m h) = object_ok n h"
  "object_ok n (syncPluginRuntimeCollections env p h) = object_ok n h" "object_ok n (h\<lparr>ph_local := l\<rparr>) = object_ok n h"
  by (simp_all add: object_ok_def store_simps)

lemma str_of_as_str: "as_str v = Some s \<Longrightarrow> str_of v = s"
  by (cases v) (auto simp: str_of_def elim!: as_str.elims)

lemma method_object_ok:
  assumes "ph_objects h n = Some inst" "instance_ok inst"
  shows "''commands.register'' \<in> set (pi_grantedPermissions inst) \<Longrightarrow>
      object_ok n (snd (m_registerCommand env n (pm_id (pi_manifest inst)) params h))"
    and "''ui.render'' \<in> set (pi_grantedPermissions inst) \<Longrightarrow>
      object_ok n (snd (m_registerPanel env n (pm_id (pi_manifest inst)) params h))"
    and "''ui.render'' \<in> set (pi_grantedPermissions inst) \<Longrightarrow> object_ok n (snd (m_setPanelContent env n inst params h))"
    and "''events.subscribe'' \<in> set (pi_grantedPermissions inst) \<Longrightarrow> object_ok n (snd (m_subscribe n inst params h))"
    and "object_ok n (snd (m_unsubscribe n params h))"
    and "object_ok n (snd (m_storageGet env p params h))" "object_ok n (snd (m_storageSet env p params h))"
    and "object_ok n (snd (m_storageDelete env p params h))" "object_ok n (snd (m_storageList env p h))"
    and "object_ok n (snd (m_showLocal env p params h))"
proof -
  have h: "object_ok n h" using assms by (simp add: object_ok_def)
  show "object_ok n (snd (m_registerCommand env n (pm_id (pi_manifest inst)) params h))"
    if "''commands.register'' \<in> set (pi_grantedPermissions inst)"
    using that assms instance_ok_simps(1) [OF assms(2), of "\<lparr>pc_pluginId = pm_id (pi_manifest inst), pc_id = c, pc_title = t\<rparr>" for c t]
    by (auto simp: m_registerCommand_def Let_def h intro!: object_ok_set)
  show "object_ok n (snd (m_registerPanel env n (pm_id (pi_manifest inst)) params h))"
    if "''ui.render'' \<in> set (pi_grantedPermissions inst)"
    using that assms instance_ok_simps(2) [OF assms(2),
        of "\<lparr>pp_pluginId = pm_id (pi_manifest inst), pp_id = c, pp_title = t, pp_content = []\<rparr>" for c t]
    by (auto simp: m_registerPanel_def Let_def h intro!: object_ok_set)
  show "object_ok n (snd (m_setPanelContent env n inst params h))"
    if g: "''ui.render'' \<in> set (pi_grantedPermissions inst)"
  proof (cases "find (\<lambda>item. pp_id item = trimmed_param params ''id'') (pi_panels inst)")
    case None
    then show ?thesis by (simp add: m_setPanelContent_def Let_def h)
  next
    case (Some p)
    then have p: "p \<in> set (pi_panels inst)" "pp_id p = trimmed_param params ''id''"
      by (auto simp: find_Some_iff)
    let ?p = "p\<lparr>pp_content := take MAX_PANEL_CONTENT_LENGTH (raw_param params ''content'')\<rparr>"
    have "instance_ok (inst\<lparr>pi_panels := filter (\<lambda>item. pp_id item \<noteq> pp_id ?p) (pi_panels inst) @ [?p]\<rparr>)"
      using assms(2) p by (intro instance_ok_simps(2) assms(2) g) (auto simp: instance_ok_def)
    then show ?thesis
      using Some p assms by (simp add: m_setPanelContent_def Let_def h object_ok_set)
  qed
  show "object_ok n (snd (m_subscribe n inst params h))" if "''events.subscribe'' \<in> set (pi_grantedPermissions inst)"
    using that assms instance_ok_simps(3) [OF assms(2)] by (auto simp: m_subscribe_def Let_def h intro!: object_ok_set)
  show "object_ok n (snd (m_unsubscribe n params h))"
    using assms instance_ok_simps(4) [OF assms(2)] by (auto simp: m_unsubscribe_def Let_def h intro!: object_ok_set)
qed (use assms in \<open>simp_all add: m_storageGet_def m_storageSet_def m_storageDelete_def m_storageList_def m_showLocal_def
      Let_def object_ok_def store_simps\<close>)

lemma required_capability:
  "map_of pluginCapabilityByMethod ''registerCommand'' = Some ''commands.register''"
  "map_of pluginCapabilityByMethod ''registerPanel'' = Some ''ui.render''"
  "map_of pluginCapabilityByMethod ''setPanelContent'' = Some ''ui.render''"
  "map_of pluginCapabilityByMethod ''events.subscribe'' = Some ''events.subscribe''"
  by code_simp+

lemma run_method_object_ok:
  assumes i: "ph_objects h n = Some inst" "instance_ok inst"
    and cap: "map_of pluginCapabilityByMethod (str_of v) = Some cap" "cap \<in> set (pi_grantedPermissions inst)"
  shows "object_ok n (snd (run_method env n inst (pm_id (pi_manifest inst)) (as_str v) params h))"
proof -
  have g: "as_str v = Some s \<Longrightarrow> map_of pluginCapabilityByMethod s = Some c \<Longrightarrow> c \<in> set (pi_grantedPermissions inst)" for s c
    using cap str_of_as_str [of v s] by auto
  have h: "object_ok n h" using i by (simp add: object_ok_def)
  show ?thesis
    using method_object_ok [OF i] g [OF _ required_capability(1)] g [OF _ required_capability(2)]
      g [OF _ required_capability(3)] g [OF _ required_capability(4)]
    by (simp add: run_method_def h)
qed

lemma processBridgeRequest_object_ok:
  assumes "ph_objects h n = Some inst" "instance_ok inst"
  shows "object_ok n (snd (processBridgeRequest env n inst rq h))"
  using processBridgeRequest_cases [of env n inst rq h]
proof (elim disjE exE conjE)
  assume "snd (processBridgeRequest env n inst rq h) = h"
  then show ?thesis using assms by (simp add: object_ok_def)
next
  fix cap params
  assume "map_of pluginCapabilityByMethod (str_of (json_get rq ''method'')) = Some cap" "cap \<in> set (pi_grantedPermissions inst)"
    "snd (processBridgeRequest env n inst rq h)
      = snd (run_method env n inst (pm_id (pi_manifest inst)) (as_str (json_get rq ''method'')) params h)"
  then show ?thesis using run_method_object_ok [OF assms] by simp
qed

text \<open>Whatever an untrusted iframe sends, the host's record of the plugin stays well formed: its
  commands and panels carry its own id and safe names without duplicates, panel contents have at
  most 5000 characters, subscriptions are hooks its manifest declares, and each kind of entry is
  there only if the capability was granted; no other plugin's record changes.\<close>

theorem bridge_keeps_instances_wellformed:
  assumes "ph_objects h n = Some inst" "instance_ok inst"
  shows "(\<forall>i. ph_objects (snd (processBridgeRequest env n inst rq h)) n = Some i \<longrightarrow> instance_ok i)
    \<and> (\<forall>m. m \<noteq> n \<longrightarrow> ph_objects (snd (processBridgeRequest env n inst rq h)) m = ph_objects h m)"
proof
  show "\<forall>i. ph_objects (snd (processBridgeRequest env n inst rq h)) n = Some i \<longrightarrow> instance_ok i"
    using processBridgeRequest_object_ok [OF assms] by (simp add: object_ok_def)
  show "\<forall>m. m \<noteq> n \<longrightarrow> ph_objects (snd (processBridgeRequest env n inst rq h)) m = ph_objects h m"
    using processBridgeRequest_frame [of n h env inst rq] by (simp add: bridge_frame_def)
qed

lemma bridge_keeps_instances_wellformed_witness:
  "pred_option instance_ok (ph_objects (snd (processBridgeRequest ex_env 0 (ex_instance ''mine'' [''ui.render''])
      (ex_request ''mine'' ''registerPanel'' [(''id'', JStr ''p1''), (''title'', JStr ''Panel'')])
      (ex_host ''mine'' [''ui.render'']))) 0)"
proof -
  have 1: "ph_objects (ex_host ''mine'' [''ui.render'']) 0 = Some (ex_instance ''mine'' [''ui.render''])"
    by (simp add: ex_host_def)
  have 2: "instance_ok (ex_instance ''mine'' [''ui.render''])" by (simp add: instance_ok_def ex_instance_def)
  show ?thesis using bridge_keeps_instances_wellformed [OF 1 2] by (auto simp: pred_option_def split: option.split)
qed

end
