(* ===== verification/Plugin_Runtime.thy ===== *)
theory Plugin_Runtime
  imports Plugin_Bridge
begin

text \<open>
  The rest of \<open>services/plugins/runtime.ts\<close>: discovery, the boot handshake of a plugin, messages from
  the iframes, commands and host events. An \<open>await\<close> splits a handler: what runs before it and what
  runs after it are separate steps, and the pending part is a \<open>boot_task\<close> of \<open>ph_tasks\<close>. A task
  also remembers the plugins that the \<open>for\<close> loop of \<open>refreshDiscovery\<close> has still to enable once
  this one is done (\<open>bt_then\<close>, empty for an \<open>enable\<close> from the user interface). The steps may
  interleave in any order, as the handlers of the source do at their awaits.
\<close>

subsection \<open>Instances\<close>

definition active_instance :: "string \<Rightarrow> plugin_host \<Rightarrow> plugin_instance option" where
  "active_instance pluginId h = Option.bind (map_get (ph_active h) pluginId) (ph_objects h)"

definition createActiveInstance :: "plugin_descriptor \<Rightarrow> string \<Rightarrow> string \<Rightarrow> plugin_instance" where
  "createActiveInstance d bootstrapToken runtimeToken =
     \<lparr>pi_manifest = pd_manifest d, pi_bootstrapToken = bootstrapToken, pi_runtimeToken = runtimeToken,
      pi_grantedPermissions = remdups (pm_requestedPermissions (pd_manifest d)), pi_subscriptions = [],
      pi_commands = [], pi_panels = [], pi_ready = False, pi_initialized = False, pi_attached = True\<rparr>"

text \<open>Posting to an iframe that is no longer in the document has no effect.\<close>

definition postToPlugin :: "nat \<Rightarrow> host_message \<Rightarrow> plugin_host \<Rightarrow> plugin_host" where
  "postToPlugin n payload h =
     (case ph_objects h n of
        None \<Rightarrow> h
      | Some i \<Rightarrow> if pi_attached i then h\<lparr>ph_posts := ph_posts h @ [(n, payload)]\<rparr> else h)"

definition teardownPlugin :: "string \<Rightarrow> plugin_host \<Rightarrow> plugin_host" where
  "teardownPlugin pluginId h =
     (case map_get (ph_active h) pluginId of
        None \<Rightarrow> h
      | Some n \<Rightarrow>
          set_store (clearPluginRuntimeState pluginId)
            ((set_object n (\<lambda>i. i\<lparr>pi_attached := False\<rparr>) h)\<lparr>ph_active := map_remove pluginId (ph_active h)\<rparr>))"

text \<open>The message may be any value: an untrusted iframe chooses it in \<open>plugin.runtime.error\<close>.\<close>

definition failPlugin :: "plugin_env \<Rightarrow> string \<Rightarrow> json \<Rightarrow> plugin_host \<Rightarrow> plugin_host" where
  "failPlugin env pluginId message h =
     add_notice env pluginId (''Plugin failed: '' @ to_str message)
       (set_store (updatePluginStatus (pe_now env) pluginId PsFailed (Some message)) (teardownPlugin pluginId h))"

definition stop :: "plugin_host \<Rightarrow> plugin_host" where
  "stop h = (if \<not> ph_started h then h
     else (foldl (\<lambda>s p. teardownPlugin p s) (h\<lparr>ph_started := False, ph_listening := False\<rparr>) (map fst (ph_active h)))
            \<lparr>ph_active := []\<rparr>)"

subsection \<open>Enabling\<close>

definition set_status :: "plugin_env \<Rightarrow> string \<Rightarrow> plugin_status \<Rightarrow> json option \<Rightarrow> plugin_host \<Rightarrow> plugin_host" where
  "set_status env pluginId status lastError h =
     set_store (updatePluginStatus (pe_now env) pluginId status lastError) h"

text \<open>
  \<open>enable\<close> up to its first \<open>await\<close>: the second component is the iframe it waits for, if the call
  has not returned.
\<close>

definition enable_begin :: "plugin_env \<Rightarrow> string \<Rightarrow> plugin_host \<Rightarrow> plugin_host \<times> (nat \<times> plugin_manifest) option" where
  "enable_begin env pluginId h =
     (case map_get (ph_descriptors h) pluginId of
        None \<Rightarrow> (set_status env pluginId PsFailed (Some (JStr ''plugin descriptor not found'')) h, None)
      | Some descriptor \<Rightarrow>
          let h1 = set_store (setDesiredEnabled pluginId True) h in
          (case find (\<lambda>c. \<not> isCapabilityAllowedInV1 c) (pm_requestedPermissions (pd_manifest descriptor)) of
             Some capability \<Rightarrow>
               (set_status env pluginId PsDisabled (Some (JStr (''permission denied for capability: '' @ capability))) h1, None)
           | None \<Rightarrow>
               if map_get (ph_active h1) pluginId \<noteq> None then (set_status env pluginId PsEnabled None h1, None)
               else
                 let (bootstrapToken, h2) = fresh_id env h1;
                     (runtimeToken, h3) = fresh_id env h2;
                     n = ph_next h3;
                     h4 = h3\<lparr>ph_next := Suc n,
                             ph_objects := (ph_objects h3)(n \<mapsto> createActiveInstance descriptor bootstrapToken runtimeToken),
                             ph_active := map_set pluginId n (ph_active h3)\<rparr>
                 in (h4, Some (n, pd_manifest descriptor))))"

text \<open>The loop of \<open>refreshDiscovery\<close> over the wanted plugins: it runs until an \<open>enable\<close> has to wait.
  An id that is no string has no descriptor.\<close>

fun enable_all :: "plugin_env \<Rightarrow> json list \<Rightarrow> plugin_host \<Rightarrow> plugin_host" where
  "enable_all env [] h = h"
| "enable_all env (JStr p # rest) h =
     (case enable_begin env p h of
        (h', None) \<Rightarrow> enable_all env rest h'
      | (h', Some (n, m)) \<Rightarrow>
          h'\<lparr>ph_tasks := ph_tasks h' @ [\<lparr>bt_plugin = p, bt_object = n, bt_manifest = m, bt_phase = AwaitReady, bt_then = rest\<rparr>]\<rparr>)"
| "enable_all env (j # rest) h =
     enable_all env rest (set_store (update_raw_status (pe_now env) j) h)"

definition enable :: "plugin_env \<Rightarrow> string \<Rightarrow> plugin_host \<Rightarrow> plugin_host" where
  "enable env pluginId h = enable_all env [JStr pluginId] h"

text \<open>The end of a successful boot.\<close>

definition finish_enable :: "plugin_env \<Rightarrow> boot_task \<Rightarrow> plugin_host \<Rightarrow> plugin_host" where
  "finish_enable env t h =
     syncPluginRuntimeCollections env (bt_plugin t)
       (case find_registry (pm_id (bt_manifest t)) (ph_store h) of
          Some existing \<Rightarrow>
            set_store (upsertRegistryItem (existing\<lparr>pr_status := PsEnabled,
              pr_grantedPermissions := pm_requestedPermissions (bt_manifest t), pr_lastError := None,
              pr_updatedAt := pe_now env\<rparr>)) h
        | None \<Rightarrow> set_status env (bt_plugin t) PsEnabled None h)"

definition drop_task :: "nat \<Rightarrow> plugin_host \<Rightarrow> plugin_host" where
  "drop_task k h = h\<lparr>ph_tasks := take k (ph_tasks h) @ drop (Suc k) (ph_tasks h)\<rparr>"

text \<open>The continuation of the \<open>k\<close>-th pending boot: \<open>awaitWithTimeout\<close> returned, or its deadline passed.\<close>

definition boot_continue :: "plugin_env \<Rightarrow> nat \<Rightarrow> plugin_host \<Rightarrow> plugin_host" where
  "boot_continue env k h =
     (if k \<ge> length (ph_tasks h) then h
      else let t = ph_tasks h ! k in
      case ph_objects h (bt_object t) of
        None \<Rightarrow> h
      | Some i \<Rightarrow>
         (case bt_phase t of
            AwaitReady \<Rightarrow>
              if \<not> pi_ready i then h
              else postToPlugin (bt_object t)
                     (HostInit (bt_plugin t) (pi_runtimeToken i) (pm_requestedPermissions (bt_manifest t)))
                     (h\<lparr>ph_tasks := (ph_tasks h)[k := t\<lparr>bt_phase := AwaitInitialized\<rparr>]\<rparr>)
          | AwaitInitialized \<Rightarrow>
              if \<not> pi_initialized i then h
              else enable_all env (bt_then t) (finish_enable env t (drop_task k h))))"

definition boot_timeout :: "plugin_env \<Rightarrow> nat \<Rightarrow> plugin_host \<Rightarrow> plugin_host" where
  "boot_timeout env k h =
     (if k \<ge> length (ph_tasks h) then h
      else let t = ph_tasks h ! k in
      case ph_objects h (bt_object t) of
        None \<Rightarrow> h
      | Some i \<Rightarrow>
         (case bt_phase t of
            AwaitReady \<Rightarrow>
              if pi_ready i then h
              else enable_all env (bt_then t)
                     (failPlugin env (bt_plugin t) (JStr ''plugin runtime did not become ready'') (drop_task k h))
          | AwaitInitialized \<Rightarrow>
              if pi_initialized i then h
              else enable_all env (bt_then t)
                     (failPlugin env (bt_plugin t) (JStr ''plugin runtime init timed out'') (drop_task k h))))"

subsection \<open>Disable, install, commands\<close>

definition disable :: "plugin_env \<Rightarrow> string \<Rightarrow> plugin_host \<Rightarrow> plugin_host" where
  "disable env pluginId h =
     (let h1 = teardownPlugin pluginId (set_store (setDesiredEnabled pluginId False) h) in
      case find (\<lambda>item. str_of (registry_id item) = pluginId) (pst_registry (ph_store h1)) of
        Some current \<Rightarrow>
          set_store (upsertRegistryItem (current\<lparr>pr_status := PsDisabled, pr_grantedPermissions := [],
            pr_lastError := None, pr_updatedAt := pe_now env\<rparr>)) h1
      | None \<Rightarrow> set_status env pluginId PsDisabled None h1)"

definition install :: "plugin_env \<Rightarrow> string \<Rightarrow> plugin_host \<Rightarrow> plugin_host" where
  "install env pluginId h =
     (case map_get (ph_descriptors h) pluginId of
        None \<Rightarrow> set_status env pluginId PsFailed (Some (JStr ''plugin descriptor not found'')) h
      | Some descriptor \<Rightarrow>
          (case find_registry (pm_id (pd_manifest descriptor)) (ph_store h) of
             Some current \<Rightarrow>
               set_store (upsertRegistryItem (current\<lparr>pr_status := PsInstalled, pr_lastError := None,
                 pr_updatedAt := pe_now env\<rparr>)) h
           | None \<Rightarrow> set_status env pluginId PsInstalled None h))"

definition emit_to :: "plugin_env \<Rightarrow> string \<Rightarrow> json \<Rightarrow> (string \<times> nat) \<Rightarrow> plugin_host \<Rightarrow> plugin_host" where
  "emit_to env eventType payload pn h =
     (case ph_objects h (snd pn) of
        None \<Rightarrow> h
      | Some i \<Rightarrow>
          if eventType \<notin> set (pi_subscriptions i) then h
          else postToPlugin (snd pn) (HostEvent (pi_runtimeToken i) eventType payload (pe_now env)) h)"

definition emitEvent :: "plugin_env \<Rightarrow> string \<Rightarrow> json \<Rightarrow> plugin_host \<Rightarrow> plugin_host" where
  "emitEvent env eventType payload h =
     (let h' = snd (fresh_id env h) in fold (emit_to env eventType payload) (ph_active h') h')"

definition executeCommand :: "plugin_env \<Rightarrow> string \<Rightarrow> string \<Rightarrow> plugin_host \<Rightarrow> plugin_host" where
  "executeCommand env pluginId commandId h =
     (case map_get (ph_active h) pluginId of
        None \<Rightarrow> add_notice env pluginId ''Plugin is not enabled.'' h
      | Some n \<Rightarrow>
          (case ph_objects h n of
             None \<Rightarrow> h
           | Some i \<Rightarrow>
               emitEvent env ''command.executed''
                 (JObj [(''pluginId'', JStr pluginId), (''commandId'', JStr commandId), (''triggeredAt'', JStr (pe_now env))])
                 (postToPlugin n (HostCommandExecute pluginId (pi_runtimeToken i) commandId (pe_now env)) h)))"

subsection \<open>Discovery\<close>

text \<open>The entry code of the three bundled plugins is opaque text, given by their ids.\<close>

definition bundledPluginDescriptors :: "(string \<Rightarrow> string) \<Rightarrow> loaded_descriptor list" where
  "bundledPluginDescriptors code = map (\<lambda>(m, ref). \<lparr>ld_manifest = manifest_json m, ld_source = SrcBundled,
       ld_sourceRef = ref, ld_entrypointCode = code (pm_id m)\<rparr>)
     [(transportPanelManifest, ''bundled:demo.transport.health''),
      (conversationSummaryManifest, ''bundled:demo.conversation.summary''),
      (localActionsManifest, ''bundled:demo.local.actions'')]"

text \<open>
  \<open>String(descriptor.manifest.id ?? "")\<close> after validation has stored the normalised manifest;
  \<open>None\<close> is the \<open>TypeError\<close> of reading a property of \<open>null\<close>.
\<close>

definition raw_plugin_id :: "json \<Rightarrow> string option" where
  "raw_plugin_id manifest =
     (if manifest = JNull then None
      else Some (let i = json_get manifest ''id'' in if nullish i then [] else str_of i))"

definition desired_truthy :: "(string \<rightharpoonup> bool) \<Rightarrow> string \<Rightarrow> bool" where
  "desired_truthy desiredEnabled key =
     (case desiredEnabled key of Some b \<Rightarrow> b | None \<Rightarrow> key \<in> set object_prototype_keys)"

definition failed_item :: "plugin_env \<Rightarrow> loaded_descriptor \<Rightarrow> string \<Rightarrow> plugin_registry_item" where
  "failed_item env d message =
     \<lparr>pr_manifest = ManifestRaw (ld_manifest d), pr_status = PsFailed, pr_source = ld_source d,
      pr_sourceRef = ld_sourceRef d, pr_grantedPermissions = [], pr_lastError = Some (JStr message),
      pr_discoveredAt = pe_now env, pr_updatedAt = pe_now env, pr_commands = [], pr_panels = []\<rparr>"

definition carried_status :: "plugin_registry_item option \<Rightarrow> bool \<Rightarrow> plugin_status" where
  "carried_status existing shouldEnable =
     (case existing of
        None \<Rightarrow> PsDiscovered
      | Some e \<Rightarrow> if pr_status e = PsEnabled \<and> shouldEnable then PsInstalled else pr_status e)"

definition discovered_item ::
    "plugin_env \<Rightarrow> loaded_descriptor \<Rightarrow> plugin_manifest \<Rightarrow> plugin_registry_item option \<Rightarrow> bool \<Rightarrow> plugin_registry_item" where
  "discovered_item env d m existing shouldEnable =
     \<lparr>pr_manifest = ManifestOk m, pr_status = carried_status existing shouldEnable, pr_source = ld_source d,
      pr_sourceRef = ld_sourceRef d,
      pr_grantedPermissions = (case existing of None \<Rightarrow> [] | Some e \<Rightarrow> pr_grantedPermissions e),
      pr_lastError = Option.bind existing pr_lastError,
      pr_discoveredAt = (case existing of None \<Rightarrow> pe_now env | Some e \<Rightarrow> pr_discoveredAt e),
      pr_updatedAt = pe_now env,
      pr_commands = (case existing of None \<Rightarrow> [] | Some e \<Rightarrow> pr_commands e),
      pr_panels = (case existing of None \<Rightarrow> [] | Some e \<Rightarrow> pr_panels e)\<rparr>"

text \<open>
  The loop over the descriptors, with the registry as it was (\<open>old\<close>) and the accumulated
  \<open>nextRegistry\<close>, \<open>seenIDs\<close> and \<open>this.descriptors\<close>. \<open>None\<close> if it throws; the descriptors read until
  then stay set.
\<close>

record discovery =
  dc_registry :: "plugin_registry_item list"
  dc_seen :: "string list"
  dc_descriptors :: "(string \<times> plugin_descriptor) list"

definition discover_one :: "plugin_env \<Rightarrow> plugin_registry_item list \<Rightarrow> (string \<rightharpoonup> bool) \<Rightarrow> loaded_descriptor
    \<Rightarrow> discovery \<Rightarrow> discovery option" where
  "discover_one env old desired d acc =
     (case validatePluginDescriptor d of
        Inl (code, message) \<Rightarrow>
          (case raw_plugin_id (ld_manifest d) of
             None \<Rightarrow> None
           | Some pluginId \<Rightarrow>
               if length pluginId = 0 \<or> pluginId \<in> set (dc_seen acc) then Some acc
               else Some (acc\<lparr>dc_seen := dc_seen acc @ [pluginId],
                              dc_registry := dc_registry acc @ [failed_item env d message]\<rparr>))
      | Inr m \<Rightarrow>
          let pluginId = pm_id m in
          if length pluginId = 0 \<or> pluginId \<in> set (dc_seen acc) then Some acc
          else Some (acc\<lparr>dc_seen := dc_seen acc @ [pluginId],
                 dc_registry := dc_registry acc @ [discovered_item env d m (find (has_id pluginId) (rev old)) (desired pluginId = Some True)],
                 dc_descriptors := map_set pluginId \<lparr>pd_manifest = m, pd_source = ld_source d, pd_sourceRef = ld_sourceRef d,
                   pd_entrypointCode = ld_entrypointCode d\<rparr> (dc_descriptors acc)\<rparr>))"

fun discover_loop :: "plugin_env \<Rightarrow> plugin_registry_item list \<Rightarrow> (string \<rightharpoonup> bool) \<Rightarrow> loaded_descriptor list
    \<Rightarrow> discovery \<Rightarrow> bool \<times> discovery" where
  "discover_loop env old desired [] acc = (True, acc)"
| "discover_loop env old desired (d # ds) acc =
     (case discover_one env old desired d acc of
        None \<Rightarrow> (False, acc)
      | Some acc' \<Rightarrow> discover_loop env old desired ds acc')"

text \<open>\<open>refreshDiscovery\<close> once \<open>discoverLocalPlugins\<close> has answered with \<open>localDescriptors\<close>.\<close>

definition wanted_ids :: "(string \<rightharpoonup> bool) \<Rightarrow> plugin_registry_item list \<Rightarrow> json list" where
  "wanted_ids desired items = List.map_filter (\<lambda>item. case registry_id item of
      None \<Rightarrow> None | Some j \<Rightarrow> if desired_truthy desired (to_str j) then Some j else None) items"

definition refreshDiscovery :: "plugin_env \<Rightarrow> (string \<Rightarrow> string) \<Rightarrow> loaded_descriptor list \<Rightarrow> plugin_host \<Rightarrow> plugin_host" where
  "refreshDiscovery env code localDescriptors h =
     (let old = pst_registry (ph_store h);
          desired = pst_desiredEnabled (ph_store h);
          (completed, acc) = discover_loop env old desired (bundledPluginDescriptors code @ localDescriptors)
             \<lparr>dc_registry = [], dc_seen = [], dc_descriptors = []\<rparr>;
          h1 = h\<lparr>ph_descriptors := dc_descriptors acc\<rparr>
      in if \<not> completed then h1
         else
           let h2 = set_store (setRegistry (dc_registry acc)) h1;
               stalePluginIDs = filter (\<lambda>p. p \<notin> set (dc_seen acc)) (map fst (ph_active h2));
               h3 = foldl (\<lambda>s p. teardownPlugin p s) h2 stalePluginIDs
           in enable_all env (wanted_ids desired (dc_registry acc)) h3)"

subsection \<open>Messages from the iframes\<close>

text \<open>
  \<open>findInstanceForMessage\<close>: \<open>source\<close> is the number of the iframe whose window sent the message, and
  \<open>None\<close> for any other window. The result is the key of the active map and the instance.
\<close>

definition findInstanceForMessage :: "nat option \<Rightarrow> json \<Rightarrow> plugin_host \<Rightarrow> (string \<times> nat \<times> plugin_instance) option" where
  "findInstanceForMessage source data h =
     (let by_source = (case source of None \<Rightarrow> None
                       | Some n \<Rightarrow> find (\<lambda>(p, m). m = n) (ph_active h)) in
      case by_source of
        Some (p, n) \<Rightarrow> map_option (\<lambda>i. (p, n, i)) (ph_objects h n)
      | None \<Rightarrow>
          if \<not> truthy (json_get data ''pluginId'') then None
          else
            let p = str_of (json_get data ''pluginId'') in
            case map_get (ph_active h) p of
              None \<Rightarrow> None
            | Some n \<Rightarrow>
                (case ph_objects h n of
                   None \<Rightarrow> None
                 | Some i \<Rightarrow>
                     if truthy (json_get data ''bootstrapToken'') \<and> json_get data ''bootstrapToken'' \<noteq> Some (JStr (pi_bootstrapToken i))
                     then None else Some (p, n, i)))"

definition fail_self :: "plugin_env \<Rightarrow> plugin_instance \<Rightarrow> string \<Rightarrow> plugin_host \<Rightarrow> plugin_host" where
  "fail_self env i message h = failPlugin env (pm_id (pi_manifest i)) (JStr message) h"

definition on_ready :: "plugin_env \<Rightarrow> nat \<Rightarrow> plugin_instance \<Rightarrow> json \<Rightarrow> plugin_host \<Rightarrow> plugin_host" where
  "on_ready env n i data h =
     (if json_get data ''bootstrapToken'' \<noteq> Some (JStr (pi_bootstrapToken i))
      then fail_self env i ''plugin bootstrap token mismatch'' h
      else set_object n (\<lambda>i. i\<lparr>pi_ready := True\<rparr>) h)"

definition on_initialized :: "plugin_env \<Rightarrow> nat \<Rightarrow> plugin_instance \<Rightarrow> json \<Rightarrow> plugin_host \<Rightarrow> plugin_host" where
  "on_initialized env n i data h =
     (if json_get data ''bootstrapToken'' \<noteq> Some (JStr (pi_bootstrapToken i))
      then fail_self env i ''plugin bootstrap token mismatch'' h
      else if json_get data ''runtimeToken'' \<noteq> Some (JStr (pi_runtimeToken i))
      then fail_self env i ''plugin runtime token mismatch'' h
      else set_object n (\<lambda>i. i\<lparr>pi_initialized := True\<rparr>) h)"

definition on_error :: "plugin_env \<Rightarrow> plugin_instance \<Rightarrow> json \<Rightarrow> plugin_host \<Rightarrow> plugin_host" where
  "on_error env i data h =
     (if json_get data ''bootstrapToken'' \<noteq> Some (JStr (pi_bootstrapToken i))
      then fail_self env i ''plugin bootstrap token mismatch'' h
      else if truthy (json_get data ''runtimeToken'') \<and> json_get data ''runtimeToken'' \<noteq> Some (JStr (pi_runtimeToken i))
      then fail_self env i ''plugin runtime token mismatch'' h
      else failPlugin env (pm_id (pi_manifest i))
             (if truthy (json_get data ''message'') then the (json_get data ''message'') else JStr ''plugin runtime error'') h)"

definition on_bridge_request :: "plugin_env \<Rightarrow> nat \<Rightarrow> plugin_instance \<Rightarrow> json \<Rightarrow> plugin_host \<Rightarrow> plugin_host" where
  "on_bridge_request env n i data h =
     (if json_get data ''runtimeToken'' \<noteq> Some (JStr (pi_runtimeToken i))
      then fail_self env i ''plugin bridge token mismatch'' h
      else let (response, h') = processBridgeRequest env n i data h
           in postToPlugin n (HostBridgeResponse (pi_runtimeToken i) response) h')"

definition handleWindowMessage :: "plugin_env \<Rightarrow> nat option \<Rightarrow> string \<Rightarrow> json \<Rightarrow> plugin_host \<Rightarrow> plugin_host" where
  "handleWindowMessage env source origin data h =
     (if \<not> is_object data then h
      else case findInstanceForMessage source data h of
        None \<Rightarrow> h
      | Some (p, n, i) \<Rightarrow>
          if origin \<noteq> ''null'' \<and> origin \<noteq> pe_origin env then fail_self env i ''plugin origin violation'' h
          else if truthy (json_get data ''pluginId'') \<and> str_of (json_get data ''pluginId'') \<noteq> pm_id (pi_manifest i)
          then fail_self env i ''plugin id mismatch'' h
          else if json_get data ''kind'' = Some (JStr ''plugin.runtime.ready'') then on_ready env n i data h
          else if json_get data ''kind'' = Some (JStr ''plugin.runtime.initialized'') then on_initialized env n i data h
          else if json_get data ''kind'' = Some (JStr ''plugin.runtime.error'') then on_error env i data h
          else if json_get data ''kind'' = Some (JStr ''plugin.bridge.request'') then on_bridge_request env n i data h
          else h)"

subsection \<open>The subscription to the messaging store\<close>

fun mode_str :: "transport_mode_state \<Rightarrow> string" where
  "mode_str MNone = ''none''"
| "mode_str MWebsocket = ''websocket''"
| "mode_str MLongPoll = ''long_poll''"

fun transport_status_str :: "transport_status_state \<Rightarrow> string" where
  "transport_status_str StConnecting = ''connecting''"
| "transport_status_str StConnected = ''connected''"
| "transport_status_str StDegraded = ''degraded''"
| "transport_status_str StOffline = ''offline''"

definition or_empty :: "string option \<Rightarrow> string" where
  "or_empty v = (case v of None \<Rightarrow> [] | Some s \<Rightarrow> s)"

definition notify_transport :: "plugin_env \<Rightarrow> messaging_store \<Rightarrow> plugin_host \<Rightarrow> plugin_host" where
  "notify_transport env s h =
     (let t = st_transport s;
          transport = mode_str (ts_mode t) @ '':'' @ transport_status_str (ts_status t) @ '':'' @ or_empty (ts_endpoint t)
      in if transport = ph_transportSnapshot h then h
         else emitEvent env ''transport.state.changed''
                (JObj [(''mode'', JStr (mode_str (ts_mode t))), (''status'', JStr (transport_status_str (ts_status t))),
                   (''endpoint'', jopt (ts_endpoint t)), (''lastError'', ts_lastError t)])
                (h\<lparr>ph_transportSnapshot := transport\<rparr>))"

definition notify_conversation :: "plugin_env \<Rightarrow> messaging_store \<Rightarrow> plugin_host \<Rightarrow> plugin_host" where
  "notify_conversation env s h =
     (let a = active_conversation s;
          activeSnapshot = (case a of None \<Rightarrow> []
            | Some c \<Rightarrow> cv_id c @ '':'' @ cv_updatedAt c @ '':'' @ int_digits (cv_lastServerSequence c))
      in if activeSnapshot = ph_conversationSnapshot h then h
         else emitEvent env ''conversation.changed''
                (JObj [(''conversationId'', jopt (map_option cv_id a)), (''title'', jopt (Option.bind a cv_title)),
                   (''type'', jopt (map_option (\<lambda>c. conversation_type_str (cv_type c)) a)),
                   (''memberCount'', JNum (case a of None \<Rightarrow> 0 | Some c \<Rightarrow> int (length (cv_members c))))])
                (h\<lparr>ph_conversationSnapshot := activeSnapshot\<rparr>))"

definition notify_visible :: "plugin_env \<Rightarrow> messaging_store \<Rightarrow> plugin_host \<Rightarrow> plugin_host" where
  "notify_visible env s h =
     (if or_empty (st_activeConversationId s) = [] then h
      else let c = or_empty (st_activeConversationId s);
               messages = current_messages s c;
               latest = (if messages = [] then None else Some (last messages));
               visibleSnapshot = c @ '':'' @ int_digits (int (length messages)) @ '':''
                 @ or_empty (map_option (\<lambda>m. env_id (msg_envelope m)) latest) @ '':'' @ or_empty (Option.bind latest lm_lastUpdatedAt)
           in if visibleSnapshot = ph_visibleSnapshot h then h
              else emitEvent env ''message.visible''
                     (JObj [(''conversationId'', JStr c), (''count'', JNum (int (length messages))),
                        (''latestMessageId'', jopt (map_option (\<lambda>m. env_id (msg_envelope m)) latest))])
                     (h\<lparr>ph_visibleSnapshot := visibleSnapshot\<rparr>))"

text \<open>A change of the messaging store, and the listener if it is attached.\<close>

definition messaging_changed :: "plugin_env \<Rightarrow> messaging_store \<Rightarrow> plugin_host \<Rightarrow> plugin_host" where
  "messaging_changed env s h =
     (let h' = h\<lparr>ph_messaging := s\<rparr> in
      if \<not> ph_listening h' then h'
      else notify_visible env s (notify_conversation env s (notify_transport env s h')))"

text \<open>\<open>start\<close> up to the answer of the local discovery, which is the event \<open>EvRefresh\<close>.\<close>

definition start :: "plugin_host \<Rightarrow> plugin_host" where
  "start h = (if ph_started h then h else h\<lparr>ph_started := True, ph_listening := True\<rparr>)"

subsection \<open>The host as a transition system\<close>

datatype host_event =
    EvStart | EvStop
  | EvRefresh "string \<Rightarrow> string" "loaded_descriptor list"
  | EvEnable string | EvDisable string | EvInstall string | EvExecute string string
  | EvWindowMessage "nat option" string json
  | EvBootContinue nat | EvBootTimeout nat
  | EvMessaging messaging_store

fun host_step :: "plugin_env \<Rightarrow> host_event \<Rightarrow> plugin_host \<Rightarrow> plugin_host" where
  "host_step env EvStart h = start h"
| "host_step env EvStop h = stop h"
| "host_step env (EvRefresh code ds) h = refreshDiscovery env code ds h"
| "host_step env (EvEnable p) h = enable env p h"
| "host_step env (EvDisable p) h = disable env p h"
| "host_step env (EvInstall p) h = install env p h"
| "host_step env (EvExecute p c) h = executeCommand env p c h"
| "host_step env (EvWindowMessage src origin data) h = handleWindowMessage env src origin data h"
| "host_step env (EvBootContinue k) h = boot_continue env k h"
| "host_step env (EvBootTimeout k) h = boot_timeout env k h"
| "host_step env (EvMessaging s) h = messaging_changed env s h"

definition initial_host :: "(string \<rightharpoonup> bool) \<Rightarrow> (string \<times> string) list \<Rightarrow> messaging_store \<Rightarrow> plugin_host" where
  "initial_host desired local messaging =
     \<lparr>ph_started = False, ph_descriptors = [], ph_active = [], ph_objects = Map.empty, ph_next = 0, ph_tasks = [],
      ph_listening = False, ph_transportSnapshot = [], ph_conversationSnapshot = [], ph_visibleSnapshot = [],
      ph_store = rehydrate_plugins desired, ph_local = local, ph_messaging = messaging, ph_posts = [], ph_random = 0\<rparr>"

inductive host_reachable :: "plugin_host \<Rightarrow> bool" where
  host_init: "host_reachable (initial_host desired local messaging)"
| host_next: "host_reachable h \<Longrightarrow> host_reachable (host_step env ev h)"

inductive_cases host_reachableE: "host_reachable h"

subsection \<open>The invariant of the host\<close>

definition manifest_ok :: "plugin_manifest \<Rightarrow> bool" where
  "manifest_ok m \<longleftrightarrow> idPattern (pm_id m) \<and> set (pm_requestedPermissions m) \<subseteq> set allowedV1Capabilities
     \<and> set (pm_declaredHooks m) \<subseteq> set allowedHooks"

definition inst_inv :: "plugin_instance \<Rightarrow> bool" where
  "inst_inv i \<longleftrightarrow> instance_ok i \<and> manifest_ok (pi_manifest i)
     \<and> set (pi_grantedPermissions i) = set (pm_requestedPermissions (pi_manifest i))"

lemma inst_inv_flags [simp]:
  "inst_inv (i\<lparr>pi_attached := b\<rparr>) = inst_inv i" "inst_inv (i\<lparr>pi_ready := b\<rparr>) = inst_inv i"
  "inst_inv (i\<lparr>pi_initialized := b\<rparr>) = inst_inv i"
  by (simp_all add: inst_inv_def instance_ok_def)

definition active_ok :: "plugin_host \<Rightarrow> bool" where
  "active_ok h \<longleftrightarrow> distinct (map fst (ph_active h)) \<and> distinct (map snd (ph_active h))
     \<and> (\<forall>(p, n) \<in> set (ph_active h). \<exists>i. ph_objects h n = Some i \<and> pm_id (pi_manifest i) = p \<and> pi_attached i)"

definition objects_ok :: "plugin_host \<Rightarrow> bool" where
  "objects_ok h \<longleftrightarrow> (\<forall>n i. ph_objects h n = Some i \<longrightarrow> n < ph_next h \<and> inst_inv i)"

definition descriptors_ok :: "plugin_host \<Rightarrow> bool" where
  "descriptors_ok h \<longleftrightarrow> (\<forall>(p, d) \<in> set (ph_descriptors h). pm_id (pd_manifest d) = p \<and> manifest_ok (pd_manifest d))"

definition tasks_ok :: "plugin_host \<Rightarrow> bool" where
  "tasks_ok h \<longleftrightarrow> (\<forall>t \<in> set (ph_tasks h). manifest_ok (bt_manifest t) \<and> pm_id (bt_manifest t) = bt_plugin t
     \<and> (\<exists>i. ph_objects h (bt_object t) = Some i \<and> pi_manifest i = bt_manifest t))"

definition pstore_ok :: "plugin_host \<Rightarrow> bool" where
  "pstore_ok h \<longleftrightarrow> contributors (ph_store h) \<subseteq> fst ` set (ph_active h) \<and> distinct (registry_ids (ph_store h))"

definition host_ok :: "plugin_host \<Rightarrow> bool" where
  "host_ok h \<longleftrightarrow> active_ok h \<and> objects_ok h \<and> descriptors_ok h \<and> tasks_ok h \<and> pstore_ok h"

lemmas host_ok_defs = host_ok_def active_ok_def objects_ok_def descriptors_ok_def tasks_ok_def pstore_ok_def

lemma host_okD:
  assumes "host_ok h"
  shows "map_get (ph_active h) p = Some n \<Longrightarrow> \<exists>i. ph_objects h n = Some i \<and> pm_id (pi_manifest i) = p \<and> pi_attached i \<and> inst_inv i"
    and "map_get (ph_descriptors h) p = Some d \<Longrightarrow> pm_id (pd_manifest d) = p \<and> manifest_ok (pd_manifest d)"
    and "ph_objects h n = Some i \<Longrightarrow> inst_inv i"
proof -
  show "\<exists>i. ph_objects h n = Some i \<and> pm_id (pi_manifest i) = p \<and> pi_attached i \<and> inst_inv i"
    if "map_get (ph_active h) p = Some n"
    using that assms map_of_SomeD [of "ph_active h" p n] by (fastforce simp: host_ok_defs)
  show "pm_id (pd_manifest d) = p \<and> manifest_ok (pd_manifest d)" if "map_get (ph_descriptors h) p = Some d"
    using that assms map_of_SomeD [of "ph_descriptors h" p d] by (fastforce simp: host_ok_defs)
  show "inst_inv i" if "ph_objects h n = Some i" using that assms by (auto simp: host_ok_defs)
qed

text \<open>The two ways a step touches the host: an object's own fields, and the plugin store.\<close>

lemma host_ok_set_object:
  assumes h: "host_ok h"
    and f: "\<And>i. ph_objects h n = Some i \<Longrightarrow> inst_inv i \<Longrightarrow>
      inst_inv (f i) \<and> pi_manifest (f i) = pi_manifest i \<and> pi_attached (f i) = pi_attached i"
  shows "host_ok (set_object n f h)"
proof -
  have "objects_ok (set_object n f h)" using h f by (auto simp: host_ok_def objects_ok_def set_object_def)
  moreover have "active_ok (set_object n f h)"
    using h f by (fastforce simp: host_ok_def active_ok_def objects_ok_def set_object_def)
  moreover have "tasks_ok (set_object n f h)"
    using h f by (fastforce simp: host_ok_def tasks_ok_def objects_ok_def set_object_def)
  ultimately show ?thesis using h by (simp add: host_ok_def descriptors_ok_def pstore_ok_def set_object_def)
qed

lemma host_ok_set_store:
  assumes "host_ok h" "contributors (g (ph_store h)) \<subseteq> fst ` set (ph_active h)" "distinct (registry_ids (g (ph_store h)))"
  shows "host_ok (set_store g h)"
  using assms by (simp add: host_ok_defs set_store_def)

lemma host_okE:
  assumes "host_ok h"
  shows "contributors (ph_store h) \<subseteq> fst ` set (ph_active h)" "distinct (registry_ids (ph_store h))"
  using assms by (simp_all add: host_ok_defs)

lemma host_ok_frame_simps [simp]:
  "host_ok (h\<lparr>ph_local := l\<rparr>) = host_ok h" "host_ok (h\<lparr>ph_posts := ps\<rparr>) = host_ok h"
  "host_ok (h\<lparr>ph_messaging := ms\<rparr>) = host_ok h" "host_ok (h\<lparr>ph_random := r\<rparr>) = host_ok h"
  "host_ok (h\<lparr>ph_transportSnapshot := a\<rparr>) = host_ok h" "host_ok (h\<lparr>ph_conversationSnapshot := a\<rparr>) = host_ok h"
  "host_ok (h\<lparr>ph_visibleSnapshot := a\<rparr>) = host_ok h" "host_ok (h\<lparr>ph_started := b, ph_listening := c\<rparr>) = host_ok h"
  by (simp_all add: host_ok_defs)

named_theorems host_intros

lemma host_ok_set_status [host_intros]: "host_ok h \<Longrightarrow> host_ok (set_status env p st e h)"
  by (simp add: set_status_def host_ok_set_store store_simps host_okE)

lemma host_ok_desired [host_intros]: "host_ok h \<Longrightarrow> host_ok (set_store (setDesiredEnabled p b) h)"
  by (simp add: host_ok_set_store store_simps host_okE)

lemma host_ok_notice [host_intros]: "host_ok h \<Longrightarrow> host_ok (add_notice env p m h)"
  by (simp add: add_notice_def fresh_id_def host_ok_set_store store_simps host_okE)

lemma registry_ids_upsert:
  "registry_id item \<in> set (registry_ids s) \<Longrightarrow> registry_ids (upsertRegistryItem item s) = registry_ids s"
  unfolding registry_ids_def upsertRegistryItem_def
  by (auto simp: upsert_registry_list_def map_key_list_update find_index_None split: option.split dest!: find_index_Some)

lemma find_registry_in: "find_registry p s = Some item \<Longrightarrow> registry_id item \<in> set (registry_ids s)"
  by (auto simp: find_registry_def registry_ids_def find_Some_iff)

lemma host_ok_upsert [host_intros]:
  "host_ok h \<Longrightarrow> registry_id item \<in> set (registry_ids (ph_store h)) \<Longrightarrow> host_ok (set_store (upsertRegistryItem item) h)"
  by (simp add: host_ok_set_store store_simps host_okE registry_ids_upsert)

lemma host_ok_raw_status [host_intros]: "host_ok h \<Longrightarrow> host_ok (set_store (update_raw_status now j) h)"
proof (rule host_ok_set_store)
  assume h: "host_ok h"
  show "contributors (update_raw_status now j (ph_store h)) \<subseteq> fst ` set (ph_active h)"
    using host_okE [OF h] by (simp add: contributors_def update_raw_status_def)
  have "registry_ids (update_raw_status now j (ph_store h)) = registry_ids (ph_store h)"
    by (simp add: registry_ids_def update_raw_status_def)
  then show "distinct (registry_ids (update_raw_status now j (ph_store h)))" using host_okE [OF h] by simp
qed

lemma host_ok_post [host_intros]: "host_ok h \<Longrightarrow> host_ok (postToPlugin n m h)"
  by (simp add: postToPlugin_def split: option.split)

lemma host_ok_drop_task [host_intros]: "host_ok h \<Longrightarrow> host_ok (drop_task k h)"
  by (auto simp: host_ok_defs drop_task_def dest!: in_set_takeD in_set_dropD)

lemma host_ok_sync [host_intros]: assumes h: "host_ok h" shows "host_ok (syncPluginRuntimeCollections env p h)"
proof (cases "Option.bind (map_get (ph_active h) p) (ph_objects h)")
  case None
  then show ?thesis using h by (simp add: syncPluginRuntimeCollections_def)
next
  case (Some i)
  then obtain n where n: "map_get (ph_active h) p = Some n" "ph_objects h n = Some i" by (auto simp: bind_eq_Some_conv)
  then have i: "pm_id (pi_manifest i) = p" "instance_ok i" using host_okD(1) [OF h n(1)] by (auto simp: inst_inv_def)
  have p: "p \<in> fst ` set (ph_active h)" using map_of_SomeD [OF n(1)] by force
  have "contributors (replacePluginCommands now p (pi_commands i) (ph_store h)) \<subseteq> insert p (contributors (ph_store h))" for now
    using i by (intro contributors_replace) (auto simp: instance_ok_def)
  moreover have "contributors (replacePluginPanels now p (pi_panels i) s) \<subseteq> insert p (contributors s)" for now s
    using i by (intro contributors_replace) (auto simp: instance_ok_def)
  ultimately have c: "contributors (replacePluginPanels (pe_now env) p (pi_panels i)
      (replacePluginCommands (pe_now env) p (pi_commands i) (ph_store h))) \<subseteq> fst ` set (ph_active h)"
    using host_okE(1) [OF h] p by (meson insert_subset order_trans subset_insertI)
  have "set_store f (set_store g h) = set_store (\<lambda>s. f (g s)) h" for f g by (simp add: set_store_def)
  then show ?thesis
    using Some h c by (simp add: syncPluginRuntimeCollections_def host_ok_set_store store_simps host_okE)
qed

lemma map_remove_fst: "distinct (map fst m) \<Longrightarrow> fst ` set (map_remove k m) = fst ` set m - {k}"
  by (auto simp: map_remove_def)

lemma distinct_map_map_remove: "distinct (map f m) \<Longrightarrow> distinct (map f (map_remove k m))"
  by (simp add: map_remove_def distinct_map_filter)

lemma host_ok_teardown [host_intros]:
  assumes h: "host_ok h" shows "host_ok (teardownPlugin p h)"
proof (cases "map_get (ph_active h) p")
  case None
  then show ?thesis using h by (simp add: teardownPlugin_def)
next
  case (Some n)
  have d: "distinct (map fst (ph_active h))" "distinct (map snd (ph_active h))" using h by (simp_all add: host_ok_defs)
  have other: "m \<noteq> n" if "(q, m) \<in> set (map_remove p (ph_active h))" for q m
  proof
    assume "m = n"
    then have "(q, n) \<in> set (ph_active h)" "q \<noteq> p" using that by (auto simp: map_remove_def)
    moreover have "inj_on snd (set (ph_active h))" using d(2) by (simp add: distinct_map)
    ultimately show False using map_of_SomeD [OF Some] by (auto dest: inj_onD [where x = "(q, n)" and y = "(p, n)"])
  qed
  let ?h = "(set_object n (\<lambda>i. i\<lparr>pi_attached := False\<rparr>) h)\<lparr>ph_active := map_remove p (ph_active h)\<rparr>"
  have "\<exists>i. ph_objects ?h m = Some i \<and> pm_id (pi_manifest i) = q \<and> pi_attached i"
    if "(q, m) \<in> set (map_remove p (ph_active h))" for q m
    using that other [OF that] h by (fastforce simp: host_ok_defs set_object_def map_remove_def)
  then have "active_ok ?h" using d by (auto simp: active_ok_def distinct_map_map_remove)
  moreover have "objects_ok ?h"
    using h by (auto simp: host_ok_def objects_ok_def set_object_def)
  moreover have "tasks_ok ?h" using h by (fastforce simp: host_ok_def tasks_ok_def set_object_def)
  moreover have "descriptors_ok ?h" using h by (simp add: host_ok_def descriptors_ok_def set_object_def)
  ultimately have "host_ok (set_store (clearPluginRuntimeState p) ?h)"
    using host_okE [OF h] d map_remove_fst [of "ph_active h" p]
    by (auto simp: host_ok_def active_ok_def objects_ok_def tasks_ok_def descriptors_ok_def pstore_ok_def set_store_def
        contributors_simps registry_ids_simps set_object_def)
  then show ?thesis using Some by (simp add: teardownPlugin_def)
qed

lemma host_ok_fail [host_intros]: "host_ok h \<Longrightarrow> host_ok (failPlugin env p m h)"
  by (simp add: failPlugin_def host_ok_notice host_ok_set_status [unfolded set_status_def] host_ok_teardown)

lemma host_ok_foldl_teardown [host_intros]: "host_ok h \<Longrightarrow> host_ok (foldl (\<lambda>s p. teardownPlugin p s) h ps)"
  by (induction ps arbitrary: h) (simp_all add: host_ok_teardown)

lemma teardown_active: "ph_active (teardownPlugin p h) = map_remove p (ph_active h)"
proof (cases "map_get (ph_active h) p")
  case None
  then have "p \<notin> fst ` set (ph_active h)" by (simp add: map_of_eq_None_iff)
  then have "map_remove p (ph_active h) = ph_active h" by (force simp: map_remove_def filter_id_conv)
  then show ?thesis using None by (simp add: teardownPlugin_def)
qed (simp add: teardownPlugin_def store_simps)

lemma foldl_teardown_active:
  "ph_active (foldl (\<lambda>s p. teardownPlugin p s) h ps) = filter (\<lambda>(q, _). q \<notin> set ps) (ph_active h)"
proof (induction ps arbitrary: h)
  case Nil
  then show ?case by simp
next
  case (Cons p ps)
  have "filter (\<lambda>(q, _). q \<notin> set ps) (map_remove p m) = filter (\<lambda>(q, _). q \<notin> set (p # ps)) m" for m :: "(string \<times> nat) list"
    by (induction m) (auto simp: map_remove_def)
  then show ?case using Cons by (simp add: teardown_active)
qed

lemma stop_active: "ph_started h \<Longrightarrow> ph_active (stop h) = []"
  by (simp add: stop_def)

lemma stop_unfold:
  assumes "ph_started h"
  shows "stop h = foldl (\<lambda>s p. teardownPlugin p s) (h\<lparr>ph_started := False, ph_listening := False\<rparr>) (map fst (ph_active h))"
    (is "_ = ?r")
proof -
  have "ph_active ?r = []" by (auto simp: foldl_teardown_active filter_empty_conv) (metis fst_conv image_eqI)
  then have "?r\<lparr>ph_active := []\<rparr> = ?r" by simp
  then show ?thesis using assms by (simp add: stop_def)
qed

lemma host_ok_stop [host_intros]: "host_ok h \<Longrightarrow> host_ok (stop h)"
  using stop_unfold [of h] host_ok_foldl_teardown [of "h\<lparr>ph_started := False, ph_listening := False\<rparr>"]
  by (cases "ph_started h") (simp_all add: stop_def)

lemma inst_inv_create:
  "manifest_ok (pd_manifest d) \<Longrightarrow> inst_inv (createActiveInstance d b r)"
  by (simp add: inst_inv_def instance_ok_def createActiveInstance_def)

lemma manifest_ok_caps: "manifest_ok m \<Longrightarrow> find (\<lambda>c. \<not> isCapabilityAllowedInV1 c) (pm_requestedPermissions m) = None"
  by (auto simp: find_None_iff isCapabilityAllowedInV1_iff manifest_ok_def)

lemma host_ok_new_instance:
  assumes h: "host_ok h" and i: "inst_inv i" "pi_attached i" and p: "pm_id (pi_manifest i) = p" "p \<notin> fst ` set (ph_active h)"
  shows "host_ok (h\<lparr>ph_next := Suc (ph_next h), ph_objects := (ph_objects h)(ph_next h \<mapsto> i),
    ph_active := ph_active h @ [(p, ph_next h)]\<rparr>)" (is "host_ok ?h")
proof -
  have new: "n < ph_next h" if "(q, n) \<in> set (ph_active h)" for q n using h that by (fastforce simp: host_ok_defs)
  have "ph_next h \<notin> snd ` set (ph_active h)" using new by auto (metis less_irrefl)
  then have "active_ok ?h" using h i p new by (fastforce simp: host_ok_def active_ok_def)
  moreover have "objects_ok ?h" using h i by (auto simp: host_ok_def objects_ok_def less_Suc_eq)
  moreover have "descriptors_ok ?h" using h by (simp add: host_ok_def descriptors_ok_def)
  moreover have "bt_object t < ph_next h" if "t \<in> set (ph_tasks h)" for t using h that by (fastforce simp: host_ok_defs)
  then have "tasks_ok ?h" using h by (fastforce simp: host_ok_def tasks_ok_def)
  moreover have "pstore_ok ?h" using h by (auto simp: host_ok_def pstore_ok_def)
  ultimately show ?thesis by (simp add: host_ok_def)
qed

lemma enable_begin_ok:
  assumes h: "host_ok h" and e: "enable_begin env p h = (h', t)"
  shows "host_ok h'" "t = Some (n, m) \<Longrightarrow> manifest_ok m \<and> pm_id m = p \<and> (\<exists>i. ph_objects h' n = Some i \<and> pi_manifest i = m)"
proof -
  show "host_ok h'"
  proof (cases "map_get (ph_descriptors h) p")
    case None
    then show ?thesis using e h by (auto simp: enable_begin_def host_intros)
  next
    case (Some d)
    have d: "pm_id (pd_manifest d) = p" "manifest_ok (pd_manifest d)" using host_okD(2) [OF h Some] by auto
    show ?thesis
    proof (cases "map_get (ph_active h) p")
      case (Some k)
      then show ?thesis using e h \<open>map_get (ph_descriptors h) p = Some d\<close> manifest_ok_caps [OF d(2)]
        by (auto simp: enable_begin_def Let_def host_intros store_simps)
    next
      case None
      have p: "p \<notin> fst ` set (ph_active h)" using None by (simp add: map_of_eq_None_iff)
      let ?h = "(set_store (setDesiredEnabled p True) h)\<lparr>ph_random := Suc (Suc (ph_random h))\<rparr>"
      let ?i = "createActiveInstance d (pe_random env (ph_random h)) (pe_random env (Suc (ph_random h)))"
      have "h' = ?h\<lparr>ph_next := Suc (ph_next ?h), ph_objects := (ph_objects ?h)(ph_next ?h \<mapsto> ?i),
          ph_active := ph_active ?h @ [(p, ph_next ?h)]\<rparr>"
        using e Some None manifest_ok_caps [OF d(2)] map_set_fresh [OF p]
        by (auto simp: enable_begin_def Let_def store_simps fresh_id_def set_store_def)
      moreover have "host_ok ?h" using host_ok_desired [OF h] by simp
      moreover have "pi_attached ?i" "pm_id (pi_manifest ?i) = p" using d by (simp_all add: createActiveInstance_def)
      moreover have "p \<notin> fst ` set (ph_active ?h)" using p by (simp add: store_simps)
      ultimately show ?thesis using host_ok_new_instance [OF _ inst_inv_create [OF d(2)]] by blast
    qed
  qed
  show "manifest_ok m \<and> pm_id m = p \<and> (\<exists>i. ph_objects h' n = Some i \<and> pi_manifest i = m)" if "t = Some (n, m)"
    using that e h host_okD(2) [OF h] 
    by (auto simp: enable_begin_def Let_def fresh_id_def createActiveInstance_def split: option.splits if_splits)
qed


lemma host_ok_add_task:
  assumes "host_ok h" "manifest_ok m" "pm_id m = p" "ph_objects h n = Some i" "pi_manifest i = m"
  shows "host_ok (h\<lparr>ph_tasks := ph_tasks h @ [\<lparr>bt_plugin = p, bt_object = n, bt_manifest = m, bt_phase = ph, bt_then = rest\<rparr>]\<rparr>)"
  using assms by (auto simp: host_ok_defs)

lemma host_ok_enable_all [host_intros]: "host_ok h \<Longrightarrow> host_ok (enable_all env js h)"
proof (induction env js h rule: enable_all.induct)
  case (2 env p rest h)
  obtain h' t where e: "enable_begin env p h = (h', t)" by fastforce
  show ?case
  proof (cases t)
    case None
    then show ?thesis using e 2 enable_begin_ok(1) [OF 2(2) e] by simp
  next
    case (Some nm)
    then obtain n m where nm: "t = Some (n, m)" by (cases nm) auto
    then show ?thesis using e enable_begin_ok [OF 2(2) e] by (auto intro!: host_ok_add_task)
  qed
qed (simp_all add: host_ok_raw_status)

lemma host_ok_enable [host_intros]: "host_ok h \<Longrightarrow> host_ok (enable env p h)"
  by (simp add: enable_def host_ok_enable_all del: enable_all.simps)

lemma host_ok_finish [host_intros]: "host_ok h \<Longrightarrow> host_ok (finish_enable env t h)"
  unfolding finish_enable_def
  by (intro host_ok_sync) (auto split: option.split intro!: host_ok_upsert host_ok_set_status dest: find_registry_in)

lemma host_ok_phase:
  "host_ok h \<Longrightarrow> k < length (ph_tasks h) \<Longrightarrow> host_ok (h\<lparr>ph_tasks := (ph_tasks h)[k := (ph_tasks h ! k)\<lparr>bt_phase := ph\<rparr>]\<rparr>)"
  by (auto simp: host_ok_defs dest!: set_update_subset_insert [THEN subsetD] dest: nth_mem)

lemma host_ok_boot_continue [host_intros]: "host_ok h \<Longrightarrow> host_ok (boot_continue env k h)"
  by (auto simp: boot_continue_def Let_def split: option.split boot_phase.split
      intro!: host_ok_enable_all host_ok_finish host_ok_drop_task host_ok_post host_ok_phase)

lemma host_ok_boot_timeout [host_intros]: "host_ok h \<Longrightarrow> host_ok (boot_timeout env k h)"
  by (auto simp: boot_timeout_def Let_def split: option.split boot_phase.split
      intro!: host_ok_enable_all host_ok_fail host_ok_drop_task)

lemma host_ok_disable [host_intros]: "host_ok h \<Longrightarrow> host_ok (disable env p h)"
  unfolding disable_def Let_def
  by (auto split: option.split intro!: host_ok_upsert host_ok_set_status host_ok_teardown host_ok_desired
      simp: find_Some_iff registry_ids_def)

lemma host_ok_install [host_intros]: "host_ok h \<Longrightarrow> host_ok (install env p h)"
  by (auto simp: install_def split: option.split intro!: host_ok_upsert host_ok_set_status dest: find_registry_in)

lemma host_ok_emit_fold: "host_ok h \<Longrightarrow> host_ok (fold (emit_to env e payload) ps h)"
  by (induction ps arbitrary: h) (auto simp: emit_to_def host_ok_post split: option.split)

lemma host_ok_emit [host_intros]: "host_ok h \<Longrightarrow> host_ok (emitEvent env e payload h)"
  by (simp add: emitEvent_def Let_def fresh_id_def host_ok_emit_fold)

lemma host_ok_execute [host_intros]: "host_ok h \<Longrightarrow> host_ok (executeCommand env p c h)"
  by (auto simp: executeCommand_def split: option.split intro!: host_ok_emit host_ok_post host_ok_notice)

lemma host_ok_messaging [host_intros]: "host_ok h \<Longrightarrow> host_ok (messaging_changed env s h)"
  by (simp add: messaging_changed_def notify_visible_def notify_conversation_def notify_transport_def Let_def host_ok_emit)

lemma host_ok_start [host_intros]: "host_ok h \<Longrightarrow> host_ok (start h)"
  by (simp add: start_def)

subsection \<open>Discovery keeps the registry unique and the descriptors valid\<close>

definition discovery_ok :: "discovery \<Rightarrow> bool" where
  "discovery_ok a \<longleftrightarrow> distinct (map registry_id (dc_registry a))
     \<and> (\<forall>item \<in> set (dc_registry a). \<exists>j. registry_id item = Some j \<and> to_str j \<in> set (dc_seen a))
     \<and> (\<forall>(p, d) \<in> set (dc_descriptors a). pm_id (pd_manifest d) = p \<and> manifest_ok (pd_manifest d))"

lemma manifest_ok_validated: "validatePluginDescriptor d = Inr m \<Longrightarrow> manifest_ok m"
  using validate_Inr [of d m] by (auto simp: manifest_ok_def isCapabilityAllowedInV1_iff)

lemma map_set_subset: "x \<in> set (map_set k v m) \<Longrightarrow> x = (k, v) \<or> x \<in> set m"
  by (induction m) (auto split: if_splits)

lemma discovery_ok_push:
  assumes "discovery_ok a" "registry_id item = Some j" "to_str j \<notin> set (dc_seen a)"
  shows "discovery_ok (a\<lparr>dc_seen := dc_seen a @ [to_str j], dc_registry := dc_registry a @ [item]\<rparr>)"
  using assms by (fastforce simp: discovery_ok_def)

lemma discover_one_ok:
  assumes a: "discovery_ok a" and o: "discover_one env old desired d a = Some a'"
  shows "discovery_ok a'"
proof (cases "validatePluginDescriptor d")
  case (Inl e)
  obtain code msg where e: "e = (code, msg)" by (cases e)
  from o Inl e obtain p where p: "raw_plugin_id (ld_manifest d) = Some p"
    and a': "a' = (if length p = 0 \<or> p \<in> set (dc_seen a) then a
      else a\<lparr>dc_seen := dc_seen a @ [p], dc_registry := dc_registry a @ [failed_item env d msg]\<rparr>)"
    by (auto simp: discover_one_def split: option.splits if_splits)
  show ?thesis
  proof (cases "length p = 0 \<or> p \<in> set (dc_seen a)")
    case True
    then show ?thesis using a a' by auto
  next
    case False
    then obtain j where j: "json_get (ld_manifest d) ''id'' = Some j" "to_str j = p"
      using p by (cases "json_get (ld_manifest d) ''id''") (auto simp: raw_plugin_id_def Let_def str_of_def split: if_splits)
    then have "registry_id (failed_item env d msg) = Some j" by (simp add: registry_id_def failed_item_def)
    then show ?thesis using discovery_ok_push [OF a] j False a' by auto
  qed
next
  case (Inr m)
  note m = manifest_ok_validated [OF Inr]
  show ?thesis
  proof (cases "length (pm_id m) = 0 \<or> pm_id m \<in> set (dc_seen a)")
    case True
    then show ?thesis using a o Inr by (auto simp: discover_one_def Let_def)
  next
    case False
    let ?item = "discovered_item env d m (find (has_id (pm_id m)) (rev old)) (desired (pm_id m) = Some True)"
    have "registry_id ?item = Some (JStr (pm_id m))" by (simp add: registry_id_def discovered_item_def)
    from discovery_ok_push [OF a this] False
    have "discovery_ok (a\<lparr>dc_seen := dc_seen a @ [pm_id m], dc_registry := dc_registry a @ [?item]\<rparr>)" by simp
    then show ?thesis using o Inr False m
      by (auto simp: discover_one_def Let_def discovery_ok_def dest!: map_set_subset)
  qed
qed

lemma discover_loop_ok: "discovery_ok a \<Longrightarrow> discovery_ok (snd (discover_loop env old desired ds a))"
  by (induction ds arbitrary: a) (auto split: option.split intro: discover_one_ok)

lemma host_ok_discovered:
  assumes h: "host_ok h"
    and l: "discover_loop env old desired ds \<lparr>dc_registry = [], dc_seen = [], dc_descriptors = []\<rparr> = (c, a)"
  shows "host_ok (h\<lparr>ph_descriptors := dc_descriptors a\<rparr>)"
    and "host_ok (set_store (setRegistry (dc_registry a)) (h\<lparr>ph_descriptors := dc_descriptors a\<rparr>))"
proof -
  have a: "discovery_ok a"
    using discover_loop_ok [of "\<lparr>dc_registry = [], dc_seen = [], dc_descriptors = []\<rparr>" env old desired ds] l
    by (simp add: discovery_ok_def)
  then show h1: "host_ok (h\<lparr>ph_descriptors := dc_descriptors a\<rparr>)" using h by (auto simp: host_ok_defs discovery_ok_def)
  have "distinct (registry_ids (setRegistry (dc_registry a) s))" for s
    using a by (simp add: registry_ids_def setRegistry_def discovery_ok_def)
  then show "host_ok (set_store (setRegistry (dc_registry a)) (h\<lparr>ph_descriptors := dc_descriptors a\<rparr>))"
    using h1 host_okE(1) [OF h] by (intro host_ok_set_store) (simp_all add: store_simps)
qed

lemma host_ok_refresh [host_intros]:
  assumes h: "host_ok h" shows "host_ok (refreshDiscovery env code ds h)"
proof -
  obtain c a where l: "discover_loop env (pst_registry (ph_store h)) (pst_desiredEnabled (ph_store h))
      (bundledPluginDescriptors code @ ds) \<lparr>dc_registry = [], dc_seen = [], dc_descriptors = []\<rparr> = (c, a)" by fastforce
  show ?thesis unfolding refreshDiscovery_def Let_def l using host_ok_discovered [OF h l]
    by (auto intro!: host_ok_enable_all host_ok_foldl_teardown)
qed


subsection \<open>Messages keep the invariant\<close>

lemma inst_inv_of_ok:
  assumes "inst_inv i" "instance_ok j" "pi_manifest j = pi_manifest i" "pi_grantedPermissions j = pi_grantedPermissions i"
  shows "inst_inv j"
  using assms by (simp add: inst_inv_def)

lemma method_host_ok:
  assumes h: "host_ok h" and n: "map_get (ph_active h) (pm_id (pi_manifest inst)) = Some n" "ph_objects h n = Some inst"
  shows "''commands.register'' \<in> set (pi_grantedPermissions inst) \<Longrightarrow>
      host_ok (snd (m_registerCommand env n (pm_id (pi_manifest inst)) params h))"
    and "''ui.render'' \<in> set (pi_grantedPermissions inst) \<Longrightarrow>
      host_ok (snd (m_registerPanel env n (pm_id (pi_manifest inst)) params h))"
    and "''ui.render'' \<in> set (pi_grantedPermissions inst) \<Longrightarrow> host_ok (snd (m_setPanelContent env n inst params h))"
    and "''events.subscribe'' \<in> set (pi_grantedPermissions inst) \<Longrightarrow> host_ok (snd (m_subscribe n inst params h))"
    and "host_ok (snd (m_unsubscribe n params h))"
    and "host_ok (snd (m_storageGet env p params h))" "host_ok (snd (m_storageSet env p params h))"
    and "host_ok (snd (m_storageDelete env p params h))" "host_ok (snd (m_storageList env p h))"
    and "host_ok (snd (m_showLocal env p params h))"
proof -
  have i: "inst_inv inst" using host_okD(3) [OF h n(2)] .
  then have ok: "instance_ok inst" by (simp add: inst_inv_def)
  have step: "host_ok (set_object n f h)"
    if "instance_ok (f inst)" "pi_manifest (f inst) = pi_manifest inst" "pi_attached (f inst) = pi_attached inst"
      "pi_grantedPermissions (f inst) = pi_grantedPermissions inst" for f
    using that n(2) i by (intro host_ok_set_object [OF h]) (auto intro: inst_inv_of_ok)
  show "host_ok (snd (m_registerCommand env n (pm_id (pi_manifest inst)) params h))"
    if "''commands.register'' \<in> set (pi_grantedPermissions inst)"
    using that instance_ok_simps(1) [OF ok, of "\<lparr>pc_pluginId = pm_id (pi_manifest inst), pc_id = c, pc_title = t\<rparr>" for c t]
    by (auto simp: m_registerCommand_def Let_def h intro!: host_ok_sync step)
  show "host_ok (snd (m_registerPanel env n (pm_id (pi_manifest inst)) params h))"
    if "''ui.render'' \<in> set (pi_grantedPermissions inst)"
    using that instance_ok_simps(2) [OF ok,
        of "\<lparr>pp_pluginId = pm_id (pi_manifest inst), pp_id = c, pp_title = t, pp_content = []\<rparr>" for c t]
    by (auto simp: m_registerPanel_def Let_def h intro!: host_ok_sync step)
  show "host_ok (snd (m_setPanelContent env n inst params h))"
    if g: "''ui.render'' \<in> set (pi_grantedPermissions inst)"
  proof (cases "find (\<lambda>item. pp_id item = trimmed_param params ''id'') (pi_panels inst)")
    case None
    then show ?thesis by (simp add: m_setPanelContent_def Let_def h)
  next
    case (Some q)
    then have q: "q \<in> set (pi_panels inst)" "pp_id q = trimmed_param params ''id''" by (auto simp: find_Some_iff)
    then have qp: "pp_pluginId q = pm_id (pi_manifest inst)" "runtimeIDPattern (pp_id q)" using ok by (auto simp: instance_ok_def)
    let ?q = "q\<lparr>pp_content := take MAX_PANEL_CONTENT_LENGTH (raw_param params ''content'')\<rparr>"
    let ?f = "\<lambda>i. i\<lparr>pi_panels := filter (\<lambda>item. pp_id item \<noteq> pp_id ?q) (pi_panels i) @ [?q]\<rparr>"
    have "instance_ok (?f inst)" using qp by (intro instance_ok_simps(2) ok g) auto
    then have h1: "host_ok (set_object n ?f h)" by (intro step) auto
    have "contributors (upsertPluginPanel (pe_now env) ?q (ph_store h)) \<subseteq> fst ` set (ph_active h)"
      using contributors_upsertPanel [of "pe_now env" ?q "ph_store h"] host_okE(1) [OF h] map_of_SomeD [OF n(1)] qp
      by force
    then have "host_ok (set_store (upsertPluginPanel (pe_now env) ?q) (set_object n ?f h))"
      using h1 host_okE(2) [OF h] by (intro host_ok_set_store) (simp_all add: store_simps)
    then show ?thesis using Some q by (simp add: m_setPanelContent_def Let_def h)
  qed
  show "host_ok (snd (m_subscribe n inst params h))" if "''events.subscribe'' \<in> set (pi_grantedPermissions inst)"
    using that instance_ok_simps(3) [OF ok] by (auto simp: m_subscribe_def Let_def h intro!: step)
  show "host_ok (snd (m_unsubscribe n params h))"
    using instance_ok_simps(4) [OF ok] by (auto simp: m_unsubscribe_def Let_def h intro!: step)
qed (use h in \<open>simp_all add: m_storageGet_def m_storageSet_def m_storageDelete_def m_storageList_def m_showLocal_def
      Let_def host_ok_notice\<close>)

lemma run_method_host_ok:
  assumes h: "host_ok h" and n: "map_get (ph_active h) (pm_id (pi_manifest inst)) = Some n" "ph_objects h n = Some inst"
    and cap: "map_of pluginCapabilityByMethod (str_of v) = Some cap" "cap \<in> set (pi_grantedPermissions inst)"
  shows "host_ok (snd (run_method env n inst (pm_id (pi_manifest inst)) (as_str v) params h))"
proof -
  have g: "as_str v = Some s \<Longrightarrow> map_of pluginCapabilityByMethod s = Some c \<Longrightarrow> c \<in> set (pi_grantedPermissions inst)" for s c
    using cap str_of_as_str [of v s] by auto
  show ?thesis
    using method_host_ok [OF h n] g [OF _ required_capability(1)] g [OF _ required_capability(2)]
      g [OF _ required_capability(3)] g [OF _ required_capability(4)]
    by (simp add: run_method_def h)
qed

lemma processBridgeRequest_host_ok:
  assumes h: "host_ok h" and n: "map_get (ph_active h) (pm_id (pi_manifest inst)) = Some n" "ph_objects h n = Some inst"
  shows "host_ok (snd (processBridgeRequest env n inst rq h))"
  using processBridgeRequest_cases [of env n inst rq h]
proof (elim disjE exE conjE)
  assume "snd (processBridgeRequest env n inst rq h) = h"
  then show ?thesis using h by simp
next
  fix cap params
  assume "map_of pluginCapabilityByMethod (str_of (json_get rq ''method'')) = Some cap" "cap \<in> set (pi_grantedPermissions inst)"
    "snd (processBridgeRequest env n inst rq h)
      = snd (run_method env n inst (pm_id (pi_manifest inst)) (as_str (json_get rq ''method'')) params h)"
  then show ?thesis using run_method_host_ok [OF h n] by simp
qed

lemma find_source: "find (\<lambda>(p, m). m = n) xs = Some (q, k) \<Longrightarrow> k = n \<and> (q, n) \<in> set xs"
  by (induction xs) (auto split: if_splits)

text \<open>The instance a message is attributed to is active under its own id.\<close>

lemma findInstance_active:
  assumes h: "host_ok h" and f: "findInstanceForMessage source data h = Some (p, n, i)"
  shows "map_get (ph_active h) p = Some n" "ph_objects h n = Some i" "pm_id (pi_manifest i) = p"
proof -
  have d: "distinct (map fst (ph_active h))" using h by (simp add: host_ok_defs)
  have "(p, n) \<in> set (ph_active h) \<and> ph_objects h n = Some i"
    using f by (auto simp: findInstanceForMessage_def Let_def split: option.splits if_splits dest!: find_source map_of_SomeD)
  then show a: "map_get (ph_active h) p = Some n" and o: "ph_objects h n = Some i" using d by auto
  show "pm_id (pi_manifest i) = p" using host_okD(1) [OF h a] o by auto
qed

lemma host_ok_fail_self [host_intros]: "host_ok h \<Longrightarrow> host_ok (fail_self env i m h)"
  by (simp add: fail_self_def host_ok_fail)

lemma host_ok_message [host_intros]:
  assumes h: "host_ok h" shows "host_ok (handleWindowMessage env source origin data h)"
proof (cases "findInstanceForMessage source data h")
  case None
  then show ?thesis using h by (simp add: handleWindowMessage_def)
next
  case (Some pni)
  then obtain p n i where f: "findInstanceForMessage source data h = Some (p, n, i)" by (cases pni) auto
  note a = findInstance_active [OF h f]
  have flag: "host_ok (set_object n (\<lambda>i. i\<lparr>pi_ready := True\<rparr>) h)" "host_ok (set_object n (\<lambda>i. i\<lparr>pi_initialized := True\<rparr>) h)"
    by (rule host_ok_set_object [OF h]; simp)+
  have "host_ok (on_bridge_request env n i data h)"
    using processBridgeRequest_host_ok [OF h _ a(2), of env data] a
    by (simp add: on_bridge_request_def host_ok_fail_self h split_def Let_def host_ok_post)
  then show ?thesis
    using f h flag by (simp add: handleWindowMessage_def on_ready_def on_initialized_def on_error_def host_ok_fail_self host_ok_fail)
qed

lemma host_ok_step: "host_ok h \<Longrightarrow> host_ok (host_step env ev h)"
  by (cases ev) (simp_all add: host_intros)

lemma host_ok_initial: "host_ok (initial_host desired local messaging)"
  by (simp add: host_ok_defs initial_host_def rehydrate_plugins_def initial_plugin_store_def contributors_def registry_ids_def)

lemma reachable_host_ok: "host_reachable h \<Longrightarrow> host_ok h"
  by (induction rule: host_reachable.induct) (simp_all add: host_ok_initial host_ok_step)

end
