(* ===== verification/Plugin_Safety.thy ===== *)
theory Plugin_Safety
  imports Plugin_Runtime
begin

text \<open>
  The properties of the plugin host over all its steps: confinement of every reachable state,
  isolation of plugins from each other, the boot handshake, authentication of messages, delivery of
  events, \<open>stop\<close>, and two races of discovery and boot. The invariant itself is in \<open>Plugin_Runtime\<close>.
\<close>

subsection \<open>What every reachable host guarantees\<close>

text \<open>C5. In every reachable state of the plugin host, whatever plugins, users and the network have
  done: an active plugin runs under its own id with v1 capabilities only, is subscribed only to
  hooks it declared, and keeps panels within the size limit; commands and panels in the store
  belong to active plugins; and the registry lists no plugin twice.\<close>

theorem reachable_plugins_are_confined:
  assumes "host_reachable h"
  shows "(\<forall>p n. (p, n) \<in> set (ph_active h) \<longrightarrow> (\<exists>i. ph_objects h n = Some i \<and> pm_id (pi_manifest i) = p \<and> idPattern p
        \<and> set (pi_grantedPermissions i) \<subseteq> set allowedV1Capabilities
        \<and> set (pi_grantedPermissions i) \<inter> set deniedByDefaultCapabilities = {}
        \<and> set (pi_subscriptions i) \<subseteq> set (pm_declaredHooks (pi_manifest i))
        \<and> (\<forall>q \<in> set (pi_panels i). length (pp_content q) \<le> 5000)))
    \<and> contributors (ph_store h) \<subseteq> fst ` set (ph_active h)
    \<and> distinct (registry_ids (ph_store h))"
proof -
  have h: "host_ok h" using assms by (rule reachable_host_ok)
  have "\<exists>i. ph_objects h n = Some i \<and> pm_id (pi_manifest i) = p \<and> idPattern p
        \<and> set (pi_grantedPermissions i) \<subseteq> set allowedV1Capabilities
        \<and> set (pi_grantedPermissions i) \<inter> set deniedByDefaultCapabilities = {}
        \<and> set (pi_subscriptions i) \<subseteq> set (pm_declaredHooks (pi_manifest i))
        \<and> (\<forall>q \<in> set (pi_panels i). length (pp_content q) \<le> 5000)"
    if pn: "(p, n) \<in> set (ph_active h)" for p n
  proof -
    have "map_get (ph_active h) p = Some n" using pn h by (simp add: host_ok_defs)
    then obtain i where i: "ph_objects h n = Some i" "pm_id (pi_manifest i) = p" "inst_inv i"
      using host_okD(1) [OF h] by blast
    then have "set (pi_grantedPermissions i) \<subseteq> set allowedV1Capabilities" by (auto simp: inst_inv_def manifest_ok_def)
    moreover from this have "set (pi_grantedPermissions i) \<inter> set deniedByDefaultCapabilities = {}"
      using allowed_denied_disjoint by blast
    ultimately show ?thesis
      using i by (auto simp: inst_inv_def manifest_ok_def instance_ok_def MAX_PANEL_CONTENT_LENGTH_def)
  qed
  then show ?thesis using host_okE [OF h] by blast
qed

lemma reachable_plugins_are_confined_witness:
  "distinct (registry_ids (ph_store (host_step ex_env EvStart (initial_host Map.empty [] initial_store))))"
  using reachable_plugins_are_confined [OF host_next [OF host_init]] by blast

subsection \<open>Isolation between plugins\<close>

text \<open>Everything the host keeps about one plugin.\<close>

record plugin_view_state =
  pv_active :: "nat option"
  pv_object :: "plugin_instance option"
  pv_registry :: "plugin_registry_item option"
  pv_commands :: "plugin_command_dto list"
  pv_panels :: "plugin_panel_dto list"
  pv_desired :: "bool option"
  pv_descriptor :: "plugin_descriptor option"
  pv_local :: "(string \<times> string) list"

definition view_of :: "string \<Rightarrow> plugin_host \<Rightarrow> plugin_view_state" where
  "view_of q h = \<lparr>pv_active = map_get (ph_active h) q, pv_object = active_instance q h,
     pv_registry = find_registry q (ph_store h),
     pv_commands = filter (\<lambda>c. pc_pluginId c = q) (pst_commands (ph_store h)),
     pv_panels = filter (\<lambda>c. pp_pluginId c = q) (pst_panels (ph_store h)),
     pv_desired = pst_desiredEnabled (ph_store h) q, pv_descriptor = map_get (ph_descriptors h) q,
     pv_local = plugin_view q (ph_local h)\<rparr>"

definition store_view :: "string \<Rightarrow> plugin_store \<Rightarrow> plugin_registry_item option \<times> plugin_command_dto list \<times> plugin_panel_dto list \<times> bool option" where
  "store_view q s = (find_registry q s, filter (\<lambda>c. pc_pluginId c = q) (pst_commands s),
     filter (\<lambda>c. pp_pluginId c = q) (pst_panels s), pst_desiredEnabled s q)"

lemma view_of_eq:
  "view_of q h' = view_of q h" if "map_get (ph_active h') q = map_get (ph_active h) q" "active_instance q h' = active_instance q h"
    "store_view q (ph_store h') = store_view q (ph_store h)" "map_get (ph_descriptors h') q = map_get (ph_descriptors h) q"
    "plugin_view q (ph_local h') = plugin_view q (ph_local h)"
  using that by (simp add: view_of_def store_view_def)

lemma filter_other: "\<forall>x \<in> set xs. f x = p \<Longrightarrow> q \<noteq> p \<Longrightarrow> filter (\<lambda>x. f x = q) (filter (\<lambda>x. f x \<noteq> p) ys @ xs) = filter (\<lambda>x. f x = q) ys"
  by (induction ys) (auto simp: filter_empty_conv)

lemma find_update_other: "q \<noteq> p \<Longrightarrow> (\<And>item. registry_id (f item) = registry_id item) \<Longrightarrow>
    find (has_id q) (update_items p f items) = find (has_id q) items"
  by (cases "find (has_id q) items") (simp_all add: find_update_items)

lemma filter_list_update_other:
  "i < length xs \<Longrightarrow> f (xs ! i) \<noteq> q \<Longrightarrow> f y \<noteq> q \<Longrightarrow> filter (\<lambda>x. f x = q) (xs[i := y]) = filter (\<lambda>x. f x = q) xs"
  by (induction xs arbitrary: i) (auto split: nat.split)

lemma store_view_simps:
  assumes "q \<noteq> p"
  shows "store_view q (updatePluginStatus now p st e s) = store_view q s"
    and "store_view q (addNotice now nid p m s) = store_view q s"
    and "store_view q (setDesiredEnabled p b s) = store_view q s"
    and "store_view q (clearPluginRuntimeState p s) = store_view q s"
    and "\<forall>c \<in> set cs. pc_pluginId c = p \<Longrightarrow> store_view q (replacePluginCommands now p cs s) = store_view q s"
    and "\<forall>c \<in> set ps. pp_pluginId c = p \<Longrightarrow> store_view q (replacePluginPanels now p ps s) = store_view q s"
    and "pp_pluginId panel = p \<Longrightarrow> store_view q (upsertPluginPanel now panel s) = store_view q s"
proof -
  note d = store_view_def find_registry_def
  show "store_view q (updatePluginStatus now p st e s) = store_view q s"
    "store_view q (addNotice now nid p m s) = store_view q s"
    "store_view q (setDesiredEnabled p b s) = store_view q s"
    using assms by (simp_all add: d updatePluginStatus_def addNotice_def setDesiredEnabled_def find_update_other)
  show "store_view q (clearPluginRuntimeState p s) = store_view q s"
    using assms filter_other [of "[]" pc_pluginId p q "pst_commands s"] filter_other [of "[]" pp_pluginId p q "pst_panels s"]
    by (simp add: d clearPluginRuntimeState_def Let_def find_update_other)
  show "store_view q (replacePluginCommands now p cs s) = store_view q s" if "\<forall>c \<in> set cs. pc_pluginId c = p"
    using assms filter_other [OF that] by (simp add: d replacePluginCommands_def find_update_other)
  show "store_view q (replacePluginPanels now p ps s) = store_view q s" if "\<forall>c \<in> set ps. pp_pluginId c = p"
    using assms filter_other [OF that] by (simp add: d replacePluginPanels_def find_update_other)
  show "store_view q (upsertPluginPanel now panel s) = store_view q s" if "pp_pluginId panel = p"
    using assms that by (auto simp: d upsertPluginPanel_def find_update_other filter_list_update_other
        split: option.split dest!: find_index_Some)
qed

definition untouched :: "string \<Rightarrow> plugin_host \<Rightarrow> plugin_host \<Rightarrow> bool" where
  "untouched p h h' \<longleftrightarrow> (\<forall>q. q \<noteq> p \<and> idPattern q \<longrightarrow> view_of q h' = view_of q h)"

lemma untouched_refl [simp]: "untouched p h h" by (simp add: untouched_def)

lemma untouched_trans: "untouched p h1 h2 \<Longrightarrow> untouched p h2 h3 \<Longrightarrow> untouched p h1 h3"
  by (simp add: untouched_def)

lemma untouched_set_store:
  assumes "\<And>q. q \<noteq> p \<Longrightarrow> store_view q (g (ph_store h)) = store_view q (ph_store h)"
  shows "untouched p h (set_store g h)"
  unfolding untouched_def using assms by (auto intro!: view_of_eq simp: store_simps active_instance_def)

lemma untouched_set_object:
  assumes h: "host_ok h" and n: "map_get (ph_active h) p = Some n"
  shows "untouched p h (set_object n f h)"
proof -
  have "map_get (ph_active h) q \<noteq> Some n" if "q \<noteq> p" for q
  proof
    assume "map_get (ph_active h) q = Some n"
    then have "(q, n) \<in> set (ph_active h)" "(p, n) \<in> set (ph_active h)" using n by (simp_all add: map_of_SomeD)
    moreover have "inj_on snd (set (ph_active h))" using h by (simp add: host_ok_defs distinct_map)
    ultimately show False using that by (auto dest: inj_onD [where x = "(q, n)" and y = "(p, n)"])
  qed
  then show ?thesis
    by (auto simp: untouched_def store_simps active_instance_def intro!: view_of_eq split: option.split bind_split)
qed

lemma untouched_posts: "untouched p h (h\<lparr>ph_posts := ps\<rparr>)" "untouched p h (postToPlugin n m h)"
  by (auto simp: untouched_def view_of_def active_instance_def postToPlugin_def split: option.split)

lemma untouched_notice: "untouched p h (add_notice env p m h)"
  by (auto simp: untouched_def store_simps active_instance_def store_view_simps intro!: view_of_eq)

lemma untouched_status: "untouched p h (set_status env p st e h)"
  unfolding set_status_def by (rule untouched_set_store) (simp add: store_view_simps)

lemma untouched_teardown:
  assumes h: "host_ok h" shows "untouched p h (teardownPlugin p h)"
proof (cases "map_get (ph_active h) p")
  case None
  then show ?thesis by (simp add: teardownPlugin_def)
next
  case (Some n)
  let ?h1 = "set_object n (\<lambda>i. i\<lparr>pi_attached := False\<rparr>) h"
  let ?h2 = "?h1\<lparr>ph_active := map_remove p (ph_active h)\<rparr>"
  have 1: "untouched p h ?h1" by (rule untouched_set_object [OF h Some])
  have "map_get (map_remove p m) q = map_get m q" if "q \<noteq> p" for q and m :: "(string \<times> nat) list"
    using that by (induction m) (auto simp: map_remove_def)
  then have 2: "untouched p ?h1 ?h2"
    by (auto simp: untouched_def active_instance_def store_simps intro!: view_of_eq)
  have 3: "untouched p ?h2 (set_store (clearPluginRuntimeState p) ?h2)"
    by (rule untouched_set_store) (simp add: store_view_simps)
  show ?thesis using untouched_trans [OF untouched_trans [OF 1 2] 3] Some by (simp add: teardownPlugin_def)
qed

lemma untouched_fail: "host_ok h \<Longrightarrow> untouched p h (failPlugin env p m h)"
  unfolding failPlugin_def set_status_def [symmetric]
  by (meson untouched_notice untouched_status untouched_teardown untouched_trans)

lemma untouched_sync:
  assumes h: "host_ok h" shows "untouched p h (syncPluginRuntimeCollections env p h)"
proof (cases "Option.bind (map_get (ph_active h) p) (ph_objects h)")
  case None
  then show ?thesis by (simp add: syncPluginRuntimeCollections_def)
next
  case (Some i)
  then obtain n where n: "map_get (ph_active h) p = Some n" "ph_objects h n = Some i" by (auto simp: bind_eq_Some_conv)
  then have i: "pm_id (pi_manifest i) = p" "instance_ok i" using host_okD(1) [OF h n(1)] by (auto simp: inst_inv_def)
  let ?h1 = "set_store (replacePluginCommands (pe_now env) p (pi_commands i)) h"
  have "untouched p h ?h1" using i by (intro untouched_set_store) (auto simp: store_view_simps instance_ok_def)
  moreover have "untouched p ?h1 (set_store (replacePluginPanels (pe_now env) p (pi_panels i)) ?h1)"
    using i by (intro untouched_set_store) (auto simp: store_view_simps instance_ok_def)
  ultimately show ?thesis using Some by (auto simp: syncPluginRuntimeCollections_def intro: untouched_trans)
qed


lemma run_method_plain_local: "ph_local (snd (m_storageGet env p params h)) = ph_local h"
  by (simp add: method_local_unchanged)

lemma method_untouched:
  assumes h: "host_ok h" and n: "map_get (ph_active h) (pm_id (pi_manifest inst)) = Some n" "ph_objects h n = Some inst"
    and p: "p = pm_id (pi_manifest inst)"
  shows "''commands.register'' \<in> set (pi_grantedPermissions inst) \<Longrightarrow> untouched p h (snd (m_registerCommand env n p params h))"
    and "''ui.render'' \<in> set (pi_grantedPermissions inst) \<Longrightarrow> untouched p h (snd (m_registerPanel env n p params h))"
    and "untouched p h (snd (m_setPanelContent env n inst params h))"
    and "untouched p h (snd (m_subscribe n inst params h))"
    and "untouched p h (snd (m_unsubscribe n params h))"
    and "untouched p h (snd (m_showLocal env p params h))"
proof -
  have i: "inst_inv inst" using host_okD(3) [OF h n(2)] .
  then have ok: "instance_ok inst" by (simp add: inst_inv_def)
  have n': "map_get (ph_active h) p = Some n" using n p by simp
  have so: "untouched p h (set_object n f h)" for f by (rule untouched_set_object [OF h n'])
  have step: "host_ok (set_object n f h)"
    if "instance_ok (f inst)" "pi_manifest (f inst) = pi_manifest inst" "pi_attached (f inst) = pi_attached inst"
      "pi_grantedPermissions (f inst) = pi_grantedPermissions inst" for f
    using that n(2) i by (intro host_ok_set_object [OF h]) (auto intro: inst_inv_of_ok)
  have us: "untouched p h (syncPluginRuntimeCollections env p (set_object n f h))" if "host_ok (set_object n f h)" for f
    using untouched_trans [OF so untouched_sync [OF that]] .
  show "untouched p h (snd (m_registerCommand env n p params h))"
    if "''commands.register'' \<in> set (pi_grantedPermissions inst)"
    using that instance_ok_simps(1) [OF ok, of "\<lparr>pc_pluginId = p, pc_id = c, pc_title = t\<rparr>" for c t] p
    by (auto simp: m_registerCommand_def Let_def intro!: us [unfolded p] step)
  show "untouched p h (snd (m_registerPanel env n p params h))"
    if "''ui.render'' \<in> set (pi_grantedPermissions inst)"
    using that instance_ok_simps(2) [OF ok, of "\<lparr>pp_pluginId = p, pp_id = c, pp_title = t, pp_content = []\<rparr>" for c t] p
    by (auto simp: m_registerPanel_def Let_def intro!: us [unfolded p] step)
  show "untouched p h (snd (m_setPanelContent env n inst params h))"
  proof (cases "find (\<lambda>item. pp_id item = trimmed_param params ''id'') (pi_panels inst)")
    case None
    then show ?thesis by (simp add: m_setPanelContent_def Let_def)
  next
    case (Some q)
    then have "pp_pluginId q = p" using ok p by (auto simp: find_Some_iff instance_ok_def)
    then have up: "untouched p h1 (set_store (upsertPluginPanel t (q\<lparr>pp_content := c\<rparr>)) h1)" for h1 c t
      by (intro untouched_set_store) (simp add: store_view_simps)
    then show ?thesis using Some by (auto simp: m_setPanelContent_def Let_def intro!: untouched_trans [OF so up])
  qed
  show "untouched p h (snd (m_subscribe n inst params h))" by (simp add: m_subscribe_def Let_def so)
  show "untouched p h (snd (m_unsubscribe n params h))" by (simp add: m_unsubscribe_def Let_def so)
  show "untouched p h (snd (m_showLocal env p params h))" by (simp add: m_showLocal_def Let_def untouched_notice)
qed

lemma storage_untouched:
  assumes "CHR '':'' \<notin> set p"
  shows "untouched p h (snd (m_storageGet env p params h))" "untouched p h (snd (m_storageSet env p params h))"
    "untouched p h (snd (m_storageDelete env p params h))" "untouched p h (snd (m_storageList env p h))"
proof -
  have d: "\<not> startsWith (storage_prefix p @ k) (storage_prefix q)" if "q \<noteq> p" "idPattern q" for q k
    using that assms idPattern_no_colon by (intro storage_prefix_disjoint) auto
  have u: "untouched p h (h\<lparr>ph_local := m\<rparr>)" if "\<And>q. q \<noteq> p \<Longrightarrow> idPattern q \<Longrightarrow> plugin_view q m = plugin_view q (ph_local h)" for m
    using that by (auto simp: untouched_def active_instance_def intro!: view_of_eq)
  show "untouched p h (snd (m_storageGet env p params h))" "untouched p h (snd (m_storageList env p h))"
    by (simp_all add: m_storageGet_def m_storageList_def Let_def)
  show "untouched p h (snd (m_storageSet env p params h))"
    by (simp add: m_storageSet_def Let_def pluginStorageKey_prefix u plugin_view_set d)
  show "untouched p h (snd (m_storageDelete env p params h))"
    by (simp add: m_storageDelete_def Let_def pluginStorageKey_prefix u plugin_view_remove d)
qed

lemma processBridgeRequest_untouched:
  assumes h: "host_ok h" and n: "map_get (ph_active h) (pm_id (pi_manifest inst)) = Some n" "ph_objects h n = Some inst"
  shows "untouched (pm_id (pi_manifest inst)) h (snd (processBridgeRequest env n inst rq h))"
  using processBridgeRequest_cases [of env n inst rq h]
proof (elim disjE exE conjE)
  assume "snd (processBridgeRequest env n inst rq h) = h"
  then show ?thesis by simp
next
  fix cap params
  let ?v = "json_get rq ''method''"
  assume cap: "map_of pluginCapabilityByMethod (str_of ?v) = Some cap" "cap \<in> set (pi_grantedPermissions inst)"
    and s: "snd (processBridgeRequest env n inst rq h)
      = snd (run_method env n inst (pm_id (pi_manifest inst)) (as_str ?v) params h)"
  have g: "as_str ?v = Some s \<Longrightarrow> map_of pluginCapabilityByMethod s = Some c \<Longrightarrow> c \<in> set (pi_grantedPermissions inst)" for s c
    using cap str_of_as_str [of ?v s] by auto
  have "idPattern (pm_id (pi_manifest inst))" using host_okD(3) [OF h n(2)] by (simp add: inst_inv_def manifest_ok_def)
  then show ?thesis unfolding s
    using method_untouched [OF h n refl] storage_untouched [OF idPattern_no_colon]
      g [OF _ required_capability(1)] g [OF _ required_capability(2)]
    by (simp add: run_method_def)
qed

lemma message_untouched:
  assumes h: "host_ok h" and f: "findInstanceForMessage source data h = Some (p, n, i)"
  shows "untouched p h (handleWindowMessage env source origin data h)"
proof -
  note a = findInstance_active [OF h f]
  have b: "untouched p h (snd (processBridgeRequest env n i data h))"
    using processBridgeRequest_untouched [OF h _ a(2)] a by simp
  have "untouched p h (on_bridge_request env n i data h)"
    using untouched_trans [OF b untouched_posts(2)] untouched_fail [OF h]
    by (simp add: on_bridge_request_def fail_self_def a split_def Let_def)
  then show ?thesis
    using f untouched_fail [OF h] untouched_set_object [OF h a(1)]
    by (simp add: handleWindowMessage_def on_ready_def on_initialized_def on_error_def fail_self_def a)
qed

text \<open>C8. Crash isolation: whatever an active plugin's iframe posts - malformed data, a forged plugin
  id or token, an error, any bridge request - affects that plugin alone; the state, registry entry,
  contributions, persisted wish and storage of every other plugin stay exactly as they were.\<close>

theorem message_affects_only_its_sender:
  assumes "host_reachable h" "(p, n) \<in> set (ph_active h)" "q \<noteq> p" "idPattern q"
  shows "view_of q (handleWindowMessage env (Some n) origin data h) = view_of q h"
proof -
  have h: "host_ok h" using assms(1) by (rule reachable_host_ok)
  have a: "map_get (ph_active h) p = Some n" using assms(2) h by (simp add: host_ok_defs)
  have inj: "inj_on snd (set (ph_active h))" using h by (simp add: host_ok_defs distinct_map)
  show ?thesis
  proof (cases "findInstanceForMessage (Some n) data h")
    case None
    then show ?thesis by (simp add: handleWindowMessage_def)
  next
    case (Some pni)
    then obtain r m i where f: "findInstanceForMessage (Some n) data h = Some (r, m, i)" by (cases pni) auto
    obtain r' m' where fs: "find (\<lambda>(p, m). m = n) (ph_active h) = Some (r', m')"
      using assms(2) by (cases "find (\<lambda>(p, m). m = n) (ph_active h)") (auto simp: find_None_iff)
    from find_source [OF fs] have "(r', n) \<in> set (ph_active h)" "m' = n" by auto
    then have "r' = p" using inj assms(2) by (auto dest: inj_onD [where x = "(r', n)" and y = "(p, n)"])
    then have "r = p" using f fs by (auto simp: findInstanceForMessage_def Let_def split: option.splits)
    then have "untouched p h (handleWindowMessage env (Some n) origin data h)" using message_untouched [OF h f] by simp
    then show ?thesis using assms(3,4) by (simp add: untouched_def)
  qed
qed


subsection \<open>A worked host\<close>

text \<open>A started host that has discovered the three bundled plugins.\<close>

definition ex_discovered :: plugin_host where
  "ex_discovered = host_step ex_env (EvRefresh (\<lambda>_. ''run'') []) (host_step ex_env EvStart (initial_host Map.empty [] initial_store))"

lemma ex_discovered_reachable: "host_reachable ex_discovered"
  unfolding ex_discovered_def by (intro host_next host_init)

lemma checked_descriptor_validates:
  "manifest_checks m \<Longrightarrow> ld_manifest d = manifest_json m \<Longrightarrow> ld_entrypointCode d = ''run'' \<Longrightarrow> validatePluginDescriptor d = Inr m"
  by (simp add: manifest_checks_def validatePluginDescriptor_def js_trim_run)

lemma bundled_checks:
  "manifest_checks transportPanelManifest" "manifest_checks conversationSummaryManifest" "manifest_checks localActionsManifest"
  by code_simp+

lemma bundled_ids:
  "pm_id transportPanelManifest = ''demo.transport.health''" "pm_id conversationSummaryManifest = ''demo.conversation.summary''"
  "pm_id localActionsManifest = ''demo.local.actions''"
  by (simp_all add: transportPanelManifest_def conversationSummaryManifest_def localActionsManifest_def)

lemma not_prototype_keys:
  "''demo.transport.health'' \<notin> set object_prototype_keys" "''demo.conversation.summary'' \<notin> set object_prototype_keys"
  "''demo.local.actions'' \<notin> set object_prototype_keys"
  by code_simp+

lemma ex_discovered_facts:
  "ph_active ex_discovered = []" "ph_tasks ex_discovered = []" "ph_next ex_discovered = 0" "ph_random ex_discovered = 0"
  "ph_objects ex_discovered = Map.empty" "ph_local ex_discovered = []"
  "\<exists>d. map_get (ph_descriptors ex_discovered) ''demo.local.actions'' = Some d \<and> pd_manifest d = localActionsManifest"
  "\<exists>item. find_registry ''demo.local.actions'' (ph_store ex_discovered) = Some item"
proof -
  have e: "ex_discovered = refreshDiscovery ex_env (\<lambda>_. ''run'') [] (start (initial_host Map.empty [] initial_store))"
    by (simp add: ex_discovered_def)
  have v: "validatePluginDescriptor \<lparr>ld_manifest = manifest_json m, ld_source = SrcBundled, ld_sourceRef = x, ld_entrypointCode = ''run''\<rparr> = Inr m"
    if "m \<in> {transportPanelManifest, conversationSummaryManifest, localActionsManifest}" for m x
    using that bundled_checks by (intro checked_descriptor_validates) auto
  note defs = refreshDiscovery_def bundledPluginDescriptors_def discover_one_def Let_def v bundled_ids wanted_ids_def registry_id_def discovered_item_def desired_truthy_def not_prototype_keys
    start_def initial_host_def rehydrate_plugins_def initial_plugin_store_def set_store_def setRegistry_def List.map_filter_def
  show "ph_active ex_discovered = []" "ph_tasks ex_discovered = []" "ph_next ex_discovered = 0" "ph_random ex_discovered = 0"
    "ph_objects ex_discovered = Map.empty" "ph_local ex_discovered = []"
    "\<exists>d. map_get (ph_descriptors ex_discovered) ''demo.local.actions'' = Some d \<and> pd_manifest d = localActionsManifest"
    "\<exists>item. find_registry ''demo.local.actions'' (ph_store ex_discovered) = Some item"
    unfolding e by (simp_all add: defs find_registry_def has_id_def)
qed

subsection \<open>Booting\<close>

lemma find_by_source:
  assumes h: "host_ok h" and m: "(p, n) \<in> set (ph_active h)" "ph_objects h n = Some i"
  shows "findInstanceForMessage (Some n) data h = Some (p, n, i)"
proof -
  have inj: "inj_on snd (set (ph_active h))" using h by (simp add: host_ok_defs distinct_map)
  obtain r m' where fs: "find (\<lambda>(p, m). m = n) (ph_active h) = Some (r, m')"
    using m by (cases "find (\<lambda>(p, m). m = n) (ph_active h)") (auto simp: find_None_iff)
  from find_source [OF fs] have "(r, n) \<in> set (ph_active h)" "m' = n" by auto
  then have "r = p" using inj m by (auto dest: inj_onD [where x = "(r, n)" and y = "(p, n)"])
  then show ?thesis using fs m \<open>m' = n\<close> by (simp add: findInstanceForMessage_def)
qed

definition ready_message :: "string \<Rightarrow> string \<Rightarrow> json" where
  "ready_message p bootstrapToken = JObj [(''kind'', JStr ''plugin.runtime.ready''), (''pluginId'', JStr p),
     (''bootstrapToken'', JStr bootstrapToken)]"

definition initialized_message :: "string \<Rightarrow> string \<Rightarrow> string \<Rightarrow> json" where
  "initialized_message p bootstrapToken runtimeToken = JObj [(''kind'', JStr ''plugin.runtime.initialized''), (''pluginId'', JStr p),
     (''runtimeToken'', JStr runtimeToken), (''bootstrapToken'', JStr bootstrapToken)]"

text \<open>What \<open>enable\<close> does for a plugin that is discovered and not yet active.\<close>

lemma enable_new:
  assumes h: "host_ok h" and d: "map_get (ph_descriptors h) p = Some d" and a: "map_get (ph_active h) p = None"
  shows "enable env p h = (set_store (setDesiredEnabled p True) h)\<lparr>ph_random := Suc (Suc (ph_random h)),
     ph_next := Suc (ph_next h),
     ph_objects := (ph_objects h)(ph_next h \<mapsto> createActiveInstance d (pe_random env (ph_random h)) (pe_random env (Suc (ph_random h)))),
     ph_active := ph_active h @ [(p, ph_next h)],
     ph_tasks := ph_tasks h @ [\<lparr>bt_plugin = p, bt_object = ph_next h, bt_manifest = pd_manifest d, bt_phase = AwaitReady, bt_then = []\<rparr>]\<rparr>"
proof -
  have "p \<notin> fst ` set (ph_active h)" using a by (simp add: map_of_eq_None_iff)
  then show ?thesis
    using d a manifest_ok_caps [of "pd_manifest d"] host_okD(2) [OF h d]
    by (simp add: enable_def enable_begin_def Let_def store_simps fresh_id_def set_store_def map_set_fresh)
qed

lemma message_on_active:
  assumes "host_ok h" "(p, n) \<in> set (ph_active h)" "ph_objects h n = Some i" "pm_id (pi_manifest i) = p"
  shows "handleWindowMessage env (Some n) ''null'' (ready_message p (pi_bootstrapToken i)) h = set_object n (\<lambda>i. i\<lparr>pi_ready := True\<rparr>) h"
    and "handleWindowMessage env (Some n) ''null'' (initialized_message p (pi_bootstrapToken i) (pi_runtimeToken i)) h
      = set_object n (\<lambda>i. i\<lparr>pi_initialized := True\<rparr>) h"
  using find_by_source [OF assms(1-3)] assms(4)
  by (simp_all add: handleWindowMessage_def ready_message_def initialized_message_def on_ready_def on_initialized_def str_of_def)

text \<open>The host after the two messages of the plugin and the continuation of \<open>enable\<close> after each.\<close>

definition booted :: "plugin_env \<Rightarrow> string \<Rightarrow> plugin_host \<Rightarrow> plugin_host" where
  "booted env p h =
     (let n = ph_next h; k = length (ph_tasks h);
          b = pe_random env (ph_random h); r = pe_random env (Suc (ph_random h));
          h1 = enable env p h;
          h2 = handleWindowMessage env (Some n) ''null'' (ready_message p b) h1;
          h3 = boot_continue env k h2;
          h4 = handleWindowMessage env (Some n) ''null'' (initialized_message p b r) h3
      in boot_continue env k h4)"

lemma status_of_sync: "status_of q (ph_store (syncPluginRuntimeCollections env p h)) = status_of q (ph_store h)"
proof -
  have "status_of q (replacePluginCommands now p' cs s) = status_of q s" "status_of q (replacePluginPanels now p' ps s) = status_of q s"
    for now p' cs ps s
    by (cases "find (has_id q) (pst_registry s)";
        simp add: status_of_def find_registry_def replacePluginCommands_def replacePluginPanels_def find_update_items)+
  then show ?thesis by (simp add: syncPluginRuntimeCollections_def store_simps split: option.split)
qed

lemma find_registry_upsert:
  assumes "find_registry p s = Some item" "registry_id item' = registry_id item"
  shows "find_registry p (upsertRegistryItem item' s) = Some item'"
proof -
  have f: "find (has_id p) xs = Some item \<Longrightarrow> find (has_id p) (upsert_registry_list item' xs) = Some item'" for xs
  proof -
    assume a: "find (has_id p) xs = Some item"
    then have id: "registry_id item = Some (JStr p)" by (auto simp: find_Some_iff has_id_def)
    from a show ?thesis
      by (induction xs) (auto simp: upsert_registry_list_def has_id_def assms(2) id split: option.splits if_splits)
  qed
  then show ?thesis using assms(1) by (simp add: find_registry_def upsertRegistryItem_def)
qed


text \<open>The boot handshake works: for a discovered plugin that is not running, \<open>enable\<close>, the ready
  message with the bootstrap token, the initialised message with both tokens and the two
  continuations of \<open>enable\<close> leave the plugin active with status enabled, its requested permissions
  granted in the registry, the host's init message posted to its iframe, and no boot pending.\<close>

theorem boot_handshake_enables:
  assumes "host_reachable h" "map_get (ph_descriptors h) p = Some d" "map_get (ph_active h) p = None"
    and "find_registry p (ph_store h) = Some item"
  shows "map_get (ph_active (booted env p h)) p = Some (ph_next h)
    \<and> status_of p (ph_store (booted env p h)) = Some PsEnabled
    \<and> (ph_next h, HostInit p (pe_random env (Suc (ph_random h))) (pm_requestedPermissions (pd_manifest d)))
        \<in> set (ph_posts (booted env p h))
    \<and> ph_tasks (booted env p h) = ph_tasks h"
proof -
  have h: "host_ok h" using assms(1) by (rule reachable_host_ok)
  have d: "pm_id (pd_manifest d) = p" using host_okD(2) [OF h assms(2)] by simp
  let ?n = "ph_next h" and ?k = "length (ph_tasks h)"
  let ?b = "pe_random env (ph_random h)" and ?r = "pe_random env (Suc (ph_random h))"
  let ?i = "createActiveInstance d ?b ?r"
  let ?t = "\<lparr>bt_plugin = p, bt_object = ?n, bt_manifest = pd_manifest d, bt_phase = AwaitReady, bt_then = []\<rparr>"
  define h1 where "h1 = enable env p h"
  note e = enable_new [OF h assms(2,3), of env, folded h1_def]
  have h1: "host_ok h1" using h by (simp add: h1_def host_ok_enable)
  have h1_facts: "ph_objects h1 ?n = Some ?i" "(p, ?n) \<in> set (ph_active h1)" "ph_tasks h1 = ph_tasks h @ [?t]"
    by (simp_all add: e)
  have i: "pm_id (pi_manifest ?i) = p" "pi_bootstrapToken ?i = ?b" "pi_runtimeToken ?i = ?r" "pi_attached ?i" "pi_ready ?i = False"
    using d by (simp_all add: createActiveInstance_def)
  define h2 where "h2 = handleWindowMessage env (Some ?n) ''null'' (ready_message p ?b) h1"
  have h2_eq: "h2 = set_object ?n (\<lambda>i. i\<lparr>pi_ready := True\<rparr>) h1"
    using message_on_active(1) [OF h1 h1_facts(2,1) i(1)] i by (simp add: h2_def)
  have h2: "host_ok h2" unfolding h2_def by (rule host_ok_message [OF h1])
  define h3 where "h3 = boot_continue env ?k h2"
  have h3: "host_ok h3" unfolding h3_def by (rule host_ok_boot_continue [OF h2])
  have h3_facts: "ph_objects h3 ?n = Some (?i\<lparr>pi_ready := True\<rparr>)" "ph_active h3 = ph_active h1"
      "ph_tasks h3 = ph_tasks h @ [?t\<lparr>bt_phase := AwaitInitialized\<rparr>]"
      "(?n, HostInit p ?r (pm_requestedPermissions (pd_manifest d))) \<in> set (ph_posts h3)" "ph_store h3 = ph_store h1"
    using h1_facts i by (simp_all add: h3_def h2_eq boot_continue_def Let_def store_simps postToPlugin_def)
  have i3: "pm_id (pi_manifest (?i\<lparr>pi_ready := True\<rparr>)) = p" using i by simp
  define h4 where "h4 = handleWindowMessage env (Some ?n) ''null'' (initialized_message p ?b ?r) h3"
  have h4_eq: "h4 = set_object ?n (\<lambda>i. i\<lparr>pi_initialized := True\<rparr>) h3"
    using message_on_active(2) [OF h3 _ h3_facts(1) i3] h1_facts(2) h3_facts(2) i by (simp add: h4_def)
  have st: "ph_store h4 = setDesiredEnabled p True (ph_store h)"
    by (simp add: h4_eq store_simps h3_facts(5) e)
  have b: "booted env p h = boot_continue env ?k h4"
    by (simp add: booted_def Let_def h1_def h2_def h3_def h4_def)
  have c: "boot_continue env ?k h4 = finish_enable env (?t\<lparr>bt_phase := AwaitInitialized\<rparr>) (drop_task ?k h4)"
    using h3_facts by (simp add: boot_continue_def Let_def h4_eq store_simps)
  have posts: "ph_posts (finish_enable env t s) = ph_posts s" "ph_tasks (finish_enable env t s) = ph_tasks s"
    "ph_active (finish_enable env t s) = ph_active s" for t s
    by (simp_all add: finish_enable_def store_simps set_status_def split: option.split)
  have fr: "find_registry p (ph_store (drop_task ?k h4)) = Some item"
    using assms(4) st by (simp add: drop_task_def store_simps)
  have enabled: "status_of p (upsertRegistryItem (item\<lparr>pr_status := PsEnabled, pr_grantedPermissions := g,
      pr_lastError := None, pr_updatedAt := u\<rparr>) (ph_store (drop_task ?k h4))) = Some PsEnabled" for g u
    by (simp add: status_of_def find_registry_upsert [OF fr])
  have "status_of p (ph_store (finish_enable env (?t\<lparr>bt_phase := AwaitInitialized\<rparr>) (drop_task ?k h4))) = Some PsEnabled"
    using fr d enabled by (simp add: finish_enable_def status_of_sync store_simps)
  moreover have "map_get (ph_active h) p = None \<Longrightarrow> map_get (ph_active h @ [(p, ?n)]) p = Some ?n"
    by (simp add: map_add_def)
  ultimately show ?thesis
    unfolding b c posts using h3_facts assms(3)
    by (simp add: drop_task_def h4_eq store_simps e)
qed

lemma boot_handshake_enables_witness:
  "status_of ''demo.local.actions'' (ph_store (booted ex_env ''demo.local.actions'' ex_discovered)) = Some PsEnabled"
proof -
  obtain d item where "map_get (ph_descriptors ex_discovered) ''demo.local.actions'' = Some d"
    "find_registry ''demo.local.actions'' (ph_store ex_discovered) = Some item"
    using ex_discovered_facts by blast
  then show ?thesis
    using boot_handshake_enables [OF ex_discovered_reachable, of "''demo.local.actions''" d item ex_env] ex_discovered_facts(1)
    by simp
qed

definition ex_enabled :: plugin_host where
  "ex_enabled = host_step ex_env (EvEnable ''demo.local.actions'') ex_discovered"

lemma ex_enabled_reachable: "host_reachable ex_enabled"
  unfolding ex_enabled_def by (intro host_next ex_discovered_reachable)

lemma ex_enabled_facts:
  "ph_active ex_enabled = [(''demo.local.actions'', 0)]" "length (ph_tasks ex_enabled) = 1"
  "bt_phase (ph_tasks ex_enabled ! 0) = AwaitReady" "bt_object (ph_tasks ex_enabled ! 0) = 0"
  "bt_plugin (ph_tasks ex_enabled ! 0) = ''demo.local.actions''" "bt_then (ph_tasks ex_enabled ! 0) = []"
  "ph_next ex_enabled = 1" "ph_started ex_enabled = ph_started ex_discovered"
  "ph_descriptors ex_enabled = ph_descriptors ex_discovered"
  "\<exists>i. ph_objects ex_enabled 0 = Some i \<and> pi_ready i = False"
proof -
  obtain d where d: "map_get (ph_descriptors ex_discovered) ''demo.local.actions'' = Some d"
    using ex_discovered_facts by blast
  have "ex_enabled = enable ex_env ''demo.local.actions'' ex_discovered" by (simp add: ex_enabled_def)
  note e = this [unfolded enable_new [OF reachable_host_ok [OF ex_discovered_reachable] d, unfolded ex_discovered_facts(1), simplified]]
  show "ph_active ex_enabled = [(''demo.local.actions'', 0)]" "length (ph_tasks ex_enabled) = 1"
    "bt_phase (ph_tasks ex_enabled ! 0) = AwaitReady" "bt_object (ph_tasks ex_enabled ! 0) = 0"
    "bt_plugin (ph_tasks ex_enabled ! 0) = ''demo.local.actions''" "bt_then (ph_tasks ex_enabled ! 0) = []"
    "ph_next ex_enabled = 1" "ph_started ex_enabled = ph_started ex_discovered"
    "ph_descriptors ex_enabled = ph_descriptors ex_discovered"
    "\<exists>i. ph_objects ex_enabled 0 = Some i \<and> pi_ready i = False"
    unfolding e by (simp_all add: ex_discovered_facts store_simps createActiveInstance_def set_store_def)
qed

lemma message_affects_only_its_sender_witness:
  "view_of ''demo.transport.health'' (handleWindowMessage ex_env (Some 0) ''null'' (JObj [(''pluginId'', JStr ''forged'')]) ex_enabled)
    = view_of ''demo.transport.health'' ex_enabled"
proof -
  have "idPattern ''demo.transport.health''" by code_simp
  then show ?thesis
    using message_affects_only_its_sender [OF ex_enabled_reachable, of "''demo.local.actions''" 0] ex_enabled_facts(1) by simp
qed

subsection \<open>Authentication of messages\<close>

text \<open>A message that carries neither the bootstrap token nor the runtime token of the instance it
  is attributed to is never obeyed: the host stays as it is, or the plugin is failed.\<close>

theorem message_without_tokens_is_not_obeyed:
  assumes "findInstanceForMessage source data h = Some (p, n, i)"
    and "json_get data ''bootstrapToken'' \<noteq> Some (JStr (pi_bootstrapToken i))"
    and "json_get data ''runtimeToken'' \<noteq> Some (JStr (pi_runtimeToken i))"
  shows "handleWindowMessage env source origin data h = h
    \<or> (\<exists>message. handleWindowMessage env source origin data h = failPlugin env (pm_id (pi_manifest i)) (JStr message) h)"
  using assms
  by (auto simp: handleWindowMessage_def on_ready_def on_initialized_def on_error_def on_bridge_request_def fail_self_def)

lemma message_without_tokens_is_not_obeyed_witness:
  "\<exists>i. ph_objects ex_enabled 0 = Some i \<and>
    (handleWindowMessage ex_env (Some 0) ''null'' (JObj [(''kind'', JStr ''plugin.bridge.request'')]) ex_enabled = ex_enabled
     \<or> (\<exists>message. handleWindowMessage ex_env (Some 0) ''null'' (JObj [(''kind'', JStr ''plugin.bridge.request'')]) ex_enabled
          = failPlugin ex_env (pm_id (pi_manifest i)) (JStr message) ex_enabled))"
proof -
  obtain i where i: "ph_objects ex_enabled 0 = Some i" using ex_enabled_facts by blast
  have "findInstanceForMessage (Some 0) (JObj [(''kind'', JStr ''plugin.bridge.request'')]) ex_enabled = Some (''demo.local.actions'', 0, i)"
    by (rule find_by_source [OF reachable_host_ok [OF ex_enabled_reachable]]) (simp_all add: ex_enabled_facts i)
  from message_without_tokens_is_not_obeyed [OF this, of ex_env "''null''"] i show ?thesis by simp
qed

subsection \<open>Host events\<close>

definition event_posts :: "plugin_env \<Rightarrow> string \<Rightarrow> json \<Rightarrow> plugin_host \<Rightarrow> (string \<times> nat) list \<Rightarrow> (nat \<times> host_message) list" where
  "event_posts env e payload h ps = List.map_filter (\<lambda>(p, n). case ph_objects h n of
       None \<Rightarrow> None
     | Some i \<Rightarrow> if e \<in> set (pi_subscriptions i) \<and> pi_attached i
                 then Some (n, HostEvent (pi_runtimeToken i) e payload (pe_now env)) else None) ps"

lemma emit_to_posts: "emit_to env e payload pn h = h\<lparr>ph_posts := ph_posts h @ event_posts env e payload h [pn]\<rparr>"
  by (cases pn) (simp add: emit_to_def event_posts_def postToPlugin_def List.map_filter_def split: option.split)

lemma event_posts_cong: "ph_objects h' = ph_objects h \<Longrightarrow> event_posts env e payload h' ps = event_posts env e payload h ps"
  by (simp add: event_posts_def)

lemma fold_emit_posts:
  "fold (emit_to env e payload) ps h = h\<lparr>ph_posts := ph_posts h @ event_posts env e payload h ps\<rparr>"
proof (induction ps arbitrary: h)
  case Nil
  then show ?case by (simp add: event_posts_def List.map_filter_def)
next
  case (Cons a ps)
  have "event_posts env e payload h (a # ps) = event_posts env e payload h [a] @ event_posts env e payload h ps"
    by (simp add: event_posts_def List.map_filter_def)
  then show ?case
    using event_posts_cong [of "h\<lparr>ph_posts := ph_posts h @ event_posts env e payload h [a]\<rparr>" h env e payload ps]
    by (simp add: Cons emit_to_posts [of env e payload a h])
qed

text \<open>A host event is posted, once and in order, to exactly the attached active instances that
  subscribed to it, each under its own runtime token, and changes nothing else of the host.\<close>

theorem event_reaches_exactly_its_subscribers:
  "emitEvent env e payload h = h\<lparr>ph_random := Suc (ph_random h),
     ph_posts := ph_posts h @ List.map_filter (\<lambda>(p, n). case ph_objects h n of
       None \<Rightarrow> None
     | Some i \<Rightarrow> if e \<in> set (pi_subscriptions i) \<and> pi_attached i
                 then Some (n, HostEvent (pi_runtimeToken i) e payload (pe_now env)) else None) (ph_active h)\<rparr>"
  unfolding emitEvent_def Let_def fresh_id_def fold_emit_posts by (simp add: event_posts_def)

subsection \<open>Stopping\<close>

lemma teardown_keeps_others:
  "map_get (ph_active h) p \<noteq> Some n \<Longrightarrow> ph_objects (teardownPlugin p h) n = ph_objects h n"
  by (auto simp: teardownPlugin_def store_simps split: option.split)

lemma teardown_detaches:
  "ph_objects (teardownPlugin p h) n = Some i \<Longrightarrow> pi_attached i \<Longrightarrow> ph_objects h n = Some i \<and> map_get (ph_active h) p \<noteq> Some n"
  by (auto simp: teardownPlugin_def store_simps split: option.splits if_splits)

lemma foldl_teardown_detaches:
  assumes "ph_objects (foldl (\<lambda>s p. teardownPlugin p s) h ps) n = Some i" "pi_attached i" "p \<in> set ps"
    and "distinct (map fst (ph_active h))"
  shows "map_get (ph_active h) p \<noteq> Some n"
  using assms
proof (induction ps arbitrary: h)
  case (Cons q ps)
  have bk: "ph_objects (foldl (\<lambda>s p. teardownPlugin p s) h ps) n = Some i \<Longrightarrow> pi_attached i \<Longrightarrow> ph_objects h n = Some i" for h ps
    by (induction ps arbitrary: h) (auto dest!: teardown_detaches)
  show ?case
  proof (cases "p = q")
    case True
    then show ?thesis using Cons.prems bk [of "teardownPlugin q h" ps] teardown_detaches [of q h n i] by auto
  next
    case False
    have "distinct (map fst (ph_active (teardownPlugin q h)))"
      using Cons.prems by (simp add: teardown_active distinct_map_map_remove)
    moreover have "map_get (map_remove q m) p = map_get m p" for m :: "(string \<times> nat) list"
      using False by (induction m) (auto simp: map_remove_def)
    ultimately show ?thesis using Cons.IH [of "teardownPlugin q h"] Cons.prems False by (simp add: teardown_active)
  qed
qed simp

lemma message_without_instances:
  assumes "ph_active h = []" shows "handleWindowMessage env source origin data h = h"
proof -
  have "findInstanceForMessage source data h = None"
    by (cases source) (simp_all add: findInstanceForMessage_def assms)
  then show ?thesis by (simp add: handleWindowMessage_def)
qed

text \<open>Stopping the runtime leaves nothing of the plugins: no active instance, no command or panel
  in the store, every iframe that was active removed from the document, and messages of former
  iframes ignored.\<close>

theorem stop_removes_every_plugin:
  assumes "host_reachable h" "ph_started h"
  shows "ph_active (stop h) = [] \<and> contributors (ph_store (stop h)) = {} \<and> \<not> ph_listening (stop h)
    \<and> (\<forall>p n i. (p, n) \<in> set (ph_active h) \<longrightarrow> ph_objects (stop h) n = Some i \<longrightarrow> \<not> pi_attached i)
    \<and> handleWindowMessage env source origin data (stop h) = stop h"
proof -
  have h: "host_ok h" using assms(1) by (rule reachable_host_ok)
  have a: "ph_active (stop h) = []" using assms(2) by (rule stop_active)
  have c: "contributors (ph_store (stop h)) = {}" using host_okE(1) [OF host_ok_stop [OF h]] a by simp
  have l: "ph_listening (foldl (\<lambda>s p. teardownPlugin p s) s ps) = ph_listening s" for s ps
    by (induction ps arbitrary: s) (auto simp: teardownPlugin_def store_simps split: option.split)
  have "\<not> pi_attached i" if "(p, n) \<in> set (ph_active h)" "ph_objects (stop h) n = Some i" for p n i
  proof
    assume at: "pi_attached i"
    have d: "distinct (map fst (ph_active h))" using h by (simp add: host_ok_defs)
    then have "map_get (ph_active h) p = Some n" using that(1) by simp
    moreover have "p \<in> set (map fst (ph_active h))" using that(1) by force
    ultimately show False
      using foldl_teardown_detaches [OF that(2) [unfolded stop_unfold [OF assms(2)]] at] d by simp
  qed
  moreover have "handleWindowMessage env source origin data (stop h) = stop h" by (rule message_without_instances [OF a])
  moreover have "\<not> ph_listening (stop h)" by (simp add: stop_unfold [OF assms(2)] l)
  ultimately show ?thesis using a c by blast
qed

lemma ex_enabled_started: "ph_started ex_enabled"
proof -
  have t: "ph_started (foldl (\<lambda>s p. teardownPlugin p s) s ps) = ph_started s" for s ps
    by (induction ps arbitrary: s) (auto simp: teardownPlugin_def store_simps split: option.split)
  have b: "enable_begin e p s = (s', t) \<Longrightarrow> ph_started s' = ph_started s" for e p s s' t
    by (auto simp: enable_begin_def set_status_def Let_def fresh_id_def store_simps split: option.splits if_splits)
  have "ph_started (enable_all e js s) = ph_started s" for e js s
    by (induction e js s rule: enable_all.induct) (auto simp: store_simps split: prod.splits option.splits dest: b)
  then have "ph_started ex_discovered"
    by (simp add: ex_discovered_def refreshDiscovery_def Let_def split_def start_def initial_host_def store_simps t)
  then show ?thesis by (simp add: ex_enabled_facts)
qed

lemma stop_removes_every_plugin_witness: "ph_active ex_enabled \<noteq> [] \<and> ph_active (stop ex_enabled) = []"
  using stop_removes_every_plugin [OF ex_enabled_reachable ex_enabled_started] ex_enabled_facts(1) by simp


subsection \<open>Two boots of one plugin\<close>

text \<open>A pending \<open>enable\<close> remembers its plugin's id and not its instance: when the boot of an
  instance that was disabled in the meantime times out, the instance that a later \<open>enable\<close> of the
  same plugin started is torn down and the plugin is marked failed.\<close>

theorem stale_timeout_kills_the_new_instance:
  assumes "k < length (ph_tasks h)" "bt_plugin (ph_tasks h ! k) = p" "bt_phase (ph_tasks h ! k) = AwaitReady"
    and "bt_then (ph_tasks h ! k) = []" "ph_objects h (bt_object (ph_tasks h ! k)) = Some old" "\<not> pi_ready old"
    and "map_get (ph_active h) p = Some n" "n \<noteq> bt_object (ph_tasks h ! k)" "find_registry p (ph_store h) = Some item"
  shows "map_get (ph_active (boot_timeout env k h)) p = None
    \<and> status_of p (ph_store (boot_timeout env k h)) = Some PsFailed"
proof -
  have b: "boot_timeout env k h = failPlugin env p (JStr ''plugin runtime did not become ready'') (drop_task k h)"
    using assms by (simp add: boot_timeout_def Let_def)
  have r: "map_get (map_remove p m) p = None" for m :: "(string \<times> nat) list"
    by (induction m) (auto simp: map_remove_def)
  have "status_of p (ph_store (teardownPlugin p s)) = status_of p (ph_store s)" for s
    by (simp add: teardownPlugin_def store_simps split: option.split)
  moreover have "find_registry p (ph_store (teardownPlugin p (drop_task k h))) \<noteq> None"
    using assms(9) by (auto simp: teardownPlugin_def store_simps drop_task_def split: option.split)
  ultimately show ?thesis
    by (auto simp: b failPlugin_def store_simps teardown_active r)
qed

definition ex_reenabled :: plugin_host where
  "ex_reenabled = host_step ex_env (EvEnable ''demo.local.actions'') (host_step ex_env (EvDisable ''demo.local.actions'') ex_enabled)"

lemma find_registry_upsert_other:
  assumes "registry_id item \<noteq> Some (JStr p)"
  shows "find_registry p (upsertRegistryItem item s) = find_registry p s"
proof -
  have "find (has_id p) (upsert_registry_list item xs) = find (has_id p) xs" for xs
  proof (cases "find_index (\<lambda>current. registry_id current = registry_id item) xs")
    case None
    moreover have "find (has_id p) (xs @ [item]) = find (has_id p) xs" using assms by (induction xs) (auto simp: has_id_def)
    ultimately show ?thesis by (simp add: upsert_registry_list_def)
  next
    case (Some i)
    then have "i < length xs" "\<not> has_id p (xs ! i)" using find_index_Some [OF Some] assms by (auto simp: has_id_def)
    then have "find (has_id p) (xs[i := item]) = find (has_id p) xs"
      using assms by (induction xs arbitrary: i) (auto simp: has_id_def split: nat.split)
    then show ?thesis using Some by (simp add: upsert_registry_list_def)
  qed
  then show ?thesis by (simp add: find_registry_def upsertRegistryItem_def)
qed

lemma find_registry_upsert_some:
  assumes "find_registry p s = Some old" shows "\<exists>new. find_registry p (upsertRegistryItem item s) = Some new"
proof (cases "registry_id item = Some (JStr p)")
  case True
  moreover have "registry_id old = Some (JStr p)" using assms by (auto simp: find_registry_def find_Some_iff has_id_def)
  ultimately show ?thesis using find_registry_upsert [OF assms, of item] by simp
qed (simp add: assms find_registry_upsert_other)

lemma disable_facts:
  "ph_active (disable env p h) = map_remove p (ph_active h)" "ph_tasks (disable env p h) = ph_tasks h"
  "ph_next (disable env p h) = ph_next h" "ph_descriptors (disable env p h) = ph_descriptors h"
  "ph_objects (disable env p h) n = map_option (\<lambda>i. if map_get (ph_active h) p = Some n then i\<lparr>pi_attached := False\<rparr> else i) (ph_objects h n)"
proof -
  have t: "ph_tasks (teardownPlugin p s) = ph_tasks s" "ph_next (teardownPlugin p s) = ph_next s"
    "ph_descriptors (teardownPlugin p s) = ph_descriptors s"
    "ph_objects (teardownPlugin p s) n = map_option (\<lambda>i. if map_get (ph_active s) p = Some n then i\<lparr>pi_attached := False\<rparr> else i) (ph_objects s n)"
    for s
    by (cases "ph_objects s n"; simp add: teardownPlugin_def store_simps split: option.split)+
  show "ph_active (disable env p h) = map_remove p (ph_active h)" "ph_tasks (disable env p h) = ph_tasks h"
    "ph_next (disable env p h) = ph_next h" "ph_descriptors (disable env p h) = ph_descriptors h"
    "ph_objects (disable env p h) n = map_option (\<lambda>i. if map_get (ph_active h) p = Some n then i\<lparr>pi_attached := False\<rparr> else i) (ph_objects h n)"
    by (simp_all add: disable_def Let_def set_status_def store_simps teardown_active t split: option.split)
qed

lemma ex_reenabled_reachable: "host_reachable ex_reenabled"
  unfolding ex_reenabled_def by (intro host_next ex_enabled_reachable)

lemma stale_timeout_kills_the_new_instance_witness:
  "host_reachable ex_reenabled \<and> map_get (ph_active ex_reenabled) ''demo.local.actions'' = Some 1
   \<and> map_get (ph_active (boot_timeout ex_env 0 ex_reenabled)) ''demo.local.actions'' = None"
proof -
  let ?p = "''demo.local.actions''"
  let ?h = "disable ex_env ?p ex_enabled"
  obtain d where d: "map_get (ph_descriptors ex_discovered) ?p = Some d" using ex_discovered_facts by blast
  obtain i where i: "ph_objects ex_enabled 0 = Some i" "\<not> pi_ready i" using ex_enabled_facts by auto
  have h: "host_ok ?h" using host_ok_disable [OF reachable_host_ok [OF ex_enabled_reachable]] .
  have a: "ph_active ?h = []" by (simp add: disable_facts ex_enabled_facts map_remove_def)
  have "map_get (ph_descriptors ?h) ?p = Some d" "map_get (ph_active ?h) ?p = None"
    using d a by (simp_all add: disable_facts ex_enabled_facts)
  note e = enable_new [OF h this, of ex_env]
  have r: "ex_reenabled = enable ex_env ?p ?h" by (simp add: ex_reenabled_def)
  obtain t where t: "ph_tasks ex_enabled = [t]" using ex_enabled_facts(2) by (cases "ph_tasks ex_enabled") auto
  have tasks: "ph_tasks ex_reenabled ! 0 = t" "0 < length (ph_tasks ex_reenabled)" by (simp_all add: r e disable_facts t)
  have act: "map_get (ph_active ex_reenabled) ?p = Some 1" by (simp add: r e disable_facts ex_enabled_facts map_remove_def)
  have obj: "ph_objects ex_reenabled 0 = Some (i\<lparr>pi_attached := False\<rparr>)"
    by (simp add: r e disable_facts ex_enabled_facts i store_simps)
  have "\<exists>item. find_registry ?p (ph_store ex_reenabled) = Some item"
  proof -
    obtain item where "find_registry ?p (ph_store ex_discovered) = Some item" using ex_discovered_facts by blast
    moreover have "ph_store ex_enabled = setDesiredEnabled ?p True (ph_store ex_discovered)"
      using enable_new [OF reachable_host_ok [OF ex_discovered_reachable] d, of ex_env]
      by (simp add: ex_enabled_def ex_discovered_facts store_simps)
    ultimately have f1: "find_registry ?p (ph_store ex_enabled) = Some item" by (simp add: store_simps)
    have "\<exists>item. find_registry ?p (ph_store ?h) = Some item"
      unfolding disable_def Let_def using f1
      by (auto simp: teardownPlugin_def store_simps set_status_def split: option.split intro!: find_registry_upsert_some)
    then show ?thesis by (simp add: r e store_simps)
  qed
  then obtain item where "find_registry ?p (ph_store ex_reenabled) = Some item" by blast
  moreover have "bt_plugin t = ?p" "bt_phase t = AwaitReady" "bt_then t = []" "bt_object t = 0"
    using ex_enabled_facts t by simp_all
  ultimately show ?thesis
    using stale_timeout_kills_the_new_instance [of 0 ex_reenabled ?p "i\<lparr>pi_attached := False\<rparr>" 1 item ex_env]
      tasks act obj i ex_reenabled_reachable by simp
qed

subsection \<open>Ids inherited from Object.prototype\<close>

lemma bundled_normal: "normalizeManifest (manifest_json m) = Some m" if "m \<in> {transportPanelManifest, conversationSummaryManifest, localActionsManifest}"
  using that bundled_checks by (auto simp: manifest_checks_def)

lemma discover_one_bundled:
  assumes "ld_manifest d = manifest_json m" "m \<in> {transportPanelManifest, conversationSummaryManifest, localActionsManifest}"
    and "pm_id m \<notin> set (dc_seen a)"
  shows "\<exists>a'. discover_one env old desired d a = Some a' \<and> dc_seen a' = dc_seen a @ [pm_id m]
    \<and> (\<exists>item. dc_registry a' = dc_registry a @ [item] \<and> registry_id item = Some (JStr (pm_id m)))"
proof -
  have ne: "pm_id m \<noteq> []" using assms(2) by (auto simp: bundled_ids)
  have id: "json_get (manifest_json m) ''id'' = Some (JStr (pm_id m))" "manifest_json m \<noteq> JNull" by (simp_all add: manifest_json_def)
  show ?thesis
  proof (cases "validatePluginDescriptor d")
    case (Inl e)
    then show ?thesis using assms ne id
      by (cases e) (simp add: discover_one_def raw_plugin_id_def str_of_def failed_item_def registry_id_def)
  next
    case (Inr m')
    then have "m' = m" using validate_Inr(1) [OF Inr] assms(1) bundled_normal [OF assms(2)] by simp
    then show ?thesis using Inr assms ne by (simp add: discover_one_def Let_def discovered_item_def registry_id_def)
  qed
qed

text \<open>The persisted wishes are looked up in a plain object, so a local plugin called
  \<open>constructor\<close>, a name the manifest rules allow, is enabled as soon as it is discovered, although the
  user never enabled anything.\<close>

theorem plugin_named_constructor_enables_itself:
  assumes "validatePluginDescriptor d = Inr m" "pm_id m = ''constructor''"
  shows "map_get (ph_active (refreshDiscovery env code [d] (initial_host Map.empty local messaging))) ''constructor'' = Some 0"
proof -
  let ?a0 = "\<lparr>dc_registry = [], dc_seen = [], dc_descriptors = []\<rparr>"
  let ?ds = "bundledPluginDescriptors code"
  obtain b1 b2 b3 where ds: "?ds = [b1, b2, b3]" "ld_manifest b1 = manifest_json transportPanelManifest"
    "ld_manifest b2 = manifest_json conversationSummaryManifest" "ld_manifest b3 = manifest_json localActionsManifest"
    by (simp add: bundledPluginDescriptors_def)
  obtain a1 i1 where a1: "discover_one env [] Map.empty b1 ?a0 = Some a1" "dc_seen a1 = [''demo.transport.health'']"
    "dc_registry a1 = [i1]" "registry_id i1 = Some (JStr ''demo.transport.health'')"
    using discover_one_bundled [of b1 transportPanelManifest ?a0 env "[]" Map.empty] ds by (auto simp: bundled_ids)
  obtain a2 i2 where a2: "discover_one env [] Map.empty b2 a1 = Some a2" "dc_seen a2 = dc_seen a1 @ [''demo.conversation.summary'']"
    "dc_registry a2 = dc_registry a1 @ [i2]" "registry_id i2 = Some (JStr ''demo.conversation.summary'')"
    using discover_one_bundled [of b2 conversationSummaryManifest a1 env "[]" Map.empty] ds a1 by (auto simp: bundled_ids)
  obtain a3 i3 where a3: "discover_one env [] Map.empty b3 a2 = Some a3" "dc_seen a3 = dc_seen a2 @ [''demo.local.actions'']"
    "dc_registry a3 = dc_registry a2 @ [i3]" "registry_id i3 = Some (JStr ''demo.local.actions'')"
    using discover_one_bundled [of b3 localActionsManifest a2 env "[]" Map.empty] ds a1 a2 by (auto simp: bundled_ids)
  let ?item = "discovered_item env d m None False"
  let ?pd = "\<lparr>pd_manifest = m, pd_source = ld_source d, pd_sourceRef = ld_sourceRef d, pd_entrypointCode = ld_entrypointCode d\<rparr>"
  let ?a4 = "a3\<lparr>dc_seen := dc_seen a3 @ [''constructor''], dc_registry := dc_registry a3 @ [?item],
    dc_descriptors := map_set ''constructor'' ?pd (dc_descriptors a3)\<rparr>"
  have a4: "discover_one env [] Map.empty d a3 = Some ?a4"
    using assms by (simp add: discover_one_def Let_def a1 a2 a3)
  have loop: "discover_loop env [] Map.empty (?ds @ [d]) ?a0 = (True, ?a4)"
    by (simp add: ds a1 a2 a3 a4)
  have proto: "''constructor'' \<in> set object_prototype_keys" by code_simp
  have "registry_id ?item = Some (JStr ''constructor'')" by (simp add: registry_id_def discovered_item_def assms)
  then have w: "wanted_ids Map.empty (dc_registry ?a4) = [JStr ''constructor'']"
    using not_prototype_keys proto
    by (simp add: wanted_ids_def List.map_filter_def a1 a2 a3 desired_truthy_def)
  have caps: "find (\<lambda>c. \<not> isCapabilityAllowedInV1 c) (pm_requestedPermissions m) = None"
    by (rule manifest_ok_caps [OF manifest_ok_validated [OF assms(1)]])
  show ?thesis
    using loop w caps
    by (simp add: refreshDiscovery_def initial_host_def rehydrate_plugins_def initial_plugin_store_def set_store_def
        setRegistry_def enable_begin_def Let_def fresh_id_def)
qed

definition constructor_manifest :: plugin_manifest where
  "constructor_manifest = localActionsManifest\<lparr>pm_id := ''constructor''\<rparr>"

lemma plugin_named_constructor_enables_itself_witness:
  "map_get (ph_active (refreshDiscovery ex_env (\<lambda>_. ''run'')
     [\<lparr>ld_manifest = manifest_json constructor_manifest, ld_source = SrcLocal, ld_sourceRef = ''dir'', ld_entrypointCode = ''run''\<rparr>]
     (initial_host Map.empty [] initial_store))) ''constructor'' = Some 0"
proof -
  have c: "manifest_checks constructor_manifest" by code_simp
  show ?thesis
    by (rule plugin_named_constructor_enables_itself [OF checked_descriptor_validates [OF c]])
      (simp_all add: constructor_manifest_def)
qed

end
