(* ===== verification/Updater.thy ===== *)
theory Updater
  imports Api_Errors
begin

text \<open>
  \<open>state/updaterStore.ts\<close> and \<open>services/updater.ts\<close>: the search for updates of the application, their
  download, and the banner that offers them. The updater plugin of Tauri is not part of the repository:
  its answers, and the events it reports during a download, are arguments of the operations, as is the
  double that \<open>(downloaded / total) * 100\<close> yields.
\<close>

subsection \<open>The store\<close>

datatype update_channel = ChStable | ChBeta

datatype updater_status = UsIdle | UsUnsupported | UsChecking | UsUpToDate | UsAvailable | UsDownloading | UsDownloaded | UsError

record updater_store =
  us_supported :: bool
  us_status :: updater_status
  us_channel :: update_channel
  us_currentVersion :: "string option"
  us_availableVersion :: "string option"
  us_releaseNotes :: "string option"
  us_publishedAt :: "string option"
  us_progressPercent :: int
  us_lastCheckedAt :: "string option"
  us_errorMessage :: "string option"
  us_bannerVisible :: bool
  us_dismissedVersion :: "string option"

definition initial_updater :: updater_store where
  "initial_updater = \<lparr>us_supported = True, us_status = UsIdle, us_channel = ChStable, us_currentVersion = None, us_availableVersion = None,
     us_releaseNotes = None, us_publishedAt = None, us_progressPercent = 0, us_lastCheckedAt = None, us_errorMessage = None,
     us_bannerVisible = False, us_dismissedVersion = None\<rparr>"

definition setSupported :: "bool \<Rightarrow> updater_store \<Rightarrow> updater_store" where
  "setSupported v s = s\<lparr>us_supported := v\<rparr>"

definition setStatus :: "updater_status \<Rightarrow> updater_store \<Rightarrow> updater_store" where
  "setStatus v s = s\<lparr>us_status := v\<rparr>"

definition setChannel :: "update_channel \<Rightarrow> updater_store \<Rightarrow> updater_store" where
  "setChannel v s = s\<lparr>us_channel := v\<rparr>"

definition setCurrentVersion :: "string option \<Rightarrow> updater_store \<Rightarrow> updater_store" where
  "setCurrentVersion v s = s\<lparr>us_currentVersion := v\<rparr>"

definition setAvailableUpdate :: "string \<Rightarrow> string option \<Rightarrow> string option \<Rightarrow> bool \<Rightarrow> updater_store \<Rightarrow> updater_store" where
  "setAvailableUpdate version notes publishedAt showBanner s =
     s\<lparr>us_status := UsAvailable, us_availableVersion := Some version, us_releaseNotes := notes, us_publishedAt := publishedAt,
       us_errorMessage := None, us_progressPercent := 0,
       us_bannerVisible := (showBanner \<and> us_dismissedVersion s \<noteq> Some version)\<rparr>"

definition clearAvailableUpdate :: "updater_store \<Rightarrow> updater_store" where
  "clearAvailableUpdate s = s\<lparr>us_availableVersion := None, us_releaseNotes := None, us_publishedAt := None,
     us_progressPercent := 0, us_bannerVisible := False\<rparr>"

fun setProgressPercent :: "jsnumber \<Rightarrow> updater_store \<Rightarrow> updater_store" where
  "setProgressPercent (Fin q) s = s\<lparr>us_progressPercent := min 100 (max 0 \<lfloor>q\<rfloor>)\<rparr>"
| "setProgressPercent _ s = s\<lparr>us_progressPercent := 0\<rparr>"

text \<open>A message sets the status to \<open>error\<close>; \<open>null\<close> and the empty text keep it.\<close>

definition setError :: "string option \<Rightarrow> updater_store \<Rightarrow> updater_store" where
  "setError v s = s\<lparr>us_status := (if v \<noteq> None \<and> v \<noteq> Some [] then UsError else us_status s), us_errorMessage := v\<rparr>"

definition setBannerVisible :: "bool \<Rightarrow> updater_store \<Rightarrow> updater_store" where
  "setBannerVisible v s = s\<lparr>us_bannerVisible := v\<rparr>"

definition dismissCurrentVersion :: "updater_store \<Rightarrow> updater_store" where
  "dismissCurrentVersion s = s\<lparr>us_bannerVisible := False,
     us_dismissedVersion := (case us_availableVersion s of Some v \<Rightarrow> Some v | None \<Rightarrow> us_dismissedVersion s)\<rparr>"

definition markCheckedNow :: "string \<Rightarrow> updater_store \<Rightarrow> updater_store" where
  "markCheckedNow now s = s\<lparr>us_lastCheckedAt := Some now\<rparr>"

text \<open>What \<open>persist\<close> keeps over a restart.\<close>

definition updater_restart :: "updater_store \<Rightarrow> updater_store" where
  "updater_restart s = initial_updater\<lparr>us_channel := us_channel s, us_dismissedVersion := us_dismissedVersion s\<rparr>"

lemmas updater_store_defs = setSupported_def setStatus_def setChannel_def setCurrentVersion_def setAvailableUpdate_def
  clearAvailableUpdate_def setError_def setBannerVisible_def dismissCurrentVersion_def markCheckedNow_def updater_restart_def

subsection \<open>The service\<close>

record update_info =
  nu_version :: string
  nu_body :: "string option"
  nu_date :: "string option"

datatype check_result = HasUpdate update_info | NoUpdate string

datatype download_event = Started "int option" | Progress int | Finished

record updater_state =
  ud_store :: updater_store
  ud_activeUpdate :: "update_info option"
  ud_backgroundInitialized :: bool

definition on_store :: "(updater_store \<Rightarrow> updater_store) \<Rightarrow> updater_state \<Rightarrow> updater_state" where
  "on_store f w = w\<lparr>ud_store := f (ud_store w)\<rparr>"

text \<open>\<open>String(error ?? "")\<close>\<close>

fun error_string :: "js_error \<Rightarrow> string" where
  "error_string (JsError m) = ''Error: '' @ m"
| "error_string (ApiClientError status payload) =
     ''Error: '' @ (case payload_error_field payload ''message'' of Some m \<Rightarrow> m | None \<Rightarrow> ''API request failed'')"
| "error_string (Thrown v) = (if v = JNull then [] else to_str v)"

definition mapUpdateError :: "js_error \<Rightarrow> string" where
  "mapUpdateError error = (let message = toLowerCase (error_string error) in
     if str_includes message ''network'' \<or> str_includes message ''timed out'' \<or> str_includes message ''timeout'' then ''network''
     else if str_includes message ''signature'' \<or> str_includes message ''pubkey'' then ''signature''
     else if str_includes message ''tls'' \<or> str_includes message ''certificate'' then ''tls''
     else if str_includes message ''no update'' \<or> str_includes message ''204'' then ''none''
     else ''unknown'')"

definition checkForUpdates :: "bool \<Rightarrow> bool \<Rightarrow> js_error + update_info option \<Rightarrow> string \<Rightarrow> updater_state
    \<Rightarrow> (js_error + check_result) \<times> updater_state" where
  "checkForUpdates tauri showBanner answer now w =
     (if \<not> tauri then
        (Inr (NoUpdate ''unsupported''), on_store (setError (Some ''unsupported'') \<circ> setStatus UsUnsupported \<circ> setSupported False) w)
      else let w1 = on_store (markCheckedNow now \<circ> setError None \<circ> setStatus UsChecking) w in
        case answer of
          Inl error \<Rightarrow> (Inl error, on_store (setError (Some (mapUpdateError error)) \<circ> setStatus UsError) w1)
        | Inr None \<Rightarrow> (Inr (NoUpdate ''none''), on_store (clearAvailableUpdate \<circ> setStatus UsUpToDate) (w1\<lparr>ud_activeUpdate := None\<rparr>))
        | Inr (Some update) \<Rightarrow> (Inr (HasUpdate update),
            on_store (setAvailableUpdate (nu_version update) (nu_body update) (nu_date update) showBanner) (w1\<lparr>ud_activeUpdate := Some update\<rparr>)))"

definition initializeBackgroundChecks :: "bool \<Rightarrow> js_error + string \<Rightarrow> js_error + update_info option \<Rightarrow> string \<Rightarrow> updater_state \<Rightarrow> updater_state" where
  "initializeBackgroundChecks tauri version answer now w =
     (if ud_backgroundInitialized w then w
      else let w1 = w\<lparr>ud_backgroundInitialized := True\<rparr> in
        if \<not> tauri then on_store (setStatus UsUnsupported \<circ> setSupported False) w1
        else let w2 = (case version of Inl _ \<Rightarrow> w1 | Inr v \<Rightarrow> on_store (setSupported True \<circ> setCurrentVersion (Some v)) w1) in
             snd (checkForUpdates tauri True answer now w2))"

text \<open>\<open>onEvent\<close> with its counters \<open>downloaded\<close> and \<open>total\<close> (here \<open>expected\<close>).\<close>

fun on_download_event :: "(int \<Rightarrow> int \<Rightarrow> jsnumber) \<Rightarrow> download_event \<Rightarrow> int \<times> int \<times> updater_store \<Rightarrow> int \<times> int \<times> updater_store" where
  "on_download_event percent (Started contentLength) (downloaded, expected, s) =
     (0, (case contentLength of None \<Rightarrow> 0 | Some n \<Rightarrow> n), setProgressPercent (Fin 0) s)"
| "on_download_event percent (Progress chunkLength) (downloaded, expected, s) =
     (let d = downloaded + chunkLength in (d, expected, if 0 < expected then setProgressPercent (percent d expected) s else s))"
| "on_download_event percent Finished (downloaded, expected, s) = (downloaded, expected, setProgressPercent (Fin 100) s)"

definition downloadAndInstallUpdate :: "(int \<Rightarrow> int \<Rightarrow> jsnumber) \<Rightarrow> download_event list \<Rightarrow> js_error + unit \<Rightarrow> updater_state
    \<Rightarrow> (js_error + unit) \<times> updater_state" where
  "downloadAndInstallUpdate percent events outcome w =
     (if ud_activeUpdate w = None then (Inl (JsError ''no_update_available''), w)
      else let w1 = on_store (setError None \<circ> setProgressPercent (Fin 0) \<circ> setStatus UsDownloading) w;
               w2 = on_store (\<lambda>s. snd (snd (fold (on_download_event percent) events (0, 0, s)))) w1
           in case outcome of
             Inr _ \<Rightarrow> (Inr (), on_store (setProgressPercent (Fin 100) \<circ> setStatus UsDownloaded) w2)
           | Inl error \<Rightarrow> (Inl error, on_store (setError (Some (mapUpdateError error)) \<circ> setStatus UsError) w2))"

definition dismissUpdateBanner :: "updater_state \<Rightarrow> updater_state" where
  "dismissUpdateBanner w = on_store dismissCurrentVersion w"

subsection \<open>Runs\<close>

inductive updater_step :: "updater_state \<Rightarrow> updater_state \<Rightarrow> bool" where
  init: "updater_step w (initializeBackgroundChecks tauri version answer now w)"
| check: "updater_step w (snd (checkForUpdates tauri showBanner answer now w))"
| download: "updater_step w (snd (downloadAndInstallUpdate percent events outcome w))"
| dismiss: "updater_step w (dismissUpdateBanner w)"
| channel: "updater_step w (on_store (setChannel c) w)"
| restart: "updater_step w \<lparr>ud_store = updater_restart (ud_store w), ud_activeUpdate = None, ud_backgroundInitialized = False\<rparr>"

definition fresh_updater :: updater_state where
  "fresh_updater = \<lparr>ud_store = initial_updater, ud_activeUpdate = None, ud_backgroundInitialized = False\<rparr>"

definition banner_ok :: "updater_state \<Rightarrow> bool" where
  "banner_ok w \<longleftrightarrow> (let s = ud_store w in 0 \<le> us_progressPercent s \<and> us_progressPercent s \<le> 100
     \<and> (us_bannerVisible s \<longrightarrow> us_availableVersion s \<noteq> None \<and> us_availableVersion s \<noteq> us_dismissedVersion s
          \<and> map_option nu_version (ud_activeUpdate w) = us_availableVersion s)
     \<and> (us_status s = UsDownloading \<or> us_status s = UsDownloaded \<longrightarrow> us_errorMessage s = None))"

lemma setProgress_simps [simp]:
  "0 \<le> us_progressPercent (setProgressPercent q s)" "us_progressPercent (setProgressPercent q s) \<le> 100"
  "us_bannerVisible (setProgressPercent q s) = us_bannerVisible s" "us_availableVersion (setProgressPercent q s) = us_availableVersion s"
  "us_dismissedVersion (setProgressPercent q s) = us_dismissedVersion s" "us_status (setProgressPercent q s) = us_status s"
  "us_errorMessage (setProgressPercent q s) = us_errorMessage s"
  by (cases q; simp)+

lemma download_events:
  assumes "fold (on_download_event percent) events (d, t, s) = (d', t', s')" "0 \<le> us_progressPercent s \<and> us_progressPercent s \<le> 100"
  shows "(0 \<le> us_progressPercent s' \<and> us_progressPercent s' \<le> 100) \<and> us_bannerVisible s' = us_bannerVisible s
    \<and> us_availableVersion s' = us_availableVersion s \<and> us_dismissedVersion s' = us_dismissedVersion s
    \<and> us_status s' = us_status s \<and> us_errorMessage s' = us_errorMessage s"
  using assms
proof (induction events arbitrary: d t s)
  case (Cons e events)
  obtain d1 t1 s1 where e: "on_download_event percent e (d, t, s) = (d1, t1, s1)" by (metis prod_cases3)
  then have "(0 \<le> us_progressPercent s1 \<and> us_progressPercent s1 \<le> 100) \<and> us_bannerVisible s1 = us_bannerVisible s
    \<and> us_availableVersion s1 = us_availableVersion s \<and> us_dismissedVersion s1 = us_dismissedVersion s
    \<and> us_status s1 = us_status s \<and> us_errorMessage s1 = us_errorMessage s"
    using Cons.prems(2) by (cases e) (auto simp: Let_def simp del: setProgressPercent.simps split: if_splits)
  then show ?case using Cons.IH [of d1 t1 s1] Cons.prems(1) e by simp
qed simp

lemma check_banner_ok: "banner_ok w \<Longrightarrow> banner_ok (snd (checkForUpdates tauri showBanner answer now w))"
  by (auto simp: banner_ok_def checkForUpdates_def on_store_def updater_store_defs Let_def split: sum.split option.split)

lemma step_banner_ok: "updater_step w w' \<Longrightarrow> banner_ok w \<Longrightarrow> banner_ok w'"
proof (induction rule: updater_step.induct)
  case (init w tauri version answer now)
  then show ?case
    by (auto simp: initializeBackgroundChecks_def Let_def split: sum.split intro!: check_banner_ok)
       (auto simp: banner_ok_def on_store_def updater_store_defs Let_def)
next
  case (check w tauri showBanner answer now)
  then show ?case by (rule check_banner_ok)
next
  case (download w percent events outcome)
  then show ?case
    using download_events [of percent events 0 0 "setError None (setProgressPercent (Fin 0) (setStatus UsDownloading (ud_store w)))"]
    by (cases "fold (on_download_event percent) events (0, 0, setError None (setProgressPercent (Fin 0) (setStatus UsDownloading (ud_store w))))")
       (auto simp: banner_ok_def downloadAndInstallUpdate_def on_store_def updater_store_defs Let_def simp del: setProgressPercent.simps
         split: sum.split)
qed (auto simp: banner_ok_def dismissUpdateBanner_def on_store_def updater_store_defs Let_def initial_updater_def
    split: option.split)

text \<open>C36. The banner is honest and a dismissed version stays dismissed: in every run of the updater, over restarts and
  with any answers of the update server, a visible banner offers the version that would be installed, which is
  not the one the user dismissed; the progress is a percentage; and a download that is under way or done
  shows no error.\<close>

theorem banner_never_offers_a_dismissed_version:
  assumes "updater_step\<^sup>*\<^sup>* fresh_updater w"
  shows "banner_ok w"
  using assms
proof (induction rule: rtranclp_induct)
  case base
  then show ?case by (simp add: banner_ok_def fresh_updater_def initial_updater_def)
next
  case (step w w')
  then show ?case by (blast intro: step_banner_ok)
qed

lemma banner_never_offers_a_dismissed_version_witness:
  "banner_ok (snd (checkForUpdates True True (Inr (Some \<lparr>nu_version = ''1.1'', nu_body = None, nu_date = None\<rparr>)) ''t''
     (dismissUpdateBanner (snd (checkForUpdates True True (Inr (Some \<lparr>nu_version = ''1.0'', nu_body = None, nu_date = None\<rparr>)) ''t'' fresh_updater)))))"
proof (rule banner_never_offers_a_dismissed_version)
  show "updater_step\<^sup>*\<^sup>* fresh_updater (snd (checkForUpdates True True (Inr (Some \<lparr>nu_version = ''1.1'', nu_body = None, nu_date = None\<rparr>)) ''t''
     (dismissUpdateBanner (snd (checkForUpdates True True (Inr (Some \<lparr>nu_version = ''1.0'', nu_body = None, nu_date = None\<rparr>)) ''t'' fresh_updater)))))"
    by (rule rtranclp.rtrancl_into_rtrancl [OF rtranclp.rtrancl_into_rtrancl [OF rtranclp.rtrancl_into_rtrancl [OF rtranclp.rtrancl_refl]]])
       (rule updater_step.intros)+
qed

text \<open>Outside the desktop shell a check ends with the status \<open>error\<close>, not \<open>unsupported\<close>.\<close>

lemma unsupported_check_ends_in_error:
  "us_status (ud_store (snd (checkForUpdates False b answer now w))) = UsError"
  by (simp add: checkForUpdates_def on_store_def updater_store_defs)

end
