(* ===== verification/Client_Services.thy ===== *)
theory Client_Services
  imports Server_Connection "HOL-Library.Word"
begin

text \<open>
  The small services and stores of the client: the redacting logger (\<open>services/logger.ts\<close>), the merge of the
  locales and the choice of the language (\<open>services/i18n.ts\<close>), the application store (\<open>state/appStore.ts\<close>), the
  contacts (\<open>state/socialStore.ts\<close>) and the identifiers of \<open>lib/randomId.ts\<close>.
\<close>

subsection \<open>Logger\<close>

fun priority :: "log_level \<Rightarrow> nat" where
  "priority LDebug = 10"
| "priority LInfo = 20"
| "priority LWarn = 30"
| "priority LError = 40"

definition REDACTED :: string where "REDACTED = ''[redacted]''"

definition SENSITIVE_KEYS :: "string list" where
  "SENSITIVE_KEYS = [''password'', ''secret'', ''token'', ''private'', ''key'', ''ciphertext'', ''plaintext'']"

definition logger_isSensitiveKey :: "string \<Rightarrow> bool" where
  "logger_isSensitiveKey key = list_ex (\<lambda>sensitive. str_includes (toLowerCase key) sensitive) SENSITIVE_KEYS"

text \<open>
  Contexts are trees; an \<open>Error\<close> object, which has no enumerable members, is an empty object, and what is no
  tree is logged as it is. An assignment to the member \<open>__proto__\<close> does not make a member.
\<close>

fun sanitizeContext :: "json \<Rightarrow> json" where
  "sanitizeContext (JArr xs) = JArr (map sanitizeContext xs)"
| "sanitizeContext (JObj fs) = JObj (map (\<lambda>(k, v). (k, if logger_isSensitiveKey k then JStr REDACTED else sanitizeContext v))
     (filter (\<lambda>(k, v). k \<noteq> ''__proto__'') fs))"
| "sanitizeContext v = v"

datatype console = ConsoleError | ConsoleWarn | ConsoleLog

record log_entry =
  le_ts :: string
  le_level :: log_level
  le_message :: string
  le_context :: json

definition log_call :: "log_level \<Rightarrow> string \<Rightarrow> log_level \<Rightarrow> string \<Rightarrow> json option \<Rightarrow> (console \<times> log_entry) option" where
  "log_call minLevel now level message ctx =
     (if priority level < priority minLevel then None
      else let entry = \<lparr>le_ts = now, le_level = level, le_message = message,
                 le_context = sanitizeContext (if nullish ctx then JObj [] else the ctx)\<rparr>
           in Some (if level = LError then ConsoleError else if level = LWarn then ConsoleWarn else ConsoleLog, entry))"

text \<open>The levels are ordered by their priority; the logger is then a filter by that order.\<close>

instantiation log_level :: linorder
begin

definition less_eq_log_level :: "log_level \<Rightarrow> log_level \<Rightarrow> bool" where
  "a \<le> b \<longleftrightarrow> priority a \<le> priority b"

definition less_log_level :: "log_level \<Rightarrow> log_level \<Rightarrow> bool" where
  "a < b \<longleftrightarrow> priority a < priority b"

instance
proof
  show "a = b" if "a \<le> b" "b \<le> a" for a b :: log_level
    using that by (cases a; cases b) (simp_all add: less_eq_log_level_def)
qed (auto simp: less_eq_log_level_def less_log_level_def)

end

lemma log_call_by_level: "log_call minLevel now level message ctx = None \<longleftrightarrow> level < minLevel"
  by (simp add: log_call_def less_log_level_def Let_def)

lemma lower_minimum_logs_more:
  assumes "minLevel \<le> minLevel'" "log_call minLevel' now level message ctx = Some x"
  shows "log_call minLevel now level message ctx = Some x"
proof -
  have "\<not> level < minLevel" using assms log_call_by_level [of minLevel' now level message ctx] by auto
  then show ?thesis using assms(2) by (auto simp: log_call_def less_log_level_def Let_def split: if_splits)
qed

text \<open>Other values under the sensitive members, anywhere in a tree.\<close>

fun with_secrets :: "(string \<Rightarrow> json \<Rightarrow> json) \<Rightarrow> json \<Rightarrow> json" where
  "with_secrets f (JArr xs) = JArr (map (with_secrets f) xs)"
| "with_secrets f (JObj fs) = JObj (map (\<lambda>(k, v). (k, if logger_isSensitiveKey k then f k v else with_secrets f v)) fs)"
| "with_secrets f v = v"

fun unredacted :: "json \<Rightarrow> bool" where
  "unredacted (JArr xs) \<longleftrightarrow> (\<exists>x \<in> set xs. unredacted x)"
| "unredacted (JObj fs) \<longleftrightarrow> (\<exists>(k, v) \<in> set fs. if logger_isSensitiveKey k then v \<noteq> JStr REDACTED else unredacted v)"
| "unredacted _ \<longleftrightarrow> False"

lemma sanitize_with_secrets: "sanitizeContext (with_secrets f v) = sanitizeContext v"
proof (induction v)
  case (JObj fs)
  have "map (\<lambda>(k, v). (k, if logger_isSensitiveKey k then JStr REDACTED else sanitizeContext v))
      (filter (\<lambda>(k, v). k \<noteq> ''__proto__'') (map (\<lambda>(k, v). (k, if logger_isSensitiveKey k then f k v else with_secrets f v)) gs))
     = map (\<lambda>(k, v). (k, if logger_isSensitiveKey k then JStr REDACTED else sanitizeContext v)) (filter (\<lambda>(k, v). k \<noteq> ''__proto__'') gs)"
    if "set gs \<subseteq> set fs" for gs
    using that JObj by (induction gs) (fastforce simp: snds.simps)+
  then show ?case by simp
qed simp_all

lemma sanitize_redacts: "\<not> unredacted (sanitizeContext v)"
proof (induction v)
  case (JObj fs)
  have "\<not> unredacted (sanitizeContext v)" if "(k, v) \<in> set fs" for k v
    using JObj [OF that] by (simp add: snds.simps)
  then show ?case by (auto split: if_splits)
qed simp_all

text \<open>C35. The log does not depend on secrets. Whatever values stand under members whose names contain one of the
  sensitive words, at any depth of a log call's context, in arrays and nested objects, the console gets the
  same entry, and none if the level is too low; and no such member of an entry holds anything but the
  placeholder.\<close>

theorem log_does_not_depend_on_secrets:
  "log_call minLevel now level message (Some (with_secrets f ctx)) = log_call minLevel now level message (Some ctx)
   \<and> pred_option (\<lambda>(c, entry). \<not> unredacted (le_context entry)) (log_call minLevel now level message (Some ctx))"
proof -
  have "nullish (Some (with_secrets f ctx)) = nullish (Some ctx)" by (cases ctx) simp_all
  then show ?thesis using sanitize_redacts [of ctx] by (auto simp: log_call_def Let_def sanitize_with_secrets)
qed

subsection \<open>Locales\<close>

text \<open>Texts of the locales are lists of UTF-16 code units.\<close>

type_synonym text16 = "16 word list"

datatype locale_node = LocText text16 | LocTree "(string \<times> locale_node) list"

definition space16 :: "16 word \<Rightarrow> bool" where
  "space16 c \<longleftrightarrow> c = 0x20 \<or> (9 \<le> c \<and> c \<le> 13) \<or> c \<in> {0xA0, 0x1680, 0x2028, 0x2029, 0x202F, 0x205F, 0x3000, 0xFEFF}
     \<or> (0x2000 \<le> c \<and> c \<le> 0x200A)"

definition alnum16 :: "16 word \<Rightarrow> bool" where
  "alnum16 c \<longleftrightarrow> (0x41 \<le> c \<and> c \<le> 0x5A) \<or> (0x61 \<le> c \<and> c \<le> 0x7A) \<or> (0x30 \<le> c \<and> c \<le> 0x39)"

text \<open>The regular expression: one of two Cyrillic capitals, any character but a line end, a letter or digit.\<close>

fun mojibake :: "text16 \<Rightarrow> bool" where
  "mojibake (a # b # c # s) \<longleftrightarrow> (a \<in> {0x420, 0x421} \<and> b \<notin> {0x0A, 0x0D, 0x2028, 0x2029} \<and> alnum16 c) \<or> mojibake (b # c # s)"
| "mojibake _ \<longleftrightarrow> False"

fun question_marks :: "text16 \<Rightarrow> bool" where
  "question_marks (a # b # c # d # s) \<longleftrightarrow> (a = 0x3F \<and> b = 0x3F \<and> c = 0x3F \<and> d = 0x3F) \<or> question_marks (b # c # d # s)"
| "question_marks _ \<longleftrightarrow> False"

definition isCorruptedLocaleString :: "text16 \<Rightarrow> bool" where
  "isCorruptedLocaleString s \<longleftrightarrow> list_all space16 s \<or> 0xFFFD \<in> set s \<or> question_marks s \<or> mojibake s"

definition candidate_fields :: "locale_node option \<Rightarrow> (string \<times> locale_node) list" where
  "candidate_fields candidate = (case candidate of Some (LocTree fs) \<Rightarrow> fs | _ \<Rightarrow> [])"

fun mergeLocaleNode :: "locale_node option \<Rightarrow> locale_node \<Rightarrow> locale_node" where
  "mergeLocaleNode candidate (LocText fallback) = (case candidate of
      Some (LocText c) \<Rightarrow> if isCorruptedLocaleString c then LocText fallback else LocText c
    | _ \<Rightarrow> LocText fallback)"
| "mergeLocaleNode candidate (LocTree fallback) =
     LocTree (map (\<lambda>(k, v). (k, mergeLocaleNode (map_of (candidate_fields candidate) k) v)) fallback)"

text \<open>The node at a path.\<close>

fun node_at :: "locale_node option \<Rightarrow> string list \<Rightarrow> locale_node option" where
  "node_at n [] = n"
| "node_at n (k # ks) = node_at (map_of (candidate_fields n) k) ks"

lemma node_at_None [simp]: "node_at None p = None"
  by (induction p) (simp_all add: candidate_fields_def)

lemma map_of_merged: "map_of (map (\<lambda>(k, v). (k, f k v)) fs) k = map_option (f k) (map_of fs k)"
  by (induction fs) auto

lemma merged_at: "node_at (Some (mergeLocaleNode c d)) p = map_option (mergeLocaleNode (node_at c p)) (node_at (Some d) p)"
proof (induction p arbitrary: c d)
  case (Cons k p)
  show ?case
  proof (cases d)
    case (LocText x)
    then show ?thesis by (cases c) (auto simp: candidate_fields_def split: locale_node.split)
  next
    case (LocTree fs)
    show ?thesis
    proof (cases "map_of fs k")
      case None
      then show ?thesis using LocTree map_of_merged [of "\<lambda>k. mergeLocaleNode (map_of (candidate_fields c) k)" fs k]
        by (simp add: candidate_fields_def)
    next
      case (Some v)
      have "map_of (candidate_fields (Some (mergeLocaleNode c d))) k = Some (mergeLocaleNode (map_of (candidate_fields c) k) v)"
        using LocTree Some map_of_merged [of "\<lambda>k. mergeLocaleNode (map_of (candidate_fields c) k)" fs k] by (simp add: candidate_fields_def)
      moreover have "map_of (candidate_fields (Some d)) k = Some v" using LocTree Some by (simp add: candidate_fields_def)
      ultimately show ?thesis using Cons.IH by simp
    qed
  qed
qed simp

text \<open>The merged locale has a text for every path of the English one, and only for those: the translated text
  where there is one that is not corrupted, and the English text everywhere else, whatever shape the
  translation has.\<close>

theorem merged_locale_is_complete:
  "(case node_at (Some english) path of
      Some (LocText fallback) \<Rightarrow> node_at (Some (mergeLocaleNode translated english)) path = Some (LocText
        (case node_at translated path of Some (LocText c) \<Rightarrow> if isCorruptedLocaleString c then fallback else c | _ \<Rightarrow> fallback))
    | Some (LocTree fs) \<Rightarrow> (\<exists>gs. node_at (Some (mergeLocaleNode translated english)) path = Some (LocTree gs) \<and> map fst gs = map fst fs)
    | None \<Rightarrow> node_at (Some (mergeLocaleNode translated english)) path = None)"
  by (auto simp: merged_at comp_def split_def split: option.split locale_node.split)

subsection \<open>Language and onboarding\<close>

datatype app_language = LangRu | LangEn

definition LANGUAGE_STORAGE_KEY :: string where "LANGUAGE_STORAGE_KEY = ''secure-messenger-language''"
definition ONBOARDING_STORAGE_KEY :: string where "ONBOARDING_STORAGE_KEY = ''secure-messenger-onboarding-completed''"

definition stored_item :: "local_storage \<Rightarrow> string \<Rightarrow> string option" where
  "stored_item storage k = (case storage of None \<Rightarrow> None | Some m \<Rightarrow> m k)"

definition store_item :: "string \<Rightarrow> string \<Rightarrow> local_storage \<Rightarrow> local_storage" where
  "store_item k v = map_option (\<lambda>m. m(k \<mapsto> v))"

definition language_code :: "app_language \<Rightarrow> string" where
  "language_code l = (case l of LangRu \<Rightarrow> ''ru'' | LangEn \<Rightarrow> ''en'')"

definition detectPreferredLanguage :: "local_storage \<Rightarrow> string option \<Rightarrow> app_language" where
  "detectPreferredLanguage storage navigatorLanguage =
     (if stored_item storage LANGUAGE_STORAGE_KEY = Some ''ru'' then LangRu
      else if stored_item storage LANGUAGE_STORAGE_KEY = Some ''en'' then LangEn
      else let n = (case navigatorLanguage of None \<Rightarrow> [] | Some l \<Rightarrow> toLowerCase l) in
        if startsWith n ''en'' then LangEn else LangRu)"

definition changeLanguage :: "app_language \<Rightarrow> local_storage \<Rightarrow> local_storage" where
  "changeLanguage l = store_item LANGUAGE_STORAGE_KEY (language_code l)"

record app_state =
  ap_initialized :: bool
  ap_lastInitAt :: "string option"
  ap_language :: app_language
  ap_onboardingCompleted :: bool

definition readOnboardingCompleted :: "local_storage \<Rightarrow> bool" where
  "readOnboardingCompleted storage \<longleftrightarrow> stored_item storage ONBOARDING_STORAGE_KEY = Some ''1''"

definition initial_app :: "local_storage \<Rightarrow> string option \<Rightarrow> app_state" where
  "initial_app storage navigatorLanguage = \<lparr>ap_initialized = False, ap_lastInitAt = None,
     ap_language = detectPreferredLanguage storage navigatorLanguage, ap_onboardingCompleted = readOnboardingCompleted storage\<rparr>"

definition app_setInitialized :: "bool \<Rightarrow> app_state \<Rightarrow> app_state" where
  "app_setInitialized v s = s\<lparr>ap_initialized := v\<rparr>"

definition setLastInitAt :: "string \<Rightarrow> app_state \<Rightarrow> app_state" where
  "setLastInitAt v s = s\<lparr>ap_lastInitAt := Some v\<rparr>"

definition setLanguage :: "app_language \<Rightarrow> app_state \<times> local_storage \<Rightarrow> app_state \<times> local_storage" where
  "setLanguage v = (\<lambda>(s, storage). (s\<lparr>ap_language := v\<rparr>, store_item LANGUAGE_STORAGE_KEY (language_code v) storage))"

definition setOnboardingCompleted :: "bool \<Rightarrow> app_state \<times> local_storage \<Rightarrow> app_state \<times> local_storage" where
  "setOnboardingCompleted v = (\<lambda>(s, storage). (s\<lparr>ap_onboardingCompleted := v\<rparr>,
     store_item ONBOARDING_STORAGE_KEY (if v then ''1'' else ''0'') storage))"

text \<open>Both choices survive a restart of a client with \<open>localStorage\<close>, whatever the language of the platform.\<close>

lemma choices_survive_a_restart:
  "initial_app (snd (setOnboardingCompleted b (setLanguage l (s, Some m)))) nav
     = \<lparr>ap_initialized = False, ap_lastInitAt = None, ap_language = l, ap_onboardingCompleted = b\<rparr>"
  by (cases l) (auto simp: initial_app_def setOnboardingCompleted_def setLanguage_def detectPreferredLanguage_def
      readOnboardingCompleted_def stored_item_def store_item_def language_code_def LANGUAGE_STORAGE_KEY_def ONBOARDING_STORAGE_KEY_def)

subsection \<open>Identifiers\<close>

unbundle bit_operations_syntax

text \<open>\<open>randomUUID\<close> of the platform where it has one, else 16 random bytes with the version and variant bits set.\<close>

definition set_version_bits :: "8 word list \<Rightarrow> 8 word list" where
  "set_version_bits bytes = (let b = bytes[6 := ((bytes ! 6) AND 0x0F) OR 0x40] in b[8 := ((b ! 8) AND 0x3F) OR 0x80])"

definition byteToHex :: "8 word \<Rightarrow> string" where
  "byteToHex b = [hex_digit (unat b div 16), hex_digit (unat b mod 16)]"

definition randomID :: "string option \<Rightarrow> 8 word list \<Rightarrow> string" where
  "randomID randomUUID bytes = (case randomUUID of Some u \<Rightarrow> u
    | None \<Rightarrow> (let hex = map byteToHex (set_version_bits bytes); slice = (\<lambda>a b. concat (take (b - a) (drop a hex)))
        in slice 0 4 @ ''-'' @ slice 4 6 @ ''-'' @ slice 6 8 @ ''-'' @ slice 8 10 @ ''-'' @ slice 10 16))"

lemma high_nibble: "unat (w :: 8 word) div 16 = unat (drop_bit 4 w)"
  by (simp add: drop_bit_eq_div unat_div)

lemma version_bits:
  fixes b :: "8 word"
  shows "unat (b AND 0x0F OR 0x40) div 16 = 4" "unat (b AND 0x3F OR 0x80) div 16 \<in> {8, 9, 10, 11}"
proof -
  have "drop_bit 4 (0x0F :: 8 word) = 0" "drop_bit 4 (0x40 :: 8 word) = 4" "drop_bit 4 (0x3F :: 8 word) = 3" "drop_bit 4 (0x80 :: 8 word) = 8"
    by code_simp+
  note d = this
  show "unat (b AND 0x0F OR 0x40) div 16 = 4" by (simp add: high_nibble drop_bit_and drop_bit_or d)
  let ?c = "drop_bit 4 b AND 3"
  have "unat ?c \<le> 3" using word_and_le1 [of "drop_bit 4 b" 3] by (simp add: word_le_nat_alt)
  then have "unat ?c \<in> {0, 1, 2, 3}" by auto
  then have "?c \<in> {0, 1, 2, 3}" by (auto simp: word_unat_eq_iff)
  moreover have "unat (b AND 0x3F OR 0x80) div 16 = unat (?c OR 8)" by (simp add: high_nibble drop_bit_and drop_bit_or d)
  ultimately show "unat (b AND 0x3F OR 0x80) div 16 \<in> {8, 9, 10, 11}" by auto
qed

lemma hex_chars: "(char_of (52 :: nat) :: char) = CHR ''4''" "(char_of (56 :: nat) :: char) = CHR ''8''" "(char_of (57 :: nat) :: char) = CHR ''9''"
  "(char_of (97 :: nat) :: char) = CHR ''a''" "(char_of (98 :: nat) :: char) = CHR ''b''"
  by code_simp+

text \<open>Without \<open>randomUUID\<close> the identifier has the form of a version 4 UUID, whatever the random bytes are.\<close>

lemma random_id_is_a_version_4_uuid:
  assumes "length bytes = 16"
  shows "length (randomID None bytes) = 36 \<and> randomID None bytes ! 14 = CHR ''4'' \<and> randomID None bytes ! 19 \<in> set ''89ab''
    \<and> (\<forall>i \<in> {8, 13, 18, 23}. randomID None bytes ! i = CHR ''-'')"
proof -
  obtain a0 a1 a2 a3 a4 a5 a6 a7 a8 a9 a10 a11 a12 a13 a14 a15 where b: "bytes = [a0, a1, a2, a3, a4, a5, a6, a7, a8, a9, a10, a11, a12, a13, a14, a15]"
    using assms by (auto simp: numeral_eq_Suc length_Suc_conv)
  show ?thesis
    using version_bits(1) [of a6] version_bits(2) [of a8]
    by (auto simp: b randomID_def set_version_bits_def byteToHex_def hex_digit_def Let_def hex_chars)
qed

subsection \<open>Contacts\<close>

record profile =
  pr_displayName :: string
  pr_avatarColor :: string
  pr_bio :: string

record friend_contact =
  fr_id :: string
  fr_accountId :: string
  fr_nickname :: string
  fr_avatarColor :: string
  fr_note :: string
  fr_createdAt :: string

record social_store =
  so_profile :: profile
  so_friends :: "friend_contact list"

record friend_input =
  fi_accountId :: string
  fi_nickname :: "string option"
  fi_avatarColor :: "string option"
  fi_note :: "string option"

definition initial_social :: social_store where
  "initial_social = \<lparr>so_profile = \<lparr>pr_displayName = [], pr_avatarColor = ''#3fa5ff'', pr_bio = []\<rparr>, so_friends = []\<rparr>"

text \<open>A patch leaves out what it does not name.\<close>

definition updateProfile :: "string option \<Rightarrow> string option \<Rightarrow> string option \<Rightarrow> social_store \<Rightarrow> social_store" where
  "updateProfile displayName avatarColor bio s = (let p = so_profile s; given = (\<lambda>v d. case v of Some x \<Rightarrow> x | None \<Rightarrow> d) in
     s\<lparr>so_profile := \<lparr>pr_displayName = given displayName (pr_displayName p), pr_avatarColor = given avatarColor (pr_avatarColor p),
       pr_bio = given bio (pr_bio p)\<rparr>\<rparr>)"

text \<open>\<open>v || d\<close> of texts, and \<open>v?.trim() || d\<close>.\<close>

definition or_else :: "string option \<Rightarrow> string \<Rightarrow> string" where
  "or_else v d = (case v of Some x \<Rightarrow> if x \<noteq> [] then x else d | None \<Rightarrow> d)"

definition trimmed_or :: "string option \<Rightarrow> string \<Rightarrow> string" where
  "trimmed_or v d = or_else (map_option js_trim v) d"

definition addFriend :: "string \<Rightarrow> string \<Rightarrow> friend_input \<Rightarrow> social_store \<Rightarrow> social_store" where
  "addFriend newId now payload s = (let accountId = js_trim (fi_accountId payload) in
     if accountId = [] then s
     else if find (\<lambda>friend. fr_accountId friend = accountId) (so_friends s) \<noteq> None
     then s\<lparr>so_friends := map (\<lambda>friend. if fr_accountId friend = accountId
         then friend\<lparr>fr_nickname := trimmed_or (fi_nickname payload) (fr_nickname friend),
                fr_avatarColor := or_else (fi_avatarColor payload) (fr_avatarColor friend),
                fr_note := trimmed_or (fi_note payload) (fr_note friend)\<rparr> else friend) (so_friends s)\<rparr>
     else s\<lparr>so_friends := \<lparr>fr_id = newId, fr_accountId = accountId, fr_nickname = trimmed_or (fi_nickname payload) (take 8 accountId),
         fr_avatarColor = or_else (fi_avatarColor payload) ''#5e9bff'', fr_note = trimmed_or (fi_note payload) [], fr_createdAt = now\<rparr>
       # so_friends s\<rparr>)"

definition removeFriend :: "string \<Rightarrow> social_store \<Rightarrow> social_store" where
  "removeFriend i s = s\<lparr>so_friends := filter (\<lambda>friend. fr_id friend \<noteq> i) (so_friends s)\<rparr>"

text \<open>One contact per account, with an account that is not blank and a nickname that is not empty.\<close>

definition social_ok :: "social_store \<Rightarrow> bool" where
  "social_ok s \<longleftrightarrow> distinct (map fr_accountId (so_friends s))
     \<and> (\<forall>f \<in> set (so_friends s). fr_accountId f \<noteq> [] \<and> js_trim (fr_accountId f) = fr_accountId f \<and> fr_nickname f \<noteq> [])"

lemma trimmed_or_not_empty: "d \<noteq> [] \<Longrightarrow> trimmed_or v d \<noteq> []"
  by (cases v) (simp_all add: trimmed_or_def or_else_def)

lemma social_ok_steps [inv_intros]:
  "social_ok initial_social"
  "social_ok s \<Longrightarrow> social_ok (updateProfile a b c s)"
  "social_ok s \<Longrightarrow> social_ok (addFriend newId now payload s)"
  "social_ok s \<Longrightarrow> social_ok (removeFriend i s)"
proof -
  show "social_ok initial_social" by (simp add: social_ok_def initial_social_def)
  show "social_ok s \<Longrightarrow> social_ok (updateProfile a b c s)" by (simp add: social_ok_def updateProfile_def Let_def)
  show "social_ok s \<Longrightarrow> social_ok (removeFriend i s)" by (auto simp: social_ok_def removeFriend_def intro: distinct_map_filter)
  assume s: "social_ok s"
  let ?a = "js_trim (fi_accountId payload)"
  have fresh: "?a \<notin> fr_accountId ` set (so_friends s)" if "find (\<lambda>friend. fr_accountId friend = ?a) (so_friends s) = None"
    using that by (auto simp: find_None_iff)
  have keys: "map fr_accountId (map (\<lambda>f. if fr_accountId f = ?a then g f else f) fs) = map fr_accountId fs"
    if "\<And>f. fr_accountId (g f) = fr_accountId f" for g fs
    using that by (induction fs) auto
  show "social_ok (addFriend newId now payload s)"
    using s fresh by (auto simp: social_ok_def addFriend_def Let_def keys trimmed_or_not_empty simp del: map_map)
qed

end
