(* ===== verification/App.thy ===== *)
theory App
  imports Messaging_Invariants Server_Connection Plugin_Safety Updater Client_Services
begin

text \<open>
  The application around the components: \<open>app/init.ts\<close> (what runs once at start-up) and the effects of
  \<open>app/App.tsx\<close>, which start and stop the messaging runtime with the session. One state holds what the modules
  keep: the world of the messaging runtime with the session, the plugin host, the updater and the application
  store.
\<close>

subsection \<open>Start-up\<close>

record client =
  cl_world :: world
  cl_plugins :: plugin_host
  cl_updater :: updater_state
  cl_app :: app_state
  cl_initialized :: bool

text \<open>
  \<open>discoverLocalPlugins\<close> of \<open>services/plugins/localDiscovery.ts\<close>: what the shell has found in its plugin directory, \<open>None\<close>
  if its command fails. A manifest that is no JSON is skipped; everything else is left to the validation.
\<close>

record local_plugin_payload =
  lp_manifestJson :: string
  lp_entrypointCode :: string
  lp_sourceRef :: string

definition local_descriptor :: "local_plugin_payload \<Rightarrow> loaded_descriptor option" where
  "local_descriptor payload = map_option (\<lambda>parsedManifest. \<lparr>ld_manifest = parsedManifest, ld_source = SrcLocal,
     ld_sourceRef = lp_sourceRef payload, ld_entrypointCode = lp_entrypointCode payload\<rparr>) (JSON_parse (lp_manifestJson payload))"

definition discoverLocalPlugins :: "bool \<Rightarrow> local_plugin_payload list option \<Rightarrow> loaded_descriptor list" where
  "discoverLocalPlugins tauri payloads = (if \<not> tauri then [] else
     (case payloads of None \<Rightarrow> [] | Some ps \<Rightarrow> List.map_filter local_descriptor ps))"

text \<open>What start-up finds: the stored server, the answers of the relay, the local plugins, and the updater's.\<close>

record start_env =
  se_runtime :: runtime_env
  se_api :: auth_api
  se_url :: url_lib
  se_storage :: local_storage
  se_plugins :: plugin_env
  se_code :: "string \<Rightarrow> string"
  se_discovered :: "local_plugin_payload list option"
  se_tauri :: bool
  se_version :: "js_error + string"
  se_update :: "js_error + update_info option"
  se_now :: string

definition init_session :: "start_env \<Rightarrow> unit rt" where
  "init_session e =
     (if hasStoredServerConfig (se_url e) (se_now e) (se_storage e)
      then catch (bootstrapSession (re_fault (se_runtime e)) (se_api e)) (\<lambda>_. ret ())
      else auth_set (auth_setInitialized True))"

definition init_plugins :: "start_env \<Rightarrow> plugin_host \<Rightarrow> plugin_host" where
  "init_plugins e h = (if ph_started h then h
     else refreshDiscovery (se_plugins e) (se_code e) (discoverLocalPlugins (se_tauri e) (se_discovered e)) (start h))"

definition initApp :: "start_env \<Rightarrow> client \<Rightarrow> client" where
  "initApp e a =
     (if cl_initialized a then a
      else a\<lparr>cl_initialized := True,
             cl_world := snd (init_session e (cl_world a)),
             cl_plugins := init_plugins e (cl_plugins a),
             cl_updater := initializeBackgroundChecks (se_tauri e) (se_version e) (se_update e) (se_now e) (cl_updater a),
             cl_app := setLastInitAt (se_now e) (app_setInitialized True (cl_app a))\<rparr>)"

subsection \<open>The effect of the session\<close>

definition session_id :: "world \<Rightarrow> string option" where
  "session_id w = map_option (\<lambda>x. ses_id (as_session x)) (current_session w)"

definition start_failed_patch :: "runtime_env \<Rightarrow> js_error \<Rightarrow> transport_patch" where
  "start_failed_patch env error = (let classified = classifyMessagingError (re_t env) error in
     no_patch\<lparr>pt_mode := Some MNone, pt_status := Some StOffline,
       pt_lastError := Some (JStr (if ce_code classified = ''unknown'' then ce_message classified else ce_code classified))\<rparr>)"

text \<open>\<open>bootstrapMessagingRuntime\<close>; \<open>cancelled\<close> tells whether the effect was cleaned up when a failed start returned.\<close>

definition bootstrapMessagingRuntime :: "nat \<Rightarrow> runtime_env \<Rightarrow> bool \<Rightarrow> world \<Rightarrow> world" where
  "bootstrapMessagingRuntime fuel env cancelled w =
     (if \<not> present (a_accessToken (au_store w)) \<or> \<not> present (session_id w)
      then Messaging_Runtime.set_store env (\<lambda>now. reset) (stop_runtime env w)
      else case runtime_start fuel env (the (a_accessToken (au_store w))) w of
        (Inr _, w1) \<Rightarrow> w1
      | (Inl error, w1) \<Rightarrow> if cancelled then w1 else Messaging_Runtime.set_store env (\<lambda>now. setTransportState now (start_failed_patch env error)) w1)"

subsection \<open>Signed out\<close>

text \<open>No token, no socket, no data of an account in memory; \<open>rqs\<close> are the requests sent so far.\<close>

definition silent :: "api_request list \<Rightarrow> world \<Rightarrow> bool" where
  "silent rqs s \<longleftrightarrow> \<not> present (a_accessToken (au_store s)) \<and> \<not> present (rt_accessToken s) \<and> rt_stopped s
     \<and> rt_wsTransport s = None \<and> w_requests s = rqs
     \<and> st_conversations (w_store s) = [] \<and> st_messagesByConversation (w_store s) = Map.empty \<and> st_outbox (w_store s) = []"

lemma silent_token: "silent rqs s \<Longrightarrow> bnd requireAccessToken f s = (Inl (JsError ''unauthorized''), s)"
  by (simp add: silent_def requireAccessToken_def bnd_def throw_def)

lemma keeps_silent_token [keeps]: "keeps_pred (silent rqs) (bnd requireAccessToken f)"
  by (simp add: keeps_pred_def silent_token)

lemma silent_fields:
  "silent rqs s \<Longrightarrow> silent rqs (s\<lparr>rt_flushRequested := b\<rparr>)" "silent rqs s \<Longrightarrow> silent rqs (s\<lparr>rt_flushRunning := b\<rparr>)"
  "silent rqs s \<Longrightarrow> silent rqs (s\<lparr>rt_syncRunning := b\<rparr>)" "silent rqs s \<Longrightarrow> silent rqs (s\<lparr>rt_queuedSyncHint := h\<rparr>)"
  "silent rqs s \<Longrightarrow> silent rqs (s\<lparr>rt_longPollRunning := b\<rparr>)" "silent rqs s \<Longrightarrow> silent rqs (s\<lparr>rt_reconnectTimer := d\<rparr>)"
  "silent rqs s \<Longrightarrow> silent rqs (s\<lparr>rt_backoffCurrentMs := n\<rparr>)" "silent rqs s \<Longrightarrow> silent rqs (s\<lparr>w_diverged := v\<rparr>)"
  "silent rqs s \<Longrightarrow> silent rqs (queue_hint h s)" "silent rqs s \<Longrightarrow> silent rqs (stop_runtime env s)"
  "silent rqs s \<Longrightarrow> silent rqs (socket_state r s)" "silent rqs s \<Longrightarrow> silent rqs (Messaging_Runtime.set_store env (\<lambda>now. setTransportState now p) s)"
  by (auto simp: silent_def queue_hint_def stop_runtime_def socket_state_def Messaging_Runtime.set_store_def setTransportState_def Let_def present_def
      split: option.split)

lemma keeps_silent_flush [keeps]: "keeps_pred (silent rqs) (flushOutbox fuel env)"
proof -
  have pass: "keeps_pred (silent rqs) (flush_pass env)" unfolding flush_pass_def by (intro keeps silent_fields)
  have loop: "keeps_pred (silent rqs) (flush_loop n env)" for n
  proof (induction n)
    case 0
    show ?case by (auto intro!: keeps_upd silent_fields)
  next
    case (Suc n)
    then show ?case unfolding flush_loop.simps by (intro keeps pass)
  qed
  show ?thesis unfolding flushOutbox_def
    by (rule keepsI) (auto simp: sq_upd ret_def finally_do_def split: prod.split intro!: silent_fields dest: keepsD' [OF loop])
qed

lemma keeps_silent_sync [keeps]: "keeps_pred (silent rqs) (requestSync fuel env hint endpoint)"
proof -
  have once: "keeps_pred (silent rqs) (syncOnce env t h endpoint)" for t h unfolding syncOnce_def by (intro keeps)
  have loop: "keeps_pred (silent rqs) (sync_loop n env endpoint)" for n
  proof (induction n)
    case 0
    show ?case by (auto intro!: keeps_upd silent_fields)
  next
    case (Suc n)
    then show ?case unfolding sync_loop.simps case_prod_beta by (intro keeps once silent_fields)
  qed
  show ?thesis unfolding requestSync_def
    by (rule keepsI) (auto simp: sq_upd ret_def finally_do_def split: prod.split intro!: silent_fields dest: keepsD' [OF loop])
qed

text \<open>What can happen while nobody is signed in: everything but a sign-in.\<close>

fun signed_out_event :: "runtime_event \<Rightarrow> bool" where
  "signed_out_event (runtime_event.EvStart _) = False"
| "signed_out_event (EvAuth _) = False"
| "signed_out_event _ = True"

lemma silent_step: "signed_out_event ev \<Longrightarrow> keeps_pred (silent rqs) (runtime_step fuel env ev)"
proof (cases ev)
  case EvPollRound
  show ?thesis unfolding EvPollRound by (rule keepsI) (simp add: longPollRound_def silent_def upd_def)
next
  case (EvSocketMessage a m)
  have sync: "keeps_pred (silent rqs) (onSyncAvailable fuel env n)" for n unfolding onSyncAvailable_def by (intro keeps)
  have err: "keeps_pred (silent rqs) (onError env a e)" for e by (rule keepsI) (simp add: onError_def silent_def ret_def)
  show ?thesis unfolding EvSocketMessage by (cases "handleMessage m") (simp_all add: sync err keeps_base)
next
  case (EvSocketError a)
  show ?thesis unfolding EvSocketError by (rule keepsI) (simp add: onError_def silent_def ret_def)
next
  case (EvSocketClose a c r)
  have "keeps_pred (silent rqs) (onDisconnected env a x)" for x by (rule keepsI) (simp add: onDisconnected_def silent_def ret_def)
  then show ?thesis unfolding EvSocketClose by (simp, intro keeps silent_fields)
next
  case (EvSocketOpen a)
  have "keeps_pred (silent rqs) (onConnected env a)"
    unfolding onConnected_def transport_do_def store_do_def by (intro keeps silent_fields)
  then show ?thesis unfolding EvSocketOpen by (simp, intro keeps silent_fields)
next
  case EvReconnectTimer
  have "keeps_pred (silent rqs) (connectWebSocket env)" by (rule keepsI) (simp add: connectWebSocket_def silent_def ret_def)
  then show ?thesis unfolding EvReconnectTimer by (simp, intro keeps silent_fields)
next
  case EvStop
  show ?thesis unfolding EvStop by (simp, intro keeps silent_fields)
qed (simp_all add: ignore_result_def refreshConversations_def createDirect_def createGroup_def loadMessages_def sendMessage_def
      retryOutbox_def downloadAttachment_def keeps)

lemma silent_run:
  "silent rqs s \<Longrightarrow> list_all signed_out_event events \<Longrightarrow> silent rqs (runtime_run fuel env events s)"
  unfolding runtime_run_def by (induction events arbitrary: s) (auto intro: keepsD [OF silent_step])

lemma signed_out_is_silent:
  "\<not> present (a_accessToken (au_store w)) \<Longrightarrow> silent (w_requests w) (bootstrapMessagingRuntime fuel env cancelled w)"
  by (simp add: bootstrapMessagingRuntime_def silent_def Messaging_Runtime.set_store_def stop_runtime_def reset_def
      initial_store_def present_def)

subsection \<open>Properties\<close>


definition sample_client :: client where
  "sample_client = \<lparr>cl_world = sample_world, cl_plugins = initial_host Map.empty [] initial_store, cl_updater = fresh_updater,
     cl_app = initial_app None None, cl_initialized = False\<rparr>"




text \<open>What \<open>persist\<close> kept is lost at every start. The token is not persisted, so when the first effect runs nobody is
  signed in; it resets the store, and with it the read positions and the active conversation that were just
  restored, in the storage too.
\<close>

definition restarted :: "persisted_messaging option \<Rightarrow> world \<Rightarrow> world" where
  "restarted persisted w = w\<lparr>w_store := merge_persisted persisted initial_store, au_store := auth_merge (Some (a_session (au_store w))) initial_auth\<rparr>"

theorem restart_forgets_read_positions:
  "partialize (w_store (bootstrapMessagingRuntime fuel env cancelled (restarted persisted w)))
     = \<lparr>ps_activeConversationId = None, ps_readPositions = Map.empty\<rparr>"
  by (simp add: bootstrapMessagingRuntime_def restarted_def auth_merge_def initial_auth_def present_def
      Messaging_Runtime.set_store_def reset_def initial_store_def partialize_def)

end
