(* ===== verification/Routes.thy ===== *)
theory Routes
  imports Auth
begin

text \<open>
  \<open>app/router.tsx\<close> and \<open>app/guards.tsx\<close>: which page a location shows, and where its guard sends the user
  instead. \<open>segments\<close> is how react-router compares a location with the route table: by the parts
  between slashes, ignoring case.
\<close>

subsection \<open>The route table\<close>

fun split_on :: "char \<Rightarrow> string \<Rightarrow> string list" where
  "split_on c [] = [[]]"
| "split_on c (x # xs) = (case split_on c xs of
      [] \<Rightarrow> [[x]]
    | p # ps \<Rightarrow> if x = c then [] # p # ps else (x # p) # ps)"

definition segments :: "string \<Rightarrow> string list" where
  "segments path = filter (\<lambda>p. p \<noteq> []) (split_on (CHR ''/'') (toLowerCase path))"

datatype route = ConnectServer | Guarded | Anonymous | Unguarded | Unknown

definition router :: "string \<Rightarrow> route" where
  "router path = (case segments path of
      [] \<Rightarrow> Guarded
    | [a] \<Rightarrow>
        if a = ''connect-server'' then ConnectServer
        else if a = ''pending-approval'' then Unguarded
        else if a \<in> {''home'', ''devices'', ''friends'', ''security-events'', ''plugins'', ''settings'', ''onboarding''} then Guarded
        else Unknown
    | [a, b] \<Rightarrow>
        if a = ''conversations'' then Guarded
        else if a = ''messaging'' \<and> b \<in> {''outbox'', ''transport''} then Guarded
        else if a = ''auth'' \<and> b \<in> {''login'', ''register'', ''2fa''} then Anonymous
        else Unknown
    | [a, b, c] \<Rightarrow> if a = ''conversations'' \<and> c = ''members'' then Guarded else Unknown
    | [a, b, c, d] \<Rightarrow> if a = ''plugins'' \<and> b = ''panels'' then Guarded else Unknown
    | _ \<Rightarrow> Unknown)"

subsection \<open>The guards\<close>

text \<open>What the guards read: the stored server configuration, the auth store and the onboarding flag.\<close>

record guard_input =
  gi_hasServer :: bool
  gi_auth :: auth_store
  gi_onboardingCompleted :: bool

text \<open>A guard renders the page, a loading text, or a \<open>Navigate\<close> with its \<open>state.from\<close>.\<close>

datatype view = Page | Loading | Navigate string "string option"

definition signed_in :: "auth_store \<Rightarrow> bool" where
  "signed_in a \<longleftrightarrow> present (a_accessToken a) \<and> a_session a \<noteq> None"

definition RequireAuth :: "guard_input \<Rightarrow> string \<Rightarrow> view" where
  "RequireAuth g pathname =
     (if \<not> gi_hasServer g then Navigate ''/connect-server'' None
      else if \<not> a_initialized (gi_auth g) then Loading
      else if \<not> signed_in (gi_auth g) then Navigate ''/auth/login'' (Some pathname)
      else if \<not> gi_onboardingCompleted g \<and> pathname \<noteq> ''/onboarding'' then Navigate ''/onboarding'' None
      else Page)"

definition RequireAnonymous :: "guard_input \<Rightarrow> string \<Rightarrow> view" where
  "RequireAnonymous g pathname =
     (if \<not> gi_hasServer g then Navigate ''/connect-server'' (Some pathname)
      else if \<not> a_initialized (gi_auth g) then Loading
      else if signed_in (gi_auth g) then Navigate ''/'' None
      else Page)"

definition RequireMissingServerConnection :: "guard_input \<Rightarrow> string option \<Rightarrow> view" where
  "RequireMissingServerConnection g state_from =
     (if \<not> gi_hasServer g then Page
      else if present state_from \<and> state_from \<noteq> Some ''/connect-server'' then Navigate (the state_from) None
      else Navigate ''/auth/login'' None)"

definition shown :: "guard_input \<Rightarrow> string \<Rightarrow> string option \<Rightarrow> view" where
  "shown g path state_from = (case router path of
      ConnectServer \<Rightarrow> RequireMissingServerConnection g state_from
    | Guarded \<Rightarrow> RequireAuth g path
    | Anonymous \<Rightarrow> RequireAnonymous g path
    | Unguarded \<Rightarrow> Page
    | Unknown \<Rightarrow> Navigate ''/'' None)"

text \<open>Following redirects, at most \<open>n\<close> of them.\<close>

fun follow :: "nat \<Rightarrow> guard_input \<Rightarrow> string \<Rightarrow> string option \<Rightarrow> (string \<times> view) option" where
  "follow n g path st = (case shown g path st of
      Navigate path' st' \<Rightarrow> (case n of 0 \<Rightarrow> None | Suc m \<Rightarrow> follow m g path' st')
    | v \<Rightarrow> Some (path, v))"

declare follow.simps [simp del]

lemma fixed_routes [simp]:
  "router ''/'' = Guarded" "router ''/connect-server'' = ConnectServer" "router ''/auth/login'' = Anonymous"
  "router ''/onboarding'' = Guarded"
  by code_simp+

text \<open>The destinations of the guards, each with the redirects it may take.\<close>

lemma follow_connect: "\<not> gi_hasServer g \<Longrightarrow> follow n g ''/connect-server'' st = Some (''/connect-server'', Page)"
  by (simp add: follow.simps shown_def RequireMissingServerConnection_def)

lemma follow_login:
  "gi_hasServer g \<Longrightarrow> \<not> (a_initialized (gi_auth g) \<and> signed_in (gi_auth g)) \<Longrightarrow>
   \<exists>v. follow n g ''/auth/login'' st = Some (''/auth/login'', v) \<and> v \<in> {Page, Loading}"
  by (auto simp: follow.simps shown_def RequireAnonymous_def)

lemma follow_onboarding:
  "gi_hasServer g \<Longrightarrow> a_initialized (gi_auth g) \<Longrightarrow> signed_in (gi_auth g) \<Longrightarrow>
   follow n g ''/onboarding'' st = Some (''/onboarding'', Page)"
  by (simp add: follow.simps shown_def RequireAuth_def)

lemma follow_Suc: "shown g path st = Navigate path' st' \<Longrightarrow> follow (Suc n) g path st = follow n g path' st'"
  by (simp add: follow.simps [of "Suc n"])

lemma follow_here: "(\<And>p f. shown g path st \<noteq> Navigate p f) \<Longrightarrow> follow n g path st = Some (path, shown g path st)"
  by (cases "shown g path st") (auto simp: follow.simps)

text \<open>Locations behind \<open>RequireAuth\<close> settle after one redirect.\<close>

lemma follow_guarded:
  assumes "router path = Guarded"
  shows "follow (Suc n) g path st \<noteq> None"
proof (cases "shown g path st")
  case (Navigate p f)
  have s: "shown g path st = RequireAuth g path" by (simp add: shown_def assms)
  show ?thesis
  proof (cases "gi_hasServer g")
    case False
    then show ?thesis using Navigate s by (auto simp: follow_Suc [OF Navigate] RequireAuth_def follow_connect)
  next
    case server: True
    show ?thesis
    proof (cases "signed_in (gi_auth g) \<and> a_initialized (gi_auth g)")
      case True
      then show ?thesis using Navigate s server
        by (auto simp: follow_Suc [OF Navigate] RequireAuth_def follow_onboarding split: if_splits)
    next
      case False
      then have "p = ''/auth/login''" using Navigate s server by (auto simp: RequireAuth_def split: if_splits)
      then show ?thesis using follow_login [OF server, of n f] False by (auto simp: follow_Suc [OF Navigate])
    qed
  qed
qed (simp_all add: follow.simps)

lemma follow_mono: "follow n g path st = Some r \<Longrightarrow> follow (Suc n) g path st = Some r"
proof (induction n arbitrary: path st)
  case 0
  then show ?case by (auto simp: follow.simps split: view.splits)
next
  case (Suc n)
  show ?case
  proof (cases "shown g path st")
    case (Navigate p f)
    then show ?thesis using Suc by (simp add: follow_Suc)
  qed (use Suc.prems in \<open>simp_all add: follow.simps\<close>)
qed

lemma follow_anonymous:
  assumes "router path = Anonymous"
  shows "follow (Suc (Suc n)) g path st \<noteq> None"
proof (cases "shown g path st")
  case (Navigate p f)
  have "p = ''/connect-server'' \<and> \<not> gi_hasServer g \<or> p = ''/''"
    using Navigate assms by (auto simp: shown_def RequireAnonymous_def split: if_splits)
  then show ?thesis using follow_guarded [of "''/''" n g f] by (auto simp: follow_Suc [OF Navigate] follow_connect)
qed (simp_all add: follow.simps)

lemma follow_other:
  assumes "router path \<noteq> ConnectServer"
  shows "follow (Suc (Suc n)) g path st \<noteq> None"
proof (cases "router path")
  case Guarded
  then show ?thesis by (rule follow_guarded)
next
  case Anonymous
  then show ?thesis by (rule follow_anonymous)
next
  case Unknown
  then show ?thesis using follow_guarded [of "''/''" n g None] by (simp add: follow_Suc shown_def)
qed (use assms in \<open>simp_all add: follow.simps shown_def\<close>)

lemma follow_connect_page:
  assumes "router path = ConnectServer"
  shows "follow 3 g path None \<noteq> None"
proof (cases "shown g path None")
  case (Navigate p f)
  then have "p = ''/auth/login''"
    using assms by (auto simp: shown_def RequireMissingServerConnection_def present_def split: if_splits)
  then show ?thesis using follow_other [of p 0 g f] by (simp add: numeral_3_eq_3 follow_Suc [OF Navigate])
qed (simp_all add: follow.simps)

text \<open>Navigation always comes to rest: from any location, with any remembered origin, whatever the server
  configuration, the session and the onboarding flag are, at most four redirects lead to a page or to
  the loading text.\<close>

theorem navigation_settles: "follow 4 g path st \<noteq> None"
proof -
  have four: "(4::nat) = Suc 3" by simp
  show ?thesis
  proof (cases "router path = ConnectServer")
    case False
    then show ?thesis using follow_other [of path 2 g st] by (simp add: numeral_eq_Suc)
  next
    case True
    show ?thesis
    proof (cases "shown g path st")
      case (Navigate p f)
      then have "f = None" using True by (auto simp: shown_def RequireMissingServerConnection_def split: if_splits)
      then show ?thesis
        using follow_connect_page [of p g] follow_other [of p 1 g f]
        by (cases "router p = ConnectServer") (simp_all add: four follow_Suc [OF Navigate] numeral_3_eq_3)
    qed (simp_all add: follow.simps)
  qed
qed



end
