(* ===== verification/Account_Api.thy ===== *)
theory Account_Api
  imports Messaging_Api Identity
begin

text \<open>
  The requests of the account: \<open>services/authApi.ts\<close>, \<open>services/devicesApi.ts\<close>, \<open>services/recoveryApi.ts\<close> and
  \<open>services/securityEventsApi.ts\<close>. Each function builds one request; optional members of a body that are
  \<open>undefined\<close> are not part of its JSON.
\<close>

subsection \<open>Bodies and queries\<close>

definition member :: "string \<Rightarrow> string \<Rightarrow> (string \<times> json) list" where
  "member k v = [(k, JStr v)]"

definition optional_member :: "string \<Rightarrow> string option \<Rightarrow> (string \<times> json) list" where
  "optional_member k v = (case v of None \<Rightarrow> [] | Some x \<Rightarrow> [(k, JStr x)])"

definition account_post :: "server_config \<Rightarrow> string \<Rightarrow> (string \<times> json) list \<Rightarrow> api_request" where
  "account_post server path body =
     \<lparr>rq_url = buildUrl server path, rq_method = POST, rq_body = BodyJson (JObj body), rq_accessToken = None\<rparr>"

definition device_body :: "device_identity \<Rightarrow> string \<Rightarrow> json" where
  "device_body d platform = JObj (member ''deviceId'' (id_deviceId d) @ member ''name'' (id_deviceName d) @ member ''platform'' platform
     @ member ''publicDeviceMaterial'' (id_publicMaterial d) @ member ''fingerprint'' (id_fingerprint d))"

text \<open>\<open>new URLSearchParams(...).toString()\<close>: the form encoding of the URL standard.\<close>

definition upper_hex :: "nat \<Rightarrow> char" where
  "upper_hex n = (if n < 10 then char_of (48 + n) else char_of (55 + n))"

definition form_plain :: "char \<Rightarrow> bool" where
  "form_plain c \<longleftrightarrow> (let n = (of_char c :: nat) in
     48 \<le> n \<and> n \<le> 57 \<or> 65 \<le> n \<and> n \<le> 90 \<or> 97 \<le> n \<and> n \<le> 122 \<or> n = 42 \<or> n = 45 \<or> n = 46 \<or> n = 95)"

definition form_char :: "char \<Rightarrow> string" where
  "form_char c = (if form_plain c then [c] else if c = CHR '' '' then ''+''
     else concat (map (\<lambda>b. [CHR ''%'', upper_hex (unat b div 16), upper_hex (unat b mod 16)]) (utf8_char c)))"

definition form_encode :: "string \<Rightarrow> string" where
  "form_encode s = concat (map form_char s)"

definition form_query :: "(string \<times> string) list \<Rightarrow> string" where
  "form_query params = join ''&'' (map (\<lambda>(k, v). form_encode k @ ''='' @ form_encode v) params)"

subsection \<open>authApi\<close>

definition api_register :: "server_config \<Rightarrow> string \<Rightarrow> string \<Rightarrow> identity_material \<Rightarrow> json \<Rightarrow> api_request" where
  "api_register server email password account device = account_post server ''/auth/register''
     (member ''email'' email @ member ''password'' password @ member ''accountIdentityMaterial'' (id_publicMaterial account)
      @ member ''accountIdentityFingerprint'' (id_fingerprint account) @ [(''device'', device)])"

definition api_login :: "server_config \<Rightarrow> string \<Rightarrow> string \<Rightarrow> json \<Rightarrow> api_request" where
  "api_login server email password device = account_post server ''/auth/login''
     (member ''email'' email @ member ''password'' password @ [(''device'', device)])"

definition api_verifyTwoFALogin :: "server_config \<Rightarrow> string \<Rightarrow> string \<Rightarrow> string \<Rightarrow> api_request" where
  "api_verifyTwoFALogin server challengeId loginToken code = account_post server ''/auth/2fa/login/verify''
     (member ''challengeId'' challengeId @ member ''loginToken'' loginToken @ member ''code'' code)"

definition api_refreshSession :: "server_config \<Rightarrow> string \<Rightarrow> api_request" where
  "api_refreshSession server refreshToken = account_post server ''/auth/refresh'' (member ''refreshToken'' refreshToken)"

definition api_getSession :: "server_config \<Rightarrow> string \<Rightarrow> api_request" where
  "api_getSession server accessToken = api_get server ''/auth/session'' accessToken"

text \<open>\<open>logout\<close> takes what it is given: a token that may be missing, and a refresh token that may be empty.\<close>

definition api_logout :: "server_config \<Rightarrow> string option \<Rightarrow> string option \<Rightarrow> api_request" where
  "api_logout server accessToken refreshToken =
     \<lparr>rq_url = buildUrl server ''/auth/logout'', rq_method = POST,
      rq_body = (if present refreshToken then BodyJson (JObj (member ''refreshToken'' (the refreshToken))) else NoBody),
      rq_accessToken = accessToken\<rparr>"

definition api_logoutAll :: "server_config \<Rightarrow> string \<Rightarrow> api_request" where
  "api_logoutAll server accessToken = api_post server ''/auth/logout-all'' accessToken NoBody"

definition api_startTwoFA :: "server_config \<Rightarrow> string \<Rightarrow> api_request" where
  "api_startTwoFA server accessToken = api_post server ''/auth/2fa/setup/start'' accessToken NoBody"

definition api_confirmTwoFA :: "server_config \<Rightarrow> string \<Rightarrow> string \<Rightarrow> api_request" where
  "api_confirmTwoFA server accessToken code =
     api_post server ''/auth/2fa/setup/confirm'' accessToken (BodyJson (JObj (member ''code'' code)))"

definition api_disableTwoFA :: "server_config \<Rightarrow> string \<Rightarrow> string \<Rightarrow> api_request" where
  "api_disableTwoFA server accessToken code =
     api_post server ''/auth/2fa/disable'' accessToken (BodyJson (JObj (member ''code'' code)))"

subsection \<open>devicesApi\<close>

definition api_devices :: "server_config \<Rightarrow> string \<Rightarrow> api_request" where
  "api_devices server accessToken = api_get server ''/devices'' accessToken"

definition api_approve :: "server_config \<Rightarrow> string \<Rightarrow> string \<Rightarrow> string option \<Rightarrow> api_request" where
  "api_approve server accessToken approvalRequestId twoFactorCode = api_post server ''/devices/approve'' accessToken
     (BodyJson (JObj (member ''approvalRequestId'' approvalRequestId @ optional_member ''twoFactorCode'' twoFactorCode)))"

definition api_reject :: "server_config \<Rightarrow> string \<Rightarrow> string \<Rightarrow> string option \<Rightarrow> api_request" where
  "api_reject server accessToken approvalRequestId twoFactorCode = api_post server ''/devices/reject'' accessToken
     (BodyJson (JObj (member ''approvalRequestId'' approvalRequestId @ optional_member ''twoFactorCode'' twoFactorCode)))"

definition api_revoke :: "server_config \<Rightarrow> string \<Rightarrow> string \<Rightarrow> string option \<Rightarrow> api_request" where
  "api_revoke server accessToken deviceId twoFactorCode = api_post server ''/devices/revoke'' accessToken
     (BodyJson (JObj (member ''deviceId'' deviceId @ optional_member ''twoFactorCode'' twoFactorCode)))"

definition api_rotateKey :: "server_config \<Rightarrow> string \<Rightarrow> string \<Rightarrow> string \<Rightarrow> string option \<Rightarrow> api_request" where
  "api_rotateKey server accessToken publicDeviceMaterial fingerprint twoFactorCode = api_post server ''/devices/keys/rotate'' accessToken
     (BodyJson (JObj (member ''publicDeviceMaterial'' publicDeviceMaterial @ member ''fingerprint'' fingerprint
        @ optional_member ''twoFactorCode'' twoFactorCode)))"

definition api_approvalStatus :: "server_config \<Rightarrow> string \<Rightarrow> string \<Rightarrow> api_request" where
  "api_approvalStatus server approvalRequestId pollToken =
     \<lparr>rq_url = buildUrl server (''/devices/approvals/status?'' @ form_query [(''approvalRequestId'', approvalRequestId), (''pollToken'', pollToken)]),
      rq_method = GET, rq_body = NoBody, rq_accessToken = None\<rparr>"

subsection \<open>recoveryApi and securityEventsApi\<close>

definition api_recoveryStart :: "server_config \<Rightarrow> string \<Rightarrow> string \<Rightarrow> api_request" where
  "api_recoveryStart server email approvalRequestId = account_post server ''/recovery/start''
     (member ''email'' email @ member ''approvalRequestId'' approvalRequestId)"

definition api_recoveryComplete :: "server_config \<Rightarrow> string \<Rightarrow> string \<Rightarrow> string \<Rightarrow> string option \<Rightarrow> api_request" where
  "api_recoveryComplete server recoveryFlowId recoveryToken recoveryCode twoFactorCode = account_post server ''/recovery/complete''
     (member ''recoveryFlowId'' recoveryFlowId @ member ''recoveryToken'' recoveryToken @ member ''recoveryCode'' recoveryCode
      @ optional_member ''twoFactorCode'' twoFactorCode)"

definition api_securityEvents :: "server_config \<Rightarrow> string \<Rightarrow> nat \<Rightarrow> api_request" where
  "api_securityEvents server accessToken limit = api_get server (''/security-events?limit='' @ nat_digits limit) accessToken"

subsection \<open>The query of a pending approval is unambiguous\<close>

text \<open>An encoded text holds none of the characters that separate names, values, and the fragment.\<close>

definition separator :: "char \<Rightarrow> bool" where
  "separator c \<longleftrightarrow> c = CHR ''&'' \<or> c = CHR ''='' \<or> c = CHR ''#'' \<or> c = CHR ''?''"

lemma upper_hex_plain: "n < 16 \<Longrightarrow> form_plain (upper_hex n)"
  by (auto simp: upper_hex_def form_plain_def Let_def)

lemma byte_digits: "unat (b :: byte) div 16 < 16" "unat b mod 16 < 16"
  using unsigned_less [of b, where ?'a = nat] by simp_all

lemma separator_not_plain: "separator c \<Longrightarrow> \<not> form_plain c"
  by (auto simp: separator_def form_plain_def Let_def)

lemma form_encode_plain:
  assumes "c \<in> set (form_encode s)"
  shows "\<not> separator c"
proof -
  obtain d where d: "c \<in> set (form_char d)" using assms by (auto simp: form_encode_def)
  have "form_plain c \<or> c = CHR ''+'' \<or> c = CHR ''%''"
    using d by (auto simp: form_char_def upper_hex_plain [OF byte_digits(1)] upper_hex_plain [OF byte_digits(2)] split: if_splits)
  then show ?thesis using separator_not_plain by (auto simp: separator_def)
qed

end
