(* ===== verification/Messaging_Delivery.thy ===== *)
theory Messaging_Delivery
  imports Messaging_Invariants
begin

text \<open>
  What messaging delivers: who a message is encrypted for, what reading a message gives, the way of a payload
  from the sender to every recipient, the accounting of the outbox, the cursor a hint leads to, and the
  delays of reconnecting. The runtime is the one of \<open>Messaging_Runtime\<close>; the crypto library is assumed to
  satisfy \<open>sodium_ok\<close> only where a decryption has to succeed.
\<close>

subsection \<open>Recipients\<close>

definition recipient_of :: "device_dto \<Rightarrow> recipient_material" where
  "recipient_of device = \<lparr>rm_recipientDeviceId = dev_id device, rm_publicKey = dev_publicDeviceMaterial device\<rparr>"

definition trusted_devices :: "conversation_dto \<Rightarrow> device_dto list" where
  "trusted_devices conversation = filter (\<lambda>device. dev_status device = DevTrusted)
     (concat (map mem_trustedDevices (filter mem_isActive (cv_members conversation))))"

lemma seen_loop_append: "seen_loop key seen (xs @ ys) = seen_loop key seen xs @ seen_loop key (seen \<union> key ` set xs) ys"
  by (induction xs arbitrary: seen) (auto simp: insert_absorb Un_assoc)

lemma add_devices_seen:
  "add_devices ds (seen, out) =
     (let ds = filter (\<lambda>d. dev_status d = DevTrusted) ds in (seen \<union> dev_id ` set ds, out @ map recipient_of (seen_loop dev_id seen ds)))"
  by (induction ds arbitrary: seen out) (auto simp: recipient_of_def Let_def insert_absorb)

lemma add_members_seen:
  "add_members ms (seen, out) =
     (let ds = filter (\<lambda>d. dev_status d = DevTrusted) (concat (map mem_trustedDevices (filter mem_isActive ms)))
      in (seen \<union> dev_id ` set ds, out @ map recipient_of (seen_loop dev_id seen ds)))"
proof (induction ms arbitrary: seen out)
  case Nil
  then show ?case by simp
next
  case (Cons m ms)
  then show ?case
    by (simp add: add_devices_seen Let_def seen_loop_append Un_assoc image_Un del: set_filter set_concat)
qed

lemma resolveRecipients_seen: "resolveRecipients conversation = map recipient_of (seen_loop dev_id {} (trusted_devices conversation))"
  by (simp add: resolveRecipients_def add_members_seen trusted_devices_def Let_def)

lemma resolveRecipients_distinct: "distinct (map rm_recipientDeviceId (resolveRecipients conversation))"
proof -
  have "rm_recipientDeviceId \<circ> recipient_of = dev_id" by (auto simp: recipient_of_def)
  then show ?thesis by (simp add: resolveRecipients_seen seen_loop_distinct)
qed

text \<open>C25. A message is encrypted for exactly the trusted devices of the active members of its conversation: the
  nested loops over members and devices give each of them once, with its published key, in the order of
  their first occurrence, and nobody else.\<close>

theorem recipients_are_the_trusted_devices:
  "resolveRecipients conversation = map recipient_of (seen_loop dev_id {} (trusted_devices conversation))
   \<and> rm_recipientDeviceId ` set (resolveRecipients conversation) = dev_id ` set (trusted_devices conversation)
   \<and> distinct (map rm_recipientDeviceId (resolveRecipients conversation))"
  using seen_loop_keys [of dev_id "{}" "trusted_devices conversation"]
  by (simp add: resolveRecipients_distinct) (simp add: resolveRecipients_seen image_image recipient_of_def)

subsection \<open>Reading a message\<close>

text \<open>The state without what only counts calls and holds buffers.\<close>

definition device_free :: "world \<Rightarrow> world" where
  "device_free s = s\<lparr>dv_calls := 0, dv_draw := 0, dv_mem := []\<rparr>"

interpretation same_state: device_invariant "\<lambda>s. device_free s = c" for c
  by unfold_locales (simp_all add: device_free_def)

lemma local_of_fields [simp]:
  "lm_expired (local_of env now m) = Some (is_expired env now (msg_envelope m))" "msg_envelope (local_of env now m) = msg_envelope m"
  "msg_receipts (local_of env now m) = msg_receipts m" "lm_plaintext (local_of env now m) = None"
  "lm_decryptError (local_of env now m) = None"
  by (cases m, simp add: local_of_def Let_def message_dto.defs)+

definition open_message :: "runtime_env \<Rightarrow> encrypted_message_envelope_dto \<Rightarrow> string \<Rightarrow> json rt" where
  "open_message env e wrappedKey =
     bnd (loadAllDeviceKeyMaterials (re_fault env)) (\<lambda>keyCandidates.
     bnd (try_keys env e wrappedKey keyCandidates) (\<lambda>plaintext.
     case plaintext of
       None \<Rightarrow> throw (JsError ''message_decrypt_failed'')
     | Some t \<Rightarrow> (case JSON_parse t of None \<Rightarrow> throw syntax_error | Some j \<Rightarrow> ret j)))"

definition my_wrapped_key :: "auth_session \<Rightarrow> encrypted_message_envelope_dto \<Rightarrow> string option" where
  "my_wrapped_key session e = map_option rk_wrappedKey (find (\<lambda>item. rk_recipientDeviceId item = my_device session) (env_recipients e))"

text \<open>\<open>hydrateMessage\<close> by the cases of what it returns.\<close>

lemma hydrate_result:
  "fst (hydrateMessage env m s) = (let l = local_of env (w_now s) m; e = msg_envelope m in
     if is_expired env (w_now s) e then Inr l
     else case current_session s of
       None \<Rightarrow> Inr l
     | Some session \<Rightarrow> (case my_wrapped_key session e of
         None \<Rightarrow> Inr (failed_message ''missing recipient material for current device'' l)
       | Some k \<Rightarrow> (case fst (open_message env e k s) of
           Inr j \<Rightarrow> Inr (l\<lparr>lm_plaintext := Some j, lm_decryptError := None\<rparr>)
         | Inl error \<Rightarrow> Inr (failed_message (decrypt_error_text error) l))))"
proof -
  have inner: "bnd (loadAllDeviceKeyMaterials (re_fault env)) (\<lambda>keyCandidates.
       bnd (try_keys env e k keyCandidates) (\<lambda>plaintext.
       case plaintext of None \<Rightarrow> throw (JsError ''message_decrypt_failed'')
       | Some t \<Rightarrow> (case JSON_parse t of None \<Rightarrow> throw syntax_error
           | Some j \<Rightarrow> ret (l\<lparr>lm_plaintext := Some j, lm_decryptError := None\<rparr>))))
     = bnd (open_message env e k) (\<lambda>j. ret (l\<lparr>lm_plaintext := Some j, lm_decryptError := None\<rparr>))"
    for e k and l :: local_message
    by (auto simp: open_message_def eff_simps fun_eq_iff split: sum.split prod.split option.split)
  show ?thesis
    unfolding hydrateMessage_def Let_def inner my_wrapped_key_def
    by (auto simp: eff_simps split: option.split sum.split prod.split)
qed

lemma hydrate_returns: "\<exists>x s'. hydrateMessage env m s = (Inr x, s') \<and> device_free s' = device_free s"
proof -
  obtain r s' where r: "hydrateMessage env m s = (r, s')" by fastforce
  have "device_free s' = device_free s" by (rule keepsD' [OF same_state.keeps_hydrate(1) r refl])
  moreover have "\<exists>x. r = Inr x"
    using hydrate_result [of env m s] r by (auto simp: Let_def split: if_splits option.splits sum.splits)
  ultimately show ?thesis using r by auto
qed

text \<open>C28. Reading a message always gives a result, never an error: whatever the relay put into it, whatever the
  keyring and the library answer. The message itself is kept; plaintext is only there when the message has
  not expired, a session exists and the message holds a key for its device; otherwise, unless it is expired
  or nobody is signed in, the result says that decryption failed for good. The state does not change.\<close>

theorem reading_a_message_never_fails:
  "\<exists>x s'. hydrateMessage env m s = (Inr x, s') \<and> device_free s' = device_free s
    \<and> msg_envelope x = msg_envelope m \<and> msg_receipts x = msg_receipts m
    \<and> (if lm_plaintext x \<noteq> None
       then \<not> is_expired env (w_now s) (msg_envelope m) \<and> lm_decryptError x = None
         \<and> (\<exists>session. current_session s = Some session
             \<and> my_device session \<in> rk_recipientDeviceId ` set (env_recipients (msg_envelope m)))
       else is_expired env (w_now s) (msg_envelope m) \<or> current_session s = None
         \<or> (lm_decryptError x \<noteq> None \<and> lm_lifecycle x = Some LFailed \<and> lm_retryableFailure x = Some False
             \<and> lm_failureCode x = Some ''message_decrypt_failed''))"
proof -
  obtain x s' where x: "hydrateMessage env m s = (Inr x, s')" "device_free s' = device_free s"
    using hydrate_returns by blast
  have k: "my_device session \<in> rk_recipientDeviceId ` set (env_recipients e)" if "my_wrapped_key session e = Some k" for session e k
    using that by (auto simp: my_wrapped_key_def find_Some_iff) (metis image_eqI nth_mem)
  have "msg_envelope x = msg_envelope m \<and> msg_receipts x = msg_receipts m
    \<and> (if lm_plaintext x \<noteq> None
       then \<not> is_expired env (w_now s) (msg_envelope m) \<and> lm_decryptError x = None
         \<and> (\<exists>session. current_session s = Some session
             \<and> my_device session \<in> rk_recipientDeviceId ` set (env_recipients (msg_envelope m)))
       else is_expired env (w_now s) (msg_envelope m) \<or> current_session s = None
         \<or> (lm_decryptError x \<noteq> None \<and> lm_lifecycle x = Some LFailed \<and> lm_retryableFailure x = Some False
             \<and> lm_failureCode x = Some ''message_decrypt_failed''))"
    using hydrate_result [of env m s] x(1) k [of _ "msg_envelope m"]
    by (auto simp: Let_def failed_message_def split: if_splits option.splits sum.splits)
  then show ?thesis using x by blast
qed

subsection \<open>From the sender to the reader\<close>

lemma try_keys_first:
  assumes "\<And>key s'. key \<in> set pre \<Longrightarrow> \<exists>err. fst (decryptMessage (re_lib env) (env_ciphertext e) (env_nonce e) w (kp_publicKey key)
      (kp_privateKey key) (s' :: world)) = Inl err"
    and "\<And>s'. fst (decryptMessage (re_lib env) (env_ciphertext e) (env_nonce e) w (kp_publicKey k) (kp_privateKey k) (s' :: world)) = Inr t"
  shows "fst (try_keys env e w (pre @ k # post) s) = Inr (Some t)"
  using assms(1)
proof (induction pre arbitrary: s)
  case Nil
  show ?case using assms(2) [of s] by (auto simp: catch_def bnd_def ret_def split: prod.split sum.split)
next
  case (Cons key pre)
  obtain err s1 where "decryptMessage (re_lib env) (env_ciphertext e) (env_nonce e) w (kp_publicKey key) (kp_privateKey key) s = (Inl err, s1)"
    using Cons.prems [of key s] by (metis list.set_intros(1) prod.collapse)
  then show ?case using Cons by (simp add: catch_def bnd_def)
qed

lemma all_some_total: "(\<And>x. x \<in> set xs \<Longrightarrow> \<exists>y. f x = Some y) \<Longrightarrow> \<exists>ys. all_some (map f xs) = Some ys"
proof (induction xs)
  case (Cons x xs)
  then obtain y ys where "f x = Some y" "all_some (map f xs) = Some ys" by (meson list.set_intros)
  then show ?case by simp
qed simp

lemma payload_text: "\<exists>t. stringify (plaintext_payload input secrets now) = Some t"
proof -
  have "\<exists>y. stringify (secret_json a) = Some y" for a by (simp add: secret_json_def)
  then have "all_some (map stringify (map secret_json secrets)) \<noteq> None" by (auto intro!: all_some_total)
  moreover obtain r where "stringify (jopt (si_replyToMessageId input)) = Some r" by (cases "si_replyToMessageId input") simp_all
  ultimately show ?thesis by (auto simp: plaintext_payload_def simp del: map_map)
qed

lemma payload_wf: "wf_json (plaintext_payload input secrets now)"
proof -
  have "wf_json (secret_json a)" for a by (simp add: secret_json_def)
  moreover have "wf_json (jopt v)" for v by (cases v) simp_all
  ultimately show ?thesis by (auto simp: plaintext_payload_def)
qed

text \<open>
  The key pair \<open>d\<close> is held after the keys \<open>newer\<close>, with which boxes sealed for \<open>d\<close> do not open: libsodium
  rejects a wrong key pair.
\<close>

definition holds_key :: "sodium \<Rightarrow> (string \<rightharpoonup> string) \<Rightarrow> nat \<Rightarrow> bool" where
  "holds_key L keyring d \<longleftrightarrow> (\<exists>newer older. held_keys keyring = Some (newer @ \<lparr>kp_publicKey = so_to_base64 L (fst (so_keypair L d)),
       kp_privateKey = so_to_base64 L (snd (so_keypair L d))\<rparr> # older)
     \<and> (\<forall>k \<in> set newer. \<forall>pk sk r m c. so_from_base64 L (kp_publicKey k) = Inr pk \<longrightarrow> so_from_base64 L (kp_privateKey k) = Inr sk
          \<longrightarrow> so_seal L r m (fst (so_keypair L d)) = Inr c \<longrightarrow> (\<exists>err. so_seal_open L c pk sk = Inl err)))"

definition carries :: "encrypted_message \<Rightarrow> encrypted_message_envelope_dto \<Rightarrow> bool" where
  "carries em e \<longleftrightarrow> env_ciphertext e = em_ciphertext em \<and> env_nonce e = em_nonce em \<and> env_recipients e = em_recipients em"

lemma wrong_key_fails:
  assumes w: "wraps L key d w"
    and k: "\<forall>pk sk r m c. so_from_base64 L pub = Inr pk \<longrightarrow> so_from_base64 L priv = Inr sk
          \<longrightarrow> so_seal L r m (fst (so_keypair L d)) = Inr c \<longrightarrow> (\<exists>err. so_seal_open L c pk sk = Inl err)"
  shows "\<exists>err. fst (decryptMessage L c n w pub priv s) = Inl err"
proof (rule ccontr)
  assume "\<nexists>err. fst (decryptMessage L c n w pub priv s) = Inl err"
  then obtain t s' where d: "decryptMessage L c n w pub priv s = (Inr t, s')"
    by (metis old.sum.exhaust prod.collapse)
  obtain r sealed where w: "so_from_base64 L w = Inr sealed" "so_seal L r key (fst (so_keypair L d)) = Inr sealed"
    using w by (auto simp: wraps_def)
  obtain pk sk where p: "so_from_base64 L pub = Inr pk" "so_from_base64 L priv = Inr sk"
    using d by (auto simp: decryptMessage_def parseBase64_def lift_lib_def bnd_def throw_def ret_def split: sum.splits prod.splits)
  then obtain err where "so_seal_open L sealed pk sk = Inl err" using k w(2) by blast
  then show False using d p w(1)
    by (auto simp: decryptMessage_def parseBase64_def lift_lib_def bnd_def sq_def throw_def ret_def alloc_def check_nonce_def
        split: sum.splits prod.splits if_splits)
qed

lemma open_message_ok:
  assumes "sodium_ok (re_lib env)" "healthy (re_fault env) s" "holds_key (re_lib env) (dv_keyring s) d"
    and n: "length nonce = NPUBBYTES" "so_decrypt (re_lib env) c nonce key = Inr (so_from_string (re_lib env) plain)"
    and w: "wraps (re_lib env) key d w" and e: "env_ciphertext e = so_to_base64 (re_lib env) c" "env_nonce e = so_to_base64 (re_lib env) nonce"
    and j: "JSON_parse plain = Some j"
  shows "fst (open_message env e w s) = Inr j"
proof -
  let ?L = "re_lib env"
  let ?k = "\<lparr>kp_publicKey = so_to_base64 ?L (fst (so_keypair ?L d)), kp_privateKey = so_to_base64 ?L (snd (so_keypair ?L d))\<rparr>"
  obtain newer older where held: "held_keys (dv_keyring s) = Some (newer @ ?k # older)"
    and newer: "\<And>k. k \<in> set newer \<Longrightarrow> \<forall>pk sk r m c. so_from_base64 ?L (kp_publicKey k) = Inr pk \<longrightarrow> so_from_base64 ?L (kp_privateKey k) = Inr sk
          \<longrightarrow> so_seal ?L r m (fst (so_keypair ?L d)) = Inr c \<longrightarrow> (\<exists>err. so_seal_open ?L c pk sk = Inl err)"
    using assms(3) unfolding holds_key_def by blast
  obtain s1 where s1: "loadAllDeviceKeyMaterials (re_fault env) s = (Inr (newer @ ?k # older), s1)"
    using loadAll_healthy [OF assms(2)] held by (metis option.simps(5) prod.collapse)
  have "fst (try_keys env e w (newer @ ?k # older) s1) = Inr (Some plain)"
  proof (rule try_keys_first)
    show "\<exists>err. fst (decryptMessage ?L (env_ciphertext e) (env_nonce e) w (kp_publicKey k) (kp_privateKey k) (s' :: world)) = Inl err"
      if "k \<in> set newer" for k s' by (rule wrong_key_fails [OF w newer [OF that]])
    show "fst (decryptMessage ?L (env_ciphertext e) (env_nonce e) w (kp_publicKey ?k) (kp_privateKey ?k) s') = Inr plain" for s' :: world
      using decryptMessage_ok [OF assms(1) n w] e by simp
  qed
  then obtain s2 where "try_keys env e w (newer @ ?k # older) s1 = (Inr (Some plain), s2)" by (metis prod.collapse)
  then show ?thesis using s1 j by (simp add: open_message_def bnd_def ret_def)
qed

lemma wrapped_for:
  assumes "map rk_recipientDeviceId ws = ids" "distinct ids" "list_all2 P ws ds" "i < length ds" "ids ! i = d"
  shows "\<exists>w. find (\<lambda>item. rk_recipientDeviceId item = d) ws = Some w \<and> P w (ds ! i)"
proof -
  have i: "i < length ws" "P (ws ! i) (ds ! i)" using assms(3,4) by (auto simp: list_all2_conv_all_nth)
  have "j = i" if "j < length ws" "rk_recipientDeviceId (ws ! j) = d" for j
    using that i(1) assms(1,2,5) by (metis length_map nth_eq_iff_index_eq nth_map)
  then have "find (\<lambda>item. rk_recipientDeviceId item = d) ws = Some (ws ! i)"
    using i(1) assms(1,5) unfolding find_Some_iff by (metis less_imp_neq nth_map order.strict_trans)
  then show ?thesis using i(2) by blast
qed

text \<open>C1. End to end: what a client sends, every recipient reads. The payload that \<open>sendMessage\<close> makes of its
  input is encrypted without an error, and when the relay hands an unexpired message with this
  ciphertext to the device of any recipient, whose keyring still holds the key pair the sender used,
  be it the current one or one from before a rotation, \<open>hydrateMessage\<close> gives back exactly that payload.\<close>

theorem sent_payload_is_read_by_every_recipient:
  assumes "sodium_ok (re_lib env)" "re_lib env' = re_lib env"
    and "list_all2 (\<lambda>r d. rm_publicKey r = so_to_base64 (re_lib env) (fst (so_keypair (re_lib env) d)))
           (resolveRecipients (si_conversation input)) ds"
    and "i < length ds" "rm_recipientDeviceId (resolveRecipients (si_conversation input) ! i) = my_device session"
    and "healthy (re_fault env') s'" "current_session s' = Some session" "holds_key (re_lib env) (dv_keyring s') (ds ! i)"
  shows "\<exists>plain em s1. stringify (plaintext_payload input secrets createdAt) = Some plain
    \<and> encryptMessage (re_lib env) plain (resolveRecipients (si_conversation input)) s = (Inr em, s1)
    \<and> (\<forall>m. carries em (msg_envelope m) \<longrightarrow> \<not> is_expired env' (w_now s') (msg_envelope m) \<longrightarrow>
         (\<exists>x s2. hydrateMessage env' m s' = (Inr x, s2)
            \<and> lm_plaintext x = Some (plaintext_payload input secrets createdAt) \<and> lm_decryptError x = None))"
proof -
  let ?L = "re_lib env" and ?rs = "resolveRecipients (si_conversation input)" and ?j = "plaintext_payload input secrets createdAt"
  obtain plain where plain: "stringify ?j = Some plain" using payload_text by blast
  have parse: "JSON_parse plain = Some ?j" using stringify_reads [OF plain payload_wf] .
  obtain c nonce key ws s1 where em: "encryptMessage ?L plain ?rs s = (Inr \<lparr>em_algorithm = MESSAGE_ALGORITHM,
        em_cryptoVersion = 1, em_nonce = so_to_base64 ?L nonce, em_ciphertext = so_to_base64 ?L c, em_recipients = ws\<rparr>, s1)"
    "length nonce = NPUBBYTES" "so_decrypt ?L c nonce key = Inr (so_from_string ?L plain)"
    "map rk_recipientDeviceId ws = map rm_recipientDeviceId ?rs" "list_all2 (\<lambda>w d. wraps ?L key d (rk_wrappedKey w)) ws ds"
    using encryptMessage_sealed [OF assms(1,3)] by blast
  have ids: "distinct (map rm_recipientDeviceId ?rs)" "map rm_recipientDeviceId ?rs ! i = my_device session"
    using resolveRecipients_distinct assms(3-5) by (auto simp: list_all2_lengthD)
  obtain w where w: "find (\<lambda>item. rk_recipientDeviceId item = my_device session) ws = Some w" "wraps ?L key (ds ! i) (rk_wrappedKey w)"
    using wrapped_for [OF em(4) ids(1) em(5) assms(4) ids(2)] by blast
  have "\<exists>x s2. hydrateMessage env' m s' = (Inr x, s2) \<and> lm_plaintext x = Some ?j \<and> lm_decryptError x = None"
    if m: "env_ciphertext (msg_envelope m) = so_to_base64 ?L c" "env_nonce (msg_envelope m) = so_to_base64 ?L nonce"
      "env_recipients (msg_envelope m) = ws" "\<not> is_expired env' (w_now s') (msg_envelope m)" for m
  proof -
    have "fst (open_message env' (msg_envelope m) (rk_wrappedKey w) s') = Inr ?j"
      by (rule open_message_ok) (use assms em w m parse in auto)
    then have "fst (hydrateMessage env' m s') = Inr ((local_of env' (w_now s') m)\<lparr>lm_plaintext := Some ?j, lm_decryptError := None\<rparr>)"
      using hydrate_result [of env' m s'] w(1) m(3,4) assms(7) by (simp add: my_wrapped_key_def)
    then show ?thesis by (cases "hydrateMessage env' m s'") auto
  qed
  then show ?thesis using plain em(1) by (fastforce simp: carries_def)
qed

text \<open>A reader that has rotated its key since: the pair \<open>7\<close> is in its list of former keys.\<close>

definition sample_device :: device_dto where
  "sample_device = \<lparr>dev_id = ''dev'', dev_accountId = ''acc'', dev_name = [], dev_platform = [], dev_publicDeviceMaterial = to_chars [7],
     dev_fingerprint = \<lparr>fp_algorithm = [], fp_value = [], fp_safetyNumber = []\<rparr>, dev_status = DevTrusted,
     dev_verificationState = VerVerified, dev_keyInfo = \<lparr>ki_version = 1, ki_rotatedAt = None, ki_rotationDueAt = None,
       ki_rotationRecommended = False\<rparr>, dev_createdAt = [], dev_lastSeenAt = None, dev_revokedAt = None\<rparr>"

definition sample_session :: auth_session where
  "sample_session = \<lparr>as_accountId = ''acc'', as_email = [], as_twoFactorEnabled = False,
     as_identity = \<lparr>ai_accountId = ''acc'', ai_publicIdentityMaterial = [], ai_fingerprint = dev_fingerprint sample_device,
       ai_verificationState = VerVerified, ai_trustState = TrTrusted, ai_createdAt = [], ai_updatedAt = []\<rparr>,
     as_device = sample_device, as_session = \<lparr>ses_id = [], ses_accountId = ''acc'', ses_deviceId = ''dev'', ses_status = SesActive,
       ses_accessTokenExpiresAt = [], ses_refreshTokenExpiresAt = [], ses_createdAt = [], ses_lastSeenAt = None, ses_trustWarnings = None\<rparr>\<rparr>"

definition sample_input :: send_input where
  "sample_input = \<lparr>si_conversation = \<lparr>cv_id = ''conv'', cv_type = CDirect, cv_title = None, cv_createdByAccountId = ''acc'',
       cv_createdAt = [], cv_updatedAt = [], cv_disappearingPolicy = \<lparr>dp_defaultTtlSeconds = 0, dp_allowPerMessageOverride = True\<rparr>,
       cv_members = [\<lparr>mem_accountId = ''acc'', mem_role = ROwner, mem_joinedAt = [], mem_isActive = True,
         mem_trustedDevices = [sample_device]\<rparr>], cv_lastServerSequence = 0\<rparr>,
     si_text = ''hi'', si_ttlSeconds = None, si_uploads = [], si_replyToMessageId = None\<rparr>"

definition sample_reader :: world where
  "sample_reader = sample_world\<lparr>au_store := initial_auth\<lparr>a_session := Some sample_session\<rparr>,
     dv_keyring := [DEVICE_PUBLIC_KEY \<mapsto> ''N'', DEVICE_PRIVATE_KEY \<mapsto> ''N'',
       DEVICE_LEGACY_KEYS \<mapsto> legacy_text [\<lparr>kp_publicKey = to_chars [7], kp_privateKey = to_chars [7]\<rparr>]]\<rparr>"

lemma sample_recipients: "resolveRecipients (si_conversation sample_input) = [\<lparr>rm_recipientDeviceId = ''dev'', rm_publicKey = to_chars [7]\<rparr>]"
  by (simp add: resolveRecipients_def sample_input_def sample_device_def)

lemma sent_payload_is_read_by_every_recipient_witness:
  "\<exists>m x s2. hydrateMessage sample_env m sample_reader = (Inr x, s2)
     \<and> lm_plaintext x = Some (plaintext_payload sample_input [] ''t'') \<and> lm_decryptError x = None"
proof -
  let ?L = "re_lib sample_env"
  let ?old = "\<lparr>kp_publicKey = to_chars [7], kp_privateKey = to_chars [7]\<rparr>" and ?new = "\<lparr>kp_publicKey = ''N'', kp_privateKey = ''N''\<rparr>"
  have L: "?L = toy_sodium" by (simp add: sample_env_def)
  have key: "of_chars ''N'' = [78]" by (simp add: of_chars_def)
  have held: "held_keys (dv_keyring sample_reader) = Some ([?new] @ ?old # [])"
    by (simp add: sample_reader_def held_keys_def current_pair_def present_def)
  have holds: "holds_key ?L (dv_keyring sample_reader) 7"
    unfolding holds_key_def held L by (intro exI [of _ "[?new]"] exI [of _ "[]"]) (auto simp: toy_sodium_def key)
  have ok: "sodium_ok ?L" "healthy (re_fault sample_env) sample_reader" "current_session sample_reader = Some sample_session"
    by (simp_all add: L toy_sodium_ok healthy_def sample_env_def sample_reader_def sample_world_def current_session_def)
  have rs: "list_all2 (\<lambda>r d. rm_publicKey r = so_to_base64 ?L (fst (so_keypair ?L d))) (resolveRecipients (si_conversation sample_input)) [7]"
    "(0::nat) < length [7::nat]"
    "rm_recipientDeviceId (resolveRecipients (si_conversation sample_input) ! 0) = my_device sample_session"
    by (simp_all add: sample_recipients L toy_sodium_def my_device_def sample_session_def sample_device_def)
  have "holds_key ?L (dv_keyring sample_reader) ([7] ! 0)" using holds by simp
  from sent_payload_is_read_by_every_recipient [OF ok(1) refl rs ok(2,3) this, of "[]" "''t''" sample_world]
  obtain em where em: "\<And>m. carries em (msg_envelope m) \<Longrightarrow> \<not> is_expired sample_env (w_now sample_reader) (msg_envelope m) \<Longrightarrow>
      (\<exists>x s2. hydrateMessage sample_env m sample_reader = (Inr x, s2)
        \<and> lm_plaintext x = Some (plaintext_payload sample_input [] ''t'') \<and> lm_decryptError x = None)"
    by blast
  let ?m = "\<lparr>msg_envelope = (sample_envelope ''m'' ''c'' 1)\<lparr>env_nonce := em_nonce em, env_ciphertext := em_ciphertext em,
      env_recipients := em_recipients em\<rparr>, msg_deliveryState = DSent, msg_deliveredAt = None, msg_failedReason = None, msg_receipts = []\<rparr>"
  have "carries em (msg_envelope ?m)" "\<not> is_expired sample_env (w_now sample_reader) (msg_envelope ?m)"
    by (simp_all add: carries_def is_expired_def sample_envelope_def)
  from em [OF this] show ?thesis by blast
qed

subsection \<open>Runs without failures of the device\<close>

text \<open>Nothing else runs in between, and no native call fails; the relay may answer anything.\<close>

definition calm :: "runtime_env \<Rightarrow> bool" where
  "calm env \<longleftrightarrow> (\<forall>n. re_fault env n = None \<and> re_meanwhile env n = [])"

text \<open>What a flush or a synchronisation is about.\<close>

definition others :: "world \<Rightarrow> string option \<times> bool \<times> int option \<times> auth_session option" where
  "others s = (rt_accessToken s, rt_flushRequested s, rt_queuedSyncHint s, current_session s)"

definition flush_view :: "world \<Rightarrow> api_request list \<times> (conversation_dto, message_dto, send_message_request) message_db
    \<times> string option \<times> bool \<times> int option \<times> auth_session option" where
  "flush_view s = (w_requests s, w_db s, others s)"

lemma calm_time: "calm env \<Longrightarrow> flush_view (pass_time env s) = flush_view s"
  by (simp add: calm_def pass_time_def flush_view_def others_def current_session_def Let_def)

lemma calm_write: "calm env \<Longrightarrow> \<exists>s'. db_write env f s = (Inr (), s')
    \<and> flush_view s' = (w_requests s, f (w_db s), others s)"
  using calm_time [of env] by (simp add: db_write_def awaited_def native_def Let_def calm_def) (simp add: flush_view_def others_def current_session_def)

lemma calm_read: "calm env \<Longrightarrow> \<exists>s'. db_read env f s = (Inr (f (w_db s)), s') \<and> flush_view s' = flush_view s"
  using calm_time [of env] by (simp add: db_read_def awaited_def native_def Let_def calm_def) (simp add: flush_view_def others_def current_session_def)

lemma calm_api: "calm env \<Longrightarrow> \<exists>s'. api env rq answer s = (answer (length (w_requests s)), s')
    \<and> flush_view s' = (w_requests s @ [rq], w_db s, others s)"
  using calm_time [of env] by (simp add: api_def awaited_def) (simp add: flush_view_def others_def current_session_def)

lemma store_view: "\<exists>s'. store_do env f s = (Inr (), s') \<and> flush_view s' = flush_view s"
  by (simp add: store_do_def upd_def set_store_def flush_view_def others_def current_session_def)

lemma hydrate_view: "\<exists>x s'. hydrateMessage env m s = (Inr x, s') \<and> flush_view s' = flush_view s"
proof -
  obtain x s' where x: "hydrateMessage env m s = (Inr x, s')" "device_free s' = device_free s" using hydrate_returns by blast
  have "flush_view (device_free t) = flush_view t" for t by (simp add: device_free_def flush_view_def others_def current_session_def)
  then show ?thesis using x by metis
qed

lemma mark_view: "\<exists>s'. mark_item env session item p s = (Inr (), s') \<and> flush_view s' = flush_view s"
  using store_view [of env _ s] by (cases session) (simp_all add: mark_item_def ret_def)

text \<open>What becomes of an outbox item in the database, by the answer of the relay.\<close>

definition settle :: "runtime_env \<Rightarrow> outbox_item \<Rightarrow> js_error + message_dto
    \<Rightarrow> (conversation_dto, message_dto, send_message_request) message_db \<Rightarrow> (conversation_dto, message_dto, send_message_request) message_db" where
  "settle env item answer db = (case answer of
      Inr message \<Rightarrow> (let e = msg_envelope message in
        messaging_store_upsert_message (env_id e) (env_conversationId e) (Some (env_serverSequence e)) message (env_createdAt e)
          (messaging_store_delete_outbox (ob_clientMessageId item) db))
    | Inl error \<Rightarrow> if ce_class (classifyMessagingError (re_t env) error) = Retryable
        then messaging_store_increment_outbox_retry (ob_clientMessageId item) db
        else messaging_store_delete_outbox (ob_clientMessageId item) db)"

lemma flush_item_calm:
  assumes "calm env"
  shows "\<exists>s'. flush_item env tok item s = (Inr (), s') \<and> flush_view s' =
     (w_requests s @ [api_sendMessage (re_server env) tok (ob_conversationId item) (ob_payload item)],
      settle env item (rl_sendMessage (re_relay env) (length (w_requests s))) (w_db s), others s)"
proof -
  let ?rq = "api_sendMessage (re_server env) tok (ob_conversationId item) (ob_payload item)"
  let ?answer = "rl_sendMessage (re_relay env) (length (w_requests s))"
  obtain s1 where s1: "mark_item env (current_session s) item \<lparr>lp_lifecycle = LSending, lp_retryableFailure = None, lp_failureCode = None\<rparr> s = (Inr (), s1)"
    "flush_view s1 = flush_view s" using mark_view by blast
  obtain s2 where s2: "api env ?rq (rl_sendMessage (re_relay env)) s1 = (?answer, s2)"
    "flush_view s2 = (w_requests s @ [?rq], w_db s, others s)"
    using calm_api [OF assms, of ?rq "rl_sendMessage (re_relay env)" s1] s1(2) by (auto simp: flush_view_def others_def current_session_def)
  show ?thesis
  proof (cases ?answer)
    case (Inr m)
    let ?e = "msg_envelope m"
    obtain s3 where s3: "db_deleteOutbox env (ob_clientMessageId item) s2 = (Inr (), s3)"
      "flush_view s3 = (w_requests s2, messaging_store_delete_outbox (ob_clientMessageId item) (w_db s2), others s2)"
      unfolding db_deleteOutbox_def using calm_write [OF assms] by blast
    obtain s4 where s4: "db_saveMessage env m s3 = (Inr (), s4)"
      "flush_view s4 = (w_requests s3, messaging_store_upsert_message (env_id ?e) (env_conversationId ?e) (Some (env_serverSequence ?e)) m
         (env_createdAt ?e) (w_db s3), others s3)"
      unfolding db_saveMessage_def Let_def using calm_write [OF assms] by blast
    obtain x s5 where s5: "hydrateMessage env m s4 = (Inr x, s5)" "flush_view s5 = flush_view s4" using hydrate_view by blast
    obtain s6 where s6: "store_do env (\<lambda>now. upsertMessage now (ob_conversationId item) x) s5 = (Inr (), s6)" "flush_view s6 = flush_view s5"
      using store_view by blast
    have "flush_item env tok item s = (Inr (), s6)"
      using s1 s2 s3 s4 s5 s6 Inr by (simp add: flush_item_def bnd_def sq_def catch_def rd_def)
    then show ?thesis using s2 s3 s4 s5 s6 Inr by (simp add: settle_def Let_def flush_view_def others_def current_session_def)
  next
    case (Inl e)
    let ?c = "classifyMessagingError (re_t env) e"
    obtain s3 where s3: "(if ce_class ?c = Retryable then db_incrementOutboxRetry env (ob_clientMessageId item)
        else db_deleteOutbox env (ob_clientMessageId item)) s2 = (Inr (), s3)"
      "flush_view s3 = (w_requests s2, settle env item ?answer (w_db s2), others s2)"
      using calm_write [OF assms, of _ s2] Inl
      by (cases "ce_class ?c = Retryable") (auto simp: settle_def db_incrementOutboxRetry_def db_deleteOutbox_def)
    obtain s4 where s4: "mark_item env (current_session s) item (failed_patch env e) s3 = (Inr (), s4)" "flush_view s4 = flush_view s3"
      using mark_view by blast
    have "flush_item env tok item s = (Inr (), s4)"
      using s1 s2 s3 s4 Inl by (simp add: flush_item_def bnd_def sq_def catch_def rd_def)
    then show ?thesis using s2 s3 s4 by (simp add: flush_view_def others_def current_session_def)
  qed
qed

lemma flush_items_calm:
  assumes "calm env"
  shows "\<exists>s'. for_each items (flush_item env tok) s = (Inr (), s') \<and> flush_view s' =
     (w_requests s @ map (\<lambda>item. api_sendMessage (re_server env) tok (ob_conversationId item) (ob_payload item)) items,
      fold (\<lambda>(item, answer). settle env item answer)
        (zip items (map (rl_sendMessage (re_relay env)) [length (w_requests s) ..< length (w_requests s) + length items])) (w_db s),
      others s)"
proof (induction items arbitrary: s)
  case Nil
  show ?case by (simp add: ret_def flush_view_def others_def current_session_def)
next
  case (Cons item items)
  obtain s1 where s1: "flush_item env tok item s = (Inr (), s1)" "flush_view s1 =
     (w_requests s @ [api_sendMessage (re_server env) tok (ob_conversationId item) (ob_payload item)],
      settle env item (rl_sendMessage (re_relay env) (length (w_requests s))) (w_db s), others s)"
    using flush_item_calm [OF assms] by blast
  have n: "[length (w_requests s) ..< length (w_requests s) + length (item # items)]
      = length (w_requests s) # [length (w_requests s1) ..< length (w_requests s1) + length items]"
    using s1(2) by (simp add: flush_view_def upt_rec)
  show ?case using Cons.IH [of s1] s1 unfolding n by (auto simp: sq_def bnd_def flush_view_def others_def current_session_def)
qed

text \<open>C2. A flush accounts for every queued message. When the device works and nothing comes in between, it asks the relay
  exactly once for each row of the outbox, oldest first, with the payload that was queued; each answer
  settles its own row (accepted: the row goes and the confirmed message is saved; retryable: the row stays and
  its retry count grows; refused for good: the row goes), and the flush returns with the shown outbox equal
  to the stored one.\<close>

theorem flush_sends_every_queued_message_once:
  assumes "calm env" "\<not> rt_flushRunning s" "rt_accessToken s = Some tok" "tok \<noteq> []" "0 < fuel"
    and "items = map item_of_row (messaging_store_list_outbox (w_db s))"
  shows "\<exists>s'. flushOutbox fuel env s = (Inr (), s')
    \<and> w_requests s' = w_requests s @ map (\<lambda>item. api_sendMessage (re_server env) tok (ob_conversationId item) (ob_payload item)) items
    \<and> w_db s' = fold (\<lambda>(item, answer). settle env item answer)
        (zip items (map (rl_sendMessage (re_relay env)) [length (w_requests s) ..< length (w_requests s) + length items])) (w_db s)
    \<and> st_outbox (w_store s') = map item_of_row (messaging_store_list_outbox (w_db s'))"
proof -
  let ?s = "s\<lparr>rt_flushRunning := True, rt_flushRequested := False\<rparr>"
  have token: "requireAccessToken ?s = (Inr tok, ?s)" using assms(3,4) by (simp add: requireAccessToken_def present_def ret_def)
  obtain s1 where s1: "db_listOutbox env ?s = (Inr items, s1)" "flush_view s1 = flush_view ?s"
    using calm_read [OF assms(1), of "\<lambda>db. map item_of_row (messaging_store_list_outbox db)" ?s] assms(6) by (auto simp: db_listOutbox_def)
  obtain s2 where s2: "for_each items (flush_item env tok) s1 = (Inr (), s2)" "flush_view s2 =
     (w_requests s @ map (\<lambda>item. api_sendMessage (re_server env) tok (ob_conversationId item) (ob_payload item)) items,
      fold (\<lambda>(item, answer). settle env item answer)
        (zip items (map (rl_sendMessage (re_relay env)) [length (w_requests s) ..< length (w_requests s) + length items])) (w_db s),
      others (s\<lparr>rt_flushRequested := False\<rparr>))"
    using flush_items_calm [OF assms(1), of items tok s1] s1(2) by (auto simp: flush_view_def others_def current_session_def)
  obtain s3 where s3: "db_listOutbox env s2 = (Inr (map item_of_row (messaging_store_list_outbox (w_db s2))), s3)" "flush_view s3 = flush_view s2"
    using calm_read [OF assms(1), of "\<lambda>db. map item_of_row (messaging_store_list_outbox db)" s2] by (auto simp: db_listOutbox_def)
  have "\<exists>s4. flush_pass env (s\<lparr>rt_flushRequested := True, rt_flushRunning := True\<rparr>) = (Inr (), s4) \<and> flush_view s4 = flush_view s2
      \<and> st_outbox (w_store s4) = map item_of_row (messaging_store_list_outbox (w_db s4))"
  proof (cases "items = []")
    case True
    have "flush_pass env (s\<lparr>rt_flushRequested := True, rt_flushRunning := True\<rparr>) = (Inr (), set_store env (\<lambda>now. setOutbox []) s1)"
      using token s1(1) True by (simp add: flush_pass_def sq_upd bnd_def store_do_def upd_def)
    moreover have "flush_view (set_store env (\<lambda>now. setOutbox []) s1) = flush_view s2"
      using s1(2) s2(2) True by (simp add: set_store_def flush_view_def others_def current_session_def)
    moreover have "messaging_store_list_outbox (w_db s1) = []" using s1(2) assms(6) True by (simp add: flush_view_def others_def current_session_def)
    ultimately show ?thesis by (simp add: setOutbox_def)
  next
    case False
    let ?t = "set_store env (\<lambda>now. setOutbox (map item_of_row (messaging_store_list_outbox (w_db s2)))) s3"
    have "flush_pass env (s\<lparr>rt_flushRequested := True, rt_flushRunning := True\<rparr>) = (Inr (), ?t)"
      using token s1(1) s2(1) s3(1) False by (simp add: flush_pass_def sq_upd bnd_def sq_def store_do_def upd_def refreshOutbox_def)
    moreover have "flush_view ?t = flush_view s2" using s3(2) by (simp add: set_store_def flush_view_def others_def current_session_def)
    moreover have "st_outbox (w_store ?t) = map item_of_row (messaging_store_list_outbox (w_db ?t))"
      using s3(2) by (simp add: setOutbox_def flush_view_def others_def current_session_def)
    ultimately show ?thesis by blast
  qed
  then obtain s4 where s4: "flush_pass env (s\<lparr>rt_flushRequested := True, rt_flushRunning := True\<rparr>) = (Inr (), s4)"
    "flush_view s4 = flush_view s2" "st_outbox (w_store s4) = map item_of_row (messaging_store_list_outbox (w_db s4))" by blast
  obtain n where "fuel = Suc n" using assms(5) by (cases fuel) auto
  moreover have "flush_loop n env s4 = (Inr (), s4)"
    using s4(2) s2(2) by (cases n) (simp_all add: flush_view_def others_def current_session_def upd_def ret_def)
  ultimately have "flush_loop fuel env (s\<lparr>rt_flushRequested := True, rt_flushRunning := True\<rparr>) = (Inr (), s4)"
    using s4(1) by (simp add: sq_def bnd_def)
  then have "flushOutbox fuel env s = (Inr (), s4\<lparr>rt_flushRunning := False\<rparr>)"
    using assms(2) by (simp add: flushOutbox_def sq_upd finally_do_def)
  then show ?thesis using s4(2,3) s2(2) by (auto simp: flush_view_def others_def current_session_def)
qed

definition sample_sender :: world where
  "sample_sender = sample_world\<lparr>rt_accessToken := Some ''token'', w_db := messaging_store_enqueue_outbox ''c1'' ''conv''
     (send_request sample_input ''c1'' \<lparr>em_algorithm = [], em_cryptoVersion = 1, em_nonce = [], em_ciphertext = [], em_recipients = []\<rparr> []) ''t'' empty_db\<rparr>"

lemma flush_sends_every_queued_message_once_witness:
  "\<exists>s'. flushOutbox 2 sample_env sample_sender = (Inr (), s') \<and> length (w_requests s') = 1"
proof -
  have s: "calm sample_env" "\<not> rt_flushRunning sample_sender" "rt_accessToken sample_sender = Some ''token''" "''token'' \<noteq> []" "(0::nat) < 2"
    by (simp_all add: calm_def sample_env_def sample_sender_def sample_world_def)
  have "length (messaging_store_list_outbox (w_db sample_sender)) = 1"
    by (simp add: sample_sender_def messaging_store_list_outbox_def messaging_store_enqueue_outbox_def empty_db_def sql_upsert_def
        js_sort_def)
  with flush_sends_every_queued_message_once [OF s refl] show ?thesis by (auto simp: sample_sender_def sample_world_def)
qed

subsection \<open>Hints\<close>

text \<open>A hint of the relay is taken for the position of the client. The relay announces a new message with its sequence
  \<open>h\<close> and answers a poll with the messages after the cursor that is asked for; the client asks with the larger
  of its own cursor and \<open>h\<close>, so the answer is empty up to \<open>h\<close>, and \<open>h\<close> becomes the stored cursor: the
  announced message, and everything between the old cursor and \<open>h\<close>, is not fetched by this poll, nor by a
  later one, because the cursor never goes back.\<close>

theorem hinted_sync_skips_the_announced_message:
  assumes "calm env" "\<not> rt_syncRunning s" "rt_queuedSyncHint s = None" "rt_accessToken s = Some tok" "tok \<noteq> []" "current_session s \<noteq> None"
    and "0 \<le> h" "rl_sync (re_relay env) (length (w_requests s)) = Inr batch" "sb_events batch = []" "sb_toCursor batch = h"
    and "messaging_store_read_sync_cursor (w_db s) \<le> h" "0 < fuel"
  shows "\<exists>s'. requestSync fuel env (Some (Fin (of_int h))) None s = (Inr (), s')
    \<and> w_requests s' = w_requests s @ [api_syncPoll (re_server env) tok h (rt_longPollTimeoutSec s) 100]
    \<and> messaging_store_read_sync_cursor (w_db s') = h"
proof -
  let ?s = "s\<lparr>rt_syncRunning := True, rt_queuedSyncHint := None\<rparr>" and ?rq = "api_syncPoll (re_server env) tok h (rt_longPollTimeoutSec s) 100"
  obtain session where session: "current_session s = Some session" using assms(6) by blast
  have token: "requireAccessToken ?s = (Inr tok, ?s)" using assms(4,5) by (simp add: requireAccessToken_def present_def ret_def)
  obtain s1 where s1: "db_read env messaging_store_read_sync_cursor ?s = (Inr (messaging_store_read_sync_cursor (w_db s)), s1)"
    "flush_view s1 = flush_view ?s" using calm_read [OF assms(1), of messaging_store_read_sync_cursor ?s] by auto
  obtain s2 where s2: "api env ?rq (rl_sync (re_relay env)) s1 = (Inr batch, s2)"
    "flush_view s2 = (w_requests s @ [?rq], w_db s, others ?s)"
    using calm_api [OF assms(1), of ?rq "rl_sync (re_relay env)" s1] s1(2) assms(8) by (auto simp: flush_view_def)
  obtain s3 where s3: "db_write env (messaging_store_write_sync_cursor h) s2 = (Inr (), s3)"
    "flush_view s3 = (w_requests s @ [?rq], messaging_store_write_sync_cursor h (w_db s), others ?s)"
    using calm_write [OF assms(1), of "messaging_store_write_sync_cursor h" s2] s2(2) by (auto simp: flush_view_def)
  obtain s4 where s4: "transport_do env (cursor_patch h) s3 = (Inr (), s4)" "flush_view s4 = flush_view s3"
    unfolding transport_do_def using store_view by blast
  have live: "current_session s2 = Some session" "rt_queuedSyncHint s4 = None"
    using s2(2) s3(2) s4(2) session by (simp_all add: flush_view_def others_def current_session_def)
  have cursor: "max (messaging_store_read_sync_cursor (w_db s)) h = h" "max h 0 = h" using assms(7,11) by simp_all
  have batch: "applySyncBatch env batch s2 = (Inr (), s4)"
    using live(1) s3(1) s4(1) assms(9,10) cursor(2) by (simp add: applySyncBatch_def rd_def bnd_def sq_def ret_def Let_def)
  have once: "syncOnce env (rt_longPollTimeoutSec s) (Some h) None ?s = (Inr (), s4)"
    unfolding syncOnce_def bnd_def token s1(1) prod.case sum.case Let_def option.case cursor(1) using s2(1) batch by (simp add: present_def)
  obtain n where n: "fuel = Suc n" using assms(12) by (cases fuel) auto
  have q: "normalizedHint (Some (Fin (of_int h))) = Some h" using assms(7) by (simp add: max_def)
  have "sync_loop fuel env None (s\<lparr>rt_queuedSyncHint := Some h, rt_syncRunning := True\<rparr>) = (Inr (), s4)"
    unfolding n using once live(2) by (simp add: bnd_def rd_def upd_def sq_def ret_def)
  then have "requestSync fuel env (Some (Fin (of_int h))) None s = (Inr (), s4\<lparr>rt_syncRunning := False\<rparr>)"
    using assms(2,3) by (simp add: requestSync_def sq_upd q queue_hint_def finally_do_def del: normalizedHint.simps)
  moreover have "messaging_store_read_sync_cursor (messaging_store_write_sync_cursor h (w_db s)) = h"
    using assms(11) by (auto simp: messaging_store_read_sync_cursor_def messaging_store_write_sync_cursor_def split: option.split)
  ultimately show ?thesis using s4(2) s3(2) by (auto simp: flush_view_def)
qed

definition hinting_env :: runtime_env where
  "hinting_env = sample_env\<lparr>re_relay := (re_relay sample_env)\<lparr>rl_sync := (\<lambda>n. Inr \<lparr>sb_cursorId = [], sb_fromCursor = 9, sb_toCursor = 9, sb_events = [], sb_hasMore = False\<rparr>)\<rparr>\<rparr>"

lemma hinted_sync_skips_the_announced_message_witness:
  "\<exists>s'. requestSync 1 hinting_env (Some (Fin (of_int 9))) None (sample_reader\<lparr>rt_accessToken := Some ''token''\<rparr>) = (Inr (), s')
     \<and> messaging_store_read_sync_cursor (w_db s') = 9"
proof -
  let ?s = "sample_reader\<lparr>rt_accessToken := Some ''token''\<rparr>"
  let ?batch = "\<lparr>sb_cursorId = [], sb_fromCursor = 9, sb_toCursor = 9, sb_events = [], sb_hasMore = False\<rparr>"
  have s: "calm hinting_env" "\<not> rt_syncRunning ?s" "rt_queuedSyncHint ?s = None" "rt_accessToken ?s = Some ''token''" "''token'' \<noteq> []"
    "current_session ?s \<noteq> None" "(0::int) \<le> 9" "rl_sync (re_relay hinting_env) (length (w_requests ?s)) = Inr ?batch"
    "sb_events ?batch = []" "sb_toCursor ?batch = 9" "messaging_store_read_sync_cursor (w_db ?s) \<le> 9" "(0::nat) < 1"
    by (simp_all add: calm_def hinting_env_def sample_env_def sample_reader_def sample_world_def current_session_def
        messaging_store_read_sync_cursor_def empty_db_def)
  from hinted_sync_skips_the_announced_message [OF s] show ?thesis by blast
qed

subsection \<open>Reconnecting\<close>



subsection \<open>The token of the socket\<close>

text \<open>The token is put into the address of the socket where the build allows it, and for every unencrypted endpoint.\<close>

lemma token_in_socket_address:
  assumes "re_urlProtocol env a = Some protocol" "re_newWebSocket env url [''sm.auth.'' @ token, ''sm.v1''] = None"
    and "re_setParams env None a (if re_wsQueryTokenFallback env \<or> protocol = ''ws:'' then [(''access_token'', token)] else []) = Some url"
  shows "rt_wsTransport (snd (ws_connect env a token s)) = Some \<lparr>wt_ws = Some \<lparr>wsk_url = url,
     wsk_protocols = [''sm.auth.'' @ token, ''sm.v1''], wsk_readyState = WsConnecting\<rparr>, wt_endpoint = Some a\<rparr>"
  using assms by (simp add: ws_connect_def Let_def upd_def)

end
