(* ===== verification/Account_Pages.thy ===== *)
theory Account_Pages
  imports App Routes Account_Api Messaging_Delivery
begin

text \<open>
  The pages that sign in, sign out and look after the account: \<open>features/auth/LoginPage.tsx\<close>,
  \<open>RegisterPage.tsx\<close>, \<open>TwoFAVerifyPage.tsx\<close>, \<open>features/pending/PendingApprovalPage.tsx\<close>,
  \<open>features/devices/DevicesPage.tsx\<close>, \<open>features/server/ServerConnectPage.tsx\<close>, and the sign-outs of
  \<open>components/Sidebar.tsx\<close> and \<open>features/settings/SettingsPage.tsx\<close>. Modelled are their handlers, over the world of
  the messaging runtime with the session and the keyring; the JSX around them is not.
\<close>

subsection \<open>Environment\<close>

record device_list =
  dl_currentDeviceId :: string
  dl_devices :: "device_dto list"
  dl_approvals :: "(string \<times> string \<times> approval_status) list"

text \<open>The answers of the relay to the requests of the account, numbered like all requests.\<close>

record account_relay =
  al_register :: "nat \<Rightarrow> js_error + login_envelope"
  al_login :: "nat \<Rightarrow> js_error + json"
  al_verifyTwoFALogin :: "nat \<Rightarrow> js_error + login_envelope"
  al_logout :: "nat \<Rightarrow> js_error + unit"
  al_logoutAll :: "nat \<Rightarrow> js_error + unit"
  al_startTwoFA :: "nat \<Rightarrow> js_error + string \<times> string"
  al_confirmTwoFA :: "nat \<Rightarrow> js_error + string list"
  al_disableTwoFA :: "nat \<Rightarrow> js_error + unit"
  al_devices :: "nat \<Rightarrow> js_error + device_list"
  al_stepUp :: "nat \<Rightarrow> js_error + unit"
  al_rotateKey :: "nat \<Rightarrow> js_error + unit"
  al_approvalStatus :: "nat \<Rightarrow> js_error + approval_status"
  al_recoveryStart :: "nat \<Rightarrow> js_error + string \<times> string"
  al_recoveryComplete :: "nat \<Rightarrow> js_error + unit"

text \<open>
  \<open>ac_envelope\<close> and \<open>ac_pending\<close> see a JSON answer of the login at the TypeScript type it is taken for;
  \<open>ac_sha\<close> is the platform's SHA-256, \<open>ac_platform\<close> the user agent.
\<close>

record account_env =
  ac_rt :: runtime_env
  ac_auth :: auth_api
  ac_relay :: account_relay
  ac_sha :: "bytes \<Rightarrow> bytes"
  ac_platform :: string
  ac_envelope :: "json \<Rightarrow> login_envelope"
  ac_pending :: "json \<Rightarrow> pending_approval"

abbreviation ac_fault :: "account_env \<Rightarrow> fault" where "ac_fault env \<equiv> re_fault (ac_rt env)"
abbreviation ac_server :: "account_env \<Rightarrow> server_config" where "ac_server env \<equiv> re_server (ac_rt env)"

subsection \<open>Signing in\<close>

text \<open>A submitted form: whether it is busy, its error, and the page it navigates to.\<close>

record submission =
  sb_isSubmitting :: bool
  sb_error :: "string option"
  sb_navigate :: "string option"

definition submit :: "account_env \<Rightarrow> string rt \<Rightarrow> world \<Rightarrow> submission \<times> world" where
  "submit env m w = (case m w of
      (Inl e, w1) \<Rightarrow> (\<lparr>sb_isSubmitting = False, sb_error = Some (extractApiErrorMessage (re_t (ac_rt env)) e), sb_navigate = None\<rparr>, w1)
    | (Inr path, w1) \<Rightarrow> (\<lparr>sb_isSubmitting = False, sb_error = None, sb_navigate = Some path\<rparr>, w1))"

definition device_identity_of :: "account_env \<Rightarrow> string \<Rightarrow> device_identity rt" where
  "device_identity_of env deviceName =
     loadOrCreateDeviceIdentity (ac_sha env) (re_lib (ac_rt env)) (ac_fault env) (re_randomID (ac_rt env)) deviceName"

definition login_flow :: "account_env \<Rightarrow> string \<Rightarrow> string \<Rightarrow> string \<Rightarrow> string rt" where
  "login_flow env email password deviceName =
     bnd (device_identity_of env deviceName) (\<lambda>deviceIdentity.
     bnd (\<lambda>w. case api (ac_rt env) (api_login (ac_server env) email password (device_body deviceIdentity (ac_platform env)))
               (al_login (ac_relay env)) w of (response, w1) \<Rightarrow> (login response, w1)) (\<lambda>outcome.
     case outcome of
       LoginPending data \<Rightarrow> sq (auth_set (setPendingApproval (Some (ac_pending env data)))) (ret ''/pending-approval'')
     | LoginTwoFA data \<Rightarrow> sq (auth_set (setTwoFAChallenge (Some data))) (ret ''/auth/2fa'')
     | LoginSuccess data \<Rightarrow> sq (applySessionEnvelope (ac_fault env) (ac_auth env) (ac_envelope env data)) (ret ''/devices'')))"

definition register_flow :: "account_env \<Rightarrow> string \<Rightarrow> string \<Rightarrow> string \<Rightarrow> string rt" where
  "register_flow env email password deviceName =
     bnd (createAccountIdentity (ac_sha env) (re_lib (ac_rt env)) (ac_fault env)) (\<lambda>accountIdentity.
     bnd (device_identity_of env deviceName) (\<lambda>deviceIdentity.
     bnd (api (ac_rt env) (api_register (ac_server env) email password accountIdentity (device_body deviceIdentity (ac_platform env)))
           (al_register (ac_relay env))) (\<lambda>response.
     sq (applySessionEnvelope (ac_fault env) (ac_auth env) response) (ret ''/devices''))))"

definition verify_flow :: "account_env \<Rightarrow> two_fa_challenge \<Rightarrow> string \<Rightarrow> string rt" where
  "verify_flow env challenge code =
     bnd (api (ac_rt env) (api_verifyTwoFALogin (ac_server env) (tf_challengeId challenge) (tf_loginToken challenge) code)
           (al_verifyTwoFALogin (ac_relay env))) (\<lambda>envelope.
     sq (applySessionEnvelope (ac_fault env) (ac_auth env) envelope)
    (sq (auth_set (setTwoFAChallenge None)) (ret ''/devices'')))"

subsection \<open>Waiting for approval\<close>

record pending_page =
  pp_statusMessage :: "string option"
  pp_error :: "string option"
  pp_recoveryFlow :: "(string \<times> string) option"

definition status_text :: "approval_status \<Rightarrow> string" where
  "status_text s = (case s of AprApproved \<Rightarrow> ''auth.pendingStatusApproved'' | AprRejected \<Rightarrow> ''auth.pendingStatusRejected''
     | AprExpired \<Rightarrow> ''auth.pendingStatusExpired'' | AprPending \<Rightarrow> ''auth.pendingStatusWaiting'')"

definition checkStatus :: "account_env \<Rightarrow> pending_approval \<Rightarrow> pending_page \<Rightarrow> world \<Rightarrow> pending_page \<times> world" where
  "checkStatus env pending p w =
     (let p1 = p\<lparr>pp_error := None\<rparr> in
      case api (ac_rt env) (api_approvalStatus (ac_server env) (pa_approvalRequestId pending) (pa_approvalPollToken pending))
             (al_approvalStatus (ac_relay env)) w of
        (Inl e, w1) \<Rightarrow> (p1\<lparr>pp_error := Some (extractApiErrorMessage (re_t (ac_rt env)) e)\<rparr>, w1)
      | (Inr status, w1) \<Rightarrow> (p1\<lparr>pp_statusMessage := Some (re_t (ac_rt env) (status_text status))\<rparr>,
          if status = AprApproved then w1\<lparr>au_store := setPendingApproval None (au_store w1)\<rparr> else w1))"

definition startRecovery :: "account_env \<Rightarrow> pending_approval \<Rightarrow> string \<Rightarrow> pending_page \<Rightarrow> world \<Rightarrow> pending_page \<times> world" where
  "startRecovery env pending recoveryEmail p w =
     (let p1 = p\<lparr>pp_error := None\<rparr> in
      case api (ac_rt env) (api_recoveryStart (ac_server env) recoveryEmail (pa_approvalRequestId pending)) (al_recoveryStart (ac_relay env)) w of
        (Inl e, w1) \<Rightarrow> (p1\<lparr>pp_error := Some (extractApiErrorMessage (re_t (ac_rt env)) e)\<rparr>, w1)
      | (Inr flow, w1) \<Rightarrow> (p1\<lparr>pp_recoveryFlow := Some flow, pp_statusMessage := Some (re_t (ac_rt env) ''auth.recoveryStarted'')\<rparr>, w1))"

definition non_empty :: "string \<Rightarrow> string option" where
  "non_empty s = (if s = [] then None else Some s)"

definition completeRecovery :: "account_env \<Rightarrow> string \<Rightarrow> string \<Rightarrow> pending_page \<Rightarrow> world \<Rightarrow> (pending_page \<times> string option) \<times> world" where
  "completeRecovery env recoveryCode twoFactorCode p w =
     (case pp_recoveryFlow p of
        None \<Rightarrow> ((p\<lparr>pp_error := Some (re_t (ac_rt env) ''auth.recoveryNeedsStart'')\<rparr>, None), w)
      | Some (flow, tok) \<Rightarrow>
          if flow = [] \<or> tok = [] then ((p\<lparr>pp_error := Some (re_t (ac_rt env) ''auth.recoveryNeedsStart'')\<rparr>, None), w)
          else let p1 = p\<lparr>pp_error := None\<rparr> in
            case api (ac_rt env) (api_recoveryComplete (ac_server env) flow tok recoveryCode (non_empty twoFactorCode))
                   (al_recoveryComplete (ac_relay env)) w of
              (Inl e, w1) \<Rightarrow> ((p1\<lparr>pp_error := Some (extractApiErrorMessage (re_t (ac_rt env)) e)\<rparr>, None), w1)
            | (Inr _, w1) \<Rightarrow> ((p1\<lparr>pp_statusMessage := Some (re_t (ac_rt env) ''auth.recoveryCompleted'')\<rparr>, Some ''/auth/login''),
                w1\<lparr>au_store := setPendingApproval None (au_store w1)\<rparr>))"

subsection \<open>Devices\<close>

record devices_page =
  dv_data :: "device_list option"
  dv_loading :: bool
  dv_error :: "string option"
  dv_twoFactorCode :: string
  dv_setup :: "(string \<times> string) option"
  dv_setupConfirmCode :: string
  dv_disableCode :: string
  dv_rotatingKey :: bool
  dv_logoutAllRunning :: bool

definition page_error :: "account_env \<Rightarrow> js_error \<Rightarrow> devices_page \<Rightarrow> devices_page" where
  "page_error env e p = p\<lparr>dv_error := Some (extractApiErrorMessage (re_t (ac_rt env)) e)\<rparr>"

text \<open>\<open>accessToken\<close> is the token the page was rendered with.\<close>

definition refreshList :: "account_env \<Rightarrow> string option \<Rightarrow> devices_page \<Rightarrow> world \<Rightarrow> devices_page \<times> world" where
  "refreshList env accessToken p w =
     (if \<not> present accessToken then (p, w)
      else let p1 = p\<lparr>dv_loading := True, dv_error := None\<rparr> in
        case api (ac_rt env) (api_devices (ac_server env) (the accessToken)) (al_devices (ac_relay env)) w of
          (Inl e, w1) \<Rightarrow> ((page_error env e p1)\<lparr>dv_loading := False\<rparr>, w1)
        | (Inr list, w1) \<Rightarrow> (let p2 = p1\<lparr>dv_data := Some list\<rparr> in
            case api_call (\<lambda>n. api_session (ac_auth env) n (the accessToken)) w1 of
              (Inl e, w2) \<Rightarrow> ((page_error env e p2)\<lparr>dv_loading := False\<rparr>, w2)
            | (Inr details, w2) \<Rightarrow> (p2\<lparr>dv_loading := False\<rparr>, w2\<lparr>au_store := updateSessionDetails details (au_store w2)\<rparr>)))"

text \<open>A request that may need a second factor, then the list anew: \<open>approve\<close>, \<open>reject\<close> and \<open>revoke\<close>.\<close>

definition step_up :: "account_env \<Rightarrow> (string \<Rightarrow> string option \<Rightarrow> api_request) \<Rightarrow> string option \<Rightarrow> devices_page \<Rightarrow> world \<Rightarrow> devices_page \<times> world" where
  "step_up env rq accessToken p w =
     (if \<not> present accessToken then (p, w)
      else case api (ac_rt env) (rq (the accessToken) (non_empty (dv_twoFactorCode p))) (al_stepUp (ac_relay env)) w of
        (Inl e, w1) \<Rightarrow> (page_error env e p, w1)
      | (Inr _, w1) \<Rightarrow> refreshList env accessToken p w1)"

definition approve :: "account_env \<Rightarrow> string \<Rightarrow> string option \<Rightarrow> devices_page \<Rightarrow> world \<Rightarrow> devices_page \<times> world" where
  "approve env approvalRequestId = step_up env (\<lambda>tok. api_approve (ac_server env) tok approvalRequestId)"

definition reject :: "account_env \<Rightarrow> string \<Rightarrow> string option \<Rightarrow> devices_page \<Rightarrow> world \<Rightarrow> devices_page \<times> world" where
  "reject env approvalRequestId = step_up env (\<lambda>tok. api_reject (ac_server env) tok approvalRequestId)"

definition revoke :: "account_env \<Rightarrow> string \<Rightarrow> string option \<Rightarrow> devices_page \<Rightarrow> world \<Rightarrow> devices_page \<times> world" where
  "revoke env deviceId = step_up env (\<lambda>tok. api_revoke (ac_server env) tok deviceId)"

text \<open>The body of the \<open>try\<close> block up to the new list: a candidate, the relay's consent, the commit.\<close>

definition rotation_flow :: "account_env \<Rightarrow> string \<Rightarrow> string option \<Rightarrow> device_identity rt" where
  "rotation_flow env accessToken twoFactorCode =
     bnd (generateDeviceIdentityCandidate (ac_sha env) (re_lib (ac_rt env)) (ac_fault env)) (\<lambda>candidate.
     sq (api (ac_rt env) (api_rotateKey (ac_server env) accessToken (id_publicMaterial candidate) (id_fingerprint candidate) twoFactorCode)
           (al_rotateKey (ac_relay env)))
    (sq (commitDeviceIdentityRotation (ac_fault env) candidate) (ret candidate)))"

definition rotateCurrentDeviceKey :: "account_env \<Rightarrow> string option \<Rightarrow> bool \<Rightarrow> devices_page \<Rightarrow> world \<Rightarrow> devices_page \<times> world" where
  "rotateCurrentDeviceKey env accessToken hasSession p w =
     (if \<not> present accessToken \<or> \<not> hasSession then (p, w)
      else let p1 = p\<lparr>dv_rotatingKey := True, dv_error := None\<rparr> in
        case rotation_flow env (the accessToken) (non_empty (dv_twoFactorCode p)) w of
          (Inl e, w1) \<Rightarrow> ((page_error env e p1)\<lparr>dv_rotatingKey := False\<rparr>, w1)
        | (Inr _, w1) \<Rightarrow> (case refreshList env accessToken p1 w1 of (p2, w2) \<Rightarrow> (p2\<lparr>dv_rotatingKey := False\<rparr>, w2)))"

definition logoutAllSessions :: "account_env \<Rightarrow> string option \<Rightarrow> devices_page \<Rightarrow> world \<Rightarrow> devices_page \<times> world" where
  "logoutAllSessions env accessToken p w =
     (if \<not> present accessToken then (p, w)
      else let p1 = p\<lparr>dv_logoutAllRunning := True, dv_error := None\<rparr> in
        case sq (api (ac_rt env) (api_logoutAll (ac_server env) (the accessToken)) (al_logoutAll (ac_relay env))) (clearSession (ac_fault env)) w of
          (Inl e, w1) \<Rightarrow> ((page_error env e p1)\<lparr>dv_logoutAllRunning := False\<rparr>, w1)
        | (Inr _, w1) \<Rightarrow> (p1\<lparr>dv_logoutAllRunning := False\<rparr>, w1))"

definition startTwoFA :: "account_env \<Rightarrow> string option \<Rightarrow> devices_page \<Rightarrow> world \<Rightarrow> devices_page \<times> world" where
  "startTwoFA env accessToken p w =
     (if \<not> present accessToken then (p, w)
      else case api (ac_rt env) (api_startTwoFA (ac_server env) (the accessToken)) (al_startTwoFA (ac_relay env)) w of
        (Inl e, w1) \<Rightarrow> (page_error env e p, w1)
      | (Inr setup, w1) \<Rightarrow> (p\<lparr>dv_setup := Some setup\<rparr>, w1))"

definition confirmTwoFA :: "account_env \<Rightarrow> string option \<Rightarrow> devices_page \<Rightarrow> world \<Rightarrow> devices_page \<times> world" where
  "confirmTwoFA env accessToken p w =
     (if \<not> present accessToken then (p, w)
      else case api (ac_rt env) (api_confirmTwoFA (ac_server env) (the accessToken) (dv_setupConfirmCode p)) (al_confirmTwoFA (ac_relay env)) w of
        (Inl e, w1) \<Rightarrow> (page_error env e p, w1)
      | (Inr codes, w1) \<Rightarrow> (case refreshList env accessToken p (w1\<lparr>au_store := setRecoveryCodes codes (au_store w1)\<rparr>) of
          (p2, w2) \<Rightarrow> (p2\<lparr>dv_setupConfirmCode := []\<rparr>, w2)))"

definition disableTwoFA :: "account_env \<Rightarrow> string option \<Rightarrow> devices_page \<Rightarrow> world \<Rightarrow> devices_page \<times> world" where
  "disableTwoFA env accessToken p w =
     (if \<not> present accessToken then (p, w)
      else case api (ac_rt env) (api_disableTwoFA (ac_server env) (the accessToken) (dv_disableCode p)) (al_disableTwoFA (ac_relay env)) w of
        (Inl e, w1) \<Rightarrow> (page_error env e p, w1)
      | (Inr _, w1) \<Rightarrow> (case refreshList env accessToken p w1 of (p2, w2) \<Rightarrow> (p2\<lparr>dv_disableCode := []\<rparr>, w2)))"

subsection \<open>Signing out and changing the server\<close>

text \<open>\<open>logout\<close> of the sidebar. The refresh token is read before the \<open>try\<close> block.\<close>

definition logout :: "account_env \<Rightarrow> string option \<Rightarrow> string rt" where
  "logout env accessToken =
     bnd (storage_get (ac_fault env) REFRESH_TOKEN_KEY) (\<lambda>refreshToken.
     sq (catch (api (ac_rt env) (api_logout (ac_server env) accessToken refreshToken) (al_logout (ac_relay env))) (\<lambda>_. ret ()))
    (sq (clearSession (ac_fault env)) (ret ''/auth/login'')))"

text \<open>\<open>handleChangeServer\<close> of the settings: the world, the local storage, and the page to go to.\<close>

definition handleChangeServer :: "account_env \<Rightarrow> world \<Rightarrow> app_state \<times> local_storage \<Rightarrow> (world \<times> app_state \<times> local_storage) \<times> string" where
  "handleChangeServer env w a =
     (let w1 = snd (clearSession (ac_fault env) w);
          w2 = Messaging_Runtime.set_store (ac_rt env) (\<lambda>now. reset) (stop_runtime (ac_rt env) w1)
      in ((w2, setOnboardingCompleted False (fst a, clearServerConfig (snd a))), ''/connect-server''))"

text \<open>\<open>handleSubmit\<close> of the page that asks for the server.\<close>

definition connect_submit :: "(string \<Rightarrow> string) \<Rightarrow> url_lib \<Rightarrow> (string \<Rightarrow> js_error + http_response) \<Rightarrow> string \<Rightarrow> string \<Rightarrow> local_storage
    \<Rightarrow> submission \<times> local_storage" where
  "connect_submit t U answer now address storage =
     (case connectToServer U answer now address storage of
        (Inr _, storage1) \<Rightarrow> (\<lparr>sb_isSubmitting = False, sb_error = None, sb_navigate = Some ''/auth/login''\<rparr>, storage1)
      | (Inl e, storage1) \<Rightarrow> (\<lparr>sb_isSubmitting = False, sb_error = Some (t (case e of
            ServerConnectionError InvalidInput _ \<Rightarrow> ''serverConnect.invalidInput''
          | ServerConnectionError ConfigInvalid _ \<Rightarrow> ''serverConnect.invalidConfig''
          | _ \<Rightarrow> ''serverConnect.connectionFailed'')), sb_navigate = None\<rparr>, storage1))"

subsection \<open>What time and requests leave alone\<close>

lemma meanwhile_account [simp]:
  "dv_keyring (meanwhile_do env e s) = dv_keyring s" "au_store (meanwhile_do env e s) = au_store s"
  "w_requests (meanwhile_do env e s) = w_requests s" "dv_calls (meanwhile_do env e s) = dv_calls s"
  "dv_tauri (meanwhile_do env e s) = dv_tauri s"
  by (cases e; simp add: queue_hint_def stop_runtime_def Messaging_Runtime.set_store_def split: option.split)+

lemma pass_time_account [simp]:
  "dv_keyring (pass_time env s) = dv_keyring s" "au_store (pass_time env s) = au_store s"
  "w_requests (pass_time env s) = w_requests s" "dv_calls (pass_time env s) = dv_calls s" "dv_tauri (pass_time env s) = dv_tauri s"
proof -
  have "dv_keyring (fold (meanwhile_do env) es s) = dv_keyring s \<and> au_store (fold (meanwhile_do env) es s) = au_store s
    \<and> w_requests (fold (meanwhile_do env) es s) = w_requests s \<and> dv_calls (fold (meanwhile_do env) es s) = dv_calls s
    \<and> dv_tauri (fold (meanwhile_do env) es s) = dv_tauri s" for es s
    by (induction es arbitrary: s) auto
  then show "dv_keyring (pass_time env s) = dv_keyring s" "au_store (pass_time env s) = au_store s"
    "w_requests (pass_time env s) = w_requests s" "dv_calls (pass_time env s) = dv_calls s" "dv_tauri (pass_time env s) = dv_tauri s"
    by (simp_all add: pass_time_def Let_def)
qed

lemma api_result:
  assumes "api env rq answer s = (r, s')"
  shows "r = answer (length (w_requests s))" "w_requests s' = w_requests s @ [rq]" "dv_keyring s' = dv_keyring s"
    "au_store s' = au_store s" "dv_calls s' = dv_calls s" "dv_tauri s' = dv_tauri s"
  using assms by (auto simp: api_def awaited_def)

subsection \<open>Rotating the key of the device\<close>

lemma reads_only_draw: "reads_only (draw f)"
  by (simp add: reads_only_def draw_def)

lemma reads_candidate: "reads_only (generateDeviceIdentityCandidate sha L fault)"
  unfolding generateDeviceIdentityCandidate_def generateIdentityPair_def generateIdentityKeyPair_def
  by (intro reads_only_bnd storage_get_reads) (simp add: reads_only_bnd reads_only_result reads_only_draw)

lemma candidate_nonempty:
  assumes "generateDeviceIdentityCandidate sha L fault s = (Inr d, s')"
    and "\<And>n. so_to_base64 L (fst (so_keypair L n)) \<noteq> []" "\<And>n. so_to_base64 L (snd (so_keypair L n)) \<noteq> []"
  shows "id_publicMaterial d \<noteq> []" "id_privateMaterial d \<noteq> []"
  using assms by (auto simp: generateDeviceIdentityCandidate_def generateIdentityPair_def generateIdentityKeyPair_def bnd_def ret_def
      throw_def draw_def split: prod.splits sum.splits if_splits)

text \<open>What reading and writing the keyring leaves alone.\<close>

locale storage_invariant = device_invariant I for I :: "world \<Rightarrow> bool" +
  assumes keyring: "I s \<Longrightarrow> I (s\<lparr>dv_keyring := m\<rparr>)"
    and fallback: "I s \<Longrightarrow> I (s\<lparr>dv_fallback := m'\<rparr>)"
begin

lemma keeps_set [keeps]: "keeps_pred I (storage_set fault k v)"
  unfolding storage_set_def setStrict_def fallback_set_def by (intro keeps keeps_native) (simp_all add: keyring fallback)

lemma keeps_delete [keeps]: "keeps_pred I (storage_delete fault k)"
  unfolding storage_delete_def deleteStrict_def fallback_remove_def by (intro keeps keeps_native) (simp_all add: keyring fallback)

lemma keeps_pair [keeps]: "keeps_pred I (generateIdentityPair sha L)"
  unfolding generateIdentityPair_def generateIdentityKeyPair_def by (intro keeps)

lemma keeps_identity [keeps]:
  "keeps_pred I (createAccountIdentity sha L fault)" "keeps_pred I (loadOrCreateDeviceIdentity sha L fault f name)"
  "keeps_pred I (generateDeviceIdentityCandidate sha L fault)" "keeps_pred I (commitDeviceIdentityRotation fault next)"
  unfolding createAccountIdentity_def loadOrCreateDeviceIdentity_def generateDeviceIdentityCandidate_def
    commitDeviceIdentityRotation_def loadCurrentDeviceKeyMaterial_def by (intro keeps)+

end

text \<open>So whatever does not look at the keyring and the device is kept: requests, the database, the session.\<close>

interpretation sent: storage_invariant "\<lambda>s :: world. w_requests s = rqs" for rqs
  by unfold_locales simp_all

interpretation local_db: storage_invariant "\<lambda>s :: world. w_db s = db" for db
  by unfold_locales simp_all

interpretation auth_kept: storage_invariant "\<lambda>s :: world. P (au_store s)" for P
  by unfold_locales simp_all

text \<open>A successful commit has written the new pair.\<close>

lemma set_ends:
  assumes "isSensitiveKey k"
  shows "ends_pred (\<lambda>s. dv_keyring s k = Some v) (storage_set fault k v)"
  unfolding ends_pred_def using storage_set_result [OF assms] by fastforce

lemma set_keeps: "isSensitiveKey k \<Longrightarrow> k \<noteq> k' \<Longrightarrow> keeps_pred (\<lambda>s. dv_keyring s k' = x) (storage_set fault k v)"
proof (rule keepsI)
  fix s assume k: "isSensitiveKey k" "k \<noteq> k'" "dv_keyring s k' = x"
  obtain r s' where r: "storage_set fault k v s = (r, s')" by fastforce
  from storage_set_result [OF k(1) r] k show "dv_keyring (snd (storage_set fault k v s)) k' = x" by (auto simp: r)
qed

lemma ends_if: "(b \<Longrightarrow> ends_pred Q m) \<Longrightarrow> (\<not> b \<Longrightarrow> ends_pred Q n) \<Longrightarrow> ends_pred Q (if b then m else n)"
  by simp

lemma commit_writes:
  "ends_pred (\<lambda>s. dv_keyring s DEVICE_PRIVATE_KEY = Some (id_privateMaterial next)) (commitDeviceIdentityRotation fault next)"
  "ends_pred (\<lambda>s. dv_keyring s DEVICE_PUBLIC_KEY = Some (id_publicMaterial next)) (commitDeviceIdentityRotation fault next)"
  unfolding commitDeviceIdentityRotation_def
  by (intro ends_bnd ends_if ends_throw ends_sq ends_sq_keeps [OF set_ends] keeps_sq set_keeps identity_keys_sensitive identity_neq)+

lemma commit_current:
  assumes "commitDeviceIdentityRotation fault next s = (Inr u, s')" "id_publicMaterial next \<noteq> []" "id_privateMaterial next \<noteq> []"
  shows "current_pair (dv_keyring s') = Some \<lparr>kp_publicKey = id_publicMaterial next, kp_privateKey = id_privateMaterial next\<rparr>"
  using endsD [OF commit_writes(1) assms(1)] endsD [OF commit_writes(2) assms(1)] assms(2,3)
  by (simp add: current_pair_def present_def)

text \<open>C12. Rotating the key of the device from its page, whatever fails on the way: the key in use so far is still
  among those tried for decryption; if the rotation ends without an error, the pair in use is the one whose public
  key the relay was just told; and if the relay does not consent, the keyring is untouched.\<close>

theorem rotation_follows_the_relay:
  assumes cur: "current_pair (dv_keyring w) = Some cur"
    and lib: "\<And>n. so_to_base64 (re_lib (ac_rt env)) (fst (so_keypair (re_lib (ac_rt env)) n)) \<noteq> []"
      "\<And>n. so_to_base64 (re_lib (ac_rt env)) (snd (so_keypair (re_lib (ac_rt env)) n)) \<noteq> []"
    and run: "rotation_flow env tok code w = (r, w')"
  shows "(\<exists>keys. held_keys (dv_keyring w') = Some keys \<and> cur \<in> set keys)
    \<and> (case r of
         Inr d \<Rightarrow> current_pair (dv_keyring w') = Some \<lparr>kp_publicKey = id_publicMaterial d, kp_privateKey = id_privateMaterial d\<rparr>
           \<and> last (w_requests w') = api_rotateKey (ac_server env) tok (id_publicMaterial d) (id_fingerprint d) code
       | Inl e \<Rightarrow> (\<forall>n. al_rotateKey (ac_relay env) n \<noteq> Inr ()) \<longrightarrow> dv_keyring w' = dv_keyring w)"
proof -
  have same: "?thesis" if "r = Inl e" "dv_keyring w' = dv_keyring w" for e
    using that cur by (auto simp: held_keys_def)
  obtain c w1 where c: "generateDeviceIdentityCandidate (ac_sha env) (re_lib (ac_rt env)) (ac_fault env) w = (c, w1)" by fastforce
  have k1: "dv_keyring w1 = dv_keyring w" by (rule reads_onlyD [OF reads_candidate c])
  show ?thesis
  proof (cases c)
    case (Inl e)
    then have "r = Inl e" "w' = w1" using run c by (auto simp: rotation_flow_def bnd_def)
    then show ?thesis using same k1 by simp
  next
    case (Inr d)
    note ne = candidate_nonempty [OF c [unfolded Inr] lib]
    let ?rq = "api_rotateKey (ac_server env) tok (id_publicMaterial d) (id_fingerprint d) code"
    obtain a w2 where a: "api (ac_rt env) ?rq (al_rotateKey (ac_relay env)) w1 = (a, w2)" by fastforce
    note a' = api_result [OF a]
    show ?thesis
    proof (cases a)
      case (Inl e)
      then have "r = Inl e" "w' = w2" using run c a Inr by (auto simp: rotation_flow_def bnd_def sq_def)
      then show ?thesis using same k1 a'(3) by simp
    next
      case Inr': (Inr u)
      obtain q w3 where q: "commitDeviceIdentityRotation (ac_fault env) d w2 = (q, w3)" by fastforce
      have w': "w' = w3" "r = (case q of Inl e \<Rightarrow> Inl e | Inr _ \<Rightarrow> Inr d)"
        using run c a q Inr Inr' by (auto simp: rotation_flow_def bnd_def sq_def ret_def split: sum.splits)
      have "\<exists>keys. held_keys (dv_keyring w3) = Some keys \<and> cur \<in> set keys"
        using commit_keeps_current [of w2 cur d "ac_fault env"] cur k1 a'(3) ne by (simp add: q)
      moreover have "last (w_requests w3) = ?rq"
        using keepsD' [OF sent.keeps_identity(4) q refl] a'(2) by simp
      moreover have "\<not> (\<forall>n. al_rotateKey (ac_relay env) n \<noteq> Inr ())" using a'(1) Inr' by auto
      ultimately show ?thesis using commit_current [OF _ ne] q by (auto simp: w' split: sum.split)
    qed
  qed
qed

definition accepting :: account_relay where
  "accepting = \<lparr>al_register = offline, al_login = offline, al_verifyTwoFALogin = offline, al_logout = (\<lambda>n. Inr ()), al_logoutAll = (\<lambda>n. Inr ()),
     al_startTwoFA = offline, al_confirmTwoFA = offline, al_disableTwoFA = offline, al_devices = offline, al_stepUp = (\<lambda>n. Inr ()),
     al_rotateKey = (\<lambda>n. Inr ()), al_approvalStatus = (\<lambda>n. Inr AprPending), al_recoveryStart = offline, al_recoveryComplete = offline\<rparr>"

definition sample_login :: login_envelope where
  "sample_login = \<lparr>le_accountId = ''acc'', le_identity = as_identity sample_session, le_device = sample_device,
     le_session = as_session sample_session,
     le_tokens = \<lparr>tok_accessToken = ''tok'', tok_refreshToken = ''ref'', tok_expiresInSeconds = 900\<rparr>, le_recoveryCodes = None\<rparr>"

definition sample_account :: account_env where
  "sample_account = \<lparr>ac_rt = sample_env, ac_auth = offline_api, ac_relay = accepting, ac_sha = (\<lambda>b. []), ac_platform = ''linux'',
     ac_envelope = (\<lambda>j. sample_login), ac_pending = (\<lambda>j. \<lparr>pa_approvalRequestId = ''a'', pa_approvalPollToken = ''p'', pa_status = AprPending\<rparr>)\<rparr>"

definition rotating_world :: world where
  "rotating_world = sample_world\<lparr>dv_keyring := dv_keyring ex_identity_device\<rparr>"

lemma rotation_follows_the_relay_witness:
  "\<exists>keys. held_keys (dv_keyring (snd (rotation_flow sample_account ''tok'' None rotating_world))) = Some keys
     \<and> \<lparr>kp_publicKey = ''P'', kp_privateKey = ''S''\<rparr> \<in> set keys"
proof -
  have cur: "current_pair (dv_keyring rotating_world) = Some \<lparr>kp_publicKey = ''P'', kp_privateKey = ''S''\<rparr>"
    using ex_identity_current by (simp add: rotating_world_def)
  have lib: "so_to_base64 (re_lib (ac_rt sample_account)) (fst (so_keypair (re_lib (ac_rt sample_account)) n)) \<noteq> []"
    "so_to_base64 (re_lib (ac_rt sample_account)) (snd (so_keypair (re_lib (ac_rt sample_account)) n)) \<noteq> []" for n
    by (simp_all add: sample_account_def sample_env_def toy_sodium_def to_chars_def)
  obtain r w' where run: "rotation_flow sample_account ''tok'' None rotating_world = (r, w')" by fastforce
  from rotation_follows_the_relay [OF cur lib run] show ?thesis by (simp add: run)
qed

text \<open>
  The relay consents before the new key is stored. If the keyring is locked by then, the relay hands out a public
  key whose private half exists nowhere: the keyring is as before, and what is sent to the device cannot be read.
\<close>

lemma accepted_rotation_can_be_lost:
  assumes "dv_tauri w" "dv_keyring w DEVICE_ID = Some i" "i \<noteq> []" "al_rotateKey (ac_relay env) = (\<lambda>n. Inr ())"
    and "ac_fault env (dv_calls w) = None" "ac_fault env (Suc (dv_calls w)) = None" "ac_fault env (Suc (Suc (dv_calls w))) = Some ''locked''"
  shows "\<exists>e w'. \<exists>d :: device_identity. rotation_flow env tok code w = (Inl e, w') \<and> dv_keyring w' = dv_keyring w
    \<and> last (w_requests w') = api_rotateKey (ac_server env) tok (id_publicMaterial d) (id_fingerprint d) code"
proof -
  let ?L = "re_lib (ac_rt env)"
  have missing: "\<not> isMissingSecureEntryError (Thrown (JStr ''locked''))" by code_simp
  obtain d w1 where d: "generateDeviceIdentityCandidate (ac_sha env) ?L (ac_fault env) w = (Inr d, w1)"
    "dv_calls w1 = Suc (Suc (dv_calls w))" "dv_tauri w1"
    using assms by (simp add: generateDeviceIdentityCandidate_def generateIdentityPair_def generateIdentityKeyPair_def storage_get_def
        getStrict_def native_def catch_def bnd_def ret_def draw_def present_def Let_def)
  have k1: "dv_keyring w1 = dv_keyring w" by (rule reads_onlyD [OF reads_candidate d(1)])
  let ?rq = "api_rotateKey (ac_server env) tok (id_publicMaterial d) (id_fingerprint d) code"
  obtain a w2 where a: "api (ac_rt env) ?rq (al_rotateKey (ac_relay env)) w1 = (a, w2)" by fastforce
  note a' = api_result [OF a]
  have ok: "a = Inr ()" using a'(1) assms(4) by simp
  obtain w3 where w3: "commitDeviceIdentityRotation (ac_fault env) d w2 = (Inl (Thrown (JStr ''locked'')), w3)"
    "dv_keyring w3 = dv_keyring w2" "w_requests w3 = w_requests w2"
    using d(2,3) a'(5,6) assms(7) missing
    by (simp add: commitDeviceIdentityRotation_def loadCurrentDeviceKeyMaterial_def storage_get_def getStrict_def native_def
        catch_def bnd_def throw_def Let_def)
  have "rotation_flow env tok code w = (Inl (Thrown (JStr ''locked'')), w3)"
    using a ok w3(1) by (simp add: rotation_flow_def bnd_def sq_def d(1))
  moreover have "dv_keyring w3 = dv_keyring w" using w3(2) a'(3) k1 by simp
  moreover have "last (w_requests w3) = ?rq" using w3(3) a'(2) by simp
  ultimately show ?thesis by blast
qed

subsection \<open>Signing out\<close>

text \<open>C33. Signing out is all or nothing. Either it ends at the login page with neither a session nor a token in
  memory, whatever the relay answers; or, when the keyring cannot be read, it fails before anything happened: the
  user stays signed in, and the relay has not been asked to end the session.\<close>

theorem logout_is_all_or_nothing:
  "case logout env accessToken w of
      (Inr path, w') \<Rightarrow> path = ''/auth/login'' \<and> a_session (au_store w') = None \<and> a_accessToken (au_store w') = None
    | (Inl e, w') \<Rightarrow> au_store w' = au_store w \<and> w_requests w' = w_requests w \<and> dv_keyring w' = dv_keyring w"
proof (cases rule: storage_get_error_or_value [of "ac_fault env" REFRESH_TOKEN_KEY w])
  case (Err e w1)
  have "w_requests w1 = w_requests w" using keepsD' [OF sent.keeps_storage Err(1) refl] .
  moreover have "dv_keyring w1 = dv_keyring w" by (rule reads_onlyD [OF storage_get_reads Err(1)])
  ultimately show ?thesis using Err by (simp add: logout_def bnd_def)
next
  case (Val v w1)
  let ?ask = "catch (api (ac_rt env) (api_logout (ac_server env) accessToken v) (al_logout (ac_relay env))) (\<lambda>_. ret ())"
  obtain w2 where ask: "?ask w1 = (Inr (), w2)"
    by (cases "api (ac_rt env) (api_logout (ac_server env) accessToken v) (al_logout (ac_relay env)) w1"; cases "fst (api (ac_rt env) (api_logout (ac_server env) accessToken v) (al_logout (ac_relay env)) w1)")
      (auto simp: catch_def ret_def)
  obtain w3 where "clearSession (ac_fault env) w2 = (Inr (), w3)" "au_store w3 = auth_clearSession (au_store w2)"
    using clearSession_run by blast
  then show ?thesis using Val ask by (simp add: logout_def bnd_def sq_def ret_def auth_clearSession_def)
qed

text \<open>A locked keyring is enough for that.\<close>

lemma locked_keyring_prevents_logout:
  assumes "dv_tauri w" "ac_fault env (dv_calls w) = Some ''locked''"
  shows "\<exists>w'. logout env accessToken w = (Inl (Thrown (JStr ''locked'')), w') \<and> au_store w' = au_store w"
proof -
  have "\<not> isMissingSecureEntryError (Thrown (JStr ''locked''))" by code_simp
  then show ?thesis using assms
    by (simp add: logout_def storage_get_def getStrict_def native_def catch_def bnd_def throw_def Let_def)
qed

text \<open>Changing the server signs out and forgets the server, but the local database stays: the next account finds the
  conversations, the cursor and the outbox of this one.\<close>

lemma change_server_keeps_the_database:
  "(case handleChangeServer env w a of ((w', app, storage), path) \<Rightarrow>
      w_db w' = w_db w \<and> a_session (au_store w') = None \<and> w_store w' = initial_store \<and> rt_stopped w')"
proof -
  obtain w1 where w1: "clearSession (ac_fault env) w = (Inr (), w1)" "au_store w1 = auth_clearSession (au_store w)"
    using clearSession_run by blast
  have "keeps_pred (\<lambda>s :: world. w_db s = w_db w) (clearSession (ac_fault env))"
    unfolding clearSession_def auth_set_def by (intro keeps) simp
  from keepsD' [OF this w1(1) refl] have "w_db w1 = w_db w" .
  then show ?thesis using w1
    by (simp add: handleChangeServer_def Let_def reset_def auth_clearSession_def Messaging_Runtime.set_store_def stop_runtime_def split: prod.split)
qed

subsection \<open>Every way through the account pages\<close>

datatype account_event =
    AcLogin string string string
  | AcRegister string string string
  | AcVerify string
  | AcCheckStatus pending_page
  | AcCompleteRecovery string string pending_page
  | AcRefreshList devices_page
  | AcApprove string devices_page
  | AcReject string devices_page
  | AcRevoke string devices_page
  | AcRotateKey devices_page
  | AcLogoutAll devices_page
  | AcConfirmTwoFA devices_page
  | AcDisableTwoFA devices_page
  | AcLogout

text \<open>
  The pages as the router shows them: login, registration and the second factor to somebody who is not signed in,
  the page for a pending approval while there is one. The other pages use the token of the session.
\<close>

fun account_step :: "account_env \<Rightarrow> account_event \<Rightarrow> world \<Rightarrow> world" where
  "account_step env (AcLogin email password name) w =
     (if signed_in (au_store w) then w else snd (submit env (login_flow env email password name) w))"
| "account_step env (AcRegister email password name) w =
     (if signed_in (au_store w) then w else snd (submit env (register_flow env email password name) w))"
| "account_step env (AcVerify code) w =
     (if signed_in (au_store w) then w else case a_twoFAChallenge (au_store w) of
        None \<Rightarrow> w | Some challenge \<Rightarrow> snd (submit env (verify_flow env challenge code) w))"
| "account_step env (AcCheckStatus p) w = (case a_pendingApproval (au_store w) of
        None \<Rightarrow> w | Some pending \<Rightarrow> snd (checkStatus env pending p w))"
| "account_step env (AcCompleteRecovery recoveryCode code p) w = snd (completeRecovery env recoveryCode code p w)"
| "account_step env (AcRefreshList p) w = snd (refreshList env (a_accessToken (au_store w)) p w)"
| "account_step env (AcApprove i p) w = snd (approve env i (a_accessToken (au_store w)) p w)"
| "account_step env (AcReject i p) w = snd (reject env i (a_accessToken (au_store w)) p w)"
| "account_step env (AcRevoke i p) w = snd (revoke env i (a_accessToken (au_store w)) p w)"
| "account_step env (AcRotateKey p) w =
     snd (rotateCurrentDeviceKey env (a_accessToken (au_store w)) (a_session (au_store w) \<noteq> None) p w)"
| "account_step env (AcLogoutAll p) w = snd (logoutAllSessions env (a_accessToken (au_store w)) p w)"
| "account_step env (AcConfirmTwoFA p) w = snd (confirmTwoFA env (a_accessToken (au_store w)) p w)"
| "account_step env (AcDisableTwoFA p) w = snd (disableTwoFA env (a_accessToken (au_store w)) p w)"
| "account_step env AcLogout w = snd (submit env (logout env (a_accessToken (au_store w))) w)"

text \<open>A token and a session, or neither; nobody who is signed in still waits for an approval or a second factor.\<close>

definition session_wf :: "auth_store \<Rightarrow> bool" where
  "session_wf a \<longleftrightarrow> auth_consistent a
     \<and> (signed_in a \<longrightarrow> a_pendingApproval a = None \<and> a_twoFAChallenge a = None)"

lemma session_wf_intros:
  "session_wf (setSessionFromEnvelope en a)" "session_wf (auth_clearSession a)"
  "session_wf (updateSessionDetails d (setSessionFromEnvelope en a))"
  "session_wf a \<Longrightarrow> session_wf (setPendingApproval None a)" "session_wf a \<Longrightarrow> session_wf (setTwoFAChallenge None a)"
  "session_wf a \<Longrightarrow> session_wf (setRecoveryCodes cs a)" "session_wf a \<Longrightarrow> session_wf (updateSessionDetails d a)"
  "\<not> signed_in a \<Longrightarrow> session_wf a \<Longrightarrow> session_wf (setPendingApproval p a)"
  "\<not> signed_in a \<Longrightarrow> session_wf a \<Longrightarrow> session_wf (setTwoFAChallenge c a)"
  by (auto simp: session_wf_def auth_consistent_def signed_in_def setSessionFromEnvelope_def auth_clearSession_def updateSessionDetails_def
      setPendingApproval_def setTwoFAChallenge_def setRecoveryCodes_def split: option.splits)

text \<open>A computation that leads from one condition on the session to another.\<close>

definition leads :: "(auth_store \<Rightarrow> bool) \<Rightarrow> (auth_store \<Rightarrow> bool) \<Rightarrow> 'a rt \<Rightarrow> bool" where
  "leads P Q m \<longleftrightarrow> (\<forall>w :: world. P (au_store w) \<longrightarrow> Q (au_store (snd (m w))))"

lemma leads_bnd:
  assumes "keeps_pred (\<lambda>w. P (au_store w)) m" "\<And>a. P a \<Longrightarrow> Q a" "\<And>x. leads P Q (f x)"
  shows "leads P Q (bnd m f)"
  unfolding leads_def
proof (intro allI impI)
  fix w :: world assume w: "P (au_store w)"
  obtain r w1 where m: "m w = (r, w1)" by fastforce
  then have "P (au_store w1)" using keepsD' [OF assms(1) m w] by simp
  then show "Q (au_store (snd (bnd m f w)))" using assms(2,3) m by (cases r) (auto simp: bnd_def leads_def)
qed

lemma leads_sq: "leads P Q m \<Longrightarrow> keeps_pred (\<lambda>w. Q (au_store w)) n \<Longrightarrow> leads P Q (sq m n)"
  by (auto simp: leads_def sq_def bnd_def split: prod.splits sum.splits) (metis keepsD snd_conv)+

lemma leads_set: "(\<And>a. P a \<Longrightarrow> Q (f a)) \<Longrightarrow> leads P Q (auth_set f)"
  by (simp add: leads_def)

definition waiting :: "auth_store \<Rightarrow> bool" where
  "waiting a \<longleftrightarrow> session_wf a \<and> \<not> signed_in a"

lemma keeps_auth_api [keeps]: "keeps_pred (\<lambda>w. P (au_store w)) (api env rq answer)"
  by (rule keepsI) (metis api_result(4) prod.collapse)

lemma leads_apply: "leads waiting session_wf (applySessionEnvelope fault auth en)"
  unfolding leads_def
proof (intro allI impI)
  fix w :: world assume w: "waiting (au_store w)"
  show "session_wf (au_store (snd (applySessionEnvelope fault auth en w)))"
  proof (cases rule: applySessionEnvelope_cases [of fault auth en w])
    case (Err e s1)
    then show ?thesis using w by (simp add: waiting_def)
  next
    case (Set s1)
    then show ?thesis by (auto simp: session_wf_intros)
  qed
qed

lemma leads_submit: "leads waiting session_wf m \<Longrightarrow> session_wf (au_store w) \<Longrightarrow> \<not> signed_in (au_store w) \<Longrightarrow>
    session_wf (au_store (snd (submit env m w)))"
  by (auto simp: submit_def leads_def waiting_def split: prod.split sum.split)

lemma login_leads: "leads waiting session_wf (login_flow env email password name)"
proof -
  have ask: "keeps_pred (\<lambda>w. waiting (au_store w)) (\<lambda>w. case api rt rq f w of (response, w1) \<Rightarrow> (login response, w1))" for rt rq f
    by (rule keepsI) (auto dest: api_result(4) split: prod.split)
  have leaf: "leads waiting session_wf (case outcome of
       LoginPending data \<Rightarrow> sq (auth_set (setPendingApproval (Some (ac_pending env data)))) (ret ''/pending-approval'')
     | LoginTwoFA data \<Rightarrow> sq (auth_set (setTwoFAChallenge (Some data))) (ret ''/auth/2fa'')
     | LoginSuccess data \<Rightarrow> sq (applySessionEnvelope (ac_fault env) (ac_auth env) (ac_envelope env data)) (ret ''/devices''))" for outcome
    by (cases outcome) (auto intro!: leads_sq leads_apply leads_set keeps_base session_wf_intros simp: waiting_def)
  show ?thesis unfolding login_flow_def device_identity_of_def
    by (intro leads_bnd auth_kept.keeps_identity ask leaf) (simp_all add: waiting_def)
qed

lemma register_leads: "leads waiting session_wf (register_flow env email password name)"
  unfolding register_flow_def device_identity_of_def
  by (intro leads_bnd auth_kept.keeps_identity keeps_auth_api leads_sq leads_apply) (simp_all add: waiting_def keeps_base)

lemma verify_leads: "leads waiting session_wf (verify_flow env challenge code)"
proof -
  have "keeps_pred (\<lambda>w :: world. session_wf (au_store w)) (sq (auth_set (setTwoFAChallenge None)) (ret ''/devices''))"
    unfolding auth_set_def by (intro keeps) (simp add: session_wf_intros)
  then show ?thesis unfolding verify_flow_def
    by (intro leads_bnd keeps_auth_api leads_sq leads_apply) (simp_all add: waiting_def)
qed

text \<open>The handlers of the devices page and of the page for a pending approval.\<close>

lemma refreshList_wf: "session_wf (au_store w) \<Longrightarrow> session_wf (au_store (snd (refreshList env tok p w)))"
  by (auto simp: refreshList_def Let_def api_call_def session_wf_intros dest!: api_result(4) split: prod.split sum.split)

lemma step_up_wf: "session_wf (au_store w) \<Longrightarrow> session_wf (au_store (snd (step_up env rq tok p w)))"
  by (auto simp: step_up_def dest!: api_result(4) intro!: refreshList_wf split: prod.split sum.split)

lemma clearSession_wf: "session_wf (au_store (snd (clearSession fault w)))"
  using clearSession_run [of fault w] by (auto simp: session_wf_intros)

lemma rotate_wf:
  assumes "session_wf (au_store w)"
  shows "session_wf (au_store (snd (rotateCurrentDeviceKey env tok b p w)))"
proof -
  have "keeps_pred (\<lambda>w. session_wf (au_store w)) (rotation_flow env t c)" for t c
    unfolding rotation_flow_def by (intro keeps auth_kept.keeps_identity)
  from keepsD' [OF this _ assms] show ?thesis
    by (auto simp: rotateCurrentDeviceKey_def Let_def assms split: prod.split sum.split)
      (metis refreshList_wf snd_conv)+
qed

lemma keeps_clear_wf [keeps]: "keeps_pred (\<lambda>w :: world. session_wf (au_store w)) (clearSession fault)"
  by (rule keepsI) (rule clearSession_wf)

lemma logoutAll_wf:
  assumes "session_wf (au_store w)"
  shows "session_wf (au_store (snd (logoutAllSessions env tok p w)))"
proof -
  have "keeps_pred (\<lambda>w. session_wf (au_store w)) (sq (api (ac_rt env) rq f) (clearSession (ac_fault env)))" for rq f
    by (intro keeps)
  from keepsD' [OF this _ assms] show ?thesis
    by (auto simp: logoutAllSessions_def Let_def assms split: prod.split sum.split)
qed

lemma twoFA_wf:
  assumes "session_wf (au_store w)"
  shows "session_wf (au_store (snd (confirmTwoFA env tok p w)))" "session_wf (au_store (snd (disableTwoFA env tok p w)))"
proof -
  have refresh: "session_wf (au_store w2)" if "refreshList env tok p u = (p2, w2)" "session_wf (au_store u)" for p2 w2 u
    using refreshList_wf [OF that(2), of env tok p] that(1) by simp
  show "session_wf (au_store (snd (confirmTwoFA env tok p w)))"
    using assms by (auto simp: confirmTwoFA_def session_wf_intros dest!: api_result(4) refresh split: prod.split sum.split)
  show "session_wf (au_store (snd (disableTwoFA env tok p w)))"
    using assms by (auto simp: disableTwoFA_def session_wf_intros dest!: api_result(4) refresh split: prod.split sum.split)
qed

lemma logout_wf: "session_wf (au_store w) \<Longrightarrow> session_wf (au_store (snd (submit env (logout env tok) w)))"
proof -
  have "keeps_pred (\<lambda>w. session_wf (au_store w)) (logout env tok)"
    unfolding logout_def by (intro keeps auth_kept.keeps_storage)
  then show "session_wf (au_store w) \<Longrightarrow> session_wf (au_store (snd (submit env (logout env tok) w)))"
    by (auto simp: submit_def dest: keepsD' split: prod.split sum.split)
qed

text \<open>C24. Whatever the user does on the account pages, in whatever order, and whatever the relay, the keyring and the
  clock answer, the session stays well-formed: there is a token exactly when there is a session, and nobody who is
  signed in is still waiting for an approval or asked for a second factor.\<close>

theorem account_pages_keep_the_session_well_formed:
  assumes "session_wf (au_store w)"
  shows "session_wf (au_store (fold (account_step env) events w))"
proof -
  have "session_wf (au_store (account_step env ev w))" if "session_wf (au_store w)" for ev w
    using that
    by (cases ev)
      (auto simp: approve_def reject_def revoke_def refreshList_wf step_up_wf rotate_wf logoutAll_wf twoFA_wf logout_wf
        leads_submit login_leads register_leads verify_leads checkStatus_def completeRecovery_def Let_def session_wf_intros
        dest!: api_result(4) split: option.split prod.split sum.split)
  then show ?thesis using assms by (induction events arbitrary: w) auto
qed

lemma account_pages_keep_the_session_well_formed_witness:
  "session_wf (au_store (fold (account_step sample_account) [AcLogin ''a'' ''b'' ''c'', AcVerify ''123'', AcLogout] sample_world))"
  by (rule account_pages_keep_the_session_well_formed)
    (simp add: sample_world_def initial_auth_def session_wf_def auth_consistent_def signed_in_def)

end
