(* ===== verification/Js_Number.thy ===== *)
theory Js_Number
  imports Json_Parse
begin

text \<open>\<open>Number\<close> of a text, as the composer and a bundled plugin use it.\<close>

text \<open>
  \<open>Number(text)\<close> of a trimmed text that is not empty: decimal literals with a fraction and an exponent,
  \<open>Infinity\<close>, and the prefixes \<open>0x\<close>, \<open>0o\<close>, \<open>0b\<close>; what overflows a double is infinite.
\<close>

definition overflowing :: "rat \<Rightarrow> jsnumber" where
  "overflowing q = (if q \<ge> 2 ^ 1024 - 2 ^ 970 then PosInf else if q \<le> - (2 ^ 1024 - 2 ^ 970) then NegInf else Fin q)"

definition all_digits :: "string \<Rightarrow> bool" where
  "all_digits s \<longleftrightarrow> list_all digit_char s"

definition mantissa_val :: "string \<Rightarrow> rat option" where
  "mantissa_val s = (let whole = takeWhile (\<lambda>c. c \<noteq> CHR ''.'') s; rest = dropWhile (\<lambda>c. c \<noteq> CHR ''.'') s; frac = drop 1 rest in
     if all_digits whole \<and> all_digits frac \<and> whole @ frac \<noteq> []
     then Some (of_nat (dec_val (whole @ frac)) / 10 ^ length frac) else None)"

definition exponent_val :: "string \<Rightarrow> int option" where
  "exponent_val s = (case s of
      [] \<Rightarrow> None
    | c # ds \<Rightarrow> (let digits = (if c = CHR ''+'' \<or> c = CHR ''-'' then ds else s) in
        if digits \<noteq> [] \<and> all_digits digits then Some (if c = CHR ''-'' then - int (dec_val digits) else int (dec_val digits)) else None))"

definition unsigned_val :: "string \<Rightarrow> jsnumber" where
  "unsigned_val s = (if s = ''Infinity'' then PosInf
     else let m = takeWhile (\<lambda>c. c \<noteq> CHR ''e'' \<and> c \<noteq> CHR ''E'') s; rest = dropWhile (\<lambda>c. c \<noteq> CHR ''e'' \<and> c \<noteq> CHR ''E'') s in
       case (mantissa_val m, if rest = [] then Some 0 else exponent_val (drop 1 rest)) of
         (Some v, Some x) \<Rightarrow> overflowing (if 0 \<le> x then v * 10 ^ nat x else v / 10 ^ nat (- x))
       | _ \<Rightarrow> NaN)"

definition radix_val :: "nat \<Rightarrow> string \<Rightarrow> jsnumber" where
  "radix_val radix ds = (if ds \<noteq> [] \<and> list_all (\<lambda>c. case hex_val c of None \<Rightarrow> False | Some d \<Rightarrow> d < radix) ds
     then overflowing (of_nat (foldl (\<lambda>a c. radix * a + the (hex_val c)) 0 ds)) else NaN)"

fun negate :: "jsnumber \<Rightarrow> jsnumber" where
  "negate (Fin q) = Fin (- q)" | "negate PosInf = NegInf" | "negate NegInf = PosInf" | "negate NaN = NaN"

definition js_Number :: "string \<Rightarrow> jsnumber" where
  "js_Number s = (let p = toLowerCase (take 2 s) in
     if s = [] then Fin 0
     else if p = ''0x'' then radix_val 16 (drop 2 s)
     else if p = ''0o'' then radix_val 8 (drop 2 s)
     else if p = ''0b'' then radix_val 2 (drop 2 s)
     else if hd s = CHR ''-'' then negate (unsigned_val (tl s))
     else if hd s = CHR ''+'' then unsigned_val (tl s)
     else unsigned_val s)"

end
