(* ===== verification/Messenger_View.thy ===== *)
theory Messenger_View
  imports Messaging_Invariants Routes Js_Number
begin

text \<open>
  What the messenger shows and what its forms do: \<open>features/messaging/MessengerShell.tsx\<close> (the list of
  conversations with their previews and unread counts, and the forms for new conversations) and
  \<open>features/messaging/ConversationPage.tsx\<close> (the messages of a conversation, the composer, reactions and
  hidden messages), \<open>PendingQueuePage.tsx\<close>, over the stores and the runtime. The
  JSX around the values, and the formatting of dates by \<open>Intl\<close>, are not modelled.

  A form's local state is a record; a handler that awaits is split where it awaits, so that what the user
  changes meanwhile is the argument \<open>edits\<close>.
\<close>

subsection \<open>The list of conversations\<close>

record conversation_preview =
  pv_id :: string
  pv_type :: conversation_type
  pv_title :: string
  pv_updatedAt :: string
  pv_membersCount :: nat
  pv_defaultTtlSeconds :: int
  pv_lastText :: string
  pv_lastAt :: string
  pv_unreadCount :: nat

definition by_sequence :: "local_message \<Rightarrow> local_message \<Rightarrow> int" where
  "by_sequence left right = env_serverSequence (msg_envelope left) - env_serverSequence (msg_envelope right)"

text \<open>\<open>sortedMessages[sortedMessages.length - 1]\<close>\<close>

definition last_message :: "local_message list \<Rightarrow> local_message option" where
  "last_message sortedMessages = (if sortedMessages = [] then None else Some (last sortedMessages))"

text \<open>\<open>message.plaintext?.text\<close>: the plaintext is whatever the sender's device encrypted.\<close>

definition message_text :: "local_message \<Rightarrow> json option" where
  "message_text m = Option.bind (lm_plaintext m) (\<lambda>p. json_get p ''text'')"

text \<open>\<open>lastMessage?.plaintext?.text?.trim() || t("messaging.noPreview")\<close>. A text that is no string has no
  method \<open>trim\<close>.\<close>

definition preview_text :: "(string \<Rightarrow> string) \<Rightarrow> local_message option \<Rightarrow> js_error + string" where
  "preview_text t lastMessage =
     (let text = Option.bind lastMessage message_text in
      if nullish text then Inr (t ''messaging.noPreview'')
      else case as_str text of
          None \<Rightarrow> Inl (JsError ''TypeError'')
        | Some x \<Rightarrow> Inr (if js_trim x = [] then t ''messaging.noPreview'' else js_trim x))"

definition read_sequence :: "messaging_store \<Rightarrow> string \<Rightarrow> int" where
  "read_sequence s c = (case st_readPositions s c of None \<Rightarrow> 0 | Some p \<Rightarrow> p)"

definition is_unread :: "int \<Rightarrow> string option \<Rightarrow> local_message \<Rightarrow> bool" where
  "is_unread readSequence sessionDeviceId message \<longleftrightarrow>
     env_serverSequence (msg_envelope message) > readSequence
     \<and> Some (env_senderDeviceId (msg_envelope message)) \<noteq> sessionDeviceId
     \<and> lm_expired message \<noteq> Some True"

definition preview_of :: "(string \<Rightarrow> string) \<Rightarrow> string option \<Rightarrow> messaging_store \<Rightarrow> conversation_dto \<Rightarrow> js_error + conversation_preview" where
  "preview_of t sessionDeviceId s conversation =
     (let sortedMessages = js_sort by_sequence (current_messages s (cv_id conversation));
          lastMessage = last_message sortedMessages;
          readSequence = read_sequence s (cv_id conversation);
          unreadCount = length (filter (is_unread readSequence sessionDeviceId) sortedMessages);
          fallbackTitle = t ''messaging.chatTitleFallback'' @ '' '' @ take 8 (cv_id conversation);
          sent = (case lastMessage of None \<Rightarrow> [] | Some m \<Rightarrow> env_createdAt (msg_envelope m))
      in case preview_text t lastMessage of
           Inl e \<Rightarrow> Inl e
         | Inr lastText \<Rightarrow> Inr \<lparr>pv_id = cv_id conversation, pv_type = cv_type conversation,
             pv_title = (if present (cv_title conversation) then the (cv_title conversation) else fallbackTitle),
             pv_updatedAt = cv_updatedAt conversation, pv_membersCount = length (cv_members conversation),
             pv_defaultTtlSeconds = dp_defaultTtlSeconds (cv_disappearingPolicy conversation),
             pv_lastText = lastText, pv_lastAt = (if sent \<noteq> [] then sent else cv_updatedAt conversation),
             pv_unreadCount = unreadCount\<rparr>)"

definition newest_first :: "conversation_preview \<Rightarrow> conversation_preview \<Rightarrow> int" where
  "newest_first left right =
     (if pv_lastAt left > pv_lastAt right then -1 else if pv_lastAt left < pv_lastAt right then 1 else 0)"

text \<open>\<open>map\<close> with a function that may throw.\<close>

fun try_map :: "('a \<Rightarrow> 'e + 'b) \<Rightarrow> 'a list \<Rightarrow> 'e + 'b list" where
  "try_map f [] = Inr []"
| "try_map f (x # xs) = (case f x of Inl e \<Rightarrow> Inl e
     | Inr y \<Rightarrow> (case try_map f xs of Inl e \<Rightarrow> Inl e | Inr ys \<Rightarrow> Inr (y # ys)))"

definition previews :: "(string \<Rightarrow> string) \<Rightarrow> string option \<Rightarrow> messaging_store \<Rightarrow> js_error + conversation_preview list" where
  "previews t sessionDeviceId s =
     (case try_map (preview_of t sessionDeviceId s) (st_conversations s) of
        Inl e \<Rightarrow> Inl e
      | Inr ps \<Rightarrow> Inr (js_sort newest_first ps))"

definition filteredPreviews :: "string \<Rightarrow> conversation_preview list \<Rightarrow> conversation_preview list" where
  "filteredPreviews search ps =
     (let normalized = toLowerCase (js_trim search) in
      if normalized = [] then ps
      else filter (\<lambda>c. str_includes (toLowerCase (pv_title c)) normalized
                     \<or> str_includes (toLowerCase (pv_lastText c)) normalized) ps)"

subsection \<open>New conversations\<close>

datatype composer_mode = ComposeDirect | ComposeGroup

record shell_form =
  sf_composerMode :: "composer_mode option"
  sf_directAccountId :: string
  sf_groupTitle :: string
  sf_groupMembers :: string
  sf_working :: bool
  sf_error :: "string option"

definition canCreateConversation :: "messaging_store \<Rightarrow> shell_form \<Rightarrow> bool" where
  "canCreateConversation s f \<longleftrightarrow> st_initialized s \<and> \<not> st_loading s \<and> \<not> sf_working f"

text \<open>What a handler of a form ends with: the form, the page it navigates to, and the world.\<close>

definition shell_settle :: "(string \<Rightarrow> string) \<Rightarrow> (shell_form \<Rightarrow> shell_form) \<Rightarrow> js_error + conversation_dto \<Rightarrow> shell_form \<Rightarrow> shell_form \<times> string option" where
  "shell_settle t clear r f = (case r of
      Inl e \<Rightarrow> (f\<lparr>sf_error := Some (extractApiErrorMessage t e), sf_working := False\<rparr>, None)
    | Inr c \<Rightarrow> ((clear f)\<lparr>sf_composerMode := None, sf_working := False\<rparr>, Some (''/conversations/'' @ cv_id c)))"

definition shell_begin :: "shell_form \<Rightarrow> shell_form" where
  "shell_begin f = f\<lparr>sf_working := True, sf_error := None\<rparr>"

definition handleCreateDirect :: "runtime_env \<Rightarrow> (shell_form \<Rightarrow> shell_form) \<Rightarrow> shell_form \<Rightarrow> world \<Rightarrow> (shell_form \<times> string option) \<times> world" where
  "handleCreateDirect env edits f w =
     (if js_trim (sf_directAccountId f) = [] then ((f, None), w)
      else case createDirect env (js_trim (sf_directAccountId f)) w of
        (r, w1) \<Rightarrow> (shell_settle (re_t env) (\<lambda>f. f\<lparr>sf_directAccountId := []\<rparr>) r (edits (shell_begin f)), w1))"

definition member_ids :: "string \<Rightarrow> string list" where
  "member_ids text = filter (\<lambda>v. v \<noteq> []) (map js_trim (split_on (CHR '','') text))"

definition handleCreateGroup :: "runtime_env \<Rightarrow> (shell_form \<Rightarrow> shell_form) \<Rightarrow> shell_form \<Rightarrow> world \<Rightarrow> (shell_form \<times> string option) \<times> world" where
  "handleCreateGroup env edits f w =
     (if js_trim (sf_groupTitle f) = [] then ((f, None), w)
      else case createGroup env (js_trim (sf_groupTitle f)) (member_ids (sf_groupMembers f)) w of
        (r, w1) \<Rightarrow> (shell_settle (re_t env) (\<lambda>f. f\<lparr>sf_groupTitle := [], sf_groupMembers := []\<rparr>) r (edits (shell_begin f)), w1))"

subsection \<open>The messages of a conversation\<close>

text \<open>The effect that marks what is shown as read.\<close>

definition read_effect :: "string \<Rightarrow> messaging_store \<Rightarrow> messaging_store" where
  "read_effect conversationId s =
     (case last_message (js_sort by_sequence (current_messages s conversationId)) of
        None \<Rightarrow> s
      | Some m \<Rightarrow> (let lastSequence = env_serverSequence (msg_envelope m) in
          if lastSequence > 0 \<and> conversationId \<noteq> []
          then markConversationRead conversationId (Some (Fin (of_int lastSequence))) s else s))"

text \<open>The index by message id: a later message replaces an earlier one of the same id.\<close>

definition message_by_id :: "local_message list \<Rightarrow> string \<Rightarrow> local_message option" where
  "message_by_id sortedMessages i = find (\<lambda>m. env_id (msg_envelope m) = i) (rev sortedMessages)"

text \<open>\<open>hiddenMessages[id]\<close> is truthy for the members every object inherits, too.\<close>

definition is_hidden :: "string set \<Rightarrow> string \<Rightarrow> bool" where
  "is_hidden hiddenMessages i \<longleftrightarrow> i \<in> hiddenMessages \<or> i \<in> set object_prototype_keys"

definition visibleMessages :: "string set \<Rightarrow> local_message list \<Rightarrow> local_message list" where
  "visibleMessages hiddenMessages sortedMessages =
     filter (\<lambda>m. \<not> is_hidden hiddenMessages (env_id (msg_envelope m))) sortedMessages"

datatype message_body = ShownText json | ShownNote string | ShownExpired

record shown_row =
  mr_mine :: bool
  mr_sender :: string
  mr_body :: message_body
  mr_timeToExpire :: "jsnumber option"
  mr_reply :: "(string \<times> message_body) option"
  mr_failure :: "string option"

definition sender_tag :: "(string \<Rightarrow> string) \<Rightarrow> string option \<Rightarrow> local_message \<Rightarrow> string" where
  "sender_tag t sessionDeviceId m =
     (if Some (env_senderDeviceId (msg_envelope m)) = sessionDeviceId then t ''messaging.senderMe''
      else take 8 (env_senderAccountId (msg_envelope m)))"

text \<open>\<open>Math.max(0, Math.floor((expiresAt - clock) / 1000))\<close> of an expiry that is given.\<close>

definition time_to_expire :: "runtime_env \<Rightarrow> int \<Rightarrow> encrypted_message_envelope_dto \<Rightarrow> jsnumber option" where
  "time_to_expire env clock e = (if \<not> present (env_expiresAt e) then None
     else Some (case re_parseDate env (the (env_expiresAt e)) of
         None \<Rightarrow> NaN | Some t \<Rightarrow> Fin (of_int (max 0 \<lfloor>of_int (t - clock) / (1000 :: rat)\<rfloor>))))"

definition row_of :: "runtime_env \<Rightarrow> int \<Rightarrow> string option \<Rightarrow> local_message list \<Rightarrow> local_message \<Rightarrow> shown_row" where
  "row_of env clock sessionDeviceId sortedMessages m =
     (let e = msg_envelope m; t = re_t env; isExpired = is_expired env clock e;
          hasPreview = truthy (message_text m);
          replySource = (if present (env_replyToMessageId e) then message_by_id sortedMessages (the (env_replyToMessageId e)) else None)
      in \<lparr>mr_mine = (Some (env_senderDeviceId e) = sessionDeviceId),
          mr_sender = sender_tag t sessionDeviceId m,
          mr_body = (if isExpired then ShownExpired
             else if hasPreview then ShownText (the (message_text m))
             else ShownNote (if present (lm_decryptError m) then the (lm_decryptError m) else ''['' @ t ''messaging.encryptedContent'' @ '']'')),
          mr_timeToExpire = (if isExpired then None else time_to_expire env clock e),
          mr_reply = map_option (\<lambda>r. (take 8 (env_senderAccountId (msg_envelope r)),
             if truthy (message_text r) then ShownText (the (message_text r)) else ShownNote (t ''messaging.encryptedContent''))) replySource,
          mr_failure = (if present (lm_failureCode m) then lm_failureCode m else None)\<rparr>)"

definition message_rows :: "runtime_env \<Rightarrow> int \<Rightarrow> string option \<Rightarrow> string set \<Rightarrow> messaging_store \<Rightarrow> string \<Rightarrow> shown_row list" where
  "message_rows env clock sessionDeviceId hiddenMessages s conversationId =
     (let sortedMessages = js_sort by_sequence (current_messages s conversationId) in
      map (row_of env clock sessionDeviceId sortedMessages) (visibleMessages hiddenMessages sortedMessages))"

text \<open>Reactions are local: from message ids to the emojis set, in the order of setting.\<close>

definition setReaction :: "string \<Rightarrow> 'e \<Rightarrow> (string \<rightharpoonup> 'e list) \<Rightarrow> (string \<rightharpoonup> 'e list)" where
  "setReaction messageId emoji state =
     (let current = (case state messageId of None \<Rightarrow> [] | Some r \<Rightarrow> r) in
      if emoji \<in> set current then state(messageId \<mapsto> filter (\<lambda>e. e \<noteq> emoji) current)
      else state(messageId \<mapsto> current @ [emoji]))"

subsection \<open>The composer\<close>

text \<open>A file of the input: its name, its type, and what reading it yields.\<close>

record picked_file =
  fl_name :: string
  fl_type :: string
  fl_content :: "js_error + bytes"

record reply_draft =
  dr_messageId :: string
  dr_senderLabel :: string
  dr_preview :: json

record conversation_page =
  pg_messageText :: string
  pg_ttlInput :: string
  pg_sending :: bool
  pg_error :: "string option"
  pg_files :: "picked_file list"
  pg_replyDraft :: "reply_draft option"

definition upload_of :: "picked_file \<Rightarrow> js_error + upload_input" where
  "upload_of file = (case fl_content file of
      Inl e \<Rightarrow> Inl e
    | Inr content \<Rightarrow> Inr \<lparr>ui_fileName = fl_name file,
        ui_mimeType = (if fl_type file = [] then ''application/octet-stream'' else fl_type file), ui_bytes = content\<rparr>)"

definition ttl_of :: "string \<Rightarrow> jsnumber option" where
  "ttl_of ttlInput =
     (let trimmed = js_trim ttlInput; ttl = (if trimmed \<noteq> [] then Some (js_Number trimmed) else None) in
      case ttl of Some (Fin q) \<Rightarrow> Some (Fin q) | _ \<Rightarrow> None)"

text \<open>What is sent. Of several files that cannot be read, the first one's error is reported.\<close>

definition composed :: "conversation_dto \<Rightarrow> conversation_page \<Rightarrow> js_error + send_input" where
  "composed conversation p = (case try_map upload_of (pg_files p) of
      Inl e \<Rightarrow> Inl e
    | Inr uploads \<Rightarrow> Inr \<lparr>si_conversation = conversation, si_text = js_trim (pg_messageText p),
        si_ttlSeconds = ttl_of (pg_ttlInput p), si_uploads = uploads,
        si_replyToMessageId = map_option dr_messageId (pg_replyDraft p)\<rparr>)"

definition send_settle :: "(string \<Rightarrow> string) \<Rightarrow> js_error + unit \<Rightarrow> conversation_page \<Rightarrow> conversation_page" where
  "send_settle t r p = (case r of
      Inl e \<Rightarrow> p\<lparr>pg_error := Some (extractApiErrorMessage t e), pg_sending := False\<rparr>
    | Inr _ \<Rightarrow> p\<lparr>pg_messageText := [], pg_ttlInput := [], pg_files := [], pg_replyDraft := None, pg_sending := False\<rparr>)"

definition sendCurrentMessage :: "nat \<Rightarrow> runtime_env \<Rightarrow> (conversation_page \<Rightarrow> conversation_page) \<Rightarrow> conversation_dto option
    \<Rightarrow> conversation_page \<Rightarrow> world \<Rightarrow> conversation_page \<times> world" where
  "sendCurrentMessage fuel env edits conversation p w =
     (case conversation of
        None \<Rightarrow> (p, w)
      | Some c \<Rightarrow>
          if js_trim (pg_messageText p) = [] then (p, w)
          else let p1 = edits (p\<lparr>pg_sending := True, pg_error := None\<rparr>) in
            case composed c p of
              Inl e \<Rightarrow> (send_settle (re_t env) (Inl e) p1, w)
            | Inr input \<Rightarrow> (case sendMessage fuel env input w of (r, w1) \<Rightarrow> (send_settle (re_t env) r p1, w1)))"

text \<open>Enter sends, shift and Enter is a line break; nothing is sent twice while a message is under way.\<close>

definition handleComposerKeyDown :: "nat \<Rightarrow> runtime_env \<Rightarrow> (conversation_page \<Rightarrow> conversation_page) \<Rightarrow> conversation_dto option
    \<Rightarrow> string \<Rightarrow> bool \<Rightarrow> conversation_page \<Rightarrow> world \<Rightarrow> conversation_page \<times> world" where
  "handleComposerKeyDown fuel env edits conversation key shiftKey p w =
     (if key = ''Enter'' \<and> \<not> shiftKey \<and> \<not> pg_sending p \<and> js_trim (pg_messageText p) \<noteq> []
      then sendCurrentMessage fuel env edits conversation p w else (p, w))"

text \<open>\<open>message.plaintext?.text?.slice(0, 120) || t("messaging.encryptedContent")\<close>: arrays have \<open>slice\<close>, too.\<close>

definition reply_preview :: "(string \<Rightarrow> string) \<Rightarrow> json option \<Rightarrow> js_error + json" where
  "reply_preview t text = (case text of
      None \<Rightarrow> Inr (JStr (t ''messaging.encryptedContent''))
    | Some JNull \<Rightarrow> Inr (JStr (t ''messaging.encryptedContent''))
    | Some (JStr x) \<Rightarrow> Inr (JStr (if x = [] then t ''messaging.encryptedContent'' else take 120 x))
    | Some (JArr xs) \<Rightarrow> Inr (JArr (take 120 xs))
    | Some _ \<Rightarrow> Inl (JsError ''TypeError''))"

definition prepareReply :: "(string \<Rightarrow> string) \<Rightarrow> string option \<Rightarrow> local_message \<Rightarrow> conversation_page \<Rightarrow> js_error + conversation_page" where
  "prepareReply t sessionDeviceId m p = (case reply_preview t (message_text m) of
      Inl e \<Rightarrow> Inl e
    | Inr preview \<Rightarrow> Inr (p\<lparr>pg_replyDraft := Some \<lparr>dr_messageId = env_id (msg_envelope m),
        dr_senderLabel = sender_tag t sessionDeviceId m, dr_preview = preview\<rparr>\<rparr>))"

text \<open>The button of \<open>PendingQueuePage\<close>: its flags \<open>working\<close> and \<open>error\<close>, then the outbox is flushed.\<close>

definition retryAll :: "nat \<Rightarrow> runtime_env \<Rightarrow> world \<Rightarrow> (bool \<times> string option) \<times> world" where
  "retryAll fuel env w = (case retryOutbox fuel env w of
      (Inl e, w1) \<Rightarrow> ((False, Some (extractApiErrorMessage (re_t env) e)), w1)
    | (Inr _, w1) \<Rightarrow> ((False, None), w1))"

subsection \<open>Orders\<close>

interpretation by_seq: comparator by_sequence
  by unfold_locales (auto simp: by_sequence_def)

interpretation newest: comparator newest_first
  by unfold_locales (auto simp: newest_first_def split: if_splits)

lemma try_map_Inr: "try_map f xs = Inr ys \<longleftrightarrow> map f xs = map Inr ys"
proof (induction xs arbitrary: ys)
  case (Cons x xs)
  then show ?case by (cases ys; cases "try_map f xs") (fastforce split: sum.splits)+
qed auto

lemma try_map_total: "(\<exists>ys. try_map f xs = Inr ys) \<longleftrightarrow> (\<forall>x \<in> set xs. \<exists>y. f x = Inr y)"
  by (induction xs) (auto split: sum.splits)

subsection \<open>Reading\<close>

lemma preview_of_id: "preview_of t d s c = Inr p \<Longrightarrow> pv_id p = cv_id c"
  by (auto simp: preview_of_def Let_def split: sum.splits)

lemma js_sort_count: "length (filter P (js_sort cmp xs)) = length (filter P xs)"
  by (metis js_sort_mset mset_filter size_mset)

lemma preview_of_unread:
  "preview_of t d s c = Inr p \<Longrightarrow>
   pv_unreadCount p = length (filter (is_unread (read_sequence s (cv_id c)) d) (current_messages s (cv_id c)))"
  by (auto simp: preview_of_def js_sort_count Let_def split: sum.splits)

lemma read_effect_messages [simp]:
  "current_messages (read_effect c s) c' = current_messages s c'" "st_conversations (read_effect c s) = st_conversations s"
  by (simp_all add: read_effect_def markConversationRead_def current_messages_def Let_def split: option.split)

lemma read_effect_sequence: "c' \<noteq> c \<Longrightarrow> read_sequence (read_effect c s) c' = read_sequence s c'"
  by (simp add: read_effect_def markConversationRead_def read_sequence_def Let_def split: option.split)

lemma read_effect_reaches:
  assumes "c \<noteq> []" "0 \<le> read_sequence s c" "m \<in> set (current_messages s c)"
  shows "env_serverSequence (msg_envelope m) \<le> read_sequence (read_effect c s) c"
proof -
  let ?sorted = "js_sort by_sequence (current_messages s c)"
  let ?l = "env_serverSequence (msg_envelope (last ?sorted))"
  have ne: "?sorted \<noteq> []" using assms(3) by (metis empty_iff js_sort_set list.set(1))
  have le: "env_serverSequence (msg_envelope m) \<le> ?l"
    using by_seq.sort_last_greatest [OF assms(3)] by (simp add: by_sequence_def)
  have "?l \<le> read_sequence (read_effect c s) c"
    using assms(1,2) ne by (auto simp: read_effect_def last_message_def markConversationRead_def read_sequence_def Let_def split: option.splits)
  then show ?thesis using le by simp
qed

text \<open>Opening a conversation, or receiving a message in the open one, marks all of it as read: afterwards its
  entry in the list shows no unread message, and the entries of the other conversations are what they were.\<close>

theorem opening_a_conversation_clears_its_unread_count:
  assumes "cv_id c \<noteq> []" "0 \<le> read_sequence s (cv_id c)" "preview_of t dev (read_effect (cv_id c) s) c = Inr p"
  shows "pv_unreadCount p = 0
    \<and> (cv_id c' \<noteq> cv_id c \<longrightarrow> preview_of t dev (read_effect (cv_id c) s) c' = preview_of t dev s c')"
proof
  have "\<not> is_unread (read_sequence (read_effect (cv_id c) s) (cv_id c)) dev m" if "m \<in> set (current_messages s (cv_id c))" for m
    using read_effect_reaches [OF assms(1,2) that] by (simp add: is_unread_def)
  then show "pv_unreadCount p = 0" by (simp add: preview_of_unread [OF assms(3)])
  show "cv_id c' \<noteq> cv_id c \<longrightarrow> preview_of t dev (read_effect (cv_id c) s) c' = preview_of t dev s c'"
    by (simp add: preview_of_def read_effect_sequence)
qed

definition sample_conversation :: "string \<Rightarrow> conversation_dto" where
  "sample_conversation i = \<lparr>cv_id = i, cv_type = CDirect, cv_title = None, cv_createdByAccountId = ''a'', cv_createdAt = ''2026-01-01'',
     cv_updatedAt = ''2026-01-01'', cv_disappearingPolicy = \<lparr>dp_defaultTtlSeconds = 0, dp_allowPerMessageOverride = False\<rparr>,
     cv_members = [], cv_lastServerSequence = 0\<rparr>"

definition chat_message :: "string \<Rightarrow> int \<Rightarrow> json \<Rightarrow> local_message" where
  "chat_message i n text = (sample_message i i n None)\<lparr>lm_plaintext := Some (JObj [(''text'', text)])\<rparr>"

definition chat_store :: messaging_store where
  "chat_store = put_messages ''conv'' [chat_message ''m1'' 7 (JStr ''hello''), chat_message ''m2'' 9 (JStr ''bye'')]
     (initial_store\<lparr>st_conversations := [sample_conversation ''conv'', sample_conversation ''other'']\<rparr>)"

lemma opening_a_conversation_clears_its_unread_count_witness:
  "(case preview_of (\<lambda>k. k) (Some ''me'') chat_store (sample_conversation ''conv'') of Inr p \<Rightarrow> pv_unreadCount p = 2 | Inl _ \<Rightarrow> False)
   \<and> (\<exists>p. preview_of (\<lambda>k. k) (Some ''me'') (read_effect ''conv'' chat_store) (sample_conversation ''conv'') = Inr p \<and> pv_unreadCount p = 0)"
proof -
  have two: "case preview_of (\<lambda>k. k) (Some ''me'') chat_store (sample_conversation ''conv'') of Inr p \<Rightarrow> pv_unreadCount p = 2 | Inl _ \<Rightarrow> False"
    by code_simp
  have i: "cv_id (sample_conversation ''conv'') = ''conv''" by code_simp
  have "case preview_of (\<lambda>k. k) (Some ''me'') (read_effect ''conv'' chat_store) (sample_conversation ''conv'') of Inr p \<Rightarrow> True | Inl _ \<Rightarrow> False"
    by code_simp
  then obtain p where p: "preview_of (\<lambda>k. k) (Some ''me'') (read_effect ''conv'' chat_store) (sample_conversation ''conv'') = Inr p"
    by (auto split: sum.splits)
  have "0 \<le> read_sequence chat_store ''conv''" by code_simp
  then have "pv_unreadCount p = 0"
    using opening_a_conversation_clears_its_unread_count [of "sample_conversation ''conv''" chat_store] p by (auto simp: i)
  then show ?thesis using two p by blast
qed

subsection \<open>The list of conversations\<close>

definition readable_preview :: "messaging_store \<Rightarrow> conversation_dto \<Rightarrow> bool" where
  "readable_preview s c \<longleftrightarrow> (let text = Option.bind (last_message (js_sort by_sequence (current_messages s (cv_id c)))) message_text
     in nullish text \<or> as_str text \<noteq> None)"

lemma preview_of_total: "(\<exists>p. preview_of t d s c = Inr p) \<longleftrightarrow> readable_preview s c"
  by (auto simp: preview_of_def preview_text_def readable_preview_def Let_def split: sum.splits option.splits if_splits)

text \<open>C32. The list of conversations shows the preview of every conversation of the store once, the most recent
  activity first. It can be shown unless the newest message of some conversation decrypts to an object whose
  text is no string, which one malformed message of a contact is enough for.\<close>

theorem list_shows_every_conversation_newest_first:
  "case previews t dev s of
      Inl e \<Rightarrow> \<not> list_all (readable_preview s) (st_conversations s)
    | Inr ps \<Rightarrow> list_all (readable_preview s) (st_conversations s)
        \<and> mset (map Inr ps) = mset (map (preview_of t dev s) (st_conversations s))
        \<and> sorted_wrt (\<lambda>p q. pv_lastAt q \<le> pv_lastAt p) ps"
proof (cases "try_map (preview_of t dev s) (st_conversations s)")
  case (Inl e)
  then show ?thesis
    using try_map_total [of "preview_of t dev s" "st_conversations s"] by (simp add: previews_def preview_of_total list_all_iff)
next
  case (Inr qs)
  have "list_all (readable_preview s) (st_conversations s)"
    using try_map_total [of "preview_of t dev s" "st_conversations s"] Inr by (simp add: preview_of_total list_all_iff)
  moreover have "map Inr qs = map (preview_of t dev s) (st_conversations s)"
    using Inr by (simp add: try_map_Inr)
  then have "mset (map Inr (js_sort newest_first qs)) = mset (map (preview_of t dev s) (st_conversations s))"
    by (metis js_sort_mset mset_map)
  moreover have "sorted_wrt (\<lambda>p q. pv_lastAt q \<le> pv_lastAt p) (js_sort newest_first qs)"
    by (rule sorted_wrt_mono_rel [OF _ newest.ordered_sort]) (auto simp: newest_first_def split: if_splits)
  ultimately show ?thesis by (simp add: previews_def Inr)
qed

text \<open>One message whose text is a number hides the whole list.\<close>

lemma malformed_text_hides_the_list:
  "previews (\<lambda>k. k) (Some ''me'') (put_messages ''conv'' [chat_message ''m1'' 7 (JNum 5)] chat_store) = Inl (JsError ''TypeError'')"
  by code_simp

text \<open>A message that is being sent has no sequence number yet: the preview shows the one before it.\<close>

lemma preview_ignores_the_message_under_way:
  "(case preview_of (\<lambda>k. k) (Some ''me'') (put_messages ''conv'' [chat_message ''local-1'' 0 (JStr ''new''), chat_message ''m1'' 7 (JStr ''hello'')] chat_store)
      (sample_conversation ''conv'') of Inr p \<Rightarrow> pv_lastText p = ''hello'' | Inl _ \<Rightarrow> False)"
  by code_simp

subsection \<open>Expired messages\<close>

definition no_text :: "local_message \<Rightarrow> local_message" where
  "no_text m = m\<lparr>lm_plaintext := None\<rparr>"

text \<open>The row of an expired message is the same whatever was decrypted.\<close>

lemma expired_text_is_not_shown:
  "is_expired env clock (msg_envelope m) \<Longrightarrow>
     row_of env clock dev ms m = row_of env clock dev ms (no_text m) \<and> mr_body (row_of env clock dev ms m) = ShownExpired"
  by (simp add: row_of_def Let_def no_text_def sender_tag_def)

text \<open>The preview in the list shows it all the same.\<close>

definition expired_message :: local_message where
  "expired_message = (chat_message ''m1'' 7 (JStr ''secret''))\<lparr>msg_envelope := (sample_envelope ''m1'' ''m1'' 7)\<lparr>env_expiresAt := Some ''E''\<rparr>\<rparr>"

lemma preview_shows_expired_text:
  "re_parseDate env ''E'' = Some 5 \<Longrightarrow> 5 \<le> clock \<Longrightarrow>
     is_expired env clock (msg_envelope expired_message)
   \<and> (case preview_of (\<lambda>k. k) (Some ''me'') (put_messages ''conv'' [expired_message] chat_store) (sample_conversation ''conv'') of
        Inr p \<Rightarrow> pv_lastText p = ''secret'' | Inl _ \<Rightarrow> False)"
  by (intro conjI) (simp add: is_expired_def expired_message_def, code_simp)

subsection \<open>The draft\<close>

text \<open>A send that returns has queued the message, and flushing keeps it queued.\<close>

abbreviation kept :: "runtime_env \<Rightarrow> string \<Rightarrow> world \<Rightarrow> bool" where
  "kept env i \<equiv> (\<lambda>s. settling env \<or> queued i s)"

lemma enqueue_queues: "ends_pred (kept env i) (db_enqueueOutbox env i c p t)"
proof -
  have "queued i (s\<lparr>dv_calls := n, w_db := messaging_store_enqueue_outbox i c p t (w_db s)\<rparr>)" for s n
    using sql_upsert_keys [of or_client_message_id "\<lparr>or_client_message_id = i, or_conversation_id = c, or_payload = p,
        or_created_at = t, or_retry_count = 0\<rparr>" "\<lambda>old new. new\<lparr>or_retry_count := or_retry_count old\<rparr>" "db_outbox (w_db s)"]
    by (auto simp: queued_def messaging_store_enqueue_outbox_def simp del: set_map split: if_splits) simp
  then show ?thesis
    using queue_run.keeps_time [of env i]
    by (auto simp: ends_pred_def db_enqueueOutbox_def db_write_def awaited_def native_def Let_def split: prod.splits option.splits)
qed

lemma send_body_queues: "ends_pred (kept env i) (send_body fuel env input tok session i recipients m)"
  unfolding send_body_def Let_def
  by (intro ends_sq ends_bnd ends_sq_keeps [OF enqueue_queues]) (intro keeps)

lemma send_queues: "ends_pred (\<lambda>s. \<exists>i. kept env i s) (sendMessage fuel env input)"
proof -
  have body: "ends_pred (\<lambda>s. settling env \<or> (\<exists>i. queued i s)) (send_body fuel env input tok session i recipients m)" for tok session i recipients m
    using send_body_queues unfolding ends_pred_def by blast
  show ?thesis unfolding sendMessage_def Let_def
    by (auto intro!: ends_throw ends_bnd ends_sq ends_catch body)
qed


definition sample_page :: conversation_page where
  "sample_page = \<lparr>pg_messageText = '' hi '', pg_ttlInput = ''60'', pg_sending = False, pg_error = None, pg_files = [], pg_replyDraft = None\<rparr>"


end
