(* ===== verification/Plugin_Sandbox.thy ===== *)
theory Plugin_Sandbox
  imports Plugin_Safety Js_Number
begin

text \<open>
  The other end of the bridge: the document that \<open>buildPluginSandboxDocument\<close> of \<open>services/plugins/runtime.ts\<close>
  builds for an iframe, the script in it, and the three plugins of \<open>services/plugins/bundled.ts\<close> that run on
  its \<open>api\<close>. The host is that of \<open>Plugin_Runtime\<close>; the two exchange messages through \<open>postMessage\<close>.

  The code of a plugin is a tree of the calls it awaits (\<open>plugin_code\<close>): it makes one call at a time and goes on
  with the reply. Several may be under way at once, one per entry, event and command.
\<close>

subsection \<open>The document\<close>

text \<open>\<open>value.replace(/<\/script/gi, "<\\/script")\<close>\<close>

fun sanitizeForScript :: "string \<Rightarrow> string" where
  "sanitizeForScript [] = []"
| "sanitizeForScript (c # s) =
     (if toLowerCase (take 8 (c # s)) = ''</script'' then [CHR ''<'', CHR 0x5C] @ ''/script'' @ sanitizeForScript (drop 7 s)
      else c # sanitizeForScript s)"

text \<open>
  The document: \<open>head\<close> is its text up to the first script, \<open>script\<close> the text of the second one after the
  bootstrap token, both constant. \<open>None\<close> is the exception of \<open>JSON.stringify\<close>.
\<close>

definition buildPluginSandboxDocument :: "string \<Rightarrow> string \<Rightarrow> loaded_descriptor \<Rightarrow> string \<Rightarrow> string option" where
  "buildPluginSandboxDocument head script descriptor bootstrapToken =
     map_option (\<lambda>manifestJSON.
       head @ ''<script>'' @ sanitizeForScript (ld_entrypointCode descriptor) @ ''</script><script>(() => { const manifest = '' @ manifestJSON
       @ ''; const state = { pluginId: manifest.id, bootstrapToken: '' @ [CHR 0x22] @ sanitizeForScript bootstrapToken @ [CHR 0x22] @ script)
       (stringify (ld_manifest descriptor))"

subsection \<open>The code of plugins\<close>

type_synonym reply = "string + json option"

text \<open>The calls of \<open>api\<close>; \<open>'h\<close> is the type of a handler.\<close>

datatype 'h api_call =
    CommandsRegister json "'h option"
  | RegisterPanel "json option"
  | SetPanelContent json "json option"
  | StorageGet json | StorageSet json json | StorageDelete json | StorageList
  | GetActiveConversationSummary | GetVisibleMessagesSanitized
  | ShowLocal "json option"
  | EventsSubscribe json "'h option" | EventsUnsubscribe json "'h option"

text \<open>A handler has an identity. An exception that is no \<open>Error\<close> has no message.\<close>

datatype plugin_code =
    Done
  | Raise "string option"
  | Call "(nat \<times> (json \<Rightarrow> plugin_code)) api_call" "string + json option \<Rightarrow> plugin_code"

type_synonym handler = "nat \<times> (json \<Rightarrow> plugin_code)"

text \<open>What waits for a reply: the entry, a command, or an event with the number of the handler that runs.\<close>

datatype waiting = InEntry | InCommand | InEvent json string nat

record sandbox =
  sx_pluginId :: string
  sx_bootstrapToken :: string
  sx_runtimeToken :: "string option"
  sx_hostOrigin :: string
  sx_requestCounter :: nat
  sx_pending :: "(string \<times> (waiting \<times> (reply \<Rightarrow> plugin_code))) list"
  sx_commandHandlers :: "(string \<times> handler) list"
  sx_eventHandlers :: "(string \<times> (nat \<times> handler) list) list"
  sx_entries :: nat
  sx_sent :: "(string \<times> json) list"

text \<open>\<open>send\<close>: the message goes to the window of the host if that is of the origin named.\<close>

definition send :: "json \<Rightarrow> sandbox \<Rightarrow> sandbox" where
  "send message s = s\<lparr>sx_sent := sx_sent s @ [(if sx_hostOrigin s = [] then ''*'' else sx_hostOrigin s, message)]\<rparr>"

definition request_id :: "nat \<Rightarrow> nat \<Rightarrow> string" where
  "request_id counter now = nat_digits counter @ ''-'' @ nat_digits now"

definition bridge_request :: "string \<Rightarrow> string \<Rightarrow> string \<Rightarrow> string \<Rightarrow> json \<Rightarrow> json" where
  "bridge_request pluginId runtimeToken requestId method params = JObj [(''kind'', JStr ''plugin.bridge.request''),
     (''pluginId'', JStr pluginId), (''runtimeToken'', JStr runtimeToken), (''requestId'', JStr requestId),
     (''method'', JStr method), (''params'', params)]"

text \<open>\<open>callHost\<close>: an immediate rejection, or the id of the request that was sent.\<close>

definition callHost :: "nat \<Rightarrow> string \<Rightarrow> json \<Rightarrow> sandbox \<Rightarrow> (string + string) \<times> sandbox" where
  "callHost now method params s =
     (if \<not> present (sx_runtimeToken s) then (Inl ''plugin runtime is not initialized'', s)
      else let counter = Suc (sx_requestCounter s); requestId = request_id counter now in
        (Inr requestId, send (bridge_request (sx_pluginId s) (the (sx_runtimeToken s)) requestId method params)
           (s\<lparr>sx_requestCounter := counter\<rparr>)))"

definition getHandlerSet :: "string \<Rightarrow> sandbox \<Rightarrow> (nat \<times> handler) list" where
  "getHandlerSet eventType s = (case map_get (sx_eventHandlers s) eventType of None \<Rightarrow> [] | Some hs \<Rightarrow> hs)"

text \<open>A \<open>Set\<close> of functions in the order of insertion, each with the number of its insertion.\<close>

definition add_handler :: "string \<Rightarrow> handler \<Rightarrow> sandbox \<Rightarrow> sandbox" where
  "add_handler eventType h s =
     (let hs = getHandlerSet eventType s in
      if fst h \<in> set (map (fst \<circ> snd) hs) then s
      else s\<lparr>sx_entries := Suc (sx_entries s), sx_eventHandlers := map_set eventType (hs @ [(Suc (sx_entries s), h)]) (sx_eventHandlers s)\<rparr>)"

definition delete_handler :: "string \<Rightarrow> handler \<Rightarrow> sandbox \<Rightarrow> sandbox" where
  "delete_handler eventType h s =
     s\<lparr>sx_eventHandlers := map_set eventType (filter (\<lambda>x. fst (snd x) \<noteq> fst h) (getHandlerSet eventType s)) (sx_eventHandlers s)\<rparr>"

text \<open>\<open>String(v ?? "")\<close> and \<open>v || {}\<close>\<close>

definition text_or_empty :: "json option \<Rightarrow> string" where
  "text_or_empty v = (if nullish v then [] else str_of v)"

definition or_object :: "json option \<Rightarrow> json" where
  "or_object v = (if truthy v then the v else JObj [])"

fun invoke_api :: "nat \<Rightarrow> handler api_call \<Rightarrow> sandbox \<Rightarrow> (string + string) \<times> sandbox" where
  "invoke_api now (CommandsRegister command h) s =
     (case (as_str (json_get command ''id''), as_str (json_get command ''title'')) of
        (Some i, Some title) \<Rightarrow>
          callHost now ''registerCommand'' (JObj [(''id'', JStr i), (''title'', JStr title)])
            (case h of None \<Rightarrow> s | Some f \<Rightarrow> s\<lparr>sx_commandHandlers := map_set i f (sx_commandHandlers s)\<rparr>)
      | _ \<Rightarrow> (Inl ''invalid command registration payload'', s))"
| "invoke_api now (RegisterPanel panel) s = callHost now ''registerPanel'' (or_object panel) s"
| "invoke_api now (SetPanelContent panelId content) s =
     callHost now ''setPanelContent'' (JObj [(''id'', panelId), (''content'', JStr (text_or_empty content))]) s"
| "invoke_api now (StorageGet key) s = callHost now ''pluginStorage.get'' (JObj [(''key'', key)]) s"
| "invoke_api now (StorageSet key val) s = callHost now ''pluginStorage.set'' (JObj [(''key'', key), (''value'', val)]) s"
| "invoke_api now (StorageDelete key) s = callHost now ''pluginStorage.delete'' (JObj [(''key'', key)]) s"
| "invoke_api now StorageList s = callHost now ''pluginStorage.list'' (JObj []) s"
| "invoke_api now GetActiveConversationSummary s = callHost now ''messages.getActiveConversationSummary'' (JObj []) s"
| "invoke_api now GetVisibleMessagesSanitized s = callHost now ''messages.getVisibleMessagesSanitized'' (JObj []) s"
| "invoke_api now (ShowLocal message) s =
     callHost now ''notifications.showLocal'' (JObj [(''message'', JStr (text_or_empty message))]) s"
| "invoke_api now (EventsSubscribe eventType h) s =
     (case eventType of
        JStr e \<Rightarrow> callHost now ''events.subscribe'' (JObj [(''eventType'', JStr e)]) (case h of None \<Rightarrow> s | Some f \<Rightarrow> add_handler e f s)
      | _ \<Rightarrow> (Inl ''eventType must be a string'', s))"
| "invoke_api now (EventsUnsubscribe eventType h) s =
     (case eventType of
        JStr e \<Rightarrow> callHost now ''events.unsubscribe'' (JObj [(''eventType'', JStr e)]) (case h of None \<Rightarrow> s | Some f \<Rightarrow> delete_handler e f s)
      | _ \<Rightarrow> (Inl ''eventType must be a string'', s))"

text \<open>What \<open>storage.get\<close> and \<open>storage.list\<close> make of a result.\<close>

fun result_of :: "'h api_call \<Rightarrow> json option \<Rightarrow> json option" where
  "result_of (StorageGet _) response = (case Option.bind response (\<lambda>r. as_str (json_get r ''value'')) of
      Some v \<Rightarrow> Some (JStr v) | None \<Rightarrow> Some JNull)"
| "result_of StorageList response = (case Option.bind response (\<lambda>r. json_get r ''keys'') of
      Some (JArr ks) \<Rightarrow> Some (JArr ks) | _ \<Rightarrow> Some (JArr []))"
| "result_of _ response = response"

definition reply_of :: "'h api_call \<Rightarrow> reply \<Rightarrow> reply" where
  "reply_of c r = (case r of Inl m \<Rightarrow> Inl m | Inr v \<Rightarrow> Inr (result_of c v))"

subsection \<open>The script\<close>

datatype outcome = Finished | Failed "string option" | Awaiting string "reply \<Rightarrow> plugin_code"

text \<open>Running the code of a plugin until it ends or has to wait for a reply.\<close>

primrec exec :: "nat \<Rightarrow> plugin_code \<Rightarrow> sandbox \<Rightarrow> outcome \<times> sandbox" where
  "exec now Done s = (Finished, s)"
| "exec now (Raise m) s = (Failed m, s)"
| "exec now (Call c k) s = (case invoke_api now c s of
      (Inl m, s1) \<Rightarrow> exec now (k (Inl m)) s1
    | (Inr requestId, s1) \<Rightarrow> (Awaiting requestId (\<lambda>r. k (reply_of c r)), s1))"

definition pend :: "string \<Rightarrow> waiting \<Rightarrow> (reply \<Rightarrow> plugin_code) \<Rightarrow> sandbox \<Rightarrow> sandbox" where
  "pend requestId w k s = s\<lparr>sx_pending := map_set requestId (w, k) (sx_pending s)\<rparr>"

definition message_or :: "string \<Rightarrow> string option \<Rightarrow> string" where
  "message_or otherwise m = (case m of None \<Rightarrow> otherwise | Some t \<Rightarrow> t)"

text \<open>\<open>plugin.runtime.error\<close> with both tokens, and as handlers send it, without the runtime token.\<close>

definition send_error :: "string \<Rightarrow> sandbox \<Rightarrow> sandbox" where
  "send_error message s = send (JObj [(''kind'', JStr ''plugin.runtime.error''), (''pluginId'', JStr (sx_pluginId s)),
     (''runtimeToken'', jopt (sx_runtimeToken s)), (''bootstrapToken'', JStr (sx_bootstrapToken s)), (''message'', JStr message)]) s"

definition send_handler_error :: "string \<Rightarrow> sandbox \<Rightarrow> sandbox" where
  "send_handler_error message s = send (JObj [(''kind'', JStr ''plugin.runtime.error''), (''pluginId'', JStr (sx_pluginId s)),
     (''bootstrapToken'', JStr (sx_bootstrapToken s)), (''message'', JStr message)]) s"

definition send_initialized :: "sandbox \<Rightarrow> sandbox" where
  "send_initialized s = send (JObj [(''kind'', JStr ''plugin.runtime.initialized''), (''pluginId'', JStr (sx_pluginId s)),
     (''runtimeToken'', jopt (sx_runtimeToken s)), (''bootstrapToken'', JStr (sx_bootstrapToken s))]) s"

definition after_entry :: "outcome \<times> sandbox \<Rightarrow> sandbox" where
  "after_entry r = (case r of
      (Finished, s) \<Rightarrow> send_initialized s
    | (Failed m, s) \<Rightarrow> send_error (message_or ''plugin runtime init failure'' m) s
    | (Awaiting requestId k, s) \<Rightarrow> pend requestId InEntry k s)"

definition after_command :: "outcome \<times> sandbox \<Rightarrow> sandbox" where
  "after_command r = (case r of
      (Finished, s) \<Rightarrow> s
    | (Failed m, s) \<Rightarrow> send_handler_error (message_or ''command handler failed'' m) s
    | (Awaiting requestId k, s) \<Rightarrow> pend requestId InCommand k s)"

text \<open>
  The loop over the handlers of an event, which waits for each. A handler that waits leaves the loop; it goes on
  with the handlers inserted after it. Without a wait no handler is added, since the call that adds one waits.
\<close>

fun run_handlers :: "nat \<Rightarrow> json \<Rightarrow> string \<Rightarrow> (nat \<times> handler) list \<Rightarrow> sandbox \<Rightarrow> sandbox" where
  "run_handlers now event eventType [] s = s"
| "run_handlers now event eventType ((e, h) # rest) s = (case exec now (snd h event) s of
      (Finished, s1) \<Rightarrow> run_handlers now event eventType rest s1
    | (Failed m, s1) \<Rightarrow> run_handlers now event eventType rest (send_handler_error (message_or ''event handler failed'' m) s1)
    | (Awaiting requestId k, s1) \<Rightarrow> pend requestId (InEvent event eventType e) k s1)"

definition later_handlers :: "nat \<Rightarrow> string \<Rightarrow> sandbox \<Rightarrow> (nat \<times> handler) list" where
  "later_handlers e eventType s = filter (\<lambda>x. e < fst x) (getHandlerSet eventType s)"

definition after_event :: "nat \<Rightarrow> json \<Rightarrow> string \<Rightarrow> nat \<Rightarrow> outcome \<times> sandbox \<Rightarrow> sandbox" where
  "after_event now event eventType e r = (case r of
      (Finished, s) \<Rightarrow> run_handlers now event eventType (later_handlers e eventType s) s
    | (Failed m, s) \<Rightarrow> run_handlers now event eventType (later_handlers e eventType s)
        (send_handler_error (message_or ''event handler failed'' m) s)
    | (Awaiting requestId k, s) \<Rightarrow> pend requestId (InEvent event eventType e) k s)"

definition resume :: "nat \<Rightarrow> waiting \<Rightarrow> plugin_code \<Rightarrow> sandbox \<Rightarrow> sandbox" where
  "resume now w code s = (case w of
      InEntry \<Rightarrow> after_entry (exec now code s)
    | InCommand \<Rightarrow> after_command (exec now code s)
    | InEvent event eventType e \<Rightarrow> after_event now event eventType e (exec now code s))"

text \<open>\<open>initializeRuntime\<close>: \<open>entry\<close> is \<open>window.__SECURE_MESSENGER_PLUGIN_ENTRY__\<close>, if that is a function.\<close>

definition initializeRuntime :: "nat \<Rightarrow> plugin_code option \<Rightarrow> sandbox \<Rightarrow> sandbox" where
  "initializeRuntime now entry s = (case entry of
      None \<Rightarrow> send_error ''window.__SECURE_MESSENGER_PLUGIN_ENTRY__ must be a function'' s
    | Some code \<Rightarrow> after_entry (exec now code s))"

definition on_init :: "nat \<Rightarrow> plugin_code option \<Rightarrow> string \<Rightarrow> json \<Rightarrow> sandbox \<Rightarrow> sandbox" where
  "on_init now entry origin data s = (case as_str (json_get data ''runtimeToken'') of
      None \<Rightarrow> send_error ''invalid runtime token from host'' s
    | Some t \<Rightarrow> if length t < 12 then send_error ''invalid runtime token from host'' s
        else initializeRuntime now entry (s\<lparr>sx_runtimeToken := Some t, sx_hostOrigin := (if origin = [] then ''*'' else origin)\<rparr>))"

definition on_response :: "nat \<Rightarrow> json \<Rightarrow> sandbox \<Rightarrow> sandbox" where
  "on_response now data s =
     (if json_get data ''runtimeToken'' \<noteq> Some (jopt (sx_runtimeToken s)) then send_error ''host bridge runtime token mismatch'' s
      else case Option.bind (as_str (json_get data ''requestId'')) (map_get (sx_pending s)) of
        None \<Rightarrow> s
      | Some (w, k) \<Rightarrow>
          let s1 = s\<lparr>sx_pending := map_remove (the (as_str (json_get data ''requestId''))) (sx_pending s)\<rparr>;
              message = Option.bind (json_get data ''error'') (\<lambda>e. json_get e ''message'') in
          resume now w (k (if truthy (json_get data ''ok'') then Inr (json_get data ''result'')
            else Inl (if truthy message then str_of message else ''bridge request failed''))) s1)"

definition text_or :: "json option \<Rightarrow> string" where
  "text_or v = (if truthy v then str_of v else [])"

definition given :: "string \<Rightarrow> json option \<Rightarrow> (string \<times> json) list" where
  "given k v = (case v of None \<Rightarrow> [] | Some x \<Rightarrow> [(k, x)])"

definition on_event :: "nat \<Rightarrow> json \<Rightarrow> sandbox \<Rightarrow> sandbox" where
  "on_event now data s =
     (if json_get data ''runtimeToken'' \<noteq> Some (jopt (sx_runtimeToken s)) then s
      else let eventType = text_or (json_get data ''eventType'') in
        run_handlers now (JObj (given ''eventType'' (json_get data ''eventType'') @ [(''payload'', or_object (json_get data ''payload''))]))
          eventType (getHandlerSet eventType s) s)"

definition on_command :: "nat \<Rightarrow> json \<Rightarrow> sandbox \<Rightarrow> sandbox" where
  "on_command now data s =
     (if json_get data ''runtimeToken'' \<noteq> Some (jopt (sx_runtimeToken s)) then s
      else case map_get (sx_commandHandlers s) (text_or (json_get data ''commandId'')) of
        None \<Rightarrow> s
      | Some h \<Rightarrow> after_command (exec now
          (snd h (JObj (given ''commandId'' (json_get data ''commandId'') @ [(''payload'', or_object (json_get data ''payload''))]))) s))"

text \<open>The listener for messages, the listener for errors, and what the script does when it is loaded.\<close>

definition receive :: "nat \<Rightarrow> plugin_code option \<Rightarrow> string \<Rightarrow> json \<Rightarrow> sandbox \<Rightarrow> sandbox" where
  "receive now entry origin data s =
     (if \<not> is_object data then s
      else if json_get data ''kind'' = Some (JStr ''host.init'') then on_init now entry origin data s
      else if json_get data ''kind'' = Some (JStr ''host.bridge.response'') then on_response now data s
      else if json_get data ''kind'' = Some (JStr ''host.event'') then on_event now data s
      else if json_get data ''kind'' = Some (JStr ''host.command.execute'') then on_command now data s
      else s)"

definition script_error :: "string \<Rightarrow> sandbox \<Rightarrow> sandbox" where
  "script_error message s = send_error (if message = [] then ''unhandled runtime error'' else message) s"

definition load_script :: "string \<Rightarrow> string \<Rightarrow> sandbox" where
  "load_script pluginId bootstrapToken =
     send (JObj [(''kind'', JStr ''plugin.runtime.ready''), (''pluginId'', JStr pluginId), (''bootstrapToken'', JStr bootstrapToken)])
       \<lparr>sx_pluginId = pluginId, sx_bootstrapToken = bootstrapToken, sx_runtimeToken = None, sx_hostOrigin = ''*'',
        sx_requestCounter = 0, sx_pending = [], sx_commandHandlers = [], sx_eventHandlers = [], sx_entries = 0, sx_sent = []\<rparr>"

subsection \<open>The bundled plugins\<close>

definition await_call :: "handler api_call \<Rightarrow> (json option \<Rightarrow> plugin_code) \<Rightarrow> plugin_code" where
  "await_call c k = Call c (\<lambda>r. case r of Inl m \<Rightarrow> Raise (Some m) | Inr v \<Rightarrow> k v)"

text \<open>\<open>v || d\<close>\<close>

definition or_value :: "json option \<Rightarrow> string \<Rightarrow> json" where
  "or_value v d = (if truthy v then the v else JStr d)"

definition newline :: string where "newline = [CHR 0x0A]"

definition transport_text :: "json \<Rightarrow> string" where
  "transport_text event = (let payload = or_object (json_get event ''payload'') in
     ''Mode: '' @ to_str (or_value (json_get payload ''mode'') ''none'') @ newline
     @ ''Status: '' @ to_str (or_value (json_get payload ''status'') ''offline'') @ newline
     @ ''Endpoint: '' @ to_str (or_value (json_get payload ''endpoint'') ''-''))"

definition transport_handler :: handler where
  "transport_handler = (0, \<lambda>event.
     await_call (SetPanelContent (JStr ''transport.health.panel'') (Some (JStr (transport_text event)))) (\<lambda>_. Done))"

definition panel_json :: "string \<Rightarrow> string \<Rightarrow> json" where
  "panel_json i title = JObj [(''id'', JStr i), (''title'', JStr title)]"

definition transportPanelCode :: plugin_code where
  "transportPanelCode =
     await_call (RegisterPanel (Some (panel_json ''transport.health.panel'' ''Transport Health''))) (\<lambda>_.
     await_call (SetPanelContent (JStr ''transport.health.panel'') (Some (JStr ''Waiting for transport updates...''))) (\<lambda>_.
     await_call (EventsSubscribe (JStr ''transport.state.changed'') (Some transport_handler)) (\<lambda>_. Done)))"

text \<open>The reply to \<open>getVisibleMessagesSanitized\<close> is an array.\<close>

definition summary_text :: "json \<Rightarrow> json list \<Rightarrow> string" where
  "summary_text summary messages = join newline
     [''Conversation: '' @ (if truthy (json_get summary ''title'') then str_of (json_get summary ''title'') else str_of (json_get summary ''id'')),
      ''Type: '' @ str_of (json_get summary ''type''), ''Members: '' @ str_of (json_get summary ''memberCount''),
      ''Visible messages: '' @ int_digits (int (length messages)),
      ''Last message at: '' @ (if messages \<noteq> [] \<and> truthy (Some (last messages)) then str_of (json_get (last messages) ''createdAt'') else ''-'')]"

text \<open>\<open>refresh\<close>, and the code that follows it.\<close>

definition refresh_summary :: "plugin_code \<Rightarrow> plugin_code" where
  "refresh_summary next =
     await_call GetActiveConversationSummary (\<lambda>summary.
     await_call GetVisibleMessagesSanitized (\<lambda>messages.
     if \<not> truthy summary
     then await_call (SetPanelContent (JStr ''conversation.summary.panel'') (Some (JStr ''No active conversation.''))) (\<lambda>_. next)
     else case messages of
       Some (JArr ms) \<Rightarrow> await_call (SetPanelContent (JStr ''conversation.summary.panel'') (Some (JStr (summary_text (the summary) ms)))) (\<lambda>_. next)
     | _ \<Rightarrow> Raise (Some ''TypeError'')))"

definition refresh_handler :: handler where
  "refresh_handler = (0, \<lambda>_. refresh_summary Done)"

definition conversationSummaryCode :: plugin_code where
  "conversationSummaryCode =
     await_call (RegisterPanel (Some (panel_json ''conversation.summary.panel'' ''Conversation Snapshot''))) (\<lambda>_.
     refresh_summary
    (await_call (EventsSubscribe (JStr ''conversation.changed'') (Some refresh_handler)) (\<lambda>_.
     await_call (EventsSubscribe (JStr ''message.visible'') (Some refresh_handler)) (\<lambda>_. Done))))"

text \<open>\<open>String\<close> of a number; \<open>fmt\<close> writes those that are no integers below \<open>10 ^ 21\<close>.\<close>

definition number_text :: "(rat \<Rightarrow> string) \<Rightarrow> rat \<Rightarrow> string" where
  "number_text fmt q = (if of_int \<lfloor>q\<rfloor> = q \<and> \<bar>q\<bar> < 10 ^ 21 then int_digits \<lfloor>q\<rfloor> else fmt q)"

definition next_count :: "string option \<Rightarrow> rat" where
  "next_count currentRaw =
     (case (if present currentRaw then js_Number (js_trim (the currentRaw)) else Fin 0) of Fin current \<Rightarrow> current + 1 | _ \<Rightarrow> 1)"

definition increment_handler :: "(rat \<Rightarrow> string) \<Rightarrow> handler" where
  "increment_handler fmt = (0, \<lambda>_.
     await_call (StorageGet (JStr ''counter'')) (\<lambda>currentRaw.
     let count = number_text fmt (next_count (as_str currentRaw)) in
     await_call (StorageSet (JStr ''counter'') (JStr count)) (\<lambda>_.
     await_call (SetPanelContent (JStr ''local.actions.panel'') (Some (JStr (''Counter value: '' @ count)))) (\<lambda>_.
     await_call (ShowLocal (Some (JStr (''Plugin counter = '' @ count)))) (\<lambda>_. Done)))))"

definition localActionsCode :: "(rat \<Rightarrow> string) \<Rightarrow> plugin_code" where
  "localActionsCode fmt =
     await_call (RegisterPanel (Some (panel_json ''local.actions.panel'' ''Local Actions''))) (\<lambda>_.
     await_call (SetPanelContent (JStr ''local.actions.panel'') (Some (JStr ''Run the command from Plugin Manager.''))) (\<lambda>_.
     await_call (CommandsRegister (JObj [(''id'', JStr ''local.actions.increment''), (''title'', JStr ''Increment local plugin counter'')])
       (Some (increment_handler fmt))) (\<lambda>_. Done)))"

subsection \<open>The link between host and iframe\<close>

fun bridge_error_text :: "bridge_error_code \<Rightarrow> string" where
  "bridge_error_text BePermissionDenied = ''plugin_permission_denied''"
| "bridge_error_text BeBridgeViolation = ''plugin_bridge_violation''"
| "bridge_error_text BeStorageUnavailable = ''plugin_storage_unavailable''"

fun response_members :: "plugin_bridge_response \<Rightarrow> (string \<times> json) list" where
  "response_members (BridgeOk p rid result) =
     (''pluginId'', JStr p) # given ''requestId'' rid @ [(''ok'', JBool True), (''result'', result)]"
| "response_members (BridgeError p rid c m) =
     (''pluginId'', JStr p) # given ''requestId'' rid @ [(''ok'', JBool False),
       (''error'', JObj [(''code'', JStr (bridge_error_text c)), (''message'', JStr m)])]"

text \<open>The messages of the host as values.\<close>

fun host_json :: "host_message \<Rightarrow> json" where
  "host_json (HostInit p t permissions) = JObj [(''kind'', JStr ''host.init''), (''pluginId'', JStr p), (''runtimeToken'', JStr t),
     (''grantedPermissions'', JArr (map JStr permissions))]"
| "host_json (HostBridgeResponse t response) =
     JObj ((''kind'', JStr ''host.bridge.response'') # (''runtimeToken'', JStr t) # response_members response)"
| "host_json (HostEvent t eventType payload createdAt) = JObj [(''kind'', JStr ''host.event''), (''runtimeToken'', JStr t),
     (''eventType'', JStr eventType), (''payload'', payload), (''createdAt'', JStr createdAt)]"
| "host_json (HostCommandExecute p t commandId triggeredAt) = JObj [(''kind'', JStr ''host.command.execute''), (''pluginId'', JStr p),
     (''runtimeToken'', JStr t), (''commandId'', JStr commandId), (''triggeredAt'', JStr triggeredAt)]"

text \<open>
  Host and iframe with what each has received of what the other has posted. A message reaches the host if it
  names any origin or that of the host; its own origin is \<open>"null"\<close>, since the iframe is sandboxed.
\<close>

record link =
  lk_host :: plugin_host
  lk_box :: sandbox
  lk_seen :: nat
  lk_heard :: nat

definition posts_to :: "nat \<Rightarrow> plugin_host \<Rightarrow> host_message list" where
  "posts_to n h = map snd (filter (\<lambda>x. fst x = n) (ph_posts h))"

datatype link_event = ToBox nat | ToHost | AtHost host_event

fun link_step :: "plugin_env \<Rightarrow> nat \<Rightarrow> plugin_code option \<Rightarrow> link_event \<Rightarrow> link \<Rightarrow> link" where
  "link_step env n entry (ToBox now) l = (case drop (lk_seen l) (posts_to n (lk_host l)) of
      [] \<Rightarrow> l
    | m # _ \<Rightarrow> l\<lparr>lk_box := receive now entry (pe_origin env) (host_json m) (lk_box l), lk_seen := Suc (lk_seen l)\<rparr>)"
| "link_step env n entry ToHost l = (case drop (lk_heard l) (sx_sent (lk_box l)) of
      [] \<Rightarrow> l
    | (origin, m) # _ \<Rightarrow> l\<lparr>lk_heard := Suc (lk_heard l),
        lk_host := (if origin = ''*'' \<or> origin = pe_origin env then handleWindowMessage env (Some n) ''null'' m (lk_host l) else lk_host l)\<rparr>)"
| "link_step env n entry (AtHost ev) l = l\<lparr>lk_host := host_step env ev (lk_host l)\<rparr>"

definition link_run :: "plugin_env \<Rightarrow> nat \<Rightarrow> plugin_code option \<Rightarrow> link_event list \<Rightarrow> link \<Rightarrow> link" where
  "link_run env n entry = fold (link_step env n entry)"

end
