(* ===== verification/Plugin_Protocol.thy ===== *)
theory Plugin_Protocol
  imports Plugin_Sandbox
begin

text \<open>
  Properties of the script of \<open>Plugin_Sandbox\<close> with the host, for every plugin: the document keeps the entry code
  inside its script; the locale \<open>host_invariant\<close> says what an invariant of iframes and posts needs to be kept by
  every step of the host; host and script speak the same protocol; requests are numbered apart.
\<close>

subsection \<open>The document keeps the entry code inside its script\<close>

definition holds_end_tag :: "string \<Rightarrow> bool" where
  "holds_end_tag s \<longleftrightarrow> (\<exists>a b. toLowerCase s = a @ ''</script'' @ b)"

lemma sanitize_hit: "toLowerCase (take 8 (c # s)) = ''</script'' \<Longrightarrow>
    sanitizeForScript (c # s) = CHR ''<'' # CHR 0x5C # ''/script'' @ sanitizeForScript (drop 7 s)"
  by simp

lemma sanitize_miss: "toLowerCase (take 8 (c # s)) \<noteq> ''</script'' \<Longrightarrow> sanitizeForScript (c # s) = c # sanitizeForScript s"
  by simp

declare sanitizeForScript.simps(2) [simp del]

lemma sanitize_shift:
  "CHR ''<'' \<notin> set p \<Longrightarrow> toLowerCase (sanitizeForScript s) = p @ t \<Longrightarrow> \<exists>t'. toLowerCase s = p @ t'"
proof (induction p arbitrary: s t)
  case (Cons c p)
  then obtain d s' where s: "s = d # s'" by (cases s) (auto simp: toLowerCase_def)
  show ?case
  proof (cases "toLowerCase (take 8 s) = ''</script''")
    case True
    have "lower_char CHR ''<'' = CHR ''<''" by code_simp
    then have "c = CHR ''<''" using Cons.prems(2) sanitize_hit [OF True [unfolded s]] by (simp add: s toLowerCase_def)
    then show ?thesis using Cons.prems(1) by simp
  next
    case False
    then have "lower_char d = c" "toLowerCase (sanitizeForScript s') = p @ t"
      using Cons.prems(2) sanitize_miss [OF False [unfolded s]] by (simp_all add: s toLowerCase_def)
    then show ?thesis using Cons.IH [of s' t] Cons.prems(1) by (auto simp: s toLowerCase_def)
  qed
qed simp

lemma end_tag_Cons:
  assumes "\<not> holds_end_tag r" "\<And>t. toLowerCase (x # r) \<noteq> ''</script'' @ t"
  shows "\<not> holds_end_tag (x # r)"
proof
  assume "holds_end_tag (x # r)"
  then obtain a b where ab: "toLowerCase (x # r) = a @ ''</script'' @ b" by (auto simp: holds_end_tag_def)
  show False
  proof (cases a)
    case Nil
    then show ?thesis using ab assms(2) [of b] by simp
  next
    case (Cons y a')
    then have "toLowerCase r = a' @ ''</script'' @ b" using ab by (simp add: toLowerCase_def)
    then show ?thesis using assms(1) by (auto simp: holds_end_tag_def)
  qed
qed

lemma end_tag_other: "\<not> holds_end_tag r \<Longrightarrow> lower_char x \<noteq> CHR ''<'' \<Longrightarrow> \<not> holds_end_tag (x # r)"
  by (rule end_tag_Cons) (simp_all add: toLowerCase_def)

lemma sanitized_holds_no_end_tag: "\<not> holds_end_tag (sanitizeForScript s)"
proof (induction s rule: sanitizeForScript.induct)
  case 1
  show ?case by (simp add: holds_end_tag_def toLowerCase_def)
next
  case (2 c s)
  show ?case
  proof (cases "toLowerCase (take 8 (c # s)) = ''</script''")
    case True
    have others: "lower_char x \<noteq> CHR ''<''" if "x \<in> set (CHR 0x5C # ''/script'')" for x
      using that by (auto simp: lower_char_def Let_def)
    have r: "\<not> holds_end_tag (CHR 0x5C # ''/script'' @ sanitizeForScript (drop 7 s))"
      unfolding append.simps by (intro end_tag_other others 2(1) [OF True]) simp_all
    have "lower_char CHR 0x5C \<noteq> CHR ''/''" by code_simp
    then have "toLowerCase (CHR ''<'' # CHR 0x5C # ''/script'' @ sanitizeForScript (drop 7 s)) \<noteq> ''</script'' @ t" for t
      by (simp add: toLowerCase_def)
    then show ?thesis unfolding sanitize_hit [OF True] by (rule end_tag_Cons [OF r])
  next
    case False
    have "toLowerCase (c # sanitizeForScript s) \<noteq> ''</script'' @ t" for t
    proof
      assume a: "toLowerCase (c # sanitizeForScript s) = ''</script'' @ t"
      then have parts: "lower_char c = CHR ''<''" "toLowerCase (sanitizeForScript s) = ''/script'' @ t" by (simp_all add: toLowerCase_def)
      obtain t' where "toLowerCase s = ''/script'' @ t'" using sanitize_shift [OF _ parts(2)] by auto
      with parts have "toLowerCase (c # s) = ''</script'' @ t'" by (simp add: toLowerCase_def)
      then have "take 8 (toLowerCase (c # s)) = ''</script''" by simp
      then show False using False by (simp only: toLowerCase_def take_map)
    qed
    then show ?thesis unfolding sanitize_miss [OF False] by (intro end_tag_Cons 2(2) [OF False])
  qed
qed

text \<open>The manifest is not treated alike: a plugin whose name holds an end tag breaks the script it is put into.\<close>

definition tagged_manifest :: json where
  "tagged_manifest = JObj [(''id'', JStr ''p''), (''name'', JStr ''</script>'')]"

lemma manifest_can_end_the_script: "\<exists>t. stringify tagged_manifest = Some t \<and> holds_end_tag t"
proof -
  define a where "a = [CHR ''{'', CHR 0x22, CHR ''i'', CHR ''d'', CHR 0x22, CHR '':'', CHR 0x22, CHR ''p'', CHR 0x22, CHR '','', CHR 0x22]
    @ ''name'' @ [CHR 0x22, CHR '':'', CHR 0x22]"
  define b where "b = [CHR ''>'', CHR 0x22, CHR ''}'']"
  have "stringify tagged_manifest = Some (a @ ''</script'' @ b)" unfolding a_def b_def by code_simp
  moreover have "toLowerCase (a @ ''</script'' @ b) = a @ ''</script'' @ b" unfolding a_def b_def by code_simp
  ultimately show ?thesis unfolding holds_end_tag_def by blast
qed

subsection \<open>What the script sends\<close>

text \<open>What the host expects of a message from the plugin \<open>p\<close> with the bootstrap token \<open>b\<close> and the runtime token \<open>r\<close>.\<close>

definition honest :: "string \<Rightarrow> string \<Rightarrow> string \<Rightarrow> json \<Rightarrow> bool" where
  "honest p b r m \<longleftrightarrow> is_object m \<and> json_get m ''pluginId'' = Some (JStr p) \<and> (let kind = json_get m ''kind'' in
     kind = Some (JStr ''plugin.runtime.ready'') \<and> json_get m ''bootstrapToken'' = Some (JStr b)
   \<or> kind = Some (JStr ''plugin.runtime.initialized'') \<and> json_get m ''bootstrapToken'' = Some (JStr b)
       \<and> json_get m ''runtimeToken'' = Some (JStr r)
   \<or> kind = Some (JStr ''plugin.runtime.error'') \<and> json_get m ''bootstrapToken'' = Some (JStr b)
       \<and> (truthy (json_get m ''runtimeToken'') \<longrightarrow> json_get m ''runtimeToken'' = Some (JStr r))
   \<or> kind = Some (JStr ''plugin.bridge.request'') \<and> json_get m ''runtimeToken'' = Some (JStr r))"

definition is_request :: "json \<Rightarrow> bool" where
  "is_request m \<longleftrightarrow> json_get m ''kind'' = Some (JStr ''plugin.bridge.request'')"

definition request_ids :: "sandbox \<Rightarrow> json option list" where
  "request_ids s = map (\<lambda>m. json_get m ''requestId'') (filter is_request (map snd (sx_sent s)))"

text \<open>
  The invariant of the script: who it is, what it has sent, and that its requests are numbered, those
  that wait among them. \<open>ready\<close> tells whether it has its runtime token.
\<close>

definition speaks :: "string \<Rightarrow> string \<Rightarrow> string \<Rightarrow> bool \<Rightarrow> sandbox \<Rightarrow> bool" where
  "speaks p b r ready s \<longleftrightarrow> sx_pluginId s = p \<and> sx_bootstrapToken s = b
     \<and> (sx_runtimeToken s = Some r \<or> \<not> ready \<and> sx_runtimeToken s = None)
     \<and> list_all (honest p b r) (map snd (sx_sent s))
     \<and> list_all (\<lambda>i. \<exists>c now. c \<le> sx_requestCounter s \<and> i = Some (JStr (request_id c now))) (request_ids s)
     \<and> distinct (request_ids s) \<and> distinct (map fst (sx_pending s))
     \<and> list_all (\<lambda>x. Some (JStr (fst x)) \<in> set (request_ids s)) (sx_pending s)"

lemma speaks_weaken: "speaks p b r ready s \<Longrightarrow> speaks p b r False s"
  by (auto simp: speaks_def)

lemma speaks_fields [simp]:
  "speaks p b r ready (s\<lparr>sx_commandHandlers := c\<rparr>) = speaks p b r ready s" "speaks p b r ready (s\<lparr>sx_eventHandlers := e\<rparr>) = speaks p b r ready s"
  "speaks p b r ready (s\<lparr>sx_entries := n\<rparr>) = speaks p b r ready s"
  by (simp_all add: speaks_def request_ids_def)

lemma request_ids_send: "request_ids (send m s) = request_ids s @ (if is_request m then [json_get m ''requestId''] else [])"
  by (simp add: request_ids_def send_def)

lemma send_fields [simp]:
  "sx_pluginId (send m s) = sx_pluginId s" "sx_bootstrapToken (send m s) = sx_bootstrapToken s" "sx_runtimeToken (send m s) = sx_runtimeToken s"
  "sx_requestCounter (send m s) = sx_requestCounter s" "sx_pending (send m s) = sx_pending s" "map snd (sx_sent (send m s)) = map snd (sx_sent s) @ [m]"
  "sx_commandHandlers (send m s) = sx_commandHandlers s" "sx_eventHandlers (send m s) = sx_eventHandlers s"
  by (simp_all add: send_def)

lemma speaks_send: "speaks p b r ready s \<Longrightarrow> honest p b r m \<Longrightarrow> \<not> is_request m \<Longrightarrow> speaks p b r ready (send m s)"
  by (auto simp: speaks_def request_ids_send list_all_iff)

lemma request_id_inj: "request_id c now = request_id c' now' \<Longrightarrow> c = c'"
proof -
  assume e: "request_id c now = request_id c' now'"
  have ne: "num_end (''-'' @ t)" for t by (simp add: num_end_def digit_char_def)
  have "p_nat (request_id c now) = Some (c, ''-'' @ nat_digits now)" "p_nat (request_id c' now') = Some (c', ''-'' @ nat_digits now')"
    unfolding request_id_def by (rule p_nat_digits [OF ne])+
  then show "c = c'" using e by simp
qed

text \<open>The outcome of a call: nothing was sent, or a request that is among those sent.\<close>

definition asked :: "string \<Rightarrow> string \<Rightarrow> string \<Rightarrow> bool \<Rightarrow> (string + string) \<times> sandbox \<Rightarrow> bool" where
  "asked p b r ready res \<longleftrightarrow> speaks p b r ready (snd res) \<and> (\<forall>i. fst res = Inr i \<longrightarrow> Some (JStr i) \<in> set (request_ids (snd res)))"

lemma asked_Inl [simp]: "asked p b r ready (Inl m, s) = speaks p b r ready s"
  by (simp add: asked_def)

lemma callHost_asked:
  assumes "speaks p b r ready s"
  shows "asked p b r ready (callHost now method params s)"
proof (cases "present (sx_runtimeToken s)")
  case False
  then show ?thesis using assms by (simp add: callHost_def)
next
  case True
  let ?c = "Suc (sx_requestCounter s)"
  let ?i = "request_id ?c now"
  let ?m = "bridge_request (sx_pluginId s) (the (sx_runtimeToken s)) ?i method params"
  define s' where "s' = send ?m (s\<lparr>sx_requestCounter := ?c\<rparr>)"
  have res: "callHost now method params s = (Inr ?i, s')" using True by (simp add: callHost_def Let_def s'_def)
  have fields: "sx_pluginId s' = sx_pluginId s" "sx_bootstrapToken s' = sx_bootstrapToken s" "sx_runtimeToken s' = sx_runtimeToken s"
    "sx_requestCounter s' = ?c" "sx_pending s' = sx_pending s" "map snd (sx_sent s') = map snd (sx_sent s) @ [?m]"
    by (simp_all add: s'_def)
  have rt: "sx_runtimeToken s = Some r" using assms True by (auto simp: speaks_def present_def)
  have ids: "request_ids s' = request_ids s @ [Some (JStr ?i)]"
    by (simp add: s'_def request_ids_send is_request_def bridge_request_def) (simp add: request_ids_def)
  have old: "\<exists>c now. c \<le> sx_requestCounter s \<and> j = Some (JStr (request_id c now))" if "j \<in> set (request_ids s)" for j
    using assms that by (simp add: speaks_def list_all_iff)
  have new: "Some (JStr ?i) \<notin> set (request_ids s)"
  proof
    assume "Some (JStr ?i) \<in> set (request_ids s)"
    then obtain c' now' where "c' \<le> sx_requestCounter s" "?i = request_id c' now'" using old by blast
    then show False using request_id_inj [of ?c now c' now'] by simp
  qed
  have num: "\<exists>c now. c \<le> ?c \<and> j = Some (JStr (request_id c now))" if "j \<in> set (request_ids s')" for j
    using that old [of j] unfolding ids by (auto intro: le_SucI)
  have "list_all (honest p b r) (map snd (sx_sent s'))"
    using assms by (simp add: speaks_def fields del: send_fields) (simp add: honest_def bridge_request_def rt)
  then have "speaks p b r ready s'"
    using assms new num by (auto simp: speaks_def list_all_iff ids fields(1-5))
  then show ?thesis unfolding res by (simp add: asked_def ids)
qed

lemma handler_speaks [simp]:
  "speaks p b r ready (add_handler e h s) = speaks p b r ready s" "speaks p b r ready (delete_handler e h s) = speaks p b r ready s"
  by (simp_all add: add_handler_def delete_handler_def Let_def)

lemma invoke_asked: "speaks p b r ready s \<Longrightarrow> asked p b r ready (invoke_api now c s)"
  by (cases c) (auto intro!: callHost_asked split: option.split json.split)

lemma exec_speaks:
  "speaks p b r ready s \<Longrightarrow> exec now code s = (x, s') \<Longrightarrow>
    speaks p b r ready s' \<and> (\<forall>i k. x = Awaiting i k \<longrightarrow> Some (JStr i) \<in> set (request_ids s'))"
proof (induction code arbitrary: s)
  case (Call c k)
  obtain y s1 where i: "invoke_api now c s = (y, s1)" by fastforce
  have s1: "asked p b r ready (y, s1)" using invoke_asked [OF Call.prems(1), of now c] by (simp add: i)
  show ?case
  proof (cases y)
    case (Inl m)
    then show ?thesis using Call.IH(2) [OF rangeI, of s1 "Inl m"] Call.prems(2) s1 i by simp
  next
    case (Inr rid)
    then show ?thesis using Call.prems(2) s1 i by (auto simp: asked_def)
  qed
qed auto

lemma send_error_speaks: "speaks p b r ready s \<Longrightarrow> speaks p b r ready (send_error m s)"
  unfolding send_error_def by (rule speaks_send) (auto simp: honest_def is_request_def speaks_def)

lemma send_handler_error_speaks: "speaks p b r ready s \<Longrightarrow> speaks p b r ready (send_handler_error m s)"
  unfolding send_handler_error_def by (rule speaks_send) (auto simp: honest_def is_request_def speaks_def)

lemma send_initialized_speaks: "speaks p b r True s \<Longrightarrow> speaks p b r True (send_initialized s)"
  unfolding send_initialized_def by (rule speaks_send) (auto simp: honest_def is_request_def speaks_def)

lemma map_set_member: "x \<in> set (map_set k v m) \<Longrightarrow> fst x = k \<or> x \<in> set m"
  by (induction m) (auto split: if_splits)

lemma pend_speaks:
  assumes "speaks p b r ready s" "Some (JStr i) \<in> set (request_ids s)"
  shows "speaks p b r ready (pend i w k s)"
proof -
  have "request_ids (pend i w k s) = request_ids s" by (simp add: request_ids_def pend_def)
  moreover have "Some (JStr (fst x)) \<in> set (request_ids s)" if "x \<in> set (map_set i (w, k) (sx_pending s))" for x
    using map_set_member [OF that] assms by (auto simp: speaks_def list_all_iff)
  moreover have "distinct (map fst (map_set i (w, k) (sx_pending s)))" using assms by (simp add: speaks_def distinct_update)
  ultimately show ?thesis using assms by (simp add: speaks_def list_all_iff pend_def)
qed

lemma run_handlers_speaks:
  "speaks p b r ready s \<Longrightarrow> speaks p b r ready (run_handlers now event e hs s)"
proof (induction now event e hs s rule: run_handlers.induct)
  case (2 now event eventType e h rest s)
  obtain x s1 where x: "exec now (snd h event) s = (x, s1)" by fastforce
  note s1 = exec_speaks [OF 2(3) x]
  show ?case using 2(1,2) x s1 send_handler_error_speaks pend_speaks by (cases x) (simp_all add: x)
qed simp

lemma resume_speaks:
  assumes "speaks p b r True s"
  shows "speaks p b r True (resume now w code s)"
proof -
  obtain x s1 where x: "exec now code s = (x, s1)" by fastforce
  note s1 = exec_speaks [OF assms x]
  show ?thesis
    using s1 by (cases w; cases x) (auto simp: resume_def after_entry_def after_command_def after_event_def x
        intro: send_initialized_speaks send_error_speaks send_handler_error_speaks pend_speaks run_handlers_speaks)
qed

lemma receive_speaks:
  assumes s: "speaks p b r ready s" and t: "json_get data ''runtimeToken'' = Some (JStr r)"
  shows "speaks p b r False (receive now entry origin data s)"
proof -
  note weak = speaks_weaken [of p b r True]
  have tok: "speaks p b r True s" if "Some (JStr r) = Some (jopt (sx_runtimeToken s))"
    using s that by (cases "sx_runtimeToken s") (simp_all add: speaks_def)
  have entry: "speaks p b r True (initializeRuntime now entry u)" if "speaks p b r True u" for u
    using resume_speaks [OF that, of now InEntry] send_error_speaks [OF that]
    by (simp add: initializeRuntime_def resume_def split: option.split)
  have set_token: "speaks p b r True (s\<lparr>sx_runtimeToken := Some r, sx_hostOrigin := h\<rparr>)" for h
    using s by (simp add: speaks_def request_ids_def)
  have removed: "speaks p b r True (s\<lparr>sx_pending := map_remove i (sx_pending s)\<rparr>)" if "speaks p b r True s" for i
    using that distinct_map_map_remove [of fst "sx_pending s" i] by (auto simp: speaks_def request_ids_def map_remove_def list_all_iff)
  have command: "speaks p b r True (after_command (exec now code s))" if "speaks p b r True s" for code
    using resume_speaks [OF that, of now InCommand] by (simp add: resume_def)
  show ?thesis
    using speaks_weaken [OF s] weak [OF entry [OF set_token]] weak [OF run_handlers_speaks [OF tok]] weak [OF command [OF tok]]
      weak [OF resume_speaks [OF removed [OF tok]]]
    by (auto simp: receive_def on_init_def on_response_def on_event_def on_command_def t Let_def send_error_speaks split: option.split)
qed

lemma load_speaks: "speaks p b r False (load_script p b)"
  by (simp add: load_script_def speaks_def send_def honest_def request_ids_def is_request_def)

text \<open>The requests of the script are numbered apart, and it waits only for requests it has sent.\<close>

lemma receives_speaks:
  assumes "list_all (\<lambda>(now, origin, data). json_get data ''runtimeToken'' = Some (JStr r)) messages"
  shows "speaks p b r False s \<Longrightarrow> speaks p b r False (fold (\<lambda>(now, origin, data). receive now entry origin data) messages s)"
  using assms by (induction messages arbitrary: s) (auto simp: receive_speaks)

subsection \<open>What every step of the host keeps\<close>

definition ident :: "plugin_instance \<Rightarrow> plugin_manifest \<times> string \<times> string" where
  "ident i = (pi_manifest i, pi_bootstrapToken i, pi_runtimeToken i)"

fun message_token :: "host_message \<Rightarrow> string" where
  "message_token (HostInit p t permissions) = t"
| "message_token (HostBridgeResponse t response) = t"
| "message_token (HostEvent t eventType payload createdAt) = t"
| "message_token (HostCommandExecute p t commandId triggeredAt) = t"

lemma host_json_token: "json_get (host_json m) ''runtimeToken'' = Some (JStr (message_token m))"
  by (cases m) simp_all

lemma run_method_token:
  assumes "ph_objects h n = Some i"
  shows "\<exists>j. ph_objects (snd (run_method env n inst p m params h)) n = Some j \<and> ident j = ident i"
proof -
  have "\<exists>j. ph_objects (snd (m_registerCommand env n p params h)) n = Some j \<and> ident j = ident i"
    "\<exists>j. ph_objects (snd (m_registerPanel env n p params h)) n = Some j \<and> ident j = ident i"
    "\<exists>j. ph_objects (snd (m_setPanelContent env n inst params h)) n = Some j \<and> ident j = ident i"
    "\<exists>j. ph_objects (snd (m_subscribe n inst params h)) n = Some j \<and> ident j = ident i"
    "\<exists>j. ph_objects (snd (m_unsubscribe n params h)) n = Some j \<and> ident j = ident i"
    "ph_objects (snd (m_storageGet env p params h)) = ph_objects h" "ph_objects (snd (m_storageSet env p params h)) = ph_objects h"
    "ph_objects (snd (m_storageDelete env p params h)) = ph_objects h" "ph_objects (snd (m_storageList env p h)) = ph_objects h"
    "ph_objects (snd (m_showLocal env p params h)) = ph_objects h"
    using assms by (simp_all add: method_defs Let_def store_simps ident_def split: option.split)
  then show ?thesis using assms by (simp add: run_method_def)
qed

text \<open>
  An invariant of the host that concerns iframes and posts: it does not look at anything else, survives updates of
  an instance that keep its identity, posts under the token of their iframe, and new iframes. Then every step of a
  well-formed host keeps it.
\<close>

locale host_invariant =
  fixes I :: "plugin_host \<Rightarrow> bool"
  assumes frame: "I h \<Longrightarrow> ph_objects h' = ph_objects h \<Longrightarrow> ph_posts h' = ph_posts h \<Longrightarrow> I h'"
    and object: "I h \<Longrightarrow> (\<And>i. ident (f i) = ident i) \<Longrightarrow> I (set_object n f h)"
    and post: "I h \<Longrightarrow> ph_objects h n = Some i \<Longrightarrow> message_token m = pi_runtimeToken i \<Longrightarrow> I (h\<lparr>ph_posts := ph_posts h @ [(n, m)]\<rparr>)"
    and fresh: "I h \<Longrightarrow> host_ok h \<Longrightarrow> I (h\<lparr>ph_objects := (ph_objects h)(ph_next h \<mapsto> i)\<rparr>)"
begin

lemma stored: "I h \<Longrightarrow> I (set_store g h)"
  by (rule frame) (simp_all add: store_simps)

lemma noticed: "I h \<Longrightarrow> I (add_notice env p m h)"
  by (rule frame) (simp_all add: store_simps)

lemma synced: "I h \<Longrightarrow> I (syncPluginRuntimeCollections env p h)"
  by (rule frame) (simp_all add: store_simps)

lemma status: "I h \<Longrightarrow> I (set_status env p st e h)"
  unfolding set_status_def by (rule stored)

lemma drawn: "I h \<Longrightarrow> I (snd (fresh_id env h))"
  by (rule frame) (simp_all add: fresh_id_def)

lemma posted: "I h \<Longrightarrow> ph_objects h n = Some i \<Longrightarrow> message_token m = pi_runtimeToken i \<Longrightarrow> I (postToPlugin n m h)"
  by (simp add: postToPlugin_def post)

lemma torn: "I h \<Longrightarrow> I (teardownPlugin p h)"
proof -
  assume I: "I h"
  have "I (set_object n (\<lambda>i. i\<lparr>pi_attached := False\<rparr>) h)" for n by (rule object [OF I]) (simp add: ident_def)
  from frame [OF this] have "I ((set_object n (\<lambda>i. i\<lparr>pi_attached := False\<rparr>) h)\<lparr>ph_active := as\<rparr>)" for n as by simp
  then show ?thesis using I by (simp add: teardownPlugin_def stored split: option.split)
qed

lemma all_torn: "I h \<Longrightarrow> I (foldl (\<lambda>s p. teardownPlugin p s) h ps)"
  by (induction ps arbitrary: h) (simp_all add: torn)

lemma failed: "I h \<Longrightarrow> I (failPlugin env p m h)"
  unfolding failPlugin_def by (intro noticed stored torn)

lemma stopped: "I h \<Longrightarrow> I (stop h)"
proof -
  assume I: "I h"
  have "I (h\<lparr>ph_started := False, ph_listening := False\<rparr>)" by (rule frame [OF I]) simp_all
  from frame [OF all_torn [OF this]] show ?thesis using I by (simp add: stop_def)
qed

lemma begun:
  assumes I: "I h" and h: "host_ok h"
  shows "I (fst (enable_begin env p h))"
proof (cases "map_get (ph_descriptors h) p")
  case None
  then show ?thesis using I by (simp add: enable_begin_def status)
next
  case (Some d)
  let ?h1 = "set_store (setDesiredEnabled p True) h"
  have wanted: "I ?h1" by (rule stored [OF I])
  consider (denied) c where "find (\<lambda>c. \<not> isCapabilityAllowedInV1 c) (pm_requestedPermissions (pd_manifest d)) = Some c"
    | (active) "find (\<lambda>c. \<not> isCapabilityAllowedInV1 c) (pm_requestedPermissions (pd_manifest d)) = None" "map_get (ph_active h) p \<noteq> None"
    | (new) "find (\<lambda>c. \<not> isCapabilityAllowedInV1 c) (pm_requestedPermissions (pd_manifest d)) = None" "map_get (ph_active h) p = None"
    by fastforce
  then show ?thesis
  proof cases
    case denied
    then show ?thesis using Some by (simp add: enable_begin_def Let_def status wanted)
  next
    case active
    then show ?thesis using Some by (auto simp: enable_begin_def Let_def store_simps intro: status wanted)
  next
    case new
    let ?i = "createActiveInstance d (pe_random env (ph_random h)) (pe_random env (Suc (ph_random h)))"
    show ?thesis
      by (rule frame [OF fresh [OF I h, of ?i]]) (use Some new in \<open>simp_all add: enable_begin_def Let_def fresh_id_def store_simps set_store_def\<close>)
  qed
qed

lemma enabled: "I h \<Longrightarrow> host_ok h \<Longrightarrow> I (enable_all env js h)"
proof (induction env js h rule: enable_all.induct)
  case (2 env p rest h)
  obtain h' t where e: "enable_begin env p h = (h', t)" by fastforce
  have h': "I h'" using begun [OF 2(2,3), of env p] by (simp add: e)
  show ?case
  proof (cases t)
    case None
    then show ?thesis using e 2(1) h' enable_begin_ok(1) [OF 2(3) e] by simp
  next
    case (Some nm)
    then obtain n m where "t = Some (n, m)" by (cases nm) auto
    then show ?thesis using e frame [OF h'] by simp
  qed
qed (simp_all add: stored host_ok_raw_status)

lemma finished: "I h \<Longrightarrow> I (finish_enable env t h)"
  by (auto simp: finish_enable_def intro!: synced stored status split: option.split)

lemma dropped: "I h \<Longrightarrow> I (drop_task k h)"
  by (rule frame) (simp_all add: drop_task_def)

lemma continued: "I h \<Longrightarrow> host_ok h \<Longrightarrow> I (boot_continue env k h)"
proof -
  assume I: "I h" and h: "host_ok h"
  have task: "I (h\<lparr>ph_tasks := ts\<rparr>)" for ts by (rule frame [OF I]) simp_all
  show ?thesis using I h
    by (auto simp: boot_continue_def Let_def split: option.split boot_phase.split
        intro!: enabled finished dropped posted [OF task] host_ok_finish host_ok_drop_task)
qed

lemma timed_out: "I h \<Longrightarrow> host_ok h \<Longrightarrow> I (boot_timeout env k h)"
  by (auto simp: boot_timeout_def Let_def split: option.split boot_phase.split intro!: enabled failed dropped host_ok_fail host_ok_drop_task)

lemma disabled: "I h \<Longrightarrow> I (disable env p h)"
  by (auto simp: disable_def Let_def split: option.split intro!: stored status torn)

lemma installed: "I h \<Longrightarrow> I (install env p h)"
  by (auto simp: install_def split: option.split intro!: stored status)

lemma emitted: "I h \<Longrightarrow> I (emitEvent env e payload h)"
proof -
  have "I h \<Longrightarrow> I (fold (emit_to env e payload) ps h)" for ps h
    by (induction ps arbitrary: h) (auto simp: emit_to_def posted split: option.split)
  then show "I h \<Longrightarrow> I (emitEvent env e payload h)" by (simp add: emitEvent_def Let_def drawn)
qed

lemma executed: "I h \<Longrightarrow> I (executeCommand env p c h)"
  by (auto simp: executeCommand_def split: option.split intro!: emitted posted noticed)

lemma changed: "I h \<Longrightarrow> I (messaging_changed env s h)"
proof -
  assume I: "I h"
  note plain = frame
  have "I (h\<lparr>ph_messaging := s\<rparr>)" by (rule frame [OF I]) simp_all
  moreover have "I (notify_transport env s g)" "I (notify_conversation env s g)" "I (notify_visible env s g)" if "I g" for g
    using that frame [OF that, of "g\<lparr>ph_transportSnapshot := t\<rparr>" for t] frame [OF that, of "g\<lparr>ph_conversationSnapshot := t\<rparr>" for t]
      frame [OF that, of "g\<lparr>ph_visibleSnapshot := t\<rparr>" for t]
    by (auto simp: notify_transport_def notify_conversation_def notify_visible_def Let_def intro!: emitted)
  ultimately show ?thesis by (simp add: messaging_changed_def Let_def)
qed

lemma refreshed:
  assumes I: "I h" and h: "host_ok h"
  shows "I (refreshDiscovery env code ds h)"
proof -
  obtain c a where l: "discover_loop env (pst_registry (ph_store h)) (pst_desiredEnabled (ph_store h))
      (bundledPluginDescriptors code @ ds) \<lparr>dc_registry = [], dc_seen = [], dc_descriptors = []\<rparr> = (c, a)" by fastforce
  have "I (h\<lparr>ph_descriptors := dc_descriptors a\<rparr>)" by (rule frame [OF I]) simp_all
  then show ?thesis unfolding refreshDiscovery_def Let_def l using host_ok_discovered [OF h l]
    by (auto intro!: enabled all_torn stored host_ok_foldl_teardown)
qed

lemma method_kept: "I h \<Longrightarrow> I (snd (run_method env n inst p m params h))"
proof -
  assume I: "I h"
  have obj: "I (set_object n (pi_commands_update f) h)" "I (set_object n (pi_panels_update g) h)" "I (set_object n (pi_subscriptions_update k) h)" for f g k
    by (rule object [OF I]; simp add: ident_def)+
  have obj': "I (set_object n (\<lambda>i. i\<lparr>pi_commands := f i\<rparr>) h)" "I (set_object n (\<lambda>i. i\<lparr>pi_panels := g i\<rparr>) h)"
    "I (set_object n (\<lambda>i. i\<lparr>pi_subscriptions := k i\<rparr>) h)" for f g k
    by (rule object [OF I]; simp add: ident_def)+
  have loc: "I (h\<lparr>ph_local := l\<rparr>)" for l by (rule frame [OF I]) simp_all
  have "I (snd (m_registerCommand env n p params h))" "I (snd (m_registerPanel env n p params h))"
    by (simp_all add: m_registerCommand_def m_registerPanel_def Let_def I synced obj')
  moreover have "I (snd (m_setPanelContent env n inst params h))"
    by (simp add: m_setPanelContent_def Let_def I stored obj' split: option.split)
  moreover have "I (snd (m_storageGet env p params h))" "I (snd (m_storageSet env p params h))"
    "I (snd (m_storageDelete env p params h))" "I (snd (m_storageList env p h))"
    by (simp_all add: m_storageGet_def m_storageSet_def m_storageDelete_def m_storageList_def Let_def I loc)
  moreover have "I (snd (m_subscribe n inst params h))" "I (snd (m_unsubscribe n params h))" "I (snd (m_showLocal env p params h))"
    by (simp_all add: m_subscribe_def m_unsubscribe_def m_showLocal_def Let_def I noticed obj')
  ultimately show ?thesis by (simp add: run_method_def I)
qed

lemma processed: "I h \<Longrightarrow> I (snd (processBridgeRequest env n inst rq h))"
  using processBridgeRequest_cases [of env n inst rq h] method_kept by fastforce

lemma heard:
  assumes I: "I h" and h: "host_ok h"
  shows "I (handleWindowMessage env source origin data h)"
proof (cases "findInstanceForMessage source data h")
  case None
  then show ?thesis using I by (simp add: handleWindowMessage_def)
next
  case (Some pni)
  then obtain p n i where f: "findInstanceForMessage source data h = Some (p, n, i)" by (cases pni) auto
  have flags: "I (set_object n (\<lambda>i. i\<lparr>pi_ready := True\<rparr>) h)" "I (set_object n (\<lambda>i. i\<lparr>pi_initialized := True\<rparr>) h)"
    by (rule object [OF I]; simp add: ident_def)+
  have "\<exists>j. ph_objects (snd (processBridgeRequest env n i data h)) n = Some j \<and> pi_runtimeToken j = pi_runtimeToken i"
  proof (cases "snd (processBridgeRequest env n i data h) = h")
    case True
    then show ?thesis using findInstance_active(2) [OF h f] by simp
  next
    case False
    then obtain params where r: "snd (processBridgeRequest env n i data h)
        = snd (run_method env n i (pm_id (pi_manifest i)) (as_str (json_get data ''method'')) params h)"
      using processBridgeRequest_cases [of env n i data h] by blast
    obtain j where "ph_objects (snd (processBridgeRequest env n i data h)) n = Some j" "ident j = ident i"
      using run_method_token [OF findInstance_active(2) [OF h f]] unfolding r by blast
    then show ?thesis by (simp add: ident_def)
  qed
  then have "I (on_bridge_request env n i data h)"
    using processed [OF I, of env n i data]
    by (auto simp: on_bridge_request_def fail_self_def Let_def split_def failed I posted)
  then show ?thesis
    using f I flags by (simp add: handleWindowMessage_def on_ready_def on_initialized_def on_error_def fail_self_def failed)
qed

lemma kept: "I h \<Longrightarrow> host_ok h \<Longrightarrow> I (host_step env ev h)"
proof (cases ev)
  case EvStart
  then show "I h \<Longrightarrow> I (host_step env ev h)" using frame [of h "start h"] by (simp add: start_def)
qed (simp_all add: stopped refreshed enable_def enabled disabled installed executed heard continued timed_out changed del: enable_all.simps)

end

text \<open>Every post is under the token of its iframe, and an iframe keeps its manifest and its tokens.\<close>

definition posts_ok :: "plugin_host \<Rightarrow> bool" where
  "posts_ok h \<longleftrightarrow> list_all (\<lambda>(n, m). \<exists>i. ph_objects h n = Some i \<and> message_token m = pi_runtimeToken i) (ph_posts h)"

definition posts_and_ident :: "nat \<Rightarrow> plugin_manifest \<times> string \<times> string \<Rightarrow> plugin_host \<Rightarrow> bool" where
  "posts_and_ident n x h \<longleftrightarrow> posts_ok h \<and> (\<exists>i. ph_objects h n = Some i \<and> ident i = x)"

interpretation host_tokens: host_invariant posts_ok
proof unfold_locales
  fix h f n assume "posts_ok h" "\<And>i. ident (f i) = ident i"
  then show "posts_ok (set_object n f h)" by (fastforce simp: posts_ok_def list_all_iff store_simps ident_def)
next
  fix h i assume p: "posts_ok h" and h: "host_ok h"
  have "m \<noteq> ph_next h" if "ph_objects h m = Some j" for m j using h that by (auto simp: host_ok_defs)
  then show "posts_ok (h\<lparr>ph_objects := (ph_objects h)(ph_next h \<mapsto> i)\<rparr>)"
    using p by (fastforce simp: posts_ok_def list_all_iff)
qed (auto simp: posts_ok_def)

interpretation host_ident: host_invariant "posts_and_ident n x" for n x
proof unfold_locales
  fix h f m assume "posts_and_ident n x h" "\<And>i. ident (f i) = ident i"
  then show "posts_and_ident n x (set_object m f h)"
    using host_tokens.object [of h f m] by (auto simp: posts_and_ident_def store_simps)
next
  fix h i assume p: "posts_and_ident n x h" and h: "host_ok h"
  have "m \<noteq> ph_next h" if "ph_objects h m = Some j" for m j using h that by (auto simp: host_ok_defs)
  then show "posts_and_ident n x (h\<lparr>ph_objects := (ph_objects h)(ph_next h \<mapsto> i)\<rparr>)"
    using p host_tokens.fresh [OF _ h] by (auto simp: posts_and_ident_def)
qed (auto simp: posts_and_ident_def posts_ok_def)

lemma reachable_posts_ok: "host_reachable h \<Longrightarrow> posts_ok h"
proof (induction rule: host_reachable.induct)
  case host_init
  then show ?case by (simp add: posts_ok_def initial_host_def)
next
  case host_next
  then show ?case using host_tokens.kept reachable_host_ok by blast
qed

subsection \<open>Both ends speak the same protocol\<close>

text \<open>The host does with a message of the kind what the message is for; it neither ignores nor rejects it.\<close>

definition obeyed :: "plugin_env \<Rightarrow> nat \<Rightarrow> plugin_instance \<Rightarrow> json \<Rightarrow> plugin_host \<Rightarrow> bool" where
  "obeyed env n i m h \<longleftrightarrow> (let h' = handleWindowMessage env (Some n) ''null'' m h; kind = json_get m ''kind'' in
     kind = Some (JStr ''plugin.runtime.ready'') \<and> h' = set_object n (\<lambda>i. i\<lparr>pi_ready := True\<rparr>) h
   \<or> kind = Some (JStr ''plugin.runtime.initialized'') \<and> h' = set_object n (\<lambda>i. i\<lparr>pi_initialized := True\<rparr>) h
   \<or> kind = Some (JStr ''plugin.runtime.error'') \<and> h' = failPlugin env (pm_id (pi_manifest i))
       (if truthy (json_get m ''message'') then the (json_get m ''message'') else JStr ''plugin runtime error'') h
   \<or> kind = Some (JStr ''plugin.bridge.request'') \<and> h' = (case processBridgeRequest env n i m h of
       (response, h1) \<Rightarrow> postToPlugin n (HostBridgeResponse (pi_runtimeToken i) response) h1))"

lemma honest_obeyed:
  assumes h: "host_ok h" "(p, n) \<in> set (ph_active h)" "ph_objects h n = Some i" "pm_id (pi_manifest i) = p"
    and m: "honest p (pi_bootstrapToken i) (pi_runtimeToken i) m"
  shows "obeyed env n i m h"
proof -
  have "handleWindowMessage env (Some n) ''null'' m h =
     (if json_get m ''kind'' = Some (JStr ''plugin.runtime.ready'') then on_ready env n i m h
      else if json_get m ''kind'' = Some (JStr ''plugin.runtime.initialized'') then on_initialized env n i m h
      else if json_get m ''kind'' = Some (JStr ''plugin.runtime.error'') then on_error env i m h
      else if json_get m ''kind'' = Some (JStr ''plugin.bridge.request'') then on_bridge_request env n i m h else h)"
    using m find_by_source [OF h(1-3)] h(4) by (simp add: handleWindowMessage_def honest_def str_of_def)
  note handled = this
  consider (ready) "json_get m ''kind'' = Some (JStr ''plugin.runtime.ready'')" "json_get m ''bootstrapToken'' = Some (JStr (pi_bootstrapToken i))"
    | (initialized) "json_get m ''kind'' = Some (JStr ''plugin.runtime.initialized'')" "json_get m ''bootstrapToken'' = Some (JStr (pi_bootstrapToken i))"
        "json_get m ''runtimeToken'' = Some (JStr (pi_runtimeToken i))"
    | (error) "json_get m ''kind'' = Some (JStr ''plugin.runtime.error'')" "json_get m ''bootstrapToken'' = Some (JStr (pi_bootstrapToken i))"
        "truthy (json_get m ''runtimeToken'') \<longrightarrow> json_get m ''runtimeToken'' = Some (JStr (pi_runtimeToken i))"
    | (request) "json_get m ''kind'' = Some (JStr ''plugin.bridge.request'')" "json_get m ''runtimeToken'' = Some (JStr (pi_runtimeToken i))"
    using m unfolding honest_def Let_def by blast
  then show ?thesis
    unfolding obeyed_def Let_def handled
    by cases (auto simp: on_ready_def on_initialized_def on_error_def on_bridge_request_def split_def Let_def)
qed

text \<open>The invariant of a link whose script was loaded for the instance.\<close>

definition linked :: "nat \<Rightarrow> plugin_manifest \<Rightarrow> string \<Rightarrow> string \<Rightarrow> link \<Rightarrow> bool" where
  "linked n m b r l \<longleftrightarrow> host_reachable (lk_host l) \<and> posts_and_ident n (m, b, r) (lk_host l) \<and> speaks (pm_id m) b r False (lk_box l)"

lemma posts_to_token:
  assumes "posts_and_ident n (m, b, r) h" "message \<in> set (posts_to n h)"
  shows "message_token message = r"
  using assms by (fastforce simp: posts_and_ident_def posts_ok_def posts_to_def list_all_iff ident_def)

lemma linked_step:
  assumes l: "linked n m b r l"
  shows "linked n m b r (link_step env n entry ev l)"
proof (cases ev)
  case (ToBox now)
  show ?thesis
  proof (cases "drop (lk_seen l) (posts_to n (lk_host l))")
    case Nil
    then show ?thesis using l by (simp add: ToBox)
  next
    case (Cons message rest)
    then have "message \<in> set (posts_to n (lk_host l))" by (metis in_set_dropD list.set_intros(1))
    then have "message_token message = r" using l posts_to_token by (auto simp: linked_def)
    then show ?thesis using l receive_speaks [of "pm_id m" b r False "lk_box l" "host_json message"] Cons
      by (auto simp: linked_def ToBox host_json_token)
  qed
next
  case ToHost
  have "handleWindowMessage env (Some n) ''null'' message (lk_host l) = host_step env (EvWindowMessage (Some n) ''null'' message) (lk_host l)"
    for message by simp
  then have "host_reachable (handleWindowMessage env (Some n) ''null'' message (lk_host l))
      \<and> posts_and_ident n (m, b, r) (handleWindowMessage env (Some n) ''null'' message (lk_host l))" for message
    using l host_next host_ident.kept reachable_host_ok unfolding linked_def by metis
  then show ?thesis using l by (auto simp: linked_def ToHost split: list.split)
next
  case (AtHost e)
  then show ?thesis using l host_next host_ident.kept reachable_host_ok by (auto simp: linked_def)
qed

lemma linked_run: "linked n m b r l \<Longrightarrow> linked n m b r (link_run env n entry events l)"
  unfolding link_run_def by (induction events arbitrary: l) (simp_all add: linked_step)

text \<open>Host and iframe once the host has created the iframe of an active plugin and its script has been loaded.\<close>

definition fresh_link :: "plugin_host \<Rightarrow> nat \<Rightarrow> plugin_instance \<Rightarrow> link" where
  "fresh_link h n i = \<lparr>lk_host = h, lk_box = load_script (pm_id (pi_manifest i)) (pi_bootstrapToken i),
     lk_seen = length (posts_to n h), lk_heard = 0\<rparr>"

lemma linked_fresh:
  assumes "host_reachable h" "ph_objects h n = Some i"
  shows "linked n (pi_manifest i) (pi_bootstrapToken i) (pi_runtimeToken i) (fresh_link h n i)"
  using assms reachable_posts_ok load_speaks by (simp add: linked_def fresh_link_def posts_and_ident_def ident_def)

text \<open>C14. Host and script speak the same protocol. For every plugin, whatever its code does, however messages and
  other events of the host are interleaved: as long as the plugin is active, the host obeys every message its
  script sends. None is ignored, and none is taken for a violation, be it for its tokens, its id or its origin.\<close>

theorem script_is_obeyed:
  assumes "host_reachable h" "(p, n) \<in> set (ph_active h)" "ph_objects h n = Some i"
    and "l = link_run env n entry events (fresh_link h n i)"
    and "(p, n) \<in> set (ph_active (lk_host l))" "(origin, m) \<in> set (sx_sent (lk_box l))"
  shows "\<exists>j. ph_objects (lk_host l) n = Some j \<and> obeyed env n j m (lk_host l)"
proof -
  have l: "linked n (pi_manifest i) (pi_bootstrapToken i) (pi_runtimeToken i) l"
    unfolding assms(4) by (rule linked_run [OF linked_fresh [OF assms(1,3)]])
  then obtain j where j: "ph_objects (lk_host l) n = Some j" "ident j = ident i"
    by (auto simp: linked_def posts_and_ident_def ident_def)
  have h: "host_ok (lk_host l)" using l reachable_host_ok by (simp add: linked_def)
  have "map_get (ph_active (lk_host l)) p = Some n" using h assms(5) by (simp add: host_ok_defs)
  then have "pm_id (pi_manifest j) = p" using host_okD(1) [OF h, of p n] j(1) by simp
  moreover have "honest (pm_id (pi_manifest j)) (pi_bootstrapToken j) (pi_runtimeToken j) m"
    using l assms(6) j(2) by (auto simp: linked_def speaks_def list_all_iff ident_def)
  ultimately show ?thesis using honest_obeyed [OF h assms(5) j(1)] j(1) by auto
qed

lemma script_is_obeyed_witness:
  "\<exists>i j. ph_objects ex_enabled 0 = Some i \<and> ph_objects (lk_host (fresh_link ex_enabled 0 i)) 0 = Some j
     \<and> obeyed ex_env 0 j (ready_message ''demo.local.actions'' (pi_bootstrapToken i)) (lk_host (fresh_link ex_enabled 0 i))"
proof -
  obtain i where i: "ph_objects ex_enabled 0 = Some i" using ex_enabled_facts by blast
  have active: "(''demo.local.actions'', 0) \<in> set (ph_active ex_enabled)" using ex_enabled_facts(1) by simp
  then have "map_get (ph_active ex_enabled) ''demo.local.actions'' = Some 0" using ex_enabled_facts(1) by simp
  then have p: "pm_id (pi_manifest i) = ''demo.local.actions''"
    using host_okD(1) [OF reachable_host_ok [OF ex_enabled_reachable]] i by fastforce
  have host: "lk_host (fresh_link ex_enabled 0 i) = ex_enabled" by (simp add: fresh_link_def)
  have sent: "(''*'', ready_message ''demo.local.actions'' (pi_bootstrapToken i)) \<in> set (sx_sent (lk_box (fresh_link ex_enabled 0 i)))"
    by (simp add: fresh_link_def load_script_def send_def ready_message_def p)
  have run: "fresh_link ex_enabled 0 i = link_run ex_env 0 None [] (fresh_link ex_enabled 0 i)" by (simp add: link_run_def)
  show ?thesis using script_is_obeyed [OF ex_enabled_reachable active i run _ sent] active i by (auto simp: host)
qed

text \<open>Replies reach the calls they answer. Whatever the code of the plugin does and in whatever order the host
  answers: the script never uses a request id twice, and every call that waits for a reply waits under an id of a
  request it has sent, one call for each id.\<close>

theorem requests_are_numbered_apart:
  assumes "host_reachable h" "ph_objects h n = Some i" "l = link_run env n entry events (fresh_link h n i)"
  shows "distinct (request_ids (lk_box l)) \<and> distinct (map fst (sx_pending (lk_box l)))
    \<and> (\<forall>(rid, w) \<in> set (sx_pending (lk_box l)). Some (JStr rid) \<in> set (request_ids (lk_box l)))"
proof -
  have "linked n (pi_manifest i) (pi_bootstrapToken i) (pi_runtimeToken i) l"
    unfolding assms(3) by (rule linked_run [OF linked_fresh [OF assms(1,2)]])
  then show ?thesis by (auto simp: linked_def speaks_def list_all_iff)
qed

lemma requests_are_numbered_apart_witness:
  "\<exists>i. ph_objects ex_enabled 0 = Some i
    \<and> distinct (request_ids (lk_box (link_run ex_env 0 (Some transportPanelCode) [ToHost, AtHost (EvBootContinue 0), ToBox 5] (fresh_link ex_enabled 0 i))))"
proof -
  obtain i where "ph_objects ex_enabled 0 = Some i" using ex_enabled_facts by blast
  then show ?thesis using requests_are_numbered_apart [OF ex_enabled_reachable _ refl] by blast
qed

end
