(* ===== verification/Plugin_Link.thy ===== *)
theory Plugin_Link
  imports Plugin_Protocol
begin

text \<open>
  The link between a plugin's script and the host at work: a call of the script and its reply as one round
  trip, the sizes of requests, what the host's methods do to an instance, and which events reach it.
\<close>

subsection \<open>Round trips\<close>

text \<open>
  A link in the middle of its life: the instance is active, the script has its runtime token and has received every
  post. \<open>quiet\<close>: the host has received everything the script sent.
\<close>

definition open_link :: "plugin_env \<Rightarrow> nat \<Rightarrow> plugin_instance \<Rightarrow> link \<Rightarrow> bool" where
  "open_link env n i l \<longleftrightarrow> linked n (pi_manifest i) (pi_bootstrapToken i) (pi_runtimeToken i) l
     \<and> ph_objects (lk_host l) n = Some i \<and> (pm_id (pi_manifest i), n) \<in> set (ph_active (lk_host l))
     \<and> lk_seen l = length (posts_to n (lk_host l))
     \<and> sx_runtimeToken (lk_box l) = Some (pi_runtimeToken i) \<and> 12 \<le> length (pi_runtimeToken i) \<and> length (pi_runtimeToken i) \<le> 128
     \<and> (sx_hostOrigin (lk_box l) = ''*'' \<or> sx_hostOrigin (lk_box l) = pe_origin env \<and> pe_origin env \<noteq> [])"

definition quiet :: "link \<Rightarrow> bool" where
  "quiet l \<longleftrightarrow> lk_heard l = length (sx_sent (lk_box l))"

text \<open>The script has asked for one method, which the host has still to receive, and \<open>(w, k)\<close> waits for the reply.\<close>

definition asks :: "link \<Rightarrow> string \<Rightarrow> json \<Rightarrow> waiting \<Rightarrow> (reply \<Rightarrow> plugin_code) \<Rightarrow> bool" where
  "asks l method params w k \<longleftrightarrow> (\<exists>rid. lk_heard l \<le> length (sx_sent (lk_box l)) \<and> drop (lk_heard l) (sx_sent (lk_box l))
       = [(sx_hostOrigin (lk_box l), bridge_request (sx_pluginId (lk_box l)) (the (sx_runtimeToken (lk_box l))) rid method params)]
     \<and> map_get (sx_pending (lk_box l)) rid = Some (w, k) \<and> rid \<noteq> [] \<and> length rid \<le> 128)"

text \<open>The request fits the limit of the bridge, whatever its id.\<close>

definition fits :: "plugin_instance \<Rightarrow> string \<Rightarrow> json \<Rightarrow> bool" where
  "fits i method params \<longleftrightarrow> (\<forall>rid. length rid \<le> 128 \<longrightarrow>
     (\<exists>t. stringify (bridge_request (pm_id (pi_manifest i)) (pi_runtimeToken i) rid method params) = Some t \<and> utf8_size t \<le> MAX_BRIDGE_PAYLOAD_BYTES))"

lemma open_linkD:
  assumes "open_link env n i l"
  shows "host_ok (lk_host l)" "ph_objects (lk_host l) n = Some i" "(pm_id (pi_manifest i), n) \<in> set (ph_active (lk_host l))"
    "map_get (ph_active (lk_host l)) (pm_id (pi_manifest i)) = Some n" "pi_attached i" "instance_ok i"
    "sx_pluginId (lk_box l) = pm_id (pi_manifest i)" "sx_runtimeToken (lk_box l) = Some (pi_runtimeToken i)" "present (Some (pi_runtimeToken i))"
    "lk_seen l = length (posts_to n (lk_host l))"
proof -
  show h: "host_ok (lk_host l)" using assms reachable_host_ok by (simp add: open_link_def linked_def)
  show o: "ph_objects (lk_host l) n = Some i" and a: "(pm_id (pi_manifest i), n) \<in> set (ph_active (lk_host l))"
    using assms by (simp_all add: open_link_def)
  show m: "map_get (ph_active (lk_host l)) (pm_id (pi_manifest i)) = Some n" using h a by (simp add: host_ok_defs)
  show "pi_attached i" "instance_ok i" using host_okD(1) [OF h m] o by (simp_all add: inst_inv_def)
  show "sx_pluginId (lk_box l) = pm_id (pi_manifest i)" "sx_runtimeToken (lk_box l) = Some (pi_runtimeToken i)"
    "lk_seen l = length (posts_to n (lk_host l))" using assms by (simp_all add: open_link_def linked_def speaks_def)
  show "present (Some (pi_runtimeToken i))" using assms by (auto simp: open_link_def present_def)
qed

lemma bridge_request_get [simp]:
  "json_get (bridge_request p r rid method params) ''kind'' = Some (JStr ''plugin.bridge.request'')"
  "json_get (bridge_request p r rid method params) ''pluginId'' = Some (JStr p)"
  "json_get (bridge_request p r rid method params) ''runtimeToken'' = Some (JStr r)"
  "json_get (bridge_request p r rid method params) ''requestId'' = Some (JStr rid)"
  "json_get (bridge_request p r rid method params) ''method'' = Some (JStr method)"
  "json_get (bridge_request p r rid method params) ''params'' = Some params" "is_object (bridge_request p r rid method params)"
  by (simp_all add: bridge_request_def)

lemma posts_to_post:
  "ph_objects h n = Some i \<Longrightarrow> pi_attached i \<Longrightarrow> posts_to n (postToPlugin n m h) = posts_to n h @ [m]"
  by (simp add: posts_to_def postToPlugin_def)

lemma post_fields [simp]:
  "ph_objects (postToPlugin n m h) = ph_objects h" "ph_active (postToPlugin n m h) = ph_active h" "ph_store (postToPlugin n m h) = ph_store h"
  "ph_tasks (postToPlugin n m h) = ph_tasks h" "ph_listening (postToPlugin n m h) = ph_listening h" "ph_local (postToPlugin n m h) = ph_local h"
  "ph_transportSnapshot (postToPlugin n m h) = ph_transportSnapshot h" "ph_messaging (postToPlugin n m h) = ph_messaging h"
  by (simp_all add: postToPlugin_def split: option.split)

text \<open>The host receives the request and answers it; the script goes on with the reply.\<close>

lemma round_trip:
  assumes l: "open_link env n i l" and q: "asks l method params w k"
    and c: "map_of pluginCapabilityByMethod method = Some c" "c \<in> set (pi_grantedPermissions i)"
    and p: "fits i method params" "\<not> nullish (Some params)"
    and m: "run_method env n i (pm_id (pi_manifest i)) (Some method) params (lk_host l) = (Ok v, h1)"
    and ob: "ph_objects h1 n = Some i1" "ident i1 = ident i" "pi_attached i1"
  obtains l0 response where "link_run env n entry [ToHost, ToBox t] l
      = l0\<lparr>lk_box := resume t w (k (Inr (Some v))) (lk_box l0)\<rparr>"
    "open_link env n i1 l0" "quiet l0" "lk_host l0 = postToPlugin n response h1"
    "sx_eventHandlers (lk_box l0) = sx_eventHandlers (lk_box l)" "sx_commandHandlers (lk_box l0) = sx_commandHandlers (lk_box l)"
    "sx_requestCounter (lk_box l0) = sx_requestCounter (lk_box l)" "sx_entries (lk_box l0) = sx_entries (lk_box l)"
proof -
  let ?H = "lk_host l" and ?B = "lk_box l" and ?p = "pm_id (pi_manifest i)" and ?r = "pi_runtimeToken i"
  note d = open_linkD [OF l]
  obtain rid where rid: "lk_heard l \<le> length (sx_sent ?B)" "drop (lk_heard l) (sx_sent ?B) = [(sx_hostOrigin ?B, bridge_request ?p ?r rid method params)]"
    "map_get (sx_pending ?B) rid = Some (w, k)" "rid \<noteq> []" "length rid \<le> 128"
    using q d by (auto simp: asks_def)
  let ?rq = "bridge_request ?p ?r rid method params"
  let ?resp = "HostBridgeResponse ?r (BridgeOk ?p (Some (JStr rid)) v)"
  obtain enc where enc: "stringify ?rq = Some enc" "utf8_size enc \<le> MAX_BRIDGE_PAYLOAD_BYTES"
    using p(1) rid(5) by (auto simp: fits_def)
  have "processBridgeRequest env n i ?rq ?H = (BridgeOk ?p (Some (JStr rid)) v, h1)"
    using rid enc c p(2) m unfolding processBridgeRequest_def Let_def
    by (simp add: str_of_def valid_request_id_def MAX_REQUEST_ID_LENGTH_def)
  moreover have "obeyed env n i ?rq ?H" by (rule honest_obeyed [OF d(1,3,2) refl]) (simp add: honest_def)
  ultimately have answered: "handleWindowMessage env (Some n) ''null'' ?rq ?H = postToPlugin n ?resp h1"
    by (simp add: obeyed_def Let_def)
  have origin: "sx_hostOrigin ?B = ''*'' \<or> sx_hostOrigin ?B = pe_origin env" using l by (auto simp: open_link_def)
  have len: "length (sx_sent ?B) = Suc (lk_heard l)" using arg_cong [OF rid(2), of length] rid(1) by simp
  define l1 where "l1 = link_step env n entry ToHost l"
  have l1: "l1 = l\<lparr>lk_host := postToPlugin n ?resp h1, lk_heard := Suc (lk_heard l)\<rparr>"
    using rid(2) answered origin by (auto simp: l1_def)
  have frame: "bridge_frame n ?H h1" using run_method_frame [of n ?H env i ?p "Some method" params] by (simp add: m)
  then have posts: "posts_to n h1 = posts_to n ?H" by (simp add: posts_to_def bridge_frame_def)
  have new: "drop (lk_seen l1) (posts_to n (lk_host l1)) = [?resp]" using d(10) by (simp add: l1 posts_to_post [OF ob(1,3)] posts)
  define B0 where "B0 = ?B\<lparr>sx_pending := map_remove rid (sx_pending ?B)\<rparr>"
  have received: "receive t entry (pe_origin env) (host_json ?resp) ?B = resume t w (k (Inr (Some v))) B0"
    using d(8) rid(3) by (simp add: receive_def on_response_def given_def B0_def Let_def)
  define l0 where "l0 = l1\<lparr>lk_box := B0, lk_seen := Suc (lk_seen l)\<rparr>"
  have "link_run env n entry [ToHost, ToBox t] l = link_step env n entry (ToBox t) l1"
    unfolding l1_def link_run_def by (simp del: link_step.simps)
  also have "\<dots> = l1\<lparr>lk_box := receive t entry (pe_origin env) (host_json ?resp) (lk_box l1), lk_seen := Suc (lk_seen l1)\<rparr>"
    using new by simp
  also have "\<dots> = l0\<lparr>lk_box := resume t w (k (Inr (Some v))) (lk_box l0)\<rparr>"
    using received by (simp add: l0_def l1 del: host_json.simps)
  finally have run: "link_run env n entry [ToHost, ToBox t] l = l0\<lparr>lk_box := resume t w (k (Inr (Some v))) (lk_box l0)\<rparr>" .
  have i1: "pi_manifest i1 = pi_manifest i" "pi_bootstrapToken i1 = pi_bootstrapToken i" "pi_runtimeToken i1 = pi_runtimeToken i"
    using ob(2) by (simp_all add: ident_def)
  have "linked n (pi_manifest i) (pi_bootstrapToken i) ?r l1"
    unfolding l1_def by (rule linked_step) (use l in \<open>simp add: open_link_def\<close>)
  then have "linked n (pi_manifest i) (pi_bootstrapToken i) ?r l0"
    using distinct_map_map_remove [of fst "sx_pending ?B" rid]
    by (auto simp: linked_def l0_def l1 B0_def speaks_def request_ids_def map_remove_def list_all_iff)
  then have "open_link env n i1 l0"
    using l ob frame d(10) by (simp add: open_link_def i1 l0_def l1 B0_def posts_to_post [OF ob(1,3)] posts bridge_frame_def)
  moreover have "quiet l0" by (simp add: quiet_def l0_def l1 B0_def len)
  ultimately show thesis using that [OF run] by (simp add: l0_def l1 B0_def)
qed

text \<open>A call in a quiet link makes the script ask.\<close>

lemma resume_call:
  "exec t code B = (Awaiting rid k, B1) \<Longrightarrow> resume t w code B = pend rid w k B1"
  by (simp add: resume_def after_entry_def after_command_def after_event_def split: waiting.split)

lemma call_asks:
  assumes l: "open_link env n i l" "quiet l"
    and c: "invoke_api t c (lk_box l) = callHost t method params B1"
    and B1: "B1 = (lk_box l)\<lparr>sx_commandHandlers := ch, sx_eventHandlers := eh, sx_entries := e\<rparr>"
    and rid: "length (request_id (Suc (sx_requestCounter (lk_box l))) t) \<le> 128"
    and l': "l' = l\<lparr>lk_box := resume t w (Call c k) (lk_box l)\<rparr>"
  shows "open_link env n i l'" "asks l' method params w (\<lambda>r. k (reply_of c r))"
    "sx_eventHandlers (lk_box l') = eh" "sx_commandHandlers (lk_box l') = ch" "sx_entries (lk_box l') = e"
    "sx_requestCounter (lk_box l') = Suc (sx_requestCounter (lk_box l))" "lk_host l' = lk_host l"
proof -
  let ?i = "request_id (Suc (sx_requestCounter (lk_box l))) t"
  let ?B2 = "send (bridge_request (sx_pluginId B1) (pi_runtimeToken i) ?i method params) (B1\<lparr>sx_requestCounter := Suc (sx_requestCounter (lk_box l))\<rparr>)"
  note d = open_linkD [OF l(1)]
  have ex: "exec t (Call c k) (lk_box l) = (Awaiting ?i (\<lambda>r. k (reply_of c r)), ?B2)"
    using d(8,9) by (simp add: c callHost_def B1 Let_def)
  have res: "lk_box l' = pend ?i w (\<lambda>r. k (reply_of c r)) ?B2" unfolding l' by (simp add: resume_call [OF ex])
  have s: "speaks (pm_id (pi_manifest i)) (pi_bootstrapToken i) (pi_runtimeToken i) False (lk_box l)"
    using l by (simp add: open_link_def linked_def)
  have "speaks (pm_id (pi_manifest i)) (pi_bootstrapToken i) (pi_runtimeToken i) False (lk_box l')"
    using exec_speaks [OF s ex] pend_speaks unfolding res by blast
  then show "open_link env n i l'"
    using l(1) by (simp add: open_link_def linked_def res) (simp add: l' pend_def send_def B1)
  have "sx_hostOrigin (lk_box l) \<noteq> []" using l(1) by (auto simp: open_link_def)
  moreover have "?i \<noteq> []" by (simp add: request_id_def)
  ultimately show "asks l' method params w (\<lambda>r. k (reply_of c r))"
    unfolding asks_def res using l(2) d(7,8) rid
    by (intro exI [of _ ?i]) (simp add: l' quiet_def pend_def send_def B1)
  show "sx_eventHandlers (lk_box l') = eh" "sx_commandHandlers (lk_box l') = ch" "sx_entries (lk_box l') = e"
    "sx_requestCounter (lk_box l') = Suc (sx_requestCounter (lk_box l))" "lk_host l' = lk_host l"
    unfolding res by (simp_all add: pend_def send_def B1) (simp add: l')
qed

subsection \<open>Sizes\<close>

lemma quote_str_length: "length (quote_str s) \<le> 2 + 6 * length s"
proof -
  have "length (quote_char c) \<le> 6" for c by (simp add: quote_char_def Let_def)
  then have "length (concat (map quote_char s)) \<le> 6 * length s" by (induction s) (auto intro: add_mono)
  then show ?thesis by (simp add: quote_str_def)
qed

lemma fitsI:
  assumes "stringify params = Some t"
    and "2 * (1000 + 6 * (length (pm_id (pi_manifest i)) + length (pi_runtimeToken i) + 128 + length method) + length t) \<le> 65536"
  shows "fits i method params"
  unfolding fits_def
proof (intro allI impI)
  fix rid :: string assume rid: "length rid \<le> 128"
  let ?q = quote_str
  have e: "stringify (bridge_request (pm_id (pi_manifest i)) (pi_runtimeToken i) rid method params) = Some (''{''
      @ (?q ''kind'' @ '':'' @ ?q ''plugin.bridge.request'') @ '','' @ (?q ''pluginId'' @ '':'' @ ?q (pm_id (pi_manifest i))) @ '',''
      @ (?q ''runtimeToken'' @ '':'' @ ?q (pi_runtimeToken i)) @ '','' @ (?q ''requestId'' @ '':'' @ ?q rid) @ '',''
      @ (?q ''method'' @ '':'' @ ?q method) @ '','' @ (?q ''params'' @ '':'' @ t) @ ''}'')" (is "_ = Some ?enc")
    using assms(1) by (simp add: bridge_request_def)
  have "length ?enc \<le> 1000 + 6 * (length (pm_id (pi_manifest i)) + length (pi_runtimeToken i) + 128 + length method) + length t"
    using rid quote_str_length [of "''kind''"] quote_str_length [of "''plugin.bridge.request''"] quote_str_length [of "''pluginId''"]
      quote_str_length [of "pm_id (pi_manifest i)"] quote_str_length [of "''runtimeToken''"] quote_str_length [of "pi_runtimeToken i"]
      quote_str_length [of "''requestId''"] quote_str_length [of rid] quote_str_length [of "''method''"] quote_str_length [of "method"]
      quote_str_length [of "''params''"] by simp
  then have "utf8_size ?enc \<le> MAX_BRIDGE_PAYLOAD_BYTES"
    using utf8_size_le [of ?enc] assms(2) by (simp add: MAX_BRIDGE_PAYLOAD_BYTES_def)
  then show "\<exists>t. stringify (bridge_request (pm_id (pi_manifest i)) (pi_runtimeToken i) rid method params) = Some t
      \<and> utf8_size t \<le> MAX_BRIDGE_PAYLOAD_BYTES" using e by blast
qed

text \<open>Parameters of one or two texts.\<close>

lemma fits_two:
  assumes "length (pm_id (pi_manifest i)) + length method + length k1 + length k2 \<le> 100" "length (pi_runtimeToken i) \<le> 128"
    and "length a + length b \<le> 3500"
  shows "fits i method (JObj [(k1, JStr a), (k2, JStr b)])"
  by (rule fitsI, simp) (use assms quote_str_length [of k1] quote_str_length [of k2] quote_str_length [of a] quote_str_length [of b] in simp)

lemma fits_one:
  assumes "length (pm_id (pi_manifest i)) + length method + length k1 \<le> 100" "length (pi_runtimeToken i) \<le> 128" "length a \<le> 3500"
  shows "fits i method (JObj [(k1, JStr a)])"
  by (rule fitsI, simp) (use assms quote_str_length [of k1] quote_str_length [of a] in simp)

subsection \<open>Panels\<close>

definition panel_text :: "string \<Rightarrow> string \<Rightarrow> plugin_store \<Rightarrow> string option" where
  "panel_text p pid s = map_option pp_content (find (\<lambda>q. pp_pluginId q = p \<and> pp_id q = pid) (pst_panels s))"

lemma find_list_update:
  "find_index P xs = Some k \<Longrightarrow> P y \<Longrightarrow> find P (xs[k := y]) = Some y"
  by (induction xs arbitrary: k) (auto split: if_splits)

lemma find_snoc: "find_index P xs = None \<Longrightarrow> P q \<Longrightarrow> find P (xs @ [q]) = Some q"
  by (induction xs) (auto split: if_splits)

lemma panel_text_upsert:
  assumes "pp_pluginId q = p" "pp_id q = pid"
  shows "panel_text p pid (upsertPluginPanel now q s) = Some (pp_content q)"
proof (cases "find_index (\<lambda>item. pp_pluginId item = p \<and> pp_id item = pid) (pst_panels s)")
  case None
  then show ?thesis using find_snoc [OF None, of q] assms by (simp add: upsertPluginPanel_def panel_text_def)
next
  case (Some k)
  then show ?thesis using find_list_update [OF Some, of q] assms by (simp add: upsertPluginPanel_def panel_text_def)
qed

definition panel_open :: "string \<Rightarrow> plugin_instance \<Rightarrow> bool" where
  "panel_open pid i \<longleftrightarrow> (\<exists>q \<in> set (pi_panels i). pp_id q = pid) \<and> ''ui.render'' \<in> set (pi_grantedPermissions i)"

text \<open>The bridge writes the content of an open panel of the instance, and changes nothing else about it.\<close>

lemma setPanelContent_ok:
  assumes "instance_ok i" "ph_objects h n = Some i" "panel_open pid i"
    and "js_trim pid = pid" "pid \<noteq> []" "length pid \<le> 96" "runtimeIDPattern pid" "length content \<le> 5000"
  obtains h1 i1 where "run_method env n i (pm_id (pi_manifest i)) (Some ''setPanelContent'') (JObj [(''id'', JStr pid), (''content'', JStr content)]) h
      = (Ok (flag_result ''updated''), h1)" "ph_objects h1 n = Some i1" "ident i1 = ident i" "pi_attached i1 = pi_attached i"
    "panel_open pid i1" "pi_grantedPermissions i1 = pi_grantedPermissions i" "pi_subscriptions i1 = pi_subscriptions i"
    "panel_text (pm_id (pi_manifest i)) pid (ph_store h1) = Some content"
    "ph_listening h1 = ph_listening h" "ph_tasks h1 = ph_tasks h" "ph_local h1 = ph_local h" "ph_transportSnapshot h1 = ph_transportSnapshot h"
    "pst_desiredEnabled (ph_store h1) = pst_desiredEnabled (ph_store h)" "\<And>q. (find_registry q (ph_store h1) = None) = (find_registry q (ph_store h) = None)"
    "pi_commands i1 = pi_commands i"
proof -
  obtain q where q: "find (\<lambda>item. pp_id item = pid) (pi_panels i) = Some q"
    using assms(3) by (cases "find (\<lambda>item. pp_id item = pid) (pi_panels i)") (auto simp: panel_open_def find_None_iff)
  then have mem: "q \<in> set (pi_panels i)" "pp_id q = pid" by (auto simp: find_Some_iff)
  then have owner: "pp_pluginId q = pm_id (pi_manifest i)" using assms(1) by (auto simp: instance_ok_def)
  have small: "\<not> utf8_size content > MAX_BRIDGE_PAYLOAD_BYTES"
    using utf8_size_le [of content] assms(8) by (simp add: MAX_BRIDGE_PAYLOAD_BYTES_def)
  have params: "trimmed_param (JObj [(''id'', JStr pid), (''content'', JStr content)]) ''id'' = pid"
    "raw_param (JObj [(''id'', JStr pid), (''content'', JStr content)]) ''content'' = content"
    using assms(4) by (simp_all add: trimmed_param_def raw_param_def)
  let ?q = "q\<lparr>pp_content := content\<rparr>"
  let ?f = "\<lambda>i. i\<lparr>pi_panels := filter (\<lambda>item. pp_id item \<noteq> pid) (pi_panels i) @ [?q]\<rparr>"
  let ?h1 = "set_store (upsertPluginPanel (pe_now env) ?q) (set_object n ?f h)"
  have run: "run_method env n i (pm_id (pi_manifest i)) (Some ''setPanelContent'') (JObj [(''id'', JStr pid), (''content'', JStr content)]) h
      = (Ok (flag_result ''updated''), ?h1)"
    unfolding run_method_def m_setPanelContent_def params using assms(5-8) q small
    by (simp add: MAX_ID_LENGTH_def MAX_PANEL_CONTENT_LENGTH_def Let_def)
  have registry: "(find_registry p (upsertPluginPanel now r s) = None) = (find_registry p s = None)" for p now r s
    by (simp add: upsertPluginPanel_def find_registry_def find_update_items split: option.split)
  have snapshot: "ph_transportSnapshot ?h1 = ph_transportSnapshot h" by (simp add: set_store_def set_object_def)
  show thesis
    by (rule that [OF run, of "?f i"])
      (use assms(2,3) mem owner registry snapshot in \<open>simp_all add: store_simps ident_def panel_open_def panel_text_upsert\<close>)
qed

subsection \<open>Events of the host\<close>

lemma emit_fields:
  "emitEvent env e payload h = h\<lparr>ph_random := Suc (ph_random h), ph_posts := ph_posts h @ event_posts env e payload h (ph_active h)\<rparr>"
proof -
  have "event_posts env e payload (h\<lparr>ph_random := Suc (ph_random h)\<rparr>) ps = event_posts env e payload h ps" for ps
    by (rule event_posts_cong) simp
  then show ?thesis by (simp add: emitEvent_def fresh_id_def fold_emit_posts)
qed

lemma event_posts_to:
  assumes "distinct (map snd ps)" "ph_objects h n = Some i" "pi_attached i"
  shows "map snd (filter (\<lambda>x. fst x = n) (event_posts env e payload h ps)) =
    (if n \<in> snd ` set ps \<and> e \<in> set (pi_subscriptions i) then [HostEvent (pi_runtimeToken i) e payload (pe_now env)] else [])"
  using assms(1)
proof (induction ps)
  case (Cons x ps)
  have split: "event_posts env e payload h (x # ps) = event_posts env e payload h [x] @ event_posts env e payload h ps"
    by (simp add: event_posts_def List.map_filter_def)
  have one: "map snd (filter (\<lambda>x. fst x = n) (event_posts env e payload h [x])) =
      (if n = snd x \<and> e \<in> set (pi_subscriptions i) then [HostEvent (pi_runtimeToken i) e payload (pe_now env)] else [])"
    using assms(2,3) by (cases x) (auto simp: event_posts_def List.map_filter_def split: option.split)
  show ?case using Cons by (auto simp: split one)
qed (simp add: event_posts_def List.map_filter_def)

lemma posts_to_emit:
  assumes "host_ok h" "(p, n) \<in> set (ph_active h)" "ph_objects h n = Some i" "pi_attached i"
  shows "posts_to n (emitEvent env e payload h) = posts_to n h
    @ (if e \<in> set (pi_subscriptions i) then [HostEvent (pi_runtimeToken i) e payload (pe_now env)] else [])"
proof -
  have "distinct (map snd (ph_active h))" using assms(1) by (simp add: host_ok_defs)
  moreover have "n \<in> snd ` set (ph_active h)" using assms(2) by force
  ultimately show ?thesis using event_posts_to [OF _ assms(3,4), of "ph_active h"] by (simp add: emit_fields posts_to_def)
qed

end
