(* ===== verification/Bundled_Plugins.thy ===== *)
theory Bundled_Plugins
  imports Plugin_Link
begin

text \<open>
  A bundled plugin from end to end: \<open>demo.transport.health\<close> of \<open>services/plugins/bundled.ts\<close> is enabled, boots over
  the bridge and then shows every change of the connection in its panel.
\<close>

subsection \<open>The transport panel\<close>

definition endpoint_text :: "transport_state \<Rightarrow> string" where
  "endpoint_text t = (if or_empty (ts_endpoint t) = [] then ''-'' else or_empty (ts_endpoint t))"

definition connection_text :: "transport_state \<Rightarrow> string" where
  "connection_text t = ''Mode: '' @ mode_str (ts_mode t) @ newline @ ''Status: '' @ transport_status_str (ts_status t) @ newline
     @ ''Endpoint: '' @ endpoint_text t"

definition transport_payload :: "transport_state \<Rightarrow> json" where
  "transport_payload t = JObj [(''mode'', JStr (mode_str (ts_mode t))), (''status'', JStr (transport_status_str (ts_status t))),
     (''endpoint'', jopt (ts_endpoint t)), (''lastError'', ts_lastError t)]"

definition transport_key :: "transport_state \<Rightarrow> string" where
  "transport_key t = mode_str (ts_mode t) @ '':'' @ transport_status_str (ts_status t) @ '':'' @ or_empty (ts_endpoint t)"

lemma transport_text_shows:
  "transport_text (JObj [(''eventType'', e), (''payload'', transport_payload t)]) = connection_text t"
proof -
  have "to_str (or_value (Some (jopt (ts_endpoint t))) ''-'') = endpoint_text t"
    by (cases "ts_endpoint t") (simp_all add: or_value_def endpoint_text_def or_empty_def)
  moreover have "to_str (or_value (Some (JStr (mode_str (ts_mode t)))) ''none'') = mode_str (ts_mode t)"
    by (cases "ts_mode t") (simp_all add: or_value_def)
  moreover have "to_str (or_value (Some (JStr (transport_status_str (ts_status t)))) ''offline'') = transport_status_str (ts_status t)"
    by (cases "ts_status t") (simp_all add: or_value_def)
  ultimately show ?thesis
    by (simp add: transport_text_def connection_text_def transport_payload_def or_object_def Let_def)
qed

lemma connection_text_length: "length (connection_text t) \<le> 50 + length (or_empty (ts_endpoint t))"
  by (cases "ts_mode t"; cases "ts_status t") (simp_all add: connection_text_def newline_def endpoint_text_def)

text \<open>A change of the messaging store reaches a subscriber of the transport alone as one event.\<close>

lemma notified_once:
  assumes h: "host_ok h" "(p, n) \<in> set (ph_active h)" "ph_objects h n = Some i" "pi_attached i"
    and sub: "pi_subscriptions i = [''transport.state.changed'']"
    and l: "ph_listening h" "transport_key (st_transport s) \<noteq> ph_transportSnapshot h"
  shows "posts_to n (messaging_changed env s h) = posts_to n h
      @ [HostEvent (pi_runtimeToken i) ''transport.state.changed'' (transport_payload (st_transport s)) (pe_now env)]"
    "ph_objects (messaging_changed env s h) = ph_objects h" "ph_active (messaging_changed env s h) = ph_active h"
    "ph_transportSnapshot (messaging_changed env s h) = transport_key (st_transport s)" "ph_listening (messaging_changed env s h)"
    "ph_store (messaging_changed env s h) = ph_store h" "ph_tasks (messaging_changed env s h) = ph_tasks h"
proof -
  define a where "a = notify_transport env s (h\<lparr>ph_messaging := s\<rparr>)"
  define b where "b = notify_conversation env s a"
  define c where "c = notify_visible env s b"
  have a: "a = emitEvent env ''transport.state.changed'' (transport_payload (st_transport s))
      (h\<lparr>ph_messaging := s, ph_transportSnapshot := transport_key (st_transport s)\<rparr>)"
    using l by (simp add: a_def notify_transport_def transport_payload_def transport_key_def Let_def)
  have fields: "ph_objects a = ph_objects h" "ph_active a = ph_active h" "ph_store a = ph_store h" "ph_tasks a = ph_tasks h"
    "ph_listening a" "ph_transportSnapshot a = transport_key (st_transport s)"
    using l by (simp_all add: a emit_fields)
  have pa: "posts_to n a = posts_to n h
      @ [HostEvent (pi_runtimeToken i) ''transport.state.changed'' (transport_payload (st_transport s)) (pe_now env)]"
    using posts_to_emit [of "h\<lparr>ph_messaging := s, ph_transportSnapshot := transport_key (st_transport s)\<rparr>" p n i env
        "''transport.state.changed''" "transport_payload (st_transport s)"] h sub
    by (simp add: a posts_to_def)
  have ok: "host_ok a" unfolding a using h(1) by (simp add: emit_fields)
  have same: "posts_to n (emitEvent env e pl g) = posts_to n g" if "host_ok g" "ph_objects g = ph_objects h" "ph_active g = ph_active h"
    "e \<noteq> ''transport.state.changed''" for e pl g
    using posts_to_emit [OF that(1), of p n i env e pl] h that sub by simp
  have b: "host_ok b" "posts_to n b = posts_to n a" "ph_objects b = ph_objects h" "ph_active b = ph_active h" "ph_store b = ph_store h"
    "ph_tasks b = ph_tasks h" "ph_listening b" "ph_transportSnapshot b = transport_key (st_transport s)"
    using ok fields same [of "a\<lparr>ph_conversationSnapshot := k\<rparr>" "''conversation.changed''" pl for k pl]
    by (simp_all add: b_def notify_conversation_def Let_def emit_fields) (simp_all add: posts_to_def)
  have c: "posts_to n c = posts_to n a" "ph_objects c = ph_objects h" "ph_active c = ph_active h" "ph_store c = ph_store h"
    "ph_tasks c = ph_tasks h" "ph_listening c" "ph_transportSnapshot c = transport_key (st_transport s)"
    using b same [of "b\<lparr>ph_visibleSnapshot := k\<rparr>" "''message.visible''" pl for k pl]
    by (simp_all add: c_def notify_visible_def Let_def emit_fields) (simp_all add: posts_to_def)
  have "messaging_changed env s h = c" using l(1) by (simp add: messaging_changed_def a_def b_def c_def)
  then show "posts_to n (messaging_changed env s h) = posts_to n h
      @ [HostEvent (pi_runtimeToken i) ''transport.state.changed'' (transport_payload (st_transport s)) (pe_now env)]"
    "ph_objects (messaging_changed env s h) = ph_objects h" "ph_active (messaging_changed env s h) = ph_active h"
    "ph_transportSnapshot (messaging_changed env s h) = transport_key (st_transport s)" "ph_listening (messaging_changed env s h)"
    "ph_store (messaging_changed env s h) = ph_store h" "ph_tasks (messaging_changed env s h) = ph_tasks h"
    using c pa by simp_all
qed

text \<open>A call of the script, from the moment it is made to the moment its reply is passed on.\<close>

lemma call_answered:
  assumes l: "open_link env n i l" "quiet l"
    and c: "invoke_api t c (lk_box l) = callHost t method params B1"
    and B1: "B1 = (lk_box l)\<lparr>sx_commandHandlers := ch, sx_eventHandlers := eh, sx_entries := e\<rparr>"
    and rid: "length (request_id (Suc (sx_requestCounter (lk_box l))) t) \<le> 128"
    and granted: "map_of pluginCapabilityByMethod method = Some cap" "cap \<in> set (pi_grantedPermissions i)"
    and p: "fits i method params" "\<not> nullish (Some params)"
    and m: "run_method env n i (pm_id (pi_manifest i)) (Some method) params (lk_host l) = (Ok v, h1)"
    and ob: "ph_objects h1 n = Some i1" "ident i1 = ident i" "pi_attached i1"
  obtains l0 response where "link_run env n entry [ToHost, ToBox u] (l\<lparr>lk_box := resume t w (Call c k) (lk_box l)\<rparr>)
      = l0\<lparr>lk_box := resume u w (k (reply_of c (Inr (Some v)))) (lk_box l0)\<rparr>"
    "open_link env n i1 l0" "quiet l0" "lk_host l0 = postToPlugin n response h1"
    "sx_eventHandlers (lk_box l0) = eh" "sx_commandHandlers (lk_box l0) = ch" "sx_entries (lk_box l0) = e"
    "sx_requestCounter (lk_box l0) = Suc (sx_requestCounter (lk_box l))"
proof -
  note asked = call_asks [OF l c B1 rid refl, of w k]
  show thesis
    by (rule round_trip [where t = u and entry = entry, OF asked(1,2) granted p _ ob]) (use m asked(3-7) that in simp_all)
qed

text \<open>The plugin is at work: its panel is open, it has subscribed, and nothing is under way.\<close>

definition follows_transport :: "plugin_env \<Rightarrow> nat \<Rightarrow> link \<Rightarrow> bool" where
  "follows_transport env n l \<longleftrightarrow> (\<exists>i e. open_link env n i l \<and> quiet l \<and> pm_id (pi_manifest i) = ''demo.transport.health''
     \<and> panel_open ''transport.health.panel'' i \<and> pi_subscriptions i = [''transport.state.changed'']
     \<and> getHandlerSet ''transport.state.changed'' (lk_box l) = [(e, transport_handler)] \<and> ph_listening (lk_host l))"

lemma resume_event:
  "exec t code B = (Awaiting rid k, B1) \<Longrightarrow> snd h event = code \<Longrightarrow>
    run_handlers t event ty [(e, h)] B = resume t (InEvent event ty e) code B"
  by (simp add: resume_def after_event_def)

lemma transport_handler_code:
  "snd transport_handler event = Call (SetPanelContent (JStr ''transport.health.panel'') (Some (JStr (transport_text event))))
     (\<lambda>r. case r of Inl m \<Rightarrow> Raise (Some m) | Inr v \<Rightarrow> Done)"
  by (simp add: transport_handler_def await_call_def)

text \<open>The event arrives in the script, which calls \<open>setPanelContent\<close>.\<close>

lemma transport_event_received:
  assumes l: "open_link env n i l" and e: "getHandlerSet ''transport.state.changed'' (lk_box l) = [(e, transport_handler)]"
  obtains event where "transport_text event = connection_text s"
    "receive t entry (pe_origin env) (host_json (HostEvent (pi_runtimeToken i) ''transport.state.changed'' (transport_payload s) now)) (lk_box l)
      = resume t (InEvent event ''transport.state.changed'' e) (snd transport_handler event) (lk_box l)"
proof -
  let ?event = "JObj [(''eventType'', JStr ''transport.state.changed''), (''payload'', transport_payload s)]"
  note d = open_linkD [OF l]
  obtain rid k B1 where ex: "exec t (snd transport_handler ?event) (lk_box l) = (Awaiting rid k, B1)"
    using d(8,9) by (simp add: transport_handler_code callHost_def Let_def)
  have "receive t entry (pe_origin env) (host_json (HostEvent (pi_runtimeToken i) ''transport.state.changed'' (transport_payload s) now)) (lk_box l)
      = run_handlers t ?event ''transport.state.changed'' [(e, transport_handler)] (lk_box l)"
    using d(8) e by (simp add: receive_def on_event_def given_def or_object_def text_or_def transport_payload_def str_of_def Let_def del: run_handlers.simps)
  then show thesis using that [OF transport_text_shows [where t = s and e = "JStr ''transport.state.changed''"]] resume_event [OF ex refl] by simp
qed

lemma link_run_append: "link_run env n entry (xs @ ys) l = link_run env n entry ys (link_run env n entry xs l)"
  by (simp add: link_run_def)

lemma transport_panel_step:
  assumes l: "follows_transport env n l"
    and s: "transport_key (st_transport s) \<noteq> ph_transportSnapshot (lk_host l)" "length (or_empty (ts_endpoint (st_transport s))) \<le> 3000"
    and rid: "length (request_id (Suc (sx_requestCounter (lk_box l))) t) \<le> 128"
    and l': "l' = link_run env n entry [AtHost (EvMessaging s), ToBox t, ToHost, ToBox u] l"
  shows "panel_text ''demo.transport.health'' ''transport.health.panel'' (ph_store (lk_host l')) = Some (connection_text (st_transport s))"
    "follows_transport env n l'" "ph_transportSnapshot (lk_host l') = transport_key (st_transport s)"
    "sx_requestCounter (lk_box l') = Suc (sx_requestCounter (lk_box l))"
proof -
  let ?p = "''demo.transport.health''" and ?panel = "''transport.health.panel''" and ?ty = "''transport.state.changed''"
  let ?text = "connection_text (st_transport s)" and ?h = "messaging_changed env s (lk_host l)"
  obtain i e where i: "open_link env n i l" "quiet l" "pm_id (pi_manifest i) = ?p" "panel_open ?panel i"
    "pi_subscriptions i = [?ty]" "getHandlerSet ?ty (lk_box l) = [(e, transport_handler)]" "ph_listening (lk_host l)"
    using l by (auto simp: follows_transport_def)
  note d = open_linkD [OF i(1)] and told = notified_once [OF open_linkD(1,3,2,5) [OF i(1)] i(5,7) s(1), of env]
  define l1 where "l1 = l\<lparr>lk_host := ?h\<rparr>"
  define l2 where "l2 = l1\<lparr>lk_seen := Suc (lk_seen l)\<rparr>"
  have "linked n (pi_manifest i) (pi_bootstrapToken i) (pi_runtimeToken i) (link_step env n entry (AtHost (EvMessaging s)) l)"
    by (rule linked_step) (use i(1) in \<open>simp add: open_link_def\<close>)
  then have o2: "open_link env n i l2" using i(1) told d(10) by (simp add: open_link_def l2_def l1_def linked_def)
  have q2: "quiet l2" using i(2) by (simp add: quiet_def l2_def l1_def)
  have box: "lk_box l2 = lk_box l" "lk_host l2 = ?h" by (simp_all add: l2_def l1_def)
  obtain event where event: "transport_text event = ?text"
    "receive t entry (pe_origin env) (host_json (HostEvent (pi_runtimeToken i) ?ty (transport_payload (st_transport s)) (pe_now env))) (lk_box l)
      = resume t (InEvent event ?ty e) (snd transport_handler event) (lk_box l)"
    by (rule transport_event_received [OF i(1,6)])
  have "link_run env n entry [AtHost (EvMessaging s), ToBox t] l = link_step env n entry (ToBox t) l1"
    by (simp add: link_run_def l1_def)
  also have "\<dots> = l2\<lparr>lk_box := resume t (InEvent event ?ty e) (snd transport_handler event) (lk_box l2)\<rparr>"
    using told(1) d(10) event(2) by (simp add: l1_def l2_def del: host_json.simps)
  finally have run: "l' = link_run env n entry [ToHost, ToBox u] (l2\<lparr>lk_box := resume t (InEvent event ?ty e) (snd transport_handler event) (lk_box l2)\<rparr>)"
    using l' link_run_append [of env n entry "[AtHost (EvMessaging s), ToBox t]" "[ToHost, ToBox u]" l] by simp
  have len: "length ?text \<le> 3050" using connection_text_length [of "st_transport s"] s(2) by simp
  have pat: "js_trim ?panel = ?panel" "runtimeIDPattern ?panel" by code_simp+
  obtain h1 i1 where m: "run_method env n i (pm_id (pi_manifest i)) (Some ''setPanelContent'') (JObj [(''id'', JStr ?panel), (''content'', JStr ?text)]) ?h
      = (Ok (flag_result ''updated''), h1)" "ph_objects h1 n = Some i1" "ident i1 = ident i" "pi_attached i1 = pi_attached i"
    "panel_open ?panel i1" "pi_subscriptions i1 = pi_subscriptions i"
    "panel_text (pm_id (pi_manifest i)) ?panel (ph_store h1) = Some ?text" "ph_listening h1 = ph_listening ?h"
    "ph_transportSnapshot h1 = ph_transportSnapshot ?h"
    by (rule setPanelContent_ok [OF d(6) open_linkD(2) [OF o2, unfolded box] i(4) pat(1) _ _ pat(2), of ?text env]) (use len in auto)
  have cap: "map_of pluginCapabilityByMethod ''setPanelContent'' = Some ''ui.render''" "''ui.render'' \<in> set (pi_grantedPermissions i)"
    using i(4) by (simp_all add: pluginCapabilityByMethod_def panel_open_def)
  have "length (pi_runtimeToken i) \<le> 128" using i(1) by (simp add: open_link_def)
  then have p: "fits i ''setPanelContent'' (JObj [(''id'', JStr ?panel), (''content'', JStr ?text)])"
    using len i(3) by (intro fits_two) simp_all
  obtain l3 response where l3: "l' = l3\<lparr>lk_box := resume u (InEvent event ?ty e) Done (lk_box l3)\<rparr>"
    "open_link env n i1 l3" "quiet l3" "lk_host l3 = postToPlugin n response h1" "sx_eventHandlers (lk_box l3) = sx_eventHandlers (lk_box l)"
    "sx_requestCounter (lk_box l3) = Suc (sx_requestCounter (lk_box l))"
    by (rule call_answered [where w = "InEvent event ?ty e" and u = u and entry = entry and t = t and ?B1.0 = "lk_box l"
          and c = "SetPanelContent (JStr ?panel) (Some (JStr ?text))" and ch = "sx_commandHandlers (lk_box l)"
          and eh = "sx_eventHandlers (lk_box l)" and e = "sx_entries (lk_box l)" and k = "\<lambda>r. case r of Inl m \<Rightarrow> Raise (Some m) | Inr v \<Rightarrow> Done",
          OF o2 q2 _ _ _ cap p _ m(1) [folded box(2)] m(2,3)])
      (use run event(1) rid m(4) d(5) in \<open>simp_all add: box transport_handler_code reply_of_def text_or_empty_def str_of_def\<close>)
  have "getHandlerSet ?ty (lk_box l3) = [(e, transport_handler)]" using i(6) l3(5) by (simp add: getHandlerSet_def)
  then have same: "l' = l3" by (simp add: l3(1) resume_def after_event_def later_handlers_def)
  show "panel_text ?p ?panel (ph_store (lk_host l')) = Some ?text" using m(7) i(3) by (simp add: same l3(4))
  show "ph_transportSnapshot (lk_host l') = transport_key (st_transport s)" using m(9) told(4) by (simp add: same l3(4))
  show "sx_requestCounter (lk_box l') = Suc (sx_requestCounter (lk_box l))" using l3(6) by (simp add: same)
  have "pm_id (pi_manifest i1) = ?p" using m(3) i(3) by (simp add: ident_def)
  then show "follows_transport env n l'"
    unfolding same follows_transport_def
    using l3 m(5,6,8) i(5) told(5) \<open>getHandlerSet ?ty (lk_box l3) = [(e, transport_handler)]\<close> by (intro exI [of _ i1] exI [of _ e]) simp
qed

subsection \<open>Booting\<close>

lemma registerPanel_ok:
  assumes "ph_objects h n = Some i" "pi_grantedPermissions i = g" "''ui.render'' \<in> set g"
    and "js_trim pid = pid" "pid \<noteq> []" "length pid \<le> 96" "runtimeIDPattern pid" "js_trim title = title" "title \<noteq> []"
  obtains h1 i1 where "run_method env n i (pm_id (pi_manifest i)) (Some ''registerPanel'') (panel_json pid title) h = (Ok (flag_result ''registered''), h1)"
    "ph_objects h1 n = Some i1" "ident i1 = ident i" "pi_attached i1 = pi_attached i" "panel_open pid i1"
    "pi_grantedPermissions i1 = g" "pi_subscriptions i1 = pi_subscriptions i"
    "\<And>q. (find_registry q (ph_store h1) = None) = (find_registry q (ph_store h) = None)"
proof -
  have params: "trimmed_param (panel_json pid title) ''id'' = pid" "trimmed_param (panel_json pid title) ''title'' = title"
    using assms(4,8) by (simp_all add: trimmed_param_def panel_json_def)
  let ?q = "\<lparr>pp_pluginId = pm_id (pi_manifest i), pp_id = pid, pp_title = title, pp_content = []\<rparr>"
  let ?f = "\<lambda>i. i\<lparr>pi_panels := filter (\<lambda>item. pp_id item \<noteq> pid) (pi_panels i) @ [?q]\<rparr>"
  let ?h1 = "syncPluginRuntimeCollections env (pm_id (pi_manifest i)) (set_object n ?f h)"
  have run: "run_method env n i (pm_id (pi_manifest i)) (Some ''registerPanel'') (panel_json pid title) h = (Ok (flag_result ''registered''), ?h1)"
    unfolding run_method_def m_registerPanel_def params using assms(5-9) by (simp add: MAX_ID_LENGTH_def Let_def)
  have "(find_registry q (replacePluginPanels now p ps (replacePluginCommands now p' cs s)) = None) = (find_registry q s = None)" for q now p ps p' cs s
    by (simp add: find_registry_def replacePluginCommands_def replacePluginPanels_def find_update_items)
  then have registry: "(find_registry q (ph_store ?h1) = None) = (find_registry q (ph_store h) = None)" for q
    by (simp add: syncPluginRuntimeCollections_def store_simps split: option.split)
  show thesis
    by (rule that [OF run, of "?f i"]) (use assms(1-3) registry in \<open>simp_all add: store_simps ident_def panel_open_def\<close>)
qed

lemma subscribe_ok:
  assumes "ph_objects h n = Some i" "e \<in> set allowedHooks" "e \<in> set (pm_declaredHooks (pi_manifest i))" "pi_subscriptions i = []"
  obtains h1 i1 where "run_method env n i (pm_id (pi_manifest i)) (Some ''events.subscribe'') (JObj [(''eventType'', JStr e)]) h = (Ok (flag_result ''subscribed''), h1)"
    "ph_objects h1 n = Some i1" "ident i1 = ident i" "pi_attached i1 = pi_attached i" "\<And>pid. panel_open pid i1 = panel_open pid i"
    "pi_grantedPermissions i1 = pi_grantedPermissions i" "pi_subscriptions i1 = [e]" "ph_store h1 = ph_store h"
proof -
  let ?f = "\<lambda>i. i\<lparr>pi_subscriptions := List.insert e (pi_subscriptions i)\<rparr>"
  have "raw_param (JObj [(''eventType'', JStr e)]) ''eventType'' = e" by (simp add: raw_param_def)
  then have run: "run_method env n i (pm_id (pi_manifest i)) (Some ''events.subscribe'') (JObj [(''eventType'', JStr e)]) h
      = (Ok (flag_result ''subscribed''), set_object n ?f h)"
    using assms(2,3) by (simp add: run_method_def m_subscribe_def)
  show thesis
    by (rule that [OF run, of "?f i"]) (use assms(1,4) in \<open>simp_all add: store_simps ident_def panel_open_def\<close>)
qed

text \<open>From the iframe's creation to the first call of its code: the script reports that it is ready, the host sends the tokens.\<close>

lemma boot_opens_link:
  assumes h: "host_reachable h" "(p, n) \<in> set (ph_active h)" "ph_objects h n = Some i" "pi_ready i = False"
    and k: "k < length (ph_tasks h)" "bt_object (ph_tasks h ! k) = n" "bt_phase (ph_tasks h ! k) = AwaitReady"
    and r: "12 \<le> length (pi_runtimeToken i)" "length (pi_runtimeToken i) \<le> 128" "pe_origin env \<noteq> []"
  obtains l where "link_run env n (Some code) [ToHost, AtHost (EvBootContinue k), ToBox t] (fresh_link h n i)
      = l\<lparr>lk_box := resume t InEntry code (lk_box l)\<rparr>" "open_link env n (i\<lparr>pi_ready := True\<rparr>) l" "quiet l"
    "ph_tasks (lk_host l) = (ph_tasks h)[k := (ph_tasks h ! k)\<lparr>bt_phase := AwaitInitialized\<rparr>]" "ph_store (lk_host l) = ph_store h"
    "ph_listening (lk_host l) = ph_listening h" "sx_requestCounter (lk_box l) = 0" "sx_eventHandlers (lk_box l) = []" "sx_entries (lk_box l) = 0"
proof -
  let ?r = "pi_runtimeToken i" and ?i = "i\<lparr>pi_ready := True\<rparr>" and ?t = "ph_tasks h ! k"
  note ok = reachable_host_ok [OF h(1)]
  have "map_get (ph_active h) p = Some n" using ok h(2) by (simp add: host_ok_defs)
  then have p: "pm_id (pi_manifest i) = p" "pi_attached i" using host_okD(1) [OF ok, of p n] h(3) by auto
  define h1 where "h1 = set_object n (\<lambda>i. i\<lparr>pi_ready := True\<rparr>) h"
  define h2 where "h2 = h1\<lparr>ph_tasks := (ph_tasks h)[k := ?t\<lparr>bt_phase := AwaitInitialized\<rparr>]\<rparr>"
  let ?m = "HostInit (bt_plugin ?t) ?r (pm_requestedPermissions (bt_manifest ?t))"
  have h2: "ph_objects h2 n = Some ?i" "ph_active h2 = ph_active h" "ph_store h2 = ph_store h" "ph_listening h2 = ph_listening h"
    "posts_to n h2 = posts_to n h" "ph_tasks h2 = (ph_tasks h)[k := ?t\<lparr>bt_phase := AwaitInitialized\<rparr>]"
    using h(3) by (simp_all add: h2_def h1_def store_simps posts_to_def)
  have cont: "host_step env (EvBootContinue k) h1 = postToPlugin n ?m h2"
    using k h(3) by (simp add: boot_continue_def Let_def h1_def h2_def store_simps)
  let ?l = "fresh_link h n i"
  have run0: "link_step env n (Some code) ToHost ?l = ?l\<lparr>lk_host := h1, lk_heard := 1\<rparr>"
    using message_on_active(1) [OF ok h(2,3) p(1), of env] p(1)
    by (simp add: fresh_link_def load_script_def send_def ready_message_def h1_def)
  define box where "box = (lk_box ?l)\<lparr>sx_runtimeToken := Some ?r, sx_hostOrigin := pe_origin env\<rparr>"
  define l where "l = \<lparr>lk_host = postToPlugin n ?m h2, lk_box = box, lk_seen = Suc (length (posts_to n h)), lk_heard = 1\<rparr>"
  have posts: "posts_to n (postToPlugin n ?m h2) = posts_to n h @ [?m]" using posts_to_post [OF h2(1)] p(2) h2(5) by simp
  have init: "receive t (Some code) (pe_origin env) (host_json ?m) (lk_box ?l) = resume t InEntry code box"
    using r by (simp add: receive_def on_init_def initializeRuntime_def resume_def box_def)
  have run: "link_run env n (Some code) [ToHost, AtHost (EvBootContinue k), ToBox t] ?l = l\<lparr>lk_box := resume t InEntry code (lk_box l)\<rparr>"
    using posts init
    by (simp add: link_run_def run0 cont del: host_step.simps host_json.simps link_step.simps(2))
      (simp add: l_def fresh_link_def)
  have "linked n (pi_manifest i) (pi_bootstrapToken i) ?r (link_run env n (Some code) [ToHost, AtHost (EvBootContinue k)] ?l)"
    by (rule linked_run [OF linked_fresh [OF h(1,3)]])
  then have lk: "host_reachable (postToPlugin n ?m h2)" "posts_and_ident n (pi_manifest i, pi_bootstrapToken i, ?r) (postToPlugin n ?m h2)"
    by (simp_all add: link_run_def run0 cont linked_def del: host_step.simps link_step.simps(2))
  have "speaks (pm_id (pi_manifest i)) (pi_bootstrapToken i) ?r False (lk_box ?l)"
    using linked_fresh [OF h(1,3)] by (simp add: linked_def)
  then have "speaks (pm_id (pi_manifest i)) (pi_bootstrapToken i) ?r False box"
    by (simp add: box_def speaks_def request_ids_def)
  then have "open_link env n ?i l"
    using lk h2 p r h(2) posts by (simp add: open_link_def linked_def l_def box_def)
  moreover have "quiet l" by (simp add: quiet_def l_def box_def fresh_link_def load_script_def send_def)
  ultimately show thesis
    using that [OF run] h2 by (simp add: l_def box_def fresh_link_def load_script_def send_def)
qed

text \<open>The last step of a boot: the entry has ended, and the host enables the plugin.\<close>

lemma boot_closes:
  assumes l: "open_link env n i l" "quiet l"
    and k: "k < length (ph_tasks (lk_host l))" "ph_tasks (lk_host l) ! k = t" "bt_object t = n" "bt_phase t = AwaitInitialized" "bt_then t = []"
      "bt_manifest t = pi_manifest i" "bt_plugin t = pm_id (pi_manifest i)"
    and r: "find_registry (pm_id (pi_manifest i)) (ph_store (lk_host l)) \<noteq> None"
    and l': "l' = link_run env n entry [ToHost, AtHost (EvBootContinue k)] (l\<lparr>lk_box := resume u InEntry Done (lk_box l)\<rparr>)"
  shows "open_link env n (i\<lparr>pi_initialized := True\<rparr>) l'" "quiet l'" "status_of (pm_id (pi_manifest i)) (ph_store (lk_host l')) = Some PsEnabled"
    "sx_eventHandlers (lk_box l') = sx_eventHandlers (lk_box l)" "sx_requestCounter (lk_box l') = sx_requestCounter (lk_box l)" "ph_listening (lk_host l') = ph_listening (lk_host l)"
    "ph_tasks (lk_host l') = take k (ph_tasks (lk_host l)) @ drop (Suc k) (ph_tasks (lk_host l))"
proof -
  let ?p = "pm_id (pi_manifest i)" and ?h = "lk_host l" and ?B = "lk_box l" and ?f = "\<lambda>i. i\<lparr>pi_initialized := True\<rparr>"
  note d = open_linkD [OF l(1)]
  have s: "speaks ?p (pi_bootstrapToken i) (pi_runtimeToken i) False ?B" using l(1) by (simp add: open_link_def linked_def)
  have box: "resume u InEntry Done ?B = send_initialized ?B" by (simp add: resume_def after_entry_def)
  let ?m = "initialized_message ?p (pi_bootstrapToken i) (pi_runtimeToken i)"
  have b: "sx_bootstrapToken ?B = pi_bootstrapToken i" using s by (simp add: speaks_def)
  have sent: "send_initialized ?B = send ?m ?B" using d(7,8) b by (simp add: send_initialized_def initialized_message_def)
  define l1 where "l1 = l\<lparr>lk_box := send ?m ?B\<rparr>"
  have spoken: "speaks ?p (pi_bootstrapToken i) (pi_runtimeToken i) False (send ?m ?B)"
    by (rule speaks_send [OF s]) (simp_all add: honest_def initialized_message_def is_request_def)
  then have "linked n (pi_manifest i) (pi_bootstrapToken i) (pi_runtimeToken i) l1" using l(1) by (simp add: open_link_def linked_def l1_def)
  note run = linked_run [OF this, of env entry "[ToHost, AtHost (EvBootContinue k)]"]
  have origin: "sx_hostOrigin ?B = ''*'' \<or> sx_hostOrigin ?B = pe_origin env" "sx_hostOrigin ?B \<noteq> []" using l(1) by (auto simp: open_link_def)
  have heard: "link_step env n entry ToHost l1 = l1\<lparr>lk_heard := Suc (lk_heard l), lk_host := set_object n ?f ?h\<rparr>"
    using l(2) origin message_on_active(2) [OF d(1,3,2) refl, of env] by (auto simp: l1_def quiet_def send_def)
  let ?g = "drop_task k (set_object n ?f ?h)"
  have cont: "boot_continue env k (set_object n ?f ?h) = finish_enable env t ?g"
    using k d(2) by (simp add: boot_continue_def Let_def store_simps)
  have l'_eq: "l' = l1\<lparr>lk_heard := Suc (lk_heard l), lk_host := finish_enable env t ?g\<rparr>"
    using heard cont by (simp add: l' box sent link_run_def l1_def del: link_step.simps(2))
  have fin: "ph_objects (finish_enable env t g) = ph_objects g" "ph_active (finish_enable env t g) = ph_active g"
    "ph_posts (finish_enable env t g) = ph_posts g" "ph_tasks (finish_enable env t g) = ph_tasks g"
    "ph_listening (finish_enable env t g) = ph_listening g" for g
    by (simp_all add: finish_enable_def store_simps set_status_def split: option.split)
  have g: "ph_objects ?g n = Some (?f i)" "ph_active ?g = ph_active ?h" "posts_to n ?g = posts_to n ?h" "ph_listening ?g = ph_listening ?h"
    "ph_tasks ?g = take k (ph_tasks ?h) @ drop (Suc k) (ph_tasks ?h)" "ph_store ?g = ph_store ?h"
    using d(2) by (simp_all add: drop_task_def store_simps posts_to_def)
  have send_origin: "sx_hostOrigin (send ?m ?B) = sx_hostOrigin ?B" by (simp add: send_def)
  have "posts_to n (finish_enable env t ?g) = posts_to n ?g" by (simp add: posts_to_def fin)
  then have posts: "posts_to n (finish_enable env t ?g) = posts_to n ?h" using g(3) by simp
  have "linked n (pi_manifest i) (pi_bootstrapToken i) (pi_runtimeToken i) l'"
    using run by (simp add: l' box sent l1_def)
  then show "open_link env n (?f i) l'"
    using l(1) g fin posts send_origin by (simp add: open_link_def l'_eq l1_def)
  show "quiet l'" using l(2) by (simp add: quiet_def l'_eq l1_def send_def)
  obtain item where item: "find_registry ?p (ph_store ?h) = Some item" using r by blast
  have "status_of ?p (upsertRegistryItem (item\<lparr>pr_status := PsEnabled, pr_grantedPermissions := x, pr_lastError := None, pr_updatedAt := y\<rparr>) (ph_store ?h))
      = Some PsEnabled" for x y
    by (simp add: status_of_def find_registry_upsert [OF item])
  then show "status_of ?p (ph_store (lk_host l')) = Some PsEnabled"
    using item k(6) g(6) by (simp add: l'_eq finish_enable_def status_of_sync store_simps)
  show "sx_eventHandlers (lk_box l') = sx_eventHandlers ?B" "sx_requestCounter (lk_box l') = sx_requestCounter ?B" by (simp_all add: l'_eq l1_def)
  show "ph_listening (lk_host l') = ph_listening ?h" "ph_tasks (lk_host l') = take k (ph_tasks ?h) @ drop (Suc k) (ph_tasks ?h)"
    using fin g by (simp_all add: l'_eq)
qed

lemma await_answered:
  assumes l: "open_link env n i l" "quiet l"
    and c: "invoke_api t c (lk_box l) = callHost t method params B1"
    and B1: "B1 = (lk_box l)\<lparr>sx_commandHandlers := ch, sx_eventHandlers := eh, sx_entries := e\<rparr>"
    and rid: "length (request_id (Suc (sx_requestCounter (lk_box l))) t) \<le> 128"
    and granted: "map_of pluginCapabilityByMethod method = Some cap" "cap \<in> set (pi_grantedPermissions i)"
    and p: "fits i method params" "\<not> nullish (Some params)"
    and m: "run_method env n i (pm_id (pi_manifest i)) (Some method) params (lk_host l) = (Ok v, h1)"
    and ob: "ph_objects h1 n = Some i1" "ident i1 = ident i" "pi_attached i1"
  obtains l0 response where "link_run env n entry [ToHost, ToBox u] (l\<lparr>lk_box := resume t w (await_call c f) (lk_box l)\<rparr>)
      = l0\<lparr>lk_box := resume u w (f (result_of c (Some v))) (lk_box l0)\<rparr>"
    "open_link env n i1 l0" "quiet l0" "lk_host l0 = postToPlugin n response h1"
    "sx_eventHandlers (lk_box l0) = eh" "sx_commandHandlers (lk_box l0) = ch" "sx_entries (lk_box l0) = e"
    "sx_requestCounter (lk_box l0) = Suc (sx_requestCounter (lk_box l))"
  unfolding await_call_def
  by (rule call_answered [where t = t and u = u and w = w and entry = entry and k = "\<lambda>r. case r of Inl m \<Rightarrow> Raise (Some m) | Inr v \<Rightarrow> f v",
        OF l c B1 rid granted p m ob]) (use that in \<open>simp add: reply_of_def await_call_def\<close>)

lemma request_id_length: "length (nat_digits t) \<le> 100 \<Longrightarrow> c < 10 \<Longrightarrow> length (request_id c t) \<le> 128"
  by (simp add: request_id_def nat_digits.simps [of c])

text \<open>How far the entry of a plugin has come: what the calls so far have left of the instance and the host it began with, and the
  numbers of its requests and handlers.\<close>

definition entering :: "plugin_env \<Rightarrow> nat \<Rightarrow> plugin_instance \<Rightarrow> link \<Rightarrow> plugin_instance \<Rightarrow> link \<Rightarrow> nat \<Rightarrow> bool" where
  "entering env n i l i' l' k \<longleftrightarrow> open_link env n i' l' \<and> quiet l' \<and> ident i' = ident i \<and> pi_grantedPermissions i' = pi_grantedPermissions i
     \<and> (\<forall>q. (find_registry q (ph_store (lk_host l')) = None) = (find_registry q (ph_store (lk_host l)) = None))
     \<and> ph_tasks (lk_host l') = ph_tasks (lk_host l) \<and> ph_listening (lk_host l') = ph_listening (lk_host l)
     \<and> sx_requestCounter (lk_box l') = k"

text \<open>One awaited call, whatever its method: the entry goes on with its reply.\<close>

lemma entry_call:
  assumes e: "entering env n i l i1 l1 k"
    and c: "invoke_api t c (lk_box l1) = callHost t method params B1"
    and B1: "B1 = (lk_box l1)\<lparr>sx_commandHandlers := ch, sx_eventHandlers := eh, sx_entries := en\<rparr>"
    and t: "length (nat_digits t) \<le> 100" "k < 9"
    and granted: "map_of pluginCapabilityByMethod method = Some cap" "cap \<in> set (pi_grantedPermissions i)"
    and p: "fits i1 method params" "\<not> nullish (Some params)"
    and m: "run_method env n i1 (pm_id (pi_manifest i1)) (Some method) params (lk_host l1) = (Ok v, h2)"
    and ob: "ph_objects h2 n = Some i2" "ident i2 = ident i1" "pi_attached i2 = pi_attached i1"
      "pi_grantedPermissions i2 = pi_grantedPermissions i1" "\<And>q. (find_registry q (ph_store h2) = None) = (find_registry q (ph_store (lk_host l1)) = None)"
  obtains l2 where "link_run env n entry [ToHost, ToBox u] (l1\<lparr>lk_box := resume t w (await_call c f) (lk_box l1)\<rparr>)
      = l2\<lparr>lk_box := resume u w (f (result_of c (Some v))) (lk_box l2)\<rparr>"
    "entering env n i l i2 l2 (Suc k)" "sx_eventHandlers (lk_box l2) = eh" "sx_entries (lk_box l2) = en"
proof -
  have o: "open_link env n i1 l1" "quiet l1" "sx_requestCounter (lk_box l1) = k" using e by (simp_all add: entering_def)
  have g: "cap \<in> set (pi_grantedPermissions i1)" using e granted(2) by (simp add: entering_def)
  have rid: "length (request_id (Suc (sx_requestCounter (lk_box l1))) t) \<le> 128" using o(3) request_id_length [OF t(1), of "Suc k"] t(2) by simp
  have att: "pi_attached i2" using ob(3) open_linkD(5) [OF o(1)] by simp
  have host: "ph_tasks h2 = ph_tasks (lk_host l1)" "ph_listening h2 = ph_listening (lk_host l1)"
    using run_method_frame [of n "lk_host l1" env i1 "pm_id (pi_manifest i1)" "Some method" params] by (simp_all add: m bridge_frame_def)
  obtain l2 r where l2: "link_run env n entry [ToHost, ToBox u] (l1\<lparr>lk_box := resume t w (await_call c f) (lk_box l1)\<rparr>)
      = l2\<lparr>lk_box := resume u w (f (result_of c (Some v))) (lk_box l2)\<rparr>" "open_link env n i2 l2" "quiet l2"
    "lk_host l2 = postToPlugin n r h2" "sx_eventHandlers (lk_box l2) = eh" "sx_entries (lk_box l2) = en"
    "sx_requestCounter (lk_box l2) = Suc (sx_requestCounter (lk_box l1))"
    by (rule await_answered [where entry = entry and u = u and w = w and f = f, OF o(1,2) c B1 rid granted(1) g p m ob(1,2) att]) rule
  have "entering env n i l i2 l2 (Suc k)"
    using e ob(2,4,5) o(3) host l2(2,3,7) by (simp add: entering_def l2(4))
  then show thesis by (rule that [OF l2(1) _ l2(5,6)])
qed

lemma entering_D:
  assumes "entering env n i l i' l' k"
  shows "open_link env n i' l'" "pm_id (pi_manifest i') = pm_id (pi_manifest i)" "pm_declaredHooks (pi_manifest i') = pm_declaredHooks (pi_manifest i)"
    "pi_grantedPermissions i' = pi_grantedPermissions i" "length (pi_runtimeToken i') \<le> 128" "ph_objects (lk_host l') n = Some i'" "instance_ok i'"
proof -
  show o: "open_link env n i' l'" and "pm_id (pi_manifest i') = pm_id (pi_manifest i)" "pm_declaredHooks (pi_manifest i') = pm_declaredHooks (pi_manifest i)"
    "pi_grantedPermissions i' = pi_grantedPermissions i" using assms by (simp_all add: entering_def ident_def)
  show "length (pi_runtimeToken i') \<le> 128" using o by (simp add: open_link_def)
  show "ph_objects (lk_host l') n = Some i'" "instance_ok i'" using open_linkD(2,6) [OF o] by simp_all
qed

text \<open>The three calls a panel plugin begins with: it opens its panel, fills it, and subscribes to an event.\<close>

lemma entry_registers_panel:
  assumes e: "entering env n i l i1 l1 k" and t: "length (nat_digits t) \<le> 100" "k < 9" and g: "''ui.render'' \<in> set (pi_grantedPermissions i)"
    and pat: "js_trim pid = pid" "pid \<noteq> []" "length pid \<le> 96" "runtimeIDPattern pid" "js_trim title = title" "title \<noteq> []"
    and fit: "length (pm_id (pi_manifest i)) \<le> 80" "length pid + length title \<le> 3500"
  obtains i2 l2 v where "link_run env n entry [ToHost, ToBox u]
        (l1\<lparr>lk_box := resume t w (await_call (RegisterPanel (Some (panel_json pid title))) f) (lk_box l1)\<rparr>)
      = l2\<lparr>lk_box := resume u w (f v) (lk_box l2)\<rparr>"
    "entering env n i l i2 l2 (Suc k)" "sx_eventHandlers (lk_box l2) = sx_eventHandlers (lk_box l1)" "sx_entries (lk_box l2) = sx_entries (lk_box l1)"
    "panel_open pid i2" "pi_subscriptions i2 = pi_subscriptions i1"
proof -
  note d = entering_D [OF e]
  obtain h2 i2 where m: "run_method env n i1 (pm_id (pi_manifest i1)) (Some ''registerPanel'') (panel_json pid title) (lk_host l1)
      = (Ok (flag_result ''registered''), h2)"
    "ph_objects h2 n = Some i2" "ident i2 = ident i1" "pi_attached i2 = pi_attached i1" "panel_open pid i2"
    "pi_grantedPermissions i2 = pi_grantedPermissions i1" "pi_subscriptions i2 = pi_subscriptions i1"
    "\<And>q. (find_registry q (ph_store h2) = None) = (find_registry q (ph_store (lk_host l1)) = None)"
    by (rule registerPanel_ok [where env = env, OF d(6) refl _ pat]) (simp_all add: d(4) g)
  have p: "fits i1 ''registerPanel'' (panel_json pid title)" "\<not> nullish (Some (panel_json pid title))"
    unfolding panel_json_def by (rule fits_two, use fit d(2,5) in simp_all)
  have c: "invoke_api t (RegisterPanel (Some (panel_json pid title))) (lk_box l1) = callHost t ''registerPanel'' (panel_json pid title) (lk_box l1)"
      "map_of pluginCapabilityByMethod ''registerPanel'' = Some ''ui.render''"
    by (simp_all add: or_object_def panel_json_def pluginCapabilityByMethod_def)
  have B1: "lk_box l1 = (lk_box l1)\<lparr>sx_commandHandlers := sx_commandHandlers (lk_box l1), sx_eventHandlers := sx_eventHandlers (lk_box l1), sx_entries := sx_entries (lk_box l1)\<rparr>"
    by simp
  obtain l2 where l2: "link_run env n entry [ToHost, ToBox u]
        (l1\<lparr>lk_box := resume t w (await_call (RegisterPanel (Some (panel_json pid title))) f) (lk_box l1)\<rparr>)
      = l2\<lparr>lk_box := resume u w (f (result_of (RegisterPanel (Some (panel_json pid title)) :: handler api_call) (Some (flag_result ''registered'')))) (lk_box l2)\<rparr>"
    "entering env n i l i2 l2 (Suc k)" "sx_eventHandlers (lk_box l2) = sx_eventHandlers (lk_box l1)" "sx_entries (lk_box l2) = sx_entries (lk_box l1)"
    by (rule entry_call [where entry = entry and u = u and w = w and f = f, OF e c(1) B1 t c(2) g p m(1-4,6,8)]) rule
  show thesis by (rule that [OF l2 m(5,7)])
qed

lemma entry_sets_content:
  assumes e: "entering env n i l i1 l1 k" and t: "length (nat_digits t) \<le> 100" "k < 9" and g: "''ui.render'' \<in> set (pi_grantedPermissions i)"
    and o: "panel_open pid i1"
    and pat: "js_trim pid = pid" "pid \<noteq> []" "length pid \<le> 96" "runtimeIDPattern pid"
    and fit: "length (pm_id (pi_manifest i)) \<le> 70" "length pid + length content \<le> 3500"
  obtains i2 l2 v where "link_run env n entry [ToHost, ToBox u]
        (l1\<lparr>lk_box := resume t w (await_call (SetPanelContent (JStr pid) (Some (JStr content))) f) (lk_box l1)\<rparr>)
      = l2\<lparr>lk_box := resume u w (f v) (lk_box l2)\<rparr>"
    "entering env n i l i2 l2 (Suc k)" "sx_eventHandlers (lk_box l2) = sx_eventHandlers (lk_box l1)" "sx_entries (lk_box l2) = sx_entries (lk_box l1)"
    "panel_open pid i2" "pi_subscriptions i2 = pi_subscriptions i1"
proof -
  note d = entering_D [OF e]
  let ?params = "JObj [(''id'', JStr pid), (''content'', JStr content)]"
  have short: "length content \<le> 5000" using fit by simp
  obtain h2 i2 where m: "run_method env n i1 (pm_id (pi_manifest i1)) (Some ''setPanelContent'') ?params (lk_host l1) = (Ok (flag_result ''updated''), h2)"
    "ph_objects h2 n = Some i2" "ident i2 = ident i1" "pi_attached i2 = pi_attached i1"
    "panel_open pid i2" "pi_grantedPermissions i2 = pi_grantedPermissions i1" "pi_subscriptions i2 = pi_subscriptions i1"
    "\<And>q. (find_registry q (ph_store h2) = None) = (find_registry q (ph_store (lk_host l1)) = None)"
    by (rule setPanelContent_ok [where env = env and content = content, OF d(7,6) o pat short]) auto
  have p: "fits i1 ''setPanelContent'' ?params" "\<not> nullish (Some ?params)"
    by (rule fits_two, use fit d(2,5) in simp_all)
  have c: "invoke_api t (SetPanelContent (JStr pid) (Some (JStr content))) (lk_box l1) = callHost t ''setPanelContent'' ?params (lk_box l1)"
      "map_of pluginCapabilityByMethod ''setPanelContent'' = Some ''ui.render''"
    by (simp_all add: text_or_empty_def str_of_def pluginCapabilityByMethod_def)
  have B1: "lk_box l1 = (lk_box l1)\<lparr>sx_commandHandlers := sx_commandHandlers (lk_box l1), sx_eventHandlers := sx_eventHandlers (lk_box l1), sx_entries := sx_entries (lk_box l1)\<rparr>"
    by simp
  obtain l2 where l2: "link_run env n entry [ToHost, ToBox u]
        (l1\<lparr>lk_box := resume t w (await_call (SetPanelContent (JStr pid) (Some (JStr content))) f) (lk_box l1)\<rparr>)
      = l2\<lparr>lk_box := resume u w (f (result_of (SetPanelContent (JStr pid) (Some (JStr content)) :: handler api_call) (Some (flag_result ''updated'')))) (lk_box l2)\<rparr>"
    "entering env n i l i2 l2 (Suc k)" "sx_eventHandlers (lk_box l2) = sx_eventHandlers (lk_box l1)" "sx_entries (lk_box l2) = sx_entries (lk_box l1)"
    by (rule entry_call [where entry = entry and u = u and w = w and f = f, OF e c(1) B1 t c(2) g p m(1-4,6,8)]) rule
  show thesis by (rule that [OF l2 m(5,7)])
qed

lemma entry_subscribes:
  assumes e: "entering env n i l i1 l1 k" and t: "length (nat_digits t) \<le> 100" "k < 9" and g: "''events.subscribe'' \<in> set (pi_grantedPermissions i)"
    and ty: "ty \<in> set allowedHooks" "ty \<in> set (pm_declaredHooks (pi_manifest i))" and sub: "pi_subscriptions i1 = []"
    and box: "sx_eventHandlers (lk_box l1) = []" "sx_entries (lk_box l1) = 0"
    and fit: "length (pm_id (pi_manifest i)) \<le> 70" "length ty \<le> 3500"
  obtains i2 l2 v where "link_run env n entry [ToHost, ToBox u]
        (l1\<lparr>lk_box := resume t w (await_call (EventsSubscribe (JStr ty) (Some handler)) f) (lk_box l1)\<rparr>)
      = l2\<lparr>lk_box := resume u w (f v) (lk_box l2)\<rparr>"
    "entering env n i l i2 l2 (Suc k)" "sx_eventHandlers (lk_box l2) = [(ty, [(1, handler)])]"
    "pi_subscriptions i2 = [ty]" "\<And>pid. panel_open pid i2 = panel_open pid i1"
proof -
  note d = entering_D [OF e]
  let ?params = "JObj [(''eventType'', JStr ty)]"
  obtain h2 i2 where m: "run_method env n i1 (pm_id (pi_manifest i1)) (Some ''events.subscribe'') ?params (lk_host l1) = (Ok (flag_result ''subscribed''), h2)"
    "ph_objects h2 n = Some i2" "ident i2 = ident i1" "pi_attached i2 = pi_attached i1"
    "\<And>pid. panel_open pid i2 = panel_open pid i1" "pi_grantedPermissions i2 = pi_grantedPermissions i1" "pi_subscriptions i2 = [ty]"
    "ph_store h2 = ph_store (lk_host l1)"
    by (rule subscribe_ok [where env = env and e = ty, OF d(6) ty(1) _ sub]) (auto simp: d(3) ty(2))
  have r: "(find_registry q (ph_store h2) = None) = (find_registry q (ph_store (lk_host l1)) = None)" for q by (simp add: m(8))
  have p: "fits i1 ''events.subscribe'' ?params" "\<not> nullish (Some ?params)"
    by (rule fits_one, use fit d(2,5) in simp_all)
  have c: "invoke_api t (EventsSubscribe (JStr ty) (Some handler)) (lk_box l1) = callHost t ''events.subscribe'' ?params (add_handler ty handler (lk_box l1))"
      "map_of pluginCapabilityByMethod ''events.subscribe'' = Some ''events.subscribe''"
    by (simp_all add: pluginCapabilityByMethod_def)
  have B1: "add_handler ty handler (lk_box l1) = (lk_box l1)\<lparr>sx_commandHandlers := sx_commandHandlers (lk_box l1), sx_eventHandlers := [(ty, [(1, handler)])], sx_entries := 1\<rparr>"
    using box by (simp add: add_handler_def getHandlerSet_def)
  obtain l2 where l2: "link_run env n entry [ToHost, ToBox u]
        (l1\<lparr>lk_box := resume t w (await_call (EventsSubscribe (JStr ty) (Some handler)) f) (lk_box l1)\<rparr>)
      = l2\<lparr>lk_box := resume u w (f (result_of (EventsSubscribe (JStr ty) (Some handler)) (Some (flag_result ''subscribed'')))) (lk_box l2)\<rparr>"
    "entering env n i l i2 l2 (Suc k)" "sx_eventHandlers (lk_box l2) = [(ty, [(1, handler)])]" "sx_entries (lk_box l2) = 1"
    by (rule entry_call [where entry = entry and u = u and w = w and f = f, OF e c(1) B1 t c(2) g p m(1-4,6) r]) rule
  show thesis by (rule that [OF l2(1-3) m(7,5)])
qed

text \<open>The transport plugin, from the first call of its code to its last.\<close>

lemma transport_code_runs:
  assumes l: "open_link env n i l" "quiet l" "pm_id (pi_manifest i) = ''demo.transport.health''"
    and g: "''ui.render'' \<in> set (pi_grantedPermissions i)" "''events.subscribe'' \<in> set (pi_grantedPermissions i)"
      "''transport.state.changed'' \<in> set (pm_declaredHooks (pi_manifest i))" "pi_subscriptions i = []"
    and b: "sx_requestCounter (lk_box l) = 0" "sx_eventHandlers (lk_box l) = []" "sx_entries (lk_box l) = 0"
    and t: "length (nat_digits t1) \<le> 100" "length (nat_digits t2) \<le> 100" "length (nat_digits t3) \<le> 100"
  obtains l' i' where "link_run env n entry [ToHost, ToBox t2, ToHost, ToBox t3, ToHost, ToBox t4] (l\<lparr>lk_box := resume t1 InEntry transportPanelCode (lk_box l)\<rparr>)
      = l'\<lparr>lk_box := resume t4 InEntry Done (lk_box l')\<rparr>"
    "open_link env n i' l'" "quiet l'" "ident i' = ident i" "panel_open ''transport.health.panel'' i'" "pi_subscriptions i' = [''transport.state.changed'']"
    "sx_eventHandlers (lk_box l') = [(''transport.state.changed'', [(1, transport_handler)])]"
    "\<And>q. (find_registry q (ph_store (lk_host l')) = None) = (find_registry q (ph_store (lk_host l)) = None)"
    "ph_tasks (lk_host l') = ph_tasks (lk_host l)" "ph_listening (lk_host l') = ph_listening (lk_host l)"
    "sx_requestCounter (lk_box l') = 3"
proof -
  let ?panel = "''transport.health.panel''" and ?ty = "''transport.state.changed''"
  let ?title = "''Transport Health''" and ?wait = "''Waiting for transport updates...''"
  have pat: "js_trim ?panel = ?panel" "?panel \<noteq> []" "length ?panel \<le> 96" "runtimeIDPattern ?panel" "js_trim ?title = ?title" "?title \<noteq> []" by code_simp+
  have id: "length (pm_id (pi_manifest i)) \<le> 70" "length (pm_id (pi_manifest i)) \<le> 80" using l(3) by simp_all
  define f3 :: "json option \<Rightarrow> plugin_code" where "f3 = (\<lambda>_. Done)"
  define f2 where "f2 = (\<lambda>_ :: json option. await_call (EventsSubscribe (JStr ?ty) (Some transport_handler)) f3)"
  define f1 where "f1 = (\<lambda>_ :: json option. await_call (SetPanelContent (JStr ?panel) (Some (JStr ?wait))) f2)"
  have code: "transportPanelCode = await_call (RegisterPanel (Some (panel_json ?panel ?title))) f1"
    by (simp add: transportPanelCode_def f1_def f2_def f3_def)
  have e0: "entering env n i l i l 0" using l b(1) by (simp add: entering_def)
  obtain i1 l1 v1 where 1: "link_run env n entry [ToHost, ToBox t2] (l\<lparr>lk_box := resume t1 InEntry transportPanelCode (lk_box l)\<rparr>)
      = l1\<lparr>lk_box := resume t2 InEntry (f1 v1) (lk_box l1)\<rparr>"
    "entering env n i l i1 l1 (Suc 0)" "sx_eventHandlers (lk_box l1) = sx_eventHandlers (lk_box l)" "sx_entries (lk_box l1) = sx_entries (lk_box l)"
    "panel_open ?panel i1" "pi_subscriptions i1 = pi_subscriptions i"
    unfolding code by (rule entry_registers_panel [where entry = entry and u = t2 and w = InEntry and f = f1, OF e0 t(1) _ g(1) pat id(2)]) simp_all
  obtain i2 l2 v2 where 2: "link_run env n entry [ToHost, ToBox t3] (l1\<lparr>lk_box := resume t2 InEntry (f1 v1) (lk_box l1)\<rparr>)
      = l2\<lparr>lk_box := resume t3 InEntry (f2 v2) (lk_box l2)\<rparr>"
    "entering env n i l i2 l2 (Suc (Suc 0))" "sx_eventHandlers (lk_box l2) = sx_eventHandlers (lk_box l1)" "sx_entries (lk_box l2) = sx_entries (lk_box l1)"
    "panel_open ?panel i2" "pi_subscriptions i2 = pi_subscriptions i1"
    unfolding f1_def by (rule entry_sets_content [where entry = entry and u = t3 and w = InEntry and f = f2 and content = ?wait,
        OF 1(2) t(2) _ g(1) 1(5) pat(1-4) id(1)]) simp_all
  obtain i3 l3 v3 where 3: "link_run env n entry [ToHost, ToBox t4] (l2\<lparr>lk_box := resume t3 InEntry (f2 v2) (lk_box l2)\<rparr>)
      = l3\<lparr>lk_box := resume t4 InEntry (f3 v3) (lk_box l3)\<rparr>"
    "entering env n i l i3 l3 (Suc (Suc (Suc 0)))" "sx_eventHandlers (lk_box l3) = [(?ty, [(1, transport_handler)])]"
    "pi_subscriptions i3 = [?ty]" "\<And>pid. panel_open pid i3 = panel_open pid i2"
    unfolding f2_def by (rule entry_subscribes [where entry = entry and u = t4 and w = InEntry and f = f3 and handler = transport_handler,
        OF 2(2) t(3) _ g(2) _ g(3) _ _ _ id(1)]) (use 1 2 b g(4) in \<open>simp_all add: allowedHooks_def\<close>)
  have run: "link_run env n entry [ToHost, ToBox t2, ToHost, ToBox t3, ToHost, ToBox t4] x = link_run env n entry [ToHost, ToBox t4]
      (link_run env n entry [ToHost, ToBox t3] (link_run env n entry [ToHost, ToBox t2] x))" for x
    by (simp add: link_run_def del: link_step.simps)
  have "link_run env n entry [ToHost, ToBox t2, ToHost, ToBox t3, ToHost, ToBox t4] (l\<lparr>lk_box := resume t1 InEntry transportPanelCode (lk_box l)\<rparr>)
      = l3\<lparr>lk_box := resume t4 InEntry Done (lk_box l3)\<rparr>" unfolding run 1(1) 2(1) 3(1) f3_def ..
  then show thesis
    by (rule that [of l3 i3]) (use 3 2(5) in \<open>simp_all add: entering_def\<close>)
qed

text \<open>The whole boot: the two messages of the handshake, and between them the three calls of the plugin's entry.\<close>

definition boot_events :: "nat \<Rightarrow> nat \<Rightarrow> nat \<Rightarrow> nat \<Rightarrow> nat \<Rightarrow> link_event list" where
  "boot_events k t1 t2 t3 t4 = [ToHost, AtHost (EvBootContinue k), ToBox t1] @ [ToHost, ToBox t2, ToHost, ToBox t3, ToHost, ToBox t4]
     @ [ToHost, AtHost (EvBootContinue k)]"

definition boot_link :: "plugin_env \<Rightarrow> string \<Rightarrow> plugin_descriptor \<Rightarrow> plugin_host \<Rightarrow> link" where
  "boot_link env p d h = fresh_link (enable env p h) (ph_next h)
     (createActiveInstance d (pe_random env (ph_random h)) (pe_random env (Suc (ph_random h))))"

lemma transport_boot:
  assumes h: "host_reachable h" "map_get (ph_descriptors h) ''demo.transport.health'' = Some d" "pd_manifest d = transportPanelManifest"
      "map_get (ph_active h) ''demo.transport.health'' = None" "find_registry ''demo.transport.health'' (ph_store h) \<noteq> None" "ph_listening h"
    and r: "12 \<le> length (pe_random env (Suc (ph_random h)))" "length (pe_random env (Suc (ph_random h))) \<le> 128" "pe_origin env \<noteq> []"
    and t: "length (nat_digits t1) \<le> 100" "length (nat_digits t2) \<le> 100" "length (nat_digits t3) \<le> 100"
    and l: "l = link_run env (ph_next h) (Some transportPanelCode) (boot_events (length (ph_tasks h)) t1 t2 t3 t4) (boot_link env ''demo.transport.health'' d h)"
  shows "status_of ''demo.transport.health'' (ph_store (lk_host l)) = Some PsEnabled" "ph_tasks (lk_host l) = ph_tasks h"
    "follows_transport env (ph_next h) l" "sx_requestCounter (lk_box l) = 3"
proof -
  let ?p = "''demo.transport.health''" and ?ty = "''transport.state.changed''"
  let ?n = "ph_next h" and ?k = "length (ph_tasks h)" and ?r = "pe_random env (Suc (ph_random h))"
  let ?i = "createActiveInstance d (pe_random env (ph_random h)) ?r"
  let ?t = "\<lparr>bt_plugin = ?p, bt_object = ?n, bt_manifest = pd_manifest d, bt_phase = AwaitReady, bt_then = []\<rparr>"
  define g where "g = enable env ?p h"
  note e = enable_new [OF reachable_host_ok [OF h(1)] h(2,4), of env, folded g_def]
  have g: "host_reachable g" using host_next [OF h(1), of env "EvEnable ?p"] by (simp add: g_def)
  have ge: "(?p, ?n) \<in> set (ph_active g)" "ph_objects g ?n = Some ?i" "ph_tasks g = ph_tasks h @ [?t]" "ph_listening g"
    "find_registry ?p (ph_store g) \<noteq> None" using h(5,6) by (simp_all add: e store_simps)
  have i: "pm_id (pi_manifest ?i) = ?p" "pi_runtimeToken ?i = ?r" "pi_ready ?i = False" "pi_subscriptions ?i = []" "pi_manifest ?i = pd_manifest d"
    "''ui.render'' \<in> set (pi_grantedPermissions ?i)" "''events.subscribe'' \<in> set (pi_grantedPermissions ?i)" "?ty \<in> set (pm_declaredHooks (pi_manifest ?i))"
    using h(3) by (simp_all add: createActiveInstance_def transportPanelManifest_def)
  obtain l1 where l1: "link_run env ?n (Some transportPanelCode) [ToHost, AtHost (EvBootContinue ?k), ToBox t1] (fresh_link g ?n ?i)
      = l1\<lparr>lk_box := resume t1 InEntry transportPanelCode (lk_box l1)\<rparr>" "open_link env ?n (?i\<lparr>pi_ready := True\<rparr>) l1" "quiet l1"
    "ph_tasks (lk_host l1) = ph_tasks h @ [?t\<lparr>bt_phase := AwaitInitialized\<rparr>]" "ph_store (lk_host l1) = ph_store g"
    "ph_listening (lk_host l1) = ph_listening g" "sx_requestCounter (lk_box l1) = 0" "sx_eventHandlers (lk_box l1) = []" "sx_entries (lk_box l1) = 0"
    by (rule boot_opens_link [where k = ?k and t = t1 and code = transportPanelCode, OF g ge(1,2) i(3) _ _ _ _ _ r(3)])
      (use ge(3) i(2) r in simp_all)
  obtain l2 i2 where l2: "link_run env ?n (Some transportPanelCode) [ToHost, ToBox t2, ToHost, ToBox t3, ToHost, ToBox t4]
      (l1\<lparr>lk_box := resume t1 InEntry transportPanelCode (lk_box l1)\<rparr>) = l2\<lparr>lk_box := resume t4 InEntry Done (lk_box l2)\<rparr>"
    "open_link env ?n i2 l2" "quiet l2" "ident i2 = ident ?i" "panel_open ''transport.health.panel'' i2" "pi_subscriptions i2 = [?ty]"
    "sx_eventHandlers (lk_box l2) = [(?ty, [(1, transport_handler)])]"
    "\<And>q. (find_registry q (ph_store (lk_host l2)) = None) = (find_registry q (ph_store (lk_host l1)) = None)"
    "ph_tasks (lk_host l2) = ph_tasks (lk_host l1)" "ph_listening (lk_host l2)" "sx_requestCounter (lk_box l2) = 3"
    by (rule transport_code_runs [where entry = "Some transportPanelCode" and ?t4.0 = t4, OF l1(2,3) _ _ _ _ _ l1(7-9) t])
      (use i ge(4) l1(6) in \<open>simp_all add: ident_def\<close>)
  have p2: "pi_manifest i2 = pd_manifest d" "pm_id (pi_manifest i2) = ?p" using l2(4) i(1,5) by (simp_all add: ident_def)
  have registered: "find_registry ?p (ph_store (lk_host l2)) \<noteq> None" using l2(8) [of ?p] ge(5) l1(5) by metis
  have run: "l = link_run env ?n (Some transportPanelCode) [ToHost, AtHost (EvBootContinue ?k)] (l2\<lparr>lk_box := resume t4 InEntry Done (lk_box l2)\<rparr>)"
    unfolding l boot_events_def boot_link_def g_def [symmetric] link_run_append l1(1) l2(1) ..
  have tasks: "ph_tasks (lk_host l2) = ph_tasks h @ [?t\<lparr>bt_phase := AwaitInitialized\<rparr>]" using l2(9) l1(4) by simp
  let ?T = "ph_tasks (lk_host l2)"
  have c: "?k < length ?T" "bt_object (?T ! ?k) = ?n" "bt_phase (?T ! ?k) = AwaitInitialized" "bt_then (?T ! ?k) = []"
    "bt_manifest (?T ! ?k) = pi_manifest i2" "bt_plugin (?T ! ?k) = pm_id (pi_manifest i2)" "find_registry (pm_id (pi_manifest i2)) (ph_store (lk_host l2)) \<noteq> None"
    using tasks p2 registered by simp_all
  note last = boot_closes [OF l2(2,3) c(1) refl c(2-7) run]
  show "status_of ?p (ph_store (lk_host l)) = Some PsEnabled" using last(3) p2 by simp
  show "ph_tasks (lk_host l) = ph_tasks h" using last(7) tasks by simp
  show "sx_requestCounter (lk_box l) = 3" using last(5) l2(11) by simp
  show "follows_transport env ?n l"
    unfolding follows_transport_def using last l2(5-7,10) p2
    by (intro exI [of _ "i2\<lparr>pi_initialized := True\<rparr>"] exI [of _ 1]) (simp add: panel_open_def getHandlerSet_def)
qed

text \<open>C16. The bundled transport plugin boots over the bridge. On a listening host that has discovered it, enabling it and
  then passing the messages on leaves it enabled, with no boot pending, its panel open and its subscription in force:
  both messages of the handshake are accepted, the tokens arrive, and its three calls are allowed and answered.\<close>

theorem transport_plugin_boots:
  assumes "host_reachable h" "map_get (ph_descriptors h) ''demo.transport.health'' = Some d" "pd_manifest d = transportPanelManifest"
      "map_get (ph_active h) ''demo.transport.health'' = None" "find_registry ''demo.transport.health'' (ph_store h) \<noteq> None" "ph_listening h"
    and "12 \<le> length (pe_random env (Suc (ph_random h)))" "length (pe_random env (Suc (ph_random h))) \<le> 128" "pe_origin env \<noteq> []"
    and "length (nat_digits t1) \<le> 100" "length (nat_digits t2) \<le> 100" "length (nat_digits t3) \<le> 100"
    and "l = link_run env (ph_next h) (Some transportPanelCode) (boot_events (length (ph_tasks h)) t1 t2 t3 t4) (boot_link env ''demo.transport.health'' d h)"
  shows "status_of ''demo.transport.health'' (ph_store (lk_host l)) = Some PsEnabled \<and> ph_tasks (lk_host l) = ph_tasks h
    \<and> follows_transport env (ph_next h) l"
  using transport_boot [OF assms] by simp

text \<open>A host that has discovered the bundled plugins, with tokens of the length of \<open>crypto.randomUUID()\<close>.\<close>

definition token_env :: plugin_env where
  "token_env = ex_env\<lparr>pe_random := \<lambda>i. replicate 36 (char_of (97 + i mod 26))\<rparr>"

lemma ex_transport_facts:
  "\<exists>d. map_get (ph_descriptors ex_discovered) ''demo.transport.health'' = Some d \<and> pd_manifest d = transportPanelManifest"
  "find_registry ''demo.transport.health'' (ph_store ex_discovered) \<noteq> None" "ph_listening ex_discovered" "ph_transportSnapshot ex_discovered = []"
proof -
  have e: "ex_discovered = refreshDiscovery ex_env (\<lambda>_. ''run'') [] (start (initial_host Map.empty [] initial_store))"
    by (simp add: ex_discovered_def)
  have v: "validatePluginDescriptor \<lparr>ld_manifest = manifest_json m, ld_source = SrcBundled, ld_sourceRef = x, ld_entrypointCode = ''run''\<rparr> = Inr m"
    if "m \<in> {transportPanelManifest, conversationSummaryManifest, localActionsManifest}" for m x
    using that bundled_checks by (intro checked_descriptor_validates) auto
  note defs = refreshDiscovery_def bundledPluginDescriptors_def discover_one_def Let_def v bundled_ids wanted_ids_def registry_id_def discovered_item_def desired_truthy_def not_prototype_keys
    start_def initial_host_def rehydrate_plugins_def initial_plugin_store_def set_store_def setRegistry_def List.map_filter_def
  show "\<exists>d. map_get (ph_descriptors ex_discovered) ''demo.transport.health'' = Some d \<and> pd_manifest d = transportPanelManifest"
    "find_registry ''demo.transport.health'' (ph_store ex_discovered) \<noteq> None" "ph_listening ex_discovered" "ph_transportSnapshot ex_discovered = []"
    unfolding e by (simp_all add: defs find_registry_def has_id_def)
qed

lemma token_env_facts: "length (pe_random token_env i) = 36" "pe_origin token_env \<noteq> []" "length (nat_digits 5) \<le> 100"
  by (simp_all add: token_env_def ex_env_def nat_digits.simps)

lemma transport_plugin_boots_witness:
  "\<exists>d. status_of ''demo.transport.health'' (ph_store (lk_host (link_run token_env 0 (Some transportPanelCode)
     (boot_events 0 5 5 5 5) (boot_link token_env ''demo.transport.health'' d ex_discovered)))) = Some PsEnabled"
proof -
  obtain d where d: "map_get (ph_descriptors ex_discovered) ''demo.transport.health'' = Some d" "pd_manifest d = transportPanelManifest"
    using ex_transport_facts(1) by blast
  show ?thesis
    using transport_plugin_boots [OF ex_discovered_reachable d _ ex_transport_facts(2,3) _ _ token_env_facts(2) token_env_facts(3,3,3) refl, of 5]
    by (auto simp: ex_discovered_facts(1-3) token_env_facts(1))
qed


definition ex_connected :: messaging_store where
  "ex_connected = initial_store\<lparr>st_transport := initial_transport\<lparr>ts_mode := MWebsocket, ts_status := StConnected, ts_endpoint := Some ''wss://relay''\<rparr>\<rparr>"

lemma ex_connected_text:
  "connection_text (st_transport ex_connected) = ''Mode: websocket'' @ newline @ ''Status: connected'' @ newline @ ''Endpoint: wss://relay''"
  by (simp add: ex_connected_def initial_store_def connection_text_def endpoint_text_def or_empty_def)


end
