(* ===== verification/Client_Pages.thy ===== *)
theory Client_Pages
  imports Account_Pages Messenger_View Bundled_Plugins
begin

text \<open>
  The other pages: contacts (\<open>features/friends/FriendsPage.tsx\<close>), members of a group
  (\<open>features/messaging/GroupMembersPage.tsx\<close>), security events, plugins and their panels (\<open>features/plugins\<close>), the
  updater and the other settings, onboarding, the links of the sidebar, and the handlers of
  \<open>features/messaging/ConversationPage.tsx\<close> beside the composer. As on the other pages, a value shown is a function of
  the stores, and a handler a function from its state and the stores to what it leaves; \<open>edits\<close> is what
  the user changes in a form while a request is under way.
\<close>

subsection \<open>Handlers of a conversation\<close>

text \<open>The effect that loads the messages; \<open>disposed\<close> tells whether the page was left meanwhile.\<close>

record load_state =
  ls_loadingMessages :: bool
  ls_error :: "string option"

definition load_effect :: "runtime_env \<Rightarrow> string \<Rightarrow> bool \<Rightarrow> load_state \<Rightarrow> world \<Rightarrow> load_state \<times> world" where
  "load_effect env conversationId disposed p w =
     (if conversationId = [] then (p, w)
      else let p1 = \<lparr>ls_loadingMessages = True, ls_error = None\<rparr> in
        case loadMessages env conversationId w of (r, w1) \<Rightarrow>
          (if disposed then p1
           else \<lparr>ls_loadingMessages = False, ls_error = (case r of Inl e \<Rightarrow> Some (extractApiErrorMessage (re_t env) e) | Inr _ \<Rightarrow> None)\<rparr>, w1))"

definition hideMessage :: "string \<Rightarrow> string set \<Rightarrow> string set" where
  "hideMessage messageId hidden = insert messageId hidden"

text \<open>The text of a message may be any value; an empty one is falsy.\<close>

definition prepareEditAsNew :: "local_message \<Rightarrow> json \<Rightarrow> json" where
  "prepareEditAsNew m messageText = (if truthy (message_text m) then the (message_text m) else messageText)"

text \<open>\<open>clipboard\<close> is the outcome of \<open>navigator.clipboard.writeText\<close>; the result is what was handed to it, and the error shown.\<close>

definition copyMessage :: "(string \<Rightarrow> string) \<Rightarrow> js_error + unit \<Rightarrow> local_message \<Rightarrow> string option \<Rightarrow> json option \<times> string option" where
  "copyMessage t clipboard m error =
     (if \<not> truthy (message_text m) then (None, error)
      else (message_text m, case clipboard of Inl e \<Rightarrow> Some (extractApiErrorMessage t e) | Inr _ \<Rightarrow> error))"

text \<open>The file that is saved, what is still downloading, and the error shown.\<close>

definition handleDownloadAttachment :: "runtime_env \<Rightarrow> download_input \<Rightarrow> (string \<rightharpoonup> bool) \<Rightarrow> world
    \<Rightarrow> ((bytes \<times> string \<times> string) option \<times> (string \<rightharpoonup> bool) \<times> string option) \<times> world" where
  "handleDownloadAttachment env input downloading w =
     (let finished = downloading(di_attachmentId input \<mapsto> False) in
      case downloadAttachment env input w of
        (Inl e, w1) \<Rightarrow> ((None, finished, Some (extractApiErrorMessage (re_t env) e)), w1)
      | (Inr file, w1) \<Rightarrow> ((Some file, finished, None), w1))"

subsection \<open>Contacts\<close>

record friends_page =
  fp_accountId :: string
  fp_nickname :: string
  fp_note :: string
  fp_error :: "string option"
  fp_busyFriendId :: "string option"

definition handleAddFriend :: "string \<Rightarrow> string \<Rightarrow> friends_page \<Rightarrow> social_store \<Rightarrow> friends_page \<times> social_store" where
  "handleAddFriend newId now p s =
     (let p1 = p\<lparr>fp_error := None\<rparr> in
      if js_trim (fp_accountId p) = [] then (p1, s)
      else (p1\<lparr>fp_accountId := [], fp_nickname := [], fp_note := []\<rparr>,
        addFriend newId now \<lparr>fi_accountId = fp_accountId p, fi_nickname = Some (fp_nickname p), fi_avatarColor = None,
          fi_note = Some (fp_note p)\<rparr> s))"

definition onCreateDirect :: "runtime_env \<Rightarrow> (friends_page \<Rightarrow> friends_page) \<Rightarrow> string \<Rightarrow> string \<Rightarrow> friends_page \<Rightarrow> world
    \<Rightarrow> (friends_page \<times> string option) \<times> world" where
  "onCreateDirect env edits friendAccountId friendId p w =
     (let p1 = edits (p\<lparr>fp_busyFriendId := Some friendId, fp_error := None\<rparr>) in
      case createDirect env friendAccountId w of
        (Inl e, w1) \<Rightarrow> ((p1\<lparr>fp_error := Some (extractApiErrorMessage (re_t env) e), fp_busyFriendId := None\<rparr>, None), w1)
      | (Inr c, w1) \<Rightarrow> ((p1\<lparr>fp_busyFriendId := None\<rparr>, Some (''/conversations/'' @ cv_id c)), w1))"

definition profileLabel :: "(string \<Rightarrow> string) \<Rightarrow> auth_session option \<Rightarrow> profile \<Rightarrow> string" where
  "profileLabel t session p =
     (if js_trim (pr_displayName p) \<noteq> [] then js_trim (pr_displayName p)
      else or_else (map_option as_email session) (t ''friends.profileFallback''))"

subsection \<open>Members of a group\<close>

record members_page =
  mp_memberAccountId :: string
  mp_role :: string
  mp_error :: "string option"
  mp_submitting :: bool

definition members_conversation :: "string \<Rightarrow> messaging_store \<Rightarrow> conversation_dto option" where
  "members_conversation conversationId s = find (\<lambda>c. cv_id c = conversationId) (st_conversations s)"

text \<open>\<open>submit\<close>; \<open>answer\<close> is that of the relay to \<open>addMember\<close>.\<close>

definition add_member :: "runtime_env \<Rightarrow> (nat \<Rightarrow> js_error + conversation_dto) \<Rightarrow> (members_page \<Rightarrow> members_page) \<Rightarrow> string option \<Rightarrow> string
    \<Rightarrow> members_page \<Rightarrow> world \<Rightarrow> members_page \<times> world" where
  "add_member env answer edits accessToken conversationId p w =
     (case members_conversation conversationId (w_store w) of
        None \<Rightarrow> (p, w)
      | Some c \<Rightarrow>
          if \<not> present accessToken \<or> js_trim (mp_memberAccountId p) = [] then (p, w)
          else let p1 = edits (p\<lparr>mp_submitting := True, mp_error := None\<rparr>) in
            case bnd (api env (api_addMember (re_server env) (the accessToken) (cv_id c) (js_trim (mp_memberAccountId p)) (Some (mp_role p))) answer)
                   (\<lambda>conversation. store_do env (\<lambda>now. upsertConversation conversation)) w of
              (Inl e, w1) \<Rightarrow> (p1\<lparr>mp_error := Some (extractApiErrorMessage (re_t env) e), mp_submitting := False\<rparr>, w1)
            | (Inr _, w1) \<Rightarrow> (p1\<lparr>mp_memberAccountId := [], mp_submitting := False\<rparr>, w1))"

text \<open>The page is that of a group; for another conversation it says that there is none.\<close>

definition members_shown :: "string \<Rightarrow> messaging_store \<Rightarrow> (string \<times> conversation_role \<times> bool \<times> nat) list option" where
  "members_shown conversationId s = (case members_conversation conversationId s of
      None \<Rightarrow> None
    | Some c \<Rightarrow> if cv_type c \<noteq> CGroup then None
        else Some (map (\<lambda>m. (mem_accountId m, mem_role m, mem_isActive m, length (mem_trustedDevices m))) (cv_members c)))"

subsection \<open>Security events\<close>

datatype event_severity = SevInfo | SevWarning | SevCritical

record security_event_dto =
  sv_id :: string
  sv_accountId :: string
  sv_deviceId :: "string option"
  sv_eventType :: string
  sv_severity :: event_severity
  sv_trustState :: trust_state
  sv_metadata :: json
  sv_createdAt :: string

record events_page =
  ev_events :: "security_event_dto list"
  ev_error :: "string option"
  ev_loading :: bool

definition load_events :: "runtime_env \<Rightarrow> (nat \<Rightarrow> js_error + security_event_dto list) \<Rightarrow> string option \<Rightarrow> events_page \<Rightarrow> world \<Rightarrow> events_page \<times> world" where
  "load_events env answer accessToken p w =
     (if \<not> present accessToken then (p, w)
      else let p1 = p\<lparr>ev_loading := False, ev_error := None\<rparr> in
        case api env (api_securityEvents (re_server env) (the accessToken) 50) answer w of
          (Inl e, w1) \<Rightarrow> (p1\<lparr>ev_error := Some (extractApiErrorMessage (re_t env) e)\<rparr>, w1)
        | (Inr events, w1) \<Rightarrow> (p1\<lparr>ev_events := events\<rparr>, w1))"

subsection \<open>Plugins\<close>

text \<open>
  What the page reads of a registry entry: \<open>item.manifest\<close> is typed as a validated manifest, but that of a plugin that
  failed its validation is stored as it was found. \<open>Inl\<close> is the exception a read, or the rendering of an object, throws.
\<close>

definition manifest_value :: "plugin_registry_item \<Rightarrow> json" where
  "manifest_value item = (case pr_manifest item of ManifestOk m \<Rightarrow> manifest_json m | ManifestRaw raw \<Rightarrow> raw)"

definition type_error :: js_error where "type_error = JsError ''TypeError''"

definition member_of :: "json option \<Rightarrow> string \<Rightarrow> js_error + json option" where
  "member_of v k = (case v of None \<Rightarrow> Inl type_error | Some j \<Rightarrow> if j = JNull then Inl type_error else Inr (json_get j k))"

text \<open>\<open>v.length === 0 ? none : v.map(...)\<close>\<close>

definition items_of :: "json option \<Rightarrow> js_error + json list" where
  "items_of v = (case v of
      Some (JArr xs) \<Rightarrow> Inr xs
    | Some (JStr s) \<Rightarrow> if s = [] then Inr [] else Inl type_error
    | Some (JObj fs) \<Rightarrow> if json_get (JObj fs) ''length'' = Some (JNum 0) then Inr [] else Inl type_error
    | _ \<Rightarrow> Inl type_error)"

text \<open>React renders texts, numbers and arrays of them, and nothing for the other primitive values.\<close>

fun renderable :: "json \<Rightarrow> bool" where
  "renderable (JObj fs) = False"
| "renderable (JArr xs) = list_all renderable xs"
| "renderable _ = True"

definition child :: "json option \<Rightarrow> js_error + json option" where
  "child v = (if pred_option renderable v then Inr v else Inl type_error)"

definition andThen :: "'e + 'a \<Rightarrow> ('a \<Rightarrow> 'e + 'b) \<Rightarrow> 'e + 'b" where
  "andThen r f = (case r of Inl e \<Rightarrow> Inl e | Inr x \<Rightarrow> f x)"

record plugin_card =
  pg_name :: "json option"
  pg_id :: "json option"
  pg_version :: "json option"
  pg_status :: string
  pg_lastError :: "json option"
  pg_permissions :: "json list"
  pg_panels :: "(json option \<times> json option) list"
  pg_install :: bool
  pg_disable :: bool
  pg_enable :: bool

definition mapPluginStatus :: "plugin_status \<Rightarrow> string" where
  "mapPluginStatus status = (case status of PsEnabled \<Rightarrow> ''delivered'' | PsFailed \<Rightarrow> ''failed'' | PsDisabled \<Rightarrow> ''queued'' | _ \<Rightarrow> ''sent'')"

definition panel_link :: "json \<Rightarrow> js_error + json option \<times> json option" where
  "panel_link panel = andThen (member_of (Some panel) ''id'') (\<lambda>i.
     andThen (member_of (Some panel) ''title'') (\<lambda>title. andThen (child title) (\<lambda>title. Inr (i, title))))"

text \<open>A button is offered, and can be pressed unless another action on the plugin is under way.\<close>

definition plugin_card_of :: "json option \<Rightarrow> plugin_registry_item \<Rightarrow> js_error + plugin_card" where
  "plugin_card_of busyPluginId item =
     (let isBusy = (busyPluginId \<noteq> None \<and> busyPluginId = registry_id item);
          isEnabled = (pr_status item = PsEnabled) in
      andThen (child (json_get (manifest_value item) ''name'')) (\<lambda>name.
      andThen (child (registry_id item)) (\<lambda>i.
      andThen (child (json_get (manifest_value item) ''version'')) (\<lambda>version.
      andThen (child (pr_lastError item)) (\<lambda>lastError.
      andThen (items_of (json_get (manifest_value item) ''requestedPermissions'')) (\<lambda>permissions.
      andThen (try_map (\<lambda>p. child (Some p)) permissions) (\<lambda>_.
      andThen (member_of (json_get (manifest_value item) ''uiContributions'') ''panels'') (\<lambda>panels.
      andThen (andThen (items_of panels) (try_map panel_link)) (\<lambda>links.
      Inr \<lparr>pg_name = name, pg_id = i, pg_version = version, pg_status = mapPluginStatus (pr_status item), pg_lastError = lastError,
        pg_permissions = permissions, pg_panels = links, pg_install = (pr_status item = PsDiscovered \<and> \<not> isBusy),
        pg_disable = (isEnabled \<and> \<not> isBusy), pg_enable = (\<not> isEnabled \<and> \<not> isBusy \<and> pr_status item \<noteq> PsDiscovered)\<rparr>)))))))))"

text \<open>
  The registry by name; \<open>collate\<close> is \<open>localeCompare\<close>. Of two names that are compared, the engine chooses the one whose
  method is called; a name that is no text has none.
\<close>

definition name_of :: "plugin_registry_item \<Rightarrow> string option" where
  "name_of item = as_str (json_get (manifest_value item) ''name'')"

definition by_name :: "(string \<Rightarrow> string \<Rightarrow> int) \<Rightarrow> plugin_registry_item \<Rightarrow> plugin_registry_item \<Rightarrow> int" where
  "by_name collate left right = collate (or_empty (name_of left)) (or_empty (name_of right))"

definition sortedRegistry :: "(string \<Rightarrow> string \<Rightarrow> int) \<Rightarrow> plugin_registry_item list \<Rightarrow> js_error + plugin_registry_item list" where
  "sortedRegistry collate registry =
     (if 1 < length registry \<and> (\<exists>item \<in> set registry. name_of item = None) then Inl type_error
      else Inr (js_sort (by_name collate) registry))"

definition plugins_page :: "(string \<Rightarrow> string \<Rightarrow> int) \<Rightarrow> json option \<Rightarrow> plugin_store \<Rightarrow> js_error + plugin_card list" where
  "plugins_page collate busyPluginId s = andThen (sortedRegistry collate (pst_registry s)) (try_map (plugin_card_of busyPluginId))"

definition shown_notices :: "plugin_store \<Rightarrow> plugin_notice list" where
  "shown_notices s = take 20 (pst_notices s)"

text \<open>The buttons: \<open>refresh\<close>, \<open>install\<close>, \<open>enable\<close>, \<open>disable\<close> and the command.\<close>

datatype plugins_click = ClickRefresh | ClickInstall string | ClickEnable string | ClickDisable string | ClickRun string string

fun plugins_click_event :: "(string \<Rightarrow> string) \<Rightarrow> loaded_descriptor list \<Rightarrow> plugins_click \<Rightarrow> host_event" where
  "plugins_click_event code local ClickRefresh = EvRefresh code local"
| "plugins_click_event code local (ClickInstall p) = EvInstall p"
| "plugins_click_event code local (ClickEnable p) = EvEnable p"
| "plugins_click_event code local (ClickDisable p) = EvDisable p"
| "plugins_click_event code local (ClickRun p c) = EvExecute p c"

text \<open>The page of one panel: its header, and its content if the panel is there.\<close>

definition panel_page :: "(string \<Rightarrow> string) \<Rightarrow> string \<Rightarrow> string \<Rightarrow> plugin_store \<Rightarrow> js_error + json option \<times> string option" where
  "panel_page t pluginId panelId s =
     (let panel = find (\<lambda>item. pp_pluginId item = pluginId \<and> pp_id item = panelId) (pst_panels s);
          plugin = find (\<lambda>item. str_of (registry_id item) = pluginId) (pst_registry s);
          name = Option.bind plugin (\<lambda>item. json_get (manifest_value item) ''name'');
          headerTitle = (case panel of Some p \<Rightarrow> Some (JStr (pp_title p)) | None \<Rightarrow> if nullish name then Some (JStr ''Plugin Panel'') else name) in
      andThen (child headerTitle) (\<lambda>title. Inr (title,
        map_option (\<lambda>p. if pp_content p = [] then t ''plugins.noPanelContent'' else pp_content p) panel)))"
subsection \<open>Settings and onboarding\<close>

text \<open>\<open>t\<close> is the text of a key, \<open>tv\<close> that of \<open>updates.availableVersion\<close> with a version.\<close>

datatype updater_action = UpCheck | UpDownload | UpRestart

record settings_page =
  sg_updaterActionBusy :: "updater_action option"
  sg_updaterHint :: "string option"

definition updater_hint :: "(string \<Rightarrow> string) \<Rightarrow> updater_state \<Rightarrow> string" where
  "updater_hint t u = t (''updates.errors.'' @ (case us_errorMessage (ud_store u) of None \<Rightarrow> ''unknown'' | Some e \<Rightarrow> e))"

definition onCheckUpdates :: "(string \<Rightarrow> string) \<Rightarrow> (string \<Rightarrow> string) \<Rightarrow> bool \<Rightarrow> js_error + update_info option \<Rightarrow> string \<Rightarrow> updater_state
    \<Rightarrow> settings_page \<times> updater_state" where
  "onCheckUpdates t tv tauri answer now u =
     (case checkForUpdates tauri False answer now u of
        (r, u1) \<Rightarrow> (\<lparr>sg_updaterActionBusy = None, sg_updaterHint = Some (case r of
            Inr (NoUpdate _) \<Rightarrow> t ''updates.upToDate''
          | Inr (HasUpdate update) \<Rightarrow> tv (nu_version update)
          | Inl _ \<Rightarrow> updater_hint t u1)\<rparr>, u1))"

definition onDownloadAndInstall :: "(string \<Rightarrow> string) \<Rightarrow> (int \<Rightarrow> int \<Rightarrow> jsnumber) \<Rightarrow> download_event list \<Rightarrow> js_error + unit \<Rightarrow> updater_state
    \<Rightarrow> settings_page \<times> updater_state" where
  "onDownloadAndInstall t percent events outcome u =
     (case downloadAndInstallUpdate percent events outcome u of
        (r, u1) \<Rightarrow> (\<lparr>sg_updaterActionBusy = None, sg_updaterHint = Some (case r of
            Inr _ \<Rightarrow> t ''updates.downloaded''
          | Inl _ \<Rightarrow> updater_hint t u1)\<rparr>, u1))"

text \<open>\<open>onRestartAndApply\<close>: outside the shell nothing happens; a relaunch that fails is not reported.\<close>

definition onRestartAndApply :: "settings_page \<Rightarrow> settings_page" where
  "onRestartAndApply p = p\<lparr>sg_updaterActionBusy := None\<rparr>"

text \<open>The buttons of the updater: whether one can be pressed, and \<open>None\<close> for one that is not there.\<close>

record updater_buttons =
  ub_check :: bool
  ub_download :: "bool option"
  ub_restart :: "bool option"

definition updater_buttons_of :: "updater_action option \<Rightarrow> updater_store \<Rightarrow> updater_buttons" where
  "updater_buttons_of busy s =
     \<lparr>ub_check = (busy = None \<and> us_supported s),
      ub_download = (if us_status s = UsAvailable then Some (busy = None) else None),
      ub_restart = (if us_status s = UsDownloaded then Some (busy = None) else None)\<rparr>"

definition onLanguageChange :: "app_language \<Rightarrow> app_state \<times> local_storage \<Rightarrow> app_state \<times> local_storage" where
  "onLanguageChange nextLanguage a = (case setLanguage nextLanguage a of (s, storage) \<Rightarrow> (s, changeLanguage nextLanguage storage))"

text \<open>Only the two channels can be chosen.\<close>

definition chosen_channel :: "string \<Rightarrow> update_channel" where
  "chosen_channel v = (if v = ''beta'' then ChBeta else ChStable)"

definition finishOnboarding :: "app_state \<times> local_storage \<Rightarrow> (app_state \<times> local_storage) \<times> string" where
  "finishOnboarding a = (setOnboardingCompleted True a, ''/'')"

definition onboarding_links :: "string list" where
  "onboarding_links = [''/devices'', ''/'', ''/messaging/transport'', ''/plugins'']"

subsection \<open>The sidebar and the banner\<close>

definition sidebar_links :: "bool \<Rightarrow> bool \<Rightarrow> bool \<Rightarrow> string list" where
  "sidebar_links hasServerConnection session onboardingCompleted =
     (if \<not> hasServerConnection then [''/connect-server'']
      else if session then (if onboardingCompleted then [] else [''/onboarding'']) @ [''/'', ''/friends'', ''/devices'', ''/plugins'', ''/settings'']
      else [''/auth/login'', ''/auth/register''])"

definition groupQuickLinks :: "messaging_store \<Rightarrow> string list" where
  "groupQuickLinks s = map (\<lambda>c. ''/conversations/'' @ cv_id c) (take 6 (filter (\<lambda>c. cv_type c = CGroup) (st_conversations s)))"

definition update_banner :: "updater_store \<Rightarrow> string option" where
  "update_banner s = (if us_bannerVisible s \<and> present (us_availableVersion s) then us_availableVersion s else None)"

subsection \<open>What the plugins page shows\<close>

lemma andThen_simps [simp]: "andThen (Inl e) f = Inl e" "andThen (Inr x) f = f x"
  by (simp_all add: andThen_def)

lemma child_simps [simp]: "child None = Inr None" "child (Some (JStr s)) = Inr (Some (JStr s))"
  by (simp_all add: child_def)

lemma try_map_all: "(\<And>x. x \<in> set xs \<Longrightarrow> f x = Inr (g x)) \<Longrightarrow> try_map f xs = Inr (map g xs)"
  by (induction xs) simp_all

lemma try_map_Inl: "x \<in> set xs \<Longrightarrow> \<exists>e. f x = Inl e \<Longrightarrow> \<exists>e. try_map f xs = Inl e"
  by (induction xs) (auto split: sum.split)

text \<open>The entry of a plugin that has passed its validation, with a last error that is a text.\<close>

definition valid_item :: "plugin_registry_item \<Rightarrow> bool" where
  "valid_item item \<longleftrightarrow> (\<exists>m. pr_manifest item = ManifestOk m) \<and> pred_option (\<lambda>e. as_str (Some e) \<noteq> None) (pr_lastError item)"

definition valid_card :: "json option \<Rightarrow> plugin_registry_item \<Rightarrow> plugin_card" where
  "valid_card busyPluginId item =
     (let m = (case pr_manifest item of ManifestOk m \<Rightarrow> m);
          isBusy = (busyPluginId = Some (JStr (pm_id m))); isEnabled = (pr_status item = PsEnabled) in
      \<lparr>pg_name = Some (JStr (pm_name m)), pg_id = Some (JStr (pm_id m)), pg_version = Some (JStr (pm_version m)),
       pg_status = mapPluginStatus (pr_status item), pg_lastError = pr_lastError item,
       pg_permissions = map JStr (pm_requestedPermissions m),
       pg_panels = map (\<lambda>(i, title). (Some (JStr i), Some (JStr title))) (pm_panels m),
       pg_install = (pr_status item = PsDiscovered \<and> \<not> isBusy), pg_disable = (isEnabled \<and> \<not> isBusy),
       pg_enable = (\<not> isEnabled \<and> \<not> isBusy \<and> pr_status item \<noteq> PsDiscovered)\<rparr>)"

lemma valid_item_card: assumes "valid_item item" shows "plugin_card_of busyPluginId item = Inr (valid_card busyPluginId item)"
proof -
  obtain m where m: "pr_manifest item = ManifestOk m" using assms by (auto simp: valid_item_def)
  have e: "child (pr_lastError item) = Inr (pr_lastError item)"
    using assms by (cases "pr_lastError item") (auto simp: valid_item_def child_def elim: as_str.elims)
  have perms: "try_map (\<lambda>p. child (Some p)) (map JStr xs) = Inr (map (\<lambda>p. Some p) (map JStr xs))" for xs
    by (rule try_map_all) auto
  have panels: "try_map panel_link (map (\<lambda>(i, title). JObj [(''id'', JStr i), (''title'', JStr title)]) xs)
      = Inr (map (\<lambda>(i, title). (Some (JStr i), Some (JStr title))) xs)" for xs
    by (induction xs) (auto simp: panel_link_def member_of_def)
  show ?thesis
    by (auto simp: plugin_card_of_def valid_card_def m e manifest_value_def manifest_json_def registry_id_def items_of_def member_of_def perms panels Let_def)
qed

lemma valid_name: "valid_item item \<Longrightarrow> \<exists>m. pr_manifest item = ManifestOk m \<and> name_of item = Some (pm_name m) \<and> registry_id item = Some (JStr (pm_id m))"
  by (auto simp: valid_item_def name_of_def manifest_value_def manifest_json_def registry_id_def)

lemma by_name_comparator: "comparator collate \<Longrightarrow> comparator (by_name collate)"
  by (auto simp: comparator_def by_name_def)


definition two_plugins :: plugin_store where
  "two_plugins = initial_plugin_store\<lparr>pst_registry :=
     [\<lparr>pr_manifest = ManifestOk transportPanelManifest, pr_status = PsEnabled, pr_source = SrcBundled, pr_sourceRef = ''bundled'',
       pr_grantedPermissions = [], pr_lastError = None, pr_discoveredAt = ''t'', pr_updatedAt = ''t'', pr_commands = [], pr_panels = []\<rparr>,
      \<lparr>pr_manifest = ManifestOk localActionsManifest, pr_status = PsDiscovered, pr_source = SrcBundled, pr_sourceRef = ''bundled'',
       pr_grantedPermissions = [], pr_lastError = None, pr_discoveredAt = ''t'', pr_updatedAt = ''t'', pr_commands = [], pr_panels = []\<rparr>]\<rparr>"


text \<open>One entry without \<open>uiContributions\<close> or without permissions, and nothing is shown.\<close>

lemma malformed_entry_hides_the_page:
  assumes "item \<in> set (pst_registry s)"
    and "json_get (manifest_value item) ''uiContributions'' = None \<or> json_get (manifest_value item) ''requestedPermissions'' = None"
  shows "\<exists>e. plugins_page collate busyPluginId s = Inl e"
proof (cases "sortedRegistry collate (pst_registry s)")
  case (Inr sorted)
  then have "item \<in> set sorted" using assms(1) by (auto simp: sortedRegistry_def split: if_splits)
  moreover have "\<exists>e. plugin_card_of busyPluginId item = Inl e"
    using assms(2) by (auto simp: plugin_card_of_def items_of_def member_of_def andThen_def Let_def split: sum.split)
  ultimately show ?thesis using try_map_Inl by (simp add: plugins_page_def Inr)
qed (simp add: plugins_page_def)

text \<open>Such an entry comes from a plugin in the plugin directory whose version is no semantic version: the shell hands it over,
  discovery lists it as failed, and the page from which the other plugins could be disabled throws.\<close>

definition careless_manifest :: json where
  "careless_manifest = JObj [(''apiVersion'', JStr ''v1''), (''id'', JStr ''demo.careless''), (''name'', JStr ''Careless''),
     (''version'', JStr ''1''), (''entrypoint'', JStr ''index.js'')]"

definition careless_descriptor :: loaded_descriptor where
  "careless_descriptor = \<lparr>ld_manifest = careless_manifest, ld_source = SrcLocal, ld_sourceRef = ''local'', ld_entrypointCode = ''run''\<rparr>"

theorem careless_plugin_hides_the_plugins_page:
  "\<exists>h. host_reachable h \<and> (\<forall>collate busy. \<exists>e. plugins_page collate busy (ph_store h) = Inl e)"
proof -
  define h where "h = host_step ex_env (EvRefresh (\<lambda>_. ''run'') [careless_descriptor]) (host_step ex_env EvStart (initial_host Map.empty [] initial_store))"
  have reach: "host_reachable h" unfolding h_def by (intro host_next host_init)
  have e: "h = refreshDiscovery ex_env (\<lambda>_. ''run'') [careless_descriptor] (start (initial_host Map.empty [] initial_store))" by (simp add: h_def)
  have v: "validatePluginDescriptor \<lparr>ld_manifest = manifest_json m, ld_source = SrcBundled, ld_sourceRef = x, ld_entrypointCode = ''run''\<rparr> = Inr m"
    if "m \<in> {transportPanelManifest, conversationSummaryManifest, localActionsManifest}" for m x
    using that bundled_checks by (intro checked_descriptor_validates) auto
  have bad: "validatePluginDescriptor careless_descriptor = Inl (VcManifestInvalid, ''plugin version must be semver-like'')"
    "raw_plugin_id (ld_manifest careless_descriptor) = Some ''demo.careless''" "''demo.careless'' \<notin> set object_prototype_keys"
    by code_simp+
  have raw: "pr_manifest (failed_item env careless_descriptor m) = ManifestRaw careless_manifest" for env m
    by (simp add: failed_item_def careless_descriptor_def)
  have raw_id: "json_get careless_manifest ''id'' = Some (JStr ''demo.careless'')" by (simp add: careless_manifest_def)
  note defs = refreshDiscovery_def bundledPluginDescriptors_def discover_one_def Let_def v bundled_ids wanted_ids_def registry_id_def discovered_item_def desired_truthy_def not_prototype_keys
    start_def initial_host_def rehydrate_plugins_def initial_plugin_store_def set_store_def setRegistry_def List.map_filter_def
  have "failed_item ex_env careless_descriptor ''plugin version must be semver-like'' \<in> set (pst_registry (ph_store h))"
    unfolding e by (simp add: defs bad raw raw_id)
  then have "\<exists>e. plugins_page collate busy (ph_store h) = Inl e" for collate busy
    by (rule malformed_entry_hides_the_page) (simp add: manifest_value_def raw, simp add: careless_manifest_def)
  with reach show ?thesis by blast
qed

subsection \<open>Where the links lead\<close>

lemma routes_of_links [simp]:
  "router ''/devices'' = Guarded" "router ''/friends'' = Guarded" "router ''/plugins'' = Guarded" "router ''/settings'' = Guarded"
  "router ''/messaging/transport'' = Guarded" "router ''/auth/register'' = Anonymous"
  by code_simp+

text \<open>Every link of the sidebar opens the page it names, without a redirect, for a user who has finished the onboarding or is
  not signed in; before the onboarding is finished that holds for the link to it alone.\<close>

theorem sidebar_links_open_their_pages:
  assumes "a_initialized (gi_auth g)" "link \<in> set (sidebar_links (gi_hasServer g) (signed_in (gi_auth g)) (gi_onboardingCompleted g))"
  shows "shown g link st = (if gi_hasServer g \<and> signed_in (gi_auth g) \<and> \<not> gi_onboardingCompleted g \<and> link \<noteq> ''/onboarding''
    then Navigate ''/onboarding'' None else Page)"
  using assms
  by (auto simp: sidebar_links_def shown_def RequireAuth_def RequireAnonymous_def RequireMissingServerConnection_def split: if_splits)

text \<open>The checklist of the onboarding links to four pages; as long as the onboarding is not finished, each of these links
  leads back to the onboarding.\<close>

theorem onboarding_links_lead_back:
  assumes "gi_hasServer g" "a_initialized (gi_auth g)" "signed_in (gi_auth g)" "\<not> gi_onboardingCompleted g" "link \<in> set onboarding_links"
  shows "follow 1 g link st = Some (''/onboarding'', Page)"
proof -
  have "shown g link st = Navigate ''/onboarding'' None" using assms by (auto simp: onboarding_links_def shown_def RequireAuth_def)
  then show ?thesis using follow_Suc [of g link st "''/onboarding''" None 0] follow_onboarding [OF assms(1-3)] by simp
qed

lemma finish_opens_the_pages:
  "ap_onboardingCompleted (fst (fst (finishOnboarding a)))"
  by (cases a) (simp add: finishOnboarding_def setOnboardingCompleted_def)

subsection \<open>Every failure of the updater has a text\<close>

lemma updater_runs: "(\<And>u u'. updater_step u u' \<Longrightarrow> P u \<Longrightarrow> P u') \<Longrightarrow> P fresh_updater \<Longrightarrow> updater_step\<^sup>*\<^sup>* fresh_updater u \<Longrightarrow> P u"
  by (rotate_tac 2, induction rule: rtranclp_induct) blast+

text \<open>The members of \<open>updates.errors\<close> in \<open>i18n/locales/en.ts\<close>.\<close>

definition update_error_keys :: "string list" where
  "update_error_keys = [''network'', ''signature'', ''tls'', ''unsupported'', ''none'', ''unknown'']"

definition error_known :: "updater_state \<Rightarrow> bool" where
  "error_known u \<longleftrightarrow> pred_option (\<lambda>e. e \<in> set update_error_keys) (us_errorMessage (ud_store u))"

lemma mapUpdateError_known: "mapUpdateError e \<in> set update_error_keys"
  by (simp add: mapUpdateError_def update_error_keys_def Let_def)

lemma check_known: "error_known u \<Longrightarrow> error_known (snd (checkForUpdates tauri b answer now u))"
  using mapUpdateError_known
  by (auto simp: checkForUpdates_def error_known_def on_store_def updater_store_defs update_error_keys_def Let_def split: sum.split option.split)

lemma step_known: "updater_step u u' \<Longrightarrow> error_known u \<Longrightarrow> error_known u'"
proof (induction rule: updater_step.induct)
  case (init u tauri version answer now)
  then show ?case
    by (auto simp: initializeBackgroundChecks_def Let_def split: sum.split intro!: check_known)
      (auto simp: error_known_def on_store_def updater_store_defs)
next
  case (check u tauri showBanner answer now)
  then show ?case by (rule check_known)
next
  case (download u percent events outcome)
  let ?s = "setError None (setProgressPercent (Fin 0) (setStatus UsDownloading (ud_store u)))"
  show ?case
    using download download_events [of percent events 0 0 ?s] mapUpdateError_known
    by (cases "fold (on_download_event percent) events (0, 0, ?s)")
      (auto simp: error_known_def downloadAndInstallUpdate_def on_store_def setError_def setStatus_def Let_def simp del: setProgressPercent.simps
        split: sum.split)
qed (auto simp: error_known_def dismissUpdateBanner_def on_store_def updater_store_defs initial_updater_def split: option.split)

text \<open>Whatever the update server and the shell answer, in every run of the updater, the button of the settings that checks and
  the one that downloads leave a hint that is one of the texts of the locale, and neither stays busy.\<close>

definition hint_texts :: "(string \<Rightarrow> string) \<Rightarrow> (string \<Rightarrow> string) \<Rightarrow> string set" where
  "hint_texts t tv = {t ''updates.upToDate'', t ''updates.downloaded''} \<union> range tv \<union> (\<lambda>e. t (''updates.errors.'' @ e)) ` set update_error_keys"

lemma hint_known: "error_known u \<Longrightarrow> updater_hint t u \<in> hint_texts t tv"
  by (auto simp: error_known_def updater_hint_def hint_texts_def update_error_keys_def split: option.splits)

theorem updater_hints_have_texts:
  assumes "updater_step\<^sup>*\<^sup>* fresh_updater u"
  shows "fst (onCheckUpdates t tv tauri answer now u) \<in> {\<lparr>sg_updaterActionBusy = None, sg_updaterHint = Some x\<rparr> | x. x \<in> hint_texts t tv}
    \<and> fst (onDownloadAndInstall t percent events outcome u) \<in> {\<lparr>sg_updaterActionBusy = None, sg_updaterHint = Some x\<rparr> | x. x \<in> hint_texts t tv}"
proof -
  have u: "error_known u" by (rule updater_runs [OF step_known _ assms]) (simp_all add: error_known_def fresh_updater_def initial_updater_def)
  have checked: "error_known (snd (checkForUpdates tauri False answer now u))" by (rule check_known [OF u])
  have downloaded: "error_known (snd (downloadAndInstallUpdate percent events outcome u))" by (rule step_known [OF updater_step.download u])
  have "fst (onCheckUpdates t tv tauri answer now u) = \<lparr>sg_updaterActionBusy = None, sg_updaterHint = Some x\<rparr> \<Longrightarrow> x \<in> hint_texts t tv" for x
    using hint_known [OF checked, of t tv]
    by (cases "checkForUpdates tauri False answer now u"; cases "fst (checkForUpdates tauri False answer now u)"; cases "projr (fst (checkForUpdates tauri False answer now u))")
      (auto simp: onCheckUpdates_def hint_texts_def)
  moreover have "fst (onDownloadAndInstall t percent events outcome u) = \<lparr>sg_updaterActionBusy = None, sg_updaterHint = Some x\<rparr> \<Longrightarrow> x \<in> hint_texts t tv" for x
    using hint_known [OF downloaded, of t tv]
    by (cases "downloadAndInstallUpdate percent events outcome u"; cases "fst (downloadAndInstallUpdate percent events outcome u)")
      (auto simp: onDownloadAndInstall_def hint_texts_def)
  ultimately show ?thesis by (simp add: onCheckUpdates_def onDownloadAndInstall_def split_beta)
qed

subsection \<open>Contacts and panels\<close>

lemma add_friend_lists_the_contact:
  assumes "js_trim (fp_accountId p) \<noteq> []"
  shows "\<exists>f \<in> set (so_friends (snd (handleAddFriend newId now p s))). fr_accountId f = js_trim (fp_accountId p)"
proof (cases "find (\<lambda>f. fr_accountId f = js_trim (fp_accountId p)) (so_friends s)")
  case None
  then show ?thesis using assms by (simp add: handleAddFriend_def addFriend_def Let_def)
next
  case (Some f)
  then have f: "f \<in> set (so_friends s)" "fr_accountId f = js_trim (fp_accountId p)" by (auto simp: find_Some_iff)
  let ?g = "\<lambda>x. x\<lparr>fr_nickname := trimmed_or (Some (fp_nickname p)) (fr_nickname x), fr_avatarColor := or_else None (fr_avatarColor x),
    fr_note := trimmed_or (Some (fp_note p)) (fr_note x)\<rparr>"
  have "so_friends (snd (handleAddFriend newId now p s)) = map (\<lambda>x. if fr_accountId x = js_trim (fp_accountId p) then ?g x else x) (so_friends s)"
    using assms Some by (simp add: handleAddFriend_def addFriend_def Let_def)
  moreover have "?g f \<in> set (map (\<lambda>x. if fr_accountId x = js_trim (fp_accountId p) then ?g x else x) (so_friends s))"
    unfolding set_map using f by (intro image_eqI [of _ _ f]) simp_all
  ultimately show ?thesis using f(2) by (intro bexI [of _ "?g f"]) simp_all
qed

lemma handleAddFriend_ok [inv_intros]: "social_ok s \<Longrightarrow> social_ok (snd (handleAddFriend newId now p s))"
  by (simp add: handleAddFriend_def Let_def inv_intros)

text \<open>The page of a panel shows the content the plugin has set.\<close>

lemma panel_page_shows_the_content:
  "panel_text p i s = Some content \<Longrightarrow> content \<noteq> [] \<Longrightarrow> \<exists>title. panel_page t p i s = Inr (Some title, Some content)"
  by (auto simp: panel_text_def panel_page_def Let_def split: option.splits)

subsection \<open>What can be pressed\<close>

definition offer_ok :: "updater_state \<Rightarrow> bool" where
  "offer_ok u \<longleftrightarrow> (us_status (ud_store u) = UsAvailable \<longrightarrow> ud_activeUpdate u \<noteq> None)"

lemma check_offer_ok: "offer_ok (snd (checkForUpdates tauri b answer now u))"
  by (auto simp: checkForUpdates_def offer_ok_def on_store_def updater_store_defs Let_def split: sum.split option.split)

lemma step_offer_ok: "updater_step u u' \<Longrightarrow> offer_ok u \<Longrightarrow> offer_ok u'"
proof (induction rule: updater_step.induct)
  case (init u tauri version answer now)
  then show ?case
    by (auto simp: initializeBackgroundChecks_def check_offer_ok Let_def split: sum.split)
      (auto simp: offer_ok_def on_store_def updater_store_defs)
next
  case (check u tauri showBanner answer now)
  show ?case by (rule check_offer_ok)
next
  case (download u percent events outcome)
  then show ?case
    by (auto simp: offer_ok_def downloadAndInstallUpdate_def on_store_def setError_def setStatus_def Let_def simp del: setProgressPercent.simps
        split: sum.split)
qed (auto simp: offer_ok_def dismissUpdateBanner_def on_store_def updater_store_defs updater_restart_def initial_updater_def split: option.split)

text \<open>
  In every run of the updater the button that downloads is there only for an update that has been found: pressing it
  never fails for want of one. The button that restarts is there only after a download that went through.
\<close>

theorem offered_download_is_there:
  assumes "updater_step\<^sup>*\<^sup>* fresh_updater u" "ub_download (updater_buttons_of busy (ud_store u)) \<noteq> None"
  shows "us_status (ud_store (snd (onDownloadAndInstall t percent events (Inr ()) u))) = UsDownloaded
    \<and> ub_restart (updater_buttons_of None (ud_store (snd (onDownloadAndInstall t percent events (Inr ()) u)))) = Some True"
proof -
  have "offer_ok u" by (rule updater_runs [OF step_offer_ok _ assms(1)]) (simp_all add: offer_ok_def fresh_updater_def initial_updater_def)
  then have "ud_activeUpdate u \<noteq> None" using assms(2) by (auto simp: offer_ok_def updater_buttons_of_def split: if_splits)
  then show ?thesis
    by (auto simp: onDownloadAndInstall_def downloadAndInstallUpdate_def on_store_def setError_def setStatus_def updater_buttons_of_def Let_def)
qed

end
