(* ===== verification/Wire_Format.thy ===== *)
theory Wire_Format
  imports Client_Pages
begin

text \<open>
  The types of \<open>packages/protocol\<close> as types of JSON values, and what the client puts on the wire. TypeScript checks the
  interfaces at compile time only, and most bodies are assembled from parts it cannot see; here an interface is a value of
  \<open>ts_type\<close>, a body is the JSON that \<open>JSON.stringify\<close> makes of it, and \<open>has_type\<close> decides whether one has the other. With
  \<open>True\<close> an object has the members of its interface and no others.
\<close>

subsection \<open>Types\<close>

text \<open>A number of the wire may have a fraction. \<open>WThrows\<close> stands for a value \<open>JSON.stringify\<close> throws on.\<close>

datatype wire = WNull | WBool bool | WNum rat | WStr string | WArr "wire list" | WObj "(string \<times> wire) list" | WThrows

datatype ts_type =
    TsUnknown
  | TsString
  | TsNumber
  | TsBoolean
  | TsNull
  | TsTrue
  | TsFalse
  | TsLiteral string
  | TsRecord
  | TsUnion "ts_type list"
  | TsArray ts_type
  | TsObject "ts_member list"
and ts_member = Required string ts_type | Optional string ts_type

fun member_name :: "ts_member \<Rightarrow> string" where
  "member_name (Required k _) = k"
| "member_name (Optional k _) = k"

fun has_type :: "bool \<Rightarrow> ts_type \<Rightarrow> wire \<Rightarrow> bool" and has_member :: "bool \<Rightarrow> ts_member \<Rightarrow> (string \<times> wire) list \<Rightarrow> bool" where
  "has_type strict TsUnknown w = True"
| "has_type strict TsString w = (case w of WStr _ \<Rightarrow> True | _ \<Rightarrow> False)"
| "has_type strict TsNumber w = (case w of WNum _ \<Rightarrow> True | _ \<Rightarrow> False)"
| "has_type strict TsBoolean w = (case w of WBool _ \<Rightarrow> True | _ \<Rightarrow> False)"
| "has_type strict TsNull w = (w = WNull)"
| "has_type strict TsTrue w = (w = WBool True)"
| "has_type strict TsFalse w = (w = WBool False)"
| "has_type strict (TsLiteral s) w = (w = WStr s)"
| "has_type strict TsRecord w = (case w of WObj _ \<Rightarrow> True | _ \<Rightarrow> False)"
| "has_type strict (TsUnion ts) w = list_ex (\<lambda>t. has_type strict t w) ts"
| "has_type strict (TsArray t) w = (case w of WArr ws \<Rightarrow> list_all (has_type strict t) ws | _ \<Rightarrow> False)"
| "has_type strict (TsObject ms) w = (case w of
      WObj fs \<Rightarrow> list_all (\<lambda>m. has_member strict m fs) ms
        \<and> (strict \<longrightarrow> distinct (map fst fs) \<and> set (map fst fs) \<subseteq> set (map member_name ms))
    | _ \<Rightarrow> False)"
| "has_member strict (Required k t) fs = (case map_of fs k of None \<Rightarrow> False | Some v \<Rightarrow> has_type strict t v)"
| "has_member strict (Optional k t) fs = (case map_of fs k of None \<Rightarrow> True | Some v \<Rightarrow> has_type strict t v)"

abbreviation literals :: "string list \<Rightarrow> ts_type" where
  "literals ss \<equiv> TsUnion (map TsLiteral ss)"

abbreviation or_null :: "ts_type \<Rightarrow> ts_type" where
  "or_null t \<equiv> TsUnion [t, TsNull]"

fun wire_of :: "json \<Rightarrow> wire" where
  "wire_of JNull = WNull"
| "wire_of (JBool b) = WBool b"
| "wire_of (JNum n) = WNum (of_int n)"
| "wire_of (JStr s) = WStr s"
| "wire_of (JArr xs) = WArr (map wire_of xs)"
| "wire_of (JObj fs) = WObj (map (\<lambda>(k, v). (k, wire_of v)) fs)"
| "wire_of JOpaque = WThrows"

text \<open>A number that is not finite is written as \<open>null\<close>.\<close>

definition number_wire :: "jsnumber \<Rightarrow> wire" where
  "number_wire n = (case n of Fin q \<Rightarrow> WNum q | _ \<Rightarrow> WNull)"

subsection \<open>Requests of the account\<close>

definition device_part :: "ts_type" where
  "device_part = TsObject [Optional ''deviceId'' TsString, Required ''name'' TsString, Required ''platform'' TsString,
     Required ''publicDeviceMaterial'' TsString, Optional ''fingerprint'' TsString]"

definition RegisterRequest :: ts_type where
  "RegisterRequest = TsObject [Required ''email'' TsString, Required ''password'' TsString, Required ''accountIdentityMaterial'' TsString,
     Optional ''accountIdentityFingerprint'' TsString, Required ''device'' device_part]"

definition LoginRequest :: ts_type where
  "LoginRequest = TsObject [Required ''email'' TsString, Required ''password'' TsString, Required ''device'' device_part]"

definition TwoFactorLoginVerifyRequest :: ts_type where
  "TwoFactorLoginVerifyRequest = TsObject [Required ''challengeId'' TsString, Required ''loginToken'' TsString, Required ''code'' TsString]"

definition RefreshRequest :: ts_type where
  "RefreshRequest = TsObject [Required ''refreshToken'' TsString]"

definition LogoutRequest :: ts_type where
  "LogoutRequest = TsObject [Optional ''refreshToken'' TsString]"

definition TwoFactorSetupConfirmRequest :: ts_type where
  "TwoFactorSetupConfirmRequest = TsObject [Required ''code'' TsString]"

definition TwoFactorDisableRequest :: ts_type where
  "TwoFactorDisableRequest = TsObject [Required ''code'' TsString]"

definition DeviceApproveRequest :: ts_type where
  "DeviceApproveRequest = TsObject [Required ''approvalRequestId'' TsString, Optional ''twoFactorCode'' TsString]"

definition DeviceRejectRequest :: ts_type where
  "DeviceRejectRequest = TsObject [Required ''approvalRequestId'' TsString, Optional ''twoFactorCode'' TsString]"

definition DeviceRevokeRequest :: ts_type where
  "DeviceRevokeRequest = TsObject [Required ''deviceId'' TsString, Optional ''twoFactorCode'' TsString]"

definition DeviceRotateKeyRequest :: ts_type where
  "DeviceRotateKeyRequest = TsObject [Required ''publicDeviceMaterial'' TsString, Optional ''fingerprint'' TsString,
     Optional ''twoFactorCode'' TsString]"

definition RecoveryStartRequest :: ts_type where
  "RecoveryStartRequest = TsObject [Required ''email'' TsString, Required ''approvalRequestId'' TsString]"

definition RecoveryCompleteRequest :: ts_type where
  "RecoveryCompleteRequest = TsObject [Required ''recoveryFlowId'' TsString, Required ''recoveryToken'' TsString,
     Required ''recoveryCode'' TsString, Optional ''twoFactorCode'' TsString]"

subsection \<open>Requests of the messenger\<close>

definition ConversationRole :: ts_type where
  "ConversationRole = literals [''owner'', ''admin'', ''member'']"

definition CreateDirectConversationRequest :: ts_type where
  "CreateDirectConversationRequest = TsObject [Required ''peerAccountId'' TsString, Optional ''defaultTtlSeconds'' TsNumber]"

definition CreateGroupConversationRequest :: ts_type where
  "CreateGroupConversationRequest = TsObject [Required ''title'' TsString, Required ''memberAccountIds'' (TsArray TsString),
     Optional ''defaultTtlSeconds'' TsNumber]"

definition AddConversationMemberRequest :: ts_type where
  "AddConversationMemberRequest = TsObject [Required ''memberAccountId'' TsString, Optional ''role'' ConversationRole]"

definition EncryptedRecipientKeyDTO :: ts_type where
  "EncryptedRecipientKeyDTO = TsObject [Required ''recipientDeviceId'' TsString, Required ''wrappedKey'' TsString,
     Required ''keyAlgorithm'' TsString]"

definition SendMessageRequest :: ts_type where
  "SendMessageRequest = TsObject [Required ''clientMessageId'' TsString, Required ''algorithm'' TsString, Required ''cryptoVersion'' TsNumber,
     Required ''nonce'' TsString, Required ''ciphertext'' TsString, Required ''recipients'' (TsArray EncryptedRecipientKeyDTO),
     Optional ''attachmentIds'' (TsArray TsString), Optional ''replyToMessageId'' TsString, Optional ''ttlSeconds'' TsNumber]"

definition MessageReceiptRequest :: ts_type where
  "MessageReceiptRequest = TsObject [Required ''receiptType'' (literals [''delivered'', ''read''])]"

definition AttachmentUploadRequest :: ts_type where
  "AttachmentUploadRequest = TsObject [Required ''kind'' (literals [''image'', ''file'']), Required ''fileName'' TsString,
     Required ''mimeType'' TsString, Required ''sizeBytes'' TsNumber, Required ''checksumSha256'' TsString,
     Required ''algorithm'' TsString, Required ''nonce'' TsString, Required ''ciphertext'' TsString]"

lemmas interface_defs = RegisterRequest_def LoginRequest_def TwoFactorLoginVerifyRequest_def RefreshRequest_def
  LogoutRequest_def TwoFactorSetupConfirmRequest_def TwoFactorDisableRequest_def DeviceApproveRequest_def DeviceRejectRequest_def
  DeviceRevokeRequest_def DeviceRotateKeyRequest_def RecoveryStartRequest_def RecoveryCompleteRequest_def ConversationRole_def
  CreateDirectConversationRequest_def CreateGroupConversationRequest_def AddConversationMemberRequest_def
  MessageReceiptRequest_def

subsection \<open>Bodies\<close>

text \<open>Members with the value \<open>undefined\<close> are left out.\<close>

definition given_wire :: "string \<Rightarrow> wire option \<Rightarrow> (string \<times> wire) list" where
  "given_wire k v = (case v of None \<Rightarrow> [] | Some w \<Rightarrow> [(k, w)])"

definition recipient_wire :: "encrypted_recipient_key_dto \<Rightarrow> wire" where
  "recipient_wire r = WObj [(''recipientDeviceId'', WStr (rk_recipientDeviceId r)), (''wrappedKey'', WStr (rk_wrappedKey r)),
     (''keyAlgorithm'', WStr (rk_keyAlgorithm r))]"

definition send_wire :: "send_message_request \<Rightarrow> wire" where
  "send_wire m = WObj ([(''clientMessageId'', WStr (sm_clientMessageId m)), (''algorithm'', WStr (sm_algorithm m)),
       (''cryptoVersion'', WNum (of_int (sm_cryptoVersion m))), (''nonce'', WStr (sm_nonce m)), (''ciphertext'', WStr (sm_ciphertext m)),
       (''recipients'', WArr (map recipient_wire (sm_recipients m))), (''attachmentIds'', WArr (map WStr (sm_attachmentIds m)))]
     @ given_wire ''replyToMessageId'' (map_option WStr (sm_replyToMessageId m))
     @ given_wire ''ttlSeconds'' (map_option number_wire (sm_ttlSeconds m)))"

definition upload_wire :: "upload_request \<Rightarrow> wire" where
  "upload_wire u = WObj [(''kind'', WStr (case up_kind u of AkImage \<Rightarrow> ''image'' | AkFile \<Rightarrow> ''file'')), (''fileName'', WStr (up_fileName u)),
     (''mimeType'', WStr (up_mimeType u)), (''sizeBytes'', WNum (of_int (up_sizeBytes u))), (''checksumSha256'', WStr (up_checksumSha256 u)),
     (''algorithm'', WStr (up_algorithm u)), (''nonce'', WStr (up_nonce u)), (''ciphertext'', WStr (up_ciphertext u))]"

fun body_wire :: "api_body \<Rightarrow> wire option" where
  "body_wire NoBody = None"
| "body_wire (BodyDirect peer) = Some (WObj [(''peerAccountId'', WStr peer)])"
| "body_wire (BodyGroup title members) = Some (WObj [(''title'', WStr title), (''memberAccountIds'', WArr (map WStr members))])"
| "body_wire (BodyMember account role) = Some (WObj ((''memberAccountId'', WStr account) # given_wire ''role'' (map_option WStr role)))"
| "body_wire (BodySend m) = Some (send_wire m)"
| "body_wire (BodyReceipt r) = Some (WObj [(''receiptType'', WStr (case r of RcDelivered \<Rightarrow> ''delivered'' | RcRead \<Rightarrow> ''read''))])"
| "body_wire (BodyUpload u) = Some (upload_wire u)"
| "body_wire (BodyJson j) = Some (wire_of j)"

subsection \<open>Calls\<close>

text \<open>The functions of \<open>authApi\<close>, \<open>devicesApi\<close>, \<open>recoveryApi\<close>, \<open>securityEventsApi\<close> and \<open>messagingApi\<close> with their arguments; the
  one that polls another endpoint is apart, since its URL may be invalid.\<close>

datatype client_call =
    CallRegister string string identity_material device_identity string
  | CallLogin string string device_identity string
  | CallVerifyTwoFALogin string string string
  | CallRefresh string
  | CallLogout "string option" "string option"
  | CallLogoutAll string
  | CallSession string
  | CallStartTwoFA string
  | CallConfirmTwoFA string string
  | CallDisableTwoFA string string
  | CallDevices string
  | CallApprove string string "string option"
  | CallReject string string "string option"
  | CallRevoke string string "string option"
  | CallRotateKey string string string "string option"
  | CallApprovalStatus string string
  | CallRecoveryStart string string
  | CallRecoveryComplete string string string "string option"
  | CallSecurityEvents string nat
  | CallCreateDirect string string
  | CallCreateGroup string string "string list"
  | CallListConversations string
  | CallGetConversation string string
  | CallAddMember string string string "string option"
  | CallSendMessage string string send_message_request
  | CallListMessages string string "int option" "int option"
  | CallCreateReceipt string string receipt_type
  | CallUploadAttachment string upload_request
  | CallDownloadAttachment string string
  | CallSyncBootstrap string int
  | CallSyncPoll string int int int
  | CallTransportEndpoints string

fun call_request :: "server_config \<Rightarrow> client_call \<Rightarrow> api_request" where
  "call_request sv (CallRegister email password account d platform) = api_register sv email password account (device_body d platform)"
| "call_request sv (CallLogin email password d platform) = api_login sv email password (device_body d platform)"
| "call_request sv (CallVerifyTwoFALogin challengeId loginToken code) = api_verifyTwoFALogin sv challengeId loginToken code"
| "call_request sv (CallRefresh refreshToken) = api_refreshSession sv refreshToken"
| "call_request sv (CallLogout accessToken refreshToken) = api_logout sv accessToken refreshToken"
| "call_request sv (CallLogoutAll tok) = api_logoutAll sv tok"
| "call_request sv (CallSession tok) = api_getSession sv tok"
| "call_request sv (CallStartTwoFA tok) = api_startTwoFA sv tok"
| "call_request sv (CallConfirmTwoFA tok code) = api_confirmTwoFA sv tok code"
| "call_request sv (CallDisableTwoFA tok code) = api_disableTwoFA sv tok code"
| "call_request sv (CallDevices tok) = api_devices sv tok"
| "call_request sv (CallApprove tok i code) = api_approve sv tok i code"
| "call_request sv (CallReject tok i code) = api_reject sv tok i code"
| "call_request sv (CallRevoke tok deviceId code) = api_revoke sv tok deviceId code"
| "call_request sv (CallRotateKey tok material fingerprint code) = api_rotateKey sv tok material fingerprint code"
| "call_request sv (CallApprovalStatus i pollToken) = api_approvalStatus sv i pollToken"
| "call_request sv (CallRecoveryStart email i) = api_recoveryStart sv email i"
| "call_request sv (CallRecoveryComplete flow recoveryToken recoveryCode code) = api_recoveryComplete sv flow recoveryToken recoveryCode code"
| "call_request sv (CallSecurityEvents tok limit) = api_securityEvents sv tok limit"
| "call_request sv (CallCreateDirect tok peer) = api_createDirect sv tok peer"
| "call_request sv (CallCreateGroup tok title members) = api_createGroup sv tok title members"
| "call_request sv (CallListConversations tok) = api_listConversations sv tok"
| "call_request sv (CallGetConversation tok i) = api_getConversation sv tok i"
| "call_request sv (CallAddMember tok i account role) = api_addMember sv tok i account role"
| "call_request sv (CallSendMessage tok i m) = api_sendMessage sv tok i m"
| "call_request sv (CallListMessages tok i limit before) = api_listMessages sv tok i limit before"
| "call_request sv (CallCreateReceipt tok i r) = api_createReceipt sv tok i r"
| "call_request sv (CallUploadAttachment tok u) = api_uploadAttachment sv tok u"
| "call_request sv (CallDownloadAttachment tok i) = api_downloadAttachment sv tok i"
| "call_request sv (CallSyncBootstrap tok limit) = api_syncBootstrap sv tok limit"
| "call_request sv (CallSyncPoll tok cursor timeoutSec limit) = api_syncPoll sv tok cursor timeoutSec limit"
| "call_request sv (CallTransportEndpoints tok) = api_transportEndpoints sv tok"

text \<open>The interface of the body of a call; a call without one has no body.\<close>

fun call_type :: "client_call \<Rightarrow> ts_type option" where
  "call_type (CallRegister _ _ _ _ _) = Some RegisterRequest"
| "call_type (CallLogin _ _ _ _) = Some LoginRequest"
| "call_type (CallVerifyTwoFALogin _ _ _) = Some TwoFactorLoginVerifyRequest"
| "call_type (CallRefresh _) = Some RefreshRequest"
| "call_type (CallLogout _ refreshToken) = (if present refreshToken then Some LogoutRequest else None)"
| "call_type (CallConfirmTwoFA _ _) = Some TwoFactorSetupConfirmRequest"
| "call_type (CallDisableTwoFA _ _) = Some TwoFactorDisableRequest"
| "call_type (CallApprove _ _ _) = Some DeviceApproveRequest"
| "call_type (CallReject _ _ _) = Some DeviceRejectRequest"
| "call_type (CallRevoke _ _ _) = Some DeviceRevokeRequest"
| "call_type (CallRotateKey _ _ _ _) = Some DeviceRotateKeyRequest"
| "call_type (CallRecoveryStart _ _) = Some RecoveryStartRequest"
| "call_type (CallRecoveryComplete _ _ _ _) = Some RecoveryCompleteRequest"
| "call_type (CallCreateDirect _ _) = Some CreateDirectConversationRequest"
| "call_type (CallCreateGroup _ _ _) = Some CreateGroupConversationRequest"
| "call_type (CallAddMember _ _ _ _) = Some AddConversationMemberRequest"
| "call_type (CallSendMessage _ _ _) = Some SendMessageRequest"
| "call_type (CallCreateReceipt _ _ _) = Some MessageReceiptRequest"
| "call_type (CallUploadAttachment _ _) = Some AttachmentUploadRequest"
| "call_type _ = None"

text \<open>What TypeScript does not check in the arguments: a role is one of the three, and a time to live is a finite number.\<close>

fun typed_call :: "client_call \<Rightarrow> bool" where
  "typed_call (CallAddMember _ _ _ role) = pred_option (\<lambda>r. r \<in> {''owner'', ''admin'', ''member''}) role"
| "typed_call (CallSendMessage _ _ m) = pred_option is_finite (sm_ttlSeconds m)"
| "typed_call _ = True"

text \<open>The arguments of a call that are no secrets: passwords, tokens and codes are blanked.\<close>

fun without_secrets :: "client_call \<Rightarrow> client_call" where
  "without_secrets (CallRegister email password account d platform) = CallRegister email [] account d platform"
| "without_secrets (CallLogin email password d platform) = CallLogin email [] d platform"
| "without_secrets (CallVerifyTwoFALogin challengeId loginToken code) = CallVerifyTwoFALogin challengeId [] []"
| "without_secrets (CallRefresh refreshToken) = CallRefresh []"
| "without_secrets (CallLogout accessToken refreshToken) = CallLogout None None"
| "without_secrets (CallLogoutAll tok) = CallLogoutAll []"
| "without_secrets (CallSession tok) = CallSession []"
| "without_secrets (CallStartTwoFA tok) = CallStartTwoFA []"
| "without_secrets (CallConfirmTwoFA tok code) = CallConfirmTwoFA [] []"
| "without_secrets (CallDisableTwoFA tok code) = CallDisableTwoFA [] []"
| "without_secrets (CallDevices tok) = CallDevices []"
| "without_secrets (CallApprove tok i code) = CallApprove [] i None"
| "without_secrets (CallReject tok i code) = CallReject [] i None"
| "without_secrets (CallRevoke tok deviceId code) = CallRevoke [] deviceId None"
| "without_secrets (CallRotateKey tok material fingerprint code) = CallRotateKey [] material fingerprint None"
| "without_secrets (CallApprovalStatus i pollToken) = CallApprovalStatus i []"
| "without_secrets (CallRecoveryStart email i) = CallRecoveryStart email i"
| "without_secrets (CallRecoveryComplete flow recoveryToken recoveryCode code) = CallRecoveryComplete flow [] [] None"
| "without_secrets (CallSecurityEvents tok limit) = CallSecurityEvents [] limit"
| "without_secrets (CallCreateDirect tok peer) = CallCreateDirect [] peer"
| "without_secrets (CallCreateGroup tok title members) = CallCreateGroup [] title members"
| "without_secrets (CallListConversations tok) = CallListConversations []"
| "without_secrets (CallGetConversation tok i) = CallGetConversation [] i"
| "without_secrets (CallAddMember tok i account role) = CallAddMember [] i account role"
| "without_secrets (CallSendMessage tok i m) = CallSendMessage [] i m"
| "without_secrets (CallListMessages tok i limit before) = CallListMessages [] i limit before"
| "without_secrets (CallCreateReceipt tok i r) = CallCreateReceipt [] i r"
| "without_secrets (CallUploadAttachment tok u) = CallUploadAttachment [] u"
| "without_secrets (CallDownloadAttachment tok i) = CallDownloadAttachment [] i"
| "without_secrets (CallSyncBootstrap tok limit) = CallSyncBootstrap [] limit"
| "without_secrets (CallSyncPoll tok cursor timeoutSec limit) = CallSyncPoll [] cursor timeoutSec limit"
| "without_secrets (CallTransportEndpoints tok) = CallTransportEndpoints []"

subsection \<open>Every body has the type of its interface\<close>

lemmas request_defs = api_register_def api_login_def api_verifyTwoFALogin_def api_refreshSession_def api_logout_def api_logoutAll_def api_getSession_def
  api_startTwoFA_def api_confirmTwoFA_def api_disableTwoFA_def api_devices_def api_approve_def api_reject_def api_revoke_def api_rotateKey_def
  api_approvalStatus_def api_recoveryStart_def api_recoveryComplete_def api_securityEvents_def api_endpoints account_post_def api_post_def
  api_get_def

lemma body_of_call: "body_wire (rq_body (call_request sv c)) = None \<longleftrightarrow> call_type c = None"
  by (cases c) (simp_all add: request_defs Let_def)

lemma strings_typed: "list_all (has_type strict TsString) (map WStr xs)"
  by (simp add: list_all_iff)

lemma recipients_typed: "list_all (has_type strict EncryptedRecipientKeyDTO) (map recipient_wire rs)"
  by (auto simp: list_all_iff recipient_wire_def EncryptedRecipientKeyDTO_def)

lemma send_typed: "pred_option is_finite (sm_ttlSeconds m) \<Longrightarrow> has_type True SendMessageRequest (send_wire m)"
  by (auto simp: SendMessageRequest_def send_wire_def given_wire_def number_wire_def strings_typed recipients_typed
    split: option.split jsnumber.split)

lemma device_typed: "has_type True device_part (wire_of (device_body d platform))"
  by (simp add: device_part_def device_body_def member_def)

lemma upload_typed: "has_type True AttachmentUploadRequest (upload_wire u)"
  by (simp add: AttachmentUploadRequest_def upload_wire_def split: attachment_kind.split)

lemmas body_simps = request_defs member_def optional_member_def given_wire_def strings_typed send_typed upload_typed device_typed

text \<open>C18. Whatever the client asks the relay for, the body of the request has the type of its interface, with the members of that
  interface and no others, at every depth, and a call without an interface has no body; the relay's decoder rejects a body with a
  member it does not know.\<close>

theorem bodies_have_their_types:
  assumes "typed_call c"
  shows "case (body_wire (rq_body (call_request sv c)), call_type c) of
      (Some w, Some t) \<Rightarrow> has_type True t w
    | (None, None) \<Rightarrow> True
    | _ \<Rightarrow> False"
proof (cases "body_wire (rq_body (call_request sv c))")
  case None
  then show ?thesis using body_of_call [of sv c] by simp
next
  case (Some w)
  then obtain t where t: "call_type c = Some t" using body_of_call [of sv c] by fastforce
  have "has_type True t w"
    using Some t assms
    by (cases c)
      (auto simp: body_simps interface_defs split: option.splits if_splits receipt_type.splits)
  then show ?thesis using Some t by simp
qed

definition wire_device :: device_identity where
  "wire_device = \<lparr>id_publicMaterial = ''pub'', id_privateMaterial = ''prv'', id_fingerprint = ''fp'', id_deviceId = ''d1'', id_deviceName = ''laptop''\<rparr>"

definition wire_server :: server_config where
  "wire_server = \<lparr>sc_apiBaseUrl = ''https://relay'', sc_apiPrefix = ''/v1''\<rparr>"

lemma bodies_have_their_types_witness:
  "typed_call (CallLogin ''a@b'' ''secret'' wire_device ''linux'')
   \<and> (\<exists>w. body_wire (rq_body (call_request wire_server (CallLogin ''a@b'' ''secret'' wire_device ''linux''))) = Some w \<and> has_type True LoginRequest w)"
  using bodies_have_their_types [of "CallLogin ''a@b'' ''secret'' wire_device ''linux''" wire_server]
  by (auto simp: request_defs)

text \<open>The private key of the device is never part of a request.\<close>

lemma private_keys_stay: "call_request sv (CallLogin email password d platform) = call_request sv (CallLogin email password (d\<lparr>id_privateMaterial := k\<rparr>) platform)"
  "call_request sv (CallRegister email password a d platform)
   = call_request sv (CallRegister email password (a\<lparr>id_privateMaterial := k\<rparr>) (d\<lparr>id_privateMaterial := k'\<rparr>) platform)"
  by (simp_all add: request_defs device_body_def)



text \<open>The exception.\<close>

lemma poll_token_is_in_the_url:
  "rq_url (call_request sv (CallApprovalStatus i pollToken))
   = buildUrl sv (''/devices/approvals/status?'' @ form_query [(''approvalRequestId'', i), (''pollToken'', pollToken)])"
  by (simp add: request_defs)

subsection \<open>The time to live of a message\<close>

text \<open>The composer only passes on a finite number, so what it sends has its type.\<close>

lemma composed_ttl_is_finite: "pred_option is_finite (ttl_of ttlInput)"
  by (auto simp: ttl_of_def Let_def split: option.split jsnumber.split)

lemma composed_message_is_typed:
  "si_ttlSeconds input = ttl_of ttlInput \<Longrightarrow> typed_call (CallSendMessage tok i (send_request input clientMessageId encrypted secrets))"
  using composed_ttl_is_finite by (simp add: send_request_def)

lemma fraction_read: "js_Number ''1.5'' = Fin (3 / 2)"
proof -
  have "mantissa_val ''1.5'' = Some (3 / 2)"
    by (simp add: mantissa_val_def all_digits_def digit_char_def dec_val_def digit_val_def Let_def)
  then have "unsigned_val ''1.5'' = Fin (3 / 2)" by (simp add: unsigned_val_def overflowing_def Let_def)
  moreover have "toLowerCase ''1.'' = ''1.''" by code_simp
  ultimately show ?thesis by (simp add: js_Number_def Let_def)
qed

lemma fraction_composed: "ttl_of ''1.5'' = Some (Fin (3 / 2))"
proof -
  have "js_trim ''1.5'' = ''1.5''" by code_simp
  then show ?thesis by (simp add: ttl_of_def fraction_read Let_def)
qed

text \<open>But the number may have a fraction or be negative: it is rounded and checked for the message on the screen only, and the relay,
  which reads a whole number, rejects the request; the message it rejects has then failed for good.\<close>

lemma fractional_ttl_is_sent:
  assumes "si_ttlSeconds input = ttl_of ''1.5''"
  shows "\<exists>fs. send_wire (send_request input clientMessageId encrypted secrets) = WObj fs \<and> (''ttlSeconds'', WNum (3 / 2)) \<in> set fs"
    and "safePositiveInt (ttl_of ''1.5'') = Some 1"
  using assms by (simp_all add: send_wire_def send_request_def fraction_composed number_wire_def given_wire_def floor_eq_iff)

subsection \<open>Answers that are errors\<close>

definition api_error_codes :: "string list" where
  "api_error_codes = [''invalid_credentials'', ''two_fa_required'', ''device_not_approved'', ''forbidden_last_trusted_revoke'',
     ''invalid_recovery_token'', ''account_already_exists'', ''fingerprint_mismatch'', ''unauthorized'', ''forbidden'', ''validation_error'',
     ''not_found'', ''internal_error'', ''transport_unavailable'', ''endpoint_unreachable'', ''sync_conflict'', ''conversation_not_found'',
     ''membership_denied'', ''attachment_upload_failed'', ''attachment_download_failed'', ''message_encrypt_failed'', ''message_decrypt_failed'',
     ''local_storage_unavailable'', ''message_expired'', ''retryable_transport_error'', ''plugin_manifest_invalid'', ''plugin_permission_denied'',
     ''plugin_runtime_init_failed'', ''plugin_bridge_violation'', ''plugin_load_failed'', ''plugin_disabled'', ''plugin_storage_unavailable'']"

definition ApiError :: ts_type where
  "ApiError = TsObject [Required ''code'' (literals api_error_codes), Required ''message'' TsString, Optional ''details'' TsRecord,
     Required ''request_id'' TsString]"

definition ErrorPayload :: ts_type where
  "ErrorPayload = TsObject [Required ''error'' ApiError]"

text \<open>The members of \<open>errors.codes\<close>, the same in both locales.\<close>

definition error_code_texts :: "string list" where
  "error_code_texts = [''transport_unavailable'', ''endpoint_unreachable'', ''retryable_transport_error'', ''local_storage_unavailable'',
     ''message_decrypt_failed'', ''membership_denied'', ''conversation_not_found'', ''attachment_upload_failed'', ''attachment_download_failed'',
     ''message_expired'', ''plugin_manifest_invalid'', ''plugin_permission_denied'', ''plugin_runtime_init_failed'', ''plugin_bridge_violation'',
     ''plugin_load_failed'', ''plugin_disabled'', ''plugin_storage_unavailable'', ''invalid_credentials'', ''two_fa_required'',
     ''device_not_approved'', ''forbidden_last_trusted_revoke'', ''invalid_recovery_token'', ''account_already_exists'', ''fingerprint_mismatch'']"

text \<open>An object with a type has the members the type requires, and, where it is strict, no others.\<close>

lemma typed_object: "has_type strict (TsObject ms) (wire_of j) \<Longrightarrow> \<exists>fs. j = JObj fs"
  by (cases j) auto

lemma wire_member: "map_of (map (\<lambda>(k, v). (k, wire_of v)) fs) = map_option wire_of \<circ> map_of fs"
  by (induction fs) auto

lemma required_member:
  assumes "has_type strict (TsObject ms) (wire_of j)" "Required k t \<in> set ms"
  shows "\<exists>v. json_get j k = Some v \<and> has_type strict t (wire_of v)"
proof -
  obtain fs where fs: "j = JObj fs" using typed_object [OF assms(1)] by blast
  then have "has_member strict (Required k t) (map (\<lambda>(k, v). (k, wire_of v)) fs)"
    using assms by (simp add: list_all_iff del: has_member.simps)
  then show ?thesis by (simp add: fs wire_member split: option.splits)
qed

lemma absent_member:
  assumes "has_type True (TsObject ms) (wire_of j)" "k \<notin> set (map member_name ms)"
  shows "json_get j k = None"
proof -
  obtain fs where "j = JObj fs" using typed_object [OF assms(1)] by blast
  then show ?thesis using assms by (auto simp: map_of_eq_None_iff)
qed

lemma typed_string: "has_type strict TsString (wire_of j) \<longleftrightarrow> (\<exists>s. j = JStr s)"
  by (cases j) auto

lemma typed_literals: "has_type strict (literals ss) (wire_of j) \<longleftrightarrow> (\<exists>s \<in> set ss. j = JStr s)"
  by (cases j) (auto simp: list_ex_iff)

lemma typed_error:
  assumes "has_type strict ErrorPayload (wire_of payload)"
  shows "\<exists>code message. payload_error_field payload ''code'' = Some code \<and> code \<in> set api_error_codes
    \<and> payload_error_field payload ''message'' = Some message"
proof -
  obtain e where e: "json_get payload ''error'' = Some e" "has_type strict ApiError (wire_of e)"
    using required_member [OF assms [unfolded ErrorPayload_def], of "''error''" ApiError] by auto
  note members = required_member [OF e(2) [unfolded ApiError_def]]
  obtain c where "json_get e ''code'' = Some c" "has_type strict (literals api_error_codes) (wire_of c)"
    using members [of "''code''" "literals api_error_codes"] by auto
  moreover obtain m where "json_get e ''message'' = Some m" "has_type strict TsString (wire_of m)"
    using members [of "''message''" TsString] by auto
  ultimately show ?thesis unfolding typed_string typed_literals by (auto simp: payload_error_field_def e(1))
qed

lemma every_text_is_of_a_code: "set error_code_texts \<subseteq> set api_error_codes"
  by code_simp

lemma codes_without_a_text:
  "filter (\<lambda>c. c \<notin> set error_code_texts) api_error_codes
   = [''unauthorized'', ''forbidden'', ''validation_error'', ''not_found'', ''internal_error'', ''sync_conflict'', ''message_encrypt_failed'']"
  "filter (\<lambda>c. c \<notin> set error_code_texts) (map fst friendlyErrorMessages) = []"
  by code_simp+

text \<open>\<open>t\<close> answers with a text for the keys of the locale and with the key itself for a key it does not have.\<close>

definition has_locale :: "(string \<Rightarrow> string) \<Rightarrow> bool" where
  "has_locale t \<longleftrightarrow> (\<forall>c. if c \<in> set error_code_texts then t (''errors.codes.'' @ c) \<noteq> [] \<and> t (''errors.codes.'' @ c) \<noteq> ''errors.codes.'' @ c
     else t (''errors.codes.'' @ c) = ''errors.codes.'' @ c)"

text \<open>An error answer of the type the protocol gives it is shown by the text that the locale has for its code, followed by a hint, or,
  for the seven codes the locales have no text for, by the message of the relay itself; its code decides whether it is retried,
  and the status only where neither table names the code.\<close>

theorem protocol_errors_are_shown:
  assumes "has_type strict ErrorPayload (wire_of payload)" "has_locale t"
  shows "\<exists>code message. extractApiErrorCode (ApiClientError status payload) = code \<and> code \<in> set api_error_codes
    \<and> payload_error_field payload ''message'' = Some message
    \<and> extractApiErrorMessage t (ApiClientError status payload)
        = (if code \<in> set error_code_texts then with_hint (t (''errors.codes.'' @ code)) (buildActionHint t code) else message)"
proof -
  obtain code message where c: "payload_error_field payload ''code'' = Some code" "code \<in> set api_error_codes"
      "payload_error_field payload ''message'' = Some message"
    using typed_error [OF assms(1)] by blast
  have "code \<noteq> []" using c(2) by (auto simp: api_error_codes_def)
  moreover have "map_of friendlyErrorMessages code = None" if "code \<notin> set error_code_texts"
  proof (rule ccontr)
    assume "map_of friendlyErrorMessages code \<noteq> None"
    then have "code \<in> set (map fst friendlyErrorMessages)" by (auto dest: map_of_SomeD simp: rev_image_eqI)
    then show False using codes_without_a_text(2) that by (auto simp: filter_empty_conv)
  qed
  moreover have "if code \<in> set error_code_texts then t (''errors.codes.'' @ code) \<noteq> [] \<and> t (''errors.codes.'' @ code) \<noteq> ''errors.codes.'' @ code
     else t (''errors.codes.'' @ code) = ''errors.codes.'' @ code"
    using assms(2) unfolding has_locale_def by blast
  ultimately show ?thesis using c by (auto simp: localized_code_def Let_def split: if_splits)
qed

definition locale_sample :: "string \<Rightarrow> string" where
  "locale_sample key = (if key \<in> set (map (\<lambda>c. ''errors.codes.'' @ c) error_code_texts) then ''text'' else key)"

lemma protocol_errors_are_shown_witness:
  "extractApiErrorMessage locale_sample (ApiClientError 400 (JObj [(''error'', JObj [(''code'', JStr ''validation_error''),
     (''message'', JStr ''ttlSeconds must be positive''), (''request_id'', JStr ''r1'')])])) = ''ttlSeconds must be positive''"
proof -
  let ?p = "JObj [(''error'', JObj [(''code'', JStr ''validation_error''), (''message'', JStr ''ttlSeconds must be positive''), (''request_id'', JStr ''r1'')])]"
  have p: "has_type True ErrorPayload (wire_of ?p)" "payload_error_field ?p ''message'' = Some ''ttlSeconds must be positive''"
    "extractApiErrorCode (ApiClientError 400 ?p) = ''validation_error''" "''validation_error'' \<notin> set error_code_texts"
    by code_simp+
  have "has_locale locale_sample" by (auto simp: has_locale_def locale_sample_def)
  then show ?thesis using protocol_errors_are_shown [OF p(1), of locale_sample 400] p(2-4) by auto
qed

subsection \<open>Answers of a login\<close>

definition FingerprintInfo :: ts_type where
  "FingerprintInfo = TsObject [Required ''algorithm'' (TsLiteral ''sha256''), Required ''value'' TsString, Required ''safetyNumber'' TsString]"

definition AccountIdentityDTO :: ts_type where
  "AccountIdentityDTO = TsObject [Required ''accountId'' TsString, Required ''publicIdentityMaterial'' TsString,
     Required ''fingerprint'' FingerprintInfo, Required ''verificationState'' (literals [''unverified'', ''verified'', ''changed'', ''revoked'']),
     Required ''trustState'' (literals [''trusted'', ''warning'', ''revoked'', ''unknown'']), Required ''createdAt'' TsString,
     Required ''updatedAt'' TsString]"

definition DeviceDTO :: ts_type where
  "DeviceDTO = TsObject [Required ''id'' TsString, Required ''accountId'' TsString, Required ''name'' TsString, Required ''platform'' TsString,
     Required ''publicDeviceMaterial'' TsString, Required ''fingerprint'' FingerprintInfo,
     Required ''status'' (literals [''pending'', ''trusted'', ''revoked'', ''blocked'']),
     Required ''verificationState'' (literals [''unverified'', ''verified'', ''changed'', ''revoked'']),
     Required ''keyInfo'' (TsObject [Required ''version'' TsNumber, Required ''rotatedAt'' (or_null TsString),
        Required ''rotationDueAt'' (or_null TsString), Required ''rotationRecommended'' TsBoolean]),
     Required ''createdAt'' TsString, Required ''lastSeenAt'' (or_null TsString), Required ''revokedAt'' (or_null TsString)]"

definition SessionDTO :: ts_type where
  "SessionDTO = TsObject [Required ''id'' TsString, Required ''accountId'' TsString, Required ''deviceId'' TsString,
     Required ''status'' (literals [''active'', ''revoked'', ''expired'']), Required ''accessTokenExpiresAt'' TsString,
     Required ''refreshTokenExpiresAt'' TsString, Required ''createdAt'' TsString, Required ''lastSeenAt'' (or_null TsString),
     Optional ''trustWarnings'' (TsArray TsString)]"

definition TokensDTO :: ts_type where
  "TokensDTO = TsObject [Required ''accessToken'' TsString, Required ''refreshToken'' TsString, Required ''tokenType'' (TsLiteral ''Bearer''),
     Required ''expiresInSeconds'' TsNumber]"

definition LoginSuccessResponse :: ts_type where
  "LoginSuccessResponse = TsObject [Required ''accountId'' TsString, Required ''identity'' AccountIdentityDTO, Required ''device'' DeviceDTO,
     Required ''session'' SessionDTO, Required ''tokens'' TokensDTO, Optional ''recoveryCodes'' (TsArray TsString)]"

definition LoginPendingApprovalResponse :: ts_type where
  "LoginPendingApprovalResponse = TsObject [Required ''approvalRequestId'' TsString, Required ''approvalPollToken'' TsString,
     Required ''status'' (literals [''pending'', ''approved'', ''rejected'', ''expired''])]"

definition LoginTwoFactorRequiredResponse :: ts_type where
  "LoginTwoFactorRequiredResponse = TsObject [Required ''challengeId'' TsString, Required ''loginToken'' TsString, Required ''expiresAt'' TsString]"

text \<open>Every answer of the relay to a login that has one of the three types the protocol gives it is told apart from the others: the
  session, the pending approval, and the challenge of the second factor, which comes with the error of status 401 and whose members
  are all there.\<close>

theorem typed_logins_are_told_apart:
  shows "has_type True LoginSuccessResponse (wire_of data) \<Longrightarrow> login (Inr data) = Inr (LoginSuccess data)"
    and "has_type strict LoginPendingApprovalResponse (wire_of data) \<Longrightarrow> login (Inr data) = Inr (LoginPending data)"
    and "has_type False LoginTwoFactorRequiredResponse (wire_of data) \<Longrightarrow> payload_error_field data ''code'' = Some ''two_fa_required''
      \<Longrightarrow> \<exists>i tok expiry. json_get data ''challengeId'' = Some (JStr i) \<and> json_get data ''loginToken'' = Some (JStr tok)
        \<and> login (Inl (ApiClientError 401 data)) = Inr (LoginTwoFA \<lparr>tf_challengeId = i, tf_loginToken = tok, tf_expiresAt = Some (JStr expiry)\<rparr>)"
proof -
  assume t: "has_type True LoginSuccessResponse (wire_of data)"
  then have "json_get data ''approvalRequestId'' = None" unfolding LoginSuccessResponse_def by (rule absent_member) simp
  moreover have "is_object data" using typed_object [OF t [unfolded LoginSuccessResponse_def]] by auto
  ultimately show "login (Inr data) = Inr (LoginSuccess data)" by (simp add: login_def)
next
  assume t: "has_type strict LoginPendingApprovalResponse (wire_of data)"
  then have "json_get data ''approvalRequestId'' \<noteq> None"
    using required_member [OF t [unfolded LoginPendingApprovalResponse_def], of "''approvalRequestId''" TsString] by auto
  moreover have "is_object data" using typed_object [OF t [unfolded LoginPendingApprovalResponse_def]] by auto
  ultimately show "login (Inr data) = Inr (LoginPending data)" by (simp add: login_def)
next
  assume t: "has_type False LoginTwoFactorRequiredResponse (wire_of data)" and c: "payload_error_field data ''code'' = Some ''two_fa_required''"
  note members = required_member [OF t [unfolded LoginTwoFactorRequiredResponse_def], where t = TsString, unfolded typed_string]
  obtain i tok expiry where "json_get data ''challengeId'' = Some (JStr i)" "json_get data ''loginToken'' = Some (JStr tok)"
      "json_get data ''expiresAt'' = Some (JStr expiry)"
    using members [of "''challengeId''"] members [of "''loginToken''"] members [of "''expiresAt''"] by auto
  moreover have "data \<noteq> JNull" using c by (auto simp: payload_error_field_def)
  ultimately show "\<exists>i tok expiry. json_get data ''challengeId'' = Some (JStr i) \<and> json_get data ''loginToken'' = Some (JStr tok)
      \<and> login (Inl (ApiClientError 401 data)) = Inr (LoginTwoFA \<lparr>tf_challengeId = i, tf_loginToken = tok, tf_expiresAt = Some (JStr expiry)\<rparr>)"
    using c by (simp add: login_def str_or_empty_def)
qed

subsection \<open>The bridge of the plugins\<close>

definition PluginBridgeMethod :: ts_type where
  "PluginBridgeMethod = literals [''registerCommand'', ''registerPanel'', ''setPanelContent'', ''pluginStorage.get'', ''pluginStorage.set'',
     ''pluginStorage.delete'', ''pluginStorage.list'', ''messages.getActiveConversationSummary'', ''messages.getVisibleMessagesSanitized'',
     ''events.subscribe'', ''events.unsubscribe'', ''notifications.showLocal'']"

definition PluginBridgeRequest :: ts_type where
  "PluginBridgeRequest = TsObject [Required ''pluginId'' TsString, Required ''requestId'' TsString, Required ''method'' PluginBridgeMethod,
     Optional ''params'' TsRecord]"

definition PluginBridgeSuccessResponse :: ts_type where
  "PluginBridgeSuccessResponse = TsObject [Required ''pluginId'' TsString, Required ''requestId'' TsString, Required ''ok'' TsTrue,
     Required ''result'' TsUnknown]"

definition PluginBridgeErrorResponse :: ts_type where
  "PluginBridgeErrorResponse = TsObject [Required ''pluginId'' TsString, Required ''requestId'' TsString, Required ''ok'' TsFalse,
     Required ''error'' (TsObject [Required ''code'' (literals [''plugin_manifest_invalid'', ''plugin_permission_denied'', ''plugin_runtime_init_failed'',
        ''plugin_bridge_violation'', ''plugin_load_failed'', ''plugin_disabled'', ''plugin_storage_unavailable'']), Required ''message'' TsString])]"

definition PluginBridgeResponse :: ts_type where
  "PluginBridgeResponse = TsUnion [PluginBridgeSuccessResponse, PluginBridgeErrorResponse]"

text \<open>The methods of the type are those the table of capabilities has an entry for.\<close>

lemma methods_have_capabilities: "PluginBridgeMethod = literals (map fst pluginCapabilityByMethod)"
  by (simp add: PluginBridgeMethod_def pluginCapabilityByMethod_def)

lemma response_typed:
  assumes "br_requestId r = Some (JStr i)"
  shows "has_type True PluginBridgeResponse (wire_of (JObj (response_members r)))"
proof (cases r)
  case (BridgeOk p rid result)
  then show ?thesis using assms by (simp add: PluginBridgeResponse_def PluginBridgeSuccessResponse_def given_def)
next
  case (BridgeError p rid c m)
  then show ?thesis using assms by (cases c) (simp_all add: PluginBridgeResponse_def PluginBridgeErrorResponse_def given_def)
qed

lemma response_names:
  "br_pluginId (fst (processBridgeRequest env n inst request h)) = pm_id (pi_manifest inst)"
  "br_requestId (fst (processBridgeRequest env n inst request h)) = json_get request ''requestId''"
proof -
  have r: "br_pluginId (respond p rid x) = p \<and> br_requestId (respond p rid x) = rid" for p rid x by (cases x) simp_all
  show "br_pluginId (fst (processBridgeRequest env n inst request h)) = pm_id (pi_manifest inst)"
    "br_requestId (fst (processBridgeRequest env n inst request h)) = json_get request ''requestId''"
    by (simp_all add: processBridgeRequest_def Let_def split_def r split: option.split)
qed

text \<open>C22. Whatever a request of a plugin asks for, and whether it is granted, if the request has the type of the protocol then so has the
  answer of the host, with no member beyond it, and the answer names the plugin that runs and the request it answers.\<close>

theorem bridge_answers_have_their_type:
  assumes "has_type strict PluginBridgeRequest (wire_of request)"
  shows "let r = fst (processBridgeRequest env n inst request h) in
    has_type True PluginBridgeResponse (wire_of (JObj (response_members r)))
    \<and> br_pluginId r = pm_id (pi_manifest inst) \<and> br_requestId r = json_get request ''requestId''"
proof -
  obtain i where "json_get request ''requestId'' = Some (JStr i)"
    using required_member [OF assms [unfolded PluginBridgeRequest_def], of "''requestId''" TsString, unfolded typed_string] by auto
  then show ?thesis
    using response_typed [of "fst (processBridgeRequest env n inst request h)" i] by (simp add: response_names Let_def)
qed

lemma bridge_answers_have_their_type_witness:
  "has_type True PluginBridgeResponse (wire_of (JObj (response_members
     (fst (processBridgeRequest ex_env 0 (ex_instance ''mine'' [''storage.plugin_local'']) (ex_request ''mine'' ''pluginStorage.list'' [])
       (ex_host ''mine'' [''storage.plugin_local'']))))))"
proof -
  have "has_type False PluginBridgeRequest (wire_of (ex_request ''mine'' ''pluginStorage.list'' []))" by code_simp
  from bridge_answers_have_their_type [OF this] show ?thesis by (simp add: Let_def)
qed

text \<open>What the script in the iframe posts for a call of a plugin has the type too, unless the plugin describes a panel by what is no object.\<close>

lemma script_requests_have_their_type:
  assumes "invoke_api now c s = (Inr requestId, s')" "\<forall>panel. c = RegisterPanel (Some panel) \<longrightarrow> (\<exists>fs. panel = JObj fs)"
  shows "\<exists>origin request. sx_sent s' = sx_sent s @ [(origin, request)] \<and> has_type False PluginBridgeRequest (wire_of request)"
proof -
  have called: "callHost now m (JObj params) s0 = (Inr requestId, s') \<Longrightarrow> has_type False PluginBridgeMethod (WStr m) \<Longrightarrow> sx_sent s0 = sx_sent s
      \<Longrightarrow> \<exists>origin request. sx_sent s' = sx_sent s @ [(origin, request)] \<and> has_type False PluginBridgeRequest (wire_of request)" for m params s0
    by (auto simp: callHost_def send_def bridge_request_def PluginBridgeRequest_def Let_def split: if_splits)
  have handlers: "sx_sent (add_handler e f s) = sx_sent s" "sx_sent (delete_handler e f s) = sx_sent s" for e f
    by (simp_all add: add_handler_def delete_handler_def Let_def)
  show ?thesis
  proof (cases c)
    case (RegisterPanel panel)
    then obtain fs where "or_object panel = JObj fs" using assms(2) by (cases panel) (auto simp: or_object_def)
    then show ?thesis using assms(1) RegisterPanel by (intro called [of "''registerPanel''" fs s]) (simp_all add: PluginBridgeMethod_def)
  qed (use assms(1) in \<open>auto simp: handlers PluginBridgeMethod_def intro!: called split: option.splits json.splits if_splits\<close>)
qed

subsection \<open>Frames of the socket\<close>

definition ClientEventType :: "string list" where
  "ClientEventType = [''client.hello'', ''client.ping'', ''client.ack'', ''client.subscribe'', ''client.unsubscribe'', ''client.sync.ack'']"

definition ServerEventType :: "string list" where
  "ServerEventType = [''server.hello'', ''server.pong'', ''server.ack'', ''server.error'', ''server.notice'', ''server.sync_available'',
     ''server.transport.status'']"

definition EventType :: ts_type where
  "EventType = literals (ClientEventType @ ServerEventType)"

definition MessageEnvelope :: "ts_type \<Rightarrow> ts_type" where
  "MessageEnvelope payload = TsObject [Required ''id'' TsString, Required ''type'' EventType, Optional ''senderUserId'' TsString,
     Optional ''senderDeviceId'' TsString, Required ''timestamp'' TsString, Required ''payload'' payload]"

definition WsServerMessage :: "ts_type \<Rightarrow> ts_type" where
  "WsServerMessage payload = TsObject [Required ''direction'' (TsLiteral ''server_to_client''), Required ''envelope'' (MessageEnvelope payload)]"

lemma typed_number: "has_type strict TsNumber (wire_of j) \<longleftrightarrow> (\<exists>n. j = JNum n)"
  by (cases j) auto

lemma typed_envelope:
  assumes "has_type strict (WsServerMessage payload) (wire_of j)"
  shows "\<exists>envelope kind body. json_get j ''envelope'' = Some envelope \<and> json_get envelope ''type'' = Some (JStr kind)
    \<and> kind \<in> set (ClientEventType @ ServerEventType) \<and> json_get envelope ''payload'' = Some body \<and> has_type strict payload (wire_of body)"
proof -
  obtain envelope where e: "json_get j ''envelope'' = Some envelope" "has_type strict (MessageEnvelope payload) (wire_of envelope)"
    using required_member [OF assms [unfolded WsServerMessage_def], of "''envelope''" "MessageEnvelope payload"] by auto
  note members = required_member [OF e(2) [unfolded MessageEnvelope_def]]
  obtain k where "json_get envelope ''type'' = Some k" "has_type strict EventType (wire_of k)"
    using members [of "''type''" EventType] by auto
  moreover obtain body where "json_get envelope ''payload'' = Some body" "has_type strict payload (wire_of body)"
    using members [of "''payload''" payload] by auto
  ultimately show ?thesis using e(1) unfolding EventType_def typed_literals by blast
qed

text \<open>A hint of the relay with a numeric cursor always reaches the runtime, and of all the frames the protocol has, it acts on this one and on
  errors alone.\<close>

theorem typed_frames_are_obeyed:
  assumes "JSON_parse rawData = Some j" "has_type strict (WsServerMessage (TsObject [Required ''cursor'' TsNumber])) (wire_of j)"
  shows "\<exists>envelope kind body cursor. json_get j ''envelope'' = Some envelope \<and> json_get envelope ''type'' = Some (JStr kind)
    \<and> json_get envelope ''payload'' = Some body \<and> json_get body ''cursor'' = Some (JNum cursor)
    \<and> kind \<in> set (ClientEventType @ ServerEventType)
    \<and> (kind = ''server.sync_available'' \<longrightarrow> handleMessage rawData = FrameSync cursor)
    \<and> (kind \<notin> {''server.sync_available'', ''server.error''} \<longrightarrow> handleMessage rawData = FrameIgnored)"
proof -
  obtain envelope kind body where e: "json_get j ''envelope'' = Some envelope" "json_get envelope ''type'' = Some (JStr kind)"
      "kind \<in> set (ClientEventType @ ServerEventType)" "json_get envelope ''payload'' = Some body"
      "has_type strict (TsObject [Required ''cursor'' TsNumber]) (wire_of body)"
    using typed_envelope [OF assms(2)] by blast
  then obtain cursor where "json_get body ''cursor'' = Some (JNum cursor)"
    using required_member [OF e(5), of "''cursor''" TsNumber, unfolded typed_number] by auto
  moreover have "j \<noteq> JNull" using e(1) by auto
  ultimately show ?thesis using e assms(1) by (intro exI [of _ envelope] exI [of _ kind] exI [of _ body] exI [of _ cursor]) (simp add: handleMessage_def Let_def)
qed

end
