(* ===== verification/Release_Scripts.thy ===== *)
theory Release_Scripts
  imports Plugin_Manifest Json_Parse
begin

text \<open>
  The scripts of a release: \<open>plugin-unit-checks.mjs\<close>, \<open>generate-updater-manifest.mjs\<close>, \<open>release-sanity.mjs\<close> and
  \<open>windows-installer.mjs\<close>. A script is a function from its arguments and what it reads to what it writes and how it ends;
  the build of the installer runs over a small file system.
\<close>

subsection \<open>plugin-unit-checks.mjs\<close>

definition unit_allowedCapabilities :: "string list" where
  "unit_allowedCapabilities = [''ui.render'', ''commands.register'', ''storage.plugin_local'', ''notifications.local'',
     ''messages.read_active_conversation_summary'', ''messages.read_visible_messages'', ''events.subscribe'']"

definition unit_deniedCapabilities :: "string list" where
  "unit_deniedCapabilities = [''network.outbound'', ''filesystem.read'', ''filesystem.write'', ''transport.control'', ''auth.session'',
     ''crypto.keys'', ''identity.material'']"

text \<open>\<open>validateManifest\<close>: \<open>None\<close> for \<open>ok\<close>, or the code.\<close>

definition unit_validateManifest :: "json \<Rightarrow> validation_code option" where
  "unit_validateManifest manifest =
     (if \<not> is_object manifest then Some VcManifestInvalid
      else if json_get manifest ''apiVersion'' \<noteq> Some (JStr ''v1'') then Some VcManifestInvalid
      else case as_str (json_get manifest ''id'') of
        None \<Rightarrow> Some VcManifestInvalid
      | Some i \<Rightarrow>
          if \<not> idPattern i then Some VcManifestInvalid
          else case json_get manifest ''requestedPermissions'' of
            Some (JArr permissions) \<Rightarrow>
              if list_all (\<lambda>p. p \<in> set (map JStr unit_allowedCapabilities)) permissions then None else Some VcPermissionDenied
          | _ \<Rightarrow> Some VcManifestInvalid)"

definition validManifest :: json where
  "validManifest = JObj [(''apiVersion'', JStr ''v1''), (''id'', JStr ''demo.plugin.valid''), (''name'', JStr ''Valid Plugin''),
     (''version'', JStr ''1.0.0''), (''entrypoint'', JStr ''index.js''),
     (''requestedPermissions'', JArr [JStr ''ui.render'', JStr ''events.subscribe'']), (''declaredHooks'', JArr [JStr ''transport.state.changed'']),
     (''uiContributions'', JObj [(''panels'', JArr [JObj [(''id'', JStr ''valid.panel''), (''title'', JStr ''Valid'')]])])]"

text \<open>\<open>{ ...m, k: v }\<close>\<close>

fun spread_with :: "json \<Rightarrow> string \<Rightarrow> json \<Rightarrow> json" where
  "spread_with (JObj fs) k v = JObj (map_set k v fs)"
| "spread_with j k v = JObj [(k, v)]"

definition deniedManifest :: json where
  "deniedManifest = spread_with (spread_with validManifest ''id'' (JStr ''demo.plugin.denied''))
     ''requestedPermissions'' (JArr [JStr ''ui.render'', JStr ''network.outbound''])"

definition invalidShapeManifest :: json where
  "invalidShapeManifest = spread_with validManifest ''id'' (JStr ''NO_UPPERCASE_ALLOWED'')"

definition plugin_unit_checks :: bool where
  "plugin_unit_checks \<longleftrightarrow> unit_validateManifest validManifest = None
     \<and> unit_validateManifest deniedManifest = Some VcPermissionDenied
     \<and> unit_validateManifest invalidShapeManifest = Some VcManifestInvalid
     \<and> list_all (\<lambda>c. c \<notin> set unit_allowedCapabilities) unit_deniedCapabilities"

subsection \<open>generate-updater-manifest.mjs\<close>

fun parseArgs_from :: "(string \<times> string) list \<Rightarrow> string list \<Rightarrow> (string \<times> string) list" where
  "parseArgs_from result [] = result"
| "parseArgs_from result [tok] =
     (if startsWith tok ''--'' then map_set (drop 2 tok) ''true'' result else result)"
| "parseArgs_from result (tok # val # input) =
     (if \<not> startsWith tok ''--'' then parseArgs_from result (val # input)
      else if val = [] \<or> startsWith val ''--'' then parseArgs_from (map_set (drop 2 tok) ''true'' result) (val # input)
      else parseArgs_from (map_set (drop 2 tok) val result) input)"

definition parseArgs :: "string list \<Rightarrow> (string \<times> string) list" where
  "parseArgs input = parseArgs_from [] input"

definition required_arg :: "string option \<Rightarrow> string \<Rightarrow> string + string" where
  "required_arg val flag = (if present val then Inr (the val) else Inl (''Missing required argument '' @ flag))"

text \<open>\<open>v || d\<close>\<close>

definition arg_or :: "string option \<Rightarrow> string \<Rightarrow> string" where
  "arg_or v d = (if present v then the v else d)"

definition updater_manifest :: "string \<Rightarrow> string \<Rightarrow> string \<Rightarrow> string \<Rightarrow> string \<Rightarrow> string \<Rightarrow> json" where
  "updater_manifest version notes pubDate target url signature = JObj [(''version'', JStr version), (''notes'', JStr notes),
     (''pub_date'', JStr pubDate), (''platforms'', JObj [(target, JObj [(''url'', JStr url), (''signature'', JStr signature)])])]"

text \<open>\<open>JSON.stringify(v, null, 2)\<close> of a value made of strings and objects that are not empty, which is what the script writes.\<close>

fun pretty :: "nat \<Rightarrow> json \<Rightarrow> string" where
  "pretty d (JStr s) = quote_str s"
| "pretty d (JObj fs) = ''{'' @ [CHR 0x0A]
     @ join ('','' @ [CHR 0x0A]) (map (\<lambda>(k, v). replicate (d + 2) (CHR '' '') @ quote_str k @ '': '' @ pretty (d + 2) v) fs)
     @ [CHR 0x0A] @ replicate d (CHR '' '') @ ''}''"
| "pretty d _ = []"

text \<open>\<open>read\<close> is \<open>readFileSync\<close>, \<open>resolve\<close> is \<open>path.resolve\<close>; the result is the path and the text of the file written.\<close>

definition generate_updater_manifest :: "(string \<Rightarrow> string + string) \<Rightarrow> (string \<Rightarrow> string) \<Rightarrow> string \<Rightarrow> string list \<Rightarrow> string + string \<times> string" where
  "generate_updater_manifest read resolve now argv =
     (let get = map_get (parseArgs argv) in
      case required_arg (get ''version'') ''--version'' of Inl e \<Rightarrow> Inl e | Inr version \<Rightarrow>
      case required_arg (get ''url'') ''--url'' of Inl e \<Rightarrow> Inl e | Inr url \<Rightarrow>
      case required_arg (get ''signature-file'') ''--signature-file'' of Inl e \<Rightarrow> Inl e | Inr signatureFile \<Rightarrow>
      case required_arg (get ''output'') ''--output'' of Inl e \<Rightarrow> Inl e | Inr out \<Rightarrow>
      (let target = arg_or (get ''target'') ''windows-x86_64'';
           notes = arg_or (get ''notes'') (''Release '' @ version);
           pubDate = arg_or (get ''pub-date'') now in
       case read signatureFile of Inl e \<Rightarrow> Inl e | Inr content \<Rightarrow>
       let signature = js_trim content in
       if signature = [] then Inl (''Signature file is empty: '' @ signatureFile)
       else Inr (resolve out, pretty 0 (updater_manifest version notes pubDate target url signature) @ [CHR 0x0A])))"

subsection \<open>release-sanity.mjs\<close>

definition sanity_steps :: "bool \<Rightarrow> (string \<times> string) list" where
  "sanity_steps smoke = [(''server-tests'', ''npm run test:server''), (''client-build'', ''npm run build:client''),
     (''plugin-unit'', ''npm run test:plugins:unit'')] @ (if smoke then [(''smoke-v4'', ''npm run test:smoke:v4'')] else [])"

text \<open>\<open>ok\<close> tells which command succeeds; the result is what has run, and the step that failed, with which the script exits.\<close>

fun run_steps :: "(string \<Rightarrow> bool) \<Rightarrow> (string \<times> string) list \<Rightarrow> string list \<times> string option" where
  "run_steps ok [] = ([], None)"
| "run_steps ok ((name, command) # steps) =
     (if ok command then (case run_steps ok steps of (executed, r) \<Rightarrow> (command # executed, r)) else ([command], Some name))"

subsection \<open>windows-installer.mjs\<close>

record dir_entry =
  de_name :: string
  de_isFile :: bool
  de_mtimeMs :: int
  de_content :: string

text \<open>
  What the script works on: the entries of the bundle directory and of the directory of artifacts, \<open>None\<close> for one that is not there,
  the configuration of Tauri, and the commands it has run.
\<close>

record build_world =
  bw_bundle :: "dir_entry list option"
  bw_artifacts :: "dir_entry list option"
  bw_tauriConfig :: string
  bw_commands :: "string list list"

text \<open>How a script ends early: \<open>process.exit\<close>, or an exception.\<close>

datatype script_end = Exit int | Uncaught string

datatype npm_outcome = NpmError string | NpmStatus "int option"

type_synonym 'a script = "(build_world, script_end, 'a) eff"

text \<open>\<open>/^[a-zA-Z0-9._:/-]+$/\<close>\<close>

definition alnum :: "char \<Rightarrow> bool" where
  "alnum c \<longleftrightarrow> is_lower c \<or> is_upper c \<or> is_digit c"

definition plain_arg :: "string \<Rightarrow> bool" where
  "plain_arg s \<longleftrightarrow> s \<noteq> [] \<and> list_all (\<lambda>c. alnum c \<or> c \<in> set ''._:/-'') s"

definition quoteCmdArg :: "string \<Rightarrow> string" where
  "quoteCmdArg v = (if plain_arg v then v
     else [CHR 0x22] @ concat (map (\<lambda>c. if c = CHR 0x22 then [CHR 0x5C, CHR 0x22] else [c]) v) @ [CHR 0x22])"

text \<open>\<open>win\<close> is whether the platform is Windows, \<open>shell\<close> its command interpreter; \<open>npm\<close> answers by the number of the command.\<close>

definition npm_command :: "bool \<Rightarrow> string \<Rightarrow> string list \<Rightarrow> string list" where
  "npm_command win shell args = (if win then [shell, ''/d'', ''/s'', ''/c'', ''npm '' @ join '' '' (map quoteCmdArg args)] else ''npm'' # args)"

definition runNpm :: "bool \<Rightarrow> string \<Rightarrow> (nat \<Rightarrow> npm_outcome) \<Rightarrow> string list \<Rightarrow> unit script" where
  "runNpm win shell npm args = bnd (rd (\<lambda>s. length (bw_commands s))) (\<lambda>n.
     sq (upd (\<lambda>s. s\<lparr>bw_commands := bw_commands s @ [npm_command win shell args]\<rparr>))
       (case npm n of
          NpmError _ \<Rightarrow> throw (Exit 1)
        | NpmStatus status \<Rightarrow> if status = Some 0 then ret () else throw (Exit (case status of None \<Rightarrow> 1 | Some k \<Rightarrow> k))))"

definition endsWith :: "string \<Rightarrow> string \<Rightarrow> bool" where
  "endsWith s t \<longleftrightarrow> length t \<le> length s \<and> drop (length s - length t) s = t"

definition installer_name :: "string \<Rightarrow> bool" where
  "installer_name fileName \<longleftrightarrow> endsWith (toLowerCase fileName) ''.exe'' \<and> str_includes (toLowerCase fileName) ''setup''"

definition collectNsisInstallers :: "build_world \<Rightarrow> dir_entry list" where
  "collectNsisInstallers s = (case bw_bundle s of None \<Rightarrow> [] | Some entries \<Rightarrow> filter (\<lambda>x. installer_name (de_name x)) (filter de_isFile entries))"

definition by_newest :: "dir_entry \<Rightarrow> dir_entry \<Rightarrow> int" where
  "by_newest a b = de_mtimeMs b - de_mtimeMs a"

definition resolveLatestNsisInstaller :: "dir_entry script" where
  "resolveLatestNsisInstaller = bnd (rd collectNsisInstallers) (\<lambda>installers.
     if installers = [] then throw (Uncaught ''no NSIS installers found'') else ret (hd (js_sort by_newest installers)))"

definition listCanonicalArtifacts :: "build_world \<Rightarrow> string list" where
  "listCanonicalArtifacts s = (case bw_artifacts s of None \<Rightarrow> [] | Some entries \<Rightarrow> map de_name (filter de_isFile entries))"

text \<open>The text of the configuration is taken without a byte order mark, which \<open>readJson\<close> strips.\<close>

definition readJson :: "string \<Rightarrow> json script" where
  "readJson content = (case JSON_parse content of None \<Rightarrow> throw (Uncaught ''SyntaxError'') | Some j \<Rightarrow> ret j)"

definition detectArchitecture :: "string \<Rightarrow> string \<Rightarrow> string" where
  "detectArchitecture arch fileName = (let lowered = toLowerCase fileName in
     if str_includes lowered ''arm64'' then ''arm64''
     else if str_includes lowered ''x86_64'' \<or> str_includes lowered ''x64'' then ''x64''
     else if str_includes lowered ''x86'' then ''x86''
     else arch)"

definition normalizeProductName :: "string \<Rightarrow> string" where
  "normalizeProductName v = (let compact = js_trim (filter alnum v) in if 0 < length compact then compact else ''SecureMessenger'')"

definition canonical_name :: "string \<Rightarrow> json \<Rightarrow> string \<Rightarrow> string" where
  "canonical_name arch config fileName =
     (let text = (\<lambda>k d. case as_str (json_get config k) of Some s \<Rightarrow> s | None \<Rightarrow> d) in
      normalizeProductName (text ''productName'' ''SecureMessenger'') @ ''_'' @ text ''version'' ''0.0.0'' @ ''_''
        @ detectArchitecture arch fileName @ ''_Setup.exe'')"

text \<open>\<open>mkdirSync\<close> and \<open>copyFileSync\<close>: a file of the same name is replaced.\<close>

definition copy_artifact :: "string \<Rightarrow> int \<Rightarrow> dir_entry \<Rightarrow> build_world \<Rightarrow> build_world" where
  "copy_artifact name now installer s =
     (let entries = (case bw_artifacts s of None \<Rightarrow> [] | Some es \<Rightarrow> es);
          copy = \<lparr>de_name = name, de_isFile = True, de_mtimeMs = now, de_content = de_content installer\<rparr> in
      s\<lparr>bw_artifacts := Some (filter (\<lambda>x. de_name x \<noteq> name) entries @ [copy])\<rparr>)"

text \<open>\<open>built\<close> is what the commands do to the bundle directory.\<close>

record build_env =
  be_win :: bool
  be_shell :: string
  be_arch :: string
  be_now :: int
  be_npm :: "nat \<Rightarrow> npm_outcome"
  be_built :: "build_world \<Rightarrow> dir_entry list option"

definition runBuildFlow :: "build_env \<Rightarrow> unit script" where
  "runBuildFlow env =
     sq (runNpm (be_win env) (be_shell env) (be_npm env) [''run'', ''test:release:rc''])
    (sq (runNpm (be_win env) (be_shell env) (be_npm env) [''run'', ''build:desktop:windows''])
    (sq (upd (\<lambda>s. s\<lparr>bw_bundle := be_built env s\<rparr>))
    (bnd resolveLatestNsisInstaller (\<lambda>installer.
     bnd (rd bw_tauriConfig) (\<lambda>content. bnd (readJson content) (\<lambda>tauriConfig.
     if tauriConfig = JNull then throw (Uncaught ''TypeError'')
     else upd (copy_artifact (canonical_name (be_arch env) tauriConfig (de_name installer)) (be_now env) installer)))))))"

text \<open>What the summary lists, in the two directories.\<close>

definition printSummary :: "build_world \<Rightarrow> string list \<times> string list" where
  "printSummary s = (map de_name (collectNsisInstallers s), listCanonicalArtifacts s)"

definition cleanArtifacts :: "build_world \<Rightarrow> build_world" where
  "cleanArtifacts s = s\<lparr>bw_bundle := None, bw_artifacts := None\<rparr>"

definition installer_main :: "build_env \<Rightarrow> string option \<Rightarrow> unit script" where
  "installer_main env command = (case (case command of None \<Rightarrow> ''build'' | Some c \<Rightarrow> c) of
      c \<Rightarrow> if c = ''build'' then runBuildFlow env
           else if c = ''summary'' then ret ()
           else if c = ''clean'' then upd cleanArtifacts
           else throw (Exit 1))"

subsection \<open>The checks of plugins\<close>

lemma unit_allowed: "isCapabilityAllowedInV1 c \<Longrightarrow> c \<in> set unit_allowedCapabilities"
  by (auto simp: isCapabilityAllowedInV1_def allowedV1Capabilities_def unit_allowedCapabilities_def split: if_splits)

lemma plugin_unit_checks_pass: plugin_unit_checks
  by code_simp

text \<open>The release checks run a copy of the validator. Every manifest that the client accepts passes the copy, in the form in which the
  client stores it; the copy has no opinion on the other conditions of the client.\<close>

theorem release_checks_accept_what_the_client_accepts:
  assumes "validatePluginDescriptor d = Inr m"
  shows "unit_validateManifest (manifest_json m) = None"
proof -
  have m: "pm_apiVersion m = ''v1''" "idPattern (pm_id m)" "find (\<lambda>c. \<not> isCapabilityAllowedInV1 c) (pm_requestedPermissions m) = None"
    using assms by (auto simp: validatePluginDescriptor_def split: option.splits if_splits)
  have "list_all (\<lambda>p. p \<in> set (map JStr unit_allowedCapabilities)) (map JStr (pm_requestedPermissions m))"
    using m(3) unit_allowed by (auto simp: list_all_iff find_None_iff)
  then show ?thesis using m(1,2) by (simp add: unit_validateManifest_def manifest_json_def)
qed

lemma checked_copy_accepts_more:
  "\<exists>manifest. unit_validateManifest manifest = None
    \<and> (\<forall>s ref code. \<exists>e. validatePluginDescriptor \<lparr>ld_manifest = manifest, ld_source = s, ld_sourceRef = ref, ld_entrypointCode = code\<rparr> = Inl e)"
proof -
  let ?m = "JObj [(''apiVersion'', JStr ''v1''), (''id'', JStr ''demo''), (''requestedPermissions'', JArr [])]"
  have "unit_validateManifest ?m = None" by code_simp
  moreover have "normalizeManifest ?m = None" by code_simp
  ultimately show ?thesis by (intro exI [of _ ?m]) (simp add: validatePluginDescriptor_def)
qed

subsection \<open>Arguments and the manifest of an update\<close>

lemma parse_pairs:
  assumes "list_all (\<lambda>(k, v). v \<noteq> [] \<and> \<not> startsWith v ''--'') kvs"
  shows "parseArgs_from result (concat (map (\<lambda>(k, v). [''--'' @ k, v]) kvs)) = fold (\<lambda>(k, v). map_set k v) kvs result"
  using assms
proof (induction kvs arbitrary: result)
  case (Cons x kvs)
  obtain k v where "x = (k, v)" by (cases x)
  then show ?case using Cons by (simp add: startsWith_def)
qed simp

lemma missing_value_is_taken_for_true:
  "parseArgs (''--version'' # ''--url'' # v # rest) = parseArgs_from [(''version'', ''true'')] (''--url'' # v # rest)"
  by (simp add: parseArgs_def startsWith_def)

text \<open>So a release without a version is not refused: it is published as version \<open>true\<close>.\<close>

lemma release_without_a_version:
  "generate_updater_manifest (\<lambda>_. Inr ''sig'') id ''now'' [''--version'', ''--url'', ''u'', ''--signature-file'', ''f'', ''--output'', ''o'']
   = Inr (''o'', pretty 0 (updater_manifest ''true'' ''Release true'' ''now'' ''windows-x86_64'' ''u'' ''sig'') @ [CHR 0x0A])"
  by code_simp

lemma skip_replicate: "skip_ws (replicate n (CHR '' '') @ t) = skip_ws t"
  by (induction n) (simp_all add: skip_ws_def json_space_def)

subsection \<open>The sequence of checks\<close>

text \<open>The sanity check passes exactly when every command does; otherwise it names the first that fails and runs none after it.\<close>

lemma sanity_stops_at_the_first_failure:
  "case run_steps ok steps of
     (executed, None) \<Rightarrow> executed = map snd steps \<and> list_all ok executed
   | (executed, Some name) \<Rightarrow> \<exists>before command rest. steps = before @ (name, command) # rest \<and> executed = map snd before @ [command]
       \<and> list_all ok (map snd before) \<and> \<not> ok command"
proof (induction ok steps rule: run_steps.induct)
  case (2 ok name command steps)
  show ?case
  proof (cases "ok command")
    case True
    obtain executed r where r: "run_steps ok steps = (executed, r)" by fastforce
    show ?thesis
    proof (cases r)
      case None
      then show ?thesis using 2 [OF True] True r by auto
    next
      case (Some n)
      then obtain before c rest where "steps = before @ (n, c) # rest" "executed = map snd before @ [c]" "list_all ok (map snd before)" "\<not> ok c"
        using 2 [OF True] r by auto
      then show ?thesis using True r Some by (intro case_prodI2) (auto intro!: exI [of _ "(name, command) # before"])
    qed
  next
    case False
    then show ?thesis by (auto intro: exI [of _ "[]"])
  qed
qed simp

subsection \<open>The installer\<close>

lemma by_newest_comparator: "comparator by_newest"
  by unfold_locales (auto simp: by_newest_def)

interpretation youngest: comparator by_newest by (rule by_newest_comparator)

lemma newest_first:
  assumes "xs \<noteq> []" "x \<in> set xs"
  shows "hd (js_sort by_newest xs) \<in> set xs \<and> de_mtimeMs x \<le> de_mtimeMs (hd (js_sort by_newest xs))"
proof -
  have ne: "js_sort by_newest xs \<noteq> []" using assms(1) by (metis js_sort_set set_empty)
  then obtain y ys where ys: "js_sort by_newest xs = y # ys" by (cases "js_sort by_newest xs") auto
  have s: "set (js_sort by_newest xs) = set xs" by simp
  have "x = y \<or> by_newest y x \<le> 0" using youngest.ordered_sort [of xs] assms(2) s ys by auto
  then show ?thesis using s ys by (auto simp: by_newest_def)
qed

text \<open>The name of the published installer needs no quoting, if the version of the configuration does not.\<close>

lemma plain_append: "plain_arg s \<Longrightarrow> plain_arg t \<Longrightarrow> plain_arg (s @ t)"
  by (simp add: plain_arg_def)

lemma normalized_plain: "plain_arg (normalizeProductName name)"
proof -
  have d: "plain_arg ''SecureMessenger''" by code_simp
  have "\<forall>c \<in> set (js_trim (filter alnum name)). alnum c"
    by (auto simp: js_trim_def dest!: set_dropWhileD)
  then have "list_all (\<lambda>c. alnum c \<or> c \<in> set ''._:/-'') (js_trim (filter alnum name))" unfolding list_all_iff by blast
  then have "js_trim (filter alnum name) \<noteq> [] \<Longrightarrow> plain_arg (js_trim (filter alnum name))" unfolding plain_arg_def by blast
  then show ?thesis using d by (simp add: normalizeProductName_def Let_def)
qed

lemma canonical_plain:
  assumes "plain_arg version" "plain_arg arch" "as_str (json_get config ''version'') = Some version"
  shows "plain_arg (canonical_name arch config fileName)"
proof -
  have c: "plain_arg ''arm64''" "plain_arg ''x64''" "plain_arg ''x86''" "plain_arg ''_''" "plain_arg ''_Setup.exe''" by code_simp+
  then have "plain_arg (detectArchitecture arch fileName)" using assms(2) by (simp add: detectArchitecture_def Let_def)
  then show ?thesis
    unfolding canonical_name_def Let_def assms(3) option.case
    by (intro plain_append normalized_plain assms(1) c)
qed

lemma npm_frame:
  "snd (runNpm win shell npm args s) = s\<lparr>bw_commands := bw_commands s @ [npm_command win shell args]\<rparr>"
  "fst (runNpm win shell npm args s) = Inr u \<longleftrightarrow> npm (length (bw_commands s)) = NpmStatus (Some 0)"
  by (auto simp: runNpm_def bnd_def rd_def sq_def upd_def throw_def ret_def split: npm_outcome.splits option.splits)

text \<open>What a build publishes is the newest installer of the bundle directory, under its canonical name, in the place of an older file of
  that name, and only after the checks and the build have gone through; a build that ends in any other way publishes nothing.\<close>

theorem build_publishes_the_newest_installer:
  assumes "runBuildFlow env s = (r, s')"
  shows "case r of
      Inl _ \<Rightarrow> bw_artifacts s' = bw_artifacts s
    | Inr _ \<Rightarrow> be_npm env (length (bw_commands s)) = NpmStatus (Some 0) \<and> be_npm env (Suc (length (bw_commands s))) = NpmStatus (Some 0)
        \<and> (\<exists>installer \<in> set (collectNsisInstallers s'). \<exists>config name.
            (\<forall>x \<in> set (collectNsisInstallers s'). de_mtimeMs x \<le> de_mtimeMs installer)
          \<and> JSON_parse (bw_tauriConfig s) = Some config \<and> name = canonical_name (be_arch env) config (de_name installer)
          \<and> (\<exists>files. bw_artifacts s' = Some files \<and> map de_content (filter (\<lambda>x. de_name x = name) files) = [de_content installer]))"
proof -
  let ?npm = "runNpm (be_win env) (be_shell env) (be_npm env)"
  obtain r1 s1 where 1: "?npm [''run'', ''test:release:rc''] s = (r1, s1)" by fastforce
  obtain r2 s2 where 2: "?npm [''run'', ''build:desktop:windows''] s1 = (r2, s2)" by fastforce
  have s1: "s1 = s\<lparr>bw_commands := bw_commands s @ [npm_command (be_win env) (be_shell env) [''run'', ''test:release:rc'']]\<rparr>"
    and s2: "s2 = s1\<lparr>bw_commands := bw_commands s1 @ [npm_command (be_win env) (be_shell env) [''run'', ''build:desktop:windows'']]\<rparr>"
    using npm_frame(1) [of "be_win env" "be_shell env" "be_npm env"] 1 2 by (metis snd_conv)+
  have n1: "r1 = Inr u \<longleftrightarrow> be_npm env (length (bw_commands s)) = NpmStatus (Some 0)"
    and n2: "r2 = Inr u \<longleftrightarrow> be_npm env (length (bw_commands s1)) = NpmStatus (Some 0)" for u
    using npm_frame(2) [of "be_win env" "be_shell env" "be_npm env"] 1 2 by (metis fst_conv)+
  let ?s3 = "s2\<lparr>bw_bundle := be_built env s2\<rparr>"
  let ?found = "collectNsisInstallers ?s3" and ?i = "hd (js_sort by_newest (collectNsisInstallers ?s3))"
  note defs = runBuildFlow_def sq_def bnd_def 1 2 upd_def rd_def resolveLatestNsisInstaller_def throw_def ret_def readJson_def
  show ?thesis
  proof (cases "(\<exists>u. r1 = Inr u) \<and> (\<exists>u. r2 = Inr u) \<and> ?found \<noteq> [] \<and> (\<exists>config. JSON_parse (bw_tauriConfig s2) = Some config \<and> config \<noteq> JNull)")
    case False
    then have "(\<exists>e. r = Inl e) \<and> bw_artifacts s' = bw_artifacts s2 \<or> (\<exists>e. r = Inl e) \<and> bw_artifacts s' = bw_artifacts s1"
      using assms by (cases r1; cases r2) (auto simp: defs split: option.splits if_splits)
    then show ?thesis by (auto simp: s1 s2)
  next
    case True
    then obtain config where c: "JSON_parse (bw_tauriConfig s2) = Some config" "config \<noteq> JNull" and found: "?found \<noteq> []"
      and r12: "r1 = Inr ()" "r2 = Inr ()" by auto
    let ?name = "canonical_name (be_arch env) config (de_name ?i)"
    have r: "r = Inr ()" and s': "s' = copy_artifact ?name (be_now env) ?i ?s3"
      using assms r12 found c by (auto simp: defs)
    have same: "collectNsisInstallers s' = ?found" by (simp add: s' copy_artifact_def collectNsisInstallers_def Let_def)
    have i: "?i \<in> set ?found" and newest: "\<forall>x \<in> set ?found. de_mtimeMs x \<le> de_mtimeMs ?i"
      using newest_first [OF found] found by (metis hd_in_set, blast)
    have files: "\<exists>files. bw_artifacts s' = Some files \<and> map de_content (filter (\<lambda>x. de_name x = ?name) files) = [de_content ?i]"
      by (auto simp: s' copy_artifact_def Let_def filter_empty_conv)
    have parsed: "JSON_parse (bw_tauriConfig s) = Some config" using c(1) by (simp add: s1 s2)
    have ok: "be_npm env (length (bw_commands s)) = NpmStatus (Some 0)" "be_npm env (Suc (length (bw_commands s))) = NpmStatus (Some 0)"
      using n1 n2 r12 by (simp_all add: s1)
    show ?thesis
      unfolding r sum.case same
      by (intro conjI ok bexI [of _ ?i] exI [of _ config] exI [of _ ?name] newest parsed refl files i)
  qed
qed

text \<open>After \<open>clean\<close> the summary is empty, whatever was built before.\<close>

lemma clean_leaves_nothing: "printSummary (snd (installer_main env (Some ''clean'') s)) = ([], [])"
  by (simp add: installer_main_def upd_def cleanArtifacts_def printSummary_def collectNsisInstallers_def listCanonicalArtifacts_def)

lemma unknown_command_does_nothing:
  "command \<notin> {''build'', ''summary'', ''clean''} \<Longrightarrow> installer_main env (Some command) s = (Inl (Exit 1), s)"
  by (simp add: installer_main_def throw_def)

text \<open>The commands run through the interpreter of Windows need no quotes.\<close>

lemma build_commands:
  "npm_command True shell [''run'', ''test:release:rc''] = [shell, ''/d'', ''/s'', ''/c'', ''npm run test:release:rc'']"
  "npm_command True shell [''run'', ''build:desktop:windows''] = [shell, ''/d'', ''/s'', ''/c'', ''npm run build:desktop:windows'']"
proof -
  have "quoteCmdArg ''run'' = ''run''" "quoteCmdArg ''test:release:rc'' = ''test:release:rc''"
    "quoteCmdArg ''build:desktop:windows'' = ''build:desktop:windows''" by code_simp+
  then show "npm_command True shell [''run'', ''test:release:rc''] = [shell, ''/d'', ''/s'', ''/c'', ''npm run test:release:rc'']"
    "npm_command True shell [''run'', ''build:desktop:windows''] = [shell, ''/d'', ''/s'', ''/c'', ''npm run build:desktop:windows'']"
    by (simp_all add: npm_command_def)
qed

subsection \<open>The manifest read back\<close>

text \<open>What \<open>pretty\<close> writes: strings, and objects that are not empty and name no member twice.\<close>

fun string_tree :: "json \<Rightarrow> bool" where
  "string_tree (JStr s) = True"
| "string_tree (JObj fs) = (fs \<noteq> [] \<and> distinct (map fst fs) \<and> list_all (\<lambda>(k, v). string_tree v) fs)"
| "string_tree _ = False"

fun tree_fuel :: "json \<Rightarrow> nat" where
  "tree_fuel (JObj fs) = Suc (sum_list (map (\<lambda>(k, v). Suc (tree_fuel v)) fs))"
| "tree_fuel _ = 1"

lemma p_val_space: "json_space c \<Longrightarrow> p_val f (c # t) = p_val f t"
  by (cases f) (simp_all add: skip_ws_def)

lemma space_char [simp]: "json_space (CHR '' '')" "json_space (CHR 0x0A)"
  by code_simp+

definition pretty_member :: "nat \<Rightarrow> string \<times> json \<Rightarrow> string" where
  "pretty_member d x = replicate (d + 2) (CHR '' '') @ quote_str (fst x) @ '': '' @ pretty (d + 2) (snd x)"

lemma pretty_object: "pretty d (JObj fs) = ''{'' @ [CHR 0x0A] @ join ('','' @ [CHR 0x0A]) (map (pretty_member d) fs)
    @ [CHR 0x0A] @ replicate d (CHR '' '') @ ''}''"
  by (simp add: pretty_member_def split_def cong: map_cong)

lemma p_obj_member:
  assumes "\<And>t. p_val f (pretty (d + 2) v @ t) = Some (v, t)" "list_all json_space ws"
  shows "p_obj (Suc f) (ws @ pretty_member d (k, v) @ t) = (case skip_ws t of
      [] \<Rightarrow> None
    | e # r \<Rightarrow> if e = CHR '','' then map_option (\<lambda>(fs, t). ((k, v) # fs, t)) (p_obj f r) else if e = CHR ''}'' then Some ([(k, v)], r) else None)"
proof -
  have ws: "skip_ws (ws @ pretty_member d (k, v) @ t) = CHR 0x22 # concat (map quote_char k) @ CHR 0x22 # '': '' @ pretty (d + 2) v @ t"
  proof -
    have "dropWhile json_space (ws @ u) = dropWhile json_space u" for u using assms(2) by (induction ws) auto
    moreover have "dropWhile json_space (replicate n (CHR '' '') @ u) = dropWhile json_space u" for n u by (induction n) simp_all
    moreover have "\<not> json_space (CHR 0x22)" by code_simp
    ultimately show ?thesis by (simp add: skip_ws_def pretty_member_def quote_str_def)
  qed
  show ?thesis by (simp add: ws p_str_quote p_val_space assms(1) skip_ws_cons del: add_2_eq_Suc add_2_eq_Suc')
qed

lemma skip_indent: "skip_ws (CHR 0x0A # replicate n (CHR '' '') @ t) = skip_ws t"
  by (simp add: skip_ws_def) (induction n, simp_all)

lemma p_obj_members:
  assumes "\<And>k v f d t. (k, v) \<in> set fs \<Longrightarrow> tree_fuel v \<le> f \<Longrightarrow> p_val f (pretty d v @ t) = Some (v, t)"
    and "fs \<noteq> []" "sum_list (map (\<lambda>(k, v). Suc (tree_fuel v)) fs) \<le> f" "list_all json_space ws"
  shows "p_obj f (ws @ join ('','' @ [CHR 0x0A]) (map (pretty_member d) fs) @ CHR 0x0A # replicate d (CHR '' '') @ CHR ''}'' # t) = Some (fs, t)"
  using assms
proof (induction fs arbitrary: f ws)
  case (Cons x fs)
  obtain k v where x: "x = (k, v)" by (cases x)
  obtain g where f: "f = Suc g" "tree_fuel v \<le> g" "sum_list (map (\<lambda>(k, v). Suc (tree_fuel v)) fs) \<le> g"
    using Cons.prems(3) by (cases f) (auto simp: x)
  have v: "p_val g (pretty (d + 2) v @ u) = Some (v, u)" for u by (rule Cons.prems(1) [of k]) (simp_all add: x f)
  note step = p_obj_member [OF v Cons.prems(4), of k]
  show ?case
  proof (cases fs)
    case Nil
    then show ?thesis using step by (simp add: x f skip_indent)
  next
    case fs: (Cons y ys)
    have "p_obj g ([CHR 0x0A] @ join ('','' @ [CHR 0x0A]) (map (pretty_member d) fs) @ CHR 0x0A # replicate d (CHR '' '') @ CHR ''}'' # t) = Some (fs, t)"
    proof (rule Cons.IH)
      show "p_val f' (pretty d' w @ t') = Some (w, t')" if "(j, w) \<in> set fs" "tree_fuel w \<le> f'" for j w f' d' t'
        by (rule Cons.prems(1) [of j]) (use that in simp_all)
    qed (use f(3) fs in simp_all)
    then show ?thesis using step by (simp add: x f(1) fs)
  qed
qed simp

lemma p_val_pretty: "string_tree j \<Longrightarrow> tree_fuel j \<le> f \<Longrightarrow> p_val f (pretty d j @ t) = Some (j, t)"
proof (induction j arbitrary: f d t rule: string_tree.induct)
  case (1 s)
  then show ?case by (cases f) (simp_all add: quote_str_def p_str_quote)
next
  case (2 fs)
  obtain g where f: "f = Suc g" "sum_list (map (\<lambda>(k, v). Suc (tree_fuel v)) fs) \<le> g" using 2 by (cases f) auto
  have "p_obj g ([CHR 0x0A] @ join ('','' @ [CHR 0x0A]) (map (pretty_member d) fs) @ CHR 0x0A # replicate d (CHR '' '') @ CHR ''}'' # t) = Some (fs, t)"
  proof (rule p_obj_members)
    show "p_val f' (pretty d' v @ t') = Some (v, t')" if "(k, v) \<in> set fs" "tree_fuel v \<le> f'" for k v f' d' t'
      using 2 that by (auto simp: list_all_iff)
  qed (use 2 f in auto)
  moreover have "\<exists>w. skip_ws (CHR 0x0A # join ('','' @ [CHR 0x0A]) (map (pretty_member d) fs) @ u) = CHR 0x22 # w" for u
  proof (cases fs)
    case (Cons x ys)
    have "\<exists>w. join ('','' @ [CHR 0x0A]) (map (pretty_member d) fs) @ u = replicate (d + 2) (CHR '' '') @ CHR 0x22 # w"
      by (cases ys) (simp_all add: Cons pretty_member_def quote_str_def)
    then obtain w where w: "join ('','' @ [CHR 0x0A]) (map (pretty_member d) fs) @ u = replicate (d + 2) (CHR '' '') @ CHR 0x22 # w" ..
    show ?thesis unfolding w skip_indent by simp
  qed (use 2 in simp)
  then obtain w where "skip_ws (CHR 0x0A # join ('','' @ [CHR 0x0A]) (map (pretty_member d) fs) @ CHR 0x0A # replicate d (CHR '' '') @ CHR ''}'' # t)
      = CHR 0x22 # w" by blast
  ultimately show ?case using 2 make_obj_id [of fs] by (simp add: f(1) pretty_object del: pretty.simps)
qed simp_all

lemma manifest_reads_back:
  "JSON_parse (pretty 0 (updater_manifest version notes pubDate target url signature) @ [CHR 0x0A])
   = Some (updater_manifest version notes pubDate target url signature)"
proof -
  let ?m = "updater_manifest version notes pubDate target url signature"
  have tree: "string_tree ?m" by (simp add: updater_manifest_def)
  have "tree_fuel ?m = 15" by (simp add: updater_manifest_def)
  moreover have "15 \<le> length (pretty 0 ?m)" by (simp add: updater_manifest_def quote_str_def)
  ultimately have "p_val (Suc (length (pretty 0 ?m @ [CHR 0x0A]))) (pretty 0 ?m @ [CHR 0x0A]) = Some (?m, [CHR 0x0A])"
    by (intro p_val_pretty [OF tree]) simp
  moreover have "skip_ws [CHR 0x0A] = []" by (simp add: skip_ws_def)
  ultimately show ?thesis by (simp add: JSON_parse_def)
qed

text \<open>Whatever the arguments are, if the script writes a file, then what the updater reads from it is the version, the address and the
  signature that the arguments and the signature file give, character for character, for the target the script was called for.\<close>

theorem published_manifest_reads_back:
  assumes "generate_updater_manifest read resolve now argv = Inr (path, text)"
  shows "\<exists>version url sigfile content out notes pubDate target. map_get (parseArgs argv) ''version'' = Some version
    \<and> map_get (parseArgs argv) ''url'' = Some url \<and> map_get (parseArgs argv) ''signature-file'' = Some sigfile
    \<and> map_get (parseArgs argv) ''output'' = Some out \<and> path = resolve out \<and> read sigfile = Inr content \<and> js_trim content \<noteq> []
    \<and> target = arg_or (map_get (parseArgs argv) ''target'') ''windows-x86_64''
    \<and> JSON_parse text = Some (updater_manifest version notes pubDate target url (js_trim content))"
proof -
  have required: "required_arg v flag = Inr y \<longleftrightarrow> v = Some y \<and> y \<noteq> []" for v flag y
    by (cases v) (auto simp: required_arg_def present_def)
  from assms show ?thesis
    by (auto simp: generate_updater_manifest_def Let_def required manifest_reads_back split: sum.splits if_split_asm) blast
qed

lemma published_manifest_reads_back_witness:
  "\<exists>text. generate_updater_manifest (\<lambda>_. Inr ''sig'') id ''now''
      [''--version'', ''1.2.0'', ''--url'', ''u'', ''--signature-file'', ''f'', ''--output'', ''o''] = Inr (''o'', text)
    \<and> (\<exists>notes pubDate target. JSON_parse text = Some (updater_manifest ''1.2.0'' notes pubDate target ''u'' ''sig''))"
proof -
  let ?argv = "[''--version'', ''1.2.0'', ''--url'', ''u'', ''--signature-file'', ''f'', ''--output'', ''o'']"
  let ?text = "pretty 0 (updater_manifest ''1.2.0'' ''Release 1.2.0'' ''now'' ''windows-x86_64'' ''u'' ''sig'') @ [CHR 0x0A]"
  have written: "generate_updater_manifest (\<lambda>_. Inr ''sig'') id ''now'' ?argv = Inr (''o'', ?text)" by code_simp
  have args: "map_get (parseArgs ?argv) ''version'' = Some ''1.2.0''" "map_get (parseArgs ?argv) ''url'' = Some ''u''" "js_trim ''sig'' = ''sig''"
    by code_simp+
  from published_manifest_reads_back [OF written] show ?thesis unfolding written by (auto simp: args)
qed

end
