(* ===== verification/Typed_Store.thy ===== *)
theory Typed_Store
  imports Messaging_Runtime
begin

text \<open>
  \<open>Messaging_Runtime\<close> keeps conversations, messages and queued requests in its tables as the records of \<open>Protocol\<close>; the client
  hands them to \<open>localEncryptedStore\<close> (\<open>Local_Store\<close>), which writes their JSON, encrypted. This theory puts the two together: the JSON
  of each record as its interface in \<open>packages/protocol\<close> lists the members, and the proof that the tables of the runtime
  are what the encrypted store makes of them.
\<close>

subsection \<open>The JSON of the records\<close>

definition or_null_json :: "('a \<Rightarrow> json) \<Rightarrow> 'a option \<Rightarrow> json" where
  "or_null_json f v = (case v of None \<Rightarrow> JNull | Some x \<Rightarrow> f x)"

fun device_status_text :: "device_status \<Rightarrow> string" where
  "device_status_text DevPending = ''pending''" | "device_status_text DevTrusted = ''trusted''"
| "device_status_text DevRevoked = ''revoked''" | "device_status_text DevBlocked = ''blocked''"

fun verification_text :: "verification_state \<Rightarrow> string" where
  "verification_text VerUnverified = ''unverified''" | "verification_text VerVerified = ''verified''"
| "verification_text VerChanged = ''changed''" | "verification_text VerRevoked = ''revoked''"

fun delivery_text :: "delivery_state \<Rightarrow> string" where
  "delivery_text DPending = ''pending''" | "delivery_text DQueued = ''queued''" | "delivery_text DSent = ''sent''"
| "delivery_text DDelivered = ''delivered''" | "delivery_text DFailed = ''failed''" | "delivery_text DExpired = ''expired''"

fun conversation_type_text :: "conversation_type \<Rightarrow> string" where
  "conversation_type_text CDirect = ''direct''" | "conversation_type_text CGroup = ''group''"

fun role_text :: "conversation_role \<Rightarrow> string" where
  "role_text ROwner = ''owner''" | "role_text RAdmin = ''admin''" | "role_text RMember = ''member''"

fun receipt_text :: "receipt_type \<Rightarrow> string" where
  "receipt_text RcDelivered = ''delivered''" | "receipt_text RcRead = ''read''"

fun kind_text :: "attachment_kind \<Rightarrow> string" where
  "kind_text AkImage = ''image''" | "kind_text AkFile = ''file''"

definition fingerprint_json :: "fingerprint_info \<Rightarrow> json" where
  "fingerprint_json f = JObj [(''algorithm'', JStr (fp_algorithm f)), (''value'', JStr (fp_value f)), (''safetyNumber'', JStr (fp_safetyNumber f))]"

definition key_info_json :: "key_info \<Rightarrow> json" where
  "key_info_json k = JObj [(''version'', JNum (ki_version k)), (''rotatedAt'', or_null_json JStr (ki_rotatedAt k)),
     (''rotationDueAt'', or_null_json JStr (ki_rotationDueAt k)), (''rotationRecommended'', JBool (ki_rotationRecommended k))]"

definition device_json :: "device_dto \<Rightarrow> json" where
  "device_json d = JObj [(''id'', JStr (dev_id d)), (''accountId'', JStr (dev_accountId d)), (''name'', JStr (dev_name d)),
     (''platform'', JStr (dev_platform d)), (''publicDeviceMaterial'', JStr (dev_publicDeviceMaterial d)),
     (''fingerprint'', fingerprint_json (dev_fingerprint d)), (''status'', JStr (device_status_text (dev_status d))),
     (''verificationState'', JStr (verification_text (dev_verificationState d))), (''keyInfo'', key_info_json (dev_keyInfo d)),
     (''createdAt'', JStr (dev_createdAt d)), (''lastSeenAt'', or_null_json JStr (dev_lastSeenAt d)),
     (''revokedAt'', or_null_json JStr (dev_revokedAt d))]"

definition policy_json :: "disappearing_policy_dto \<Rightarrow> json" where
  "policy_json p = JObj [(''defaultTtlSeconds'', JNum (dp_defaultTtlSeconds p)), (''allowPerMessageOverride'', JBool (dp_allowPerMessageOverride p))]"

definition member_json :: "conversation_member_dto \<Rightarrow> json" where
  "member_json m = JObj [(''accountId'', JStr (mem_accountId m)), (''role'', JStr (role_text (mem_role m))), (''joinedAt'', JStr (mem_joinedAt m)),
     (''isActive'', JBool (mem_isActive m)), (''trustedDevices'', JArr (map device_json (mem_trustedDevices m)))]"

definition conversation_json :: "conversation_dto \<Rightarrow> json" where
  "conversation_json c = JObj [(''id'', JStr (cv_id c)), (''type'', JStr (conversation_type_text (cv_type c))),
     (''title'', or_null_json JStr (cv_title c)), (''createdByAccountId'', JStr (cv_createdByAccountId c)),
     (''createdAt'', JStr (cv_createdAt c)), (''updatedAt'', JStr (cv_updatedAt c)),
     (''disappearingPolicy'', policy_json (cv_disappearingPolicy c)), (''members'', JArr (map member_json (cv_members c))),
     (''lastServerSequence'', JNum (cv_lastServerSequence c))]"

definition recipient_json :: "encrypted_recipient_key_dto \<Rightarrow> json" where
  "recipient_json r = JObj [(''recipientDeviceId'', JStr (rk_recipientDeviceId r)), (''wrappedKey'', JStr (rk_wrappedKey r)),
     (''keyAlgorithm'', JStr (rk_keyAlgorithm r))]"

definition attachment_json :: "attachment_meta_dto \<Rightarrow> json" where
  "attachment_json a = JObj [(''id'', JStr (att_id a)), (''kind'', JStr (kind_text (att_kind a))), (''fileName'', JStr (att_fileName a)),
     (''mimeType'', JStr (att_mimeType a)), (''sizeBytes'', JNum (att_sizeBytes a)), (''checksumSha256'', JStr (att_checksumSha256 a)),
     (''encryption'', JObj [(''algorithm'', JStr (enc_algorithm (att_encryption a))), (''nonce'', JStr (enc_nonce (att_encryption a)))]),
     (''createdAt'', JStr (att_createdAt a))]"

definition envelope_json :: "encrypted_message_envelope_dto \<Rightarrow> json" where
  "envelope_json e = JObj [(''id'', JStr (env_id e)), (''conversationId'', JStr (env_conversationId e)),
     (''senderAccountId'', JStr (env_senderAccountId e)), (''senderDeviceId'', JStr (env_senderDeviceId e)),
     (''clientMessageId'', JStr (env_clientMessageId e)), (''algorithm'', JStr (env_algorithm e)), (''cryptoVersion'', JNum (env_cryptoVersion e)),
     (''nonce'', JStr (env_nonce e)), (''ciphertext'', JStr (env_ciphertext e)), (''recipients'', JArr (map recipient_json (env_recipients e))),
     (''attachments'', JArr (map attachment_json (env_attachments e))), (''replyToMessageId'', or_null_json JStr (env_replyToMessageId e)),
     (''ttlSeconds'', or_null_json JNum (env_ttlSeconds e)), (''createdAt'', JStr (env_createdAt e)),
     (''expiresAt'', or_null_json JStr (env_expiresAt e)), (''serverSequence'', JNum (env_serverSequence e))]"

definition receipt_json :: "message_receipt_dto \<Rightarrow> json" where
  "receipt_json r = JObj [(''id'', JStr (rc_id r)), (''messageId'', JStr (rc_messageId r)), (''deviceId'', JStr (rc_deviceId r)),
     (''receiptType'', JStr (receipt_text (rc_receiptType r))), (''createdAt'', JStr (rc_createdAt r))]"

definition message_json :: "message_dto \<Rightarrow> json" where
  "message_json m = JObj [(''envelope'', envelope_json (msg_envelope m)), (''deliveryState'', JStr (delivery_text (msg_deliveryState m))),
     (''deliveredAt'', or_null_json JStr (msg_deliveredAt m)), (''failedReason'', or_null_json JStr (msg_failedReason m)),
     (''receipts'', JArr (map receipt_json (msg_receipts m)))]"

text \<open>A request of the outbox; what is \<open>undefined\<close> is left out. The time to live is a whole number here.\<close>

definition whole_ttl :: "send_message_request \<Rightarrow> bool" where
  "whole_ttl m \<longleftrightarrow> pred_option (\<lambda>t. \<exists>n. t = Fin (of_int n)) (sm_ttlSeconds m)"

definition ttl_json :: "jsnumber \<Rightarrow> json" where
  "ttl_json t = (case t of Fin q \<Rightarrow> JNum \<lfloor>q\<rfloor> | _ \<Rightarrow> JNull)"

definition present_member :: "string \<Rightarrow> ('a \<Rightarrow> json) \<Rightarrow> 'a option \<Rightarrow> (string \<times> json) list" where
  "present_member k f v = (case v of None \<Rightarrow> [] | Some x \<Rightarrow> [(k, f x)])"

definition request_json :: "send_message_request \<Rightarrow> json" where
  "request_json m = JObj ([(''clientMessageId'', JStr (sm_clientMessageId m)), (''algorithm'', JStr (sm_algorithm m)),
       (''cryptoVersion'', JNum (sm_cryptoVersion m)), (''nonce'', JStr (sm_nonce m)), (''ciphertext'', JStr (sm_ciphertext m)),
       (''recipients'', JArr (map recipient_json (sm_recipients m))), (''attachmentIds'', JArr (map JStr (sm_attachmentIds m)))]
     @ present_member ''replyToMessageId'' JStr (sm_replyToMessageId m) @ present_member ''ttlSeconds'' ttl_json (sm_ttlSeconds m))"

lemmas record_json_defs = fingerprint_json_def key_info_json_def device_json_def policy_json_def member_json_def conversation_json_def
  recipient_json_def attachment_json_def envelope_json_def receipt_json_def message_json_def

subsection \<open>Nothing is lost in the JSON\<close>

lemma or_null_json_eq [simp]:
  "or_null_json JStr v = or_null_json JStr w \<longleftrightarrow> v = w" "or_null_json JNum a = or_null_json JNum b \<longleftrightarrow> a = b"
  by ((cases v; cases w; simp add: or_null_json_def), (cases a; cases b; simp add: or_null_json_def))

lemma text_eq [simp]:
  "device_status_text a = device_status_text b \<longleftrightarrow> a = b" "verification_text c = verification_text d \<longleftrightarrow> c = d"
  "delivery_text e = delivery_text f \<longleftrightarrow> e = f" "conversation_type_text g = conversation_type_text h \<longleftrightarrow> g = h"
  "role_text i = role_text j \<longleftrightarrow> i = j" "receipt_text k = receipt_text l \<longleftrightarrow> k = l" "kind_text m = kind_text n \<longleftrightarrow> m = n"
  by ((cases a; cases b; simp), (cases c; cases d; simp), (cases e; cases f; simp), (cases g; cases h; simp), (cases i; cases j; simp),
    (cases k; cases l; simp), (cases m; cases n; simp))

lemma map_JSON_eq: "(\<And>x y. f x = f y \<longleftrightarrow> x = y) \<Longrightarrow> map f xs = map f ys \<longleftrightarrow> xs = ys"
  by (simp add: inj_map_eq_map inj_def)

lemma JStr_map_eq [simp]: "map JStr xs = map JStr ys \<longleftrightarrow> xs = ys"
  by (rule map_JSON_eq) simp

lemma fingerprint_json_eq [simp]: "fingerprint_json a = fingerprint_json b \<longleftrightarrow> a = b"
  by (cases a; cases b) (simp add: fingerprint_json_def)

lemma key_info_json_eq [simp]: "key_info_json a = key_info_json b \<longleftrightarrow> a = b"
  by (cases a; cases b) (simp add: key_info_json_def)

lemma device_json_eq [simp]: "device_json a = device_json b \<longleftrightarrow> a = b"
  by (cases a; cases b) (simp add: device_json_def conj_ac)

lemma policy_json_eq [simp]: "policy_json a = policy_json b \<longleftrightarrow> a = b"
  by (cases a; cases b) (simp add: policy_json_def)

lemma member_json_eq [simp]: "member_json a = member_json b \<longleftrightarrow> a = b"
  by (cases a; cases b) (simp add: member_json_def map_JSON_eq)

lemma conversation_json_eq [simp]: "conversation_json a = conversation_json b \<longleftrightarrow> a = b"
  by (cases a; cases b) (simp add: conversation_json_def map_JSON_eq)

lemma recipient_json_eq [simp]: "recipient_json a = recipient_json b \<longleftrightarrow> a = b"
  by (cases a; cases b) (simp add: recipient_json_def)

lemma attachment_json_eq [simp]: "attachment_json a = attachment_json b \<longleftrightarrow> a = b"
  by (cases a; cases b; cases "att_encryption a"; cases "att_encryption b") (simp add: attachment_json_def)

lemma envelope_json_eq [simp]: "envelope_json a = envelope_json b \<longleftrightarrow> a = b"
  by (cases a; cases b) (simp add: envelope_json_def map_JSON_eq)

lemma receipt_json_eq [simp]: "receipt_json a = receipt_json b \<longleftrightarrow> a = b"
  by (cases a; cases b) (simp add: receipt_json_def)

lemma message_json_eq [simp]: "message_json a = message_json b \<longleftrightarrow> a = b"
  by (cases a; cases b) (simp add: message_json_def map_JSON_eq)

lemma request_json_inj:
  assumes "request_json a = request_json b" "whole_ttl a" "whole_ttl b"
  shows "a = b"
  using assms
  by (cases a; cases b)
    (auto simp: request_json_def map_JSON_eq present_member_def ttl_json_def whole_ttl_def split: option.splits)

subsection \<open>Every payload can be stored\<close>

lemma all_some_None: "all_some xs = None \<longleftrightarrow> None \<in> set xs"
  by (induction xs rule: all_some.induct) auto

lemma none_image: "None \<notin> f ` S \<longleftrightarrow> (\<forall>x \<in> S. f x \<noteq> None)"
  by (metis imageE image_eqI)

lemma storable_simps [simp]:
  "storable JNull" "storable (JBool b)" "storable (JNum n)" "storable (JStr s)"
  "storable (JArr xs) \<longleftrightarrow> list_all storable xs"
  "storable (JObj fs) \<longleftrightarrow> distinct (map fst fs) \<and> list_all (\<lambda>p. storable (snd p)) fs"
  by (auto simp: storable_def list_all_iff all_some_None none_image)

lemma storable_or_null [simp]: "(\<And>x. storable (f x)) \<Longrightarrow> storable (or_null_json f v)"
  by (simp add: or_null_json_def split: option.split)

lemma storable_records [simp]:
  "storable (device_json d)" "storable (conversation_json c)" "storable (message_json m)" "storable (request_json q)"
proof -
  have d: "storable (device_json d)" for d by (simp add: device_json_def fingerprint_json_def key_info_json_def)
  have m: "storable (member_json m)" for m by (simp add: member_json_def list_all_iff d)
  have r: "storable (recipient_json r)" for r by (simp add: recipient_json_def)
  have a: "storable (attachment_json a)" for a by (simp add: attachment_json_def)
  have e: "storable (envelope_json e)" for e by (simp add: envelope_json_def list_all_iff r a)
  show "storable (device_json d)" by (rule d)
  show "storable (conversation_json c)" by (simp add: conversation_json_def policy_json_def list_all_iff m)
  show "storable (message_json m)" by (simp add: message_json_def list_all_iff e receipt_json_def)
  show "storable (request_json q)"
    by (simp add: request_json_def present_member_def ttl_json_def list_all_iff r split: option.split jsnumber.split)
qed

subsection \<open>The calls of the runtime\<close>

datatype typed_op =
    PutConversation conversation_dto
  | PutMessage message_dto
  | PutOutbox string string send_message_request string
  | DropOutbox string
  | CountRetry string
  | PutCursor int
  | GetConversations
  | GetMessages string int
  | GetOutbox
  | GetCursor
  | ClientRestart

datatype typed_result = TDone | TConversations "conversation_dto list" | TMessages "message_dto list" | TOutbox "outbox_item list" | TCursor int

type_synonym typed_db = "(conversation_dto, message_dto, send_message_request) message_db"

fun typed_step :: "typed_op \<Rightarrow> typed_db \<Rightarrow> typed_result \<times> typed_db" where
  "typed_step (PutConversation c) A = (TDone, messaging_store_upsert_conversation (cv_id c) c (cv_updatedAt c) A)"
| "typed_step (PutMessage m) A = (TDone, messaging_store_upsert_message (env_id (msg_envelope m)) (env_conversationId (msg_envelope m))
     (Some (env_serverSequence (msg_envelope m))) m (env_createdAt (msg_envelope m)) A)"
| "typed_step (PutOutbox i v p t) A = (TDone, messaging_store_enqueue_outbox i v p t A)"
| "typed_step (DropOutbox i) A = (TDone, messaging_store_delete_outbox i A)"
| "typed_step (CountRetry i) A = (TDone, messaging_store_increment_outbox_retry i A)"
| "typed_step (PutCursor n) A = (TDone, messaging_store_write_sync_cursor n A)"
| "typed_step GetConversations A = (TConversations (messaging_store_list_conversations A), A)"
| "typed_step (GetMessages v n) A = (TMessages (messaging_store_list_messages v n A), A)"
| "typed_step GetOutbox A = (TOutbox (map item_of_row (messaging_store_list_outbox A)), A)"
| "typed_step GetCursor A = (TCursor (messaging_store_read_sync_cursor A), A)"
| "typed_step ClientRestart A = (TDone, A)"

fun typed_run :: "typed_op list \<Rightarrow> typed_db \<Rightarrow> typed_result list" where
  "typed_run [] A = []"
| "typed_run (x # xs) A = (case typed_step x A of (r, A') \<Rightarrow> r # typed_run xs A')"

text \<open>These steps are what the methods of the runtime do to \<open>w_db\<close>.\<close>

lemma runtime_writes:
  "db_saveConversation env c = db_write env (\<lambda>A. snd (typed_step (PutConversation c) A))"
  "db_saveMessage env m = db_write env (\<lambda>A. snd (typed_step (PutMessage m) A))"
  "db_enqueueOutbox env i v p t = db_write env (\<lambda>A. snd (typed_step (PutOutbox i v p t) A))"
  "db_deleteOutbox env i = db_write env (\<lambda>A. snd (typed_step (DropOutbox i) A))"
  "db_incrementOutboxRetry env i = db_write env (\<lambda>A. snd (typed_step (CountRetry i) A))"
  "db_listOutbox env = bnd (db_read env (\<lambda>A. fst (typed_step GetOutbox A))) (\<lambda>r. case r of TOutbox items \<Rightarrow> ret items)"
  by (simp_all add: db_saveConversation_def db_saveMessage_def db_enqueueOutbox_def db_deleteOutbox_def db_incrementOutboxRetry_def
    db_listOutbox_def db_read_def native_def awaited_def bnd_def ret_def fun_eq_iff Let_def split: option.split)

fun json_op :: "typed_op \<Rightarrow> store_op" where
  "json_op (PutConversation c) = SaveConversation (conversation_json c)"
| "json_op (PutMessage m) = SaveMessage (message_json m)"
| "json_op (PutOutbox i v p t) = EnqueueOutbox i v (request_json p) t"
| "json_op (DropOutbox i) = DeleteOutbox i"
| "json_op (CountRetry i) = IncrementOutboxRetry i"
| "json_op (PutCursor n) = WriteSyncCursor n"
| "json_op GetConversations = ListConversations"
| "json_op (GetMessages v n) = ListMessages v n"
| "json_op GetOutbox = ListOutbox"
| "json_op GetCursor = ReadSyncCursor"
| "json_op ClientRestart = Restart"

definition item_entry :: "outbox_item \<Rightarrow> outbox_entry" where
  "item_entry i = \<lparr>oe_clientMessageId = ob_clientMessageId i, oe_conversationId = ob_conversationId i, oe_payload = request_json (ob_payload i),
     oe_createdAt = ob_createdAt i, oe_retryCount = ob_retryCount i\<rparr>"

fun json_result :: "typed_result \<Rightarrow> store_result" where
  "json_result TDone = RDone"
| "json_result (TConversations cs) = RValues (map conversation_json cs)"
| "json_result (TMessages ms) = RValues (map message_json ms)"
| "json_result (TOutbox items) = ROutbox (map item_entry items)"
| "json_result (TCursor n) = RCursor n"

subsection \<open>The encrypted store implements the tables of the runtime\<close>

definition json_of_db :: "typed_db \<Rightarrow> (json, json, json) message_db \<Rightarrow> bool" where
  "json_of_db = rel_tables (\<lambda>c j. j = conversation_json c) (\<lambda>m j. j = message_json m) (\<lambda>p j. j = request_json p)"

lemma list_all2_map_eq: "list_all2 (\<lambda>x y. y = f x) xs ys \<longleftrightarrow> ys = map f xs"
  by (auto simp: list_all2_conv_all_nth list_eq_iff_nth_eq)

lemma json_members [simp]:
  "json_get (conversation_json c) ''id'' = Some (JStr (cv_id c))" "json_get (conversation_json c) ''updatedAt'' = Some (JStr (cv_updatedAt c))"
  "envelope_field (message_json m) ''id'' = Some (JStr (env_id (msg_envelope m)))"
  "envelope_field (message_json m) ''conversationId'' = Some (JStr (env_conversationId (msg_envelope m)))"
  "envelope_field (message_json m) ''serverSequence'' = Some (JNum (env_serverSequence (msg_envelope m)))"
  "envelope_field (message_json m) ''createdAt'' = Some (JStr (env_createdAt (msg_envelope m)))"
  by (simp_all add: conversation_json_def message_json_def envelope_json_def envelope_field_def)

lemma op_ok_json: "op_ok (json_op x)"
  by (cases x) (simp_all add: sequence_of_def)

lemma typed_step_json:
  assumes "json_of_db A B"
  shows "fst (clear_step (json_op x) B) = json_result (fst (typed_step x A)) \<and> json_of_db (snd (typed_step x A)) (snd (clear_step (json_op x) B))"
proof -
  note rel = assms [unfolded json_of_db_def]
  note steps = rel_tables_steps [OF rel] and queries = rel_tables_queries [OF rel]
  have outbox: "map entry_of (messaging_store_list_outbox B) = map (item_entry \<circ> item_of_row) (messaging_store_list_outbox A)"
    using queries(3)
    by (induction rule: list_all2_induct) (simp_all add: rel_or_def entry_of_def item_entry_def item_of_row_def)
  show ?thesis
    using assms queries(1,2,4) outbox
    by (cases x) (simp_all add: json_of_db_def steps text_of_def sequence_of_def list_all2_map_eq)
qed

lemma typed_run_json: "json_of_db A B \<Longrightarrow> clear_run (map json_op xs) B = map json_result (typed_run xs A)"
proof (induction xs arbitrary: A B)
  case (Cons x xs)
  then show ?case using typed_step_json [OF Cons.prems, of x] by (simp add: split_def)
qed simp

text \<open>C17. The tables the runtime works on are what the encrypted database, its keyring and its cipher make of them: whatever sequence of saves,
  lists, outbox and cursor operations the runtime makes on records, with restarts of the client between them, the encrypted
  store, started empty, answers each with the JSON of what the tables of records answer; and the JSON determines the record.\<close>

theorem encrypted_store_implements_the_tables:
  fixes s :: "'e store_device_scheme"
  assumes "sodium_ok L" "healthy fault s" "sd_db s = empty_db" "cachedStoreKey s = None" "dv_keyring s STORE_KEY_ID = None"
  shows "fst (store_run L fault (map json_op xs) s) = map (Inr \<circ> json_result) (typed_run xs empty_db)
    \<and> inj conversation_json \<and> inj message_json \<and> inj_on request_json {m. whole_ttl m}"
proof -
  have "store_inv L fault s empty_db" using assms(2-5) by (simp add: store_inv_def rel_tables_empty)
  then have "fst (store_run L fault (map json_op xs) s) = map Inr (clear_run (map json_op xs) empty_db)"
    by (rule store_run_ok [OF assms(1)]) (auto simp: op_ok_json)
  moreover have "json_of_db empty_db empty_db" by (simp add: json_of_db_def rel_tables_empty)
  ultimately have "fst (store_run L fault (map json_op xs) s) = map (Inr \<circ> json_result) (typed_run xs empty_db)"
    using typed_run_json by simp
  moreover have "inj conversation_json" "inj message_json" "inj_on request_json {m. whole_ttl m}"
    by (auto simp: inj_def inj_on_def intro: request_json_inj)
  ultimately show ?thesis by blast
qed

definition stored_conversation :: conversation_dto where
  "stored_conversation = \<lparr>cv_id = ''c'', cv_type = CDirect, cv_title = None, cv_createdByAccountId = ''a'', cv_createdAt = ''t'', cv_updatedAt = ''t'',
     cv_disappearingPolicy = \<lparr>dp_defaultTtlSeconds = 0, dp_allowPerMessageOverride = True\<rparr>, cv_members = [], cv_lastServerSequence = 0\<rparr>"

lemma encrypted_store_implements_the_tables_witness:
  "fst (store_run toy_sodium (\<lambda>_. None) (map json_op [PutConversation stored_conversation, ClientRestart, GetConversations]) ex_store_device)
   = [Inr RDone, Inr RDone, Inr (RValues [conversation_json stored_conversation])]"
proof -
  have "typed_run [PutConversation stored_conversation, ClientRestart, GetConversations] empty_db = [TDone, TDone, TConversations [stored_conversation]]"
    by (simp add: messaging_store_upsert_conversation_def messaging_store_list_conversations_def sql_upsert_def empty_db_def js_sort_def)
  moreover have "healthy (\<lambda>_. None) ex_store_device" "sd_db ex_store_device = empty_db" "cachedStoreKey ex_store_device = None"
      "dv_keyring ex_store_device STORE_KEY_ID = None"
    by (auto simp: ex_store_device_def healthy_def)
  ultimately show ?thesis
    using encrypted_store_implements_the_tables [OF toy_sodium_ok, of "\<lambda>_. None" ex_store_device
      "[PutConversation stored_conversation, ClientRestart, GetConversations]"] by simp
qed

end
