(* ===== verification/Locale_Texts.thy ===== *)
theory Locale_Texts
  imports Client_Services
begin

text \<open>
  The texts of \<open>C/i18n/locales/en.ts\<close> and \<open>ru.ts\<close>, section by section, and the two resources \<open>C/services/i18n.ts\<close> gives to i18next.
  A Russian text is written in Latin letters, one for each Cyrillic letter, by the table \<open>cyrillic_letters\<close>; \<open>|\<close> begins and ends
  what is Latin in the source. The lemmas show that the merge with the English locale leaves the Russian one as it is.
\<close>

subsection \<open>Writing the texts\<close>

definition en_text :: "string \<Rightarrow> locale_node" where
  "en_text s = LocText (map of_char s)"

definition cyrillic_letters :: "(char \<times> 16 word) list" where
  "cyrillic_letters = [(CHR ''a'', 0x430), (CHR ''b'', 0x431), (CHR ''v'', 0x432), (CHR ''g'', 0x433), (CHR ''d'', 0x434), (CHR ''e'', 0x435),
     (CHR ''z'', 0x437), (CHR ''i'', 0x438), (CHR ''j'', 0x439), (CHR ''k'', 0x43A), (CHR ''l'', 0x43B), (CHR ''m'', 0x43C),
     (CHR ''n'', 0x43D), (CHR ''o'', 0x43E), (CHR ''p'', 0x43F), (CHR ''r'', 0x440), (CHR ''s'', 0x441), (CHR ''t'', 0x442),
     (CHR ''u'', 0x443), (CHR ''f'', 0x444), (CHR ''h'', 0x445), (CHR ''c'', 0x446), (CHR ''q'', 0x447), (CHR ''w'', 0x448),
     (CHR ''x'', 0x449), (CHR ''y'', 0x44B), (CHR ''`'', 0x44C), (CHR ''@'', 0x44D), (CHR ''&'', 0x44E), (CHR ''_'', 0x44F),
     (CHR ''$'', 0x451), (CHR ''^'', 0x436), (CHR ''A'', 0x410), (CHR ''B'', 0x411), (CHR ''V'', 0x412), (CHR ''G'', 0x413),
     (CHR ''D'', 0x414), (CHR ''E'', 0x415), (CHR ''Z'', 0x417), (CHR ''I'', 0x418), (CHR ''J'', 0x419), (CHR ''K'', 0x41A),
     (CHR ''L'', 0x41B), (CHR ''M'', 0x41C), (CHR ''N'', 0x41D), (CHR ''O'', 0x41E), (CHR ''P'', 0x41F), (CHR ''R'', 0x420),
     (CHR ''S'', 0x421), (CHR ''T'', 0x422), (CHR ''U'', 0x423), (CHR ''F'', 0x424), (CHR ''H'', 0x425), (CHR ''C'', 0x426),
     (CHR ''Q'', 0x427), (CHR ''W'', 0x428), (CHR ''X'', 0x429), (CHR ''Y'', 0x42B), (CHR ''='', 0x42D), (CHR ''+'', 0x42F),
     (CHR ''%'', 0x416), (CHR ''['', 0xAB), (CHR '']'', 0xBB)]"

definition letter :: "char \<Rightarrow> 16 word" where
  "letter c = (case map_of cyrillic_letters c of Some w \<Rightarrow> w | None \<Rightarrow> of_char c)"

fun cyrillic :: "bool \<Rightarrow> string \<Rightarrow> text16" where
  "cyrillic latin [] = []"
| "cyrillic latin (c # s) = (if c = CHR ''|'' then cyrillic (\<not> latin) s
     else (if latin then of_char c else letter c) # cyrillic latin s)"

definition ru_text :: "string \<Rightarrow> locale_node" where
  "ru_text s = LocText (cyrillic False s)"

subsection \<open>English\<close>

definition en_common :: locale_node where
  "en_common = LocTree [(''appName'', en_text ''Secure Messenger''), (''loadingSession'', en_text ''Loading session...''),
     (''loading'', en_text ''Loading...''), (''refresh'', en_text ''Refresh''), (''retry'', en_text ''Retry''), (''save'', en_text ''Save''),
     (''copied'', en_text ''Copied''), (''cancel'', en_text ''Cancel''), (''back'', en_text ''Back''), (''yes'', en_text ''Yes''),
     (''no'', en_text ''No''), (''none'', en_text ''None''), (''status'', en_text ''Status''), (''noData'', en_text ''No data.''),
     (''mode'', en_text ''Mode''), (''endpoint'', en_text ''Endpoint''), (''source'', en_text ''Source''),
     (''created'', en_text ''Created''), (''retries'', en_text ''Retries''), (''updated'', en_text ''Updated''),
     (''syncCursor'', en_text ''Sync cursor'')]"

definition en_nav :: locale_node where
  "en_nav = LocTree [(''conversations'', en_text ''Conversations''), (''outbox'', en_text ''Outbox''), (''transport'', en_text ''Transport''),
     (''home'', en_text ''Home''), (''devices'', en_text ''Devices''), (''friends'', en_text ''Friends''),
     (''securityEvents'', en_text ''Security Events''), (''plugins'', en_text ''Plugins''), (''settings'', en_text ''Settings''),
     (''onboarding'', en_text ''Onboarding''), (''login'', en_text ''Login''), (''register'', en_text ''Register''),
     (''logout'', en_text ''Logout''), (''footer'', en_text ''Messaging v1: E2EE envelopes / transport fallback / secure local store'')]"

definition en_onboarding :: locale_node where
  "en_onboarding = LocTree [(''title'', en_text ''Welcome to Secure Messenger''), (''subtitle'', en_text ''Complete these quick checks before daily use.''),
     (''checklistTitle'', en_text ''First-run checklist''), (''stepTrust'', en_text ''Review trusted devices and security events.''),
     (''stepMessaging'', en_text ''Create your first conversation and send a test message.''),
     (''stepFallback'', en_text ''Verify transport fallback status in Transport page.''),
     (''stepPlugins'', en_text ''Review plugin permissions before enabling plugins.''),
     (''serverConnectTitle'', en_text ''Server connection''),
     (''serverConnectHint'', en_text ''Use your server domain or IP on first start. The app fetches /api/v1/config automatically.''),
     (''serverConnectStepInput'', en_text ''Enter chat.example.com or http://<ip>:8080 in Connect Server screen.''),
     (''serverConnectStepResolve'', en_text ''Client resolves API and WebSocket endpoints from /api/v1/config.''),
     (''serverConnectStepFallback'', en_text ''If config endpoint is unavailable, client uses safe fallback URLs.''),
     (''twoFATitle'', en_text ''Two-factor setup''),
     (''twoFAHint'', en_text ''Enable 2FA from Devices for sensitive operations and safer account recovery.''),
     (''twoFAStepStart'', en_text ''Open Devices and click Start 2FA setup.''),
     (''twoFAStepConfirm'', en_text ''Scan provisioning URI in authenticator and confirm with a 6-digit code.''),
     (''twoFAStepRecovery'', en_text ''Store recovery codes offline. They are shown one time in current session.''),
     (''openDevices'', en_text ''Open Devices''), (''openConversations'', en_text ''Open Conversations''),
     (''openTransport'', en_text ''Open Transport''), (''openPlugins'', en_text ''Open Plugins''),
     (''complete'', en_text ''Finish onboarding''), (''alreadyDone'', en_text ''Onboarding completed.'')]"

definition en_settings :: locale_node where
  "en_settings = LocTree [(''title'', en_text ''Settings''), (''subtitle'', en_text ''Security-focused product settings and quick links.''),
     (''language'', en_text ''Language''), (''languageHelp'', en_text ''UI language preference is stored locally (non-sensitive).''),
     (''networkTitle'', en_text ''Network''), (''serverHost'', en_text ''Server''), (''serverSource'', en_text ''Config source''),
     (''serverSourceSaved'', en_text ''Saved server profile''), (''serverSourceEnv'', en_text ''Environment fallback''),
     (''apiBase'', en_text ''API base''), (''apiPrefix'', en_text ''API prefix''), (''wsBase'', en_text ''WebSocket endpoint''),
     (''wsQueryFallback'', en_text ''WS query token fallback''), (''transportOverrides'', en_text ''Transport endpoint overrides''),
     (''changeServer'', en_text ''Change server''),
     (''changeServerHelp'', en_text ''Changing server clears current session and opens server connection setup.''),
     (''linksTitle'', en_text ''Quick links''), (''accountDevices'', en_text ''Account & Devices''),
     (''pluginManager'', en_text ''Plugin Manager''), (''transportHealth'', en_text ''Transport Health''),
     (''securityAudit'', en_text ''Security Events''), (''onboardingReset'', en_text ''Onboarding''),
     (''markIncomplete'', en_text ''Show onboarding again''), (''markComplete'', en_text ''Mark onboarding complete'')]"

definition en_serverConnect :: locale_node where
  "en_serverConnect = LocTree [(''title'', en_text ''Connect to your server''),
     (''subtitle'', en_text ''Enter your server domain. The client will load server config automatically.''),
     (''serverAddress'', en_text ''Server address''), (''placeholder'', en_text ''chat.example.com''), (''connect'', en_text ''Connect''),
     (''connecting'', en_text ''Connecting...''),
     (''connectionFailed'', en_text ''Could not connect to server. Check address or try again later.''),
     (''invalidInput'', en_text ''Enter a valid server address.''), (''invalidConfig'', en_text ''Server returned invalid configuration.'')]"

definition en_auth :: locale_node where
  "en_auth = LocTree [(''signIn'', en_text ''Sign in''),
     (''signInSubtitle'', en_text ''Login from this device. Unknown devices stay pending until approval.''),
     (''createAccount'', en_text ''Create account''),
     (''createAccountSubtitle'', en_text ''Register account identity and first trusted device.''),
     (''twoFactorTitle'', en_text ''Two-factor verification''),
     (''twoFactorSubtitle'', en_text ''Enter TOTP code to finish login on trusted device.''), (''email'', en_text ''Email''),
     (''password'', en_text ''Password''), (''deviceName'', en_text ''Device Name''), (''code'', en_text ''Code''),
     (''loginAction'', en_text ''Login''), (''loginLoading'', en_text ''Signing in...''), (''registerAction'', en_text ''Register''),
     (''registerLoading'', en_text ''Registering...''), (''verifyAction'', en_text ''Verify''),
     (''verifyLoading'', en_text ''Verifying...''), (''pendingTitle'', en_text ''Pending device approval''),
     (''pendingSubtitle'', en_text ''This device is pending approval from a trusted device or recovery flow.''),
     (''approval'', en_text ''Approval''), (''approvalCheck'', en_text ''Check approval status''), (''recovery'', en_text ''Recovery''),
     (''startRecovery'', en_text ''Start recovery flow''), (''completeRecovery'', en_text ''Complete recovery''),
     (''recoveryCode'', en_text ''Recovery Code''), (''twoFactorCode'', en_text ''2FA Code (if enabled)''),
     (''backToLogin'', en_text ''Back to login''), (''pendingStatusApproved'', en_text ''Device approved. Please sign in again.''),
     (''pendingStatusRejected'', en_text ''Device request rejected.''),
     (''pendingStatusExpired'', en_text ''Approval request expired. Sign in again to create a new request.''),
     (''pendingStatusWaiting'', en_text ''Approval still pending.''),
     (''recoveryStarted'', en_text ''Recovery flow started. Complete it with a valid recovery code.''),
     (''recoveryNeedsStart'', en_text ''Start recovery flow first.''),
     (''recoveryCompleted'', en_text ''Recovery complete. Device trusted now. Sign in again.'')]"

definition en_home :: locale_node where
  "en_home = LocTree [(''title'', en_text ''Secure Messaging Control Plane''),
     (''subtitle'', en_text ''Identity/device trust foundation with encrypted messaging runtime v1.''),
     (''environment'', en_text ''Environment''), (''appBootstrap'', en_text ''App Bootstrap''),
     (''sessionMessaging'', en_text ''Session / Messaging''), (''ready'', en_text ''ready''), (''bootstrapping'', en_text ''bootstrapping''),
     (''notAuthenticated'', en_text ''Not authenticated.''), (''account'', en_text ''Account''), (''email'', en_text ''Email''),
     (''twoFA'', en_text ''2FA''), (''enabled'', en_text ''enabled''), (''disabled'', en_text ''disabled''),
     (''conversations'', en_text ''Conversations''), (''transport'', en_text ''Transport''), (''trustWarnings'', en_text ''Trust warnings'')]"

definition en_devices :: locale_node where
  "en_devices = LocTree [(''title'', en_text ''Devices and Trust''), (''subtitle'', en_text ''Manage trusted devices, pending approvals, and 2FA state.''),
     (''rotateKey'', en_text ''Rotate Current Device Key''), (''rotateKeyLoading'', en_text ''Rotating key...''),
     (''logoutEverywhere'', en_text ''Logout Everywhere''), (''logoutEverywhereLoading'', en_text ''Revoking sessions...''),
     (''stepUpCode'', en_text ''Step-up 2FA code''), (''accountIdentity'', en_text ''Account Identity''),
     (''trustedPending'', en_text ''Trusted and Pending Devices''), (''pendingApprovals'', en_text ''Pending Approvals''),
     (''twoFactor'', en_text ''Two-factor auth''), (''recoveryCodes'', en_text ''Recovery Codes''),
     (''noRecoveryCodes'', en_text ''No recovery codes loaded in this session.''),
     (''recoveryCodesSessionNote'', en_text ''Recovery codes are shown only after registration or when re-enabling 2FA.''),
     (''currentDevice'', en_text ''Current device''), (''revoke'', en_text ''Revoke''), (''approve'', en_text ''Approve''),
     (''reject'', en_text ''Reject''), (''startSetup'', en_text ''Start 2FA setup''), (''enable2FA'', en_text ''Enable 2FA''),
     (''disable2FA'', en_text ''Disable 2FA''), (''enabledLabel'', en_text ''Enabled''), (''accountIdLabel'', en_text ''Account ID''),
     (''copyAccountId'', en_text ''Copy Account ID''), (''fingerprint'', en_text ''Fingerprint''), (''safetyNumber'', en_text ''Safety''),
     (''keyVersion'', en_text ''Key version''), (''rotationDue'', en_text ''Rotation due''),
     (''keyRotationRecommended'', en_text ''Key rotation is recommended.''), (''requestId'', en_text ''Request''),
     (''deviceLabel'', en_text ''Device''), (''optionalTwoFAPlaceholder'', en_text ''optional if 2FA is enabled''),
     (''secret'', en_text ''Secret''), (''provisioningUri'', en_text ''Provisioning URI''),
     (''recoveryHint'', en_text ''Store these codes offline. They are used for device recovery flow.'')]"

definition en_messaging :: locale_node where
  "en_messaging = LocTree [(''conversationsTitle'', en_text ''Conversations''),
     (''conversationsSubtitle'', en_text ''Stable runtime with lifecycle, durable outbox, and WS to long-poll fallback.''),
     (''newChat'', en_text ''New chat''), (''newDirect'', en_text ''Direct''), (''newGroup'', en_text ''Group''),
     (''searchChats'', en_text ''Search chats''), (''searchPlaceholder'', en_text ''Name or message text''),
     (''startConversationTitle'', en_text ''Select a conversation''),
     (''startConversationSubtitle'', en_text ''Choose an existing chat or create a new direct/group conversation.''),
     (''openAnotherConversation'', en_text ''Open another conversation from the list.''), (''createDirect'', en_text ''Create direct chat''),
     (''createGroup'', en_text ''Create group''), (''peerAccountId'', en_text ''Peer account ID''),
     (''groupTitle'', en_text ''Group title''), (''groupMembers'', en_text ''Member account IDs (comma separated)''),
     (''createDirectAction'', en_text ''Create direct conversation''), (''createGroupAction'', en_text ''Create group''),
     (''listTitle'', en_text ''Conversation list''), (''noConversations'', en_text ''No conversations yet.''),
     (''openChat'', en_text ''Open chat''), (''members'', en_text ''Members''),
     (''loadingConversations'', en_text ''Loading conversations...''), (''chatTitleFallback'', en_text ''Direct conversation''),
     (''conversationNotFound'', en_text ''Conversation not found.''), (''defaultTtl'', en_text ''default TTL''),
     (''messageLabel'', en_text ''Message''), (''messagePlaceholder'', en_text ''Encrypted message payload...''),
     (''ttlLabel'', en_text ''TTL seconds (optional)''), (''ttlPlaceholder'', en_text ''e.g. 300''),
     (''attachments'', en_text ''Attachments''), (''selected'', en_text ''Selected''), (''send'', en_text ''Send''),
     (''sending'', en_text ''Sending...''), (''retryQueue'', en_text ''Retry pending queue''),
     (''reloadHistory'', en_text ''Reload history''), (''loadingHistory'', en_text ''Loading encrypted history...''),
     (''noMessages'', en_text ''No messages yet.''), (''expired'', en_text ''expired''),
     (''encryptedContent'', en_text ''encrypted content''), (''failure'', en_text ''Failure''), (''download'', en_text ''Download''),
     (''downloading'', en_text ''Downloading...''), (''receipts'', en_text ''Receipts''),
     (''transportHealthTitle'', en_text ''Transport Health''),
     (''transportHealthSubtitle'', en_text ''Primary WebSocket with automatic long-poll fallback and endpoint rotation.''),
     (''pendingQueueTitle'', en_text ''Pending / Failed Queue''),
     (''pendingQueueSubtitle'', en_text ''Outgoing queue is persisted locally and replayed after reconnect or retry.''),
     (''queueEmpty'', en_text ''Queue is empty.''), (''retryAll'', en_text ''Retry all''), (''retrying'', en_text ''Retrying...''),
     (''senderMe'', en_text ''You''), (''senderUnknown'', en_text ''Device''), (''noPreview'', en_text ''No preview available.''),
     (''replyTo'', en_text ''Reply to''), (''reply'', en_text ''Reply''), (''copy'', en_text ''Copy''),
     (''editAsNew'', en_text ''Edit as new''), (''deleteLocal'', en_text ''Hide locally''), (''retry'', en_text ''Retry''),
     (''messageTypeDirect'', en_text ''Direct''), (''messageTypeGroup'', en_text ''Group''),
     (''status'', LocTree [(''draft'', en_text ''Draft''), (''encrypting'', en_text ''Encrypting''), (''queued'', en_text ''Queued''),
        (''sending'', en_text ''Sending''), (''sent'', en_text ''Sent''), (''delivered'', en_text ''Delivered''),
        (''failed'', en_text ''Failed''), (''expired'', en_text ''Expired'')])]"

definition en_groups :: locale_node where
  "en_groups = LocTree [(''membersTitle'', en_text ''Group Members''), (''addMember'', en_text ''Add member''), (''accountId'', en_text ''Account ID''),
     (''role'', en_text ''Role''), (''owner'', en_text ''Owner''), (''admin'', en_text ''Admin''), (''member'', en_text ''Member''),
     (''remove'', en_text ''Remove''), (''noMembers'', en_text ''No members found.''), (''trustedDevices'', en_text ''Trusted devices'')]"

definition en_plugins :: locale_node where
  "en_plugins = LocTree [(''title'', en_text ''Plugins''), (''subtitle'', en_text ''Sandboxed iframe runtime with capability-based bridge.''),
     (''discover'', en_text ''Discover Plugins''), (''refreshing'', en_text ''Refreshing...''),
     (''noPlugins'', en_text ''No plugins discovered.''), (''source'', en_text ''Source''),
     (''requestedPermissions'', en_text ''Requested permissions''), (''panels'', en_text ''Panels''), (''install'', en_text ''Install''),
     (''enable'', en_text ''Enable''), (''disable'', en_text ''Disable''), (''commandsTitle'', en_text ''Plugin Commands''),
     (''noCommands'', en_text ''No plugin commands registered.''), (''runCommand'', en_text ''Run Command''),
     (''noticesTitle'', en_text ''Plugin Notices''), (''noNotices'', en_text ''No plugin notices yet.''),
     (''panelUnavailable'', en_text ''Panel is not available. Make sure plugin is enabled.''),
     (''backToPlugins'', en_text ''Back to Plugins''), (''panelName'', en_text ''Panel''), (''pluginName'', en_text ''Plugin''),
     (''noPanelContent'', en_text ''No panel content yet.'')]"

definition en_friends :: locale_node where
  "en_friends = LocTree [(''title'', en_text ''My Friends''), (''subtitle'', en_text ''Local contact list for quick direct chats and profile notes.''),
     (''myProfile'', en_text ''My profile''), (''profileFallback'', en_text ''Your profile''), (''profileName'', en_text ''Display name''),
     (''profileBio'', en_text ''Bio''), (''profileAvatarColor'', en_text ''Avatar color''), (''addFriend'', en_text ''Add friend''),
     (''accountId'', en_text ''Account ID''), (''nickname'', en_text ''Nickname''), (''note'', en_text ''Note''),
     (''nicknamePlaceholder'', en_text ''How this contact is shown''), (''notePlaceholder'', en_text ''Optional note''),
     (''saveFriend'', en_text ''Save friend''), (''listTitle'', en_text ''Saved friends''), (''empty'', en_text ''No friends yet.''),
     (''startChat'', en_text ''Start chat''), (''remove'', en_text ''Remove'')]"

definition en_securityEvents :: locale_node where
  "en_securityEvents = LocTree [(''title'', en_text ''Security Events''), (''subtitle'', en_text ''Audit trail for trust and account security changes.''),
     (''noEvents'', en_text ''No security events yet.''), (''severity'', en_text ''Severity''), (''trustState'', en_text ''Trust State''),
     (''device'', en_text ''Device''), (''at'', en_text ''At'')]"

definition en_updates :: locale_node where
  "en_updates = LocTree [(''title'', en_text ''Desktop Updates''), (''subtitle'', en_text ''Signed updates from GitHub Releases.''),
     (''bannerTitle'', en_text ''Update available''), (''bannerBody'', en_text ''Version {{version}} is ready to install.''),
     (''openUpdater'', en_text ''Open updater''), (''dismiss'', en_text ''Dismiss''), (''channel'', en_text ''Channel''),
     (''channelHelp'', en_text ''Stable is default. Beta requires beta manifest endpoint in the build config.''),
     (''checkNow'', en_text ''Check updates''), (''checking'', en_text ''Checking...''), (''available'', en_text ''Available version''),
     (''availableVersion'', en_text ''Update found: {{version}}''), (''upToDate'', en_text ''You already have the latest version.''),
     (''downloadAndInstall'', en_text ''Download and install''), (''downloading'', en_text ''Downloading...''),
     (''downloaded'', en_text ''Update downloaded. Restart to apply.''), (''restartToApply'', en_text ''Restart and apply''),
     (''restarting'', en_text ''Restarting...''), (''lastChecked'', en_text ''Last checked''), (''publishedAt'', en_text ''Published''),
     (''unsupported'', en_text ''Updater is available only in desktop Tauri runtime.''),
     (''status'', LocTree [(''idle'', en_text ''Idle''), (''unsupported'', en_text ''Unsupported''), (''checking'', en_text ''Checking''),
        (''up_to_date'', en_text ''Up to date''), (''available'', en_text ''Update available''), (''downloading'', en_text ''Downloading''),
        (''downloaded'', en_text ''Ready to restart''), (''error'', en_text ''Error'')]),
     (''errors'', LocTree [(''network'', en_text ''Could not reach update endpoint. Check your network.''),
        (''signature'', en_text ''Update signature validation failed.''),
        (''tls'', en_text ''TLS verification failed while checking updates.''),
        (''unsupported'', en_text ''Updater is not available in this environment.''), (''none'', en_text ''No update available.''),
        (''unknown'', en_text ''Update check failed.'')])]"

definition en_errors :: locale_node where
  "en_errors = LocTree [(''generic'', en_text ''Something went wrong.''), (''actionHintRetry'', en_text ''You can retry this action.''),
     (''actionHintReconnect'', en_text ''Check network and reconnect.''),
     (''codes'', LocTree [(''transport_unavailable'', en_text ''Transport is temporarily unavailable.''),
        (''endpoint_unreachable'', en_text ''Current endpoint is unreachable. Client will rotate to fallback endpoints.''),
        (''retryable_transport_error'', en_text ''Temporary transport error. Message stayed in queue for retry.''),
        (''local_storage_unavailable'', en_text ''Secure local storage is unavailable. Messaging is paused.''),
        (''message_decrypt_failed'', en_text ''Message could not be decrypted on this device.''),
        (''membership_denied'', en_text ''You do not have access to this conversation.''),
        (''conversation_not_found'', en_text ''Conversation was not found.''),
        (''attachment_upload_failed'', en_text ''Attachment upload failed.''),
        (''attachment_download_failed'', en_text ''Attachment download failed.''),
        (''message_expired'', en_text ''Message expired according to disappearing message policy.''),
        (''plugin_manifest_invalid'', en_text ''Plugin manifest is invalid.''),
        (''plugin_permission_denied'', en_text ''Plugin permission denied by policy.''),
        (''plugin_runtime_init_failed'', en_text ''Plugin runtime failed to initialize.''),
        (''plugin_bridge_violation'', en_text ''Plugin bridge request violated security policy.''),
        (''plugin_load_failed'', en_text ''Plugin could not be loaded.''), (''plugin_disabled'', en_text ''Plugin is currently disabled.''),
        (''plugin_storage_unavailable'', en_text ''Plugin local storage is unavailable.''),
        (''invalid_credentials'', en_text ''Invalid credentials.''), (''two_fa_required'', en_text ''Two-factor verification is required.''),
        (''device_not_approved'', en_text ''This device is not approved yet.''),
        (''forbidden_last_trusted_revoke'', en_text ''Cannot revoke the last trusted device.''),
        (''invalid_recovery_token'', en_text ''Recovery token is invalid or expired.''),
        (''account_already_exists'', en_text ''Account already exists.''),
        (''fingerprint_mismatch'', en_text ''Fingerprint mismatch detected.'')])]"

definition en :: locale_node where
  "en = LocTree [(''common'', en_common), (''nav'', en_nav), (''onboarding'', en_onboarding), (''settings'', en_settings),
     (''serverConnect'', en_serverConnect), (''auth'', en_auth), (''home'', en_home), (''devices'', en_devices),
     (''messaging'', en_messaging), (''groups'', en_groups), (''plugins'', en_plugins), (''friends'', en_friends),
     (''securityEvents'', en_securityEvents), (''updates'', en_updates), (''errors'', en_errors)]"

subsection \<open>Russian\<close>

definition ru_common :: locale_node where
  "ru_common = LocTree [(''appName'', ru_text ''|Secure Messenger''), (''loadingSession'', ru_text ''Zagruzka sessii...''),
     (''loading'', ru_text ''Zagruzka...''), (''refresh'', ru_text ''Obnovit`''), (''retry'', ru_text ''Povtorit`''),
     (''save'', ru_text ''Sohranit`''), (''copied'', ru_text ''Skopirovano''), (''cancel'', ru_text ''Otmena''),
     (''back'', ru_text ''Nazad''), (''yes'', ru_text ''Da''), (''no'', ru_text ''Net''), (''none'', ru_text ''Net''),
     (''status'', ru_text ''Status''), (''noData'', ru_text ''Net dannyh.''), (''mode'', ru_text ''Re^im''),
     (''endpoint'', ru_text ''|Endpoint''), (''source'', ru_text ''Istoqnik''), (''created'', ru_text ''Sozdano''),
     (''retries'', ru_text ''Povtorov''), (''updated'', ru_text ''Obnovleno''), (''syncCursor'', ru_text ''Kursor sinhronizacii'')]"

definition ru_nav :: locale_node where
  "ru_nav = LocTree [(''conversations'', ru_text ''Qaty''), (''outbox'', ru_text ''Oqered`''), (''transport'', ru_text ''Transport''),
     (''home'', ru_text ''Glavna_''), (''devices'', ru_text ''Ustrojstva''), (''friends'', ru_text ''Druz`_''),
     (''securityEvents'', ru_text ''Sobyti_ bezopasnosti''), (''plugins'', ru_text ''Plaginy''), (''settings'', ru_text ''Nastrojki''),
     (''onboarding'', ru_text ''Onbording''), (''login'', ru_text ''Vhod''), (''register'', ru_text ''Registraci_''),
     (''logout'', ru_text ''Vyhod''),
     (''footer'', ru_text ''|Messaging v1: E2EE-|konverty / |fallback-|transport / zaxix$nnoe lokal`noe hranilixe'')]"

definition ru_onboarding :: locale_node where
  "ru_onboarding = LocTree [(''title'', ru_text ''Dobro po^alovat` v |Secure Messenger''),
     (''subtitle'', ru_text ''Pered povsednevnoj rabotoj projdite korotkij qeklist.''),
     (''checklistTitle'', ru_text ''Qeklist pervogo zapuska''),
     (''stepTrust'', ru_text ''Prover`te doverennye ustrojstva i sobyti_ bezopasnosti.''),
     (''stepMessaging'', ru_text ''Sozdajte pervyj qat i otprav`te testovoe soobxenie.''),
     (''stepFallback'', ru_text ''Prover`te sosto_nie |fallback-|transporta na stranice |Transport.''),
     (''stepPlugins'', ru_text ''Prover`te razreweni_ plaginov pered vkl&qeniem.''),
     (''serverConnectTitle'', ru_text ''Podkl&qenie k serveru''),
     (''serverConnectHint'', ru_text ''Pri pervom zapuske vvedite domen ili |IP |servera. Prilo^enie samo zagruzit /|api/v1/config.''),
     (''serverConnectStepInput'', ru_text ''Vvedite |chat.example.com |ili |http://<ip>:8080 |na @krane podkl&qeni_.''),
     (''serverConnectStepResolve'', ru_text ''Klient avtomatiqeski opredelit |API |i |WebSocket endpoint |iz /|api/v1/config.''),
     (''serverConnectStepFallback'', ru_text ''Esli |endpoint |konfiguracii nedostupen, klient primenit bezopasnyj |fallback.''),
     (''twoFATitle'', ru_text ''Nastrojka 2|FA''),
     (''twoFAHint'', ru_text ''Vkl&qite 2|FA |v razdele ustrojstv dl_ quvstvitel`nyh operacij i vosstanovleni_.''),
     (''twoFAStepStart'', ru_text ''Otkrojte |Devices |i na^mite [Naqat` nastrojku 2|FA|].''),
     (''twoFAStepConfirm'', ru_text ''Skanirujte |provisioning URI |v autentifikatore i podtverdite 6-znaqnym kodom.''),
     (''twoFAStepRecovery'', ru_text ''Sohranite |recovery-|kody oflajn. Oni pokazyva&ts_ odin raz v tekuxej sessii.''),
     (''openDevices'', ru_text ''Otkryt` |Devices''), (''openConversations'', ru_text ''Otkryt` |Chats''),
     (''openTransport'', ru_text ''Otkryt` |Transport''), (''openPlugins'', ru_text ''Otkryt` |Plugins''),
     (''complete'', ru_text ''Zaverwit` onbording''), (''alreadyDone'', ru_text ''Onbording zaverw$n.'')]"

definition ru_settings :: locale_node where
  "ru_settings = LocTree [(''title'', ru_text ''Nastrojki''), (''subtitle'', ru_text ''Parametry produkta i bystrye perehody.''),
     (''language'', ru_text ''+zyk''), (''languageHelp'', ru_text ''Predpoqtenie _zyka hranits_ lokal`no (bez quvstvitel`nyh dannyh).''),
     (''networkTitle'', ru_text ''Set`''), (''serverHost'', ru_text ''Server''), (''serverSource'', ru_text ''Istoqnik konfiguracii''),
     (''serverSourceSaved'', ru_text ''Sohran$nnyj profil` servera''), (''serverSourceEnv'', ru_text ''Rezerv iz |env''),
     (''apiBase'', ru_text ''|API-|adres''), (''apiPrefix'', ru_text ''|API-|prefiks''), (''wsBase'', ru_text ''|WebSocket endpoint''),
     (''wsQueryFallback'', ru_text ''|WS query token fallback''), (''transportOverrides'', ru_text ''Dopolnitel`nye |transport endpoints''),
     (''changeServer'', ru_text ''Smenit` server''),
     (''changeServerHelp'', ru_text ''Pri smene servera tekuxa_ sessi_ oqixaets_ i otkryvaets_ @kran podkl&qeni_.''),
     (''linksTitle'', ru_text ''Bystrye perehody''), (''accountDevices'', ru_text ''Akkaunt i ustrojstva''),
     (''pluginManager'', ru_text ''Mened^er plaginov''), (''transportHealth'', ru_text ''Sosto_nie transporta''),
     (''securityAudit'', ru_text ''Sobyti_ bezopasnosti''), (''onboardingReset'', ru_text ''Onbording''),
     (''markIncomplete'', ru_text ''Pokazat` onbording snova''), (''markComplete'', ru_text ''Otmetit` onbording zaverw$nnym'')]"

definition ru_serverConnect :: locale_node where
  "ru_serverConnect = LocTree [(''title'', ru_text ''Podkl&qenie k serveru''),
     (''subtitle'', ru_text ''Vvedite adres servera. Klient avtomatiqeski zagruzit konfiguraci&.''),
     (''serverAddress'', ru_text ''Adres servera''), (''placeholder'', ru_text ''|chat.example.com''),
     (''connect'', ru_text ''Podkl&qit`s_''), (''connecting'', ru_text ''Podkl&qaems_...''),
     (''connectionFailed'', ru_text ''Ne udalos` podkl&qit`s_ k serveru. Prover`te adres ili poprobujte poz^e.''),
     (''invalidInput'', ru_text ''Vvedite korrektnyj adres servera.''),
     (''invalidConfig'', ru_text ''Server vernul nekorrektnu& konfiguraci&.'')]"

definition ru_auth :: locale_node where
  "ru_auth = LocTree [(''signIn'', ru_text ''Vhod''),
     (''signInSubtitle'', ru_text ''Vhod s @togo ustrojstva. Novye ustrojstva osta&ts_ |pending |do podtver^deni_.''),
     (''createAccount'', ru_text ''Sozdat` akkaunt''),
     (''createAccountSubtitle'', ru_text ''Registraci_ |identity |akkaunta i pervogo |trusted-|ustrojstva.''),
     (''twoFactorTitle'', ru_text ''Proverka 2|FA''), (''twoFactorSubtitle'', ru_text ''Vvedite |TOTP-|kod dl_ zaverweni_ vhoda.''),
     (''email'', ru_text ''|Email''), (''password'', ru_text ''Parol`''), (''deviceName'', ru_text ''Im_ ustrojstva''),
     (''code'', ru_text ''Kod''), (''loginAction'', ru_text ''Vojti''), (''loginLoading'', ru_text ''Vhodim...''),
     (''registerAction'', ru_text ''Zaregistrirovat`s_''), (''registerLoading'', ru_text ''Registriruem akkaunt...''),
     (''verifyAction'', ru_text ''Podtverdit`''), (''verifyLoading'', ru_text ''Prover_em...''),
     (''pendingTitle'', ru_text ''O^idanie podtver^deni_ ustrojstva''),
     (''pendingSubtitle'', ru_text ''=to ustrojstvo o^idaet podtver^deni_ |trusted-|ustrojstvom ili |recovery flow.''),
     (''approval'', ru_text ''Podtver^denie''), (''approvalCheck'', ru_text ''Proverit` status''),
     (''recovery'', ru_text ''Vosstanovlenie''), (''startRecovery'', ru_text ''Naqat` |recovery flow''),
     (''completeRecovery'', ru_text ''Zaverwit` vosstanovlenie''), (''recoveryCode'', ru_text ''|Recovery code''),
     (''twoFactorCode'', ru_text ''Kod 2|FA (|esli vkl&q$n)''), (''backToLogin'', ru_text ''Nazad ko vhodu''),
     (''pendingStatusApproved'', ru_text ''Ustrojstvo podtver^deno. Vypolnite vhod snova.''),
     (''pendingStatusRejected'', ru_text ''Zapros na ustrojstvo otklon$n.''),
     (''pendingStatusExpired'', ru_text ''Srok podtver^deni_ ist$k. Vojdite snova, qtoby sozdat` novyj zapros.''),
     (''pendingStatusWaiting'', ru_text ''Podtver^denie vs$ ex$ o^idaets_.''),
     (''recoveryStarted'', ru_text ''|Recovery flow |naqat. Zaverwite ego validnym |recovery code.''),
     (''recoveryNeedsStart'', ru_text ''Snaqala zapustite |recovery flow.''),
     (''recoveryCompleted'', ru_text ''Vosstanovlenie zaverweno. Ustrojstvo stalo |trusted. |Vypolnite vhod snova.'')]"

definition ru_home :: locale_node where
  "ru_home = LocTree [(''title'', ru_text ''|Secure Messaging Control Plane''),
     (''subtitle'', ru_text ''Osnova |identity/device trust |i |runtime |zaxix$nnogo |messaging v1.''),
     (''environment'', ru_text ''Okru^enie''), (''appBootstrap'', ru_text ''Inicializaci_ prilo^eni_''),
     (''sessionMessaging'', ru_text ''Sessi_ / |Messaging''), (''ready'', ru_text ''gotovo''),
     (''bootstrapping'', ru_text ''inicializaci_''), (''notAuthenticated'', ru_text ''Pol`zovatel` ne avtorizovan.''),
     (''account'', ru_text ''Akkaunt''), (''email'', ru_text ''|Email''), (''twoFA'', ru_text ''2|FA''), (''enabled'', ru_text ''vkl&qen''),
     (''disabled'', ru_text ''vykl&qen''), (''conversations'', ru_text ''Qaty''), (''transport'', ru_text ''Transport''),
     (''trustWarnings'', ru_text ''Predupre^deni_ doveri_'')]"

definition ru_devices :: locale_node where
  "ru_devices = LocTree [(''title'', ru_text ''Ustrojstva i doverie''),
     (''subtitle'', ru_text ''Upravlenie |trusted-|ustrojstvami, |pending-|zaprosami i sosto_niem 2|FA.''),
     (''rotateKey'', ru_text ''Rotirovat` kl&q tekuxego ustrojstva''), (''rotateKeyLoading'', ru_text ''Rotaci_ kl&qa...''),
     (''logoutEverywhere'', ru_text ''Vyjti na vseh ustrojstvah''), (''logoutEverywhereLoading'', ru_text ''Otzyvaem sessii...''),
     (''stepUpCode'', ru_text ''|Step-up |kod 2|FA''), (''accountIdentity'', ru_text ''|Identity |akkaunta''),
     (''trustedPending'', ru_text ''|Trusted |i |pending |ustrojstva''), (''pendingApprovals'', ru_text ''|Pending |podtver^deni_''),
     (''twoFactor'', ru_text ''Dvuhfaktorna_ autentifikaci_''), (''recoveryCodes'', ru_text ''Kody vosstanovleni_''),
     (''noRecoveryCodes'', ru_text ''V @toj sessii kody vosstanovleni_ ne zagru^eny.''),
     (''recoveryCodesSessionNote'', ru_text ''Kody pokazyva&ts_ tol`ko posle registracii ili povtornogo vkl&qeni_ 2|FA.''),
     (''currentDevice'', ru_text ''Tekuxee ustrojstvo''), (''revoke'', ru_text ''Otozvat`''), (''approve'', ru_text ''Podtverdit`''),
     (''reject'', ru_text ''Otklonit`''), (''startSetup'', ru_text ''Naqat` nastrojku 2|FA''), (''enable2FA'', ru_text ''Vkl&qit` 2|FA''),
     (''disable2FA'', ru_text ''Otkl&qit` 2|FA''), (''enabledLabel'', ru_text ''Vkl&qeno''), (''accountIdLabel'', ru_text ''|Account ID''),
     (''copyAccountId'', ru_text ''Skopirovat` |Account ID''), (''fingerprint'', ru_text ''|Fingerprint''),
     (''safetyNumber'', ru_text ''|Safety''), (''keyVersion'', ru_text ''Versi_ kl&qa''), (''rotationDue'', ru_text ''Rotaci_ do''),
     (''keyRotationRecommended'', ru_text ''Rekomenduets_ rotaci_ kl&qa.''), (''requestId'', ru_text ''Zapros''),
     (''deviceLabel'', ru_text ''Ustrojstvo''), (''optionalTwoFAPlaceholder'', ru_text ''neob_zatel`no, esli 2|FA |vkl&qena''),
     (''secret'', ru_text ''Sekret''), (''provisioningUri'', ru_text ''|Provisioning URI''),
     (''recoveryHint'', ru_text ''Sohranite @ti kody oflajn. Oni nu^ny dl_ vosstanovleni_ ustrojstva.'')]"

definition ru_messaging :: locale_node where
  "ru_messaging = LocTree [(''conversationsTitle'', ru_text ''Qaty''),
     (''conversationsSubtitle'', ru_text ''Stabil`nyj |runtime |s |lifecycle, durable outbox |i |fallback WS -> long-poll.''),
     (''newChat'', ru_text ''Novyj qat''), (''newDirect'', ru_text ''Liqnyj''), (''newGroup'', ru_text ''Gruppa''),
     (''searchChats'', ru_text ''Poisk qatov''), (''searchPlaceholder'', ru_text ''Nazvanie ili tekst soobxeni_''),
     (''startConversationTitle'', ru_text ''Vyberite qat''),
     (''startConversationSubtitle'', ru_text ''Otkrojte suxestvu&xij dialog ili sozdajte novyj |direct/group |qat.''),
     (''openAnotherConversation'', ru_text ''Otkrojte drugoj qat iz spiska.''), (''createDirect'', ru_text ''Sozdat` liqnyj qat''),
     (''createGroup'', ru_text ''Sozdat` gruppu''), (''peerAccountId'', ru_text ''|Account ID |sobesednika''),
     (''groupTitle'', ru_text ''Nazvanie gruppy''), (''groupMembers'', ru_text ''|Account ID |uqastnikov (qerez zap_tu&)''),
     (''createDirectAction'', ru_text ''Sozdat` liqnyj qat''), (''createGroupAction'', ru_text ''Sozdat` gruppu''),
     (''listTitle'', ru_text ''Spisok qatov''), (''noConversations'', ru_text ''Qatov poka net.''), (''openChat'', ru_text ''Otkryt` qat''),
     (''members'', ru_text ''Uqastniki''), (''loadingConversations'', ru_text ''Zagru^aem qaty...''),
     (''chatTitleFallback'', ru_text ''Liqnyj qat''), (''conversationNotFound'', ru_text ''Qat ne najden.''),
     (''defaultTtl'', ru_text ''|TTL |po umolqani&''), (''messageLabel'', ru_text ''Soobxenie''),
     (''messagePlaceholder'', ru_text ''Napiwite soobxenie...''), (''ttlLabel'', ru_text ''|TTL |v sekundah (opcional`no)''),
     (''ttlPlaceholder'', ru_text ''naprimer 300''), (''attachments'', ru_text ''Vlo^eni_''), (''selected'', ru_text ''Vybrano''),
     (''send'', ru_text ''Otpravit`''), (''sending'', ru_text ''Otpravl_em...''), (''retryQueue'', ru_text ''Povtorit` otpravku oqeredi''),
     (''reloadHistory'', ru_text ''Perezagruzit` istori&''), (''loadingHistory'', ru_text ''Zagruzka zawifrovannoj istorii...''),
     (''noMessages'', ru_text ''Soobxenij poka net.''), (''expired'', ru_text ''isteklo''),
     (''encryptedContent'', ru_text ''zawifrovannyj kontent''), (''failure'', ru_text ''Owibka''), (''download'', ru_text ''Skaqat`''),
     (''downloading'', ru_text ''Skaqivaem...''), (''receipts'', ru_text ''Kvitancii''),
     (''transportHealthTitle'', ru_text ''Sosto_nie transporta''),
     (''transportHealthSubtitle'', ru_text ''Osnovnoj |WebSocket |s avtomatiqeskim |long-poll fallback |i rotaciej |endpoint.''),
     (''pendingQueueTitle'', ru_text ''Oqered` |pending / failed''),
     (''pendingQueueSubtitle'', ru_text ''Ishod_xa_ oqered` hranits_ lokal`no i pereigryvaets_ posle |reconnect/retry.''),
     (''queueEmpty'', ru_text ''Oqered` pusta.''), (''retryAll'', ru_text ''Povtorit` vse''), (''retrying'', ru_text ''Povtor_em...''),
     (''senderMe'', ru_text ''Vy''), (''senderUnknown'', ru_text ''Ustrojstvo''), (''noPreview'', ru_text ''Net kontenta dl_ otobra^eni_.''),
     (''replyTo'', ru_text ''Otvet na''), (''reply'', ru_text ''Otvetit`''), (''copy'', ru_text ''Kopirovat`''),
     (''editAsNew'', ru_text ''Redaktirovat` kak novoe''), (''deleteLocal'', ru_text ''Skryt` lokal`no''),
     (''retry'', ru_text ''Povtorit`''), (''messageTypeDirect'', ru_text ''Liqnyj qat''), (''messageTypeGroup'', ru_text ''Gruppa''),
     (''status'', LocTree [(''draft'', ru_text ''Qernovik''), (''encrypting'', ru_text ''Wifrovanie''), (''queued'', ru_text ''V oqeredi''),
        (''sending'', ru_text ''Otpravka''), (''sent'', ru_text ''Otpravleno''), (''delivered'', ru_text ''Dostavleno''),
        (''failed'', ru_text ''Owibka''), (''expired'', ru_text ''Isteklo'')])]"

definition ru_groups :: locale_node where
  "ru_groups = LocTree [(''membersTitle'', ru_text ''Uqastniki gruppy''), (''addMember'', ru_text ''Dobavit` uqastnika''),
     (''accountId'', ru_text ''|Account ID''), (''role'', ru_text ''Rol`''), (''owner'', ru_text ''Vladelec''),
     (''admin'', ru_text ''Admin''), (''member'', ru_text ''Uqastnik''), (''remove'', ru_text ''Udalit`''),
     (''noMembers'', ru_text ''Uqastniki ne najdeny.''), (''trustedDevices'', ru_text ''|Trusted devices'')]"

definition ru_plugins :: locale_node where
  "ru_plugins = LocTree [(''title'', ru_text ''Plaginy''), (''subtitle'', ru_text ''|Sandbox iframe runtime |s |capability-based bridge.''),
     (''discover'', ru_text ''Najti plaginy''), (''refreshing'', ru_text ''Obnovl_em...''), (''noPlugins'', ru_text ''Plaginy ne najdeny.''),
     (''source'', ru_text ''Istoqnik''), (''requestedPermissions'', ru_text ''Zaprowennye razreweni_''), (''panels'', ru_text ''Paneli''),
     (''install'', ru_text ''Ustanovit`''), (''enable'', ru_text ''Vkl&qit`''), (''disable'', ru_text ''Otkl&qit`''),
     (''commandsTitle'', ru_text ''Komandy plaginov''), (''noCommands'', ru_text ''Komandy plaginov ne zaregistrirovany.''),
     (''runCommand'', ru_text ''Vypolnit` komandu''), (''noticesTitle'', ru_text ''Uvedomleni_ plaginov''),
     (''noNotices'', ru_text ''Poka net uvedomlenij ot plaginov.''),
     (''panelUnavailable'', ru_text ''Panel` nedostupna. Ubedites`, qto plagin vkl&q$n.''),
     (''backToPlugins'', ru_text ''Nazad k plaginam''), (''panelName'', ru_text ''Panel`''), (''pluginName'', ru_text ''Plagin''),
     (''noPanelContent'', ru_text ''Poka net kontenta paneli.'')]"

definition ru_friends :: locale_node where
  "ru_friends = LocTree [(''title'', ru_text ''Moi druz`_''), (''subtitle'', ru_text ''Lokal`nyj spisok kontaktov dl_ bystrogo starta liqnyh qatov.''),
     (''myProfile'', ru_text ''Moj profil`''), (''profileFallback'', ru_text ''Vaw profil`''),
     (''profileName'', ru_text ''Otobra^aemoe im_''), (''profileBio'', ru_text ''O sebe''),
     (''profileAvatarColor'', ru_text ''Cvet avatara''), (''addFriend'', ru_text ''Dobavit` druga''),
     (''accountId'', ru_text ''|Account ID''), (''nickname'', ru_text ''Psevdonim''), (''note'', ru_text ''Zametka''),
     (''nicknamePlaceholder'', ru_text ''Kak pokazyvat` kontakt''), (''notePlaceholder'', ru_text ''Neob_zatel`na_ zametka''),
     (''saveFriend'', ru_text ''Sohranit`''), (''listTitle'', ru_text ''Sohran$nnye druz`_''), (''empty'', ru_text ''Druzej poka net.''),
     (''startChat'', ru_text ''Naqat` qat''), (''remove'', ru_text ''Udalit`'')]"

definition ru_securityEvents :: locale_node where
  "ru_securityEvents = LocTree [(''title'', ru_text ''Sobyti_ bezopasnosti''), (''subtitle'', ru_text ''%urnal izmenenij doveri_ i bezopasnosti akkaunta.''),
     (''noEvents'', ru_text ''Sobytij bezopasnosti poka net.''), (''severity'', ru_text ''Uroven`''),
     (''trustState'', ru_text ''Sosto_nie doveri_''), (''device'', ru_text ''Ustrojstvo''), (''at'', ru_text ''Vrem_'')]"

definition ru_updates :: locale_node where
  "ru_updates = LocTree [(''title'', ru_text ''Obnovleni_ klienta''), (''subtitle'', ru_text ''Podpisannye obnovleni_ iz |GitHub Releases.''),
     (''bannerTitle'', ru_text ''Dostupno obnovlenie''), (''bannerBody'', ru_text ''Versi_ {{|version}} |gotova k ustanovke.''),
     (''openUpdater'', ru_text ''Otkryt` obnovleni_''), (''dismiss'', ru_text ''Skryt`''), (''channel'', ru_text ''Kanal''),
     (''channelHelp'', ru_text ''|Stable |ispol`zuets_ po umolqani&. Dl_ |beta |nu^en otdel`nyj |endpoint |v |build-|konfige.''),
     (''checkNow'', ru_text ''Proverit` obnovleni_''), (''checking'', ru_text ''Prover_em...''),
     (''available'', ru_text ''Dostupna_ versi_''), (''availableVersion'', ru_text ''Najdeno obnovlenie: {{|version}}''),
     (''upToDate'', ru_text ''U vas ustanovlena posledn__ versi_.''), (''downloadAndInstall'', ru_text ''Skaqat` i ustanovit`''),
     (''downloading'', ru_text ''Zagruzka...''), (''downloaded'', ru_text ''Obnovlenie zagru^eno. Perezapustite prilo^enie.''),
     (''restartToApply'', ru_text ''Perezapustit` i primenit`''), (''restarting'', ru_text ''Perezapuskaem...''),
     (''lastChecked'', ru_text ''Posledn__ proverka''), (''publishedAt'', ru_text ''Opublikovano''),
     (''unsupported'', ru_text ''|Updater |dostupen tol`ko v |desktop Tauri runtime.''),
     (''status'', LocTree [(''idle'', ru_text ''O^idanie''), (''unsupported'', ru_text ''Nedostupno''), (''checking'', ru_text ''Proverka''),
        (''up_to_date'', ru_text ''Aktual`na_ versi_''), (''available'', ru_text ''Est` obnovlenie''), (''downloading'', ru_text ''Zagruzka''),
        (''downloaded'', ru_text ''Gotovo k perezapusku''), (''error'', ru_text ''Owibka'')]),
     (''errors'', LocTree [(''network'', ru_text ''Ne udalos` podkl&qit`s_ k |endpoint |obnovlenij. Prover`te set`.''),
        (''signature'', ru_text ''Proverka podpisi obnovleni_ ne projdena.''), (''tls'', ru_text ''Owibka |TLS |pri proverke obnovlenij.''),
        (''unsupported'', ru_text ''|Updater |nedostupen v @toj srede.''), (''none'', ru_text ''Obnovlenij net.''),
        (''unknown'', ru_text ''Ne udalos` proverit` obnovleni_.'')])]"

definition ru_errors :: locale_node where
  "ru_errors = LocTree [(''generic'', ru_text ''Qto-to powlo ne tak.''), (''actionHintRetry'', ru_text ''Poprobujte povtorit` dejstvie.''),
     (''actionHintReconnect'', ru_text ''Prover`te set` i perepodkl&qites`.''),
     (''codes'', LocTree [(''transport_unavailable'', ru_text ''Transport vremenno nedostupen.''),
        (''endpoint_unreachable'', ru_text ''Tekuxij |endpoint |nedostupen. Klient perekl&qits_ na |fallback endpoint.''),
        (''retryable_transport_error'', ru_text ''Vremenna_ owibka transporta. Soobxenie ostalos` v oqeredi.''),
        (''local_storage_unavailable'', ru_text ''Zaxix$nnoe lokal`noe hranilixe nedostupno. |Messaging |priostanovlen.''),
        (''message_decrypt_failed'', ru_text ''Ne udalos` raswifrovat` soobxenie na @tom ustrojstve.''),
        (''membership_denied'', ru_text ''U vas net dostupa k @tomu qatu.''), (''conversation_not_found'', ru_text ''Qat ne najden.''),
        (''attachment_upload_failed'', ru_text ''Ne udalos` zagruzit` vlo^enie.''),
        (''attachment_download_failed'', ru_text ''Ne udalos` skaqat` vlo^enie.''),
        (''message_expired'', ru_text ''Soobxenie isteklo po politike |disappearing messages.''),
        (''plugin_manifest_invalid'', ru_text ''Nekorrektnyj |manifest |plagina.''),
        (''plugin_permission_denied'', ru_text ''Razrewenie plagina otkloneno politikoj.''),
        (''plugin_runtime_init_failed'', ru_text ''Ne udalos` inicializirovat` |runtime |plagina.''),
        (''plugin_bridge_violation'', ru_text ''|Bridge-|zapros plagina naruwil |security policy.''),
        (''plugin_load_failed'', ru_text ''Ne udalos` zagruzit` plagin.''), (''plugin_disabled'', ru_text ''Plagin sejqas otkl&q$n.''),
        (''plugin_storage_unavailable'', ru_text ''Lokal`noe hranilixe plagina nedostupno.''),
        (''invalid_credentials'', ru_text ''Nevernye uqetnye dannye.''), (''two_fa_required'', ru_text ''Trebuets_ dvuhfaktorna_ proverka.''),
        (''device_not_approved'', ru_text ''Ustrojstvo ex$ ne podtver^deno.''),
        (''forbidden_last_trusted_revoke'', ru_text ''Nel`z_ otozvat` poslednee |trusted-|ustrojstvo.''),
        (''invalid_recovery_token'', ru_text ''|Recovery token |nedejstvitelen ili ist$k.''),
        (''account_already_exists'', ru_text ''Akkaunt u^e suxestvuet.''),
        (''fingerprint_mismatch'', ru_text ''Obnaru^eno nesootvetstvie |fingerprint.'')])]"

definition ruRaw :: locale_node where
  "ruRaw = LocTree [(''common'', ru_common), (''nav'', ru_nav), (''onboarding'', ru_onboarding), (''settings'', ru_settings),
     (''serverConnect'', ru_serverConnect), (''auth'', ru_auth), (''home'', ru_home), (''devices'', ru_devices),
     (''messaging'', ru_messaging), (''groups'', ru_groups), (''plugins'', ru_plugins), (''friends'', ru_friends),
     (''securityEvents'', ru_securityEvents), (''updates'', ru_updates), (''errors'', ru_errors)]"

subsection \<open>The resources\<close>

text \<open>What i18next is given for each language.\<close>

definition resource :: "app_language \<Rightarrow> locale_node" where
  "resource l = (case l of LangRu \<Rightarrow> mergeLocaleNode (Some ruRaw) en | LangEn \<Rightarrow> en)"

text \<open>The text under a key: the parts between its dots are the path.\<close>

definition text_at :: "locale_node \<Rightarrow> string \<Rightarrow> text16 option" where
  "text_at r key = (case node_at (Some r) (split_on (CHR ''.'') key) of Some (LocText x) \<Rightarrow> Some x | _ \<Rightarrow> None)"

subsection \<open>No Russian text looks corrupted\<close>

text \<open>What the test of \<open>isCorruptedLocaleString\<close> asks of a character, decided on the Latin letters that stand for it.\<close>

datatype unit_kind = Capital | Alnum | Plain

definition kind16 :: "16 word \<Rightarrow> unit_kind" where
  "kind16 w = (if w \<in> {0x420, 0x421} then Capital else if alnum16 w then Alnum else Plain)"

definition digits :: string where "digits = ''0123456789''"
definition letters :: string where "letters = ''abcdefghijklmnopqrstuvwxyzABCDEFGHIJKLMNOPQRSTUVWXYZ''"

fun kinds :: "bool \<Rightarrow> string \<Rightarrow> unit_kind list" where
  "kinds latin [] = []"
| "kinds latin (c # s) = (if c = CHR ''|'' then kinds (\<not> latin) s
     else (if latin then if c \<in> set letters \<or> c \<in> set digits then Alnum else Plain
           else if c = CHR ''R'' \<or> c = CHR ''S'' then Capital else if c \<in> set digits then Alnum else Plain) # kinds latin s)"

fun suspicious :: "unit_kind list \<Rightarrow> bool" where
  "suspicious (a # b # c # s) \<longleftrightarrow> (a = Capital \<and> c = Alnum) \<or> suspicious (b # c # s)"
| "suspicious _ \<longleftrightarrow> False"

definition visible :: "char \<Rightarrow> bool" where
  "visible c \<longleftrightarrow> digit6 c \<and> \<not> digit7 c \<and> c \<noteq> CHR ''|''"

definition clean :: "string \<Rightarrow> bool" where
  "clean s \<longleftrightarrow> list_ex visible s \<and> CHR ''?'' \<notin> set s
     \<and> (if CHR ''R'' \<in> set s \<or> CHR ''S'' \<in> set s then \<not> suspicious (kinds False s) else True)"

lemma codes_of_letters:
  "map of_char letters = [0x61 ..< 0x7B] @ [0x41 ..< 0x5B :: nat]" "map of_char digits = [0x30 ..< 0x3A :: nat]"
  by (simp_all add: letters_def digits_def upt_rec [of "numeral _" "numeral _"])

lemma in_codes: "c \<in> set cs \<longleftrightarrow> (of_char c :: nat) \<in> set (map of_char cs)"
  by auto

lemma char_below: "(of_char c :: nat) < 256"
  by (cases c) (simp add: of_char_def split: if_splits)

lemma unat_of_char: "unat (of_char c :: 16 word) = of_char c"
proof -
  have "unat (word_of_nat n :: 16 word) = n" if "n < 256" for n using that by (simp add: unat_of_nat)
  then show ?thesis using char_below of_nat_of_char by metis
qed

lemma alnum_char: "alnum16 (of_char c) \<longleftrightarrow> c \<in> set letters \<or> c \<in> set digits"
proof -
  have u: "unat (of_char c :: 16 word) = of_char c" by (rule unat_of_char)
  show ?thesis unfolding in_codes codes_of_letters alnum16_def word_le_nat_alt u by (simp, arith)
qed

lemma cyrillic_table:
  "list_all (\<lambda>(c, w). kind16 w = (if c = CHR ''R'' \<or> c = CHR ''S'' then Capital else Plain) \<and> \<not> space16 w \<and> w \<noteq> 0xFFFD \<and> w \<noteq> 0x3F
     \<and> c \<notin> set digits) cyrillic_letters"
  "list_all (\<lambda>c. c \<in> set (map fst cyrillic_letters)) letters"
  by code_simp+

lemma table_entry:
  assumes "map_of cyrillic_letters c = Some w"
  shows "kind16 w = (if c = CHR ''R'' \<or> c = CHR ''S'' then Capital else Plain)" "\<not> space16 w" "w \<noteq> 0xFFFD" "w \<noteq> 0x3F" "c \<notin> set digits"
  using cyrillic_table(1) map_of_SomeD [OF assms] by (force simp: list_all_iff)+

lemma table_miss: "map_of cyrillic_letters c = None \<Longrightarrow> c \<notin> set letters"
  using cyrillic_table(2) by (auto simp: list_all_iff map_of_eq_None_iff)

lemma letters_RS: "CHR ''R'' \<in> set letters" "CHR ''S'' \<in> set letters"
  by (simp_all add: letters_def)

lemma char_not_high: "(of_char c :: 16 word) \<noteq> 0x420" "(of_char c :: 16 word) \<noteq> 0x421" "(of_char c :: 16 word) \<noteq> 0xFFFD"
  "(of_char c :: 16 word) = 0x3F \<longleftrightarrow> c = CHR ''?''"
proof -
  note u = unat_of_char [of c]
  have b: "(of_char c :: 16 word) \<noteq> w" if "256 \<le> unat w" for w using char_below [of c] u that by (metis not_less)
  show "(of_char c :: 16 word) \<noteq> 0x420" "(of_char c :: 16 word) \<noteq> 0x421" "(of_char c :: 16 word) \<noteq> 0xFFFD" by (rule b, simp)+
  have "(of_char c :: nat) = of_char (CHR ''?'') \<longleftrightarrow> c = CHR ''?''" by (rule of_char_eq_iff)
  moreover have "(of_char (CHR ''?'') :: nat) = 0x3F" by simp
  moreover have "unat (0x3F :: 16 word) = 0x3F" by simp
  ultimately show "(of_char c :: 16 word) = 0x3F \<longleftrightarrow> c = CHR ''?''" using u word_unat_eq_iff by metis
qed

lemma kind_char: "kind16 (of_char c) = (if c \<in> set letters \<or> c \<in> set digits then Alnum else Plain)"
  by (simp add: kind16_def alnum_char char_not_high)

lemma kind_letter: "kind16 (letter c) = (if c = CHR ''R'' \<or> c = CHR ''S'' then Capital else if c \<in> set digits then Alnum else Plain)"
  using table_entry [of c] table_miss [of c] letters_RS by (auto simp: letter_def kind_char split: option.split)

lemma kinds_cyrillic: "map kind16 (cyrillic latin s) = kinds latin s"
  by (induction latin s rule: cyrillic.induct) (simp_all add: kind_char kind_letter)

lemma suspicious_mojibake: "mojibake s \<Longrightarrow> suspicious (map kind16 s)"
proof (induction s rule: mojibake.induct)
  case (1 a b c s)
  have "kind16 c = Alnum" if "alnum16 c"
  proof -
    have "\<not> alnum16 0x420" "\<not> alnum16 0x421" by (simp_all add: alnum16_def)
    then show ?thesis using that by (auto simp: kind16_def)
  qed
  moreover have "kind16 a = Capital" if "a \<in> {0x420, 0x421}" using that by (simp add: kind16_def)
  ultimately show ?case using 1 by (simp only: list.map suspicious.simps mojibake.simps) blast
qed simp_all

lemma unit_of: "w \<in> set (cyrillic latin s) \<Longrightarrow> \<exists>c \<in> set s. w = of_char c \<or> w = letter c"
  by (induction latin s rule: cyrillic.induct) (auto split: if_splits)

lemma marks: "question_marks s \<Longrightarrow> 0x3F \<in> set s"
  by (induction s rule: question_marks.induct) auto

lemma letter_not: "letter c \<noteq> 0xFFFD" "letter c = 0x3F \<longleftrightarrow> c = CHR ''?''"
proof -
  have "map_of cyrillic_letters (CHR ''?'') = None" by code_simp
  then show "letter c \<noteq> 0xFFFD" "letter c = 0x3F \<longleftrightarrow> c = CHR ''?''"
    using table_entry [of c] by (auto simp: letter_def char_not_high split: option.split)
qed

lemma visible_unit: "visible c \<Longrightarrow> \<not> space16 (of_char c) \<and> \<not> space16 (letter c)"
proof -
  assume c: "visible c"
  have "0x40 \<le> (of_char c :: nat)" "(of_char c :: nat) < 0x80" using c by (cases c; simp add: visible_def of_char_def)+
  then have "\<not> space16 (of_char c)"
    using unat_of_char [of c] by (auto simp: space16_def word_le_nat_alt)
  then show ?thesis using table_entry(2) [of c] by (auto simp: letter_def split: option.split)
qed

lemma visible_text: "c \<in> set s \<Longrightarrow> visible c \<Longrightarrow> \<not> list_all space16 (cyrillic latin s)"
proof (induction latin s rule: cyrillic.induct)
  case (2 latin d s)
  have "\<not> visible (CHR ''|'')" by (simp add: visible_def)
  then show ?case using 2 visible_unit [of c] by auto
qed simp

lemma clean_text: "clean s \<Longrightarrow> \<not> isCorruptedLocaleString (cyrillic False s)"
proof -
  assume c: "clean s"
  have "\<not> list_all space16 (cyrillic False s)" using c visible_text by (auto simp: clean_def list_ex_iff)
  moreover have "0xFFFD \<notin> set (cyrillic False s)" using unit_of letter_not(1) char_not_high(3) by metis
  moreover have "\<not> question_marks (cyrillic False s)"
    using c unit_of letter_not(2) char_not_high(4) marks by (metis clean_def)
  moreover have "\<not> mojibake (cyrillic False s)"
  proof
    assume "mojibake (cyrillic False s)"
    then have k: "suspicious (kinds False s)" using suspicious_mojibake kinds_cyrillic by metis
    have "Capital \<in> set (kinds latin s) \<Longrightarrow> CHR ''R'' \<in> set s \<or> CHR ''S'' \<in> set s" for latin s
      by (induction latin s rule: kinds.induct) (auto split: if_splits)
    moreover have "suspicious ks \<Longrightarrow> Capital \<in> set ks" for ks by (induction ks rule: suspicious.induct) auto
    ultimately have "CHR ''R'' \<in> set s \<or> CHR ''S'' \<in> set s" using k by blast
    then show False using k c by (simp add: clean_def)
  qed
  ultimately show ?thesis by (simp add: isCorruptedLocaleString_def)
qed

text \<open>A translation has the keys of the English locale, in its order, and texts that are not corrupted.\<close>

fun translates :: "locale_node \<Rightarrow> locale_node \<Rightarrow> bool" where
  "translates (LocText c) (LocText d) \<longleftrightarrow> \<not> isCorruptedLocaleString c"
| "translates (LocTree fs) (LocTree gs) \<longleftrightarrow> distinct (map fst fs) \<and> list_all2 (\<lambda>p q. fst p = fst q \<and> translates (snd p) (snd q)) fs gs"
| "translates _ _ \<longleftrightarrow> False"

lemma translates_text: "clean s \<Longrightarrow> translates (ru_text s) (en_text t)"
  by (simp add: ru_text_def en_text_def clean_text)

lemma merge_fields:
  assumes "list_all2 (\<lambda>p q. fst p = fst q \<and> mergeLocaleNode (Some (snd p)) (snd q) = snd p) fs gs"
    and "\<And>p. p \<in> set fs \<Longrightarrow> map_of F (fst p) = Some (snd p)"
  shows "map (\<lambda>(k, v). (k, mergeLocaleNode (map_of F k) v)) gs = fs"
  using assms
proof (induction rule: list_all2_induct)
  case (Cons p ps q qs)
  have "map_of F (fst p) = Some (snd p)" using Cons.prems by simp
  then have "(\<lambda>(k, v). (k, mergeLocaleNode (map_of F k) v)) q = p" using Cons.hyps(1) by (simp only: split_def prod_eq_iff fst_conv snd_conv)
  moreover have "map (\<lambda>(k, v). (k, mergeLocaleNode (map_of F k) v)) qs = ps" using Cons by simp
  ultimately show ?case by simp
qed simp

lemma merge_translation: "translates n d \<Longrightarrow> mergeLocaleNode (Some n) d = n"
proof (induction n d rule: translates.induct)
  case (2 fs gs)
  have "list_all2 (\<lambda>p q. fst p = fst q \<and> mergeLocaleNode (Some (snd p)) (snd q) = snd p) fs gs"
    using 2 by (auto elim!: list.rel_mono_strong)
  then have "map (\<lambda>(k, v). (k, mergeLocaleNode (map_of fs k) v)) gs = fs"
    by (rule merge_fields) (use 2(2) in \<open>auto simp: map_of_is_SomeI\<close>)
  then show ?case by (simp add: candidate_fields_def)
qed simp_all

text \<open>Section by section.\<close>

lemmas text_check = translates_text clean_def visible_def letters_def digits_def

lemma common_translated: "translates ru_common en_common"
  by (simp add: ru_common_def en_common_def text_check)

lemma nav_translated: "translates ru_nav en_nav"
  by (simp add: ru_nav_def en_nav_def text_check)

lemma onboarding_translated: "translates ru_onboarding en_onboarding"
  by (simp add: ru_onboarding_def en_onboarding_def text_check)

lemma settings_translated: "translates ru_settings en_settings"
  by (simp add: ru_settings_def en_settings_def text_check)

lemma serverConnect_translated: "translates ru_serverConnect en_serverConnect"
  by (simp add: ru_serverConnect_def en_serverConnect_def text_check)

lemma auth_translated: "translates ru_auth en_auth"
  by (simp add: ru_auth_def en_auth_def text_check)

lemma home_translated: "translates ru_home en_home"
  by (simp add: ru_home_def en_home_def text_check)

lemma devices_translated: "translates ru_devices en_devices"
  by (simp add: ru_devices_def en_devices_def text_check)

lemma messaging_translated: "translates ru_messaging en_messaging"
  by (simp add: ru_messaging_def en_messaging_def text_check)

lemma groups_translated: "translates ru_groups en_groups"
  by (simp add: ru_groups_def en_groups_def text_check)

lemma plugins_translated: "translates ru_plugins en_plugins"
  by (simp add: ru_plugins_def en_plugins_def text_check)

lemma friends_translated: "translates ru_friends en_friends"
  by (simp add: ru_friends_def en_friends_def text_check)

lemma securityEvents_translated: "translates ru_securityEvents en_securityEvents"
  by (simp add: ru_securityEvents_def en_securityEvents_def text_check)

lemma updates_translated: "translates ru_updates en_updates"
  by (simp add: ru_updates_def en_updates_def text_check)

lemma errors_translated: "translates ru_errors en_errors"
  by (simp add: ru_errors_def en_errors_def text_check)

lemma russian_translated: "translates ruRaw en"
  by (simp add: ruRaw_def en_def common_translated nav_translated onboarding_translated settings_translated serverConnect_translated
    auth_translated home_translated devices_translated messaging_translated groups_translated plugins_translated friends_translated
    securityEvents_translated updates_translated errors_translated)

lemma resource_texts: "resource LangRu = ruRaw" "resource LangEn = en"
  by (simp_all add: resource_def merge_translation russian_translated)

text \<open>What a translation has at a path is a translation of what the English locale has there.\<close>

lemma translated_fields:
  assumes "list_all2 (\<lambda>p q. fst p = fst q \<and> translates (snd p) (snd q)) fs gs"
  shows "rel_option translates (map_of fs k) (map_of gs k)"
  using assms by (induction rule: list_all2_induct) auto

lemma translated_at: "rel_option translates n d \<Longrightarrow> rel_option translates (node_at n p) (node_at d p)"
proof (induction p arbitrary: n d)
  case (Cons k p)
  have "rel_option translates (map_of (candidate_fields n) k) (map_of (candidate_fields d) k)"
  proof (cases n)
    case (Some a)
    then obtain b where b: "d = Some b" "translates a b" using Cons.prems by (auto simp: option_rel_Some1)
    then show ?thesis
      by (cases a; cases b) (auto simp: Some candidate_fields_def intro: translated_fields)
  qed (use Cons.prems in \<open>simp add: candidate_fields_def\<close>)
  then show ?case using Cons.IH by simp
qed simp

text \<open>A user who reads Russian reads the Russian locale: the merge with the English one, meant to repair it, changes nothing; every
  key that has a text in one language has one in the other, and no Russian text is empty or looks like a broken encoding.\<close>

theorem russian_locale_is_complete:
  "resource LangRu = ruRaw \<and> (text_at (resource LangRu) key = None \<longleftrightarrow> text_at (resource LangEn) key = None)
   \<and> pred_option (\<lambda>x. x \<noteq> [] \<and> \<not> isCorruptedLocaleString x) (text_at (resource LangRu) key)"
proof -
  have "rel_option translates (node_at (Some ruRaw) p) (node_at (Some en) p)" for p
    by (rule translated_at) (simp add: russian_translated)
  moreover have "rel_option translates n d \<Longrightarrow>
      ((case n of Some (LocText x) \<Rightarrow> Some x | _ \<Rightarrow> None) = None \<longleftrightarrow> (case d of Some (LocText x) \<Rightarrow> Some x | _ \<Rightarrow> None) = None)
      \<and> pred_option (\<lambda>x. x \<noteq> [] \<and> \<not> isCorruptedLocaleString x) (case n of Some (LocText x) \<Rightarrow> Some x | _ \<Rightarrow> None)" for n d
    by (cases n; cases d) (auto simp: isCorruptedLocaleString_def split: locale_node.split)
  ultimately show ?thesis unfolding resource_texts text_at_def by blast
qed

end
