(* ===== verification/Locale_Keys.thy ===== *)
theory Locale_Keys
  imports Wire_Format Locale_Texts
begin

text \<open>
  Keys the client builds while it runs. Most keys of the locales stand in the source as literals; four are put together from a state,
  \<open>statusLabel\<close> of \<open>ConversationPage\<close>, \<open>updaterStatusLabel\<close> and the error of \<open>SettingsPage\<close>, and the code of an error of the relay in
  \<open>apiClient.ts\<close>. This theory shows that each of them has a text in both languages, and that the English locale is one
  as \<open>Wire_Format\<close> supposes.
\<close>

subsection \<open>The keys\<close>

fun lifecycle_text :: "lifecycle_state \<Rightarrow> string" where
  "lifecycle_text LDraft = ''draft''" | "lifecycle_text LEncrypting = ''encrypting''" | "lifecycle_text LQueued = ''queued''"
| "lifecycle_text LSending = ''sending''" | "lifecycle_text LSent = ''sent''" | "lifecycle_text LDelivered = ''delivered''"
| "lifecycle_text LFailed = ''failed''" | "lifecycle_text LExpired = ''expired''"

fun updater_status_text :: "updater_status \<Rightarrow> string" where
  "updater_status_text UsIdle = ''idle''" | "updater_status_text UsUnsupported = ''unsupported''" | "updater_status_text UsChecking = ''checking''"
| "updater_status_text UsUpToDate = ''up_to_date''" | "updater_status_text UsAvailable = ''available''"
| "updater_status_text UsDownloading = ''downloading''" | "updater_status_text UsDownloaded = ''downloaded''"
| "updater_status_text UsError = ''error''"

text \<open>\<open>t\<close> gives what is found under a key.\<close>

definition statusLabel :: "(string \<Rightarrow> 'a) \<Rightarrow> local_message \<Rightarrow> 'a" where
  "statusLabel t m = t (''messaging.status.'' @ (case lm_lifecycle m of None \<Rightarrow> ''undefined'' | Some l \<Rightarrow> lifecycle_text l))"

definition updaterStatusLabel :: "(string \<Rightarrow> 'a) \<Rightarrow> updater_store \<Rightarrow> 'a" where
  "updaterStatusLabel t u = t (''updates.status.'' @ updater_status_text (us_status u))"

definition updaterErrorText :: "(string \<Rightarrow> 'a) \<Rightarrow> updater_store \<Rightarrow> 'a option" where
  "updaterErrorText t u = (case us_errorMessage u of
      None \<Rightarrow> None
    | Some e \<Rightarrow> if e = [] then None else Some (t (''updates.errors.'' @ e)))"

definition has_text :: "text16 option \<Rightarrow> bool" where
  "has_text x = (case x of None \<Rightarrow> False | Some s \<Rightarrow> s \<noteq> [])"

subsection \<open>Looking them up\<close>

lemma split_on_nonempty: "Server_Connection.split_on c xs \<noteq> []"
  by (cases xs) (auto split: list.split)

lemma split_on_single: "Server_Connection.split_on c xs = [k] \<Longrightarrow> xs = k"
  by (induction xs arbitrary: k) (auto simp: split_on_nonempty split: if_splits list.splits)

lemma split_on_word: "c \<notin> set k \<Longrightarrow> Server_Connection.split_on c k = [k]"
  by (induction k) auto

lemma key_split:
  "Server_Connection.split_on (CHR ''.'') (''messaging.status.'' @ k) = ''messaging'' # ''status'' # Server_Connection.split_on (CHR ''.'') k"
  "Server_Connection.split_on (CHR ''.'') (''updates.status.'' @ k) = ''updates'' # ''status'' # Server_Connection.split_on (CHR ''.'') k"
  "Server_Connection.split_on (CHR ''.'') (''updates.errors.'' @ k) = ''updates'' # ''errors'' # Server_Connection.split_on (CHR ''.'') k"
  "Server_Connection.split_on (CHR ''.'') (''errors.codes.'' @ k) = ''errors'' # ''codes'' # Server_Connection.split_on (CHR ''.'') k"
  by simp_all

text \<open>The four trees of the English locale.\<close>

definition en_at :: "string list \<Rightarrow> (string \<times> locale_node) list" where
  "en_at p = candidate_fields (node_at (Some en) p)"

lemma en_trees:
  "node_at (Some en) (''messaging'' # ''status'' # p) = node_at (Some (LocTree (en_at [''messaging'', ''status'']))) p"
  "node_at (Some en) (''updates'' # ''status'' # p) = node_at (Some (LocTree (en_at [''updates'', ''status'']))) p"
  "node_at (Some en) (''updates'' # ''errors'' # p) = node_at (Some (LocTree (en_at [''updates'', ''errors'']))) p"
  "node_at (Some en) (''errors'' # ''codes'' # p) = node_at (Some (LocTree (en_at [''errors'', ''codes'']))) p"
  by (simp_all add: en_at_def en_def en_messaging_def en_updates_def en_errors_def candidate_fields_def)

lemma en_keys:
  "map fst (en_at [''messaging'', ''status'']) = [''draft'', ''encrypting'', ''queued'', ''sending'', ''sent'', ''delivered'', ''failed'', ''expired'']"
  "map fst (en_at [''updates'', ''status''])
     = [''idle'', ''unsupported'', ''checking'', ''up_to_date'', ''available'', ''downloading'', ''downloaded'', ''error'']"
  "map fst (en_at [''updates'', ''errors'']) = update_error_keys"
  "map fst (en_at [''errors'', ''codes'']) = error_code_texts"
  by (simp_all add: en_at_def en_def en_messaging_def en_updates_def en_errors_def candidate_fields_def update_error_keys_def error_code_texts_def)

definition is_text :: "locale_node \<Rightarrow> bool" where
  "is_text n = (case n of LocText s \<Rightarrow> s \<noteq> [] | LocTree _ \<Rightarrow> False)"

lemma en_leaves:
  "list_all (is_text \<circ> snd) (en_at [''messaging'', ''status''])" "list_all (is_text \<circ> snd) (en_at [''updates'', ''status''])"
  "list_all (is_text \<circ> snd) (en_at [''updates'', ''errors''])" "list_all (is_text \<circ> snd) (en_at [''errors'', ''codes''])"
  by (simp_all add: en_at_def en_def en_messaging_def en_updates_def en_errors_def candidate_fields_def is_text_def en_text_def)

lemma leaf_text:
  assumes "list_all (is_text \<circ> snd) fs" "k \<in> set (map fst fs)"
  shows "\<exists>s. map_of fs k = Some (LocText s) \<and> s \<noteq> []"
proof -
  obtain n where n: "map_of fs k = Some n" using assms(2) by (metis map_of_eq_None_iff not_None_eq list.set_map)
  then have "is_text n" using assms(1) map_of_SomeD [OF n] by (force simp: list_all_iff)
  then show ?thesis using n by (auto simp: is_text_def split: locale_node.splits)
qed

lemma keys_have_no_dots: "list_all (\<lambda>k. CHR ''.'' \<notin> set k) (map fst (en_at [''messaging'', ''status'']) @ map fst (en_at [''updates'', ''status''])
    @ map fst (en_at [''updates'', ''errors'']) @ map fst (en_at [''errors'', ''codes'']))"
  unfolding en_keys by (simp add: update_error_keys_def error_code_texts_def)

lemma english_text:
  assumes "fs \<in> {en_at [''messaging'', ''status''], en_at [''updates'', ''status''], en_at [''updates'', ''errors''], en_at [''errors'', ''codes'']}"
    and "k \<in> set (map fst fs)"
  shows "\<exists>s. node_at (Some (LocTree fs)) (Server_Connection.split_on (CHR ''.'') k) = Some (LocText s) \<and> s \<noteq> []"
proof -
  have "CHR ''.'' \<notin> set k" using assms keys_have_no_dots by (auto simp: list_all_iff)
  moreover have "\<exists>s. map_of fs k = Some (LocText s) \<and> s \<noteq> []"
    using assms(1) en_leaves by (intro leaf_text [OF _ assms(2)]) auto
  ultimately show ?thesis by (simp add: split_on_word candidate_fields_def)
qed

text \<open>A text in English is a text in Russian.\<close>

lemma text_in_both:
  assumes "text_at en key = Some s" "s \<noteq> []"
  shows "has_text (text_at (resource lang) key)"
proof (cases lang)
  case LangEn
  then show ?thesis using assms by (simp add: has_text_def resource_texts)
next
  case LangRu
  have "rel_option translates (node_at (Some ruRaw) p) (node_at (Some en) p)" for p
    by (rule translated_at) (simp add: russian_translated)
  from this [of "Server_Connection.split_on (CHR ''.'') key"] obtain n where
    n: "node_at (Some ruRaw) (Server_Connection.split_on (CHR ''.'') key) = Some n" "translates n (LocText s)"
    using assms(1) by (auto simp: text_at_def option_rel_Some2 split: option.splits locale_node.splits)
  then obtain x where x: "n = LocText x" "\<not> isCorruptedLocaleString x" by (cases n) simp_all
  then have "x \<noteq> []" by (cases x) (simp_all add: isCorruptedLocaleString_def)
  then show ?thesis using n x LangRu by (simp add: has_text_def resource_texts text_at_def)
qed

lemma built_key_text:
  "k \<in> set (map fst (en_at [''messaging'', ''status''])) \<Longrightarrow> has_text (text_at (resource lang) (''messaging.status.'' @ k))"
  "k \<in> set (map fst (en_at [''updates'', ''status''])) \<Longrightarrow> has_text (text_at (resource lang) (''updates.status.'' @ k))"
  "k \<in> set (map fst (en_at [''updates'', ''errors''])) \<Longrightarrow> has_text (text_at (resource lang) (''updates.errors.'' @ k))"
  "k \<in> set (map fst (en_at [''errors'', ''codes''])) \<Longrightarrow> has_text (text_at (resource lang) (''errors.codes.'' @ k))"
proof -
  have both: "has_text (text_at (resource lang) key)"
    if "\<exists>s. node_at (Some en) (Server_Connection.split_on (CHR ''.'') key) = Some (LocText s) \<and> s \<noteq> []" for key
    using that text_in_both [of key] by (auto simp: text_at_def)
  show "k \<in> set (map fst (en_at [''messaging'', ''status''])) \<Longrightarrow> has_text (text_at (resource lang) (''messaging.status.'' @ k))"
    by (rule both) (unfold key_split en_trees, rule english_text, simp_all)
  show "k \<in> set (map fst (en_at [''updates'', ''status''])) \<Longrightarrow> has_text (text_at (resource lang) (''updates.status.'' @ k))"
    by (rule both) (unfold key_split en_trees, rule english_text, simp_all)
  show "k \<in> set (map fst (en_at [''updates'', ''errors''])) \<Longrightarrow> has_text (text_at (resource lang) (''updates.errors.'' @ k))"
    by (rule both) (unfold key_split en_trees, rule english_text, simp_all)
  show "k \<in> set (map fst (en_at [''errors'', ''codes''])) \<Longrightarrow> has_text (text_at (resource lang) (''errors.codes.'' @ k))"
    by (rule both) (unfold key_split en_trees, rule english_text, simp_all)
qed

text \<open>C34. No state shows a bare key. In either language there is a text for the label of every message in every reachable state of the
  store, for the status and the error of the updater in every run of it, and for every code of the relay that the
  client has texts for.\<close>

theorem built_keys_have_texts:
  assumes "store_reachable s" "st_messagesByConversation s conversationId = Some messages" "updater_step\<^sup>*\<^sup>* fresh_updater u"
  shows "list_all (\<lambda>m. has_text (statusLabel (text_at (resource lang)) m)) messages
    \<and> has_text (updaterStatusLabel (text_at (resource lang)) (ud_store u))
    \<and> pred_option has_text (updaterErrorText (text_at (resource lang)) (ud_store u))
    \<and> list_all (\<lambda>code. has_text (text_at (resource lang) (''errors.codes.'' @ code))) error_code_texts"
proof -
  have "error_known u" by (rule updater_runs [OF step_known _ assms(3)]) (simp_all add: error_known_def fresh_updater_def initial_updater_def)
  then have "pred_option has_text (updaterErrorText (text_at (resource lang)) (ud_store u))"
  proof (cases "us_errorMessage (ud_store u)")
    case (Some e)
    then have "e \<in> set (map fst (en_at [''updates'', ''errors'']))" using \<open>error_known u\<close> by (simp add: error_known_def en_keys)
    then show ?thesis using built_key_text(3) [of e lang] by (simp add: updaterErrorText_def Some)
  qed (simp add: updaterErrorText_def)
  moreover have "list_all (\<lambda>code. has_text (text_at (resource lang) (''errors.codes.'' @ code))) error_code_texts"
    unfolding list_all_iff en_keys(4) [symmetric] by (intro ballI built_key_text(4))
  moreover have "updater_status_text v \<in> set (map fst (en_at [''updates'', ''status'']))" for v by (cases v) (simp_all add: en_keys)
  then have "has_text (updaterStatusLabel (text_at (resource lang)) (ud_store u))"
    unfolding updaterStatusLabel_def by (intro built_key_text(2))
  moreover have "has_text (statusLabel (text_at (resource lang)) m)" if m: "m \<in> set messages" for m
  proof -
    have "conv_ok messages" using store_reachable_ok [OF assms(1)] assms(2) by (simp add: store_ok_def)
    then obtain l where "lm_lifecycle m = Some l" using m by (auto simp: conv_ok_def message_normal_def)
    moreover have "lifecycle_text l \<in> set (map fst (en_at [''messaging'', ''status'']))" by (cases l) (simp_all add: en_keys)
    ultimately show ?thesis using built_key_text(1) by (simp add: statusLabel_def)
  qed
  ultimately show ?thesis by (simp add: list_all_iff)
qed

lemma built_keys_have_texts_witness:
  "has_text (statusLabel (text_at (resource LangRu)) (sample_message ''m1'' ''c1'' 7 None))
   \<and> has_text (updaterStatusLabel (text_at (resource LangRu)) (ud_store (dismissUpdateBanner fresh_updater)))"
proof -
  let ?a = "sample_message ''m1'' ''c1'' 7 None" and ?b = "sample_message ''local-c2'' ''c2'' 0 None"
  let ?s = "dispatch ''t'' (ASetMessages ''conv'' [?a, ?b]) (merge_persisted None initial_store)"
  let ?xs = "dedupeAndSortMessages ''t'' [?a, ?b]"
  have r: "store_reachable ?s" by (intro store_reachable.intros)
  have e: "st_messagesByConversation ?s ''conv'' = Some ?xs" by (simp add: setMessages_def put_messages_def)
  have u: "updater_step\<^sup>*\<^sup>* fresh_updater (dismissUpdateBanner fresh_updater)" by (rule r_into_rtranclp) (rule updater_step.dismiss)
  have "?xs = [?b, ?a]" by code_simp
  then show ?thesis using built_keys_have_texts [OF r e u, of LangRu] by simp
qed

subsection \<open>The English locale\<close>

text \<open>What i18next promises: the text under a key of the current language, and the key itself where there is nothing.\<close>

definition speaks_english :: "(string \<Rightarrow> string) \<Rightarrow> bool" where
  "speaks_english t \<longleftrightarrow> (\<forall>key. case node_at (Some en) (Server_Connection.split_on (CHR ''.'') key) of
      Some (LocText x) \<Rightarrow> map of_char (t key) = x
    | Some (LocTree _) \<Rightarrow> True
    | None \<Rightarrow> t key = key)"

text \<open>A text of \<open>errors.codes\<close> has several words and so differs from its key.\<close>

lemma texts_of_codes:
  "list_all (\<lambda>p. case snd p of LocText s \<Rightarrow> of_char (CHR '' '') \<in> set s | LocTree _ \<Rightarrow> False) (en_at [''errors'', ''codes''])"
  "list_all (\<lambda>k. CHR '' '' \<notin> set k) error_code_texts"
  by (simp_all add: en_at_def en_def en_errors_def candidate_fields_def en_text_def error_code_texts_def)

lemma text_is_not_its_key:
  assumes "map_of (en_at [''errors'', ''codes'']) c = Some (LocText s)"
  shows "s \<noteq> map of_char (''errors.codes.'' @ c)"
proof
  let ?k = "''errors.codes.'' @ c"
  assume s: "s = map of_char ?k"
  have "of_char (CHR '' '') \<in> set s" using map_of_SomeD [OF assms] texts_of_codes(1) by (force simp: list_all_iff)
  then have "of_char (CHR '' '') \<in> (of_char :: char \<Rightarrow> 16 word) ` set ?k" by (simp only: s list.set_map)
  then obtain d where d: "(of_char (CHR '' '') :: 16 word) = of_char d" "d \<in> set ?k" by (rule imageE)
  have "(of_char (CHR '' '') :: nat) = of_char d" using arg_cong [OF d(1), of unat] by (simp only: unat_of_char)
  then have "d = CHR '' ''" by (simp only: of_char_eq_iff)
  moreover have "c \<in> set (map fst (en_at [''errors'', ''codes'']))" using map_of_SomeD [OF assms] by force
  then have "c \<in> set error_code_texts" by (simp only: en_keys)
  then have "CHR '' '' \<notin> set c" using texts_of_codes(2) by (simp add: list_all_iff)
  ultimately show False using d(2) by simp
qed

lemma no_other_code:
  assumes "c \<notin> set error_code_texts"
  shows "node_at (Some (LocTree (en_at [''errors'', ''codes'']))) (Server_Connection.split_on (CHR ''.'') c) = None"
proof -
  let ?fs = "en_at [''errors'', ''codes'']"
  obtain k ks where k: "Server_Connection.split_on (CHR ''.'') c = k # ks" using split_on_nonempty by (metis list.exhaust)
  show ?thesis
  proof (cases "k \<in> set error_code_texts")
    case False
    then have "map_of ?fs k = None" using en_keys(4) by (metis map_of_eq_None_iff list.set_map)
    then show ?thesis by (simp add: k candidate_fields_def)
  next
    case True
    then obtain s where "map_of ?fs k = Some (LocText s)" using leaf_text [OF en_leaves(4), of k] en_keys(4) by auto
    moreover have "ks \<noteq> []" using k True assms split_on_single by metis
    ultimately show ?thesis by (cases ks) (simp_all add: k candidate_fields_def)
  qed
qed

text \<open>There is such a \<open>t\<close>: every English text consists of characters.\<close>

fun of_chars :: "locale_node \<Rightarrow> bool" where
  "of_chars (LocText x) \<longleftrightarrow> (\<exists>s. x = map of_char s)"
| "of_chars (LocTree fs) \<longleftrightarrow> list_all (\<lambda>p. of_chars (snd p)) fs"

lemma of_chars_text [simp]: "of_chars (en_text s)"
  by (auto simp: en_text_def)

lemma of_chars_en: "of_chars en"
  by (simp add: en_def en_common_def en_nav_def en_onboarding_def en_settings_def en_serverConnect_def en_auth_def en_home_def
    en_devices_def en_messaging_def en_groups_def en_plugins_def en_friends_def en_securityEvents_def en_updates_def en_errors_def)

lemma of_chars_at: "pred_option of_chars n \<Longrightarrow> pred_option of_chars (node_at n p)"
proof (induction p arbitrary: n)
  case (Cons k p)
  have "pred_option of_chars (map_of (candidate_fields n) k)"
  proof (cases "map_of (candidate_fields n) k")
    case (Some v)
    then show ?thesis using Cons.prems map_of_SomeD [OF Some]
      by (cases n; cases "the n") (auto simp: candidate_fields_def list_all_iff)
  qed simp
  then show ?case using Cons.IH by simp
qed simp

definition english :: "string \<Rightarrow> string" where
  "english key = (case node_at (Some en) (Server_Connection.split_on (CHR ''.'') key) of
      Some (LocText x) \<Rightarrow> map (\<lambda>w. char_of (unat w)) x
    | _ \<Rightarrow> key)"

lemma english_speaks: "speaks_english english"
  unfolding speaks_english_def
proof
  fix key
  let ?n = "node_at (Some en) (Server_Connection.split_on (CHR ''.'') key)"
  have "pred_option of_chars ?n" by (rule of_chars_at) (simp add: of_chars_en)
  then show "case ?n of Some (LocText x) \<Rightarrow> map of_char (english key) = x | Some (LocTree _) \<Rightarrow> True | None \<Rightarrow> english key = key"
    by (auto simp: english_def comp_def unat_of_char split: option.split locale_node.split)
qed

lemma english_is_a_locale:
  assumes "speaks_english t"
  shows "has_locale t"
  unfolding has_locale_def
proof
  fix c
  let ?k = "''errors.codes.'' @ c" and ?fs = "en_at [''errors'', ''codes'']"
  have at: "node_at (Some en) (Server_Connection.split_on (CHR ''.'') ?k) = node_at (Some (LocTree ?fs)) (Server_Connection.split_on (CHR ''.'') c)"
    unfolding key_split en_trees ..
  show "if c \<in> set error_code_texts then t ?k \<noteq> [] \<and> t ?k \<noteq> ?k else t ?k = ?k"
  proof (cases "c \<in> set error_code_texts")
    case True
    then obtain s where s: "map_of ?fs c = Some (LocText s)" "s \<noteq> []" using leaf_text [OF en_leaves(4), of c] en_keys(4) by auto
    moreover have "Server_Connection.split_on (CHR ''.'') c = [c]"
      using True keys_have_no_dots by (intro split_on_word) (auto simp: list_all_iff en_keys)
    ultimately have "map of_char (t ?k) = s" using assms at by (auto simp: speaks_english_def candidate_fields_def dest!: spec [of _ ?k])
    then show ?thesis using s text_is_not_its_key [OF s(1)] True by auto
  next
    case False
    then show ?thesis using assms at no_other_code [OF False] by (auto simp: speaks_english_def dest!: spec [of _ ?k])
  qed
qed

end
