(* ===== verification/Spec2Isabelle.thy ===== *)
theory Spec2Isabelle
  imports Messaging_Loops App Wire_Format Release_Scripts Typed_Store Locale_Keys
begin

text \<open>
  A verification development for the Secure Messenger desktop client: the TypeScript of
  \<open>apps/client-desktop/src\<close> (called \<open>C\<close> below), the data types of \<open>packages/protocol\<close> and
  \<open>packages/shared-types\<close>, and the SQL commands of the Tauri shell the client calls.

  \<^bold>\<open>The program.\<close> The client signs in to a relay server, keeps its device keys in the keyring of the operating
  system, encrypts every message for each trusted device of a conversation, queues it in an encrypted local
  database, flushes that outbox over HTTP, and learns of new messages over a WebSocket or by long polling.
  Plugins run in sandboxed iframes and reach the client only through a bridge of messages with capabilities.

  \<^bold>\<open>Values and effects.\<close> Strings are lists of code units up to 255, numbers at untyped boundaries are
  integers, numbers that may be special are \<open>jsnumber\<close>; records have the fields of the interfaces, datatypes the
  cases of the unions. A store action is a function on a record. An \<open>async\<close> function that may throw is a function
  from a state to an error or a result and the state it leaves (\<open>eff\<close> in \<open>Prelude\<close>), composed with \<open>bnd\<close>, \<open>sq\<close>,
  \<open>catch\<close> and \<open>finally_do\<close> as the source composes \<open>await\<close>, \<open>;\<close>, \<open>try\<close> and \<open>finally\<close>. Failures of native calls are a
  schedule indexed by the number of the call, the answers of the relay one indexed by the number of the
  request, and what other code does during an \<open>await\<close> one indexed by the number of the await: theorems that do not
  mention them hold for all of them. \<open>keeps_pred\<close> is what a computation keeps however it ends; the collection
  \<open>keeps\<close> has a rule per construct, so that an invariant of a method is an instance of \<open>intro keeps\<close>.

  \<^bold>\<open>Theories and the code they model.\<close>
  \<^item> \<open>Prelude\<close>, \<open>Json\<close>, \<open>Json_Parse\<close>, \<open>Js_Number\<close>: strings, ordered maps, the stable sort and the comparators it
    takes (locale \<open>comparator\<close>), lists keyed by an identity (locale \<open>keyed_table\<close>, interpreted on every such list of the
    client), effects; JSON values, \<open>JSON.stringify\<close>, \<open>JSON.parse\<close> and their round trip; \<open>Number\<close> of a text.
  \<^item> \<open>Protocol\<close>: the data transfer objects.
  \<^item> \<open>Messaging_Store\<close> (\<open>C/state/messagingStore.ts\<close>): every action, \<open>dispatch\<close> and the reachable states; ordering and
    identities of messages, upsert as an update of a map, what is persisted.
  \<^item> \<open>Api_Errors\<close> (\<open>C/services/apiClient.ts\<close>, \<open>messaging/errorModel.ts\<close>, \<open>messaging/lifecycle.ts\<close>): thrown values, their
    texts, and exactly which of them are retried.
  \<^item> \<open>Plugin_Manifest\<close>, \<open>Plugin_Store\<close>, \<open>Plugin_Bridge\<close>, \<open>Plugin_Runtime\<close>, \<open>Plugin_Safety\<close> (\<open>C/services/plugins\<close>,
    \<open>C/state/pluginStore.ts\<close>): validation of manifests; the registry; \<open>processBridgeRequest\<close> with all its methods; the
    host with its instances, tokens, discovery, boot, messages and events as one step per entry point; and
    confinement in every reachable state: what a plugin may hold, whose data it reaches, who receives an event.
    An \<open>enable\<close> waits twice for its iframe; its continuations and timeouts are steps of their own.
  \<^item> \<open>Plugin_Sandbox\<close>, \<open>Plugin_Protocol\<close>, \<open>Plugin_Link\<close>, \<open>Bundled_Plugins\<close> (\<open>runtime.ts\<close>, \<open>bundled.ts\<close>): the other end of the
    bridge. \<open>Plugin_Sandbox\<close> has the document of the iframe and its script, the code of plugins as trees of the calls they
    await, and \<open>link\<close>, a host and a script with what each has received of the other. \<open>Plugin_Protocol\<close> shows that both
    speak the same protocol in every run: the locale \<open>host_invariant\<close> has what every step of the host keeps of
    its posts and tokens, and \<open>speaks\<close> is the invariant of the script. \<open>Plugin_Link\<close> has a call and its reply as one
    round trip, from which \<open>Bundled_Plugins\<close> boots a bundled plugin and follows its panel.
  \<^item> \<open>Secure_Storage\<close>, \<open>Crypto\<close>, \<open>Identity\<close> (\<open>C/services/secureStorage.ts\<close>, \<open>messaging/cryptoProvider.ts\<close>,
    \<open>identity.ts\<close>): the keyring and its fallback, encryption with buffers that are wiped, device keys and their rotation.
  \<^item> \<open>Message_Db\<close>, \<open>Local_Store\<close> (\<open>src-tauri/src/main.rs\<close>, \<open>messaging/localEncryptedStore.ts\<close>): the tables and commands,
    polymorphic in the payloads, and the encrypting store, which refines the same commands on clear values.
  \<^item> \<open>Typed_Store\<close> (the records of \<open>packages/protocol\<close> the runtime saves): their JSON, and the proof that the tables of
    records on which \<open>Messaging_Runtime\<close> works are what the encrypting store makes of that JSON.
  \<^item> \<open>Auth\<close>, \<open>Routes\<close> (\<open>C/state/authStore.ts\<close>, \<open>authApi.ts\<close>, \<open>authSession.ts\<close>, \<open>sessionBootstrap.ts\<close>, \<open>C/app/guards.tsx\<close>,
    \<open>router.tsx\<close>): sign-in state, start-up, and the page each location shows.
  \<^item> \<open>Messaging_Api\<close>, \<open>Messaging_Runtime\<close> (\<open>messaging/messagingApi.ts\<close>, \<open>messaging/runtime.ts\<close>,
    \<open>messaging/transportClients.ts\<close>): requests and answers; every method of \<open>MessagingRuntime\<close> and of its socket over one
    state \<open>world\<close>, and \<open>runtime_step\<close>, the calls, socket events, timers and poll rounds that reach it.
  \<^item> \<open>Messaging_Invariants\<close>: the locale \<open>runtime_invariant\<close> says which updates an invariant has to be stable under, and
    proves that every method and event then keeps it; its interpretations give the order of conversations, the
    keys and the cursor of the database, and the silence of a stopped runtime; the locale \<open>settling\<close> follows the rows
    of the outbox.
  \<^item> \<open>Messaging_Delivery\<close>: recipients, reading, the way of a payload from its sender to each reader, the accounting
    of the outbox, hints, reconnecting. \<open>Messaging_Loops\<close>: the loops of flush and synchronisation end.
  \<^item> \<open>Messenger_View\<close> (\<open>C/features/messaging\<close>): what the pages of the messenger show as functions of the store (previews,
    unread counts, rows, badges), and their handlers, from the composer to the resolution of the queue.
  \<^item> \<open>App\<close> (\<open>C/app/init.ts\<close>, \<open>C/app/App.tsx\<close>, \<open>localDiscovery.ts\<close>): start-up, and the effect that starts and stops the
    messaging runtime with the session, over the state of all components.
  \<^item> \<open>Account_Api\<close>, \<open>Account_Pages\<close> (\<open>authApi.ts\<close>, \<open>devicesApi.ts\<close>, \<open>recoveryApi.ts\<close>, \<open>securityEventsApi.ts\<close> and the pages of
    sign-in, pending approval, devices, server and settings): the requests, and the handlers that sign in and out,
    approve and revoke devices, rotate the device key and change the server.
  \<^item> \<open>Server_Connection\<close>, \<open>Updater\<close>, \<open>Client_Services\<close> (\<open>C/lib/config.ts\<close>, \<open>serverConnection.ts\<close>, \<open>updater.ts\<close>,
    \<open>C/state/updaterStore.ts\<close>, \<open>logger.ts\<close>, \<open>i18n.ts\<close>, \<open>appStore.ts\<close>, \<open>socialStore.ts\<close>, \<open>randomId.ts\<close>).
  \<^item> \<open>Client_Pages\<close> (the pages of contacts, group members, security events, plugins, settings, onboarding, and the side bar):
    what they show of the stores and what their buttons do, and how their links pass the guards of \<open>Routes\<close>.
  \<^item> \<open>Wire_Format\<close> (\<open>packages/protocol/src/index.ts\<close>): the interfaces as types of JSON values (\<open>ts_type\<close>, \<open>has_type\<close>); every request
    has the type of its interface and no secret in its URL, typed errors, logins and frames are understood, and the
    bridge answers plugins in its type.
  \<^item> \<open>Locale_Texts\<close>, \<open>Locale_Keys\<close> (\<open>C/i18n/locales/en.ts\<close>, \<open>ru.ts\<close>): all texts of both languages, Russian ones in a transcription
    that \<open>cyrillic\<close> turns into code units; the Russian locale is complete, and the keys that are built at run time have texts.
  \<^item> \<open>Release_Scripts\<close> (\<open>scripts\<close>): the unit checks of plugins, the updater manifest, the release checks and the build of the
    installer, over a state of files.

  \<^bold>\<open>How the parts meet.\<close> \<open>Messaging_Runtime\<close> uses the store's actions, the database commands, the crypto provider,
  the device keys, the error classification and the request builders as they are defined in their theories, so a
  theorem about a run speaks about all of them. Its database holds the values themselves: \<open>Local_Store\<close> and
  \<open>Typed_Store\<close> show that the encrypted one answers alike, on a device whose calls succeed. The plugin host reads the same messaging
  store through its bridge.

  \<^bold>\<open>Parameters.\<close> libsodium is a record of functions; decryption laws are the hypothesis \<open>sodium_ok\<close>, which a toy
  instance satisfies. So are the URL class (\<open>url_ok\<close>), i18next, SHA-256, \<open>Date\<close> parsing and random numbers, the updater
  plugin and the relay. Nothing is assumed of them where a theorem does not say so.

  \<^bold>\<open>Bounds and fuel.\<close> \<open>flush_loop\<close> and \<open>sync_loop\<close> take the number of passes they may make, and set \<open>w_diverged\<close> when it
  was not enough; \<open>Messaging_Loops\<close> proves that one pass more than the number of awaits during which another call may
  still ask for a pass is enough. \<open>JSON_parse\<close> has the length of its text as fuel, which its round trip shows to be
  enough. \<open>follow\<close> needs four redirects. Retry counts, cursors and sequences are integers, below the
  53 bits a double represents exactly.

  \<^bold>\<open>Not modelled.\<close> JSX, styles and the formatting of dates; the clipboard and the saving of a downloaded file; the pages and
  widgets that only print values of the stores (home, transport health, the empty conversation list); the script of the
  smoke test, a session with a live relay; the Go relay; the rest of the Rust shell (windows, tray, paths, discovery of
  plugins on disk). A
  second start of a method of the runtime while an earlier one still runs is not interleaved with it, except for
  the calls that only set a flag, and for \<open>stop\<close>. The iteration of \<open>longPollLoop\<close> is not a loop of the model: each
  round is an event, so any number may happen. The code of a plugin makes one call at a time in each of its entry,
  events and commands; code that starts several at once, or none and works on its own timers, is outside
  \<open>plugin_code\<close>, though not outside the model of the host, which withstands any message.
\<close>

end
